(* ===== verification/Prelude.thy ===== *)
theory Prelude
  imports Main "HOL-Library.Word" "HOL-Library.Multiset"
begin

section \<open>Machine integers, vectors and lookups shared by every component\<close>

text \<open>
  The types and helper functions the engine takes from the Rust language and its standard
  library. Unsigned and signed integers are words of their width; \<open>+\<close>, \<open>-\<close> and \<open>*\<close> on
  them wrap, which is what the release profile does (the debug profile panics instead, so
  theorems that need the exact sum state that it fits). Signed values are read by \<open>sint\<close>.
  A \<open>Vec\<close> is a list; \<open>position\<close>, \<open>insert\<close>, \<open>retain\<close> and \<open>iter_mut().find\<close> are the
  functions below. The collections \<open>undo_simps\<close> and \<open>zone_simps\<close> gather the rewrite rules
  that the component theories add to.
\<close>

named_theorems undo_simps \<open>rewrite rules for undoing one logged action\<close>
named_theorems zone_simps \<open>rewrite rules for zones and their card lists\<close>

type_synonym u8 = "8 word"
type_synonym u16 = "16 word"
type_synonym u32 = "32 word"
type_synonym u64 = "64 word"
type_synonym i8 = "8 word"
type_synonym i32 = "32 word"

type_synonym card_id = u32
type_synonym player_id = u32

subsection \<open>Saturating and checked arithmetic\<close>

definition sat_add :: "'a::len word \<Rightarrow> 'a word \<Rightarrow> 'a word" where
  "sat_add a b = (if unat a + unat b < 2 ^ LENGTH('a) then a + b else - 1)"

definition sat_sub :: "'a::len word \<Rightarrow> 'a word \<Rightarrow> 'a word" where
  "sat_sub a b = (if b \<le> a then a - b else 0)"

definition sat_mul :: "'a::len word \<Rightarrow> 'a word \<Rightarrow> 'a word" where
  "sat_mul a b = (if unat a * unat b < 2 ^ LENGTH('a) then a * b else - 1)"

lemma unat_minus_one_max: "unat (- 1 :: 'a::len word) = 2 ^ LENGTH('a) - 1"
  using mask_eq_exp_minus_1 [of "LENGTH('a)"] by (simp only: unsigned_minus_1_eq_mask)

lemma unat_sat_add: "unat (sat_add a b) = min (unat a + unat b) (2 ^ LENGTH('a) - 1)"
  for a b :: "'a::len word"
  by (auto simp: sat_add_def unat_word_ariths unat_minus_one_max min_def)

lemma unat_sat_sub: "unat (sat_sub a b) = unat a - unat b"
  for a b :: "'a::len word"
  by (auto simp: sat_sub_def unat_sub word_le_nat_alt)

lemma unat_sat_mul: "unat (sat_mul a b) = min (unat a * unat b) (2 ^ LENGTH('a) - 1)"
  for a b :: "'a::len word"
proof (cases "unat a * unat b < 2 ^ LENGTH('a)")
  case True
  then show ?thesis by (simp add: sat_mul_def unat_word_ariths)
next
  case False
  then show ?thesis by (simp add: sat_mul_def unat_minus_one_max)
qed

lemma unat_plus_fits: "unat a + unat b < 2 ^ LENGTH('a) \<Longrightarrow> unat (a + b) = unat a + unat b"
  for a b :: "'a::len word"
  by (simp add: unat_word_ariths)

lemma unat_minus_le: "b \<le> a \<Longrightarrow> unat (a - b) = unat a - unat b"
  for a b :: "'a::len word"
  by (simp add: unat_sub)

lemma unat_eq_iff_word: "unat a = unat b \<longleftrightarrow> a = b" for a b :: "'a::len word"
  by (simp add: word_unat_eq_iff)

lemma unat_min_word: "unat (min a b) = min (unat a) (unat b)"
  for a b :: "'a::len word"
  by (auto simp: min_def word_le_nat_alt)

lemma unat_minus_min_left: "unat (a - min a b) = unat a - unat b" for a b :: "'a::len word"
  by (cases "a \<le> b") (auto simp: min_def unat_sub word_le_nat_alt)

lemma unat_minus_min_right: "unat (b - min a b) = unat b - unat a" for a b :: "'a::len word"
  by (cases "a \<le> b") (auto simp: min_def unat_sub word_le_nat_alt)

subsection \<open>Vectors\<close>

fun position_of :: "'a \<Rightarrow> 'a list \<Rightarrow> nat option" where
  "position_of x [] = None"
| "position_of x (y # ys) = (if y = x then Some 0 else map_option Suc (position_of x ys))"

definition insert_at :: "nat \<Rightarrow> 'a \<Rightarrow> 'a list \<Rightarrow> 'a list" where
  "insert_at p x xs = take p xs @ x # drop p xs"

text \<open>\<open>remove_last x\<close> drops the last occurrence, as \<open>rposition\<close> followed by \<open>remove\<close> does.\<close>

definition remove_last :: "'a \<Rightarrow> 'a list \<Rightarrow> 'a list" where
  "remove_last x xs = rev (remove1 x (rev xs))"

text \<open>\<open>update_first P f\<close> is \<open>iter_mut().find(P)\<close> followed by a write through the reference.\<close>

fun update_first :: "('a \<Rightarrow> bool) \<Rightarrow> ('a \<Rightarrow> 'a) \<Rightarrow> 'a list \<Rightarrow> 'a list" where
  "update_first P f [] = []"
| "update_first P f (x # xs) = (if P x then f x # xs else x # update_first P f xs)"

lemma position_of_None [simp]: "position_of x xs = None \<longleftrightarrow> x \<notin> set xs"
  by (induction xs) auto

lemma position_of_Some_mem: "position_of x xs = Some p \<Longrightarrow> x \<in> set xs \<and> p < length xs \<and> xs ! p = x"
  by (induction xs arbitrary: p) (auto split: if_splits)

lemma position_of_mem: "x \<in> set xs \<Longrightarrow> \<exists>p. position_of x xs = Some p"
  by (metis not_None_eq position_of_None)

lemma insert_at_Suc [simp]: "insert_at (Suc p) x (y # ys) = y # insert_at p x ys"
  by (simp add: insert_at_def)

lemma insert_at_0 [simp]: "insert_at 0 x ys = x # ys"
  by (simp add: insert_at_def)

lemma insert_at_length [simp]: "insert_at (length xs) x xs = xs @ [x]"
  by (simp add: insert_at_def)

lemma insert_at_remove1 [zone_simps]:
  "position_of x xs = Some p \<Longrightarrow> insert_at p x (remove1 x xs) = xs"
  by (induction xs arbitrary: p) (auto split: if_splits)

lemma insert_at_remove1_min [zone_simps]:
  assumes "position_of x xs = Some p"
  shows "insert_at (min p (length xs - Suc 0)) x (remove1 x xs) = xs"
proof -
  have "min p (length xs - Suc 0) = p"
    using position_of_Some_mem [OF assms] by linarith
  then show ?thesis by (simp add: insert_at_remove1 [OF assms])
qed

lemma remove1_position:
  "position_of x xs = Some p \<Longrightarrow> take p xs @ drop (Suc p) xs = remove1 x xs"
  by (induction xs arbitrary: p) (auto split: if_splits)

lemma remove1_append_self [zone_simps]: "x \<notin> set xs \<Longrightarrow> remove1 x (xs @ [x]) = xs"
  by (simp add: remove1_append)

lemma remove_last_append [simp]: "remove_last x (xs @ [x]) = xs"
  by (simp add: remove_last_def)

lemma mset_insert_at: "mset (insert_at p x xs) = add_mset x (mset xs)"
  by (metis append_take_drop_id insert_at_def mset.simps(2) mset_append union_mset_add_mset_right)

lemma set_insert_at [simp]: "set (insert_at p x xs) = insert x (set xs)"
  by (metis mset_insert_at set_mset_add_mset_insert set_mset_mset)

lemma distinct_insert_at: "distinct (insert_at p x xs) \<longleftrightarrow> x \<notin> set xs \<and> distinct xs"
  by (metis distinct.simps(2) mset.simps(2) mset_eq_imp_distinct_iff mset_insert_at)

lemma length_remove1_mem: "x \<in> set xs \<Longrightarrow> length (remove1 x xs) = length xs - 1"
  by (simp add: length_remove1)

subsection \<open>Updating the element a search finds\<close>

lemma update_first_find:
  assumes "\<And>x. P x \<Longrightarrow> P (f x)"
  shows "find P (update_first P f xs) = map_option f (find P xs)"
  using assms by (induction xs) auto

lemma update_first_find_other:
  assumes "\<And>x. P x \<Longrightarrow> Q (f x) = Q x" "\<And>x. P x \<Longrightarrow> \<not> Q x"
  shows "find Q (update_first P f xs) = find Q xs"
  using assms by (induction xs) auto

lemma update_first_compose:
  assumes "\<And>x. P x \<Longrightarrow> P (f x)"
  shows "update_first P g (update_first P f xs) = update_first P (g \<circ> f) xs"
  using assms by (induction xs) auto

lemma update_first_id_on:
  assumes "\<And>x. find P xs = Some x \<Longrightarrow> f x = x"
  shows "update_first P f xs = xs"
  using assms by (induction xs) auto

lemma update_first_none: "find P xs = None \<Longrightarrow> update_first P f xs = xs"
  by (induction xs) (auto split: if_splits)

lemma update_first_cong_on:
  assumes "\<And>x. find P xs = Some x \<Longrightarrow> f x = g x"
  shows "update_first P f xs = update_first P g xs"
  using assms by (induction xs) auto

lemma length_update_first [simp]: "length (update_first P f xs) = length xs"
  by (induction xs) auto

lemma map_update_first: "(\<And>x. g (f x) = g x) \<Longrightarrow> map g (update_first P f xs) = map g xs"
  by (induction xs) auto

lemma find_Some_pred: "find P xs = Some x \<Longrightarrow> P x \<and> x \<in> set xs"
  by (auto simp: find_Some_iff)

lemma position_of_append_new: "x \<notin> set xs \<Longrightarrow> position_of x (xs @ [x]) = Some (length xs)"
  by (induction xs) auto

lemma find_append_None: "find P xs = None \<Longrightarrow> find P (xs @ ys) = find P ys"
  by (induction xs) (auto split: if_splits)

subsection \<open>Decimal numbers\<close>

text \<open>\<open>show_nat\<close> prints a number as \<open>Display\<close> does; \<open>parse_u8\<close> is \<open>str::parse::<u8>\<close> on a non-empty
  string of digits, an error (here \<open>None\<close>) when the value does not fit.\<close>

definition digit_char :: "nat \<Rightarrow> char" where
  "digit_char d = char_of (48 + d)"

definition is_digit :: "char \<Rightarrow> bool" where
  "is_digit ch = (48 \<le> (of_char ch :: nat) \<and> (of_char ch :: nat) \<le> 57)"

fun show_nat :: "nat \<Rightarrow> string" where
  "show_nat n = (if n < 10 then [digit_char n] else show_nat (n div 10) @ [digit_char (n mod 10)])"

declare show_nat.simps [simp del]

definition digits_value :: "string \<Rightarrow> nat" where
  "digits_value ds = foldl (\<lambda>v ch. 10 * v + (of_char ch - 48)) 0 ds"

definition show_i32 :: "i32 \<Rightarrow> string" where
  "show_i32 v = (if sint v < 0 then ''-'' @ show_nat (nat (- sint v)) else show_nat (nat (sint v)))"

definition parse_u8 :: "string \<Rightarrow> u8 option" where
  "parse_u8 ds = (if digits_value ds < 256 then Some (of_nat (digits_value ds)) else None)"

lemma of_char_digit [simp]: "d < 10 \<Longrightarrow> (of_char (digit_char d) :: nat) = 48 + d"
  by (simp add: digit_char_def)

lemma digits_value_show_nat [simp]: "digits_value (show_nat n) = n"
proof (induction n rule: show_nat.induct)
  case (1 n)
  then show ?case
    by (subst show_nat.simps) (simp add: digits_value_def)
qed

lemma show_nat_digits: "\<forall>ch \<in> set (show_nat n). is_digit ch"
proof (induction n rule: show_nat.induct)
  case (1 n)
  moreover have "n mod 10 < 10" by simp
  ultimately show ?case
    by (subst show_nat.simps) (auto simp: is_digit_def)
qed

lemma show_nat_not_Nil [simp]: "show_nat n \<noteq> []"
  by (subst show_nat.simps) simp

lemma parse_u8_show_nat: "parse_u8 (show_nat (unat w)) = Some w" for w :: u8
proof -
  have "unat w < 2 ^ LENGTH(8)" by (rule unsigned_less)
  then show ?thesis by (simp add: parse_u8_def)
qed

subsection \<open>Loops that may stop with an error\<close>

fun fold_result :: "('b \<Rightarrow> 'a \<Rightarrow> 'e + 'b) \<Rightarrow> 'b \<Rightarrow> 'a list \<Rightarrow> 'e + 'b" where
  "fold_result f b [] = Inr b"
| "fold_result f b (x # xs) = (case f b x of Inl e \<Rightarrow> Inl e | Inr b' \<Rightarrow> fold_result f b' xs)"

lemma fold_result_append:
  "fold_result f b (xs @ ys) = (case fold_result f b xs of Inl e \<Rightarrow> Inl e | Inr b' \<Rightarrow> fold_result f b' ys)"
  by (induction xs arbitrary: b) (auto split: sum.split)

lemma fold_result_cong [fundef_cong]:
  "xs = ys \<Longrightarrow> b = c \<Longrightarrow> (\<And>a x. x \<in> set ys \<Longrightarrow> f a x = g a x) \<Longrightarrow> fold_result f b xs = fold_result g c ys"
  by (induction xs arbitrary: b c ys) (auto split: sum.split)

text \<open>When every step that runs succeeds the loop is a fold.\<close>

lemma fold_result_foldl:
  "(\<And>a x. x \<in> set xs \<Longrightarrow> f a x = Inr (h a x)) \<Longrightarrow> fold_result f b xs = Inr (foldl h b xs)"
  by (induction xs arbitrary: b) simp_all

lemma fold_result_step_Inl:
  "fold_result f b (xs @ x # ys) = Inl e" if "fold_result f b xs = Inr b'" "f b' x = Inl e"
  using that by (simp add: fold_result_append)

end
