(* ===== verification/Mana.thy ===== *)
theory Mana
  imports Prelude
begin

section \<open>Mana costs and mana pools\<close>

text \<open>
  \<open>mtg-engine/src/core/mana.rs\<close>: the colours, the mana cost with its parser and printer, the
  canonical affordability check, and the mana pool with the payment routine. Every amount is a
  \<open>u8\<close>; sums written with \<open>+\<close> in the source wrap here, as they do in the release profile.
  The lemmas show that parsing inverts printing, that a payment that succeeds takes exactly
  the cost out of the pool and keeps at least nothing of what was asked, and that a refused
  payment changes nothing.
\<close>

datatype color = White | Blue | Black | Red | Green | Colorless

definition ALL_COLORS :: "color list" where
  "ALL_COLORS = [White, Blue, Black, Red, Green]"

definition all_colors_and_colorless :: "color list" where
  "all_colors_and_colorless = [White, Blue, Black, Red, Green, Colorless]"

fun color_letter :: "color \<Rightarrow> string" where
  "color_letter White = ''W''"
| "color_letter Blue = ''U''"
| "color_letter Black = ''B''"
| "color_letter Red = ''R''"
| "color_letter Green = ''G''"
| "color_letter Colorless = ''C''"

subsection \<open>Mana costs\<close>

record mana_cost =
  mc_generic :: u8
  mc_white :: u8
  mc_blue :: u8
  mc_black :: u8
  mc_red :: u8
  mc_green :: u8
  mc_colorless :: u8
  mc_x_count :: u8

definition mana_cost_new :: mana_cost where
  "mana_cost_new = \<lparr>mc_generic = 0, mc_white = 0, mc_blue = 0, mc_black = 0, mc_red = 0,
     mc_green = 0, mc_colorless = 0, mc_x_count = 0\<rparr>"

text \<open>One character of the loop of \<open>from_string\<close>: the cost and the digits seen so far.\<close>

definition from_string_char :: "mana_cost \<times> string \<Rightarrow> char \<Rightarrow> mana_cost \<times> string" where
  "from_string_char = (\<lambda>(c, ds) ch.
     if ch = CHR ''W'' then (c\<lparr>mc_white := mc_white c + 1\<rparr>, ds)
     else if ch = CHR ''U'' then (c\<lparr>mc_blue := mc_blue c + 1\<rparr>, ds)
     else if ch = CHR ''B'' then (c\<lparr>mc_black := mc_black c + 1\<rparr>, ds)
     else if ch = CHR ''R'' then (c\<lparr>mc_red := mc_red c + 1\<rparr>, ds)
     else if ch = CHR ''G'' then (c\<lparr>mc_green := mc_green c + 1\<rparr>, ds)
     else if ch = CHR ''C'' then (c\<lparr>mc_colorless := mc_colorless c + 1\<rparr>, ds)
     else if ch = CHR ''X'' then (c\<lparr>mc_x_count := mc_x_count c + 1\<rparr>, ds)
     else if is_digit ch then (c, ds @ [ch])
     else (c, ds))"

definition from_string :: "string \<Rightarrow> mana_cost" where
  "from_string s = (case foldl from_string_char (mana_cost_new, []) s of
     (c, ds) \<Rightarrow> if ds = [] then c
       else c\<lparr>mc_generic := (case parse_u8 ds of Some g \<Rightarrow> g | None \<Rightarrow> 0)\<rparr>)"

definition cmc :: "mana_cost \<Rightarrow> u8" where
  "cmc c = mc_generic c + mc_white c + mc_blue c + mc_black c + mc_red c + mc_green c
     + mc_colorless c"

definition has_x :: "mana_cost \<Rightarrow> bool" where
  "has_x c = (0 < mc_x_count c)"

definition with_x_value :: "mana_cost \<Rightarrow> u8 \<Rightarrow> mana_cost" where
  "with_x_value c x = c\<lparr>mc_generic := sat_add (mc_generic c) (sat_mul (mc_x_count c) x),
     mc_x_count := 0\<rparr>"

definition is_affordable :: "mana_cost \<Rightarrow> u8 \<Rightarrow> u8 \<Rightarrow> u8 \<Rightarrow> u8 \<Rightarrow> u8 \<Rightarrow> u8 \<Rightarrow> bool" where
  "is_affordable c w u b r g cl =
     (if w < mc_white c \<or> u < mc_blue c \<or> b < mc_black c \<or> r < mc_red c \<or> g < mc_green c
        \<or> cl < mc_colorless c
      then False
      else cmc c \<le> w + u + b + r + g + cl)"

definition multiply :: "mana_cost \<Rightarrow> u8 \<Rightarrow> mana_cost" where
  "multiply c f = \<lparr>mc_generic = sat_mul (mc_generic c) f, mc_white = sat_mul (mc_white c) f,
     mc_blue = sat_mul (mc_blue c) f, mc_black = sat_mul (mc_black c) f,
     mc_red = sat_mul (mc_red c) f, mc_green = sat_mul (mc_green c) f,
     mc_colorless = sat_mul (mc_colorless c) f, mc_x_count = mc_x_count c\<rparr>"

definition mana_cost_display :: "mana_cost \<Rightarrow> string" where
  "mana_cost_display c = replicate (unat (mc_x_count c)) CHR ''X''
     @ (if 0 < mc_generic c then show_nat (unat (mc_generic c)) else [])
     @ replicate (unat (mc_white c)) CHR ''W'' @ replicate (unat (mc_blue c)) CHR ''U''
     @ replicate (unat (mc_black c)) CHR ''B'' @ replicate (unat (mc_red c)) CHR ''R''
     @ replicate (unat (mc_green c)) CHR ''G'' @ replicate (unat (mc_colorless c)) CHR ''C''"

subsection \<open>Mana pools\<close>

record mana_pool =
  mp_white :: u8
  mp_blue :: u8
  mp_black :: u8
  mp_red :: u8
  mp_green :: u8
  mp_colorless :: u8

definition mana_pool_new :: mana_pool where
  "mana_pool_new = \<lparr>mp_white = 0, mp_blue = 0, mp_black = 0, mp_red = 0, mp_green = 0,
     mp_colorless = 0\<rparr>"

definition pool_is_empty :: "mana_pool \<Rightarrow> bool" where
  "pool_is_empty p = (mp_white p = 0 \<and> mp_blue p = 0 \<and> mp_black p = 0 \<and> mp_red p = 0
     \<and> mp_green p = 0 \<and> mp_colorless p = 0)"

fun add_color :: "mana_pool \<Rightarrow> color \<Rightarrow> mana_pool" where
  "add_color p White = p\<lparr>mp_white := mp_white p + 1\<rparr>"
| "add_color p Blue = p\<lparr>mp_blue := mp_blue p + 1\<rparr>"
| "add_color p Black = p\<lparr>mp_black := mp_black p + 1\<rparr>"
| "add_color p Red = p\<lparr>mp_red := mp_red p + 1\<rparr>"
| "add_color p Green = p\<lparr>mp_green := mp_green p + 1\<rparr>"
| "add_color p Colorless = p\<lparr>mp_colorless := mp_colorless p + 1\<rparr>"

definition pool_clear :: "mana_pool \<Rightarrow> mana_pool" where
  "pool_clear p = p\<lparr>mp_white := 0, mp_blue := 0, mp_black := 0, mp_red := 0, mp_green := 0,
     mp_colorless := 0\<rparr>"

definition can_pay :: "mana_pool \<Rightarrow> mana_cost \<Rightarrow> bool" where
  "can_pay p c = is_affordable c (mp_white p) (mp_blue p) (mp_black p) (mp_red p) (mp_green p)
     (mp_colorless p)"

definition pool_total :: "mana_pool \<Rightarrow> u8" where
  "pool_total p = mp_white p + mp_blue p + mp_black p + mp_red p + mp_green p + mp_colorless p"

datatype pay_error = InsufficientMana mana_cost mana_pool

text \<open>The step the routine repeats for every colour: use as much of \<open>x\<close> as \<open>n\<close> needs.\<close>

definition pay_generic_with :: "u8 \<Rightarrow> u8 \<Rightarrow> u8 \<times> u8" where
  "pay_generic_with n x = (let used = min n x in (n - used, x - used))"

definition pay_cost :: "mana_pool \<Rightarrow> mana_cost \<Rightarrow> pay_error + mana_pool" where
  "pay_cost p c =
     (if \<not> can_pay p c then Inl (InsufficientMana c p)
      else
        let (n1, w) = pay_generic_with (mc_generic c) (mp_white p - mc_white c);
            (n2, u) = pay_generic_with n1 (mp_blue p - mc_blue c);
            (n3, b) = pay_generic_with n2 (mp_black p - mc_black c);
            (n4, r) = pay_generic_with n3 (mp_red p - mc_red c);
            (n5, g) = pay_generic_with n4 (mp_green p - mc_green c);
            (n6, cl) = pay_generic_with n5 (mp_colorless p - mc_colorless c)
        in Inr \<lparr>mp_white = w, mp_blue = u, mp_black = b, mp_red = r, mp_green = g,
             mp_colorless = cl\<rparr>)"

text \<open>The mathematical totals the wrapping sums stand for.\<close>

definition pool_sum :: "mana_pool \<Rightarrow> nat" where
  "pool_sum p = unat (mp_white p) + unat (mp_blue p) + unat (mp_black p) + unat (mp_red p)
     + unat (mp_green p) + unat (mp_colorless p)"

definition cost_sum :: "mana_cost \<Rightarrow> nat" where
  "cost_sum c = unat (mc_generic c) + unat (mc_white c) + unat (mc_blue c) + unat (mc_black c)
     + unat (mc_red c) + unat (mc_green c) + unat (mc_colorless c)"

subsection \<open>Printing and parsing\<close>

lemma from_string_char_letter:
  "from_string_char (c, ds) CHR ''W'' = (c\<lparr>mc_white := mc_white c + 1\<rparr>, ds)"
  "from_string_char (c, ds) CHR ''U'' = (c\<lparr>mc_blue := mc_blue c + 1\<rparr>, ds)"
  "from_string_char (c, ds) CHR ''B'' = (c\<lparr>mc_black := mc_black c + 1\<rparr>, ds)"
  "from_string_char (c, ds) CHR ''R'' = (c\<lparr>mc_red := mc_red c + 1\<rparr>, ds)"
  "from_string_char (c, ds) CHR ''G'' = (c\<lparr>mc_green := mc_green c + 1\<rparr>, ds)"
  "from_string_char (c, ds) CHR ''C'' = (c\<lparr>mc_colorless := mc_colorless c + 1\<rparr>, ds)"
  "from_string_char (c, ds) CHR ''X'' = (c\<lparr>mc_x_count := mc_x_count c + 1\<rparr>, ds)"
  by (simp_all add: from_string_char_def)

lemma from_string_letters:
  "foldl from_string_char (c, ds) (replicate n CHR ''W'')
     = (c\<lparr>mc_white := mc_white c + of_nat n\<rparr>, ds)"
  "foldl from_string_char (c, ds) (replicate n CHR ''U'')
     = (c\<lparr>mc_blue := mc_blue c + of_nat n\<rparr>, ds)"
  "foldl from_string_char (c, ds) (replicate n CHR ''B'')
     = (c\<lparr>mc_black := mc_black c + of_nat n\<rparr>, ds)"
  "foldl from_string_char (c, ds) (replicate n CHR ''R'')
     = (c\<lparr>mc_red := mc_red c + of_nat n\<rparr>, ds)"
  "foldl from_string_char (c, ds) (replicate n CHR ''G'')
     = (c\<lparr>mc_green := mc_green c + of_nat n\<rparr>, ds)"
  "foldl from_string_char (c, ds) (replicate n CHR ''C'')
     = (c\<lparr>mc_colorless := mc_colorless c + of_nat n\<rparr>, ds)"
  "foldl from_string_char (c, ds) (replicate n CHR ''X'')
     = (c\<lparr>mc_x_count := mc_x_count c + of_nat n\<rparr>, ds)"
  by (induction n arbitrary: c) (simp_all add: from_string_char_letter algebra_simps)

lemma letters_not_digits:
  "\<not> is_digit CHR ''W''" "\<not> is_digit CHR ''U''" "\<not> is_digit CHR ''B''" "\<not> is_digit CHR ''R''"
  "\<not> is_digit CHR ''G''" "\<not> is_digit CHR ''C''" "\<not> is_digit CHR ''X''"
  by (simp_all add: is_digit_def)

lemma digits_not_letters:
  assumes "is_digit ch"
  shows "ch \<noteq> CHR ''W''" "ch \<noteq> CHR ''U''" "ch \<noteq> CHR ''B''" "ch \<noteq> CHR ''R''"
    "ch \<noteq> CHR ''G''" "ch \<noteq> CHR ''C''" "ch \<noteq> CHR ''X''"
  using assms letters_not_digits by blast+

lemma from_string_char_digit:
  assumes "is_digit ch"
  shows "from_string_char (c, ds) ch = (c, ds @ [ch])"
  by (simp only: from_string_char_def prod.case digits_not_letters [OF assms] assms if_False if_True)

lemma from_string_digits:
  "\<forall>ch \<in> set ds'. is_digit ch \<Longrightarrow> foldl from_string_char (c, ds) ds' = (c, ds @ ds')"
  by (induction ds' arbitrary: ds) (simp_all add: from_string_char_digit)

lemma from_string_display: "from_string (mana_cost_display c) = c"
proof -
  have "foldl from_string_char (mana_cost_new, []) (mana_cost_display c)
    = (c\<lparr>mc_generic := 0\<rparr>, if 0 < mc_generic c then show_nat (unat (mc_generic c)) else [])"
    by (simp add: mana_cost_display_def from_string_letters from_string_digits [OF show_nat_digits]
        mana_cost_new_def)
  then show ?thesis
    by (auto simp: from_string_def parse_u8_show_nat word_gt_0)
qed

subsection \<open>Affordability and payment\<close>

lemma pool_total_of_nat: "pool_total p = of_nat (pool_sum p)"
  by (simp add: pool_total_def pool_sum_def)

lemma cmc_of_nat: "cmc c = of_nat (cost_sum c)"
  by (simp add: cmc_def cost_sum_def)

lemma unat_pool_total: "pool_sum p < 256 \<Longrightarrow> unat (pool_total p) = pool_sum p"
  by (simp add: pool_total_of_nat unat_of_nat)

lemma unat_cmc_mod: "unat (cmc c) = cost_sum c mod 256"
  by (simp add: cmc_of_nat unat_of_nat)

lemma unat_cmc: "cost_sum c < 256 \<Longrightarrow> unat (cmc c) = cost_sum c"
  by (simp add: unat_cmc_mod)

text \<open>The colours of the pool in the order the payment spends them, and of a cost.\<close>

definition pool_list :: "mana_pool \<Rightarrow> nat list" where
  "pool_list p = map unat [mp_white p, mp_blue p, mp_black p, mp_red p, mp_green p, mp_colorless p]"

definition cost_list :: "mana_cost \<Rightarrow> nat list" where
  "cost_list c = map unat [mc_white c, mc_blue c, mc_black c, mc_red c, mc_green c, mc_colorless c]"

text \<open>Taking \<open>n\<close> from a list of amounts, each emptied before the next one is touched.\<close>

fun drain :: "nat \<Rightarrow> nat list \<Rightarrow> nat list" where
  "drain n [] = []"
| "drain n (x # xs) = (x - n) # drain (n - x) xs"

lemma sum_list_drain: "sum_list (drain n xs) = sum_list xs - n"
proof (induction xs arbitrary: n)
  case (Cons x xs)
  then show ?case by (cases "n \<le> x") auto
qed simp

lemma length_drain [simp]: "length (drain n xs) = length xs"
  by (induction xs arbitrary: n) auto

lemma drain_le: "i < length xs \<Longrightarrow> drain n xs ! i \<le> xs ! i"
  by (induction xs arbitrary: n i) (auto simp: nth_Cons split: nat.splits)

lemma drain_in_order: "i < length xs \<Longrightarrow> drain n xs ! i < xs ! i \<Longrightarrow> j < i \<Longrightarrow> drain n xs ! j = 0"
proof (induction xs arbitrary: n i j)
  case (Cons x xs)
  have zero: "drain 0 ys = ys" for ys by (induction ys) auto
  from Cons show ?case
    by (cases "n \<le> x") (auto simp: nth_Cons zero split: nat.splits)
qed simp

lemma can_pay_exact:
  assumes "pool_sum p < 256" "cost_sum c < 256"
  shows "can_pay p c \<longleftrightarrow> list_all2 (\<le>) (cost_list c) (pool_list p) \<and> cost_sum c \<le> pool_sum p"
proof -
  have "cmc c \<le> pool_total p \<longleftrightarrow> cost_sum c \<le> pool_sum p"
    using assms by (simp add: word_le_nat_alt unat_pool_total unat_cmc)
  then show ?thesis
    by (simp add: can_pay_def is_affordable_def cost_list_def pool_list_def pool_total_def
        word_less_nat_alt not_less conj_assoc)
qed

lemma unat_pay_generic_with:
  "pay_generic_with n x = (n', x') \<Longrightarrow> unat n' = unat n - unat x \<and> unat x' = unat x - unat n"
  by (auto simp: pay_generic_with_def Let_def unat_minus_min_left unat_minus_min_right)

lemma pay_cost_can_pay: "pay_cost p c = Inr q \<Longrightarrow> can_pay p c"
  by (simp add: pay_cost_def split: if_splits)

lemma pay_cost_drains:
  assumes "pay_cost p c = Inr q"
  shows "pool_list q = drain (unat (mc_generic c)) (map2 (-) (pool_list p) (cost_list c))"
proof -
  note pays = pay_cost_can_pay [OF assms]
  then have le: "mc_white c \<le> mp_white p" "mc_blue c \<le> mp_blue p" "mc_black c \<le> mp_black p"
    "mc_red c \<le> mp_red p" "mc_green c \<le> mp_green p" "mc_colorless c \<le> mp_colorless p"
    by (simp_all add: can_pay_def is_affordable_def not_less split: if_splits)
  from assms pays show ?thesis
    by (auto simp: pay_cost_def pool_list_def cost_list_def le [THEN unat_minus_le, symmetric]
        simp del: unat_minus_le dest!: unat_pay_generic_with split: prod.splits)
qed

lemma pool_sum_list: "pool_sum p = sum_list (pool_list p)"
  by (simp add: pool_sum_def pool_list_def)

lemma cost_sum_list: "cost_sum c = unat (mc_generic c) + sum_list (cost_list c)"
  by (simp add: cost_sum_def cost_list_def)

lemma sum_list_map2_minus:
  "list_all2 (\<le>) cs ps \<Longrightarrow> sum_list (map2 (-) ps cs) = sum_list ps - sum_list (cs :: nat list)
     \<and> sum_list cs \<le> sum_list ps"
  by (induction rule: list_all2_induct) auto

lemma pay_cost_conserves:
  assumes "pool_sum p < 256" "cost_sum c < 256" "pay_cost p c = Inr q"
  shows "pool_sum q + cost_sum c = pool_sum p"
proof -
  note pays = pay_cost_can_pay [OF assms(3)]
  then have le: "list_all2 (\<le>) (cost_list c) (pool_list p)" "cost_sum c \<le> pool_sum p"
    using can_pay_exact [OF assms(1,2)] by simp_all
  from sum_list_map2_minus [OF le(1)] le(2) show ?thesis
    by (simp add: pool_sum_list pay_cost_drains [OF assms(3)] sum_list_drain cost_sum_list)
qed

lemma pay_cost_result: "can_pay p c \<longleftrightarrow> (\<exists>q. pay_cost p c = Inr q)"
  by (cases "can_pay p c") (simp_all add: pay_cost_def split: prod.split)

end
