(* ===== verification/Keywords.thy ===== *)
theory Keywords
  imports Mana
begin

section \<open>Keywords and keyword sets\<close>

text \<open>
  \<open>mtg-engine/src/core/keyword_set.rs\<close>. A \<open>Keyword\<close> is the name of its variant and a \<open>KeywordArgs\<close>
  value is the name of its variant with the fields it carries; the two tables below list the
  variants of the two enums (a datatype of this many constructors does not check in reasonable
  time). \<open>EnumSet<Keyword>\<close> is a set of keywords. The lemmas give the set interface and the
  relation between the bits and the arguments; one variant, \<open>MustBeBlockedByAllFiltered\<close>, has a
  keyword that \<open>is_complex\<close> leaves out, and its arguments can neither be read nor removed.
\<close>

type_synonym keyword = string

definition keyword_variants :: "keyword list" where
  "keyword_variants =
    [''Flying'', ''FirstStrike'', ''DoubleStrike'', ''Deathtouch'', ''Haste'', ''Hexproof'',
     ''Indestructible'', ''Lifelink'', ''Menace'', ''Reach'', ''Trample'', ''Vigilance'',
     ''Defender'', ''Shroud'', ''Flash'', ''Fear'', ''Intimidate'', ''Horsemanship'', ''Shadow'',
     ''Skulk'', ''ProtectionFromRed'', ''ProtectionFromBlue'', ''ProtectionFromBlack'',
     ''ProtectionFromWhite'', ''ProtectionFromGreen'', ''ProtectionFromEverything'',
     ''ProtectionFromEachColor'', ''Banding'', ''Flanking'', ''Phasing'', ''Wither'', ''Infect'',
     ''CantAttack'', ''CantBlock'', ''CantAttackOrBlock'', ''CantAttackAlone'',
     ''CantAttackOrBlockAlone'', ''MustAttack'', ''Goaded'', ''MustBeBlocked'',
     ''MustBeBlockedByAll'', ''MustBeBlockedByTwo'', ''MustBeBlockedByExactlyOne'',
     ''PreventAllDamage'', ''PreventAllCombatDamage'',
     ''PreventAllCombatDamageDealtAndReceived'', ''UntapsDuringOthersUntapStep'',
     ''CanBlockShadow'', ''DeckAnyNumber'', ''CanBeCommander'', ''AnteRemoval'', ''Changeling'',
     ''Convoke'', ''Delve'', ''Improvise'', ''SplitSecond'', ''Cascade'', ''Storm'',
     ''Gravestorm'', ''Conspire'', ''Retrace'', ''Prowess'', ''Aftermath'', ''Ascend'',
     ''Assist'', ''Bargain'', ''BattleCry'', ''Cipher'', ''Compleated'', ''Daybound'',
     ''Decayed'', ''Demonstrate'', ''Dethrone'', ''Devoid'', ''DoubleAgenda'', ''DoubleTeam'',
     ''Enlist'', ''Epic'', ''Evolve'', ''Exalted'', ''Exploit'', ''Extort'', ''ForMirrodin'',
     ''Fuse'', ''Gift'', ''HiddenAgenda'', ''Ingest'', ''JobSelect'', ''JumpStart'',
     ''LivingMetal'', ''LivingWeapon'', ''Melee'', ''Mentor'', ''Myriad'', ''Nightbound'',
     ''Persist'', ''Provoke'', ''Ravenous'', ''ReadAhead'', ''Rebound'', ''Riot'', ''Soulbond'',
     ''SpaceSculptor'', ''Spree'', ''StartYourEngines'', ''Sunburst'', ''Tiered'', ''Training'',
     ''UmbraArmor'', ''Undaunted'', ''Undying'', ''Unleash'', ''ChooseABackground'',
     ''DoctorsCompanion'', ''FriendsForever'', ''PartnerSurvivors'', ''PartnerFatherAndSon'',
     ''PartnerCharacterSelect'', ''MayFlashSac'', ''MayNotUntap'', ''DoesNotUntap'', ''Madness'',
     ''Flashback'', ''Kicker'', ''Cycling'', ''Equip'', ''Morph'', ''Evoke'', ''Buyback'',
     ''Echo'', ''Suspend'', ''AuraSwap'', ''Bestow'', ''Blitz'', ''CumulativeUpkeep'', ''Dash'',
     ''Disguise'', ''Disturb'', ''Embalm'', ''Encore'', ''Entwine'', ''Escalate'', ''Escape'',
     ''Eternalize'', ''Foretell'', ''Fortify'', ''Freerunning'', ''Harmonize'', ''LevelUp'',
     ''MayFlashCost'', ''Megamorph'', ''Miracle'', ''MoreThanMeetsTheEye'', ''Multikicker'',
     ''Mutate'', ''Offspring'', ''Outlast'', ''Overload'', ''Plot'', ''Prowl'', ''Prototype'',
     ''Reconfigure'', ''Reflect'', ''Scavenge'', ''Sneak'', ''Specialize'', ''Spectacle'',
     ''Squad'', ''Strive'', ''Surge'', ''Transfigure'', ''Transmute'', ''Unearth'', ''Ward'',
     ''Warp'', ''WebSlinging'', ''Enchant'', ''Landwalk'', ''Affinity'', ''Protection'',
     ''Offering'', ''Champion'', ''BandsWithOther'', ''Amplify'', ''Annihilator'', ''Bushido'',
     ''Fading'', ''Vanishing'', ''Dredge'', ''Modular'', ''Absorb'', ''Afflict'', ''Afterlife'',
     ''Bloodthirst'', ''Casualty'', ''Crew'', ''Fabricate'', ''Frenzy'', ''Graft'', ''Hideaway'',
     ''Mobilize'', ''Poisonous'', ''Rampage'', ''Renown'', ''Ripple'', ''Saddle'', ''Soulshift'',
     ''StartingIntensity'', ''Station'', ''Toxic'', ''Tribute'', ''Adapt'', ''Awaken'',
     ''Backup'', ''Impending'', ''Monstrosity'', ''Reinforce'', ''Splice'', ''Typecycling'',
     ''Emerge'', ''Firebending'', ''Ninjutsu'', ''Partner'', ''Haunt'', ''Replicate'',
     ''MayEffectFromOpeningHand'', ''MayEffectFromOpeningDeck'', ''Mayhem'', ''Recover'',
     ''Visit'', ''DeckLimit'', ''Dungeon'', ''AlternateAdditionalCost'', ''Prize'', ''Chapter'',
     ''Class'', ''ETBReplacement'', ''EtbCounter'', ''HexproofFrom'', ''PartnerWith'',
     ''Companion'', ''Craft'', ''Devour'']"

text \<open>The fields of a variant: a \<open>u8\<close>, a \<open>ManaCost\<close>, a \<open>Subtype\<close>, a \<open>String\<close> or a \<open>CardName\<close>.\<close>

datatype kw_field = FAmount u8 | FCost mana_cost | FType string | FText string | FName string

datatype kw_kind = KAmount | KCost | KType | KText | KName

fun kw_field_kind :: "kw_field \<Rightarrow> kw_kind" where
  "kw_field_kind (FAmount _) = KAmount"
| "kw_field_kind (FCost _) = KCost"
| "kw_field_kind (FType _) = KType"
| "kw_field_kind (FText _) = KText"
| "kw_field_kind (FName _) = KName"

datatype keyword_args = KeywordArgs string "kw_field list"

definition keyword_args_variants :: "(string \<times> kw_kind list) list" where
  "keyword_args_variants =
    [(''Madness'', [KCost]), (''Flashback'', [KCost]), (''Kicker'', [KCost]),
     (''Cycling'', [KCost]), (''Equip'', [KCost]), (''Morph'', [KCost]), (''Evoke'', [KCost]),
     (''Buyback'', [KCost]), (''Echo'', [KCost]), (''Suspend'', [KAmount, KCost]),
     (''Enchant'', [KType]), (''Landwalk'', [KType]), (''Affinity'', [KType]),
     (''Protection'', [KType]), (''Offering'', [KType]), (''Champion'', [KType]),
     (''Amplify'', [KAmount, KType]), (''Annihilator'', [KAmount]), (''Bushido'', [KAmount]),
     (''Fading'', [KAmount]), (''Vanishing'', [KAmount]), (''Dredge'', [KAmount]),
     (''Modular'', [KAmount]), (''Absorb'', [KAmount]), (''Afflict'', [KAmount]),
     (''Afterlife'', [KAmount]), (''Bloodthirst'', [KAmount]), (''Casualty'', [KAmount]),
     (''Crew'', [KAmount]), (''Fabricate'', [KAmount]), (''Frenzy'', [KAmount]),
     (''Graft'', [KAmount]), (''Hideaway'', [KAmount]), (''Mobilize'', [KAmount]),
     (''Poisonous'', [KAmount]), (''Rampage'', [KAmount]), (''Renown'', [KAmount]),
     (''Ripple'', [KAmount]), (''Saddle'', [KAmount]), (''Soulshift'', [KAmount]),
     (''StartingIntensity'', [KAmount]), (''Station'', [KAmount]), (''Toxic'', [KAmount]),
     (''Tribute'', [KAmount]), (''AuraSwap'', [KCost]), (''Bestow'', [KCost]),
     (''Blitz'', [KCost]), (''CumulativeUpkeep'', [KCost]), (''Dash'', [KCost]),
     (''Disguise'', [KCost]), (''Disturb'', [KCost]), (''Embalm'', [KCost]),
     (''Encore'', [KCost]), (''Entwine'', [KCost]), (''Escalate'', [KCost]),
     (''Escape'', [KCost]), (''Eternalize'', [KCost]), (''Foretell'', [KCost]),
     (''Fortify'', [KCost]), (''Freerunning'', [KCost]), (''Harmonize'', [KCost]),
     (''LevelUp'', [KCost]), (''MayFlashCost'', [KCost]), (''Megamorph'', [KCost]),
     (''Miracle'', [KCost]), (''MoreThanMeetsTheEye'', [KCost]), (''Multikicker'', [KCost]),
     (''Mutate'', [KCost]), (''Offspring'', [KCost]), (''Outlast'', [KCost]),
     (''Overload'', [KCost]), (''Plot'', [KCost]), (''Prowl'', [KCost]),
     (''Prototype'', [KCost]), (''Reconfigure'', [KCost]), (''Reflect'', [KCost]),
     (''Scavenge'', [KCost]), (''Sneak'', [KCost]), (''Specialize'', [KCost]),
     (''Spectacle'', [KCost]), (''Squad'', [KCost]), (''Strive'', [KCost]), (''Surge'', [KCost]),
     (''Transfigure'', [KCost]), (''Transmute'', [KCost]), (''Unearth'', [KCost]),
     (''Ward'', [KCost]), (''WardWaterbend'', [KAmount]), (''Warp'', [KCost]),
     (''WebSlinging'', [KCost]), (''BandsWithOther'', [KType]), (''Adapt'', [KCost, KAmount]),
     (''Awaken'', [KCost, KAmount]), (''Backup'', [KAmount]), (''Impending'', [KCost, KAmount]),
     (''Monstrosity'', [KCost, KAmount]), (''Reinforce'', [KCost, KAmount]),
     (''Splice'', [KCost, KType]), (''Typecycling'', [KCost, KType]), (''Emerge'', [KCost]),
     (''Firebending'', [KAmount]), (''Ninjutsu'', [KCost]), (''Partner'', []),
     (''Craft'', [KText]), (''Devour'', [KAmount]), (''HexproofFrom'', [KText]),
     (''PartnerWith'', [KName]), (''Companion'', [KText]), (''Chapter'', [KAmount, KText]),
     (''Class'', [KAmount, KText, KText]), (''ETBReplacement'', [KText, KText]),
     (''EtbCounter'', [KText, KText, KText]), (''Haunt'', [KText]), (''Replicate'', [KText]),
     (''MayEffectFromOpeningHand'', [KText]), (''Mayhem'', [KText]), (''Recover'', [KCost]),
     (''Visit'', [KText]), (''DeckLimit'', [KAmount, KText]), (''Dungeon'', [KText]),
     (''AlternateAdditionalCost'', [KText]), (''MustBeBlockedByAllFiltered'', [KText]),
     (''MayEffectFromOpeningDeck'', [KText]), (''Prize'', [KText])]"

fun keyword_args_wf :: "keyword_args \<Rightarrow> bool" where
  "keyword_args_wf (KeywordArgs v fs) = ((v, map kw_field_kind fs) \<in> set keyword_args_variants)"

fun args_keyword :: "keyword_args \<Rightarrow> keyword" where
  "args_keyword (KeywordArgs v fs) =
     (if v = ''WardWaterbend'' then ''Ward''
      else if v = ''MustBeBlockedByAllFiltered'' then ''MustBeBlockedByAll''
      else v)"

definition complex_keywords :: "keyword list" where
  "complex_keywords =
    [''Madness'', ''Flashback'', ''Kicker'', ''Cycling'', ''Equip'', ''Morph'', ''Evoke'',
     ''Buyback'', ''Echo'', ''Suspend'', ''AuraSwap'', ''Bestow'', ''Blitz'',
     ''CumulativeUpkeep'', ''Dash'', ''Disguise'', ''Disturb'', ''Embalm'', ''Encore'',
     ''Entwine'', ''Escalate'', ''Escape'', ''Eternalize'', ''Foretell'', ''Fortify'',
     ''Freerunning'', ''Harmonize'', ''LevelUp'', ''MayFlashCost'', ''Megamorph'', ''Miracle'',
     ''MoreThanMeetsTheEye'', ''Multikicker'', ''Mutate'', ''Offspring'', ''Outlast'',
     ''Overload'', ''Plot'', ''Prowl'', ''Prototype'', ''Reconfigure'', ''Reflect'',
     ''Scavenge'', ''Sneak'', ''Specialize'', ''Spectacle'', ''Squad'', ''Strive'', ''Surge'',
     ''Transfigure'', ''Transmute'', ''Unearth'', ''Ward'', ''Warp'', ''WebSlinging'',
     ''Enchant'', ''Landwalk'', ''Affinity'', ''Protection'', ''Offering'', ''Champion'',
     ''BandsWithOther'', ''Amplify'', ''Annihilator'', ''Bushido'', ''Fading'', ''Vanishing'',
     ''Dredge'', ''Modular'', ''Absorb'', ''Afflict'', ''Afterlife'', ''Bloodthirst'',
     ''Casualty'', ''Crew'', ''Fabricate'', ''Frenzy'', ''Graft'', ''Hideaway'', ''Mobilize'',
     ''Poisonous'', ''Rampage'', ''Renown'', ''Ripple'', ''Saddle'', ''Soulshift'',
     ''StartingIntensity'', ''Station'', ''Toxic'', ''Tribute'', ''Adapt'', ''Awaken'',
     ''Backup'', ''Impending'', ''Monstrosity'', ''Reinforce'', ''Splice'', ''Typecycling'',
     ''Emerge'', ''Firebending'', ''Ninjutsu'', ''Partner'', ''Craft'', ''Devour'', ''Haunt'',
     ''Replicate'', ''MayEffectFromOpeningHand'', ''Mayhem'', ''Recover'', ''Visit'',
     ''DeckLimit'', ''Dungeon'', ''AlternateAdditionalCost'', ''Prize'',
     ''MayEffectFromOpeningDeck'', ''Chapter'', ''Class'', ''ETBReplacement'', ''EtbCounter'',
     ''HexproofFrom'', ''PartnerWith'', ''Companion'']"

definition is_complex :: "keyword \<Rightarrow> bool" where
  "is_complex k = (k \<in> set complex_keywords)"

definition keyword_names :: "(string \<times> keyword) list" where
  "keyword_names =
    [(''Flying'', ''Flying''), (''First Strike'', ''FirstStrike''),
     (''Double Strike'', ''DoubleStrike''), (''Deathtouch'', ''Deathtouch''),
     (''Haste'', ''Haste''), (''Hexproof'', ''Hexproof''),
     (''Indestructible'', ''Indestructible''), (''Lifelink'', ''Lifelink''),
     (''Menace'', ''Menace''), (''Reach'', ''Reach''), (''Trample'', ''Trample''),
     (''Vigilance'', ''Vigilance''), (''Defender'', ''Defender''), (''Shroud'', ''Shroud''),
     (''Flash'', ''Flash''), (''Fear'', ''Fear''), (''Intimidate'', ''Intimidate''),
     (''Horsemanship'', ''Horsemanship''), (''Shadow'', ''Shadow''), (''Skulk'', ''Skulk''),
     (''Banding'', ''Banding''), (''Flanking'', ''Flanking''), (''Wither'', ''Wither''),
     (''Infect'', ''Infect''), (''Undying'', ''Undying''), (''Persist'', ''Persist''),
     (''Changeling'', ''Changeling''), (''Prowess'', ''Prowess''), (''Exalted'', ''Exalted''),
     (''Riot'', ''Riot''), (''Renown'', ''Renown''), (''Annihilator'', ''Annihilator''),
     (''Protection from red'', ''ProtectionFromRed''),
     (''Protection from blue'', ''ProtectionFromBlue''),
     (''Protection from black'', ''ProtectionFromBlack''),
     (''Protection from white'', ''ProtectionFromWhite''),
     (''Protection from green'', ''ProtectionFromGreen''), (''Devoid'', ''Devoid''),
     (''Convoke'', ''Convoke''), (''Phasing'', ''Phasing''), (''Absorb'', ''Absorb''),
     (''Bushido'', ''Bushido''), (''Soulbond'', ''Soulbond''), (''Storm'', ''Storm'')]"

definition keyword_from_string :: "string \<Rightarrow> keyword option" where
  "keyword_from_string s = map_of keyword_names s"

text \<open>\<open>split_once(':')\<close> and \<open>trim\<close> (of ASCII white space), then the seven forms with a parameter.\<close>

definition split_once :: "char \<Rightarrow> string \<Rightarrow> (string \<times> string) option" where
  "split_once ch s = (case dropWhile (\<lambda>c. c \<noteq> ch) s of
       [] \<Rightarrow> None
     | _ # rest \<Rightarrow> Some (takeWhile (\<lambda>c. c \<noteq> ch) s, rest))"

definition is_space :: "char \<Rightarrow> bool" where
  "is_space ch = ((of_char ch :: nat) \<in> {9, 10, 11, 12, 13, 32})"

definition trim :: "string \<Rightarrow> string" where
  "trim s = rev (dropWhile is_space (rev (dropWhile is_space s)))"

definition from_string_parameterized :: "string \<Rightarrow> keyword_args option" where
  "from_string_parameterized s = (case split_once (CHR '':'') s of
       None \<Rightarrow> None
     | Some (kw_name, param) \<Rightarrow>
         (if trim kw_name \<in> {''Landwalk'', ''Protection'', ''Affinity'', ''Enchant'',
              ''BandsWithOther'', ''Champion'', ''Offering''}
          then Some (KeywordArgs (trim kw_name) [FType (trim param)])
          else None))"

subsection \<open>Keyword sets\<close>

record keyword_set =
  ks_keywords :: "keyword set"
  ks_args :: "keyword_args list"

definition kw_new :: keyword_set where
  "kw_new = \<lparr>ks_keywords = {}, ks_args = []\<rparr>"

definition kw_contains :: "keyword_set \<Rightarrow> keyword \<Rightarrow> bool" where
  "kw_contains ks k = (k \<in> ks_keywords ks)"

definition kw_insert :: "keyword_set \<Rightarrow> keyword \<Rightarrow> keyword_set" where
  "kw_insert ks k = ks\<lparr>ks_keywords := insert k (ks_keywords ks)\<rparr>"

definition kw_insert_complex :: "keyword_set \<Rightarrow> keyword_args \<Rightarrow> keyword_set" where
  "kw_insert_complex ks a = ks\<lparr>ks_keywords := insert (args_keyword a) (ks_keywords ks),
     ks_args := ks_args ks @ [a]\<rparr>"

definition kw_remove :: "keyword_set \<Rightarrow> keyword \<Rightarrow> keyword_set" where
  "kw_remove ks k = (let ks' = ks\<lparr>ks_keywords := ks_keywords ks - {k}\<rparr> in
     if is_complex k then ks'\<lparr>ks_args := filter (\<lambda>a. args_keyword a \<noteq> k) (ks_args ks')\<rparr> else ks')"

definition kw_get_args :: "keyword_set \<Rightarrow> keyword \<Rightarrow> keyword_args option" where
  "kw_get_args ks k = (if \<not> is_complex k \<or> k \<notin> ks_keywords ks then None
     else find (\<lambda>a. args_keyword a = k) (ks_args ks))"

definition kw_len :: "keyword_set \<Rightarrow> nat" where
  "kw_len ks = card (ks_keywords ks)"

definition kw_is_empty :: "keyword_set \<Rightarrow> bool" where
  "kw_is_empty ks = (ks_keywords ks = {})"

definition kw_clear :: "keyword_set \<Rightarrow> keyword_set" where
  "kw_clear ks = ks\<lparr>ks_keywords := {}, ks_args := []\<rparr>"

subsection \<open>The set interface and the arguments\<close>

text \<open>Every argument stored belongs to a keyword whose bit is set.\<close>

definition kw_inv :: "keyword_set \<Rightarrow> bool" where
  "kw_inv ks = (\<forall>a \<in> set (ks_args ks). args_keyword a \<in> ks_keywords ks)"

lemma kw_contains_simps [simp]:
  "\<not> kw_contains kw_new k"
  "kw_contains (kw_insert ks k') k \<longleftrightarrow> k = k' \<or> kw_contains ks k"
  "kw_contains (kw_insert_complex ks a) k \<longleftrightarrow> k = args_keyword a \<or> kw_contains ks k"
  "kw_contains (kw_remove ks k') k \<longleftrightarrow> k \<noteq> k' \<and> kw_contains ks k"
  "\<not> kw_contains (kw_clear ks) k"
  by (auto simp: kw_contains_def kw_new_def kw_insert_def kw_insert_complex_def kw_remove_def
      kw_clear_def Let_def)

lemma kw_inv_new: "kw_inv kw_new"
  by (simp add: kw_inv_def kw_new_def)

lemma kw_inv_insert: "kw_inv ks \<Longrightarrow> kw_inv (kw_insert ks k)"
  by (auto simp: kw_inv_def kw_insert_def)

lemma kw_inv_insert_complex: "kw_inv ks \<Longrightarrow> kw_inv (kw_insert_complex ks a)"
  by (auto simp: kw_inv_def kw_insert_complex_def)

lemma kw_inv_clear: "kw_inv (kw_clear ks)"
  by (simp add: kw_inv_def kw_clear_def)

lemma kw_inv_remove:
  assumes "kw_inv ks" "\<And>a. a \<in> set (ks_args ks) \<Longrightarrow> is_complex (args_keyword a)"
  shows "kw_inv (kw_remove ks k)"
proof (cases "is_complex k")
  case True
  then show ?thesis using assms(1) by (auto simp: kw_inv_def kw_remove_def Let_def)
next
  case False
  then show ?thesis using assms by (auto simp: kw_inv_def kw_remove_def Let_def)
qed

lemma kw_remove_insert: "\<not> kw_contains ks k \<Longrightarrow> \<not> is_complex k \<Longrightarrow> kw_remove (kw_insert ks k) k = ks"
  by (simp add: kw_remove_def kw_insert_def kw_contains_def)

lemma kw_insert_remove: "kw_contains ks k \<Longrightarrow> \<not> is_complex k \<Longrightarrow> kw_insert (kw_remove ks k) k = ks"
  by (simp add: kw_remove_def kw_insert_def kw_contains_def insert_absorb)

lemma kw_get_args_insert_complex:
  assumes "is_complex (args_keyword a)" "\<not> kw_contains ks (args_keyword a)" "kw_inv ks"
  shows "kw_get_args (kw_insert_complex ks a) (args_keyword a) = Some a"
proof -
  have "find (\<lambda>b. args_keyword b = args_keyword a) (ks_args ks) = None"
    using assms(2,3) by (auto simp: find_None_iff kw_inv_def kw_contains_def)
  then have "find (\<lambda>b. args_keyword b = args_keyword a) (ks_args ks @ [a]) = Some a"
    by (simp add: find_append_None)
  then show ?thesis
    using assms(1) by (simp add: kw_get_args_def kw_insert_complex_def)
qed

text \<open>One variant of \<open>KeywordArgs\<close> belongs to a keyword that \<open>is_complex\<close> does not list.\<close>

lemma must_be_blocked_not_complex:
  "\<not> is_complex (args_keyword (KeywordArgs ''MustBeBlockedByAllFiltered'' fs))"
proof -
  have "\<not> is_complex ''MustBeBlockedByAll''" by code_simp
  then show ?thesis by simp
qed

end
