(* ===== verification/Counters.thy ===== *)
theory Counters
  imports Prelude
begin

section \<open>Counter types\<close>

text \<open>
  The \<open>CounterType\<close> enum of \<open>mtg-engine/src/core/types.rs\<close> with its display names, its parser and
  its classification. A counter type is the name of its variant; the tables are the arms of the
  three \<open>match\<close> expressions.
\<close>

type_synonym counter_type = string

abbreviation P1P1 :: counter_type where "P1P1 \<equiv> ''P1P1''"

abbreviation M1M1 :: counter_type where "M1M1 \<equiv> ''M1M1''"

abbreviation Loyalty :: counter_type where "Loyalty \<equiv> ''Loyalty''"

definition counter_type_variants :: "counter_type list" where
  "counter_type_variants =
    [''M1M1'', ''P1P1'', ''M0M1'', ''M0M2'', ''M1M0'', ''M2M1'', ''M2M2'', ''P0P1'', ''P0P2'',
     ''P1P0'', ''P1P2'', ''P2P0'', ''P2P2'', ''Loyalty'', ''Acorn'', ''Aegis'', ''Age'', ''Aim'',
     ''Arrow'', ''Arrowhead'', ''Awakening'', ''Bait'', ''Blaze'', ''Blessing'', ''Blight'',
     ''Blood'', ''Bloodline'', ''Bloodstain'', ''Bore'', ''Bounty'', ''Brain'', ''Bribery'',
     ''Brick'', ''Burden'', ''Cage'', ''Carrion'', ''Cell'', ''Charge'', ''Chorus'', ''Coin'',
     ''Collection'', ''Component'', ''Contested'', ''Corpse'', ''Corruption'', ''Croak'',
     ''Credit'', ''Crystal'', ''Cube'', ''Currency'', ''Death'', ''Defense'', ''Delay'',
     ''Depletion'', ''Descent'', ''Despair'', ''Devotion'', ''Discovery'', ''Divinity'',
     ''Doom'', ''Dread'', ''Dream'', ''Duty'', ''Echo'', ''Egg'', ''Elixir'', ''Ember'', ''Eon'',
     ''Eruption'', ''Exposure'', ''Eyeball'', ''Eyestalk'', ''Everything'', ''Fade'', ''Fate'',
     ''Feather'', ''Feeding'', ''Fellowship'', ''Fetch'', ''Filibuster'', ''Film'', ''Finality'',
     ''Fire'', ''Flame'', ''Flavor'', ''Flood'', ''Foreshadow'', ''Fungus'', ''Funk'', ''Fury'',
     ''Fuse'', ''Gem'', ''Ghostform'', ''Glyph'', ''Gold'', ''Growth'', ''Harmony'',
     ''Hatching'', ''Hatchling'', ''Healing'', ''Hit'', ''Hone'', ''Hope'', ''Hoofprint'',
     ''Hour'', ''Hourglass'', ''Hunger'', ''Husk'', ''Ice'', ''Impostor'', ''Incarnation'',
     ''Incubation'', ''Ingredient'', ''Infection'', ''Influence'', ''Ingenuity'', ''Intel'',
     ''Intervention'', ''Invitation'', ''Isolation'', ''Javelin'', ''Judgment'', ''Ki'',
     ''Kick'', ''Knowledge'', ''Landmark'', ''Level'', ''Loot'', ''Lore'', ''Luck'',
     ''Manabond'', ''Magnet'', ''Mana'', ''Manifestation'', ''Mannequin'', ''Matrix'',
     ''Memory'', ''Midway'', ''Mine'', ''Mining'', ''Mire'', ''Music'', ''Muster'',
     ''Necrodermis'', ''Net'', ''Nest'', ''Oil'', ''Omen'', ''Ore'', ''Page'', ''Pain'',
     ''Paralyzation'', ''Petal'', ''Petrification'', ''Pin'', ''Plague'', ''Plot'', ''Pressure'',
     ''Phylactery'', ''Phyresis'', ''Point'', ''Polyp'', ''Possession'', ''Prey'', ''Pupa'',
     ''Quest'', ''Rally'', ''Release'', ''Reprieve'', ''Rejection'', ''Rev'', ''Revival'',
     ''Ribbon'', ''Ritual'', ''Rope'', ''Rust'', ''Scream'', ''Scroll'', ''Shell'', ''Shield'',
     ''Shred'', ''Silver'', ''Skewer'', ''Sleep'', ''Slumber'', ''Sleight'', ''Slime'', ''Soul'',
     ''Soot'', ''Spite'', ''Spore'', ''Stash'', ''Storage'', ''Story'', ''Strife'', ''Study'',
     ''Stun'', ''Supply'', ''Takeover'', ''Task'', ''Theft'', ''Tide'', ''Time'', ''Tower'',
     ''Training'', ''Trap'', ''Treasure'', ''Unity'', ''Unlock'', ''Valor'', ''Velocity'',
     ''Verse'', ''Vitality'', ''Vortex'', ''Voyage'', ''Wage'', ''Winch'', ''Wind'', ''Wish'',
     ''Wreck'', ''Energy'', ''Experience'', ''Poison'', ''Rad'', ''Ticket'']"

definition display_table :: "(counter_type \<times> string) list" where
  "display_table =
    [(''M1M1'', ''-1/-1''), (''P1P1'', ''+1/+1''), (''M0M1'', ''-0/-1''), (''M0M2'', ''-0/-2''),
     (''M1M0'', ''-1/-0''), (''M2M1'', ''-2/-1''), (''M2M2'', ''-2/-2''), (''P0P1'', ''+0/+1''),
     (''P0P2'', ''+0/+2''), (''P1P0'', ''+1/+0''), (''P1P2'', ''+1/+2''), (''P2P0'', ''+2/+0''),
     (''P2P2'', ''+2/+2''), (''Loyalty'', ''LOYAL''), (''Acorn'', ''ACORN''),
     (''Aegis'', ''AEGIS''), (''Age'', ''AGE''), (''Aim'', ''AIM''), (''Arrow'', ''ARROW''),
     (''Arrowhead'', ''ARWHD''), (''Awakening'', ''AWAKE''), (''Bait'', ''BAIT''),
     (''Blaze'', ''BLAZE''), (''Blessing'', ''BLESS''), (''Blight'', ''BLGHT''),
     (''Blood'', ''BLOOD''), (''Bloodline'', ''BLDLN''), (''Bloodstain'', ''BLDST''),
     (''Bore'', ''BORE''), (''Bounty'', ''BOUNT''), (''Brain'', ''BRAIN''),
     (''Bribery'', ''BRIBE''), (''Brick'', ''BRICK''), (''Burden'', ''BURDEN''),
     (''Cage'', ''CAGE''), (''Carrion'', ''CRRON''), (''Cell'', ''CELL''),
     (''Charge'', ''CHARG''), (''Chorus'', ''CHRUS''), (''Coin'', ''COIN''),
     (''Collection'', ''CLLCT''), (''Component'', ''COMPN''), (''Contested'', ''CONTES''),
     (''Corpse'', ''CRPSE''), (''Corruption'', ''CRPTN''), (''Croak'', ''CROAK''),
     (''Credit'', ''CRDIT''), (''Crystal'', ''CRYST''), (''Cube'', ''CUBE''),
     (''Currency'', ''CURR''), (''Death'', ''DEATH''), (''Defense'', ''DEF''),
     (''Delay'', ''DELAY''), (''Depletion'', ''DPLT''), (''Descent'', ''DESCT''),
     (''Despair'', ''DESPR''), (''Devotion'', ''DEVOT''), (''Discovery'', ''DISCO''),
     (''Divinity'', ''DVNTY''), (''Doom'', ''DOOM''), (''Dread'', ''DREAD''),
     (''Dream'', ''DREAM''), (''Duty'', ''DUTY''), (''Echo'', ''ECHO''), (''Egg'', ''EGG''),
     (''Elixir'', ''ELIXR''), (''Ember'', ''EMBER''), (''Eon'', ''EON''),
     (''Eruption'', ''ERUPTION''), (''Exposure'', ''EXPOSURE''), (''Eyeball'', ''EYE''),
     (''Eyestalk'', ''EYES''), (''Everything'', ''EVRY''), (''Fade'', ''FADE''),
     (''Fate'', ''FATE''), (''Feather'', ''FTHR''), (''Feeding'', ''FEED''),
     (''Fellowship'', ''FLWS''), (''Fetch'', ''FETCH''), (''Filibuster'', ''FLBTR''),
     (''Film'', ''FILM''), (''Finality'', ''FINAL''), (''Fire'', ''FIRE''),
     (''Flame'', ''FLAME''), (''Flavor'', ''FLAVOR''), (''Flood'', ''FLOOD''),
     (''Foreshadow'', ''FRSHD''), (''Fungus'', ''FNGUS''), (''Funk'', ''FUNK''),
     (''Fury'', ''FURY''), (''Fuse'', ''FUSE''), (''Gem'', ''GEM''), (''Ghostform'', ''GHSTF''),
     (''Glyph'', ''GLYPH''), (''Gold'', ''GOLD''), (''Growth'', ''GRWTH''),
     (''Harmony'', ''HRMNY''), (''Hatching'', ''HATCH''), (''Hatchling'', ''HTCHL''),
     (''Healing'', ''HEAL''), (''Hit'', ''HIT''), (''Hone'', ''HONE''), (''Hope'', ''HOPE''),
     (''Hoofprint'', ''HOOF''), (''Hour'', ''HOUR''), (''Hourglass'', ''HRGLS''),
     (''Hunger'', ''HUNGR''), (''Husk'', ''HUSK''), (''Ice'', ''ICE''), (''Impostor'', ''IMPO''),
     (''Incarnation'', ''INCRN''), (''Incubation'', ''INCBT''), (''Ingredient'', ''INGRD''),
     (''Infection'', ''INFCT''), (''Influence'', ''INFL''), (''Ingenuity'', ''INGTY''),
     (''Intel'', ''INTEL''), (''Intervention'', ''INTRV''), (''Invitation'', ''INVIT''),
     (''Isolation'', ''ISOLT''), (''Javelin'', ''JAVLN''), (''Judgment'', ''JUDGM''),
     (''Ki'', ''KI''), (''Kick'', ''KICK''), (''Knowledge'', ''KNOWL''),
     (''Landmark'', ''LNMRK''), (''Level'', ''LEVEL''), (''Loot'', ''LOOT''),
     (''Lore'', ''LORE''), (''Luck'', ''LUCK''), (''Manabond'', ''MANA''),
     (''Magnet'', ''MAGNT''), (''Mana'', ''MANA''), (''Manifestation'', ''MNFST''),
     (''Mannequin'', ''MANQN''), (''Matrix'', ''MATRX''), (''Memory'', ''MEMRY''),
     (''Midway'', ''MDWAY''), (''Mine'', ''MINE''), (''Mining'', ''MINNG''),
     (''Mire'', ''MIRE''), (''Music'', ''MUSIC''), (''Muster'', ''MUSTR''),
     (''Necrodermis'', ''NECRO''), (''Net'', ''NET''), (''Nest'', ''NEST''), (''Oil'', ''OIL''),
     (''Omen'', ''OMEN''), (''Ore'', ''ORE''), (''Page'', ''PAGE''), (''Pain'', ''PAIN''),
     (''Paralyzation'', ''PRLYZ''), (''Petal'', ''PETAL''), (''Petrification'', ''PETRI''),
     (''Pin'', ''PIN''), (''Plague'', ''PLGUE''), (''Plot'', ''PLOT''),
     (''Pressure'', ''PRESS''), (''Phylactery'', ''PHYLA''), (''Phyresis'', ''PHYRE''),
     (''Point'', ''POINT''), (''Polyp'', ''POLYP''), (''Possession'', ''POSSN''),
     (''Prey'', ''PREY''), (''Pupa'', ''PUPA''), (''Quest'', ''QUEST''), (''Rally'', ''RALLY''),
     (''Release'', ''RELEASE''), (''Reprieve'', ''REPR''), (''Rejection'', ''REJECT''),
     (''Rev'', ''REV''), (''Revival'', ''REVIVL''), (''Ribbon'', ''RIBBON''),
     (''Ritual'', ''RITUAL''), (''Rope'', ''ROPE''), (''Rust'', ''RUST''),
     (''Scream'', ''SCREM''), (''Scroll'', ''SCRLL''), (''Shell'', ''SHELL''),
     (''Shield'', ''SHLD''), (''Shred'', ''SHRED''), (''Silver'', ''SILVER''),
     (''Skewer'', ''SKEWER''), (''Sleep'', ''SLEEP''), (''Slumber'', ''SLMBR''),
     (''Sleight'', ''SLGHT''), (''Slime'', ''SLIME''), (''Soul'', ''SOUL''),
     (''Soot'', ''SOOT''), (''Spite'', ''SPITE''), (''Spore'', ''SPORE''),
     (''Stash'', ''STASH''), (''Storage'', ''STORG''), (''Story'', ''STORY''),
     (''Strife'', ''STRFE''), (''Study'', ''STUDY''), (''Stun'', ''STUN''),
     (''Supply'', ''SPPLY''), (''Takeover'', ''TKVR''), (''Task'', ''TASK''),
     (''Theft'', ''THEFT''), (''Tide'', ''TIDE''), (''Time'', ''TIME''), (''Tower'', ''TOWER''),
     (''Training'', ''TRAIN''), (''Trap'', ''TRAP''), (''Treasure'', ''TRSUR''),
     (''Unity'', ''UNITY''), (''Unlock'', ''UNLCK''), (''Valor'', ''VALOR''),
     (''Velocity'', ''VELO''), (''Verse'', ''VERSE''), (''Vitality'', ''VITAL''),
     (''Vortex'', ''VORTX''), (''Voyage'', ''VOYAGE''), (''Wage'', ''WAGE''),
     (''Winch'', ''WINCH''), (''Wind'', ''WIND''), (''Wish'', ''WISH''), (''Wreck'', ''WRECK''),
     (''Energy'', ''ENRGY''), (''Experience'', ''EXP''), (''Poison'', ''POISN''),
     (''Rad'', ''RAD''), (''Ticket'', ''TICKET'')]"

definition display_name :: "counter_type \<Rightarrow> string" where
  "display_name c = the (map_of display_table c)"

definition parse_table :: "(string \<times> counter_type) list" where
  "parse_table =
    [(''M1M1'', ''M1M1''), (''P1P1'', ''P1P1''), (''M0M1'', ''M0M1''), (''M0M2'', ''M0M2''),
     (''M1M0'', ''M1M0''), (''M2M1'', ''M2M1''), (''M2M2'', ''M2M2''), (''P0P1'', ''P0P1''),
     (''P0P2'', ''P0P2''), (''P1P0'', ''P1P0''), (''P1P2'', ''P1P2''), (''P2P0'', ''P2P0''),
     (''P2P2'', ''P2P2''), (''LOYAL'', ''Loyalty''), (''LOYALTY'', ''Loyalty''),
     (''ACORN'', ''Acorn''), (''AEGIS'', ''Aegis''), (''AGE'', ''Age''), (''AIM'', ''Aim''),
     (''ARROW'', ''Arrow''), (''ARWHD'', ''Arrowhead''), (''ARROWHEAD'', ''Arrowhead''),
     (''AWAKE'', ''Awakening''), (''AWAKENING'', ''Awakening''), (''BAIT'', ''Bait''),
     (''BLAZE'', ''Blaze''), (''BLESS'', ''Blessing''), (''BLESSING'', ''Blessing''),
     (''BLGHT'', ''Blight''), (''BLIGHT'', ''Blight''), (''BLOOD'', ''Blood''),
     (''BLDLN'', ''Bloodline''), (''BLOODLINE'', ''Bloodline''), (''BLDST'', ''Bloodstain''),
     (''BLOODSTAIN'', ''Bloodstain''), (''BORE'', ''Bore''), (''BOUNT'', ''Bounty''),
     (''BOUNTY'', ''Bounty''), (''BRAIN'', ''Brain''), (''BRIBE'', ''Bribery''),
     (''BRIBERY'', ''Bribery''), (''BRICK'', ''Brick''), (''BURDEN'', ''Burden''),
     (''CAGE'', ''Cage''), (''CRRON'', ''Carrion''), (''CARRION'', ''Carrion''),
     (''CELL'', ''Cell''), (''CHARG'', ''Charge''), (''CHARGE'', ''Charge''),
     (''CHRUS'', ''Chorus''), (''CHORUS'', ''Chorus''), (''COIN'', ''Coin''),
     (''CLLCT'', ''Collection''), (''COLLECTION'', ''Collection''), (''COMPN'', ''Component''),
     (''COMPONENT'', ''Component''), (''CONTES'', ''Contested''), (''CONTESTED'', ''Contested''),
     (''CRPSE'', ''Corpse''), (''CORPSE'', ''Corpse''), (''CRPTN'', ''Corruption''),
     (''CORRUPTION'', ''Corruption''), (''CROAK'', ''Croak''), (''CRDIT'', ''Credit''),
     (''CREDIT'', ''Credit''), (''CRYST'', ''Crystal''), (''CRYSTAL'', ''Crystal''),
     (''CUBE'', ''Cube''), (''CURR'', ''Currency''), (''CURRENCY'', ''Currency''),
     (''DEATH'', ''Death''), (''DEF'', ''Defense''), (''DEFENSE'', ''Defense''),
     (''DELAY'', ''Delay''), (''DPLT'', ''Depletion''), (''DEPLETION'', ''Depletion''),
     (''DESCT'', ''Descent''), (''DESCENT'', ''Descent''), (''DESPR'', ''Despair''),
     (''DESPAIR'', ''Despair''), (''DEVOT'', ''Devotion''), (''DEVOTION'', ''Devotion''),
     (''DISCO'', ''Discovery''), (''DISCOVERY'', ''Discovery''), (''DVNTY'', ''Divinity''),
     (''DIVINITY'', ''Divinity''), (''DOOM'', ''Doom''), (''DREAD'', ''Dread''),
     (''DREAM'', ''Dream''), (''DUTY'', ''Duty''), (''ECHO'', ''Echo''), (''EGG'', ''Egg''),
     (''ELIXR'', ''Elixir''), (''ELIXIR'', ''Elixir''), (''EMBER'', ''Ember''),
     (''EON'', ''Eon''), (''ERUPTION'', ''Eruption''), (''EXPOSURE'', ''Exposure''),
     (''EYE'', ''Eyeball''), (''EYEBALL'', ''Eyeball''), (''EYES'', ''Eyestalk''),
     (''EYESTALK'', ''Eyestalk''), (''EVRY'', ''Everything''), (''EVERYTHING'', ''Everything''),
     (''FADE'', ''Fade''), (''FATE'', ''Fate''), (''FTHR'', ''Feather''),
     (''FEATHER'', ''Feather''), (''FEED'', ''Feeding''), (''FEEDING'', ''Feeding''),
     (''FLWS'', ''Fellowship''), (''FELLOWSHIP'', ''Fellowship''), (''FETCH'', ''Fetch''),
     (''FLBTR'', ''Filibuster''), (''FILIBUSTER'', ''Filibuster''), (''FILM'', ''Film''),
     (''FINAL'', ''Finality''), (''FINALITY'', ''Finality''), (''FIRE'', ''Fire''),
     (''FLAME'', ''Flame''), (''FLAVOR'', ''Flavor''), (''FLOOD'', ''Flood''),
     (''FRSHD'', ''Foreshadow''), (''FORESHADOW'', ''Foreshadow''), (''FNGUS'', ''Fungus''),
     (''FUNGUS'', ''Fungus''), (''FUNK'', ''Funk''), (''FURY'', ''Fury''), (''FUSE'', ''Fuse''),
     (''GEM'', ''Gem''), (''GHSTF'', ''Ghostform''), (''GHOSTFORM'', ''Ghostform''),
     (''GLYPH'', ''Glyph''), (''GOLD'', ''Gold''), (''GRWTH'', ''Growth''),
     (''GROWTH'', ''Growth''), (''HRMNY'', ''Harmony''), (''HARMONY'', ''Harmony''),
     (''HATCH'', ''Hatching''), (''HATCHING'', ''Hatching''), (''HTCHL'', ''Hatchling''),
     (''HATCHLING'', ''Hatchling''), (''HEAL'', ''Healing''), (''HEALING'', ''Healing''),
     (''HIT'', ''Hit''), (''HONE'', ''Hone''), (''HOPE'', ''Hope''), (''HOOF'', ''Hoofprint''),
     (''HOOFPRINT'', ''Hoofprint''), (''HOUR'', ''Hour''), (''HRGLS'', ''Hourglass''),
     (''HOURGLASS'', ''Hourglass''), (''HUNGR'', ''Hunger''), (''HUNGER'', ''Hunger''),
     (''HUSK'', ''Husk''), (''ICE'', ''Ice''), (''IMPO'', ''Impostor''),
     (''IMPOSTOR'', ''Impostor''), (''INCRN'', ''Incarnation''),
     (''INCARNATION'', ''Incarnation''), (''INCBT'', ''Incubation''),
     (''INCUBATION'', ''Incubation''), (''INGRD'', ''Ingredient''),
     (''INGREDIENT'', ''Ingredient''), (''INFCT'', ''Infection''),
     (''INFECTION'', ''Infection''), (''INFL'', ''Influence''), (''INFLUENCE'', ''Influence''),
     (''INGTY'', ''Ingenuity''), (''INGENUITY'', ''Ingenuity''), (''INTEL'', ''Intel''),
     (''INTRV'', ''Intervention''), (''INTERVENTION'', ''Intervention''),
     (''INVIT'', ''Invitation''), (''INVITATION'', ''Invitation''), (''ISOLT'', ''Isolation''),
     (''ISOLATION'', ''Isolation''), (''JAVLN'', ''Javelin''), (''JAVELIN'', ''Javelin''),
     (''JUDGM'', ''Judgment''), (''JUDGMENT'', ''Judgment''), (''KI'', ''Ki''),
     (''KICK'', ''Kick''), (''KNOWL'', ''Knowledge''), (''KNOWLEDGE'', ''Knowledge''),
     (''LNMRK'', ''Landmark''), (''LANDMARK'', ''Landmark''), (''LEVEL'', ''Level''),
     (''LOOT'', ''Loot''), (''LORE'', ''Lore''), (''LUCK'', ''Luck''), (''MAGNT'', ''Magnet''),
     (''MAGNET'', ''Magnet''), (''MANA'', ''Mana''), (''MANABOND'', ''Mana''),
     (''MNFST'', ''Manifestation''), (''MANIFESTATION'', ''Manifestation''),
     (''MANQN'', ''Mannequin''), (''MANNEQUIN'', ''Mannequin''), (''MATRX'', ''Matrix''),
     (''MATRIX'', ''Matrix''), (''MEMRY'', ''Memory''), (''MEMORY'', ''Memory''),
     (''MDWAY'', ''Midway''), (''MIDWAY'', ''Midway''), (''MINE'', ''Mine''),
     (''MINNG'', ''Mining''), (''MINING'', ''Mining''), (''MIRE'', ''Mire''),
     (''MUSIC'', ''Music''), (''MUSTR'', ''Muster''), (''MUSTER'', ''Muster''),
     (''NECRO'', ''Necrodermis''), (''NECRODERMIS'', ''Necrodermis''), (''NET'', ''Net''),
     (''NEST'', ''Nest''), (''OIL'', ''Oil''), (''OMEN'', ''Omen''), (''ORE'', ''Ore''),
     (''PAGE'', ''Page''), (''PAIN'', ''Pain''), (''PRLYZ'', ''Paralyzation''),
     (''PARALYZATION'', ''Paralyzation''), (''PETAL'', ''Petal''),
     (''PETRI'', ''Petrification''), (''PETRIFICATION'', ''Petrification''), (''PIN'', ''Pin''),
     (''PLGUE'', ''Plague''), (''PLAGUE'', ''Plague''), (''PLOT'', ''Plot''),
     (''PRESS'', ''Pressure''), (''PRESSURE'', ''Pressure''), (''PHYLA'', ''Phylactery''),
     (''PHYLACTERY'', ''Phylactery''), (''PHYRE'', ''Phyresis''), (''PHYRESIS'', ''Phyresis''),
     (''POINT'', ''Point''), (''POLYP'', ''Polyp''), (''POSSN'', ''Possession''),
     (''POSSESSION'', ''Possession''), (''PREY'', ''Prey''), (''PUPA'', ''Pupa''),
     (''QUEST'', ''Quest''), (''RALLY'', ''Rally''), (''RELEASE'', ''Release''),
     (''REPR'', ''Reprieve''), (''REPRIEVE'', ''Reprieve''), (''REJECT'', ''Rejection''),
     (''REJECTION'', ''Rejection''), (''REV'', ''Rev''), (''REVIVL'', ''Revival''),
     (''REVIVAL'', ''Revival''), (''RIBBON'', ''Ribbon''), (''RITUAL'', ''Ritual''),
     (''ROPE'', ''Rope''), (''RUST'', ''Rust''), (''SCREM'', ''Scream''),
     (''SCREAM'', ''Scream''), (''SCRLL'', ''Scroll''), (''SCROLL'', ''Scroll''),
     (''SHELL'', ''Shell''), (''SHLD'', ''Shield''), (''SHIELD'', ''Shield''),
     (''SHRED'', ''Shred''), (''SILVER'', ''Silver''), (''SKEWER'', ''Skewer''),
     (''SLEEP'', ''Sleep''), (''SLMBR'', ''Slumber''), (''SLUMBER'', ''Slumber''),
     (''SLGHT'', ''Sleight''), (''SLEIGHT'', ''Sleight''), (''SLIME'', ''Slime''),
     (''SOUL'', ''Soul''), (''SOOT'', ''Soot''), (''SPITE'', ''Spite''), (''SPORE'', ''Spore''),
     (''STASH'', ''Stash''), (''STORG'', ''Storage''), (''STORAGE'', ''Storage''),
     (''STORY'', ''Story''), (''STRFE'', ''Strife''), (''STRIFE'', ''Strife''),
     (''STUDY'', ''Study''), (''STUN'', ''Stun''), (''SPPLY'', ''Supply''),
     (''SUPPLY'', ''Supply''), (''TKVR'', ''Takeover''), (''TAKEOVER'', ''Takeover''),
     (''TASK'', ''Task''), (''THEFT'', ''Theft''), (''TIDE'', ''Tide''), (''TIME'', ''Time''),
     (''TOWER'', ''Tower''), (''TRAIN'', ''Training''), (''TRAINING'', ''Training''),
     (''TRAP'', ''Trap''), (''TRSUR'', ''Treasure''), (''TREASURE'', ''Treasure''),
     (''UNITY'', ''Unity''), (''UNLCK'', ''Unlock''), (''UNLOCK'', ''Unlock''),
     (''VALOR'', ''Valor''), (''VELO'', ''Velocity''), (''VELOCITY'', ''Velocity''),
     (''VERSE'', ''Verse''), (''VITAL'', ''Vitality''), (''VITALITY'', ''Vitality''),
     (''VORTX'', ''Vortex''), (''VORTEX'', ''Vortex''), (''VOYAGE'', ''Voyage''),
     (''WAGE'', ''Wage''), (''WINCH'', ''Winch''), (''WIND'', ''Wind''), (''WISH'', ''Wish''),
     (''WRECK'', ''Wreck''), (''ENRGY'', ''Energy''), (''ENERGY'', ''Energy''),
     (''EXP'', ''Experience''), (''EXPERIENCE'', ''Experience''), (''POISN'', ''Poison''),
     (''POISON'', ''Poison''), (''RAD'', ''Rad''), (''TICKET'', ''Ticket'')]"

text \<open>\<open>replace('/', "")\<close>, \<open>replace('+', "P")\<close>, \<open>replace('-', "M")\<close>, then \<open>to_uppercase\<close> (ASCII).\<close>

definition to_upper_char :: "char \<Rightarrow> char" where
  "to_upper_char ch = (if 97 \<le> (of_char ch :: nat) \<and> (of_char ch :: nat) \<le> 122
     then char_of ((of_char ch :: nat) - 32) else ch)"

definition counter_normalize :: "string \<Rightarrow> string" where
  "counter_normalize s = map to_upper_char
     (map (\<lambda>ch. if ch = CHR ''-'' then CHR ''M'' else ch)
       (map (\<lambda>ch. if ch = CHR ''+'' then CHR ''P'' else ch)
         (filter (\<lambda>ch. ch \<noteq> CHR ''/'') s)))"

definition counter_parse :: "string \<Rightarrow> counter_type option" where
  "counter_parse s = map_of parse_table (counter_normalize s)"

definition is_player_counter :: "counter_type \<Rightarrow> bool" where
  "is_player_counter c = (c \<in> {''Energy'', ''Experience'', ''Poison'', ''Rad'', ''Ticket''})"

definition is_power_toughness_modifier :: "counter_type \<Rightarrow> bool" where
  "is_power_toughness_modifier c = (c \<in> {''M1M1'', ''P1P1'', ''M0M1'', ''M0M2'', ''M1M0'', ''M2M1'',
     ''M2M2'', ''P0P1'', ''P0P2'', ''P1P0'', ''P1P2'', ''P2P0'', ''P2P2''})"

definition power_toughness_table :: "(counter_type \<times> i32 \<times> i32) list" where
  "power_toughness_table =
    [(''M1M1'', - 1, - 1), (''P1P1'', 1, 1), (''M0M1'', 0, - 1), (''M0M2'', 0, - 2),
     (''M1M0'', - 1, 0), (''M2M1'', - 2, - 1), (''M2M2'', - 2, - 2), (''P0P1'', 0, 1),
     (''P0P2'', 0, 2), (''P1P0'', 1, 0), (''P1P2'', 1, 2), (''P2P0'', 2, 0), (''P2P2'', 2, 2)]"

definition power_toughness_mod :: "counter_type \<Rightarrow> (i32 \<times> i32) option" where
  "power_toughness_mod c = map_of power_toughness_table c"

lemma power_toughness_mod_iff: "power_toughness_mod c \<noteq> None \<longleftrightarrow> is_power_toughness_modifier c"
  by (auto simp: power_toughness_mod_def map_of_eq_None_iff power_toughness_table_def
      is_power_toughness_modifier_def)

text \<open>The parser never yields \<open>Manabond\<close>: no arm of the \<open>match\<close> names it.\<close>

lemma parse_table_no_manabond: "list_all (\<lambda>(n, c). c \<noteq> ''Manabond'') parse_table"
  by code_simp

lemma display_manabond: "display_name ''Manabond'' = display_name ''Mana''"
  by code_simp

lemma counter_parse_not_manabond: "counter_parse s \<noteq> Some ''Manabond''"
proof
  assume "counter_parse s = Some ''Manabond''"
  then have "(counter_normalize s, ''Manabond'') \<in> set parse_table"
    by (simp add: counter_parse_def map_of_SomeD)
  then have "(\<lambda>(n, c). c \<noteq> ''Manabond'') (counter_normalize s, ''Manabond'')"
    using parse_table_no_manabond by (rule list_all_iff [THEN iffD1, THEN bspec, rotated])
  then show False by simp
qed

end
