(* ===== verification/Costs.thy ===== *)
theory Costs
  imports Mana Keywords Counters
begin

section \<open>Activation costs\<close>

text \<open>
  \<open>mtg-engine/src/core/costs.rs\<close>: the cost of an activated ability, the parser of cost strings
  (single components and composites) and the queries that recurse through composites. The
  string functions of the standard library the parser uses come first.
\<close>

datatype cost =
    CTap
  | CUntap
  | CMana mana_cost
  | CTapAndMana mana_cost
  | CSacrifice card_id
  | CSacrificePattern u8 string
  | CPayLife i32
  | CDiscard card_id
  | CDiscardHand
  | CComposite "cost list"
  | CWaterbend u8
  | CAddLoyalty u8
  | CSubLoyalty u8
  | CSubCounter u8 counter_type

subsection \<open>String functions\<close>

definition starts_with :: "string \<Rightarrow> string \<Rightarrow> bool" where
  "starts_with p s = (take (length p) s = p)"

definition ends_with :: "string \<Rightarrow> string \<Rightarrow> bool" where
  "ends_with p s = (drop (length s - length p) s = p \<and> length p \<le> length s)"

fun has_substring :: "string \<Rightarrow> string \<Rightarrow> bool" where
  "has_substring p [] = (p = [])"
| "has_substring p (c # cs) = (starts_with p (c # cs) \<or> has_substring p cs)"

definition strip_prefix :: "string \<Rightarrow> string \<Rightarrow> string option" where
  "strip_prefix p s = (if starts_with p s then Some (drop (length p) s) else None)"

definition strip_suffix :: "string \<Rightarrow> string \<Rightarrow> string option" where
  "strip_suffix p s = (if ends_with p s then Some (take (length s - length p) s) else None)"

text \<open>The text between a prefix and a suffix: \<open>strip_prefix(..).and_then(strip_suffix(..))\<close>.\<close>

definition between :: "string \<Rightarrow> string \<Rightarrow> string \<Rightarrow> string option" where
  "between p q s = Option.bind (strip_prefix p s) (strip_suffix q)"

fun split_on :: "char \<Rightarrow> string \<Rightarrow> string list" where
  "split_on d [] = [[]]"
| "split_on d (c # cs) = (case split_on d cs of
     [] \<Rightarrow> [[c]]
   | w # ws \<Rightarrow> if c = d then [] # w # ws else (c # w) # ws)"

text \<open>The loop that splits at white space outside angle brackets: token so far and tokens.\<close>

fun split_tokens :: "string \<Rightarrow> bool \<Rightarrow> string \<Rightarrow> string list" where
  "split_tokens cur inb [] = (if cur = [] then [] else [cur])"
| "split_tokens cur inb (ch # cs) =
     (if ch = CHR ''<'' then split_tokens (cur @ [ch]) True cs
      else if ch = CHR ''>'' then split_tokens (cur @ [ch]) False cs
      else if is_space ch \<and> \<not> inb
        then (if cur = [] then split_tokens [] inb cs else cur # split_tokens [] inb cs)
      else split_tokens (cur @ [ch]) inb cs)"

fun split_whitespace :: "string \<Rightarrow> string \<Rightarrow> string list" where
  "split_whitespace cur [] = (if cur = [] then [] else [cur])"
| "split_whitespace cur (ch # cs) =
     (if is_space ch then (if cur = [] then split_whitespace [] cs else cur # split_whitespace [] cs)
      else split_whitespace (cur @ [ch]) cs)"

fun join_with :: "string \<Rightarrow> string list \<Rightarrow> string" where
  "join_with sep [] = []"
| "join_with sep [w] = w"
| "join_with sep (w # ws) = w @ sep @ join_with sep ws"

text \<open>\<open>str::parse::<u8>\<close> (an optional plus sign, digits, in range) and \<open>parse::<i32>\<close>.\<close>

definition parse_u8_signed :: "string \<Rightarrow> u8 option" where
  "parse_u8_signed s = (let ds = (if starts_with ''+'' s then drop 1 s else s) in
     if ds \<noteq> [] \<and> list_all is_digit ds then parse_u8 ds else None)"

definition parse_i32 :: "string \<Rightarrow> i32 option" where
  "parse_i32 s =
     (let neg = starts_with ''-'' s;
          ds = (if neg \<or> starts_with ''+'' s then drop 1 s else s) in
      if ds = [] \<or> \<not> list_all is_digit ds then None
      else let v = digits_value ds in
        if neg then (if v \<le> 2147483648 then Some (- of_nat v) else None)
        else (if v < 2147483648 then Some (of_nat v) else None))"

definition is_mana_char :: "char \<Rightarrow> bool" where
  "is_mana_char c = (is_digit c \<or> c \<in> set ''WUBRG'')"

subsection \<open>The parser\<close>

definition parse_sacrifice :: "string \<Rightarrow> cost option" where
  "parse_sacrifice t = Option.bind (between ''Sac<'' ''>'' t) (\<lambda>spec.
     case split_on (CHR ''/'') spec of
       n # ty # _ \<Rightarrow> (case parse_u8_signed n of
           Some cnt \<Rightarrow> Some (CSacrificePattern cnt ty) | None \<Rightarrow> None)
     | _ \<Rightarrow> None)"

definition parse_pay_life :: "string \<Rightarrow> cost option" where
  "parse_pay_life t = Option.bind (between ''PayLife<'' ''>'' t) (\<lambda>a. map_option CPayLife (parse_i32 a))"

definition parse_add_loyalty :: "string \<Rightarrow> cost option" where
  "parse_add_loyalty t = (if \<not> has_substring ''LOYALTY'' t then None
     else Option.bind (between ''AddCounter<'' ''>'' t) (\<lambda>spec.
       map_option CAddLoyalty (parse_u8_signed (hd (split_on (CHR ''/'') spec)))))"

definition parse_sub_loyalty :: "string \<Rightarrow> cost option" where
  "parse_sub_loyalty t = (if \<not> has_substring ''LOYALTY'' t then None
     else Option.bind (between ''SubCounter<'' ''>'' t) (\<lambda>spec.
       map_option CSubLoyalty (parse_u8_signed (hd (split_on (CHR ''/'') spec)))))"

definition parse_sub_counter :: "string \<Rightarrow> cost option" where
  "parse_sub_counter t = Option.bind (between ''SubCounter<'' ''>'' t) (\<lambda>spec.
     case split_on (CHR ''/'') spec of
       n # ty # _ \<Rightarrow> (case (parse_u8_signed n, counter_parse ty) of
           (Some a, Some ct) \<Rightarrow> Some (CSubCounter a ct) | _ \<Rightarrow> None)
     | _ \<Rightarrow> None)"

definition parse_waterbend :: "string \<Rightarrow> cost option" where
  "parse_waterbend t = Option.bind (between ''Waterbend<'' ''>'' t)
     (\<lambda>a. map_option CWaterbend (parse_u8_signed a))"

definition parse_tap_and_mana :: "string \<Rightarrow> cost option" where
  "parse_tap_and_mana t = (if has_substring '' T'' t \<or> has_substring '' Tap'' t
     then let parts = filter (\<lambda>p. p \<noteq> ''T'' \<and> p \<noteq> ''Tap'') (split_whitespace [] t) in
       if parts \<noteq> [] then Some (CTapAndMana (from_string (join_with '' '' parts))) else None
     else None)"

definition parse_mana_only :: "string \<Rightarrow> cost option" where
  "parse_mana_only t = (if list_ex is_mana_char t
     then let m = from_string t in if 0 < cmc m then Some (CMana m) else None
     else None)"

text \<open>\<open>first_some\<close> tries the alternatives in order, as the chain of early returns does.\<close>

fun first_some :: "'a option list \<Rightarrow> 'a option" where
  "first_some [] = None"
| "first_some (Some x # _) = Some x"
| "first_some (None # xs) = first_some xs"

definition parse_single :: "string \<Rightarrow> cost option" where
  "parse_single t =
     (if t = ''T'' \<or> t = ''Tap'' then Some CTap
      else if t = ''Q'' \<or> t = ''Untap'' then Some CUntap
      else first_some
        [parse_sacrifice t,
         parse_pay_life t,
         if starts_with ''Discard<'' t \<and> has_substring ''Hand'' t \<and> ends_with ''>'' t
           then Some CDiscardHand else None,
         parse_add_loyalty t,
         parse_sub_loyalty t,
         parse_sub_counter t,
         parse_waterbend t,
         parse_tap_and_mana t,
         parse_mana_only t])"

text \<open>The component loop of \<open>parse\<close>: the costs and the mana parts collected so far.\<close>

fun is_mana_variant :: "cost \<Rightarrow> bool" where
  "is_mana_variant (CMana _) = True"
| "is_mana_variant _ = False"

definition parse_component :: "cost list \<times> string list \<Rightarrow> string \<Rightarrow> cost list \<times> string list" where
  "parse_component = (\<lambda>(costs, mana_parts) comp.
     if comp = ''T'' \<or> comp = ''Tap'' then (costs, mana_parts)
     else case parse_single comp of
       Some parsed \<Rightarrow> if is_mana_variant parsed then (costs, mana_parts @ [comp])
         else (costs @ [parsed], mana_parts)
     | None \<Rightarrow> if list_ex is_mana_char comp then (costs, mana_parts @ [comp])
         else (costs, mana_parts))"

definition cost_parse :: "string \<Rightarrow> cost option" where
  "cost_parse cost_str =
     (let t = trim cost_str;
          has_sac = has_substring ''Sac<'' t;
          has_pay_life = has_substring ''PayLife<'' t;
          has_tap = has_substring '' T'' t \<or> has_substring '' Tap'' t \<or> starts_with ''T '' t
            \<or> starts_with ''Tap '' t in
      if (has_sac \<or> has_pay_life) \<and> (has_tap \<or> list_ex is_mana_char t)
      then
        let (costs, mana_parts) = foldl parse_component ([], []) (split_tokens [] False t);
            costs' =
              (if mana_parts \<noteq> [] \<or> has_tap
               then let m = (if mana_parts = [] then mana_cost_new
                             else from_string (join_with '' '' mana_parts)) in
                 if has_tap then costs @ [if 0 < cmc m then CTapAndMana m else CTap]
                 else if 0 < cmc m then costs @ [CMana m]
                 else costs
               else costs) in
        case costs' of
          [] \<Rightarrow> parse_single t
        | [c] \<Rightarrow> Some c
        | _ \<Rightarrow> Some (CComposite costs')
      else parse_single t)"

subsection \<open>Queries\<close>

fun find_map :: "('a \<Rightarrow> 'b option) \<Rightarrow> 'a list \<Rightarrow> 'b option" where
  "find_map f [] = None"
| "find_map f (x # xs) = (case f x of Some y \<Rightarrow> Some y | None \<Rightarrow> find_map f xs)"

lemma find_map_cong [fundef_cong]:
  "xs = ys \<Longrightarrow> (\<And>x. x \<in> set ys \<Longrightarrow> f x = g x) \<Longrightarrow> find_map f xs = find_map g ys"
  by (induction xs arbitrary: ys) (auto split: option.splits)

fun includes_tap :: "cost \<Rightarrow> bool" where
  "includes_tap CTap = True"
| "includes_tap (CTapAndMana _) = True"
| "includes_tap (CComposite cs) = list_ex includes_tap cs"
| "includes_tap _ = False"

fun includes_mana :: "cost \<Rightarrow> bool" where
  "includes_mana (CMana _) = True"
| "includes_mana (CTapAndMana _) = True"
| "includes_mana (CWaterbend _) = True"
| "includes_mana (CComposite cs) = list_ex includes_mana cs"
| "includes_mana _ = False"

fun get_mana_cost :: "cost \<Rightarrow> mana_cost option" where
  "get_mana_cost (CMana m) = Some m"
| "get_mana_cost (CTapAndMana m) = Some m"
| "get_mana_cost (CComposite cs) = find_map get_mana_cost cs"
| "get_mana_cost _ = None"

fun get_life_cost :: "cost \<Rightarrow> i32 option" where
  "get_life_cost (CPayLife a) = Some a"
| "get_life_cost (CComposite cs) = find_map get_life_cost cs"
| "get_life_cost _ = None"

fun requires_sacrifice :: "cost \<Rightarrow> bool" where
  "requires_sacrifice (CSacrifice _) = True"
| "requires_sacrifice (CSacrificePattern _ _) = True"
| "requires_sacrifice (CComposite cs) = list_ex requires_sacrifice cs"
| "requires_sacrifice _ = False"

fun get_waterbend_amount :: "cost \<Rightarrow> u8 option" where
  "get_waterbend_amount (CWaterbend a) = Some a"
| "get_waterbend_amount (CComposite cs) = find_map get_waterbend_amount cs"
| "get_waterbend_amount _ = None"

fun contains_loyalty_cost :: "cost \<Rightarrow> bool" where
  "contains_loyalty_cost (CAddLoyalty _) = True"
| "contains_loyalty_cost (CSubLoyalty _) = True"
| "contains_loyalty_cost (CComposite cs) = list_ex contains_loyalty_cost cs"
| "contains_loyalty_cost _ = False"

fun get_sub_counter_requirement :: "cost \<Rightarrow> (u8 \<times> counter_type) option" where
  "get_sub_counter_requirement (CSubCounter a ct) = Some (a, ct)"
| "get_sub_counter_requirement (CComposite cs) = find_map get_sub_counter_requirement cs"
| "get_sub_counter_requirement _ = None"

fun get_sub_loyalty_amount :: "cost \<Rightarrow> u8 option" where
  "get_sub_loyalty_amount (CSubLoyalty a) = Some a"
| "get_sub_loyalty_amount (CComposite cs) = find_map get_sub_loyalty_amount cs"
| "get_sub_loyalty_amount _ = None"

fun get_sacrifice_pattern :: "cost \<Rightarrow> (u8 \<times> string) option" where
  "get_sacrifice_pattern (CSacrificePattern n t) = Some (n, t)"
| "get_sacrifice_pattern (CComposite cs) = find_map get_sacrifice_pattern cs"
| "get_sacrifice_pattern _ = None"

end
