(* ===== verification/Restriction.thy ===== *)
theory Restriction
  imports Costs
begin

section \<open>Target restrictions\<close>

text \<open>
  \<open>ControllerRestriction\<close>, \<open>TargetType\<close>, \<open>DigFilter\<close> and \<open>TargetRestriction\<close> of
  \<open>mtg-engine/src/core/effects.rs\<close> with the parser of filter strings and the description for the game
  log. Whether a card passes a restriction is in the theory \<open>Targeting\<close>. The parser folds the
  modifiers and base types of the comma-separated parts over one restriction, as the code's local
  variables do; the lemmas say what a list of plain card types parses to.
\<close>

datatype controller_restriction = AnyCtrl | YouCtrl | OppCtrl | ActivePlayerCtrl

datatype target_type = TgtAny | TgtArtifact | TgtEnchantment | TgtCreature | TgtLand | TgtPlaneswalker

datatype dig_filter =
    DigCard | DigCreature | DigLand | DigArtifact | DigEnchantment | DigInstant | DigSorcery
  | DigPlaneswalker | DigPermanent

definition dig_filter_parse :: "string \<Rightarrow> dig_filter option" where
  "dig_filter_parse s = (let b = hd (split_on (CHR ''.'') s) in
     if b = ''Card'' then Some DigCard
     else if b = ''Creature'' then Some DigCreature
     else if b = ''Land'' then Some DigLand
     else if b = ''Artifact'' then Some DigArtifact
     else if b = ''Enchantment'' then Some DigEnchantment
     else if b = ''Instant'' then Some DigInstant
     else if b = ''Sorcery'' then Some DigSorcery
     else if b = ''Planeswalker'' then Some DigPlaneswalker
     else if b = ''Permanent'' then Some DigPermanent
     else None)"

record target_restriction =
  tr_types :: "target_type list"
  tr_requires_no_counters :: bool
  tr_controller :: controller_restriction
  tr_power_ge :: "i32 option"
  tr_power_le :: "i32 option"
  tr_requires_nontoken :: bool
  tr_requires_remembered :: bool
  tr_requires_not_remembered :: bool
  tr_requires_nonartifact :: bool
  tr_required_color :: "color option"
  tr_required_set :: "string option"
  tr_requires_other :: bool
  tr_required_subtype :: "string option"
  tr_power_le_source :: bool
  tr_requires_noncreature :: bool
  tr_min_cmc :: "u8 option"
  tr_max_cmc :: "u8 option"
  tr_requires_defender :: bool
  tr_requires_named_card :: bool
  tr_exact_cmc :: "u8 option"
  tr_cmc_eq_svar :: bool

definition from_types :: "target_type list \<Rightarrow> target_restriction" where
  "from_types ts = \<lparr>tr_types = ts, tr_requires_no_counters = False, tr_controller = AnyCtrl,
     tr_power_ge = None, tr_power_le = None, tr_requires_nontoken = False,
     tr_requires_remembered = False, tr_requires_not_remembered = False,
     tr_requires_nonartifact = False, tr_required_color = None, tr_required_set = None,
     tr_requires_other = False, tr_required_subtype = None, tr_power_le_source = False,
     tr_requires_noncreature = False, tr_min_cmc = None, tr_max_cmc = None,
     tr_requires_defender = False, tr_requires_named_card = False, tr_exact_cmc = None,
     tr_cmc_eq_svar = False\<rparr>"

definition restriction_any :: target_restriction where "restriction_any = from_types []"

text \<open>\<open>is_unrestricted\<close> as the code has it: four of the fields are not among the tests.\<close>

definition is_unrestricted :: "target_restriction \<Rightarrow> bool" where
  "is_unrestricted r = (tr_types r = [] \<and> tr_controller r = AnyCtrl \<and> tr_power_ge r = None
     \<and> tr_power_le r = None \<and> \<not> tr_requires_no_counters r \<and> \<not> tr_requires_nontoken r
     \<and> \<not> tr_requires_remembered r \<and> \<not> tr_requires_not_remembered r
     \<and> \<not> tr_requires_nonartifact r \<and> tr_required_color r = None \<and> tr_required_set r = None
     \<and> \<not> tr_requires_other r \<and> \<not> tr_requires_named_card r \<and> tr_min_cmc r = None
     \<and> tr_max_cmc r = None \<and> tr_exact_cmc r = None \<and> \<not> tr_cmc_eq_svar r)"

subsection \<open>The parser\<close>

text \<open>\<open>to_ascii_uppercase\<close>; \<open>trim_start_matches\<close>, which strips a prefix as often as it occurs.\<close>

definition ascii_upper :: "string \<Rightarrow> string" where
  "ascii_upper = map (\<lambda>ch. if 97 \<le> (of_char ch :: nat) \<and> (of_char ch :: nat) \<le> 122
     then char_of ((of_char ch :: nat) - 32) else ch)"

function trim_start_matches :: "string \<Rightarrow> string \<Rightarrow> string" where
  "trim_start_matches p s = (if p \<noteq> [] \<and> starts_with p s then trim_start_matches p (drop (length p) s) else s)"
  by pat_completeness auto

termination
proof (relation "measure (length \<circ> snd)")
  fix p s :: string
  assume "p \<noteq> [] \<and> starts_with p s"
  then have "p \<noteq> []" "s \<noteq> []" by (auto simp: starts_with_def)
  then show "((p, drop (length p) s), (p, s)) \<in> measure (length \<circ> snd)" by simp
qed simp

definition set_code_new :: "string \<Rightarrow> string" where
  "set_code_new s = ascii_upper (trim s)"

text \<open>An \<open>if let Ok(n) = ...parse() { field = Some(n) }\<close>: a number that does not parse changes nothing.\<close>

definition number_after :: "(string \<Rightarrow> 'a option) \<Rightarrow> string \<Rightarrow> string \<Rightarrow> 'a option \<Rightarrow> 'a option" where
  "number_after parse p m old = (case parse (trim_start_matches p m) of Some n \<Rightarrow> Some n | None \<Rightarrow> old)"

definition color_name :: "string \<Rightarrow> color option" where
  "color_name m = (if m = ''White'' then Some White else if m = ''Blue'' then Some Blue
     else if m = ''Black'' then Some Black else if m = ''Red'' then Some Red
     else if m = ''Green'' then Some Green else None)"

definition numeric_modifier :: "string \<Rightarrow> target_restriction \<Rightarrow> target_restriction" where
  "numeric_modifier m r =
     (if starts_with ''cmcGE'' m then r\<lparr>tr_min_cmc := number_after parse_u8_signed ''cmcGE'' m (tr_min_cmc r)\<rparr>
      else if starts_with ''cmcLE'' m then r\<lparr>tr_max_cmc := number_after parse_u8_signed ''cmcLE'' m (tr_max_cmc r)\<rparr>
      else if m = ''cmcEQX'' then r\<lparr>tr_cmc_eq_svar := True\<rparr>
      else if starts_with ''cmcEQ'' m then r\<lparr>tr_exact_cmc := number_after parse_u8_signed ''cmcEQ'' m (tr_exact_cmc r)\<rparr>
      else if starts_with ''set'' m \<and> 3 < length m then r\<lparr>tr_required_set := Some (set_code_new (drop 3 m))\<rparr>
      else if color_name m \<noteq> None then r\<lparr>tr_required_color := color_name m\<rparr>
      else if m = ''powerLEX'' then r\<lparr>tr_power_le_source := True\<rparr>
      else if starts_with ''powerGE'' m then r\<lparr>tr_power_ge := number_after parse_i32 ''powerGE'' m (tr_power_ge r)\<rparr>
      else if starts_with ''powerLE'' m then r\<lparr>tr_power_le := number_after parse_i32 ''powerLE'' m (tr_power_le r)\<rparr>
      else r)"

definition apply_modifier :: "string \<Rightarrow> target_restriction \<Rightarrow> target_restriction" where
  "apply_modifier m r =
     (if m = ''!HasCounters'' then r\<lparr>tr_requires_no_counters := True\<rparr>
      else if m = ''!token'' then r\<lparr>tr_requires_nontoken := True\<rparr>
      else if m = ''IsRemembered'' then r\<lparr>tr_requires_remembered := True\<rparr>
      else if m = ''!IsRemembered'' then r\<lparr>tr_requires_not_remembered := True\<rparr>
      else if m = ''YouCtrl'' then r\<lparr>tr_controller := YouCtrl\<rparr>
      else if m = ''OppCtrl'' then r\<lparr>tr_controller := OppCtrl\<rparr>
      else if m = ''ActivePlayerCtrl'' then r\<lparr>tr_controller := ActivePlayerCtrl\<rparr>
      else if m = ''ControlledBy TriggeredDefendingPlayer'' then r\<lparr>tr_controller := OppCtrl\<rparr>
      else if m = ''nonArtifact'' then r\<lparr>tr_requires_nonartifact := True\<rparr>
      else if m = ''nonCreature'' then r\<lparr>tr_requires_noncreature := True\<rparr>
      else if m = ''Other'' then r\<lparr>tr_requires_other := True\<rparr>
      else if m = ''withDefender'' then r\<lparr>tr_requires_defender := True\<rparr>
      else if m = ''NamedCard'' then r\<lparr>tr_requires_named_card := True\<rparr>
      else if m = ''nonLand'' then r
      else numeric_modifier m r)"

definition type_word :: "string \<Rightarrow> target_type option" where
  "type_word b = (if b = ''Artifact'' then Some TgtArtifact
     else if b = ''Enchantment'' then Some TgtEnchantment
     else if b = ''Creature'' then Some TgtCreature
     else if b = ''Land'' then Some TgtLand
     else if b = ''Planeswalker'' then Some TgtPlaneswalker
     else None)"

definition apply_base :: "string \<Rightarrow> target_restriction \<Rightarrow> target_restriction" where
  "apply_base b r = (case type_word b of
       Some t \<Rightarrow> r\<lparr>tr_types := tr_types r @ [t]\<rparr>
     | None \<Rightarrow> if b \<in> {'''', ''Any'', ''Permanent'', ''Card'', ''Spell''} then r
         else r\<lparr>tr_required_subtype := Some (case tr_required_subtype r of
             Some old \<Rightarrow> old @ '','' @ b | None \<Rightarrow> b)\<rparr>)"

definition apply_part :: "target_restriction \<Rightarrow> string \<Rightarrow> target_restriction" where
  "apply_part r part = (let parts = split_on (CHR ''.'') part in
     apply_base (trim (hd parts))
       (fold apply_modifier (concat (map (split_on (CHR ''+'')) (tl parts))) r))"

definition restriction_parse :: "string \<Rightarrow> target_restriction" where
  "restriction_parse s = foldl apply_part restriction_any (split_on (CHR '','') s)"

subsection \<open>The description\<close>

fun target_type_word :: "target_type \<Rightarrow> string" where
  "target_type_word TgtAny = ''any''"
| "target_type_word TgtArtifact = ''artifact''"
| "target_type_word TgtEnchantment = ''enchantment''"
| "target_type_word TgtCreature = ''creature''"
| "target_type_word TgtLand = ''land''"
| "target_type_word TgtPlaneswalker = ''planeswalker''"

fun color_word :: "color \<Rightarrow> string" where
  "color_word White = ''white''"
| "color_word Blue = ''blue''"
| "color_word Black = ''black''"
| "color_word Red = ''red''"
| "color_word Green = ''green''"
| "color_word Colorless = ''colorless''"

fun controller_clause :: "controller_restriction \<Rightarrow> string" where
  "controller_clause YouCtrl = '' you control''"
| "controller_clause OppCtrl = '' an opponent controls''"
| "controller_clause ActivePlayerCtrl = '' the active player controls''"
| "controller_clause AnyCtrl = ''''"

definition describe :: "target_restriction \<Rightarrow> string" where
  "describe r = join_with '' ''
       ((case tr_required_color r of Some c \<Rightarrow> [color_word c] | None \<Rightarrow> [])
        @ (if tr_requires_nontoken r then [''nontoken''] else [])
        @ (if tr_requires_nonartifact r then [''nonartifact''] else [])
        @ [if tr_types r = [] then ''cards'' else join_with ''/'' (map target_type_word (tr_types r)) @ ''s''])
     @ controller_clause (tr_controller r)
     @ (case tr_power_ge r of Some n \<Rightarrow> '' with power >= '' @ show_i32 n | None \<Rightarrow> '''')
     @ (case tr_power_le r of Some n \<Rightarrow> '' with power <= '' @ show_i32 n | None \<Rightarrow> '''')
     @ (if tr_requires_no_counters r then '' with no counters'' else '''')
     @ (case tr_required_set r of Some s \<Rightarrow> '' printed in '' @ s | None \<Rightarrow> '''')"

subsection \<open>Lists of card types\<close>

definition type_name :: "target_type \<Rightarrow> string" where
  "type_name t = (case t of TgtAny \<Rightarrow> ''Any'' | TgtArtifact \<Rightarrow> ''Artifact'' | TgtEnchantment \<Rightarrow> ''Enchantment''
     | TgtCreature \<Rightarrow> ''Creature'' | TgtLand \<Rightarrow> ''Land'' | TgtPlaneswalker \<Rightarrow> ''Planeswalker'')"

lemma split_on_ne [simp]: "split_on d s \<noteq> []"
  by (induction s) (auto split: list.split)

lemma split_on_free: "d \<notin> set s \<Longrightarrow> split_on d s = [s]"
  by (induction s) auto

lemma split_on_append: "d \<notin> set w \<Longrightarrow> split_on d (w @ d # s) = w # split_on d s"
  by (induction w) (auto split: list.split)

lemma split_on_join:
  assumes "ws \<noteq> []" "\<forall>w \<in> set ws. d \<notin> set w"
  shows "split_on d (join_with [d] ws) = ws"
  using assms by (induction "[d]" ws rule: join_with.induct) (auto simp: split_on_free split_on_append)

lemma type_name_plain: "CHR '','' \<notin> set (type_name t)"
  by (cases t) (simp_all add: type_name_def)

lemma apply_part_type:
  assumes "t \<noteq> TgtAny"
  shows "apply_part r (type_name t) = r\<lparr>tr_types := tr_types r @ [t]\<rparr>"
  using assms
  by (cases t) (simp_all add: type_name_def apply_part_def apply_base_def type_word_def trim_def is_space_def)

lemma parse_types_run:
  "TgtAny \<notin> set ts \<Longrightarrow> foldl apply_part r (map type_name ts) = r\<lparr>tr_types := tr_types r @ ts\<rparr>"
  by (induction ts arbitrary: r) (auto simp: apply_part_type)

lemma parse_types:
  assumes "ts \<noteq> []" "TgtAny \<notin> set ts"
  shows "restriction_parse (join_with '','' (map type_name ts)) = from_types ts"
proof -
  have "split_on (CHR '','') (join_with '','' (map type_name ts)) = map type_name ts"
    using assms(1) by (intro split_on_join) (auto simp: type_name_plain)
  then show ?thesis
    using parse_types_run [OF assms(2), of restriction_any]
    by (simp add: restriction_parse_def restriction_any_def from_types_def)
qed

end
