(* ===== verification/SetLike.thy ===== *)
theory SetLike
  imports Prelude
begin

section \<open>The interface of a small set\<close>

text \<open>
  The engine keeps several small sets behind one interface (insert, remove, contains): the colour
  bits of \<open>ManaColors\<close>, the keyword bits of \<open>KeywordSet\<close>, the combat maps' key sets. The locale
  states the laws the clients use and proves what follows from them once; each provider
  interprets it on its own operations.
\<close>

locale set_like =
  fixes empty :: 's
    and ins :: "'s \<Rightarrow> 'a \<Rightarrow> 's"
    and del :: "'s \<Rightarrow> 'a \<Rightarrow> 's"
    and has :: "'s \<Rightarrow> 'a \<Rightarrow> bool"
  assumes has_empty: "\<not> has empty x"
    and has_ins: "has (ins s y) x \<longleftrightarrow> x = y \<or> has s x"
    and has_del: "has (del s y) x \<longleftrightarrow> x \<noteq> y \<and> has s x"
begin

lemma has_fold_ins: "has (fold (\<lambda>y t. ins t y) ys s) x \<longleftrightarrow> x \<in> set ys \<or> has s x"
  by (induction ys arbitrary: s) (auto simp: has_ins)

lemma has_fold_del: "has (fold (\<lambda>y t. del t y) ys s) x \<longleftrightarrow> x \<notin> set ys \<and> has s x"
  by (induction ys arbitrary: s) (auto simp: has_del)

lemma has_foldl_ins: "has (foldl ins s ys) x \<longleftrightarrow> x \<in> set ys \<or> has s x"
  by (induction ys arbitrary: s) (auto simp: has_ins)

lemma del_ins_has: "\<not> has s x \<Longrightarrow> has (del (ins s x) x) y \<longleftrightarrow> has s y"
  by (auto simp: has_ins has_del)

lemma ins_del_has: "has s x \<Longrightarrow> has (ins (del s x) x) y \<longleftrightarrow> has s y"
  by (auto simp: has_ins has_del)

end

end
