(* ===== verification/ManaProduction.thy ===== *)
theory ManaProduction
  imports Mana SetLike
begin

unbundle bit_operations_syntax

section \<open>Colour sets and mana production\<close>

text \<open>
  \<open>mtg-engine/src/game/mana_colors.rs\<close> (a set of colours in five bits of a \<open>u8\<close>) and
  \<open>core/mana_production.rs\<close> (what a permanent can produce and at what cost). The bit set is
  shown to implement sets of colours: the interface \<open>set_like\<close> is interpreted on it, and
  its iterator lists exactly the colours it contains, in WUBRG order, without repetition.
\<close>

datatype mana_color = MWhite | MBlue | MBlack | MRed | MGreen

definition ALL_MANA_COLORS :: "mana_color list" where
  "ALL_MANA_COLORS = [MWhite, MBlue, MBlack, MRed, MGreen]"

fun to_char :: "mana_color \<Rightarrow> char" where
  "to_char MWhite = CHR ''W''"
| "to_char MBlue = CHR ''U''"
| "to_char MBlack = CHR ''B''"
| "to_char MRed = CHR ''R''"
| "to_char MGreen = CHR ''G''"

definition from_char :: "char \<Rightarrow> mana_color option" where
  "from_char c =
     (if c \<in> {CHR ''W'', CHR ''w''} then Some MWhite
      else if c \<in> {CHR ''U'', CHR ''u''} then Some MBlue
      else if c \<in> {CHR ''B'', CHR ''b''} then Some MBlack
      else if c \<in> {CHR ''R'', CHR ''r''} then Some MRed
      else if c \<in> {CHR ''G'', CHR ''g''} then Some MGreen
      else None)"

subsection \<open>The bit set\<close>

type_synonym mana_colors = u8

fun color_pos :: "mana_color \<Rightarrow> nat" where
  "color_pos MWhite = 0"
| "color_pos MBlue = 1"
| "color_pos MBlack = 2"
| "color_pos MRed = 3"
| "color_pos MGreen = 4"

definition color_to_bit :: "mana_color \<Rightarrow> u8" where
  "color_to_bit c = push_bit (color_pos c) 1"

definition mcs_new :: mana_colors where
  "mcs_new = 0"

definition mcs_single :: "mana_color \<Rightarrow> mana_colors" where
  "mcs_single c = color_to_bit c"

definition mcs_with :: "mana_colors \<Rightarrow> mana_color \<Rightarrow> mana_colors" where
  "mcs_with s c = s OR color_to_bit c"

definition mcs_insert :: "mana_colors \<Rightarrow> mana_color \<Rightarrow> mana_colors" where
  "mcs_insert s c = s OR color_to_bit c"

definition mcs_remove :: "mana_colors \<Rightarrow> mana_color \<Rightarrow> mana_colors" where
  "mcs_remove s c = s AND NOT (color_to_bit c)"

definition mcs_contains :: "mana_colors \<Rightarrow> mana_color \<Rightarrow> bool" where
  "mcs_contains s c = (s AND color_to_bit c \<noteq> 0)"

definition mcs_is_empty :: "mana_colors \<Rightarrow> bool" where
  "mcs_is_empty s = (s = 0)"

definition from_slice :: "mana_color list \<Rightarrow> mana_colors" where
  "from_slice cs = foldl mcs_with mcs_new cs"

definition count_ones :: "'a::len word \<Rightarrow> nat" where
  "count_ones w = length (filter (bit w) [0..<LENGTH('a)])"

definition mcs_len :: "mana_colors \<Rightarrow> nat" where
  "mcs_len s = count_ones s"

definition is_subset_of :: "mana_colors \<Rightarrow> mana_colors \<Rightarrow> bool" where
  "is_subset_of s t = (s AND t = s)"

definition mcs_union :: "mana_colors \<Rightarrow> mana_colors \<Rightarrow> mana_colors" where
  "mcs_union s t = s OR t"

definition mcs_intersection :: "mana_colors \<Rightarrow> mana_colors \<Rightarrow> mana_colors" where
  "mcs_intersection s t = s AND t"

definition from_bits :: "u8 \<Rightarrow> mana_colors" where
  "from_bits b = b AND 0x1F"

text \<open>The iterator from bit position \<open>pos\<close> on: the \<open>while self.pos < 5\<close> loop, run to its end.\<close>

function mcs_iter_from :: "u8 \<Rightarrow> nat \<Rightarrow> mana_color list" where
  "mcs_iter_from bits pos =
     (if pos < 5
      then (if bits AND push_bit pos 1 \<noteq> 0
            then ALL_MANA_COLORS ! pos # mcs_iter_from bits (Suc pos)
            else mcs_iter_from bits (Suc pos))
      else [])"
  by auto

termination
  by (relation "measure (\<lambda>(bits, pos). 5 - pos)") auto

declare mcs_iter_from.simps [simp del]

definition mcs_iter :: "mana_colors \<Rightarrow> mana_color list" where
  "mcs_iter s = mcs_iter_from s 0"

definition mcs_all :: mana_colors where
  "mcs_all = color_to_bit MWhite OR color_to_bit MBlue OR color_to_bit MBlack
     OR color_to_bit MRed OR color_to_bit MGreen"

definition allied_pair :: "mana_color \<Rightarrow> mana_color \<Rightarrow> mana_colors" where
  "allied_pair c d = color_to_bit c OR color_to_bit d"

subsection \<open>Mana production\<close>

datatype mana_production_kind =
    Fixed mana_color
  | Choice mana_colors
  | AnyColor
  | KColorless

datatype mana_side_cost = SideNone | SideUtility | SidePayLife u8 | SideSacrifice

record mana_production =
  mpr_kind :: mana_production_kind
  mpr_activation_cost :: "mana_cost option"
  mpr_amount :: u8
  mpr_side_cost :: mana_side_cost

definition mana_production_default :: mana_production where
  "mana_production_default = \<lparr>mpr_kind = Choice mcs_new, mpr_activation_cost = None,
     mpr_amount = 1, mpr_side_cost = SideNone\<rparr>"

definition mp_free :: "mana_production_kind \<Rightarrow> mana_production" where
  "mp_free k = \<lparr>mpr_kind = k, mpr_activation_cost = None, mpr_amount = 1, mpr_side_cost = SideNone\<rparr>"

definition mp_with_cost :: "mana_production_kind \<Rightarrow> mana_cost \<Rightarrow> mana_production" where
  "mp_with_cost k c = \<lparr>mpr_kind = k, mpr_activation_cost = Some c, mpr_amount = 1,
     mpr_side_cost = SideNone\<rparr>"

definition mp_with_amount :: "mana_production_kind \<Rightarrow> u8 \<Rightarrow> mana_production" where
  "mp_with_amount k n = \<lparr>mpr_kind = k, mpr_activation_cost = None, mpr_amount = max n 1,
     mpr_side_cost = SideNone\<rparr>"

definition mp_with_side_cost :: "mana_production \<Rightarrow> mana_side_cost \<Rightarrow> mana_production" where
  "mp_with_side_cost p sc = p\<lparr>mpr_side_cost := sc\<rparr>"

fun side_cost_score_of :: "mana_side_cost \<Rightarrow> u16" where
  "side_cost_score_of SideNone = 0"
| "side_cost_score_of SideUtility = 5"
| "side_cost_score_of (SidePayLife n) = min (sat_mul 20 (ucast n)) 900"
| "side_cost_score_of SideSacrifice = 1000"

definition side_cost_score :: "mana_production \<Rightarrow> u16" where
  "side_cost_score p = side_cost_score_of (mpr_side_cost p)"

definition net_delta :: "mana_production \<Rightarrow> i8" where
  "net_delta p = ucast (mpr_amount p)
     - (case mpr_activation_cost p of Some c \<Rightarrow> ucast (cmc c) | None \<Rightarrow> 0)"

fun kind_produces_mana :: "mana_production_kind \<Rightarrow> bool" where
  "kind_produces_mana (Fixed _) = True"
| "kind_produces_mana (Choice cs) = (\<not> mcs_is_empty cs)"
| "kind_produces_mana AnyColor = True"
| "kind_produces_mana KColorless = True"

definition produces_mana :: "mana_production \<Rightarrow> bool" where
  "produces_mana p = kind_produces_mana (mpr_kind p)"

text \<open>The derived \<open>Ord\<close> of \<open>ManaSideCost\<close>: by variant, then by the life paid.\<close>

fun side_cost_rank :: "mana_side_cost \<Rightarrow> nat \<times> u8" where
  "side_cost_rank SideNone = (0, 0)"
| "side_cost_rank SideUtility = (1, 0)"
| "side_cost_rank (SidePayLife n) = (2, n)"
| "side_cost_rank SideSacrifice = (3, 0)"

instantiation mana_side_cost :: linorder
begin

definition less_eq_mana_side_cost :: "mana_side_cost \<Rightarrow> mana_side_cost \<Rightarrow> bool" where
  "less_eq_mana_side_cost a b = (fst (side_cost_rank a) < fst (side_cost_rank b)
     \<or> fst (side_cost_rank a) = fst (side_cost_rank b)
       \<and> snd (side_cost_rank a) \<le> snd (side_cost_rank b))"

definition less_mana_side_cost :: "mana_side_cost \<Rightarrow> mana_side_cost \<Rightarrow> bool" where
  "less_mana_side_cost a b = (fst (side_cost_rank a) < fst (side_cost_rank b)
     \<or> fst (side_cost_rank a) = fst (side_cost_rank b)
       \<and> snd (side_cost_rank a) < snd (side_cost_rank b))"

instance
proof
  fix a b :: mana_side_cost
  show "a \<le> b \<Longrightarrow> b \<le> a \<Longrightarrow> a = b"
    unfolding less_eq_mana_side_cost_def by (cases a; cases b) auto
qed (auto simp: less_eq_mana_side_cost_def less_mana_side_cost_def)

end

subsection \<open>The bit set implements a set of colours\<close>

lemma color_pos_less: "color_pos c < 5"
  by (cases c) simp_all

lemma bit_color_to_bit: "bit (color_to_bit c) n \<longleftrightarrow> n = color_pos c"
  using color_pos_less [of c]
  by (auto simp: color_to_bit_def push_bit_of_1 bit_exp_iff)

lemma mcs_contains_bit: "mcs_contains s c \<longleftrightarrow> bit s (color_pos c)"
  using and_exp_eq_0_iff_not_bit [of s "color_pos c"]
  by (simp add: mcs_contains_def color_to_bit_def push_bit_of_1)

lemma color_pos_inject [simp]: "color_pos c = color_pos d \<longleftrightarrow> c = d"
  by (cases c; cases d) simp_all

interpretation mcs: set_like mcs_new mcs_insert mcs_remove mcs_contains
  by unfold_locales
    (auto simp: mcs_contains_bit mcs_new_def mcs_insert_def mcs_remove_def bit_or_iff bit_and_iff
      bit_not_iff bit_color_to_bit dest: bit_imp_le_length)

lemma mcs_contains_simps:
  "mcs_contains (mcs_union s t) c \<longleftrightarrow> mcs_contains s c \<or> mcs_contains t c"
  "mcs_contains (mcs_intersection s t) c \<longleftrightarrow> mcs_contains s c \<and> mcs_contains t c"
  "mcs_contains (mcs_single d) c \<longleftrightarrow> c = d"
  "mcs_contains (mcs_with s d) c \<longleftrightarrow> c = d \<or> mcs_contains s c"
  by (auto simp: mcs_contains_bit mcs_union_def mcs_intersection_def mcs_single_def mcs_with_def
      bit_or_iff bit_and_iff bit_color_to_bit)

text \<open>The colour sets the constructors build: no bit above the five colours.\<close>

definition mcs_wf :: "mana_colors \<Rightarrow> bool" where
  "mcs_wf s = (\<forall>n. bit s n \<longrightarrow> n < 5)"

lemma mcs_wf_insert: "mcs_wf s \<Longrightarrow> mcs_wf (mcs_insert s c)"
  using color_pos_less by (auto simp: mcs_wf_def mcs_insert_def bit_or_iff bit_color_to_bit)

lemma mcs_wf_new [simp]: "mcs_wf mcs_new"
  by (simp add: mcs_wf_def mcs_new_def)

lemma mcs_wf_from_bits: "mcs_wf (from_bits b)"
proof -
  have "(0x1F :: u8) = mask 5" by (simp add: mask_eq_exp_minus_1)
  then show ?thesis
    by (simp only: mcs_wf_def from_bits_def bit_and_iff bit_mask_iff) simp
qed

lemma all_colors_nth: "ALL_MANA_COLORS ! color_pos c = c"
  by (cases c) (simp_all add: ALL_MANA_COLORS_def)

lemma color_pos_cover: "n < 5 \<Longrightarrow> \<exists>c. color_pos c = n \<and> ALL_MANA_COLORS ! n = c"
proof -
  assume "n < 5"
  then have "n \<in> {0, 1, 2, 3, 4}" by auto
  then show ?thesis
    using color_pos.simps all_colors_nth by (metis empty_iff insert_iff)
qed

lemma mcs_iter_from_eq:
  "mcs_iter_from s pos = map ((!) ALL_MANA_COLORS) (filter (bit s) [pos..<5])"
proof (induction s pos rule: mcs_iter_from.induct)
  case (1 bits pos)
  have "bits AND push_bit pos 1 \<noteq> 0 \<longleftrightarrow> bit bits pos"
    using and_exp_eq_0_iff_not_bit [of bits pos] by (simp add: push_bit_of_1)
  then show ?case
    using 1 by (subst mcs_iter_from.simps) (auto simp: upt_conv_Cons)
qed

lemma mcs_iter_eq: "mcs_iter s = filter (mcs_contains s) ALL_MANA_COLORS"
proof -
  have upt: "[0..<5] = map color_pos ALL_MANA_COLORS"
    by (simp add: ALL_MANA_COLORS_def upt_rec numeral_eq_Suc)
  have "map ((!) ALL_MANA_COLORS) (map color_pos (filter (\<lambda>c. bit s (color_pos c)) ALL_MANA_COLORS))
      = filter (\<lambda>c. bit s (color_pos c)) ALL_MANA_COLORS"
    by (simp add: map_idI all_colors_nth)
  then show ?thesis
    by (simp only: mcs_iter_def mcs_iter_from_eq upt filter_map o_def mcs_contains_bit [abs_def])
qed

lemma mcs_len_iter: "mcs_wf s \<Longrightarrow> mcs_len s = length (mcs_iter s)"
proof -
  assume wf: "mcs_wf s"
  have "[0..<8] = [0..<5] @ [5..<8]" by (simp add: upt_rec numeral_eq_Suc)
  moreover have "filter (bit s) [5..<8] = []"
    using wf by (auto simp: mcs_wf_def filter_empty_conv not_less [symmetric])
  ultimately show ?thesis
    by (simp add: mcs_len_def count_ones_def mcs_iter_def mcs_iter_from_eq)
qed

lemma set_all_mana_colors: "set ALL_MANA_COLORS = UNIV"
  by (auto simp: ALL_MANA_COLORS_def intro: mana_color.exhaust)

lemma set_mcs_iter: "set (mcs_iter s) = {c. mcs_contains s c}"
  by (auto simp: mcs_iter_eq set_all_mana_colors)

lemma distinct_mcs_iter: "distinct (mcs_iter s)"
  by (simp add: mcs_iter_eq ALL_MANA_COLORS_def)

lemma from_slice_contains: "mcs_contains (from_slice cs) c \<longleftrightarrow> c \<in> set cs"
proof -
  have "mcs_with = mcs_insert" by (simp add: fun_eq_iff mcs_with_def mcs_insert_def)
  then show ?thesis
    by (simp add: from_slice_def mcs.has_foldl_ins mcs.has_empty)
qed

lemma from_char_to_char: "from_char (to_char c) = Some c"
  by (cases c) (simp_all add: from_char_def)

lemma mcs_is_empty_iter: "mcs_wf s \<Longrightarrow> mcs_is_empty s \<longleftrightarrow> mcs_iter s = []"
proof -
  assume wf: "mcs_wf s"
  have "s = 0 \<longleftrightarrow> (\<forall>n < 5. \<not> bit s n)"
    using wf by (auto simp: bit_eq_iff mcs_wf_def)
  then show ?thesis
    by (auto simp: mcs_is_empty_def mcs_iter_def mcs_iter_from_eq filter_empty_conv)
qed

end
