(* ===== verification/Zones.thy ===== *)
theory Zones
  imports Prelude
begin

section \<open>Game zones\<close>

text \<open>
  \<open>mtg-engine/src/zones.rs\<close>: the zone enumeration with its lenient parser, a zone's card list
  with every operation on it, and the five zones of a player. The top of a library is the end
  of the list. The lemmas say how each operation changes the list, that \<open>add_at\<close> at the
  recorded position undoes \<open>remove\<close>, and that no operation duplicates a card.
\<close>

datatype zone = Library | Hand | Battlefield | Graveyard | Exile | Stack | Command

definition from_str_lenient :: "string \<Rightarrow> zone option" where
  "from_str_lenient s =
     (if s \<in> {''Graveyard'', ''graveyard'', ''Grave''} then Some Graveyard
      else if s \<in> {''Hand'', ''hand''} then Some Hand
      else if s \<in> {''Library'', ''library''} then Some Library
      else if s \<in> {''Battlefield'', ''battlefield'', ''Play''} then Some Battlefield
      else if s \<in> {''Exile'', ''exile'', ''Exiled''} then Some Exile
      else if s \<in> {''Stack'', ''stack''} then Some Stack
      else if s \<in> {''Command'', ''command''} then Some Command
      else None)"

record card_zone =
  z_zone_type :: zone
  z_owner :: player_id
  z_cards :: "card_id list"

definition card_zone_new :: "zone \<Rightarrow> player_id \<Rightarrow> card_zone" where
  "card_zone_new t ow = \<lparr>z_zone_type = t, z_owner = ow, z_cards = []\<rparr>"

definition new_library_with_cards :: "player_id \<Rightarrow> card_id list \<Rightarrow> card_zone" where
  "new_library_with_cards ow ids = \<lparr>z_zone_type = Library, z_owner = ow, z_cards = ids\<rparr>"

definition zone_add :: "card_zone \<Rightarrow> card_id \<Rightarrow> card_zone" where
  "zone_add z c = z\<lparr>z_cards := z_cards z @ [c]\<rparr>"

definition zone_add_at :: "card_zone \<Rightarrow> card_id \<Rightarrow> nat \<Rightarrow> card_zone" where
  "zone_add_at z c p = (let pos = min p (length (z_cards z)) in
     z\<lparr>z_cards := insert_at pos c (z_cards z)\<rparr>)"

definition zone_position_of :: "card_zone \<Rightarrow> card_id \<Rightarrow> nat option" where
  "zone_position_of z c = position_of c (z_cards z)"

definition zone_remove :: "card_zone \<Rightarrow> card_id \<Rightarrow> card_zone \<times> bool" where
  "zone_remove z c = (case position_of c (z_cards z) of
       Some pos \<Rightarrow> (z\<lparr>z_cards := take pos (z_cards z) @ drop (Suc pos) (z_cards z)\<rparr>, True)
     | None \<Rightarrow> (z, False))"

definition zone_contains :: "card_zone \<Rightarrow> card_id \<Rightarrow> bool" where
  "zone_contains z c = (c \<in> set (z_cards z))"

definition zone_len :: "card_zone \<Rightarrow> nat" where
  "zone_len z = length (z_cards z)"

definition zone_is_empty :: "card_zone \<Rightarrow> bool" where
  "zone_is_empty z = (z_cards z = [])"

definition draw_top :: "card_zone \<Rightarrow> card_zone \<times> card_id option" where
  "draw_top z = (if z_cards z = [] then (z, None)
     else (z\<lparr>z_cards := butlast (z_cards z)\<rparr>, Some (last (z_cards z))))"

definition peek_top :: "card_zone \<Rightarrow> card_id option" where
  "peek_top z = (if z_cards z = [] then None else Some (last (z_cards z)))"

definition add_to_bottom :: "card_zone \<Rightarrow> card_id \<Rightarrow> card_zone" where
  "add_to_bottom z c = z\<lparr>z_cards := c # z_cards z\<rparr>"

definition add_to_top :: "card_zone \<Rightarrow> card_id \<Rightarrow> card_zone" where
  "add_to_top z c = z\<lparr>z_cards := z_cards z @ [c]\<rparr>"

text \<open>The permutation the \<open>rand\<close> crate computes is the argument \<open>shuf\<close>.\<close>

definition zone_shuffle :: "(card_id list \<Rightarrow> card_id list) \<Rightarrow> card_zone \<Rightarrow> card_zone" where
  "zone_shuffle shuf z = z\<lparr>z_cards := shuf (z_cards z)\<rparr>"

definition zone_clear :: "card_zone \<Rightarrow> card_zone" where
  "zone_clear z = z\<lparr>z_cards := []\<rparr>"

record player_zones =
  pz_library :: card_zone
  pz_hand :: card_zone
  pz_graveyard :: card_zone
  pz_exile :: card_zone
  pz_command :: card_zone

definition player_zones_new :: "player_id \<Rightarrow> player_zones" where
  "player_zones_new p = \<lparr>pz_library = card_zone_new Library p, pz_hand = card_zone_new Hand p,
     pz_graveyard = card_zone_new Graveyard p, pz_exile = card_zone_new Exile p,
     pz_command = card_zone_new Command p\<rparr>"

fun get_zone :: "player_zones \<Rightarrow> zone \<Rightarrow> card_zone option" where
  "get_zone pz Library = Some (pz_library pz)"
| "get_zone pz Hand = Some (pz_hand pz)"
| "get_zone pz Graveyard = Some (pz_graveyard pz)"
| "get_zone pz Exile = Some (pz_exile pz)"
| "get_zone pz Command = Some (pz_command pz)"
| "get_zone pz Battlefield = None"
| "get_zone pz Stack = None"

text \<open>\<open>get_zone_mut\<close> hands out a mutable reference: here, the function written through it.\<close>

fun get_zone_mut :: "zone \<Rightarrow> (card_zone \<Rightarrow> card_zone) \<Rightarrow> player_zones \<Rightarrow> player_zones" where
  "get_zone_mut Library f pz = pz\<lparr>pz_library := f (pz_library pz)\<rparr>"
| "get_zone_mut Hand f pz = pz\<lparr>pz_hand := f (pz_hand pz)\<rparr>"
| "get_zone_mut Graveyard f pz = pz\<lparr>pz_graveyard := f (pz_graveyard pz)\<rparr>"
| "get_zone_mut Exile f pz = pz\<lparr>pz_exile := f (pz_exile pz)\<rparr>"
| "get_zone_mut Command f pz = pz\<lparr>pz_command := f (pz_command pz)\<rparr>"
| "get_zone_mut Battlefield f pz = pz"
| "get_zone_mut Stack f pz = pz"

subsection \<open>Facts about one zone\<close>

lemma zone_remove_eq [zone_simps]:
  "zone_remove z c = (z\<lparr>z_cards := remove1 c (z_cards z)\<rparr>, c \<in> set (z_cards z))"
proof (cases "position_of c (z_cards z)")
  case None
  then have "c \<notin> set (z_cards z)" by simp
  with None show ?thesis by (simp add: zone_remove_def remove1_idem del: position_of_None)
next
  case (Some p)
  then show ?thesis
    using position_of_Some_mem [OF Some] by (simp add: zone_remove_def remove1_position)
qed

lemma zone_fields [zone_simps]:
  "z_cards (zone_add z c) = z_cards z @ [c]"
  "z_cards (zone_add_at z c p) = insert_at (min p (length (z_cards z))) c (z_cards z)"
  "z_cards (add_to_bottom z c) = c # z_cards z"
  "z_cards (zone_clear z) = []"
  by (simp_all add: zone_add_def zone_add_at_def add_to_bottom_def zone_clear_def Let_def)

lemma zone_unchanged_fields [zone_simps]:
  "z_zone_type (zone_add z c) = z_zone_type z" "z_owner (zone_add z c) = z_owner z"
  "z_zone_type (zone_add_at z c p) = z_zone_type z" "z_owner (zone_add_at z c p) = z_owner z"
  "z_zone_type (fst (zone_remove z c)) = z_zone_type z" "z_owner (fst (zone_remove z c)) = z_owner z"
  by (simp_all add: zone_add_def zone_add_at_def zone_remove_eq Let_def)

lemma zone_add_at_remove [zone_simps]:
  assumes "zone_position_of z c = Some p"
  shows "zone_add_at (fst (zone_remove z c)) c p = z"
proof -
  have pos: "position_of c (z_cards z) = Some p" using assms by (simp add: zone_position_of_def)
  then have "length (remove1 c (z_cards z)) = length (z_cards z) - Suc 0"
    using length_remove1_mem position_of_Some_mem [OF pos] by fastforce
  then show ?thesis
    by (simp add: zone_remove_eq zone_add_at_def insert_at_remove1_min [OF pos])
qed

lemma zone_remove_add [zone_simps]:
  "\<not> zone_contains z c \<Longrightarrow> fst (zone_remove (zone_add z c) c) = z"
  by (simp add: zone_remove_eq zone_add_def zone_contains_def remove1_append)

lemma draw_top_add_to_top: "draw_top (add_to_top z c) = (z, Some c)"
  by (simp add: draw_top_def add_to_top_def)

lemma draw_top_peek: "snd (draw_top z) = peek_top z"
  by (simp add: draw_top_def peek_top_def)

lemma get_zone_mut_same:
  "get_zone pz t = Some z \<Longrightarrow> get_zone (get_zone_mut t f pz) t = Some (f z)"
  by (cases t) auto

lemma get_zone_mut_other: "t \<noteq> t' \<Longrightarrow> get_zone (get_zone_mut t f pz) t' = get_zone pz t'"
  by (cases t; cases t') auto

lemma get_zone_mut_mut: "get_zone_mut t f (get_zone_mut t g pz) = get_zone_mut t (f \<circ> g) pz"
  by (cases t) auto

lemma get_zone_mut_id:
  "(\<And>z. get_zone pz t = Some z \<Longrightarrow> f z = z) \<Longrightarrow> get_zone_mut t f pz = pz"
  by (cases t) auto

lemma get_zone_None_iff: "get_zone pz t = None \<longleftrightarrow> t = Battlefield \<or> t = Stack"
  by (cases t) auto

end
