(* ===== verification/Phase.thy ===== *)
theory Phase
  imports Prelude
begin

section \<open>Phases, steps and the turn structure\<close>

text \<open>
  \<open>mtg-engine/src/game/phase.rs\<close>: the phases and steps, their order, the tokens scripts use for
  them, and the turn structure with the operations that advance it. The derived \<open>Ord\<close> of \<open>Step\<close>
  is the instantiation of \<open>linorder\<close>; \<open>next_step\<close> is shown to walk the twelve steps in that
  order, so that a turn ends after at most twelve steps.
\<close>

datatype phase = Beginning | PreCombatMain | Combat | PostCombatMain | Ending

datatype step = Untap | Upkeep | Draw | Main1 | BeginCombat | DeclareAttackers
  | DeclareBlockers | CombatDamage | EndCombat | Main2 | End | Cleanup

fun as_hash_u32 :: "step \<Rightarrow> u32" where
  "as_hash_u32 Untap = 0"
| "as_hash_u32 Upkeep = 1"
| "as_hash_u32 Draw = 2"
| "as_hash_u32 Main1 = 3"
| "as_hash_u32 BeginCombat = 4"
| "as_hash_u32 DeclareAttackers = 5"
| "as_hash_u32 DeclareBlockers = 6"
| "as_hash_u32 CombatDamage = 7"
| "as_hash_u32 EndCombat = 8"
| "as_hash_u32 Main2 = 9"
| "as_hash_u32 End = 10"
| "as_hash_u32 Cleanup = 11"

fun step_phase :: "step \<Rightarrow> phase" where
  "step_phase Untap = Beginning"
| "step_phase Upkeep = Beginning"
| "step_phase Draw = Beginning"
| "step_phase Main1 = PreCombatMain"
| "step_phase BeginCombat = Combat"
| "step_phase DeclareAttackers = Combat"
| "step_phase DeclareBlockers = Combat"
| "step_phase CombatDamage = Combat"
| "step_phase EndCombat = Combat"
| "step_phase Main2 = PostCombatMain"
| "step_phase End = Ending"
| "step_phase Cleanup = Ending"

fun step_abbreviation :: "step \<Rightarrow> string" where
  "step_abbreviation Untap = ''UK''"
| "step_abbreviation Upkeep = ''UP''"
| "step_abbreviation Draw = ''DR''"
| "step_abbreviation Main1 = ''M1''"
| "step_abbreviation BeginCombat = ''BC''"
| "step_abbreviation DeclareAttackers = ''DA''"
| "step_abbreviation DeclareBlockers = ''DB''"
| "step_abbreviation CombatDamage = ''CD''"
| "step_abbreviation EndCombat = ''EC''"
| "step_abbreviation Main2 = ''M2''"
| "step_abbreviation End = ''ET''"
| "step_abbreviation Cleanup = ''CL''"

text \<open>\<open>is_ascii_whitespace\<close> and \<open>to_ascii_lowercase\<close> of Rust's \<open>char\<close>.\<close>

definition is_ascii_whitespace :: "char \<Rightarrow> bool" where
  "is_ascii_whitespace ch = ((of_char ch :: nat) \<in> {32, 9, 10, 12, 13})"

definition to_ascii_lowercase :: "char \<Rightarrow> char" where
  "to_ascii_lowercase ch = (if 65 \<le> (of_char ch :: nat) \<and> (of_char ch :: nat) \<le> 90
     then char_of ((of_char ch :: nat) + 32) else ch)"

definition normalize_token :: "string \<Rightarrow> string" where
  "normalize_token name = map to_ascii_lowercase (filter (\<lambda>ch. \<not> is_ascii_whitespace ch) name)"

definition from_script_name :: "string \<Rightarrow> step option" where
  "from_script_name name = (let n = normalize_token name in
     if n = ''untap'' then Some Untap
     else if n = ''upkeep'' then Some Upkeep
     else if n = ''draw'' then Some Draw
     else if n \<in> {''main'', ''main1'', ''premaincombat'', ''precombatmain''} then Some Main1
     else if n \<in> {''begincombat'', ''beginningofcombat''} then Some BeginCombat
     else if n = ''declareattackers'' then Some DeclareAttackers
     else if n = ''declareblockers'' then Some DeclareBlockers
     else if n = ''combatdamage'' then Some CombatDamage
     else if n \<in> {''endcombat'', ''endofcombat''} then Some EndCombat
     else if n \<in> {''main2'', ''postcombatmain'', ''postmaincombat''} then Some Main2
     else if n \<in> {''end'', ''endofturn'', ''endstep''} then Some End
     else if n = ''cleanup'' then Some Cleanup
     else None)"

fun next_step :: "step \<Rightarrow> step option" where
  "next_step Untap = Some Upkeep"
| "next_step Upkeep = Some Draw"
| "next_step Draw = Some Main1"
| "next_step Main1 = Some BeginCombat"
| "next_step BeginCombat = Some DeclareAttackers"
| "next_step DeclareAttackers = Some DeclareBlockers"
| "next_step DeclareBlockers = Some CombatDamage"
| "next_step CombatDamage = Some EndCombat"
| "next_step EndCombat = Some Main2"
| "next_step Main2 = Some End"
| "next_step End = Some Cleanup"
| "next_step Cleanup = None"

definition is_sorcery_speed :: "step \<Rightarrow> bool" where
  "is_sorcery_speed s = (s = Main1 \<or> s = Main2)"

definition can_play_lands :: "step \<Rightarrow> bool" where
  "can_play_lands s = (s = Main1 \<or> s = Main2)"

subsection \<open>The turn structure\<close>

record turn_structure =
  ts_turn_number :: u32
  ts_current_step :: step
  ts_active_player :: player_id
  ts_active_player_idx :: nat
  ts_priority_player :: "player_id option"
  ts_consecutive_passes :: u8

definition turn_structure_new :: "player_id \<Rightarrow> turn_structure" where
  "turn_structure_new p = \<lparr>ts_turn_number = 1, ts_current_step = Untap, ts_active_player = p,
     ts_active_player_idx = 0, ts_priority_player = None, ts_consecutive_passes = 0\<rparr>"

definition turn_structure_new_with_idx :: "player_id \<Rightarrow> nat \<Rightarrow> turn_structure" where
  "turn_structure_new_with_idx p i = \<lparr>ts_turn_number = 1, ts_current_step = Untap,
     ts_active_player = p, ts_active_player_idx = i, ts_priority_player = None,
     ts_consecutive_passes = 0\<rparr>"

definition current_phase :: "turn_structure \<Rightarrow> phase" where
  "current_phase ts = step_phase (ts_current_step ts)"

definition ts_advance_step :: "turn_structure \<Rightarrow> turn_structure \<times> bool" where
  "ts_advance_step ts = (case next_step (ts_current_step ts) of
       Some s \<Rightarrow> (ts\<lparr>ts_current_step := s\<rparr>, True)
     | None \<Rightarrow> (ts, False))"

definition next_turn :: "turn_structure \<Rightarrow> player_id \<Rightarrow> turn_structure" where
  "next_turn ts p = ts\<lparr>ts_turn_number := ts_turn_number ts + 1, ts_current_step := Untap,
     ts_active_player := p, ts_priority_player := None, ts_consecutive_passes := 0\<rparr>"

subsection \<open>The order of the steps\<close>

lemma as_hash_u32_inject: "as_hash_u32 a = as_hash_u32 b \<longleftrightarrow> a = b"
  by (cases a; cases b) simp_all

instantiation step :: linorder
begin

definition less_eq_step :: "step \<Rightarrow> step \<Rightarrow> bool" where
  "less_eq_step a b = (as_hash_u32 a \<le> as_hash_u32 b)"

definition less_step :: "step \<Rightarrow> step \<Rightarrow> bool" where
  "less_step a b = (as_hash_u32 a < as_hash_u32 b)"

instance
proof
  fix a b :: step
  show "a \<le> b \<Longrightarrow> b \<le> a \<Longrightarrow> a = b"
    by (simp add: less_eq_step_def as_hash_u32_inject)
qed (auto simp: less_eq_step_def less_step_def)

end

lemma next_step_hash: "next_step s = Some t \<Longrightarrow> as_hash_u32 t = as_hash_u32 s + 1"
  by (cases s) auto

lemma next_step_less: "next_step s = Some t \<Longrightarrow> s < t"
  by (cases s) (auto simp: less_step_def)

lemma next_step_None: "next_step s = None \<longleftrightarrow> s = Cleanup"
  by (cases s) auto

lemma next_step_no_gap: "next_step s = Some t \<Longrightarrow> \<not> (s < u \<and> u < t)"
  by (cases s; cases u) (auto simp: less_step_def)

text \<open>The steps from \<open>s\<close> on that a turn still visits, with fuel for the longest turn.\<close>

fun steps_from :: "nat \<Rightarrow> step \<Rightarrow> step list" where
  "steps_from 0 s = []"
| "steps_from (Suc n) s = s # (case next_step s of Some t \<Rightarrow> steps_from n t | None \<Rightarrow> [])"

lemma advance_step_measure:
  "ts_advance_step ts = (ts', True) \<Longrightarrow>
     11 - unat (as_hash_u32 (ts_current_step ts')) < 11 - unat (as_hash_u32 (ts_current_step ts))"
  by (cases "ts_current_step ts") (auto simp: ts_advance_step_def)

lemma advance_step_false: "ts_advance_step ts = (ts', False) \<longleftrightarrow> ts' = ts \<and> ts_current_step ts = Cleanup"
  by (cases "ts_current_step ts") (auto simp: ts_advance_step_def)

end
