(* ===== verification/CardData.thy ===== *)
theory CardData
  imports Restriction ManaProduction Zones Phase
begin

section \<open>Card types, abilities, the card cache and the card definition\<close>

text \<open>
  The static data of a card: \<open>CardType\<close>, \<open>CardCache\<close> and its derivations
  (\<open>mtg-engine/src/core/card.rs\<close>), \<open>ActivatedAbility\<close> and \<open>AbilityCache\<close> (\<open>core/effects.rs\<close>) and
  \<open>CardDefinition\<close> with three of its script predicates (\<open>loader/card.rs\<close>). The effects a card can
  have are several hundred variants; those the modelled code builds or inspects are
  constructors, the others are the uninterpreted \<open>OtherEffect\<close>.
\<close>

datatype card_type = Creature | Instant | Sorcery | Enchantment | Artifact | Land | Planeswalker

definition card_type_parse :: "string \<Rightarrow> card_type option" where
  "card_type_parse s = (let t = trim s in
     if t = ''Creature'' then Some Creature
     else if t = ''Instant'' then Some Instant
     else if t = ''Sorcery'' then Some Sorcery
     else if t = ''Enchantment'' then Some Enchantment
     else if t = ''Artifact'' then Some Artifact
     else if t = ''Land'' then Some Land
     else if t = ''Planeswalker'' then Some Planeswalker
     else None)"

fun card_type_as_str :: "card_type \<Rightarrow> string" where
  "card_type_as_str Creature = ''Creature''"
| "card_type_as_str Instant = ''Instant''"
| "card_type_as_str Sorcery = ''Sorcery''"
| "card_type_as_str Enchantment = ''Enchantment''"
| "card_type_as_str Artifact = ''Artifact''"
| "card_type_as_str Land = ''Land''"
| "card_type_as_str Planeswalker = ''Planeswalker''"

subsection \<open>Abilities\<close>

typedecl effect_body
typedecl trigger
typedecl ability_params
typedecl adventure_face
typedecl dynamic_amount

datatype effect =
    AddMana player_id mana_cost bool "string option"
  | AttachEquipment card_id card_id
  | Earthbend card_id u8
  | Scry player_id u8 bool
  | DestroyPermanent card_id target_restriction bool
  | DestroyAll target_restriction bool "card_id option"
  | GainLifeDynamic player_id dynamic_amount card_id
  | SearchLibrary player_id string zone bool bool
  | OtherEffect effect_body

record ability_cache =
  ac_description_lowercase :: string
  ac_targets_tapped :: bool
  ac_targets_untapped :: bool
  ac_targets_creature :: bool
  ac_targets_land :: bool
  ac_requires_target :: bool
  ac_targets_player :: bool
  ac_targets_opponent :: bool

definition to_lowercase :: "string \<Rightarrow> string" where
  "to_lowercase s = map to_ascii_lowercase s"

definition ability_cache_new :: "string \<Rightarrow> ability_cache" where
  "ability_cache_new description =
     (let d = to_lowercase description;
          targets_opponent = has_substring ''target opponent'' d;
          targets_player = (\<not> targets_opponent \<and> has_substring ''target player'' d) in
      \<lparr>ac_description_lowercase = d,
       ac_targets_tapped = has_substring ''tapped'' d,
       ac_targets_untapped = has_substring ''untapped'' d,
       ac_targets_creature = has_substring ''creature'' d,
       ac_targets_land = has_substring ''land'' d,
       ac_requires_target = (has_substring ''target'' d \<and> \<not> starts_with ''create'' d)
         \<or> starts_with ''equip'' d,
       ac_targets_player = targets_player,
       ac_targets_opponent = targets_opponent\<rparr>)"

datatype compare_op = OpEqual | OpGreaterEqual | OpLessEqual | OpGreater | OpLess

fun compare_matches :: "compare_op \<Rightarrow> nat \<Rightarrow> nat \<Rightarrow> bool" where
  "compare_matches OpEqual actual threshold = (actual = threshold)"
| "compare_matches OpGreaterEqual actual threshold = (threshold \<le> actual)"
| "compare_matches OpLessEqual actual threshold = (actual \<le> threshold)"
| "compare_matches OpGreater actual threshold = (threshold < actual)"
| "compare_matches OpLess actual threshold = (actual < threshold)"

record activation_condition =
  acn_filter :: string
  acn_zone :: zone
  acn_op :: compare_op
  acn_count :: u8

record activation_phase_window =
  apw_start :: step
  apw_end :: step

definition window_contains :: "activation_phase_window \<Rightarrow> step \<Rightarrow> bool" where
  "window_contains w s = (apw_start w \<le> s \<and> s \<le> apw_end w)"

record activated_ability =
  aa_cost :: cost
  aa_effects :: "effect list"
  aa_description :: string
  aa_is_mana_ability :: bool
  aa_sorcery_speed :: bool
  aa_your_turn_only :: bool
  aa_exhaust :: bool
  aa_activation_condition :: "activation_condition option"
  aa_activation_phases :: "activation_phase_window option"
  aa_produces_reflected_mana :: bool
  aa_activation_zone :: zone
  aa_cache :: ability_cache

definition activated_ability_new ::
  "cost \<Rightarrow> effect list \<Rightarrow> string \<Rightarrow> bool \<Rightarrow> activated_ability" where
  "activated_ability_new c es d is_mana =
     \<lparr>aa_cost = c, aa_effects = es, aa_description = d, aa_is_mana_ability = is_mana,
      aa_sorcery_speed = False, aa_your_turn_only = False, aa_exhaust = False,
      aa_activation_condition = None, aa_activation_phases = None,
      aa_produces_reflected_mana = False, aa_activation_zone = Battlefield,
      aa_cache = ability_cache_new d\<rparr>"

definition new_sorcery_speed :: "cost \<Rightarrow> effect list \<Rightarrow> string \<Rightarrow> activated_ability" where
  "new_sorcery_speed c es d =
     \<lparr>aa_cost = c, aa_effects = es, aa_description = d, aa_is_mana_ability = False,
      aa_sorcery_speed = True, aa_your_turn_only = False, aa_exhaust = False,
      aa_activation_condition = None, aa_activation_phases = None,
      aa_produces_reflected_mana = False, aa_activation_zone = Battlefield,
      aa_cache = ability_cache_new d\<rparr>"

subsection \<open>The card cache\<close>

record card_cache =
  cc_is_land :: bool
  cc_is_creature :: bool
  cc_is_artifact :: bool
  cc_is_instant :: bool
  cc_is_sorcery :: bool
  cc_is_enchantment :: bool
  cc_is_aura :: bool
  cc_is_equipment :: bool
  cc_mana_production :: mana_production
  cc_is_mana_source :: bool
  cc_requires_stack_target :: bool
  cc_spell_targets_land :: bool
  cc_spell_targets_creature :: bool
  cc_spell_targets_planeswalker :: bool
  cc_spell_targets_player :: bool
  cc_spell_targets_any :: bool
  cc_spell_relative_target_cost :: bool
  cc_land_evaluation_value :: i32
  cc_has_plains_subtype :: bool
  cc_has_island_subtype :: bool
  cc_has_swamp_subtype :: bool
  cc_has_mountain_subtype :: bool
  cc_has_forest_subtype :: bool
  cc_enters_tapped :: bool
  cc_skips_untap_step :: bool
  cc_etb_choose_color :: bool
  cc_etb_exclude_colors :: "color list"
  cc_etb_choose_player :: bool
  cc_limits_land_untap :: "u8 option"
  cc_is_island_sanctuary :: bool
  cc_etb_choose_mode :: bool
  cc_etb_mode_ai_logic :: "string option"
  cc_etb_mode_choices :: "string list"
  cc_etb_pay_life :: bool
  cc_etb_choose_name :: bool

definition card_cache_new :: "string \<Rightarrow> string \<Rightarrow> card_cache" where
  "card_cache_new text _ = (let t = to_lowercase text in
     \<lparr>cc_is_land = False, cc_is_creature = False, cc_is_artifact = False, cc_is_instant = False,
      cc_is_sorcery = False, cc_is_enchantment = False, cc_is_aura = False,
      cc_is_equipment = False, cc_mana_production = mana_production_default,
      cc_is_mana_source = False, cc_requires_stack_target = False,
      cc_spell_targets_land = has_substring ''target land'' t
        \<and> \<not> has_substring ''target creature'' t \<and> \<not> has_substring ''any target'' t,
      cc_spell_targets_creature = (has_substring ''target creature'' t
        \<or> has_substring ''target nonartifact'' t \<or> has_substring ''target tapped creature'' t
        \<or> has_substring ''target untapped creature'' t) \<and> \<not> has_substring ''any target'' t,
      cc_spell_targets_planeswalker = has_substring ''target planeswalker'' t
        \<or> has_substring ''creature or planeswalker'' t \<or> has_substring ''any target'' t,
      cc_spell_targets_player = has_substring ''target player'' t
        \<or> has_substring ''target opponent'' t,
      cc_spell_targets_any = has_substring ''any target'' t,
      cc_spell_relative_target_cost = False, cc_land_evaluation_value = 0,
      cc_has_plains_subtype = False, cc_has_island_subtype = False,
      cc_has_swamp_subtype = False, cc_has_mountain_subtype = False,
      cc_has_forest_subtype = False, cc_enters_tapped = False, cc_skips_untap_step = False,
      cc_etb_choose_color = False, cc_etb_exclude_colors = [], cc_etb_choose_player = False,
      cc_limits_land_untap = None, cc_is_island_sanctuary = False, cc_etb_choose_mode = False,
      cc_etb_mode_ai_logic = None, cc_etb_mode_choices = [], cc_etb_pay_life = False,
      cc_etb_choose_name = False\<rparr>)"

definition update_from_types :: "card_type list \<Rightarrow> card_cache \<Rightarrow> card_cache" where
  "update_from_types ts cc = cc\<lparr>cc_is_land := Land \<in> set ts, cc_is_creature := Creature \<in> set ts,
     cc_is_artifact := Artifact \<in> set ts, cc_is_instant := Instant \<in> set ts,
     cc_is_sorcery := Sorcery \<in> set ts, cc_is_enchantment := Enchantment \<in> set ts\<rparr>"

definition eq_ignore_ascii_case :: "string \<Rightarrow> string \<Rightarrow> bool" where
  "eq_ignore_ascii_case a b = (to_lowercase a = to_lowercase b)"

definition update_one_subtype :: "card_cache \<Rightarrow> string \<Rightarrow> card_cache" where
  "update_one_subtype cc s =
     (if eq_ignore_ascii_case s ''plains'' then cc\<lparr>cc_has_plains_subtype := True\<rparr>
      else if eq_ignore_ascii_case s ''island'' then cc\<lparr>cc_has_island_subtype := True\<rparr>
      else if eq_ignore_ascii_case s ''swamp'' then cc\<lparr>cc_has_swamp_subtype := True\<rparr>
      else if eq_ignore_ascii_case s ''mountain'' then cc\<lparr>cc_has_mountain_subtype := True\<rparr>
      else if eq_ignore_ascii_case s ''forest'' then cc\<lparr>cc_has_forest_subtype := True\<rparr>
      else if eq_ignore_ascii_case s ''aura'' then cc\<lparr>cc_is_aura := cc_is_enchantment cc\<rparr>
      else if eq_ignore_ascii_case s ''equipment'' then cc\<lparr>cc_is_equipment := cc_is_artifact cc\<rparr>
      else cc)"

definition update_from_subtypes :: "string list \<Rightarrow> string \<Rightarrow> card_cache \<Rightarrow> card_cache" where
  "update_from_subtypes subtypes card_name cc =
     (let cc1 = foldl update_one_subtype cc subtypes; n = to_lowercase card_name in
      if cc_is_land cc1 then
        cc1\<lparr>cc_has_plains_subtype := cc_has_plains_subtype cc1 \<or> has_substring ''plains'' n,
          cc_has_island_subtype := cc_has_island_subtype cc1 \<or> has_substring ''island'' n,
          cc_has_swamp_subtype := cc_has_swamp_subtype cc1 \<or> has_substring ''swamp'' n,
          cc_has_mountain_subtype := cc_has_mountain_subtype cc1 \<or> has_substring ''mountain'' n,
          cc_has_forest_subtype := cc_has_forest_subtype cc1 \<or> has_substring ''forest'' n\<rparr>
      else cc1)"

definition derive_mana_production_from_subtypes :: "card_cache \<Rightarrow> mana_production" where
  "derive_mana_production_from_subtypes cc =
     (let c0 = mcs_new;
          c1 = (if cc_has_plains_subtype cc then mcs_insert c0 MWhite else c0);
          c2 = (if cc_has_island_subtype cc then mcs_insert c1 MBlue else c1);
          c3 = (if cc_has_swamp_subtype cc then mcs_insert c2 MBlack else c2);
          c4 = (if cc_has_mountain_subtype cc then mcs_insert c3 MRed else c3);
          colors = (if cc_has_forest_subtype cc then mcs_insert c4 MGreen else c4);
          n = mcs_len colors in
      if n = 0 then mana_production_default
      else if n = 1 then mp_free (Fixed (hd (mcs_iter colors)))
      else mp_free (Choice colors))"

definition derive_mana_production_from_name :: "string \<Rightarrow> mana_production" where
  "derive_mana_production_from_name name = (let n = to_lowercase name in
     if has_substring ''plains'' n then mp_free (Fixed MWhite)
     else if has_substring ''island'' n then mp_free (Fixed MBlue)
     else if has_substring ''swamp'' n then mp_free (Fixed MBlack)
     else if has_substring ''mountain'' n then mp_free (Fixed MRed)
     else if has_substring ''forest'' n then mp_free (Fixed MGreen)
     else if has_substring ''wastes'' n then mp_free KColorless
     else mana_production_default)"

definition set_mana_production :: "mana_production \<Rightarrow> card_cache \<Rightarrow> card_cache" where
  "set_mana_production p cc = cc\<lparr>cc_mana_production := p, cc_is_mana_source := produces_mana p\<rparr>"

text \<open>\<open>clamp(1, 255) as u8\<close> of a life amount; the recursion through composites takes the worst.\<close>

definition clamp_life :: "i32 \<Rightarrow> u8" where
  "clamp_life a = word_of_int (max 1 (min 255 (sint a)))"

fun derive_side_cost_from_cost :: "cost \<Rightarrow> mana_side_cost" where
  "derive_side_cost_from_cost (CSacrifice _) = SideSacrifice"
| "derive_side_cost_from_cost (CSacrificePattern _ _) = SideSacrifice"
| "derive_side_cost_from_cost (CPayLife a) = SidePayLife (clamp_life a)"
| "derive_side_cost_from_cost (CComposite parts) =
     foldl max SideNone (map derive_side_cost_from_cost parts)"
| "derive_side_cost_from_cost _ = SideNone"

text \<open>The accumulators of \<open>derive_mana_production_from_abilities\<close>.\<close>

record mana_scan =
  msc_colors :: mana_colors
  msc_colorless :: bool
  msc_any :: bool
  msc_max_amount :: u8
  msc_min_side :: "mana_side_cost option"
  msc_other :: bool

definition mana_scan_init :: mana_scan where
  "mana_scan_init = \<lparr>msc_colors = mcs_new, msc_colorless = False, msc_any = False,
     msc_max_amount = 0, msc_min_side = None, msc_other = False\<rparr>"

definition insert_if :: "bool \<Rightarrow> mana_color \<Rightarrow> mana_colors \<Rightarrow> mana_colors" where
  "insert_if b c s = (if b then mcs_insert s c else s)"

definition component_amount :: "mana_cost \<Rightarrow> u8" where
  "component_amount m = max (max (max (max (max (mc_white m) (mc_blue m)) (mc_black m)) (mc_red m))
     (mc_green m)) (mc_colorless m)"

definition scan_add_mana :: "mana_scan \<Rightarrow> mana_cost \<Rightarrow> mana_scan" where
  "scan_add_mana sc m =
     sc\<lparr>msc_colors := insert_if (0 < mc_green m) MGreen (insert_if (0 < mc_red m) MRed
           (insert_if (0 < mc_black m) MBlack (insert_if (0 < mc_blue m) MBlue
             (insert_if (0 < mc_white m) MWhite (msc_colors sc))))),
        msc_colorless := msc_colorless sc \<or> 0 < mc_colorless m,
        msc_any := msc_any sc \<or> (0 < mc_white m \<and> 0 < mc_blue m \<and> 0 < mc_black m
           \<and> 0 < mc_red m \<and> 0 < mc_green m),
        msc_max_amount := (if msc_max_amount sc < component_amount m then component_amount m
           else msc_max_amount sc)\<rparr>"

definition scan_mana_effect :: "mana_scan \<Rightarrow> effect \<Rightarrow> mana_scan" where
  "scan_mana_effect sc e = (case e of AddMana _ m _ _ \<Rightarrow> scan_add_mana sc m | _ \<Rightarrow> sc)"

definition scan_mana_ability :: "mana_scan \<Rightarrow> activated_ability \<Rightarrow> mana_scan" where
  "scan_mana_ability sc ab =
     (if \<not> aa_is_mana_ability ab
      then (if aa_effects ab \<noteq> [] then sc\<lparr>msc_other := True\<rparr> else sc)
      else
        let side = derive_side_cost_from_cost (aa_cost ab);
            sc1 = sc\<lparr>msc_min_side := Some (case msc_min_side sc of
                Some prev \<Rightarrow> min prev side | None \<Rightarrow> side)\<rparr> in
        foldl scan_mana_effect sc1 (aa_effects ab))"

definition derive_mana_production_from_abilities :: "activated_ability list \<Rightarrow> mana_production" where
  "derive_mana_production_from_abilities abilities =
     (let sc = foldl scan_mana_ability mana_scan_init abilities;
          amount = max (msc_max_amount sc) 1;
          base = (case msc_min_side sc of Some s \<Rightarrow> s | None \<Rightarrow> SideNone);
          side = (if base = SideNone \<and> msc_other sc then SideUtility else base);
          n = mcs_len (msc_colors sc) in
      if msc_any sc then mp_with_side_cost (mp_with_amount AnyColor amount) side
      else if n = 0 \<and> msc_colorless sc
        then mp_with_side_cost (mp_with_amount KColorless amount) side
      else if n = 0 then mana_production_default
      else if n = 1
        then mp_with_side_cost (mp_with_amount (Fixed (hd (mcs_iter (msc_colors sc)))) amount) side
      else mp_with_side_cost (mp_with_amount (Choice (msc_colors sc)) amount) side)"

definition update_from_abilities :: "activated_ability list \<Rightarrow> card_cache \<Rightarrow> card_cache" where
  "update_from_abilities abilities cc = (let p = derive_mana_production_from_abilities abilities in
     cc\<lparr>cc_mana_production := p, cc_is_mana_source := produces_mana p\<rparr>)"

definition update_from_abilities_with_name ::
  "activated_ability list \<Rightarrow> string \<Rightarrow> card_cache \<Rightarrow> card_cache" where
  "update_from_abilities_with_name abilities name cc =
     (let p0 = derive_mana_production_from_abilities abilities;
          p1 = (if \<not> produces_mana p0 then derive_mana_production_from_subtypes cc else p0);
          p2 = (if \<not> produces_mana p1 \<and> cc_is_land cc
                then derive_mana_production_from_name name else p1) in
      cc\<lparr>cc_mana_production := p2, cc_is_mana_source := produces_mana p2\<rparr>)"

subsection \<open>The card definition\<close>

record card_definition =
  cd_name :: string
  cd_mana_cost :: mana_cost
  cd_types :: "card_type list"
  cd_subtypes :: "string list"
  cd_colors :: "color list"
  cd_power :: "i8 option"
  cd_toughness :: "i8 option"
  cd_oracle :: string
  cd_raw_abilities :: "string list"
  cd_raw_keywords :: "string list"
  cd_svars :: "string \<rightharpoonup> string"
  cd_parsed_svars :: "string \<rightharpoonup> ability_params"
  cd_enters_tapped :: bool
  cd_etb_tapped_global :: "target_restriction option"
  cd_etb_choose_color :: bool
  cd_etb_exclude_colors :: "color list"
  cd_etb_choose_player :: bool
  cd_etb_choose_mode :: bool
  cd_etb_mode_ai_logic :: "string option"
  cd_etb_mode_choices :: "string list"
  cd_etb_pay_life :: bool
  cd_etb_choose_name :: bool
  cd_script_name :: "string option"
  cd_is_legendary :: bool
  cd_loyalty :: "u8 option"
  cd_cache :: card_cache
  cd_origin_set :: "string option"
  cd_adventure :: "adventure_face option"
  cd_is_adventure_face :: bool

text \<open>
  The three script predicates: an ability line with the given prefix whose \<open>|\<close>-separated
  \<open>key$ value\<close> tokens contain the given pairs.
\<close>

definition line_tokens :: "string \<Rightarrow> (string \<times> string) list" where
  "line_tokens body = List.map_filter (\<lambda>tok.
     map_option (\<lambda>(k, v). (trim k, trim v)) (split_once (CHR ''$'') (trim tok)))
     (split_on (CHR ''|'') body)"

definition has_relative_self_target_cost :: "card_definition \<Rightarrow> bool" where
  "has_relative_self_target_cost cd = list_ex (\<lambda>ability.
     case strip_prefix ''S:'' ability of None \<Rightarrow> False
     | Some body \<Rightarrow> {(''Mode'', ''RaiseCost''), (''ValidCard'', ''Card.Self''),
         (''Relative'', ''True'')} \<subseteq> set (line_tokens body)) (cd_raw_abilities cd)"

definition skips_untap_step :: "card_definition \<Rightarrow> bool" where
  "skips_untap_step cd = list_ex (\<lambda>ability.
     case strip_prefix ''R:'' ability of None \<Rightarrow> False
     | Some body \<Rightarrow> {(''Event'', ''BeginPhase''), (''Phase'', ''Untap''), (''Skip'', ''True'')}
         \<subseteq> set (line_tokens body)) (cd_raw_abilities cd)"

text \<open>\<open>limits_land_untap\<close>: the allowance is the last \<open>UntapAdjust:Land:n\<close> that parses.\<close>

definition land_allowance :: "(string \<times> string) list \<Rightarrow> u8 option" where
  "land_allowance toks = foldl (\<lambda>acc (k, v).
     if k = ''AddKeyword'' then (case split_on (CHR '':'') v of
         a # b # n # _ \<Rightarrow> if a = ''UntapAdjust'' \<and> b = ''Land''
           then (case parse_u8_signed n of Some w \<Rightarrow> Some w | None \<Rightarrow> acc) else acc
       | _ \<Rightarrow> acc)
     else acc) None toks"

definition limits_land_untap :: "card_definition \<Rightarrow> u8 option" where
  "limits_land_untap cd = find_map (\<lambda>ability.
     case strip_prefix ''S:'' ability of None \<Rightarrow> None
     | Some body \<Rightarrow> (let toks = line_tokens body in
         if (''Mode'', ''Continuous'') \<in> set toks \<and> (''Affected'', ''Player'') \<in> set toks
         then land_allowance toks else None)) (cd_raw_abilities cd)"

end
