(* ===== verification/Statics.thy ===== *)
theory Statics
  imports CardData
begin

section \<open>Static abilities\<close>

text \<open>
  \<open>StaticAbility\<close>, \<open>AffectedSelector\<close>, \<open>StaticCondition\<close> and \<open>CdaPtSource\<close> of
  \<open>mtg-engine/src/core/effects.rs\<close>. The 120 variants of the selector are grouped by what they look at;
  each keeps its name up to the five that clash with other constants (\<open>Self_\<close>, \<open>You\<close>, \<open>Player\<close>,
  \<open>Opponent\<close>, \<open>Any\<close>). The static abilities the modelled code reads are constructors, the others
  are the uninterpreted \<open>OtherStatic\<close>.
\<close>

typedecl static_body

text \<open>Selectors of the source itself.\<close>

datatype own_selector =
    SelfCard | SelfWhenEquipped | SelfWhenEnchanted | SelfWhenAttacking | SelfWhenUntapped
  | SelfWhenMonstrous | SelfWhenRenowned | SelfWithCounters string u32 | SelfThisTurnEntered
  | SelfTopLibrary | SelfWhenTapped | SelfWhenCast | SelfWhenNotAttacking | SelfWhenNotInCombat

text \<open>Selectors of what the source, or an Equipment or Aura, is attached to.\<close>

datatype attached_selector =
    CreatureEquippedBy | LandAttachedBy | CreatureEnchantedBy | CreatureAttachedBy
  | ArtifactEnchantedBy | PlaneswalkerEnchantedBy | EquipmentEnchantedBy | LandEnchantedBy
  | CardAttachedBy | HumanEquippedBy | EquippedByLegendary | PermanentAttachedBy
  | PermanentEquippedBy | VehicleAttachedBy | EquippedBySubtype string

text \<open>Groups of creatures.\<close>

datatype creature_selector =
    CreaturesYouControl | CreaturesYouControlOther | AllCreatures | CreaturesWithPowerGE i32
  | LandCreaturesYouControl | EquippedCreaturesYouControl | EnchantedCreaturesYouControl
  | CreaturesOpponentControls | TokenCreaturesYouControl | AttackingCreaturesYouControl
  | AllAttackingCreatures | TappedCreaturesYouControlOther | UntappedCreaturesYouControlOther
  | SliversYouControl | CreatureYouControlWasCast

text \<open>Groups of permanents and cards.\<close>

datatype permanent_selector =
    ArtifactsYouControl | ArtifactsYouControlOther | AllLands | PermanentsYouControl | LandsYouOwn
  | NonLandPermanentsYouControl | NonLandCardsYouOwn | AllPermanents | AllCards | CardsYouControl
  | CardsOpponentOwns | NonBasicLands | ArtifactsNonCreature | AllArtifacts | BasicLandsYouControl
  | NonLandCardsYouOwnWithoutForetell | ArtifactsNonCreatureYouControl
  | ArtifactCreaturesYouControlOther | TreasuresYouControl | CardsYouControlWasCast
  | PermanentsOpponentControls | LegendaryYouControl | LegendaryOtherYouControl
  | NonAuraEnchantmentsOther | EnchantmentsYouControl | HistoricYouControl | HistoricYouOwn
  | NonTokenArtifactsYouControl | NonLegendaryArtifactsYouControl

text \<open>Selectors by a subtype, a card type, a colour or a mana value.\<close>

datatype typed_selector =
    CreatureTypeYouControl string | CreatureTypeOtherYouControl string
  | CreatureTypesOtherYouControl "string list" | CreatureCardTypeOtherYouControl card_type
  | CreatureCardTypeYouControl card_type | CreatureNonTypeOtherYouControl string
  | AllCreaturesOfType string | TokenCreatureTypeYouControl string | CreatureColorOther string
  | AllCreaturesOfColor string | SpecificLandType string | NonLandCmcLE i32
  | CreatureTypeOther string | PermanentSubtypeYouControl string
  | AttackingCreatureTypeYouControl string | EquippedCreatureTypeYouControl string
  | LegendarySubtypeYouControl string | CardSubtypeOtherYouControl string
  | CardSubtypeYouControl string | PermanentSubtypeOtherYouControl string | SubtypeOther string

text \<open>Selectors of players, of cards in hidden zones and of what the game does not track.\<close>

datatype other_selector =
    YouPlayer | AnyPlayer | OpponentPlayer | LandsYouControl | InstantYouControl | SorceryYouControl
  | TopCardOfLibrary | CardExiledWithSource | TopOfLibrary | LandTopOfLibrary
  | CreatureTopOfLibraryNonLand | CommanderYouControl | TopOfLibraryYouOwn | TopOfLibraryNonLand
  | RememberedCards | CardTypeYouOwn card_type | SubtypeYouOwn string
  | CardTypeTopLibrary card_type | SubtypeTopLibraryNonLand string | InstantColorYouControl string
  | SorceryColorYouControl string | TopLibraryWithSubtype string | CardsYouControlCastFromExile
  | CommanderYouOwn

datatype affected_selector =
    OnSelf own_selector | OnAttached attached_selector | OnCreatures creature_selector
  | CreatureWithFlyingOppCtrl | OnPermanents permanent_selector | OnType typed_selector
  | OnOther other_selector | AnySelector "affected_selector list"

subsection \<open>Conditions, counts and the abilities\<close>

datatype static_condition =
    PlayerTurn | NotPlayerTurn | ControlsPresent string zone u8

datatype count_modifier = ModNone | ModMinus i32 | ModPlus i32 | ModTimes i32

fun modifier_apply :: "count_modifier \<Rightarrow> i32 \<Rightarrow> i32" where
  "modifier_apply ModNone v = v"
| "modifier_apply (ModMinus n) v = v - n"
| "modifier_apply (ModPlus n) v = v + n"
| "modifier_apply (ModTimes n) v = v * n"

datatype cda_pt_source = ControllerLifeTotal | AllGraveyardCreatures count_modifier

datatype caster_restriction = CasterAny | CasterYou | CasterYouNonActive | CasterOpponent

datatype static_ability =
    ModifyPT affected_selector i32 i32 string "static_condition option"
  | GrantKeyword affected_selector keyword string "static_condition option"
  | GrantAbility affected_selector activated_ability string
  | GainControl affected_selector string
  | DamageIncrease u32 string
  | ExtraLandPlay u8 string
  | LifeFloor string
  | DamageToExileLibrary string
  | CharacteristicDefiningPt cda_pt_source cda_pt_source string
  | GrantUpkeepSacrificeUnlessPay affected_selector u8 string
  | DisableCreatureEtbTriggers string
  | OpalescenceStyle string
  | SacrificeMatchingPresent target_restriction string
  | CantBeCast target_restriction caster_restriction "zone option" bool string
  | CantPlayLand target_restriction caster_restriction "zone option" string
  | CantBlockMatching target_restriction string
  | CastWithFlash target_restriction string
  | PreventDamageToEnchantedByChosenColor string
  | CantAttackIfDefenderHasUntappedPowerGE i32 string
  | CantAttackOrBlockMatching bool bool target_restriction string
  | CantBeActivated target_restriction string
  | CantBeActivatedByName string
  | OtherStatic static_body

end
