(* ===== verification/Card.thy ===== *)
theory Card
  imports Statics
begin

section \<open>Cards\<close>

text \<open>
  The \<open>Card\<close> struct of \<open>mtg-engine/src/core/card.rs\<close> with all its fields and the operations on
  it: counters with annihilation, power and toughness, keywords granted until end of turn, the
  reveal mask, the snapshots undo relies on, the reset a card undergoes when it leaves the
  battlefield and the reversal of an animation. The script parsers of the loader, which the
  reset calls, are the fields of the record \<open>card_loader\<close> given as an argument.
\<close>

record card =
  c_id :: card_id
  c_name :: string
  c_printed_name :: string
  c_mana_cost :: mana_cost
  c_types :: "card_type list"
  c_subtypes :: "string list"
  c_colors :: "color list"
  c_base_power :: "i8 option"
  c_base_toughness :: "i8 option"
  c_power_bonus :: i32
  c_toughness_bonus :: i32
  c_temp_base_power :: "i8 option"
  c_temp_base_toughness :: "i8 option"
  c_temp_animate_types :: "card_type list"
  c_temp_animate_subtypes :: "string list"
  c_temp_removed_subtypes :: "string list"
  c_temp_keywords_until_eot :: keyword_set
  c_damage :: i32
  c_damaged_by_this_turn :: "card_id list"
  c_text :: string
  c_owner :: player_id
  c_controller :: player_id
  c_tapped :: bool
  c_turn_entered_battlefield :: "u32 option"
  c_counters :: "(counter_type \<times> u8) list"
  c_keywords :: keyword_set
  c_effects :: "effect list"
  c_triggers :: "trigger list"
  c_activated_abilities :: "activated_ability list"
  c_static_abilities :: "static_ability list"
  c_attached_to :: "card_id option"
  c_control_from_aura :: "card_id option"
  c_control_grant :: "(card_id \<times> player_id) option"
  c_chosen_color :: "color option"
  c_chosen_player :: "player_id option"
  c_chosen_mode :: "string option"
  c_chosen_name :: "string option"
  c_stored_int :: "u32 option"
  c_svars :: "string \<rightharpoonup> string"
  c_revealed_to_mask :: u8
  c_is_legendary :: bool
  c_is_commander :: bool
  c_is_token :: bool
  c_loyalty_activated_this_turn :: bool
  c_regeneration_shields :: u8
  c_damage_prevention :: i32
  c_x_paid :: u8
  c_times_kicked :: u8
  c_bargain_paid :: bool
  c_kicker_paid :: bool
  c_mode_cost_paid :: u8
  c_offspring_paid :: bool
  c_exile_if_would_die_this_turn :: bool
  c_exile_if_would_go_to_graveyard_this_turn :: bool
  c_prevent_all_combat_damage_this_turn :: bool
  c_dealt_damage_to_opponent_this_turn :: bool
  c_attacked_this_turn :: bool
  c_exhausted_abilities :: "nat list"
  c_cast_as_adventure :: bool
  c_definition :: card_definition

text \<open>The characteristics a copy effect overwrites, and the snapshot of a zone change.\<close>

record card_copiable_state =
  ccs_name :: string
  ccs_mana_cost :: mana_cost
  ccs_types :: "card_type list"
  ccs_subtypes :: "string list"
  ccs_colors :: "color list"
  ccs_base_power :: "i8 option"
  ccs_base_toughness :: "i8 option"
  ccs_text :: string
  ccs_is_legendary :: bool
  ccs_keywords :: keyword_set
  ccs_activated_abilities :: "activated_ability list"
  ccs_static_abilities :: "static_ability list"
  ccs_triggers :: "trigger list"
  ccs_svars :: "string \<rightharpoonup> string"
  ccs_definition :: card_definition

record card_state_snapshot =
  css_name :: string
  css_mana_cost :: mana_cost
  css_types :: "card_type list"
  css_subtypes :: "string list"
  css_colors :: "color list"
  css_base_power :: "i8 option"
  css_base_toughness :: "i8 option"
  css_power_bonus :: i32
  css_toughness_bonus :: i32
  css_temp_base_power :: "i8 option"
  css_temp_base_toughness :: "i8 option"
  css_temp_animate_types :: "card_type list"
  css_temp_animate_subtypes :: "string list"
  css_temp_removed_subtypes :: "string list"
  css_temp_keywords_until_eot :: keyword_set
  css_damage :: i32
  css_damaged_by_this_turn :: "card_id list"
  css_text :: string
  css_tapped :: bool
  css_turn_entered_battlefield :: "u32 option"
  css_counters :: "(counter_type \<times> u8) list"
  css_keywords :: keyword_set
  css_effects :: "effect list"
  css_triggers :: "trigger list"
  css_activated_abilities :: "activated_ability list"
  css_static_abilities :: "static_ability list"
  css_attached_to :: "card_id option"
  css_control_from_aura :: "card_id option"
  css_control_grant :: "(card_id \<times> player_id) option"
  css_chosen_color :: "color option"
  css_chosen_player :: "player_id option"
  css_chosen_mode :: "string option"
  css_chosen_name :: "string option"
  css_stored_int :: "u32 option"
  css_svars :: "string \<rightharpoonup> string"
  css_is_legendary :: bool
  css_loyalty_activated_this_turn :: bool
  css_regeneration_shields :: u8
  css_damage_prevention :: i32
  css_x_paid :: u8
  css_times_kicked :: u8
  css_bargain_paid :: bool
  css_kicker_paid :: bool
  css_offspring_paid :: bool
  css_mode_cost_paid :: u8
  css_exile_if_would_die_this_turn :: bool
  css_exile_if_would_go_to_graveyard_this_turn :: bool
  css_prevent_all_combat_damage_this_turn :: bool
  css_dealt_damage_to_opponent_this_turn :: bool
  css_attacked_this_turn :: bool
  css_exhausted_abilities :: "nat list"
  css_cast_as_adventure :: bool
  css_definition :: card_definition

definition card_definition_default :: card_definition where
  "card_definition_default =
     \<lparr>cd_name = [], cd_mana_cost = mana_cost_new, cd_types = [], cd_subtypes = [], cd_colors = [],
      cd_power = None, cd_toughness = None, cd_oracle = [], cd_raw_abilities = [],
      cd_raw_keywords = [], cd_svars = Map.empty, cd_parsed_svars = Map.empty,
      cd_enters_tapped = False, cd_etb_tapped_global = None, cd_etb_choose_color = False,
      cd_etb_exclude_colors = [], cd_etb_choose_player = False, cd_etb_choose_mode = False,
      cd_etb_mode_ai_logic = None, cd_etb_mode_choices = [], cd_etb_pay_life = False,
      cd_etb_choose_name = False, cd_script_name = None, cd_is_legendary = False,
      cd_loyalty = None, cd_cache = card_cache_new [] [], cd_origin_set = None,
      cd_adventure = None, cd_is_adventure_face = False\<rparr>"

definition card_new :: "card_id \<Rightarrow> string \<Rightarrow> player_id \<Rightarrow> card" where
  "card_new i name ow =
     (let def = card_definition_default\<lparr>cd_cache := set_mana_production
            (derive_mana_production_from_name name) (card_cache_new [] name)\<rparr> in
     \<lparr>c_id = i, c_name = name, c_printed_name = name, c_mana_cost = mana_cost_new, c_types = [],
      c_subtypes = [], c_colors = [], c_base_power = None, c_base_toughness = None,
      c_power_bonus = 0, c_toughness_bonus = 0, c_temp_base_power = None,
      c_temp_base_toughness = None, c_temp_animate_types = [], c_temp_animate_subtypes = [],
      c_temp_removed_subtypes = [], c_temp_keywords_until_eot = kw_new, c_damage = 0,
      c_damaged_by_this_turn = [], c_text = [], c_owner = ow, c_controller = ow,
      c_tapped = False, c_turn_entered_battlefield = None, c_counters = [], c_keywords = kw_new,
      c_effects = [], c_triggers = [], c_activated_abilities = [], c_static_abilities = [],
      c_attached_to = None, c_control_from_aura = None, c_control_grant = None,
      c_chosen_color = None, c_chosen_player = None, c_chosen_mode = None, c_chosen_name = None,
      c_stored_int = None, c_svars = Map.empty, c_revealed_to_mask = 0, c_is_legendary = False,
      c_is_commander = False, c_is_token = False, c_loyalty_activated_this_turn = False,
      c_regeneration_shields = 0, c_damage_prevention = 0, c_x_paid = 0, c_times_kicked = 0,
      c_bargain_paid = False, c_kicker_paid = False, c_mode_cost_paid = 0,
      c_offspring_paid = False, c_exile_if_would_die_this_turn = False,
      c_exile_if_would_go_to_graveyard_this_turn = False,
      c_prevent_all_combat_damage_this_turn = False,
      c_dealt_damage_to_opponent_this_turn = False, c_attacked_this_turn = False,
      c_exhausted_abilities = [], c_cast_as_adventure = False, c_definition = def\<rparr>)"

definition capture_state_snapshot :: "card \<Rightarrow> card_state_snapshot" where
  "capture_state_snapshot c =
     \<lparr>css_name = c_name c, css_mana_cost = c_mana_cost c, css_types = c_types c,
      css_subtypes = c_subtypes c, css_colors = c_colors c, css_base_power = c_base_power c,
      css_base_toughness = c_base_toughness c, css_power_bonus = c_power_bonus c,
      css_toughness_bonus = c_toughness_bonus c, css_temp_base_power = c_temp_base_power c,
      css_temp_base_toughness = c_temp_base_toughness c,
      css_temp_animate_types = c_temp_animate_types c,
      css_temp_animate_subtypes = c_temp_animate_subtypes c,
      css_temp_removed_subtypes = c_temp_removed_subtypes c,
      css_temp_keywords_until_eot = c_temp_keywords_until_eot c, css_damage = c_damage c,
      css_damaged_by_this_turn = c_damaged_by_this_turn c, css_text = c_text c,
      css_tapped = c_tapped c, css_turn_entered_battlefield = c_turn_entered_battlefield c,
      css_counters = c_counters c, css_keywords = c_keywords c, css_effects = c_effects c,
      css_triggers = c_triggers c, css_activated_abilities = c_activated_abilities c,
      css_static_abilities = c_static_abilities c, css_attached_to = c_attached_to c,
      css_control_from_aura = c_control_from_aura c, css_control_grant = c_control_grant c,
      css_chosen_color = c_chosen_color c, css_chosen_player = c_chosen_player c,
      css_chosen_mode = c_chosen_mode c, css_chosen_name = c_chosen_name c,
      css_stored_int = c_stored_int c, css_svars = c_svars c,
      css_is_legendary = c_is_legendary c,
      css_loyalty_activated_this_turn = c_loyalty_activated_this_turn c,
      css_regeneration_shields = c_regeneration_shields c,
      css_damage_prevention = c_damage_prevention c, css_x_paid = c_x_paid c,
      css_times_kicked = c_times_kicked c, css_bargain_paid = c_bargain_paid c,
      css_kicker_paid = c_kicker_paid c, css_offspring_paid = c_offspring_paid c,
      css_mode_cost_paid = c_mode_cost_paid c,
      css_exile_if_would_die_this_turn = c_exile_if_would_die_this_turn c,
      css_exile_if_would_go_to_graveyard_this_turn = c_exile_if_would_go_to_graveyard_this_turn c,
      css_prevent_all_combat_damage_this_turn = c_prevent_all_combat_damage_this_turn c,
      css_dealt_damage_to_opponent_this_turn = c_dealt_damage_to_opponent_this_turn c,
      css_attacked_this_turn = c_attacked_this_turn c,
      css_exhausted_abilities = c_exhausted_abilities c,
      css_cast_as_adventure = c_cast_as_adventure c, css_definition = c_definition c\<rparr>"

definition restore_state_snapshot :: "card_state_snapshot \<Rightarrow> card \<Rightarrow> card" where
  "restore_state_snapshot s c =
     c\<lparr>c_name := css_name s, c_mana_cost := css_mana_cost s, c_types := css_types s,
      c_subtypes := css_subtypes s, c_colors := css_colors s, c_base_power := css_base_power s,
      c_base_toughness := css_base_toughness s, c_power_bonus := css_power_bonus s,
      c_toughness_bonus := css_toughness_bonus s, c_temp_base_power := css_temp_base_power s,
      c_temp_base_toughness := css_temp_base_toughness s,
      c_temp_animate_types := css_temp_animate_types s,
      c_temp_animate_subtypes := css_temp_animate_subtypes s,
      c_temp_removed_subtypes := css_temp_removed_subtypes s,
      c_temp_keywords_until_eot := css_temp_keywords_until_eot s, c_damage := css_damage s,
      c_damaged_by_this_turn := css_damaged_by_this_turn s, c_text := css_text s,
      c_tapped := css_tapped s, c_turn_entered_battlefield := css_turn_entered_battlefield s,
      c_counters := css_counters s, c_keywords := css_keywords s, c_effects := css_effects s,
      c_triggers := css_triggers s, c_activated_abilities := css_activated_abilities s,
      c_static_abilities := css_static_abilities s, c_attached_to := css_attached_to s,
      c_control_from_aura := css_control_from_aura s, c_control_grant := css_control_grant s,
      c_chosen_color := css_chosen_color s, c_chosen_player := css_chosen_player s,
      c_chosen_mode := css_chosen_mode s, c_chosen_name := css_chosen_name s,
      c_stored_int := css_stored_int s, c_svars := css_svars s,
      c_is_legendary := css_is_legendary s,
      c_loyalty_activated_this_turn := css_loyalty_activated_this_turn s,
      c_regeneration_shields := css_regeneration_shields s,
      c_damage_prevention := css_damage_prevention s, c_x_paid := css_x_paid s,
      c_times_kicked := css_times_kicked s, c_bargain_paid := css_bargain_paid s,
      c_kicker_paid := css_kicker_paid s, c_offspring_paid := css_offspring_paid s,
      c_mode_cost_paid := css_mode_cost_paid s,
      c_exile_if_would_die_this_turn := css_exile_if_would_die_this_turn s,
      c_exile_if_would_go_to_graveyard_this_turn := css_exile_if_would_go_to_graveyard_this_turn s,
      c_prevent_all_combat_damage_this_turn := css_prevent_all_combat_damage_this_turn s,
      c_dealt_damage_to_opponent_this_turn := css_dealt_damage_to_opponent_this_turn s,
      c_attacked_this_turn := css_attacked_this_turn s,
      c_exhausted_abilities := css_exhausted_abilities s,
      c_cast_as_adventure := css_cast_as_adventure s, c_definition := css_definition s\<rparr>"

definition capture_copiable_state :: "card \<Rightarrow> card_copiable_state" where
  "capture_copiable_state c =
     \<lparr>ccs_name = c_name c, ccs_mana_cost = c_mana_cost c, ccs_types = c_types c,
      ccs_subtypes = c_subtypes c, ccs_colors = c_colors c, ccs_base_power = c_base_power c,
      ccs_base_toughness = c_base_toughness c, ccs_text = c_text c,
      ccs_is_legendary = c_is_legendary c, ccs_keywords = c_keywords c,
      ccs_activated_abilities = c_activated_abilities c,
      ccs_static_abilities = c_static_abilities c, ccs_triggers = c_triggers c,
      ccs_svars = c_svars c, ccs_definition = c_definition c\<rparr>"

definition restore_copiable_state :: "card_copiable_state \<Rightarrow> card \<Rightarrow> card" where
  "restore_copiable_state s c =
     c\<lparr>c_name := ccs_name s, c_mana_cost := ccs_mana_cost s, c_types := ccs_types s,
      c_subtypes := ccs_subtypes s, c_colors := ccs_colors s, c_base_power := ccs_base_power s,
      c_base_toughness := ccs_base_toughness s, c_text := ccs_text s,
      c_is_legendary := ccs_is_legendary s, c_keywords := ccs_keywords s,
      c_activated_abilities := ccs_activated_abilities s,
      c_static_abilities := ccs_static_abilities s, c_triggers := ccs_triggers s,
      c_svars := ccs_svars s, c_definition := ccs_definition s\<rparr>"

subsection \<open>Types and the type cache\<close>

definition card_cache :: "card \<Rightarrow> card_cache" where
  "card_cache c = cd_cache (c_definition c)"

definition map_cache :: "(card_cache \<Rightarrow> card_cache) \<Rightarrow> card \<Rightarrow> card" where
  "map_cache f c = c\<lparr>c_definition := (c_definition c)\<lparr>cd_cache := f (cd_cache (c_definition c))\<rparr>\<rparr>"

definition is_type :: "card \<Rightarrow> card_type \<Rightarrow> bool" where
  "is_type c t = (t \<in> set (c_types c))"

definition refresh_type_cache :: "card \<Rightarrow> card" where
  "refresh_type_cache c = map_cache (update_from_types (c_types c)) c"

definition add_type :: "card_type \<Rightarrow> card \<Rightarrow> card" where
  "add_type t c = (let c1 = c\<lparr>c_types := c_types c @ [t]\<rparr> in
     case t of
       Land \<Rightarrow> map_cache (\<lambda>cc. update_from_subtypes (c_subtypes c1) (c_name c1) (cc\<lparr>cc_is_land := True\<rparr>)) c1
     | Creature \<Rightarrow> map_cache (\<lambda>cc. cc\<lparr>cc_is_creature := True\<rparr>) c1
     | Artifact \<Rightarrow> map_cache (\<lambda>cc. cc\<lparr>cc_is_artifact := True\<rparr>) c1
     | Instant \<Rightarrow> map_cache (\<lambda>cc. cc\<lparr>cc_is_instant := True\<rparr>) c1
     | Sorcery \<Rightarrow> map_cache (\<lambda>cc. cc\<lparr>cc_is_sorcery := True\<rparr>) c1
     | Enchantment \<Rightarrow> map_cache (\<lambda>cc. cc\<lparr>cc_is_enchantment := True\<rparr>) c1
     | Planeswalker \<Rightarrow> c1)"

definition set_types :: "card_type list \<Rightarrow> card \<Rightarrow> card" where
  "set_types ts c = map_cache (update_from_types ts) (c\<lparr>c_types := ts\<rparr>)"

definition set_subtypes :: "string list \<Rightarrow> card \<Rightarrow> card" where
  "set_subtypes ss c = map_cache (update_from_subtypes ss (c_name c)) (c\<lparr>c_subtypes := ss\<rparr>)"

definition is_creature :: "card \<Rightarrow> bool" where "is_creature c = cc_is_creature (card_cache c)"

definition is_land :: "card \<Rightarrow> bool" where "is_land c = cc_is_land (card_cache c)"

definition is_instant :: "card \<Rightarrow> bool" where "is_instant c = cc_is_instant (card_cache c)"

definition is_sorcery :: "card \<Rightarrow> bool" where "is_sorcery c = cc_is_sorcery (card_cache c)"

definition is_artifact :: "card \<Rightarrow> bool" where "is_artifact c = cc_is_artifact (card_cache c)"

definition is_enchantment :: "card \<Rightarrow> bool" where
  "is_enchantment c = cc_is_enchantment (card_cache c)"

definition is_planeswalker :: "card \<Rightarrow> bool" where "is_planeswalker c = is_type c Planeswalker"

definition is_aura :: "card \<Rightarrow> bool" where "is_aura c = cc_is_aura (card_cache c)"

definition is_equipment :: "card \<Rightarrow> bool" where "is_equipment c = cc_is_equipment (card_cache c)"

definition is_attached :: "card \<Rightarrow> bool" where "is_attached c = (c_attached_to c \<noteq> None)"

definition has_keyword :: "card \<Rightarrow> keyword \<Rightarrow> bool" where
  "has_keyword c k = kw_contains (c_keywords c) k"

definition has_flying :: "card \<Rightarrow> bool" where
  "has_flying c = kw_contains (c_keywords c) ''Flying''"

definition has_reach :: "card \<Rightarrow> bool" where
  "has_reach c = kw_contains (c_keywords c) ''Reach''"

definition has_first_strike :: "card \<Rightarrow> bool" where
  "has_first_strike c = kw_contains (c_keywords c) ''FirstStrike''"

definition has_double_strike :: "card \<Rightarrow> bool" where
  "has_double_strike c = kw_contains (c_keywords c) ''DoubleStrike''"

definition has_trample :: "card \<Rightarrow> bool" where
  "has_trample c = kw_contains (c_keywords c) ''Trample''"

definition has_lifelink :: "card \<Rightarrow> bool" where
  "has_lifelink c = kw_contains (c_keywords c) ''Lifelink''"

definition has_deathtouch :: "card \<Rightarrow> bool" where
  "has_deathtouch c = kw_contains (c_keywords c) ''Deathtouch''"

definition has_menace :: "card \<Rightarrow> bool" where
  "has_menace c = kw_contains (c_keywords c) ''Menace''"

definition has_hexproof :: "card \<Rightarrow> bool" where
  "has_hexproof c = kw_contains (c_keywords c) ''Hexproof''"

definition has_indestructible :: "card \<Rightarrow> bool" where
  "has_indestructible c = kw_contains (c_keywords c) ''Indestructible''"

definition has_defender :: "card \<Rightarrow> bool" where
  "has_defender c = kw_contains (c_keywords c) ''Defender''"

definition has_shroud :: "card \<Rightarrow> bool" where
  "has_shroud c = kw_contains (c_keywords c) ''Shroud''"

definition has_fear :: "card \<Rightarrow> bool" where
  "has_fear c = kw_contains (c_keywords c) ''Fear''"

definition has_intimidate :: "card \<Rightarrow> bool" where
  "has_intimidate c = kw_contains (c_keywords c) ''Intimidate''"

definition has_shadow :: "card \<Rightarrow> bool" where
  "has_shadow c = kw_contains (c_keywords c) ''Shadow''"

definition has_skulk :: "card \<Rightarrow> bool" where
  "has_skulk c = kw_contains (c_keywords c) ''Skulk''"

definition has_horsemanship :: "card \<Rightarrow> bool" where
  "has_horsemanship c = kw_contains (c_keywords c) ''Horsemanship''"

definition has_normal_strike :: "card \<Rightarrow> bool" where
  "has_normal_strike c = (has_keyword c ''DoubleStrike'' \<or> \<not> has_keyword c ''FirstStrike'')"

fun has_protection_from :: "card \<Rightarrow> color \<Rightarrow> bool" where
  "has_protection_from c Red = has_keyword c ''ProtectionFromRed''"
| "has_protection_from c Blue = has_keyword c ''ProtectionFromBlue''"
| "has_protection_from c Black = has_keyword c ''ProtectionFromBlack''"
| "has_protection_from c White = has_keyword c ''ProtectionFromWhite''"
| "has_protection_from c Green = has_keyword c ''ProtectionFromGreen''"
| "has_protection_from c Colorless = False"

definition is_color :: "card \<Rightarrow> color \<Rightarrow> bool" where "is_color c col = (col \<in> set (c_colors c))"

definition is_colorless :: "card \<Rightarrow> bool" where "is_colorless c = (c_colors c = [])"

subsection \<open>The reveal mask\<close>

text \<open>\<open>1u8 << (id as u8)\<close>: the release build takes the shift distance modulo eight.\<close>

definition reveal_bit :: "player_id \<Rightarrow> u8" where
  "reveal_bit p = push_bit (unat (ucast p :: u8) mod 8) 1"

definition is_revealed_to :: "card \<Rightarrow> player_id \<Rightarrow> bool" where
  "is_revealed_to c p = (and (c_revealed_to_mask c) (reveal_bit p) \<noteq> 0)"

definition is_revealed_to_all :: "card \<Rightarrow> bool" where
  "is_revealed_to_all c = (3 \<le> c_revealed_to_mask c)"

definition mark_revealed_to :: "player_id \<Rightarrow> card \<Rightarrow> card" where
  "mark_revealed_to p c = c\<lparr>c_revealed_to_mask := or (c_revealed_to_mask c) (reveal_bit p)\<rparr>"

definition mark_revealed_to_all :: "card \<Rightarrow> card" where
  "mark_revealed_to_all c = c\<lparr>c_revealed_to_mask := 3\<rparr>"

definition clear_revealed_to :: "player_id \<Rightarrow> card \<Rightarrow> card" where
  "clear_revealed_to p c = c\<lparr>c_revealed_to_mask := and (c_revealed_to_mask c) (not (reveal_bit p))\<rparr>"

definition clear_revealed_to_all :: "card \<Rightarrow> card" where
  "clear_revealed_to_all c = c\<lparr>c_revealed_to_mask := 0\<rparr>"

definition card_tap :: "card \<Rightarrow> card" where "card_tap c = c\<lparr>c_tapped := True\<rparr>"

definition card_untap :: "card \<Rightarrow> card" where "card_untap c = c\<lparr>c_tapped := False\<rparr>"

subsection \<open>Counters\<close>

type_synonym counter_list = "(counter_type \<times> u8) list"

definition count_of :: "counter_list \<Rightarrow> counter_type \<Rightarrow> u8" where
  "count_of cs ct = (case find (\<lambda>(t, _). t = ct) cs of Some (_, n) \<Rightarrow> n | None \<Rightarrow> 0)"

text \<open>\<open>iter_mut().find\<close>, subtract, and \<open>retain\<close> when the count reaches zero.\<close>

definition dec_counter :: "counter_type \<Rightarrow> u8 \<Rightarrow> counter_list \<Rightarrow> counter_list" where
  "dec_counter ct n cs = (case find (\<lambda>(t, _). t = ct) cs of
       None \<Rightarrow> cs
     | Some (_, k) \<Rightarrow>
         (let cs' = update_first (\<lambda>(t, _). t = ct) (\<lambda>(t, m). (t, m - n)) cs in
          if k - n = 0 then filter (\<lambda>(t, _). t \<noteq> ct) cs' else cs'))"

definition annihilate :: "counter_list \<Rightarrow> counter_list" where
  "annihilate cs = (let p = count_of cs P1P1; m = count_of cs M1M1 in
     if 0 < p \<and> 0 < m then dec_counter M1M1 (min p m) (dec_counter P1P1 (min p m) cs) else cs)"

definition put_counter :: "counter_type \<Rightarrow> u8 \<Rightarrow> counter_list \<Rightarrow> counter_list" where
  "put_counter ct n cs = (case find (\<lambda>(t, _). t = ct) cs of
       Some _ \<Rightarrow> update_first (\<lambda>(t, _). t = ct) (\<lambda>(t, m). (t, sat_add m n)) cs
     | None \<Rightarrow> cs @ [(ct, n)])"

definition add_counter :: "counter_type \<Rightarrow> u8 \<Rightarrow> card \<Rightarrow> card" where
  "add_counter ct n c = (if n = 0 then c
     else c\<lparr>c_counters := annihilate (put_counter ct n (c_counters c))\<rparr>)"

definition remove_counter :: "counter_type \<Rightarrow> u8 \<Rightarrow> card \<Rightarrow> card \<times> u8" where
  "remove_counter ct n c = (if n = 0 then (c, 0)
     else case find (\<lambda>(t, _). t = ct) (c_counters c) of
       Some (_, k) \<Rightarrow> (c\<lparr>c_counters := dec_counter ct (min k n) (c_counters c)\<rparr>, min k n)
     | None \<Rightarrow> (c, 0))"

definition get_counter :: "card \<Rightarrow> counter_type \<Rightarrow> u8" where
  "get_counter c ct = count_of (c_counters c) ct"

definition has_counters :: "card \<Rightarrow> bool" where
  "has_counters c = list_ex (\<lambda>(_, n). 0 < n) (c_counters c)"

subsection \<open>Power and toughness\<close>

definition or_else :: "'a option \<Rightarrow> 'a option \<Rightarrow> 'a option" where
  "or_else a b = (case a of Some x \<Rightarrow> Some x | None \<Rightarrow> b)"

definition unwrap_or :: "'a option \<Rightarrow> 'a \<Rightarrow> 'a" where
  "unwrap_or a d = (case a of Some x \<Rightarrow> x | None \<Rightarrow> d)"

definition current_power :: "card \<Rightarrow> i8" where
  "current_power c = unwrap_or (or_else (c_temp_base_power c) (c_base_power c)) 0
     + ucast (get_counter c P1P1) - ucast (get_counter c M1M1) + ucast (c_power_bonus c)"

definition current_toughness :: "card \<Rightarrow> i8" where
  "current_toughness c = unwrap_or (or_else (c_temp_base_toughness c) (c_base_toughness c)) 0
     + ucast (get_counter c P1P1) - ucast (get_counter c M1M1) + ucast (c_toughness_bonus c)"

definition set_temp_base_power :: "i8 \<Rightarrow> card \<Rightarrow> card" where
  "set_temp_base_power v c = c\<lparr>c_temp_base_power := Some v\<rparr>"

definition set_temp_base_toughness :: "i8 \<Rightarrow> card \<Rightarrow> card" where
  "set_temp_base_toughness v c = c\<lparr>c_temp_base_toughness := Some v\<rparr>"

definition clear_temp_base_stats :: "card \<Rightarrow> card" where
  "clear_temp_base_stats c = c\<lparr>c_temp_base_power := None, c_temp_base_toughness := None\<rparr>"

definition restore_temp_base_stats :: "i8 option \<Rightarrow> i8 option \<Rightarrow> card \<Rightarrow> card" where
  "restore_temp_base_stats p t c = c\<lparr>c_temp_base_power := p, c_temp_base_toughness := t\<rparr>"

subsection \<open>Keywords until end of turn\<close>

definition grant_keyword_until_eot :: "keyword \<Rightarrow> card \<Rightarrow> card \<times> bool" where
  "grant_keyword_until_eot k c = (if kw_contains (c_keywords c) k then (c, False)
     else (c\<lparr>c_keywords := kw_insert (c_keywords c) k,
       c_temp_keywords_until_eot := kw_insert (c_temp_keywords_until_eot c) k\<rparr>, True))"

definition grant_keyword_args_until_eot :: "keyword_args \<Rightarrow> card \<Rightarrow> card \<times> bool" where
  "grant_keyword_args_until_eot a c = (if kw_contains (c_keywords c) (args_keyword a) then (c, False)
     else (c\<lparr>c_keywords := kw_insert_complex (c_keywords c) a,
       c_temp_keywords_until_eot := kw_insert (c_temp_keywords_until_eot c) (args_keyword a)\<rparr>,
       True))"

text \<open>Removing every keyword of a set, in whatever order the set is enumerated.\<close>

definition kw_remove_all :: "keyword set \<Rightarrow> keyword_set \<Rightarrow> keyword_set" where
  "kw_remove_all K ks = ks\<lparr>ks_keywords := ks_keywords ks - K,
     ks_args := filter (\<lambda>a. args_keyword a \<notin> K \<or> \<not> is_complex (args_keyword a)) (ks_args ks)\<rparr>"

definition clear_temp_keywords_until_eot :: "card \<Rightarrow> card" where
  "clear_temp_keywords_until_eot c =
     c\<lparr>c_keywords := kw_remove_all (ks_keywords (c_temp_keywords_until_eot c)) (c_keywords c),
       c_temp_keywords_until_eot := kw_clear (c_temp_keywords_until_eot c)\<rparr>"

subsection \<open>Leaving the battlefield\<close>

record card_loader =
  ld_parse_keywords :: "card_definition \<Rightarrow> keyword_set"
  ld_parse_effects :: "card_definition \<Rightarrow> effect list"
  ld_parse_triggers :: "card_definition \<Rightarrow> trigger list"
  ld_parse_activated_abilities :: "card_definition \<Rightarrow> activated_ability list"
  ld_parse_static_abilities :: "card_definition \<Rightarrow> static_ability list"

definition reset_to_definition :: "card_definition \<Rightarrow> card \<Rightarrow> card" where
  "reset_to_definition d c =
     (let cc = update_from_subtypes (cd_subtypes d) (cd_name d)
            (update_from_types (cd_types d) (card_cache_new (cd_oracle d) (cd_name d))) in
      c\<lparr>c_name := cd_name d, c_mana_cost := cd_mana_cost d, c_types := cd_types d,
        c_subtypes := cd_subtypes d, c_colors := cd_colors d, c_base_power := cd_power d,
        c_base_toughness := cd_toughness d, c_text := cd_oracle d,
        c_is_legendary := cd_is_legendary d,
        c_definition := d\<lparr>cd_cache := cc\<lparr>cc_enters_tapped := cd_enters_tapped d,
          cc_skips_untap_step := skips_untap_step d, cc_limits_land_untap := limits_land_untap d,
          cc_etb_choose_color := cd_etb_choose_color d,
          cc_etb_exclude_colors := cd_etb_exclude_colors d,
          cc_etb_choose_player := cd_etb_choose_player d,
          cc_etb_choose_mode := cd_etb_choose_mode d,
          cc_etb_mode_ai_logic := cd_etb_mode_ai_logic d,
          cc_etb_mode_choices := cd_etb_mode_choices d, cc_etb_pay_life := cd_etb_pay_life d,
          cc_etb_choose_name := cd_etb_choose_name d,
          cc_spell_relative_target_cost := has_relative_self_target_cost d\<rparr>\<rparr>\<rparr>)"

definition reset_battlefield_state :: "card \<Rightarrow> card" where
  "reset_battlefield_state c =
     c\<lparr>c_power_bonus := 0, c_toughness_bonus := 0, c_temp_base_power := None,
       c_temp_base_toughness := None, c_temp_animate_types := [], c_temp_animate_subtypes := [],
       c_temp_removed_subtypes := [], c_temp_keywords_until_eot := kw_new, c_damage := 0,
       c_damaged_by_this_turn := [], c_tapped := False, c_turn_entered_battlefield := None,
       c_counters := [], c_stored_int := None\<rparr>"

definition reset_abilities :: "card_loader \<Rightarrow> card_definition \<Rightarrow> card \<Rightarrow> card" where
  "reset_abilities ld d c =
     c\<lparr>c_keywords := ld_parse_keywords ld d, c_effects := ld_parse_effects ld d,
       c_triggers := ld_parse_triggers ld d,
       c_activated_abilities := ld_parse_activated_abilities ld d,
       c_static_abilities := ld_parse_static_abilities ld d, c_svars := cd_svars d\<rparr>"

text \<open>The mana ability a basic land type gives: letter and subtype.\<close>

definition implicit_mana_ability :: "string \<Rightarrow> activated_ability" where
  "implicit_mana_ability l = activated_ability_new CTap
     [AddMana 0 (from_string l) False None] (''Add {'' @ l @ ''}'') True"

definition implicit_mana_abilities :: "string list \<Rightarrow> activated_ability list" where
  "implicit_mana_abilities subtypes =
     (if ''Plains'' \<in> set subtypes then [implicit_mana_ability ''W''] else [])
     @ (if ''Island'' \<in> set subtypes then [implicit_mana_ability ''U''] else [])
     @ (if ''Swamp'' \<in> set subtypes then [implicit_mana_ability ''B''] else [])
     @ (if ''Mountain'' \<in> set subtypes then [implicit_mana_ability ''R''] else [])
     @ (if ''Forest'' \<in> set subtypes then [implicit_mana_ability ''G''] else [])"

definition add_implicit_mana :: "card \<Rightarrow> card" where
  "add_implicit_mana c =
     (if is_land c \<and> \<not> list_ex aa_is_mana_ability (c_activated_abilities c)
      then c\<lparr>c_activated_abilities := c_activated_abilities c @ implicit_mana_abilities (c_subtypes c)\<rparr>
      else c)"

definition add_implicit_equip :: "card \<Rightarrow> card" where
  "add_implicit_equip c =
     (if is_artifact c \<and> ''Equipment'' \<in> set (c_subtypes c)
      then (case kw_get_args (c_keywords c) ''Equip'' of
          Some (KeywordArgs v fs) \<Rightarrow>
            (case fs of [FCost m] \<Rightarrow>
                (if v = ''Equip''
                 then c\<lparr>c_activated_abilities := c_activated_abilities c @
                   [new_sorcery_speed (CMana m) [AttachEquipment (c_id c) 0]
                     (''Equip '' @ mana_cost_display m)]\<rparr>
                 else c)
              | _ \<Rightarrow> c)
        | None \<Rightarrow> c)
      else c)"

definition reset_per_turn_state :: "card \<Rightarrow> card" where
  "reset_per_turn_state c =
     c\<lparr>c_attached_to := None, c_control_from_aura := None, c_control_grant := None,
       c_chosen_color := None, c_chosen_player := None, c_chosen_mode := None,
       c_chosen_name := None, c_loyalty_activated_this_turn := False,
       c_regeneration_shields := 0, c_damage_prevention := 0, c_x_paid := 0,
       c_times_kicked := 0, c_bargain_paid := False, c_kicker_paid := False,
       c_offspring_paid := False, c_mode_cost_paid := 0,
       c_exile_if_would_die_this_turn := False,
       c_exile_if_would_go_to_graveyard_this_turn := False,
       c_prevent_all_combat_damage_this_turn := False,
       c_dealt_damage_to_opponent_this_turn := False, c_attacked_this_turn := False,
       c_exhausted_abilities := [], c_cast_as_adventure := False\<rparr>"

definition reset_transient_state :: "card_loader \<Rightarrow> card_definition option \<Rightarrow> card \<Rightarrow> card" where
  "reset_transient_state ld original_def c =
     (let c1 = (case original_def of Some d \<Rightarrow> reset_to_definition d c
                | None \<Rightarrow> c\<lparr>c_name := c_printed_name c\<rparr>);
          c2 = reset_battlefield_state c1;
          c3 = reset_abilities ld (case original_def of Some d \<Rightarrow> d | None \<Rightarrow> c_definition c2) c2;
          c4 = add_implicit_equip (add_implicit_mana c3);
          c5 = map_cache (update_from_abilities_with_name (c_activated_abilities c4) (c_name c4)) c4 in
      reset_per_turn_state c5)"

subsection \<open>The end of an animation\<close>

definition revert_temp_animation :: "card \<Rightarrow> card \<times> bool \<times> bool" where
  "revert_temp_animation c =
     (let touched_types = (c_temp_animate_types c \<noteq> []);
          touched_subtypes = (c_temp_animate_subtypes c \<noteq> [] \<or> c_temp_removed_subtypes c \<noteq> []);
          c1 = (if touched_types
                then c\<lparr>c_temp_animate_types := [],
                       c_types := filter (\<lambda>t. t \<notin> set (c_temp_animate_types c)) (c_types c)\<rparr>
                else c);
          c2 = (if touched_subtypes
                then c1\<lparr>c_temp_animate_subtypes := [], c_temp_removed_subtypes := [],
                       c_subtypes := filter (\<lambda>s. s \<notin> set (c_temp_animate_subtypes c1)) (c_subtypes c1)
                         @ c_temp_removed_subtypes c1\<rparr>
                else c1) in
      if touched_types \<or> touched_subtypes
      then let c3 = map_cache (\<lambda>cc. update_from_subtypes (c_subtypes c2) (c_name c2)
             (update_from_types (c_types c2) cc)) c2 in
           (c3, True, cc_is_mana_source (card_cache c3))
      else (c2, False, False))"

subsection \<open>Snapshots\<close>

lemma restore_capture_same: "restore_state_snapshot (capture_state_snapshot c) c = c"
  by (simp add: restore_state_snapshot_def capture_state_snapshot_def)

text \<open>The fields outside the snapshot: a card that agrees with \<open>c\<close> on them is restored to \<open>c\<close>.\<close>

definition same_identity :: "card \<Rightarrow> card \<Rightarrow> bool" where
  "same_identity c d = (c_id c = c_id d \<and> c_printed_name c = c_printed_name d
     \<and> c_owner c = c_owner d \<and> c_controller c = c_controller d
     \<and> c_revealed_to_mask c = c_revealed_to_mask d \<and> c_is_commander c = c_is_commander d
     \<and> c_is_token c = c_is_token d)"

lemma restore_capture:
  assumes "same_identity c d"
  shows "restore_state_snapshot (capture_state_snapshot c) d = c"
  using assms
  by (intro card.equality) (simp_all add: restore_state_snapshot_def capture_state_snapshot_def
      same_identity_def)

lemma same_identity_map_cache: "same_identity c (map_cache f d) \<longleftrightarrow> same_identity c d"
  by (simp add: same_identity_def map_cache_def)

lemma same_identity_reset_parts:
  "same_identity c (reset_to_definition d x) \<longleftrightarrow> same_identity c x"
  "same_identity c (reset_battlefield_state x) \<longleftrightarrow> same_identity c x"
  "same_identity c (reset_abilities ld d x) \<longleftrightarrow> same_identity c x"
  "same_identity c (add_implicit_mana x) \<longleftrightarrow> same_identity c x"
  "same_identity c (reset_per_turn_state x) \<longleftrightarrow> same_identity c x"
  "same_identity c (x\<lparr>c_name := n\<rparr>) \<longleftrightarrow> same_identity c x"
  by (simp_all add: same_identity_def reset_to_definition_def Let_def reset_battlefield_state_def
      reset_abilities_def add_implicit_mana_def reset_per_turn_state_def)

lemma same_identity_implicit_equip: "same_identity c (add_implicit_equip x) \<longleftrightarrow> same_identity c x"
  by (simp add: add_implicit_equip_def same_identity_def split: option.split keyword_args.split
      list.split kw_field.split)

lemma same_identity_refl [simp]: "same_identity c c"
  by (simp add: same_identity_def)

lemma same_identity_reset: "same_identity c (reset_transient_state ld od c)"
  by (cases od) (simp_all add: reset_transient_state_def Let_def same_identity_map_cache
      same_identity_reset_parts same_identity_implicit_equip)

lemma restore_after_reset:
  "restore_state_snapshot (capture_state_snapshot c) (reset_transient_state ld od c) = c"
  by (rule restore_capture [OF same_identity_reset])

text \<open>A second law: restoring forgets whatever was restored before.\<close>

lemma restore_restore: "restore_state_snapshot s (restore_state_snapshot t c) = restore_state_snapshot s c"
  by (simp add: restore_state_snapshot_def)

lemma restore_copiable_capture:
  "restore_copiable_state (capture_copiable_state c) (restore_copiable_state t c) = c"
  by (simp add: restore_copiable_state_def capture_copiable_state_def)

subsection \<open>Counters\<close>

text \<open>A counter list in normal form: no type twice, no empty entry, no +1/+1 beside -1/-1.\<close>

definition counters_inv :: "counter_list \<Rightarrow> bool" where
  "counters_inv cs = (distinct (map fst cs) \<and> (\<forall>(t, n) \<in> set cs. 0 < n)
     \<and> \<not> (0 < count_of cs P1P1 \<and> 0 < count_of cs M1M1))"

definition counters_pos :: "counter_list \<Rightarrow> bool" where
  "counters_pos cs = (distinct (map fst cs) \<and> (\<forall>(t, n) \<in> set cs. 0 < n))"

lemma count_of_Nil [simp]: "count_of [] ct = 0"
  by (simp add: count_of_def)

lemma count_of_Cons [simp]: "count_of ((t, n) # cs) ct = (if t = ct then n else count_of cs ct)"
  by (simp add: count_of_def)

lemma count_of_absent: "ct \<notin> fst ` set cs \<Longrightarrow> count_of cs ct = 0"
  by (induction cs) auto

lemma find_counter_None: "find (\<lambda>(t, _). t = ct) cs = None \<longleftrightarrow> ct \<notin> fst ` set cs"
  by (force simp: find_None_iff)

lemma find_counter_Some: "find (\<lambda>(t, _). t = ct) cs = Some (t, n) \<Longrightarrow> t = ct \<and> n = count_of cs ct
   \<and> ct \<in> fst ` set cs"
  by (induction cs) (auto split: if_splits)

lemma update_first_counter_fst:
  "map fst (update_first (\<lambda>(t, _). t = ct) (\<lambda>(t, m). (t, f m)) cs) = map fst cs"
  by (rule map_update_first) auto

lemma count_of_update_first:
  "ct \<in> fst ` set cs \<Longrightarrow> count_of (update_first (\<lambda>(t, _). t = ct) (\<lambda>(t, m). (t, f m)) cs) x
     = (if x = ct then f (count_of cs ct) else count_of cs x)"
proof (induction cs)
  case (Cons p cs)
  obtain t m where "p = (t, m)" by (cases p)
  with Cons show ?case by (cases "x = ct") auto
qed simp

lemma count_of_filter: "count_of (filter (\<lambda>(t, _). t \<noteq> ct) cs) x = (if x = ct then 0 else count_of cs x)"
  by (induction cs) auto

lemma count_of_dec:
  "n \<le> count_of cs ct \<Longrightarrow> count_of (dec_counter ct n cs) x
     = (if x = ct then count_of cs ct - n else count_of cs x)"
proof (cases "find (\<lambda>(t, _). t = ct) cs")
  case None
  assume "n \<le> count_of cs ct"
  with None show ?thesis
    by (auto simp: dec_counter_def find_counter_None [THEN iffD1] count_of_absent
        word_le_0_iff)
next
  case (Some p)
  then obtain k where "find (\<lambda>(t, _). t = ct) cs = Some (ct, k)" "k = count_of cs ct"
    "ct \<in> fst ` set cs"
    using find_counter_Some by (metis surj_pair)
  then show ?thesis
    by (auto simp: dec_counter_def Let_def count_of_filter count_of_update_first)
qed

lemma sat_add_zero: "sat_add 0 n = n" "sat_add n 0 = n" for n :: "'a::len word"
  using unsigned_less [of n] by (simp_all add: sat_add_def)

lemma count_of_put:
  "count_of (put_counter ct n cs) x = (if x = ct then sat_add (count_of cs ct) n else count_of cs x)"
proof (cases "find (\<lambda>(t, _). t = ct) cs")
  case None
  then have "ct \<notin> fst ` set cs" by (simp add: find_counter_None)
  then have "count_of (cs @ [(ct, n)]) x = (if x = ct then n else count_of cs x)"
  proof (induction cs)
    case (Cons p cs)
    obtain t m where "p = (t, m)" by (cases p)
    with Cons show ?case by (cases "x = ct") auto
  qed simp
  with None \<open>ct \<notin> fst ` set cs\<close> show ?thesis
    by (simp add: put_counter_def count_of_absent sat_add_zero)
next
  case (Some p)
  then have "ct \<in> fst ` set cs" using find_counter_Some by (metis surj_pair)
  with Some show ?thesis by (simp add: put_counter_def count_of_update_first)
qed

lemma count_of_pos: "counters_pos cs \<Longrightarrow> 0 < count_of cs ct \<longleftrightarrow> ct \<in> fst ` set cs"
proof (induction cs)
  case (Cons p cs)
  obtain t m where "p = (t, m)" by (cases p)
  with Cons show ?case by (simp add: counters_pos_def)
qed simp

lemma counters_pos_update:
  assumes "counters_pos cs" "0 < f (count_of cs ct)"
  shows "counters_pos (update_first (\<lambda>(t, _). t = ct) (\<lambda>(t, m). (t, f m)) cs)"
proof -
  have "(\<forall>(t, n) \<in> set cs. 0 < n) \<Longrightarrow> 0 < f (count_of cs ct) \<Longrightarrow>
    (\<forall>(t, n) \<in> set (update_first (\<lambda>(t, _). t = ct) (\<lambda>(t, m). (t, f m)) cs). 0 < n)"
  proof (induction cs)
    case (Cons p cs)
    obtain t m where "p = (t, m)" by (cases p)
    with Cons show ?case by (cases "t = ct") simp_all
  qed simp
  with assms show ?thesis by (simp add: counters_pos_def update_first_counter_fst)
qed

lemma sat_add_pos: "0 < n \<Longrightarrow> 0 < sat_add m n" for m n :: "'a::len word"
proof -
  assume "0 < n"
  then have "0 < unat n" by (simp add: unat_gt_0 word_gt_0)
  moreover have "0 < (2 :: nat) ^ LENGTH('a) - 1"
    using one_less_power [of "2 :: nat" "LENGTH('a)"] by simp
  ultimately have "0 < unat (sat_add m n)" by (simp add: unat_sat_add)
  then show ?thesis by (simp add: unat_gt_0 word_gt_0)
qed

lemma counters_pos_put:
  assumes "counters_pos cs" "0 < n"
  shows "counters_pos (put_counter ct n cs)"
proof (cases "find (\<lambda>(t, _). t = ct) cs")
  case None
  then have "ct \<notin> fst ` set cs" by (simp add: find_counter_None)
  with None assms show ?thesis by (auto simp: put_counter_def counters_pos_def)
next
  case (Some p)
  with assms show ?thesis
    by (simp add: put_counter_def counters_pos_update sat_add_pos)
qed

lemma counters_pos_dec: "counters_pos cs \<Longrightarrow> counters_pos (dec_counter ct n cs)"
proof (cases "find (\<lambda>(t, _). t = ct) cs")
  case (Some p)
  assume pos: "counters_pos cs"
  obtain t k where p: "p = (t, k)" by (cases p)
  then have k: "k = count_of cs ct" using Some find_counter_Some by blast
  show ?thesis
  proof (cases "k - n = 0")
    case True
    let ?us = "update_first (\<lambda>(t, _). t = ct) (\<lambda>(t, m). (t, m - n)) cs"
    have "filter (\<lambda>(t, _). t \<noteq> ct) ?us = filter (\<lambda>(t, _). t \<noteq> ct) cs"
    proof (use pos in \<open>induction cs\<close>)
      case (Cons q qs)
      obtain u m where "q = (u, m)" by (cases q)
      with Cons show ?case by (auto simp: counters_pos_def)
    qed simp
    moreover have "distinct (map fst (filter (\<lambda>(t, _). t \<noteq> ct) cs))"
      using pos by (simp add: counters_pos_def distinct_map_filter)
    ultimately show ?thesis
      using True Some p pos by (auto simp: dec_counter_def counters_pos_def)
  next
    case False
    then show ?thesis
      using Some p pos k counters_pos_update [OF pos, of "\<lambda>m. m - n" ct]
      by (simp add: dec_counter_def word_gt_0)
  qed
qed (simp add: dec_counter_def)

lemma counters_inv_pos: "counters_inv cs \<longleftrightarrow> counters_pos cs \<and> \<not> (0 < count_of cs P1P1 \<and> 0 < count_of cs M1M1)"
  by (auto simp: counters_inv_def counters_pos_def)

lemma count_of_annihilate:
  "count_of (annihilate cs) x =
     (if x = P1P1 then count_of cs P1P1 - min (count_of cs P1P1) (count_of cs M1M1)
      else if x = M1M1 then count_of cs M1M1 - min (count_of cs P1P1) (count_of cs M1M1)
      else count_of cs x)"
  by (auto simp: annihilate_def Let_def count_of_dec min_def not_less word_le_0_iff split: if_splits)

lemma counters_inv_annihilate: "counters_pos cs \<Longrightarrow> counters_inv (annihilate cs)"
proof -
  assume "counters_pos cs"
  then have "counters_pos (annihilate cs)" by (simp add: annihilate_def Let_def counters_pos_dec)
  moreover have "\<not> (0 < count_of (annihilate cs) P1P1 \<and> 0 < count_of (annihilate cs) M1M1)"
    by (simp add: count_of_annihilate min_def)
  ultimately show ?thesis by (simp add: counters_inv_pos)
qed

lemma annihilate_same: "\<not> (0 < count_of cs P1P1 \<and> 0 < count_of cs M1M1) \<Longrightarrow> annihilate cs = cs"
  by (auto simp: annihilate_def Let_def)

lemma add_counter_inv: "counters_inv (c_counters c) \<Longrightarrow> counters_inv (c_counters (add_counter ct n c))"
  by (cases "n = 0") (simp_all add: add_counter_def counters_inv_annihilate counters_pos_put
      counters_inv_pos [THEN iffD1] word_gt_0)

lemma remove_counter_inv:
  assumes "counters_inv (c_counters c)"
  shows "counters_inv (c_counters (fst (remove_counter ct n c)))"
proof -
  have "counters_inv (dec_counter ct (min (count_of cs ct) n) cs)" if "counters_inv cs" for cs
    using that by (auto simp: counters_inv_pos counters_pos_dec count_of_dec word_gt_0)
  then show ?thesis
    using assms by (auto simp: remove_counter_def split: option.split dest: find_counter_Some)
qed

lemma get_counter_add:
  assumes "counters_inv (c_counters c)" "ct \<noteq> P1P1" "ct \<noteq> M1M1"
  shows "get_counter (add_counter ct n c) x
    = (if x = ct then sat_add (get_counter c ct) n else get_counter c x)"
  using assms
  by (auto simp: get_counter_def add_counter_def count_of_annihilate count_of_put counters_inv_pos
      sat_add_zero min_def not_less word_le_0_iff split: if_splits)

lemma remove_counter_result:
  "snd (remove_counter ct n c) = min (get_counter c ct) n"
  "get_counter (fst (remove_counter ct n c)) x
     = (if x = ct then get_counter c ct - min (get_counter c ct) n else get_counter c x)"
proof -
  have absent: "find (\<lambda>(t, _). t = ct) (c_counters c) = None \<Longrightarrow> get_counter c ct = 0"
    by (simp add: find_counter_None get_counter_def count_of_absent)
  show "snd (remove_counter ct n c) = min (get_counter c ct) n"
    using absent by (auto simp: remove_counter_def get_counter_def split: option.split
        dest: find_counter_Some)
  show "get_counter (fst (remove_counter ct n c)) x
     = (if x = ct then get_counter c ct - min (get_counter c ct) n else get_counter c x)"
    using absent by (auto simp: remove_counter_def get_counter_def count_of_dec split: option.split
        dest!: find_counter_Some)
qed

lemma update_first_append_none:
  "find P xs = None \<Longrightarrow> update_first P f (xs @ ys) = xs @ update_first P f ys"
  by (induction xs) (auto split: if_splits)

lemma put_dec_absent:
  assumes "find (\<lambda>(t, _). t = ct) cs = None"
  shows "dec_counter ct n (cs @ [(ct, n)]) = cs"
proof -
  have "filter (\<lambda>(t, _). t \<noteq> ct) cs = cs"
    using assms by (auto simp: find_None_iff intro: filter_True)
  with assms show ?thesis
    by (simp add: dec_counter_def find_append_None update_first_append_none)
qed

lemma put_dec_present:
  assumes "find (\<lambda>(t, _). t = ct) cs = Some (ct, k)" "0 < k" "unat k + unat n < 256"
  shows "dec_counter ct n (put_counter ct n cs) = cs"
proof -
  let ?P = "\<lambda>(t, _). t = ct"
  have "find ?P (put_counter ct n cs) = Some (ct, k + n)"
    using assms by (simp add: put_counter_def update_first_find case_prod_beta' sat_add_def)
  moreover have "update_first ?P (\<lambda>(t, m). (t, m - n)) (put_counter ct n cs) = cs"
  proof -
    have "update_first ?P (\<lambda>(t, m). (t, m - n)) (update_first ?P (\<lambda>(t, m). (t, sat_add m n)) cs)
        = update_first ?P ((\<lambda>(t, m). (t, m - n)) \<circ> (\<lambda>(t, m). (t, sat_add m n))) cs"
      by (rule update_first_compose) auto
    also have "\<dots> = cs"
      using assms by (intro update_first_id_on) (simp add: sat_add_def)
    finally show ?thesis using assms(1) by (simp add: put_counter_def)
  qed
  ultimately show ?thesis using assms(2) by (simp add: dec_counter_def word_gt_0)
qed

lemma remove_add_counter:
  assumes inv: "counters_inv (c_counters c)"
    and fits: "unat (get_counter c ct) + unat n < 256"
    and p1: "ct = P1P1 \<Longrightarrow> get_counter c M1M1 = 0"
    and m1: "ct = M1M1 \<Longrightarrow> get_counter c P1P1 = 0"
  shows "remove_counter ct n (add_counter ct n c) = (c, n)"
proof (cases "n = 0")
  case True
  then show ?thesis by (simp add: add_counter_def remove_counter_def)
next
  case False
  let ?cs = "c_counters c"
  have no: "annihilate (put_counter ct n ?cs) = put_counter ct n ?cs"
    using inv p1 m1
    by (intro annihilate_same) (auto simp: count_of_put counters_inv_pos get_counter_def)
  show ?thesis
  proof (cases "find (\<lambda>(t, _). t = ct) ?cs")
    case None
    then show ?thesis
      using False no put_dec_absent [OF None, of n]
      by (simp add: add_counter_def remove_counter_def put_counter_def find_append_None)
  next
    case (Some q)
    obtain t k where "q = (t, k)" by (cases q)
    with Some have k: "find (\<lambda>(t, _). t = ct) ?cs = Some (ct, k)" "k = get_counter c ct"
      using find_counter_Some by (fastforce simp: get_counter_def)+
    have pos: "0 < k"
      using inv k find_counter_Some [OF k(1)] count_of_pos [of ?cs ct]
      by (simp add: get_counter_def counters_inv_pos)
    have found: "find (\<lambda>(t, _). t = ct) (put_counter ct n ?cs) = Some (ct, k + n)"
      using k fits by (simp add: put_counter_def update_first_find case_prod_beta' sat_add_def)
    have "\<not> k + n \<le> n"
      using fits k(2) pos by (simp add: word_le_nat_alt word_less_nat_alt unat_plus_fits)
    then have "min (k + n) n = n" by (simp add: min_def)
    then show ?thesis
      using False no found put_dec_present [OF k(1) pos] fits k(2)
      by (simp add: add_counter_def remove_counter_def)
  qed
qed

subsection \<open>The reveal mask\<close>

lemma bit_reveal: "bit (reveal_bit p) n \<longleftrightarrow> n = unat (ucast p :: u8) mod 8"
  by (auto simp: reveal_bit_def push_bit_of_1 bit_exp_iff)

lemma is_revealed_to_bit: "is_revealed_to c p \<longleftrightarrow> bit (c_revealed_to_mask c) (unat (ucast p :: u8) mod 8)"
  using and_exp_eq_0_iff_not_bit [of "c_revealed_to_mask c" "unat (ucast p :: u8) mod 8"]
  by (simp add: is_revealed_to_def reveal_bit_def push_bit_of_1)

lemma unat_ucast_u8: "p < 8 \<Longrightarrow> unat (ucast p :: u8) = unat p" for p :: u32
  by (simp add: unsigned_ucast_eq word_less_nat_alt take_bit_eq_mod)

lemma mark_revealed_to_iff:
  assumes "p < 8" "q < 8"
  shows "is_revealed_to (mark_revealed_to p c) q \<longleftrightarrow> q = p \<or> is_revealed_to c q"
    and "is_revealed_to (clear_revealed_to p c) q \<longleftrightarrow> q \<noteq> p \<and> is_revealed_to c q"
proof -
  have lt: "unat p < 8" "unat q < 8" using assms by (simp_all add: word_less_nat_alt)
  then show "is_revealed_to (mark_revealed_to p c) q \<longleftrightarrow> q = p \<or> is_revealed_to c q"
    by (auto simp: is_revealed_to_bit mark_revealed_to_def bit_or_iff bit_reveal
        unat_ucast_u8 [OF assms(1)] unat_ucast_u8 [OF assms(2)] unat_eq_iff_word)
  show "is_revealed_to (clear_revealed_to p c) q \<longleftrightarrow> q \<noteq> p \<and> is_revealed_to c q"
    using lt
    by (auto simp: is_revealed_to_bit clear_revealed_to_def bit_and_iff bit_not_iff bit_reveal
        unat_ucast_u8 [OF assms(1)] unat_ucast_u8 [OF assms(2)] unat_eq_iff_word)
qed

lemma clear_mark_revealed:
  "\<not> is_revealed_to c p \<Longrightarrow> clear_revealed_to p (mark_revealed_to p c) = c"
proof -
  assume "\<not> is_revealed_to c p"
  then have "and (or (c_revealed_to_mask c) (reveal_bit p)) (not (reveal_bit p)) = c_revealed_to_mask c"
    by (intro bit_eqI) (auto simp: is_revealed_to_bit bit_and_iff bit_or_iff bit_not_iff bit_reveal)
  then show ?thesis by (simp add: clear_revealed_to_def mark_revealed_to_def)
qed

subsection \<open>Keywords until end of turn\<close>

lemma kw_remove_all_enum:
  assumes "set ls = K"
  shows "fold (\<lambda>k ks. kw_remove ks k) ls ks = kw_remove_all K ks"
  using assms
proof (induction ls arbitrary: ks K)
  case Nil
  then show ?case by (simp add: kw_remove_all_def)
next
  case (Cons k ls)
  have "kw_remove_all (set ls) (kw_remove ks k) = kw_remove_all (insert k (set ls)) ks"
  proof (cases "is_complex k")
    case True
    then show ?thesis
      by (intro keyword_set.equality) (auto simp: kw_remove_all_def kw_remove_def Let_def intro: filter_cong)
  next
    case False
    then have "filter (\<lambda>a. args_keyword a \<notin> set ls \<or> \<not> is_complex (args_keyword a)) (ks_args ks)
      = filter (\<lambda>a. args_keyword a \<notin> insert k (set ls) \<or> \<not> is_complex (args_keyword a)) (ks_args ks)"
      by (intro filter_cong) auto
    with False show ?thesis
      by (intro keyword_set.equality) (auto simp: kw_remove_all_def kw_remove_def Let_def)
  qed
  with Cons show ?case by simp
qed

lemma grant_clear_keywords:
  assumes "grant_keyword_until_eot k c = (c', b)" "ks_keywords (c_temp_keywords_until_eot c) = {}"
    "\<not> is_complex k"
  shows "c_keywords (clear_temp_keywords_until_eot c') = c_keywords c"
proof -
  have "filter (\<lambda>a. args_keyword a \<notin> {k} \<or> \<not> is_complex (args_keyword a)) (ks_args (c_keywords c))
    = ks_args (c_keywords c)"
    using assms(3) by (intro filter_True) auto
  then show ?thesis
    using assms
    by (auto simp: grant_keyword_until_eot_def clear_temp_keywords_until_eot_def kw_remove_all_def
        kw_insert_def kw_contains_def split: if_splits)
qed

subsection \<open>The type cache\<close>

definition type_cache_ok :: "card \<Rightarrow> bool" where
  "type_cache_ok c =
     (is_land c = is_type c Land \<and> is_creature c = is_type c Creature
      \<and> is_artifact c = is_type c Artifact \<and> is_instant c = is_type c Instant
      \<and> is_sorcery c = is_type c Sorcery \<and> is_enchantment c = is_type c Enchantment)"

lemmas type_cache_defs = type_cache_ok_def is_land_def is_creature_def is_artifact_def is_instant_def
  is_sorcery_def is_enchantment_def is_type_def card_cache_def map_cache_def

lemma update_one_subtype_flags:
  "cc_is_land (update_one_subtype cc s) = cc_is_land cc"
  "cc_is_creature (update_one_subtype cc s) = cc_is_creature cc"
  "cc_is_artifact (update_one_subtype cc s) = cc_is_artifact cc"
  "cc_is_instant (update_one_subtype cc s) = cc_is_instant cc"
  "cc_is_sorcery (update_one_subtype cc s) = cc_is_sorcery cc"
  "cc_is_enchantment (update_one_subtype cc s) = cc_is_enchantment cc"
  by (simp_all add: update_one_subtype_def)

lemma foldl_update_subtype_flags:
  "cc_is_land (foldl update_one_subtype cc ss) = cc_is_land cc"
  "cc_is_creature (foldl update_one_subtype cc ss) = cc_is_creature cc"
  "cc_is_artifact (foldl update_one_subtype cc ss) = cc_is_artifact cc"
  "cc_is_instant (foldl update_one_subtype cc ss) = cc_is_instant cc"
  "cc_is_sorcery (foldl update_one_subtype cc ss) = cc_is_sorcery cc"
  "cc_is_enchantment (foldl update_one_subtype cc ss) = cc_is_enchantment cc"
  by (induction ss arbitrary: cc) (simp_all add: update_one_subtype_flags)

lemma update_from_subtypes_flags:
  "cc_is_land (update_from_subtypes ss n cc) = cc_is_land cc"
  "cc_is_creature (update_from_subtypes ss n cc) = cc_is_creature cc"
  "cc_is_artifact (update_from_subtypes ss n cc) = cc_is_artifact cc"
  "cc_is_instant (update_from_subtypes ss n cc) = cc_is_instant cc"
  "cc_is_sorcery (update_from_subtypes ss n cc) = cc_is_sorcery cc"
  "cc_is_enchantment (update_from_subtypes ss n cc) = cc_is_enchantment cc"
  by (simp_all add: update_from_subtypes_def Let_def foldl_update_subtype_flags)

lemma update_from_types_flags:
  "cc_is_land (update_from_types ts cc) = (Land \<in> set ts)"
  "cc_is_creature (update_from_types ts cc) = (Creature \<in> set ts)"
  "cc_is_artifact (update_from_types ts cc) = (Artifact \<in> set ts)"
  "cc_is_instant (update_from_types ts cc) = (Instant \<in> set ts)"
  "cc_is_sorcery (update_from_types ts cc) = (Sorcery \<in> set ts)"
  "cc_is_enchantment (update_from_types ts cc) = (Enchantment \<in> set ts)"
  by (simp_all add: update_from_types_def)

lemmas cache_flags = update_from_subtypes_flags update_from_types_flags

lemma type_cache_set_types: "type_cache_ok (set_types ts c)"
  by (simp add: type_cache_defs set_types_def cache_flags)

lemma type_cache_refresh: "type_cache_ok (refresh_type_cache c)"
  by (simp add: type_cache_defs refresh_type_cache_def cache_flags)

lemma type_cache_set_subtypes: "type_cache_ok c \<Longrightarrow> type_cache_ok (set_subtypes ss c)"
  by (simp add: type_cache_defs set_subtypes_def cache_flags)

lemma type_cache_add_type: "type_cache_ok c \<Longrightarrow> type_cache_ok (add_type t c)"
  by (cases t) (simp_all add: type_cache_defs add_type_def cache_flags)

lemma type_cache_revert: "type_cache_ok c \<Longrightarrow> type_cache_ok (fst (revert_temp_animation c))"
  by (simp add: type_cache_defs revert_temp_animation_def Let_def cache_flags)

end
