(* ===== verification/Choices.thy ===== *)
theory Choices
  imports Card
begin

section \<open>Choices of players\<close>

text \<open>
  \<open>SpellAbility\<close> of \<open>mtg-engine/src/core/spell_ability.rs\<close>, the options a player with priority is
  offered, and \<open>ReplayChoice\<close> of \<open>mtg-engine/src/game/replay_controller.rs\<close>, the choice a choice point
  of the undo log records so that it can be played back.
\<close>

datatype (plugins only: size) spell_ability =
    PlayLand card_id
  | CastSpell card_id
  | ActivateAbility card_id nat
  | CastFromExile card_id mana_cost u32
  | CastFromCommand card_id mana_cost
  | Cycle card_id mana_cost "string option"
  | CastFromGraveyard card_id u32 bool
  | CastAdventure card_id
  | CastFromHandWithAltCost card_id mana_cost
  | CastFromLibrary card_id
  | PlayLandFromLibrary card_id

primrec ability_card :: "spell_ability \<Rightarrow> card_id" where
  "ability_card (PlayLand c) = c"
| "ability_card (CastSpell c) = c"
| "ability_card (ActivateAbility c i) = c"
| "ability_card (CastFromExile c m e) = c"
| "ability_card (CastFromCommand c m) = c"
| "ability_card (Cycle c m t) = c"
| "ability_card (CastFromGraveyard c e f) = c"
| "ability_card (CastAdventure c) = c"
| "ability_card (CastFromHandWithAltCost c m) = c"
| "ability_card (CastFromLibrary c) = c"
| "ability_card (PlayLandFromLibrary c) = c"

fun is_land_ability :: "spell_ability \<Rightarrow> bool" where
  "is_land_ability (PlayLand c) = True"
| "is_land_ability _ = False"

fun is_spell :: "spell_ability \<Rightarrow> bool" where
  "is_spell (CastSpell c) = True"
| "is_spell (CastFromExile c m e) = True"
| "is_spell (CastFromCommand c m) = True"
| "is_spell (CastFromGraveyard c e f) = True"
| "is_spell (CastAdventure c) = True"
| "is_spell (CastFromHandWithAltCost c m) = True"
| "is_spell (CastFromLibrary c) = True"
| "is_spell _ = False"

fun is_activated_ability :: "spell_ability \<Rightarrow> bool" where
  "is_activated_ability (ActivateAbility c i) = True"
| "is_activated_ability _ = False"

fun is_cycling_ability :: "spell_ability \<Rightarrow> bool" where
  "is_cycling_ability (Cycle c m t) = True"
| "is_cycling_ability _ = False"

text \<open>Per attacker, the blockers with the damage assigned to each.\<close>

type_synonym damage_assignment_plan = "(card_id \<times> (card_id \<times> i32) list) list"

datatype (plugins only: size) replay_choice =
    ReplaySpellAbility "spell_ability option"
  | ReplayTargets "card_id list"
  | ReplayManaSources "card_id list"
  | ReplayAttackers "card_id list"
  | ReplayBlockers "(card_id \<times> card_id) list"
  | ReplayDamageOrder "card_id list"
  | ReplayDamageAssignment damage_assignment_plan
  | ReplayDiscard "card_id list"
  | ReplayLibrarySearch "card_id option"
  | ReplaySacrifice "card_id list"
  | ReplayModes "nat list"
  | ReplayXValue u8
  | ReplayScry "card_id list" "card_id list"
  | ReplaySurveil "card_id list" "card_id list"

end
