(* ===== verification/Prevention.thy ===== *)
theory Prevention
  imports Mana
begin

section \<open>Damage prevention shields\<close>

text \<open>
  \<open>mtg-engine/src/core/prevention.rs\<close>: the filter on the source of a damage event, how long a
  shield lasts, and its application to one event. The closure that reports the source's
  colours is an argument.
\<close>

datatype damage_source_filter =
    SourceColor color
  | SpecificSource card_id
  | ColoredSource color card_id

fun filter_matches :: "damage_source_filter \<Rightarrow> card_id \<Rightarrow> (color \<Rightarrow> bool) \<Rightarrow> bool" where
  "filter_matches (SourceColor c) s is_col = is_col c"
| "filter_matches (SpecificSource chosen) s is_col = (chosen = s)"
| "filter_matches (ColoredSource c chosen) s is_col = (chosen = s)"

datatype prevention_scope = AllThisTurn | NextEvent | NextPoints u32

record damage_prevention_shield =
  sh_source :: damage_source_filter
  sh_scope :: prevention_scope

definition colored_source_next_event :: "color \<Rightarrow> card_id \<Rightarrow> damage_prevention_shield" where
  "colored_source_next_event c s = \<lparr>sh_source = ColoredSource c s, sh_scope = NextEvent\<rparr>"

definition shield_apply ::
  "damage_prevention_shield \<Rightarrow> card_id \<Rightarrow> u32 \<Rightarrow> (color \<Rightarrow> bool) \<Rightarrow> damage_prevention_shield \<times> u32" where
  "shield_apply sh s amount is_col =
     (if amount = 0 \<or> \<not> filter_matches (sh_source sh) s is_col then (sh, 0)
      else case sh_scope sh of
        AllThisTurn \<Rightarrow> (sh, amount)
      | NextEvent \<Rightarrow> (sh\<lparr>sh_scope := NextPoints 0\<rparr>, amount)
      | NextPoints remaining \<Rightarrow>
          (let prevented = min amount remaining in
           (sh\<lparr>sh_scope := NextPoints (remaining - prevented)\<rparr>, prevented)))"

definition is_spent :: "damage_prevention_shield \<Rightarrow> bool" where
  "is_spent sh = (sh_scope sh = NextPoints 0)"

subsection \<open>What a shield prevents over a sequence of events\<close>

lemma shield_prevents_at_most: "snd (shield_apply sh s n is_col) \<le> n"
  by (simp add: shield_apply_def Let_def split: prevention_scope.split)

lemma shield_spent_prevents_nothing: "is_spent sh \<Longrightarrow> snd (shield_apply sh s n is_col) = 0"
  by (simp add: shield_apply_def is_spent_def)

lemma shield_other_source:
  "\<not> filter_matches (sh_source sh) s is_col \<Longrightarrow> shield_apply sh s n is_col = (sh, 0)"
  by (simp add: shield_apply_def)

text \<open>A run of damage events against one shield: the shield left and the total prevented.\<close>

fun shield_run ::
  "damage_prevention_shield \<Rightarrow> (card_id \<times> u32 \<times> (color \<Rightarrow> bool)) list \<Rightarrow> damage_prevention_shield \<times> nat" where
  "shield_run sh [] = (sh, 0)"
| "shield_run sh ((s, n, f) # es) =
     (let (sh', k) = shield_apply sh s n f; (sh'', total) = shield_run sh' es
      in (sh'', unat k + total))"

lemma shield_run_points:
  "sh_scope sh = NextPoints r \<Longrightarrow>
     (\<exists>r'. sh_scope (fst (shield_run sh es)) = NextPoints r' \<and> snd (shield_run sh es) + unat r' = unat r)"
proof (induction es arbitrary: sh r)
  case (Cons e es)
  obtain s n f where e: "e = (s, n, f)" by (cases e) auto
  obtain sh' k where app: "shield_apply sh s n f = (sh', k)" by (cases "shield_apply sh s n f")
  have "\<exists>r1. sh_scope sh' = NextPoints r1 \<and> unat k + unat r1 = unat r"
  proof (cases "n = 0 \<or> \<not> filter_matches (sh_source sh) s f")
    case True
    with app Cons.prems show ?thesis by (auto simp: shield_apply_def)
  next
    case False
    with app Cons.prems have "k = min n r" "sh_scope sh' = NextPoints (r - min n r)"
      by (auto simp: shield_apply_def Let_def)
    moreover have "unat (min n r) + unat (r - min n r) = unat r"
      by (simp add: unat_sub unat_min_word)
    ultimately show ?thesis by blast
  qed
  then obtain r1 where r1: "sh_scope sh' = NextPoints r1" "unat k + unat r1 = unat r" by blast
  from Cons.IH [OF r1(1)] obtain r' where
    "sh_scope (fst (shield_run sh' es)) = NextPoints r'" "snd (shield_run sh' es) + unat r' = unat r1"
    by blast
  with r1 show ?case by (auto simp: e app split: prod.splits)
qed simp

end
