(* ===== verification/Entity.thy ===== *)
theory Entity
  imports Prelude
begin

section \<open>Entity identifiers and the entity store\<close>

text \<open>
  \<open>mtg-engine/src/core/entity.rs\<close> and the player-as-target encoding of \<open>core/mod.rs\<close>. An
  \<open>EntityId\<close> is its \<open>u32\<close>; an \<open>EntityStore\<close> is the vector of optional entities the identifiers
  index. Inserting into an occupied slot panics, which is the \<open>Inl\<close> of \<open>insert\<close>. The contract a
  client relies on is the locale \<open>entity_map\<close>, interpreted on the store at the end.
\<close>

subsection \<open>Sentinel identifiers\<close>

definition REUSE_PREVIOUS_TARGET :: u32 where "REUSE_PREVIOUS_TARGET = - 1"

definition ALL_PLAYERS_ID :: u32 where "ALL_PLAYERS_ID = - 1 - 1"

definition SELF_TARGET_ID :: u32 where "SELF_TARGET_ID = - 1 - 3"

definition PLACEHOLDER_ID :: u32 where "PLACEHOLDER_ID = 0"

definition PLAYER_TARGET_BASE :: u32 where "PLAYER_TARGET_BASE = - 1 - 1000"

definition is_placeholder :: "u32 \<Rightarrow> bool" where
  "is_placeholder i = (i = PLACEHOLDER_ID)"

definition is_all_players :: "u32 \<Rightarrow> bool" where
  "is_all_players i = (i = ALL_PLAYERS_ID)"

definition is_self_target :: "u32 \<Rightarrow> bool" where
  "is_self_target i = (i = SELF_TARGET_ID)"

definition is_reuse_previous :: "u32 \<Rightarrow> bool" where
  "is_reuse_previous i = (i = REUSE_PREVIOUS_TARGET)"

definition player_as_target_sentinel :: "player_id \<Rightarrow> card_id" where
  "player_as_target_sentinel p = PLAYER_TARGET_BASE + p"

definition player_target_from_sentinel :: "card_id \<Rightarrow> player_id option" where
  "player_target_from_sentinel v =
     (if PLAYER_TARGET_BASE \<le> v \<and> v < PLAYER_TARGET_BASE + 64 then Some (v - PLAYER_TARGET_BASE)
      else None)"

subsection \<open>The store\<close>

record 'a entity_store = entities :: "'a option list"

datatype store_error = EntityNotFound u32 | SlotOccupied nat

definition store_new :: "'a entity_store" where
  "store_new = \<lparr>entities = []\<rparr>"

text \<open>\<open>resize_with(n, || None)\<close> when \<open>n\<close> is past the end.\<close>

definition grow :: "nat \<Rightarrow> 'a option list \<Rightarrow> 'a option list" where
  "grow n es = es @ replicate (n - length es) None"

definition store_next_id :: "'a entity_store \<Rightarrow> u32" where
  "store_next_id st = of_nat (length (entities st))"

definition store_insert :: "'a entity_store \<Rightarrow> u32 \<Rightarrow> 'a \<Rightarrow> store_error + 'a entity_store" where
  "store_insert st i e = (let idx = unat i; es = grow (Suc idx) (entities st) in
     case es ! idx of
       Some _ \<Rightarrow> Inl (SlotOccupied idx)
     | None \<Rightarrow> Inr (st\<lparr>entities := es[idx := Some e]\<rparr>))"

definition insert_if_vacant :: "'a entity_store \<Rightarrow> u32 \<Rightarrow> 'a \<Rightarrow> 'a entity_store \<times> bool" where
  "insert_if_vacant st i e = (let idx = unat i; es = grow (Suc idx) (entities st) in
     case es ! idx of
       Some _ \<Rightarrow> (st\<lparr>entities := es\<rparr>, False)
     | None \<Rightarrow> (st\<lparr>entities := es[idx := Some e]\<rparr>, True))"

definition store_try_get :: "'a entity_store \<Rightarrow> u32 \<Rightarrow> 'a option" where
  "store_try_get st i = (if unat i < length (entities st) then entities st ! unat i else None)"

definition store_get :: "'a entity_store \<Rightarrow> u32 \<Rightarrow> store_error + 'a" where
  "store_get st i =
     (if is_reuse_previous i \<or> i = ALL_PLAYERS_ID \<or> is_self_target i then Inl (EntityNotFound i)
      else case store_try_get st i of Some e \<Rightarrow> Inr e | None \<Rightarrow> Inl (EntityNotFound i))"

text \<open>\<open>get_mut\<close>, \<open>try_get_mut\<close>: the write made through the reference, if the entity is there.\<close>

definition store_get_mut ::
  "'a entity_store \<Rightarrow> u32 \<Rightarrow> ('a \<Rightarrow> 'a) \<Rightarrow> store_error + 'a entity_store" where
  "store_get_mut st i f = (case store_try_get st i of
       Some e \<Rightarrow> Inr (st\<lparr>entities := (entities st)[unat i := Some (f e)]\<rparr>)
     | None \<Rightarrow> Inl (EntityNotFound i))"

definition store_try_mut :: "u32 \<Rightarrow> ('a \<Rightarrow> 'a) \<Rightarrow> 'a entity_store \<Rightarrow> 'a entity_store" where
  "store_try_mut i f st = (case store_try_get st i of
       Some e \<Rightarrow> st\<lparr>entities := (entities st)[unat i := Some (f e)]\<rparr>
     | None \<Rightarrow> st)"

definition store_contains :: "'a entity_store \<Rightarrow> u32 \<Rightarrow> bool" where
  "store_contains st i = (unat i < length (entities st) \<and> entities st ! unat i \<noteq> None)"

definition store_is_revealed :: "'a entity_store \<Rightarrow> u32 \<Rightarrow> bool" where
  "store_is_revealed st i = store_contains st i"

definition store_reserve :: "'a entity_store \<Rightarrow> u32 \<Rightarrow> 'a entity_store" where
  "store_reserve st i = st\<lparr>entities := grow (Suc (unat i)) (entities st)\<rparr>"

definition store_reserve_range :: "'a entity_store \<Rightarrow> u32 \<Rightarrow> u32 \<Rightarrow> 'a entity_store" where
  "store_reserve_range st start n = st\<lparr>entities := grow (unat (start + n)) (entities st)\<rparr>"

definition store_clear :: "'a entity_store \<Rightarrow> u32 \<Rightarrow> 'a entity_store \<times> 'a option" where
  "store_clear st i = (if unat i < length (entities st)
     then (st\<lparr>entities := (entities st)[unat i := None]\<rparr>, entities st ! unat i)
     else (st, None))"

text \<open>The loop that pops trailing empty slots.\<close>

definition pop_trailing_none :: "'a option list \<Rightarrow> 'a option list" where
  "pop_trailing_none es = rev (dropWhile (\<lambda>x. x = None) (rev es))"

definition clear_and_truncate :: "'a entity_store \<Rightarrow> u32 \<Rightarrow> 'a entity_store \<times> 'a option" where
  "clear_and_truncate st i = (case store_clear st i of
     (st', removed) \<Rightarrow> (st'\<lparr>entities := pop_trailing_none (entities st')\<rparr>, removed))"

definition store_iter :: "'a entity_store \<Rightarrow> (u32 \<times> 'a) list" where
  "store_iter st = List.map_filter (\<lambda>(i, x). map_option (Pair (of_nat i)) x)
     (enumerate 0 (entities st))"

definition store_values :: "'a entity_store \<Rightarrow> 'a list" where
  "store_values st = List.map_filter id (entities st)"

definition store_values_mut :: "('a \<Rightarrow> 'a) \<Rightarrow> 'a entity_store \<Rightarrow> 'a entity_store" where
  "store_values_mut f st = st\<lparr>entities := map (map_option f) (entities st)\<rparr>"

definition store_len :: "'a entity_store \<Rightarrow> nat" where
  "store_len st = length (filter (\<lambda>x. x \<noteq> None) (entities st))"

definition store_is_empty :: "'a entity_store \<Rightarrow> bool" where
  "store_is_empty st = (\<not> list_ex (\<lambda>x. x \<noteq> None) (entities st))"

subsection \<open>The contract of a keyed store\<close>

text \<open>
  What every client of a keyed collection relies on: a lookup, and a write through a mutable
  reference. \<open>ok\<close> names the writes the contract covers (a player found by its identifier must keep
  that identifier; a slot of the entity store puts no condition on the write).
\<close>

locale entity_map =
  fixes lookup :: "'s \<Rightarrow> 'k \<Rightarrow> 'v option"
    and modify :: "'k \<Rightarrow> ('v \<Rightarrow> 'v) \<Rightarrow> 's \<Rightarrow> 's"
    and ok :: "('v \<Rightarrow> 'v) \<Rightarrow> bool"
  assumes lookup_modify: "ok f \<Longrightarrow> lookup (modify k f s) k = map_option f (lookup s k)"
    and lookup_modify_other: "ok f \<Longrightarrow> k \<noteq> k' \<Longrightarrow> lookup (modify k f s) k' = lookup s k'"
    and modify_modify: "ok g \<Longrightarrow> modify k f (modify k g s) = modify k (f \<circ> g) s"
    and modify_cong: "(\<And>v. lookup s k = Some v \<Longrightarrow> f v = g v) \<Longrightarrow> modify k f s = modify k g s"
    and modify_id: "modify k (\<lambda>v. v) s = s"
begin

lemma modify_same: "(\<And>v. lookup s k = Some v \<Longrightarrow> f v = v) \<Longrightarrow> modify k f s = s"
  using modify_cong [of s k f "\<lambda>v. v"] modify_id by auto

lemma modify_absent: "lookup s k = None \<Longrightarrow> modify k f s = s"
  by (rule modify_same) simp

text \<open>The law undo rests on: a write followed by one that restores the value changes nothing.\<close>

lemma modify_cancel:
  assumes "ok g" "\<And>v. lookup s k = Some v \<Longrightarrow> f (g v) = v"
  shows "modify k f (modify k g s) = s"
  using assms by (simp add: modify_modify modify_same)

lemma modify_cancel_found:
  assumes "ok g" "lookup s k = Some v" "f (g v) = v"
  shows "modify k f (modify k g s) = s"
  using assms by (intro modify_cancel) auto

lemma lookup_modify_if:
  "ok f \<Longrightarrow> lookup (modify k f s) k' = (if k = k' then map_option f (lookup s k') else lookup s k')"
  by (simp add: lookup_modify lookup_modify_other)

end

text \<open>A write-once store adds insertion, which an occupied slot refuses, and removal.\<close>

locale write_once_map = entity_map lookup modify ok
  for lookup :: "'s \<Rightarrow> 'k \<Rightarrow> 'v option" and modify ok +
  fixes put :: "'s \<Rightarrow> 'k \<Rightarrow> 'v \<Rightarrow> 'e + 's"
    and erase :: "'s \<Rightarrow> 'k \<Rightarrow> 's"
  assumes put_vacant: "lookup s k = None \<Longrightarrow> \<exists>s'. put s k v = Inr s'"
    and put_occupied: "lookup s k = Some w \<Longrightarrow> \<exists>e. put s k v = Inl e"
    and lookup_put: "put s k v = Inr s' \<Longrightarrow> lookup s' k' = (if k' = k then Some v else lookup s k')"
    and lookup_erase: "lookup (erase s k) k' = (if k' = k then None else lookup s k')"
begin

lemma put_succeeds_iff: "(\<exists>s'. put s k v = Inr s') \<longleftrightarrow> lookup s k = None"
  by (metis put_vacant put_occupied not_None_eq Inl_Inr_False)

lemma put_twice_refused: "put s k v = Inr s' \<Longrightarrow> \<exists>e. put s' k w = Inl e"
  by (meson lookup_put put_occupied)

lemma erase_put_lookup: "put s k v = Inr s' \<Longrightarrow> lookup (erase s' k) k' = lookup s k'"
  by (metis lookup_erase lookup_put put_succeeds_iff)

end

subsection \<open>The entity store keeps the contract\<close>

lemma length_grow: "length (grow n es) = max n (length es)"
  by (simp add: grow_def)

lemma grow_nth: "j < length (grow n es) \<Longrightarrow> grow n es ! j = (if j < length es then es ! j else None)"
  by (auto simp: grow_def nth_append)

lemma grow_nth_vacant: "grow (Suc i) es ! i = (if i < length es then es ! i else None)"
  by (rule grow_nth) (simp add: length_grow)

lemma store_insert_iff:
  "store_insert st i e = Inr st' \<longleftrightarrow> store_try_get st i = None
     \<and> st' = st\<lparr>entities := (grow (Suc (unat i)) (entities st))[unat i := Some e]\<rparr>"
  by (auto simp: store_insert_def Let_def store_try_get_def grow_nth_vacant split: option.splits)

lemma store_insert_occupied:
  "store_try_get st i = Some w \<Longrightarrow> store_insert st i e = Inl (SlotOccupied (unat i))"
  by (auto simp: store_insert_def Let_def store_try_get_def grow_nth_vacant split: if_splits)

lemma store_try_get_insert:
  assumes "store_insert st i e = Inr st'"
  shows "store_try_get st' j = (if j = i then Some e else store_try_get st j)"
  using assms
  by (auto simp: store_insert_iff store_try_get_def length_grow grow_nth nth_list_update unat_eq_iff_word)

lemma store_try_get_clear:
  "store_try_get (fst (store_clear st i)) j = (if j = i then None else store_try_get st j)"
  by (auto simp: store_clear_def store_try_get_def nth_list_update unat_eq_iff_word)

lemma store_try_get_try_mut:
  "store_try_get (store_try_mut i f st) j
     = (if j = i then map_option f (store_try_get st j) else store_try_get st j)"
  by (auto simp: store_try_mut_def store_try_get_def nth_list_update unat_eq_iff_word
      split: option.splits)

lemma list_update_same_Some: "n < length xs \<Longrightarrow> xs ! n = Some v \<Longrightarrow> xs[n := Some v] = xs"
  by (metis list_update_id)

interpretation store: write_once_map store_try_get store_try_mut "\<lambda>_. True" store_insert
  "\<lambda>st i. fst (store_clear st i)"
proof (unfold_locales, goal_cases)
  case (3 g k f s)
  then show ?case
    by (auto simp: store_try_mut_def store_try_get_def split: option.splits if_splits)
next
  case (4 s k f g)
  then show ?case by (auto simp: store_try_mut_def split: option.splits)
next
  case (5 k s)
  then show ?case
    by (auto simp: store_try_mut_def store_try_get_def list_update_same_Some
        split: option.splits if_splits)
next
  case (6 s k v)
  then show ?case by (simp add: store_insert_iff)
qed (auto simp: store_try_get_try_mut store_try_get_insert store_try_get_clear store_insert_occupied)

lemma store_contains_iff: "store_contains st i \<longleftrightarrow> store_try_get st i \<noteq> None"
  by (auto simp: store_contains_def store_try_get_def)

lemma store_get_Inr: "store_get st i = Inr e \<Longrightarrow> store_try_get st i = Some e"
  by (auto simp: store_get_def split: if_splits option.splits)

subsection \<open>Minting and undoing a mint\<close>

lemma pop_trailing_none_last_Some:
  "es = [] \<or> last es \<noteq> None \<Longrightarrow> pop_trailing_none es = es"
  by (cases es rule: rev_cases) (auto simp: pop_trailing_none_def)

lemma pop_trailing_none_append:
  "pop_trailing_none (es @ replicate n None) = pop_trailing_none es"
proof -
  have "dropWhile (\<lambda>x. x = None) (replicate n None @ ys) = dropWhile (\<lambda>x. x = None) ys"
    for ys :: "'a option list"
    by (induction n) auto
  then show ?thesis by (simp add: pop_trailing_none_def)
qed

lemma clear_and_truncate_inserted:
  assumes "store_insert st i e = Inr st'" "length (entities st) \<le> unat i"
  shows "clear_and_truncate st' i = (st\<lparr>entities := pop_trailing_none (entities st)\<rparr>, Some e)"
proof -
  let ?n = "Suc (unat i) - length (entities st)"
  have st': "st' = st\<lparr>entities := (grow (Suc (unat i)) (entities st))[unat i := Some e]\<rparr>"
    using assms(1) by (simp add: store_insert_iff)
  have "(grow (Suc (unat i)) (entities st))[unat i := None] = entities st @ replicate ?n None"
    using assms(2) by (intro nth_equalityI) (auto simp: length_grow nth_list_update grow_nth nth_append)
  then show ?thesis
    using assms(2)
    by (simp add: clear_and_truncate_def store_clear_def st' length_grow pop_trailing_none_append)
qed

end
