(* ===== verification/Player.thy ===== *)
theory Player
  imports Prevention Entity
begin

section \<open>Players\<close>

text \<open>
  \<open>mtg-engine/src/core/player.rs\<close>: the player with both mana pools, life, the per-turn counters
  and the commander fields. \<open>life\<close> is an \<open>i32\<close> whose additions wrap; a player has lost when it is
  not positive. The payment that draws on the regular and on the combat pool is shown to take
  exactly the cost. The players of a game are a vector searched by identifier; that search keeps
  the contract \<open>entity_map\<close>.
\<close>

record player =
  p_id :: player_id
  p_name :: string
  p_life :: i32
  p_mana_pool :: mana_pool
  p_combat_mana_pool :: "mana_pool option"
  p_has_lost :: bool
  p_lands_played_this_turn :: u8
  p_max_lands_per_turn :: u8
  p_max_hand_size :: nat
  p_cards_drawn_this_turn :: u8
  p_commander_id :: "card_id option"
  p_commander_cast_count :: u8
  p_commander_damage_taken :: "(player_id \<times> u16) list"
  p_damage_prevention :: i32
  p_source_prevention_shields :: "damage_prevention_shield list"
  p_spells_cast_this_turn :: u8
  p_skip_untap_next_turn :: bool
  p_island_sanctuary_protected :: bool
  p_had_creature_countered_this_turn :: bool
  p_cant_cast_spells :: bool

definition player_new :: "player_id \<Rightarrow> string \<Rightarrow> i32 \<Rightarrow> player" where
  "player_new i name starting_life =
     \<lparr>p_id = i, p_name = name, p_life = starting_life, p_mana_pool = mana_pool_new,
      p_combat_mana_pool = None, p_has_lost = False, p_lands_played_this_turn = 0,
      p_max_lands_per_turn = 1, p_max_hand_size = 7, p_cards_drawn_this_turn = 0,
      p_commander_id = None, p_commander_cast_count = 0, p_commander_damage_taken = [],
      p_damage_prevention = 0, p_source_prevention_shields = [], p_spells_cast_this_turn = 0,
      p_skip_untap_next_turn = False, p_island_sanctuary_protected = False,
      p_had_creature_countered_this_turn = False, p_cant_cast_spells = False\<rparr>"

definition gain_life :: "i32 \<Rightarrow> player \<Rightarrow> player" where
  "gain_life n p = p\<lparr>p_life := p_life p + n\<rparr>"

definition lose_life :: "i32 \<Rightarrow> player \<Rightarrow> player" where
  "lose_life n p = (let p' = p\<lparr>p_life := p_life p - n\<rparr> in
     if sint (p_life p') \<le> 0 then p'\<lparr>p_has_lost := True\<rparr> else p')"

definition can_play_land :: "player \<Rightarrow> bool" where
  "can_play_land p = (p_lands_played_this_turn p < p_max_lands_per_turn p)"

definition play_land :: "player \<Rightarrow> player" where
  "play_land p = p\<lparr>p_lands_played_this_turn := p_lands_played_this_turn p + 1\<rparr>"

definition reset_lands_played :: "player \<Rightarrow> player" where
  "reset_lands_played p = p\<lparr>p_lands_played_this_turn := 0\<rparr>"

definition record_card_drawn :: "player \<Rightarrow> player \<times> u8" where
  "record_card_drawn p = (let n = p_cards_drawn_this_turn p + 1 in
     (p\<lparr>p_cards_drawn_this_turn := n\<rparr>, n))"

definition reset_cards_drawn :: "player \<Rightarrow> player" where
  "reset_cards_drawn p = p\<lparr>p_cards_drawn_this_turn := 0\<rparr>"

definition commander_tax :: "player \<Rightarrow> u8" where
  "commander_tax p = sat_mul (p_commander_cast_count p) 2"

definition record_commander_cast :: "player \<Rightarrow> player" where
  "record_commander_cast p = p\<lparr>p_commander_cast_count := p_commander_cast_count p + 1\<rparr>"

definition record_commander_damage :: "player_id \<Rightarrow> u16 \<Rightarrow> player \<Rightarrow> player \<times> bool" where
  "record_commander_damage from_player damage p =
     (case find (\<lambda>(pid, _). pid = from_player) (p_commander_damage_taken p) of
        Some (_, d) \<Rightarrow>
          (p\<lparr>p_commander_damage_taken := update_first (\<lambda>(pid, _). pid = from_player)
             (\<lambda>(pid, d). (pid, sat_add d damage)) (p_commander_damage_taken p)\<rparr>,
           21 \<le> sat_add d damage)
      | None \<Rightarrow>
          (p\<lparr>p_commander_damage_taken := p_commander_damage_taken p @ [(from_player, damage)]\<rparr>,
           21 \<le> damage))"

definition commander_damage_from :: "player_id \<Rightarrow> player \<Rightarrow> u16" where
  "commander_damage_from from_player p =
     (case find (\<lambda>(pid, _). pid = from_player) (p_commander_damage_taken p) of
        Some (_, d) \<Rightarrow> d | None \<Rightarrow> 0)"

definition empty_mana_pool :: "player \<Rightarrow> player" where
  "empty_mana_pool p = p\<lparr>p_mana_pool := pool_clear (p_mana_pool p)\<rparr>"

definition empty_combat_mana_pool :: "player \<Rightarrow> player" where
  "empty_combat_mana_pool p = (if p_combat_mana_pool p \<noteq> None then p\<lparr>p_combat_mana_pool := None\<rparr> else p)"

definition has_combat_mana :: "player \<Rightarrow> bool" where
  "has_combat_mana p = (case p_combat_mana_pool p of Some cb \<Rightarrow> 0 < pool_total cb | None \<Rightarrow> False)"

definition add_combat_mana :: "color \<Rightarrow> player \<Rightarrow> player" where
  "add_combat_mana c p = p\<lparr>p_combat_mana_pool := Some (add_color
     (case p_combat_mana_pool p of Some cb \<Rightarrow> cb | None \<Rightarrow> mana_pool_new) c)\<rparr>"

definition total_available_mana :: "player \<Rightarrow> mana_pool" where
  "total_available_mana p = (case p_combat_mana_pool p of
       None \<Rightarrow> p_mana_pool p
     | Some cb \<Rightarrow>
         \<lparr>mp_white = mp_white (p_mana_pool p) + mp_white cb,
          mp_blue = mp_blue (p_mana_pool p) + mp_blue cb,
          mp_black = mp_black (p_mana_pool p) + mp_black cb,
          mp_red = mp_red (p_mana_pool p) + mp_red cb,
          mp_green = mp_green (p_mana_pool p) + mp_green cb,
          mp_colorless = mp_colorless (p_mana_pool p) + mp_colorless cb\<rparr>)"

text \<open>One colour of the cost: from the regular amount first, then from the combat amount.\<close>

definition pay_color :: "u8 \<Rightarrow> u8 \<Rightarrow> u8 \<Rightarrow> u8 \<times> u8" where
  "pay_color cost reg cb = (let r = min cost reg; k = min (cost - r) cb in (reg - r, cb - k))"

text \<open>The loop over the colours of one pool, with its \<open>break\<close> once nothing is left to pay.\<close>

fun spend_generic :: "u8 \<Rightarrow> u8 list \<Rightarrow> u8 \<times> u8 list" where
  "spend_generic n [] = (n, [])"
| "spend_generic n (x # xs) = (let used = min n x; n' = n - used in
     if n' = 0 then (n', (x - used) # xs)
     else case spend_generic n' xs of (m, ys) \<Rightarrow> (m, (x - used) # ys))"

definition pool_amounts :: "mana_pool \<Rightarrow> u8 list" where
  "pool_amounts p = [mp_white p, mp_blue p, mp_black p, mp_red p, mp_green p, mp_colorless p]"

definition pool_of :: "u8 list \<Rightarrow> mana_pool" where
  "pool_of xs = \<lparr>mp_white = xs ! 0, mp_blue = xs ! 1, mp_black = xs ! 2, mp_red = xs ! 3,
     mp_green = xs ! 4, mp_colorless = xs ! 5\<rparr>"

definition pay_colors :: "mana_cost \<Rightarrow> mana_pool \<Rightarrow> mana_pool \<Rightarrow> mana_pool \<times> mana_pool" where
  "pay_colors c reg cb =
     (let (w, w') = pay_color (mc_white c) (mp_white reg) (mp_white cb);
          (u, u') = pay_color (mc_blue c) (mp_blue reg) (mp_blue cb);
          (b, b') = pay_color (mc_black c) (mp_black reg) (mp_black cb);
          (r, r') = pay_color (mc_red c) (mp_red reg) (mp_red cb);
          (g, g') = pay_color (mc_green c) (mp_green reg) (mp_green cb);
          (l, l') = pay_color (mc_colorless c) (mp_colorless reg) (mp_colorless cb) in
      (\<lparr>mp_white = w, mp_blue = u, mp_black = b, mp_red = r, mp_green = g, mp_colorless = l\<rparr>,
       \<lparr>mp_white = w', mp_blue = u', mp_black = b', mp_red = r', mp_green = g',
        mp_colorless = l'\<rparr>))"

definition pay_from_total_mana :: "mana_cost \<Rightarrow> player \<Rightarrow> pay_error + player" where
  "pay_from_total_mana c p =
     (if \<not> can_pay (total_available_mana p) c then Inl (InsufficientMana c (p_mana_pool p))
      else case p_combat_mana_pool p of
        None \<Rightarrow> (case pay_cost (p_mana_pool p) c of
            Inl e \<Rightarrow> Inl e | Inr q \<Rightarrow> Inr (p\<lparr>p_mana_pool := q\<rparr>))
      | Some cb0 \<Rightarrow>
          (let (reg, cb) = pay_colors c (p_mana_pool p) cb0;
               (n, reg') = spend_generic (mc_generic c) (pool_amounts reg);
               cb' = (if 0 < n then pool_of (snd (spend_generic n (pool_amounts cb))) else cb) in
           Inr (p\<lparr>p_mana_pool := pool_of reg',
             p_combat_mana_pool := (if pool_total cb' = 0 then None else Some cb')\<rparr>)))"

subsection \<open>Life\<close>

lemma lose_gain_life: "p_life (lose_life n (gain_life n p)) = p_life p"
  by (simp add: lose_life_def gain_life_def Let_def)

lemma lose_life_lost: "p_has_lost (lose_life n p) \<longleftrightarrow> p_has_lost p \<or> sint (p_life p - n) \<le> 0"
  by (simp add: lose_life_def Let_def)

subsection \<open>Paying from both pools\<close>

lemma unat_spend_generic:
  "spend_generic n xs = (m, ys) \<Longrightarrow> map unat ys = drain (unat n) (map unat xs)
     \<and> unat m = unat n - sum_list (map unat xs)"
proof (induction n xs arbitrary: m ys rule: spend_generic.induct)
  case (2 n x xs)
  have zero: "drain 0 zs = zs" for zs by (induction zs) auto
  show ?case
  proof (cases "n - min n x = 0")
    case True
    then have "unat n - unat x = 0" using unat_minus_min_left [of n x] by simp
    with True 2(2) show ?thesis
      by (auto simp: unat_minus_min_right zero unat_sub word_le_nat_alt)
  next
    case False
    obtain m' ys' where rec: "spend_generic (n - min n x) xs = (m', ys')"
      by (cases "spend_generic (n - min n x) xs")
    from 2(1) [OF refl refl False rec] False 2(2) rec show ?thesis
      by (auto simp: unat_minus_min_right unat_minus_min_left)
  qed
qed simp

definition player_mana :: "player \<Rightarrow> nat" where
  "player_mana p = pool_sum (p_mana_pool p)
     + (case p_combat_mana_pool p of Some cb \<Rightarrow> pool_sum cb | None \<Rightarrow> 0)"

lemma unat_pay_color:
  assumes "pay_color k reg cb = (reg', cb')" "unat k \<le> unat reg + unat cb"
  shows "unat reg' + unat cb' + unat k = unat reg + unat cb"
  using assms
  by (auto simp: pay_color_def Let_def unat_minus_min_right unat_minus_min_left)

lemma pool_list_amounts: "pool_list p = map unat (pool_amounts p)"
  by (simp add: pool_list_def pool_amounts_def)

lemma pool_sum_pool_of: "length xs = 6 \<Longrightarrow> pool_sum (pool_of xs) = sum_list (map unat xs)"
proof -
  assume "length xs = 6"
  then obtain a b c d e f where "xs = [a, b, c, d, e, f]"
    by (auto simp: numeral_eq_Suc length_Suc_conv)
  then show ?thesis by (simp add: pool_sum_def pool_of_def)
qed

lemma length_spend_generic: "length (snd (spend_generic n xs)) = length xs"
  by (induction n xs rule: spend_generic.induct) (auto simp: Let_def split: prod.split)

lemma spend_pool:
  assumes "spend_generic n (pool_amounts q) = (m, ys)"
  shows "pool_sum (pool_of ys) = pool_sum q - unat n \<and> unat m = unat n - pool_sum q"
proof -
  have "length ys = 6" using length_spend_generic [of n "pool_amounts q"] assms
    by (simp add: pool_amounts_def)
  then have "pool_sum (pool_of ys) = sum_list (map unat ys)" by (rule pool_sum_pool_of)
  moreover have "pool_sum q = sum_list (map unat (pool_amounts q))"
    by (simp add: pool_sum_list pool_list_amounts)
  ultimately show ?thesis
    using unat_spend_generic [OF assms] by (simp add: sum_list_drain)
qed

lemma pool_sum_total:
  assumes "p_combat_mana_pool p = Some cb" "player_mana p < 256"
  shows "pool_list (total_available_mana p) = map2 (+) (pool_list (p_mana_pool p)) (pool_list cb)
    \<and> pool_sum (total_available_mana p) = player_mana p"
  using assms
  by (simp add: total_available_mana_def player_mana_def pool_list_def pool_sum_def
      unat_plus_fits)

lemma pay_colors_sum:
  assumes "pay_colors c reg cb = (reg', cb')"
    "list_all2 (\<le>) (cost_list c) (map2 (+) (pool_list reg) (pool_list cb))"
  shows "pool_sum reg' + pool_sum cb' + sum_list (cost_list c) = pool_sum reg + pool_sum cb"
proof -
  have le: "unat (mc_white c) \<le> unat (mp_white reg) + unat (mp_white cb)"
    "unat (mc_blue c) \<le> unat (mp_blue reg) + unat (mp_blue cb)"
    "unat (mc_black c) \<le> unat (mp_black reg) + unat (mp_black cb)"
    "unat (mc_red c) \<le> unat (mp_red reg) + unat (mp_red cb)"
    "unat (mc_green c) \<le> unat (mp_green reg) + unat (mp_green cb)"
    "unat (mc_colorless c) \<le> unat (mp_colorless reg) + unat (mp_colorless cb)"
    using assms(2) by (simp_all add: cost_list_def pool_list_def)
  show ?thesis
    using assms(1) unat_pay_color [OF _ le(1)] unat_pay_color [OF _ le(2)]
      unat_pay_color [OF _ le(3)] unat_pay_color [OF _ le(4)] unat_pay_color [OF _ le(5)]
      unat_pay_color [OF _ le(6)]
    by (auto simp: pay_colors_def pool_sum_def cost_list_def split: prod.splits)
qed

lemma pay_total_conserves:
  assumes fits: "player_mana p < 256" "cost_sum c < 256"
    and paid: "pay_from_total_mana c p = Inr p'"
  shows "player_mana p' + cost_sum c = player_mana p"
proof (cases "p_combat_mana_pool p")
  case None
  then have "total_available_mana p = p_mana_pool p" by (simp add: total_available_mana_def)
  with None paid obtain q where "pay_cost (p_mana_pool p) c = Inr q" "p' = p\<lparr>p_mana_pool := q\<rparr>"
    by (auto simp: pay_from_total_mana_def split: if_splits sum.splits)
  with None fits show ?thesis
    using pay_cost_conserves by (simp add: player_mana_def)
next
  case (Some cb0)
  have can: "can_pay (total_available_mana p) c"
    using paid by (auto simp: pay_from_total_mana_def split: if_splits)
  note tot = pool_sum_total [OF Some fits(1)]
  have le: "list_all2 (\<le>) (cost_list c) (map2 (+) (pool_list (p_mana_pool p)) (pool_list cb0))"
    and enough: "cost_sum c \<le> player_mana p"
    using can can_pay_exact [of "total_available_mana p" c] tot fits by simp_all
  obtain reg cb where pc: "pay_colors c (p_mana_pool p) cb0 = (reg, cb)"
    by (cases "pay_colors c (p_mana_pool p) cb0")
  obtain n reg' where sg: "spend_generic (mc_generic c) (pool_amounts reg) = (n, reg')"
    by (cases "spend_generic (mc_generic c) (pool_amounts reg)")
  obtain m cb1 where sc: "spend_generic n (pool_amounts cb) = (m, cb1)"
    by (cases "spend_generic n (pool_amounts cb)")
  define cb' where "cb' = (if 0 < n then pool_of cb1 else cb)"
  have p': "p' = p\<lparr>p_mana_pool := pool_of reg',
      p_combat_mana_pool := (if pool_total cb' = 0 then None else Some cb')\<rparr>"
    using paid can Some by (auto simp: pay_from_total_mana_def pc sg sc cb'_def Let_def)
  note colors = pay_colors_sum [OF pc le]
  have cb'_sum: "pool_sum cb' = pool_sum cb - unat n"
    using spend_pool [OF sc] by (auto simp: cb'_def word_gt_0)
  have small: "pool_sum cb' < 256"
    using cb'_sum colors fits(1) Some by (simp add: player_mana_def)
  have "pool_total cb' = 0 \<Longrightarrow> pool_sum cb' = 0"
    using unat_pool_total [OF small] by simp
  then have "player_mana p' = pool_sum (pool_of reg') + pool_sum cb'"
    by (simp add: p' player_mana_def)
  then show ?thesis
    using spend_pool [OF sg] cb'_sum colors enough Some
    by (simp add: player_mana_def cost_sum_list)
qed

lemma pay_total_refused:
  "pay_from_total_mana c p = Inl e \<longleftrightarrow>
     \<not> can_pay (total_available_mana p) c \<and> e = InsufficientMana c (p_mana_pool p)"
proof (cases "p_combat_mana_pool p")
  case None
  then show ?thesis
    by (cases "pay_cost (p_mana_pool p) c")
      (auto simp: pay_from_total_mana_def total_available_mana_def pay_cost_result)
next
  case (Some cb)
  then show ?thesis
    by (auto simp: pay_from_total_mana_def Let_def split: prod.splits)
qed

subsection \<open>The players of a game\<close>

text \<open>\<open>players.iter().find(|p| p.id == id)\<close> and a write through \<open>iter_mut().find\<close>.\<close>

definition find_player :: "player list \<Rightarrow> player_id \<Rightarrow> player option" where
  "find_player ps i = find (\<lambda>p. p_id p = i) ps"

definition update_player :: "player_id \<Rightarrow> (player \<Rightarrow> player) \<Rightarrow> player list \<Rightarrow> player list" where
  "update_player i f ps = update_first (\<lambda>p. p_id p = i) f ps"

definition keeps_id :: "(player \<Rightarrow> player) \<Rightarrow> bool" where
  "keeps_id f = (\<forall>p. p_id (f p) = p_id p)"

interpretation players: entity_map find_player update_player keeps_id
proof (unfold_locales, goal_cases)
  case (1 f k s)
  then show ?case by (simp add: find_player_def update_player_def keeps_id_def update_first_find)
next
  case (2 f k k' s)
  then show ?case
    by (simp add: find_player_def update_player_def keeps_id_def update_first_find_other)
next
  case (3 g k f s)
  then show ?case by (simp add: update_player_def keeps_id_def update_first_compose)
next
  case (4 s k f g)
  then show ?case by (auto simp: find_player_def update_player_def intro: update_first_cong_on)
next
  case (5 k s)
  then show ?case by (simp add: update_player_def update_first_id_on)
qed

lemma keeps_id_ops [simp]:
  "keeps_id (gain_life n)" "keeps_id (lose_life n)" "keeps_id play_land" "keeps_id reset_lands_played"
  "keeps_id reset_cards_drawn" "keeps_id empty_mana_pool" "keeps_id empty_combat_mana_pool"
  "keeps_id (add_combat_mana c)" "keeps_id record_commander_cast"
  by (simp_all add: keeps_id_def gain_life_def lose_life_def play_land_def reset_lands_played_def
      reset_cards_drawn_def empty_mana_pool_def empty_combat_mana_pool_def add_combat_mana_def
      record_commander_cast_def Let_def)

end
