(* ===== verification/Combat.thy ===== *)
theory Combat
  imports Prelude
begin

section \<open>The combat state\<close>

text \<open>
  \<open>mtg-engine/src/game/combat.rs\<close>: attackers, blockers and the reverse map from attackers to
  their blockers. A \<open>BTreeMap\<close> is a partial function; its iteration order is the order of the
  keys. The invariant says that the reverse map only mentions blockers that block the attacker;
  every operation keeps it, and the two undo operations invert the two declarations.
\<close>

record combat_state =
  cs_attackers :: "card_id \<rightharpoonup> player_id"
  cs_blockers :: "card_id \<rightharpoonup> card_id list"
  cs_attacker_blockers :: "card_id \<rightharpoonup> card_id list"
  cs_combat_active :: bool

definition combat_new :: combat_state where
  "combat_new = \<lparr>cs_attackers = Map.empty, cs_blockers = Map.empty,
     cs_attacker_blockers = Map.empty, cs_combat_active = False\<rparr>"

definition declare_attacker :: "card_id \<Rightarrow> player_id \<Rightarrow> combat_state \<Rightarrow> combat_state" where
  "declare_attacker a p s = s\<lparr>cs_attackers := (cs_attackers s)(a \<mapsto> p), cs_combat_active := True\<rparr>"

text \<open>\<open>entry(a).or_default().push(b)\<close>.\<close>

definition push_entry :: "card_id \<Rightarrow> (card_id \<rightharpoonup> card_id list) \<Rightarrow> card_id \<Rightarrow> (card_id \<rightharpoonup> card_id list)" where
  "push_entry b m a = m(a \<mapsto> (case m a of Some bs \<Rightarrow> bs | None \<Rightarrow> []) @ [b])"

definition declare_blocker :: "card_id \<Rightarrow> card_id list \<Rightarrow> combat_state \<Rightarrow> combat_state" where
  "declare_blocker b as s = s\<lparr>cs_blockers := (cs_blockers s)(b \<mapsto> as),
     cs_attacker_blockers := foldl (push_entry b) (cs_attacker_blockers s) as\<rparr>"

definition is_attacking :: "combat_state \<Rightarrow> card_id \<Rightarrow> bool" where
  "is_attacking s c = (cs_attackers s c \<noteq> None)"

definition is_blocking :: "combat_state \<Rightarrow> card_id \<Rightarrow> bool" where
  "is_blocking s c = (cs_blockers s c \<noteq> None)"

definition is_blocked :: "combat_state \<Rightarrow> card_id \<Rightarrow> bool" where
  "is_blocked s a = (case cs_attacker_blockers s a of Some bs \<Rightarrow> bs \<noteq> [] | None \<Rightarrow> False)"

definition get_blockers :: "combat_state \<Rightarrow> card_id \<Rightarrow> card_id list" where
  "get_blockers s a = (case cs_attacker_blockers s a of Some bs \<Rightarrow> bs | None \<Rightarrow> [])"

definition get_defending_player :: "combat_state \<Rightarrow> card_id \<Rightarrow> player_id option" where
  "get_defending_player s a = cs_attackers s a"

definition get_attackers :: "combat_state \<Rightarrow> card_id list" where
  "get_attackers s = sorted_list_of_set (dom (cs_attackers s))"

definition get_blockers_list :: "combat_state \<Rightarrow> card_id list" where
  "get_blockers_list s = sorted_list_of_set (dom (cs_blockers s))"

definition has_attackers :: "combat_state \<Rightarrow> bool" where
  "has_attackers s = (dom (cs_attackers s) \<noteq> {})"

definition remove_from_combat :: "card_id \<Rightarrow> combat_state \<Rightarrow> combat_state" where
  "remove_from_combat c s =
     s\<lparr>cs_attackers := (cs_attackers s)(c := None),
       cs_blockers := (cs_blockers s)(c := None),
       cs_attacker_blockers := (\<lambda>a. map_option (filter (\<lambda>b. b \<noteq> c))
          (((cs_attacker_blockers s)(c := None)) a))\<rparr>"

definition combat_clear :: "combat_state \<Rightarrow> combat_state" where
  "combat_clear s = s\<lparr>cs_attackers := Map.empty, cs_blockers := Map.empty,
     cs_attacker_blockers := Map.empty, cs_combat_active := False\<rparr>"

definition undo_declare_attacker :: "card_id \<Rightarrow> bool \<Rightarrow> combat_state \<Rightarrow> combat_state" where
  "undo_declare_attacker a prev s =
     s\<lparr>cs_attackers := (cs_attackers s)(a := None), cs_combat_active := prev\<rparr>"

text \<open>\<open>retain\<close> on the entry of one attacker, which is dropped when it becomes empty.\<close>

definition prune_entry :: "card_id \<Rightarrow> (card_id \<rightharpoonup> card_id list) \<Rightarrow> card_id \<Rightarrow> (card_id \<rightharpoonup> card_id list)" where
  "prune_entry b m a = (case m a of
       None \<Rightarrow> m
     | Some bs \<Rightarrow> (let bs' = filter (\<lambda>x. x \<noteq> b) bs in
         m(a := (if bs' = [] then None else Some bs'))))"

definition undo_declare_blocker :: "card_id \<Rightarrow> card_id list \<Rightarrow> combat_state \<Rightarrow> combat_state" where
  "undo_declare_blocker b as s = s\<lparr>cs_blockers := (cs_blockers s)(b := None),
     cs_attacker_blockers := foldl (prune_entry b) (cs_attacker_blockers s) as\<rparr>"

subsection \<open>The invariant\<close>

definition combat_inv :: "combat_state \<Rightarrow> bool" where
  "combat_inv s = (\<forall>a bs b. cs_attacker_blockers s a = Some bs \<longrightarrow> b \<in> set bs \<longrightarrow>
     (\<exists>as. cs_blockers s b = Some as \<and> a \<in> set as))"

lemma combat_invD: "combat_inv s \<Longrightarrow> cs_attacker_blockers s a = Some bs \<Longrightarrow> b \<in> set bs
   \<Longrightarrow> \<exists>as. cs_blockers s b = Some as \<and> a \<in> set as"
  by (auto simp: combat_inv_def)

lemma push_entry_lookup:
  "foldl (push_entry b) m as a = (if a \<in> set as
     then Some ((case m a of Some bs \<Rightarrow> bs | None \<Rightarrow> []) @ replicate (count_list as a) b) else m a)"
proof (induction as arbitrary: m)
  case (Cons x xs)
  have "count_list xs a = 0" if "a \<notin> set xs" using that by simp
  with Cons show ?case
    by (auto simp: push_entry_def replicate_append_same [symmetric] split: option.splits)
qed simp

lemma prune_entry_lookup:
  "foldl (prune_entry b) m as a = (if a \<in> set as then (case m a of None \<Rightarrow> None
     | Some bs \<Rightarrow> (let bs' = filter (\<lambda>x. x \<noteq> b) bs in if bs' = [] then None else Some bs')) else m a)"
  by (induction as arbitrary: m) (auto simp: prune_entry_def Let_def split: option.splits)

lemma combat_inv_new: "combat_inv combat_new"
  by (simp add: combat_inv_def combat_new_def)

lemma combat_inv_clear: "combat_inv (combat_clear s)"
  by (simp add: combat_inv_def combat_clear_def)

lemma combat_inv_declare_attacker: "combat_inv s \<Longrightarrow> combat_inv (declare_attacker a p s)"
  by (simp add: combat_inv_def declare_attacker_def)

lemma combat_inv_undo_attacker: "combat_inv s \<Longrightarrow> combat_inv (undo_declare_attacker a b s)"
  by (simp add: combat_inv_def undo_declare_attacker_def)

lemma not_blocking_not_listed:
  "combat_inv s \<Longrightarrow> \<not> is_blocking s b \<Longrightarrow> cs_attacker_blockers s a = Some bs \<Longrightarrow> b \<notin> set bs"
  using combat_invD by (fastforce simp: is_blocking_def)

lemma combat_inv_declare_blocker:
  assumes "combat_inv s" "\<not> is_blocking s b"
  shows "combat_inv (declare_blocker b as s)"
  unfolding combat_inv_def
proof (intro allI impI)
  fix a bs x
  assume bs: "cs_attacker_blockers (declare_blocker b as s) a = Some bs" and x: "x \<in> set bs"
  show "\<exists>as'. cs_blockers (declare_blocker b as s) x = Some as' \<and> a \<in> set as'"
  proof (cases "x = b")
    case True
    then have "a \<in> set as"
      using bs x not_blocking_not_listed [OF assms]
      by (auto simp: declare_blocker_def push_entry_lookup split: if_splits)
    with True show ?thesis by (simp add: declare_blocker_def)
  next
    case False
    with bs x obtain bs0 where "cs_attacker_blockers s a = Some bs0" "x \<in> set bs0"
      by (auto simp: declare_blocker_def push_entry_lookup split: if_splits option.splits)
    with False show ?thesis
      using combat_invD [OF assms(1)] by (simp add: declare_blocker_def)
  qed
qed

lemma combat_inv_remove: "combat_inv s \<Longrightarrow> combat_inv (remove_from_combat c s)"
  unfolding combat_inv_def
  by (auto simp: remove_from_combat_def split: if_splits)

lemma combat_inv_undo_blocker:
  assumes "combat_inv s" "cs_blockers s b = Some as"
  shows "combat_inv (undo_declare_blocker b as s)"
  unfolding combat_inv_def
proof (intro allI impI)
  fix a bs x
  assume bs: "cs_attacker_blockers (undo_declare_blocker b as s) a = Some bs" and x: "x \<in> set bs"
  obtain bs0 where bs0: "cs_attacker_blockers s a = Some bs0" "x \<in> set bs0"
    using bs x
    by (auto simp: undo_declare_blocker_def prune_entry_lookup Let_def split: if_splits option.splits)
  from combat_invD [OF assms(1) bs0] obtain as' where as': "cs_blockers s x = Some as'" "a \<in> set as'"
    by blast
  have "x \<noteq> b"
  proof
    assume "x = b"
    with as' assms(2) have "a \<in> set as" by simp
    with bs x \<open>x = b\<close> show False
      by (auto simp: undo_declare_blocker_def prune_entry_lookup Let_def split: if_splits option.splits)
  qed
  with as' show "\<exists>as'. cs_blockers (undo_declare_blocker b as s) x = Some as' \<and> a \<in> set as'"
    by (simp add: undo_declare_blocker_def)
qed

subsection \<open>Undoing the declarations\<close>

lemma undo_attacker:
  "\<not> is_attacking s a \<Longrightarrow> undo_declare_attacker a (cs_combat_active s) (declare_attacker a p s) = s"
  by (simp add: undo_declare_attacker_def declare_attacker_def is_attacking_def fun_upd_idem)

lemma undo_blocker:
  assumes "combat_inv s" "\<not> is_blocking s b" "\<And>a. a \<in> set as \<Longrightarrow> cs_attacker_blockers s a \<noteq> Some []"
  shows "undo_declare_blocker b as (declare_blocker b as s) = s"
proof -
  have "foldl (prune_entry b) (foldl (push_entry b) (cs_attacker_blockers s) as) as a
      = cs_attacker_blockers s a" for a
  proof (cases "a \<in> set as")
    case True
    show ?thesis
    proof (cases "cs_attacker_blockers s a")
      case None
      with True show ?thesis by (simp add: prune_entry_lookup push_entry_lookup)
    next
      case (Some bs)
      then have "b \<notin> set bs" "bs \<noteq> []"
        using not_blocking_not_listed [OF assms(1,2)] assms(3) [OF True] by auto
      then have "filter (\<lambda>x. x \<noteq> b) bs = bs" by (intro filter_True) auto
      with True Some \<open>bs \<noteq> []\<close> show ?thesis by (simp add: prune_entry_lookup push_entry_lookup)
    qed
  qed (simp add: prune_entry_lookup push_entry_lookup)
  then have "foldl (prune_entry b) (foldl (push_entry b) (cs_attacker_blockers s) as) as
      = cs_attacker_blockers s"
    by (rule ext)
  then show ?thesis
    using assms(2)
    by (simp add: undo_declare_blocker_def declare_blocker_def is_blocking_def fun_upd_idem)
qed

lemma is_blocked_remove:
  "is_blocked (remove_from_combat c s) a \<longleftrightarrow> a \<noteq> c \<and> (\<exists>b \<in> set (get_blockers s a). b \<noteq> c)"
  by (auto simp: is_blocked_def remove_from_combat_def get_blockers_def filter_empty_conv
      split: option.splits)

lemma removed_not_in_combat:
  "\<not> is_attacking (remove_from_combat c s) c" "\<not> is_blocking (remove_from_combat c s) c"
  "c \<notin> set (get_blockers (remove_from_combat c s) a)"
  by (auto simp: is_attacking_def is_blocking_def get_blockers_def remove_from_combat_def
      split: option.splits)

end
