(* ===== verification/IdStore.thy ===== *)
theory IdStore
  imports Prelude
begin

section \<open>Stores that allocate identifiers\<close>

text \<open>
  The delayed triggers and the persistent effects are kept in vectors whose entries carry an
  identifier the store allocates from a counter. The locale states that interface; its clients'
  facts (identifiers stay unique, what was just added is found, removing it restores the
  vector) follow from the laws once for both providers.
\<close>

locale id_store =
  fixes items :: "'s \<Rightarrow> 'v list"
    and next_id :: "'s \<Rightarrow> u32"
    and key :: "'v \<Rightarrow> u32"
    and with_key :: "u32 \<Rightarrow> 'v \<Rightarrow> 'v"
    and add :: "'v \<Rightarrow> 's \<Rightarrow> 's \<times> u32"
    and remove :: "u32 \<Rightarrow> 's \<Rightarrow> 's \<times> 'v option"
  assumes key_with_key: "key (with_key i v) = i"
    and add_id: "snd (add v s) = next_id s"
    and add_items: "items (fst (add v s)) = items s @ [with_key (next_id s) v]"
    and add_next: "next_id (fst (add v s)) = next_id s + 1"
    and remove_found: "snd (remove i s) = find (\<lambda>v. key v = i) (items s)"
    and remove_items: "items (fst (remove i s)) = (case position_of i (map key (items s)) of
        Some p \<Rightarrow> take p (items s) @ drop (Suc p) (items s) | None \<Rightarrow> items s)"
    and remove_next: "next_id (fst (remove i s)) = next_id s"
begin

definition inv :: "'s \<Rightarrow> bool" where
  "inv s = (distinct (map key (items s)) \<and> (\<forall>v \<in> set (items s). key v < next_id s))"

lemma inv_fresh: "inv s \<Longrightarrow> next_id s \<notin> key ` set (items s)"
  by (auto simp: inv_def)

lemma inv_add: "inv s \<Longrightarrow> next_id s \<noteq> - 1 \<Longrightarrow> inv (fst (add v s))"
proof -
  assume inv: "inv s" and max: "next_id s \<noteq> - 1"
  have less: "next_id s < next_id s + 1"
  proof (rule ccontr)
    assume "\<not> next_id s < next_id s + 1"
    then have "unat (next_id s + 1) \<le> unat (next_id s)"
      by (simp add: word_less_nat_alt)
    moreover have "unat (next_id s) \<noteq> 2 ^ LENGTH(32) - 1"
      using max unat_minus_one_max [where ?'a = 32] by (metis unat_eq_iff_word)
    moreover have "unat (next_id s) < 2 ^ LENGTH(32)" by (rule unsigned_less)
    ultimately show False using unat_plus_fits [of "next_id s" 1] by simp
  qed
  with inv inv_fresh [OF inv] show ?thesis
    by (auto simp: inv_def add_items add_next key_with_key dest: order.strict_trans)
qed

lemma remove_eq_filter:
  assumes "inv s"
  shows "items (fst (remove i s)) = filter (\<lambda>v. key v \<noteq> i) (items s)"
proof -
  have "distinct (map key vs) \<Longrightarrow> (case position_of i (map key vs) of
      Some p \<Rightarrow> take p vs @ drop (Suc p) vs | None \<Rightarrow> vs) = filter (\<lambda>v. key v \<noteq> i) vs" for vs
  proof (induction vs)
    case (Cons v vs)
    show ?case
    proof (cases "key v = i")
      case True
      with Cons.prems have "filter (\<lambda>v. key v \<noteq> i) vs = vs" by (intro filter_True) (force simp: image_iff)
      with True show ?thesis by simp
    next
      case False
      with Cons show ?thesis
        by (cases "position_of i (map key vs)") (simp_all del: position_of_None)
    qed
  qed simp
  with assms show ?thesis by (simp add: remove_items inv_def)
qed

lemma inv_remove: "inv s \<Longrightarrow> inv (fst (remove i s))"
  by (simp add: inv_def remove_eq_filter remove_next distinct_map_filter)

lemma find_added: "inv s \<Longrightarrow> find (\<lambda>v. key v = snd (add w s)) (items (fst (add w s)))
   = Some (with_key (next_id s) w)"
  using inv_fresh [of s]
  by (subst add_items, subst find_append_None) (force simp: find_None_iff add_id key_with_key)+

lemma remove_added:
  assumes "inv s"
  shows "items (fst (remove (snd (add v s)) (fst (add v s)))) = items s"
proof -
  have "position_of (next_id s) (map key (items s) @ [next_id s]) = Some (length (items s))"
    using position_of_append_new [of "next_id s" "map key (items s)"] inv_fresh [OF assms]
    by simp
  then show ?thesis
    by (simp add: remove_items add_items add_id key_with_key)
qed

lemma remove_added_result:
  "inv s \<Longrightarrow> snd (remove (snd (add v s)) (fst (add v s))) = Some (with_key (next_id s) v)"
  by (simp add: remove_found find_added)

end

end
