(* ===== verification/DelayedTriggers.thy ===== *)
theory DelayedTriggers
  imports CardData IdStore
begin

section \<open>Delayed triggers\<close>

text \<open>
  \<open>mtg-engine/src/core/delayed_trigger.rs\<close>: a trigger waiting for an event, the conditions that
  fire it and the store that allocates its identifier. The store keeps the contract
  \<open>id_store\<close>; \<open>undo_add\<close> is its exact inverse of \<open>add\<close>.
\<close>

datatype trigger_phase = TUpkeep | TDraw | TMain1 | TBeginCombat | TEndCombat | TMain2 | TEndStep
  | TCleanup

datatype turn_owner = OwnerYou | OwnerOpponent | OwnerAny

datatype delayed_trigger_condition =
    ZoneChange "zone list" "zone list"
  | PhaseBegin "trigger_phase list" turn_owner
  | LastCounterRemoved counter_type
  | SpellCast "string option" bool

datatype delayed_effect =
    ReturnToBattlefield bool bool
  | DSacrifice
  | SacrificeOther card_id
  | ExileCard
  | DestroyTracked bool
  | CastWithoutPaying
  | ExecuteEffect effect
  | CopySpellAbility bool

datatype delayed_trigger_expiry = ExpEndOfTurn | ExpEndOfNextTurn | ExpSourceLeavesBattlefield
  | ExpNever

record delayed_trigger =
  dt_id :: u32
  dt_tracked_card :: card_id
  dt_source_card :: card_id
  dt_controller :: player_id
  dt_condition :: delayed_trigger_condition
  dt_effect :: delayed_effect
  dt_expiry :: "delayed_trigger_expiry option"
  dt_remembered_amount :: "u32 option"
  dt_repeating :: bool

definition delayed_trigger_new ::
  "u32 \<Rightarrow> card_id \<Rightarrow> card_id \<Rightarrow> player_id \<Rightarrow> delayed_trigger_condition \<Rightarrow> delayed_effect \<Rightarrow> delayed_trigger" where
  "delayed_trigger_new i tracked src ctl cond eff =
     \<lparr>dt_id = i, dt_tracked_card = tracked, dt_source_card = src, dt_controller = ctl,
      dt_condition = cond, dt_effect = eff, dt_expiry = None, dt_remembered_amount = None,
      dt_repeating = False\<rparr>"

definition matches_zone_change :: "delayed_trigger \<Rightarrow> card_id \<Rightarrow> zone \<Rightarrow> zone \<Rightarrow> bool" where
  "matches_zone_change t c from_zone to_zone =
     (if c \<noteq> dt_tracked_card t then False
      else case dt_condition t of
        ZoneChange froms tos \<Rightarrow> (froms = [] \<or> from_zone \<in> set froms) \<and> (tos = [] \<or> to_zone \<in> set tos)
      | _ \<Rightarrow> False)"

definition matches_spell_cast :: "delayed_trigger \<Rightarrow> player_id \<Rightarrow> string list \<Rightarrow> bool" where
  "matches_spell_cast t caster spell_types =
     (case dt_condition t of
        SpellCast valid you_only \<Rightarrow>
          if you_only \<and> caster \<noteq> dt_controller t then False
          else (case valid of Some ty \<Rightarrow> list_ex (\<lambda>s. eq_ignore_ascii_case s ty) spell_types
            | None \<Rightarrow> True)
      | _ \<Rightarrow> False)"

definition matches_phase :: "delayed_trigger \<Rightarrow> trigger_phase \<Rightarrow> player_id \<Rightarrow> bool" where
  "matches_phase t ph active =
     (case dt_condition t of
        PhaseBegin phases whose \<Rightarrow>
          if ph \<notin> set phases then False
          else (case whose of OwnerYou \<Rightarrow> active = dt_controller t
            | OwnerOpponent \<Rightarrow> active \<noteq> dt_controller t
            | OwnerAny \<Rightarrow> True)
      | _ \<Rightarrow> False)"

definition trigger_phase_from_script_name :: "string \<Rightarrow> trigger_phase option" where
  "trigger_phase_from_script_name name = (let n = filter (\<lambda>c. \<not> is_space c) name in
     if n = ''Upkeep'' then Some TUpkeep
     else if n = ''Draw'' then Some TDraw
     else if n = ''Main1'' then Some TMain1
     else if n = ''BeginCombat'' then Some TBeginCombat
     else if n = ''EndCombat'' then Some TEndCombat
     else if n = ''Main2'' then Some TMain2
     else if n \<in> {''End'', ''EndStep'', ''EndofTurn'', ''EndOfTurn''} then Some TEndStep
     else if n = ''Cleanup'' then Some TCleanup
     else None)"

subsection \<open>The store\<close>

record delayed_trigger_store =
  dts_triggers :: "delayed_trigger list"
  dts_next_id :: u32

definition dts_new :: delayed_trigger_store where
  "dts_new = \<lparr>dts_triggers = [], dts_next_id = 1\<rparr>"

definition dts_add :: "delayed_trigger \<Rightarrow> delayed_trigger_store \<Rightarrow> delayed_trigger_store \<times> u32" where
  "dts_add t s = (let i = dts_next_id s in
     (s\<lparr>dts_next_id := i + 1, dts_triggers := dts_triggers s @ [t\<lparr>dt_id := i\<rparr>]\<rparr>, i))"

definition dts_remove :: "u32 \<Rightarrow> delayed_trigger_store \<Rightarrow> delayed_trigger_store \<times> delayed_trigger option" where
  "dts_remove i s = (case position_of i (map dt_id (dts_triggers s)) of
       Some pos \<Rightarrow> (s\<lparr>dts_triggers := take pos (dts_triggers s) @ drop (Suc pos) (dts_triggers s)\<rparr>,
         Some (dts_triggers s ! pos))
     | None \<Rightarrow> (s, None))"

definition dts_undo_add :: "u32 \<Rightarrow> delayed_trigger_store \<Rightarrow> delayed_trigger_store \<times> delayed_trigger option" where
  "dts_undo_add i s = (case dts_remove i s of (s', removed) \<Rightarrow>
     if removed \<noteq> None \<and> i + 1 = dts_next_id s' then (s'\<lparr>dts_next_id := i\<rparr>, removed)
     else (s', removed))"

definition find_zone_change_triggers :: "delayed_trigger_store \<Rightarrow> card_id \<Rightarrow> zone \<Rightarrow> zone \<Rightarrow> u32 list" where
  "find_zone_change_triggers s c a b =
     map dt_id (filter (\<lambda>t. matches_zone_change t c a b) (dts_triggers s))"

definition find_phase_triggers :: "delayed_trigger_store \<Rightarrow> trigger_phase \<Rightarrow> player_id \<Rightarrow> u32 list" where
  "find_phase_triggers s ph p = map dt_id (filter (\<lambda>t. matches_phase t ph p) (dts_triggers s))"

definition get_matching_spellcast_trigger_ids ::
  "delayed_trigger_store \<Rightarrow> player_id \<Rightarrow> string list \<Rightarrow> u32 list" where
  "get_matching_spellcast_trigger_ids s p tys =
     map dt_id (filter (\<lambda>t. matches_spell_cast t p tys) (dts_triggers s))"

definition dts_get :: "u32 \<Rightarrow> delayed_trigger_store \<Rightarrow> delayed_trigger option" where
  "dts_get i s = find (\<lambda>t. dt_id t = i) (dts_triggers s)"

definition dts_cleanup_end_of_turn ::
  "delayed_trigger_store \<Rightarrow> delayed_trigger_store \<times> delayed_trigger list" where
  "dts_cleanup_end_of_turn s =
     (s\<lparr>dts_triggers := filter (\<lambda>t. dt_expiry t \<noteq> Some ExpEndOfTurn) (dts_triggers s)\<rparr>,
      filter (\<lambda>t. dt_expiry t = Some ExpEndOfTurn) (dts_triggers s))"

definition dts_cleanup_source_left ::
  "card_id \<Rightarrow> delayed_trigger_store \<Rightarrow> delayed_trigger_store \<times> delayed_trigger list" where
  "dts_cleanup_source_left src s =
     (let gone = (\<lambda>t. dt_source_card t = src \<and> dt_expiry t = Some ExpSourceLeavesBattlefield) in
      (s\<lparr>dts_triggers := filter (\<lambda>t. \<not> gone t) (dts_triggers s)\<rparr>, filter gone (dts_triggers s)))"

definition dts_restore :: "delayed_trigger \<Rightarrow> delayed_trigger_store \<Rightarrow> delayed_trigger_store" where
  "dts_restore t s = (let s' = (if dts_next_id s \<le> dt_id t then s\<lparr>dts_next_id := dt_id t + 1\<rparr> else s) in
     s'\<lparr>dts_triggers := dts_triggers s' @ [t]\<rparr>)"

subsection \<open>The contract\<close>

lemma position_of_map_find:
  "position_of i (map f xs) = Some p \<Longrightarrow> find (\<lambda>x. f x = i) xs = Some (xs ! p)"
  by (induction xs arbitrary: p) (auto split: if_splits)

lemma position_of_map_find_None:
  "i \<notin> f ` set xs \<Longrightarrow> find (\<lambda>x. f x = i) xs = None"
  by (auto simp: find_None_iff)

interpretation dts: id_store dts_triggers dts_next_id dt_id "\<lambda>i t. t\<lparr>dt_id := i\<rparr>" dts_add dts_remove
proof (unfold_locales, goal_cases)
  case (5 i s)
  show ?case
    by (cases "position_of i (map dt_id (dts_triggers s))")
      (auto simp: dts_remove_def position_of_map_find position_of_map_find_None image_iff
        split: option.split)
next
  case (6 i s)
  show ?case
    by (cases "position_of i (map dt_id (dts_triggers s))")
      (simp_all add: dts_remove_def del: position_of_None)
next
  case (7 i s)
  show ?case by (simp add: dts_remove_def split: option.split)
qed (simp_all add: dts_add_def Let_def)

lemma dts_undo_add_add:
  assumes "dts.inv s"
  shows "dts_undo_add (snd (dts_add t s)) (fst (dts_add t s)) = (s, Some (t\<lparr>dt_id := dts_next_id s\<rparr>))"
proof -
  obtain s' r where rm: "dts_remove (snd (dts_add t s)) (fst (dts_add t s)) = (s', r)"
    by (cases "dts_remove (snd (dts_add t s)) (fst (dts_add t s))")
  have r: "r = Some (t\<lparr>dt_id := dts_next_id s\<rparr>)"
    using dts.remove_added_result [OF assms, of t] rm by simp
  have items: "dts_triggers s' = dts_triggers s"
    using dts.remove_added [OF assms, of t] rm by simp
  have nxt: "dts_next_id s' = dts_next_id s + 1"
    using dts.remove_next [of "snd (dts_add t s)" "fst (dts_add t s)"] dts.add_next [of t s] rm by simp
  have "snd (dts_add t s) = dts_next_id s" by (rule dts.add_id)
  then show ?thesis
    using rm r items nxt by (simp add: dts_undo_add_def)
qed

text \<open>\<open>restore\<close> puts a removed trigger back, but at the end of the vector.\<close>

lemma dts_restore_removed:
  assumes "dts.inv s" "dts_remove i s = (s', Some t)"
  shows "mset (dts_triggers (dts_restore t s')) = mset (dts_triggers s)"
    and "dts_next_id (dts_restore t s') = dts_next_id s"
proof -
  from assms(2) obtain p where p: "position_of i (map dt_id (dts_triggers s)) = Some p"
    and s': "s' = s\<lparr>dts_triggers := take p (dts_triggers s) @ drop (Suc p) (dts_triggers s)\<rparr>"
    and t: "t = dts_triggers s ! p"
    by (auto simp: dts_remove_def split: option.splits)
  have lt: "p < length (dts_triggers s)"
    using position_of_Some_mem [OF p] by simp
  then have "t \<in> set (dts_triggers s)" by (simp add: t)
  with assms(1) have "\<not> dts_next_id s \<le> dt_id t" by (auto simp: dts.inv_def)
  then have rest: "dts_restore t s' = s'\<lparr>dts_triggers := dts_triggers s' @ [t]\<rparr>"
    by (simp add: dts_restore_def s')
  then show "dts_next_id (dts_restore t s') = dts_next_id s" by (simp add: s')
  have rest_items: "dts_triggers (dts_restore t s')
      = take p (dts_triggers s) @ drop (Suc p) (dts_triggers s) @ [t]"
    unfolding rest by (simp add: s')
  have "dts_triggers s = take p (dts_triggers s) @ t # drop (Suc p) (dts_triggers s)"
    using lt by (simp add: t id_take_nth_drop)
  then have "mset (dts_triggers s) = mset (take p (dts_triggers s) @ t # drop (Suc p) (dts_triggers s))"
    by (rule arg_cong)
  then show "mset (dts_triggers (dts_restore t s')) = mset (dts_triggers s)"
    by (simp add: rest_items)
qed

end
