(* ===== verification/GameAction.thy ===== *)
theory GameAction
  imports Choices Player Combat DelayedTriggers
begin

section \<open>Game actions and the undo log\<close>

text \<open>
  The data of \<open>mtg-engine/src/undo.rs\<close>: every reversible action with the values its reversal
  needs, and the log as a vector of actions with the size of the text log before each of them.
  Generator states travel as the bytes they serialize to. The lemmas state what the log operations promise:
  the two vectors stay aligned, popping undoes logging, and the states reconstructed from the log
  are those of the last action on each card.
\<close>

subsection \<open>Actions\<close>

datatype reveal_target = RevealPlayer player_id | RevealAll

datatype (plugins only:) game_action =
    MoveCard card_id zone zone player_id "u32 option"
  | TapCard card_id bool
  | SetChosenColor card_id "color option"
  | SetChosenPlayer card_id "player_id option"
  | SetChosenMode card_id "string option"
  | SetChosenName card_id "string option"
  | SetRememberedName "string option"
  | SetStoredInt card_id "u32 option"
  | ModifyLife player_id i32
  | AddMana player_id mana_cost
  | EmptyManaPool player_id u8 u8 u8 u8 u8 u8
  | AddCounter card_id counter_type u8
  | RemoveCounter card_id counter_type u8
  | AdvanceStep step step
  | ChangeTurn player_id player_id u32 "u8 list option"
  | PumpCreature card_id i32 i32 "keyword list" "keyword_args list"
  | DebuffCreature card_id "keyword list"
  | SetTurnEnteredBattlefield card_id "u32 option" "u32 option"
  | SetLandsPlayedThisTurn player_id u8 u8
  | SetSpellsCastThisTurn player_id u8 u8
  | SetCardsDrawnThisTurn player_id u8 u8
  | ChangeController card_id player_id player_id
  | SetAttachedTo card_id "card_id option" "card_id option"
  | ChoicePoint player_id u32 "replay_choice option"
  | RevealCard card_id "string option" reveal_target u8
  | SetRevealedToMask card_id u8 u8
  | SetLoyaltyActivated card_id bool bool
  | SetCommanderCastCount player_id u8 u8
  | SetCommanderDamage player_id player_id u16 u16
  | ShuffleLibrary player_id "card_id list" "u8 list option"
  | RegisterDelayedTrigger u32
  | FireDelayedTrigger delayed_trigger
  | SetRememberedAmount "u32 option"
  | DeclareAttacker card_id bool
  | DeclareBlocker card_id "card_id list"
  | ClearCombat combat_state
  | SetTempBaseStats card_id "i8 option" "i8 option"
  | AnimateTypeline card_id "card_type list" "string list" "card_type list" "string list"
      "string list" "keyword list" "keyword_args list"
  | MarkDamagedBy card_id card_id
  | MarkDealtDamageToOpponent card_id bool
  | MarkAttackedThisTurn card_id bool
  | CloneCard card_id card_copiable_state
  | PushExtraTurn player_id
  | SetSkipUntapNextTurn player_id bool bool
  | SetCantCastSpells player_id bool
  | CreateEntity card_id
  | SetCardCounters card_id "(counter_type \<times> u8) list"
  | ReorderLibrary player_id "card_id list" "card_id list option"
  | RegenerateReplaceDestroy card_id u8 i32 combat_state
  | SetSourcePreventionShields player_id "damage_prevention_shield list"
  | SetCombatManaPool player_id "mana_pool option"
  | SetManaPool player_id mana_pool
  | SetDamage card_id i32
  | SetXPaid card_id u8
  | SetTimesKicked card_id u8
  | SetBargainPaid card_id bool
  | SetKickerPaid card_id bool
  | SetOffspringPaid card_id bool
  | SetModeCostPaid card_id u8
  | RestoreCardState card_id card_state_snapshot

subsection \<open>The log\<close>

record undo_log =
  ul_actions :: "game_action list"
  ul_enabled :: bool
  ul_choice_points :: "nat list"
  ul_log_sizes :: "nat list"

definition undo_log_new :: undo_log where
  "undo_log_new = \<lparr>ul_actions = [], ul_enabled = True, ul_choice_points = [], ul_log_sizes = []\<rparr>"

definition undo_log_disabled :: undo_log where
  "undo_log_disabled = \<lparr>ul_actions = [], ul_enabled = False, ul_choice_points = [], ul_log_sizes = []\<rparr>"

definition ul_log :: "game_action \<Rightarrow> nat \<Rightarrow> undo_log \<Rightarrow> undo_log" where
  "ul_log a prior_log_size l = (if ul_enabled l
     then l\<lparr>ul_actions := ul_actions l @ [a], ul_log_sizes := ul_log_sizes l @ [prior_log_size]\<rparr>
     else l)"

definition ul_mark_choice_point :: "undo_log \<Rightarrow> undo_log" where
  "ul_mark_choice_point l = (if ul_enabled l
     then l\<lparr>ul_choice_points := ul_choice_points l @ [length (ul_actions l)]\<rparr> else l)"

definition ul_peek :: "undo_log \<Rightarrow> game_action option" where
  "ul_peek l = (if ul_actions l = [] then None else Some (last (ul_actions l)))"

text \<open>\<open>log_sizes.pop().unwrap_or(0)\<close> keeps the second vector as it is when it is already empty.\<close>

definition ul_pop :: "undo_log \<Rightarrow> undo_log \<times> (game_action \<times> nat) option" where
  "ul_pop l = (if ul_actions l = [] then (l, None)
     else (l\<lparr>ul_actions := butlast (ul_actions l), ul_log_sizes := butlast (ul_log_sizes l)\<rparr>,
           Some (last (ul_actions l), if ul_log_sizes l = [] then 0 else last (ul_log_sizes l))))"

definition ul_len :: "undo_log \<Rightarrow> nat" where
  "ul_len l = length (ul_actions l)"

definition reconstruct_tapped_states :: "undo_log \<Rightarrow> (card_id \<rightharpoonup> bool)" where
  "reconstruct_tapped_states l = foldl (\<lambda>m a. case a of TapCard c t \<Rightarrow> m(c \<mapsto> t) | _ \<Rightarrow> m)
     Map.empty (ul_actions l)"

definition reconstruct_controller_states :: "undo_log \<Rightarrow> (card_id \<rightharpoonup> player_id)" where
  "reconstruct_controller_states l =
     foldl (\<lambda>m a. case a of ChangeController c _ p \<Rightarrow> m(c \<mapsto> p) | _ \<Rightarrow> m)
       Map.empty (ul_actions l)"

definition ul_is_empty :: "undo_log \<Rightarrow> bool" where
  "ul_is_empty l = (ul_actions l = [])"

definition ul_rewind_to_choice_point :: "undo_log \<Rightarrow> undo_log" where
  "ul_rewind_to_choice_point l = (if ul_choice_points l = [] then l
     else (let checkpoint = last (ul_choice_points l) in
       l\<lparr>ul_choice_points := butlast (ul_choice_points l),
         ul_actions := take checkpoint (ul_actions l),
         ul_log_sizes := take checkpoint (ul_log_sizes l)\<rparr>))"

fun turn_of :: "game_action \<Rightarrow> u32 option" where
  "turn_of a = (case a of ChangeTurn _ _ n _ \<Rightarrow> Some n | _ \<Rightarrow> None)"

definition ul_current_turn :: "undo_log \<Rightarrow> u32 option" where
  "ul_current_turn l = find_map turn_of (rev (ul_actions l))"

definition ul_clear :: "undo_log \<Rightarrow> undo_log" where
  "ul_clear l = l\<lparr>ul_actions := [], ul_choice_points := [], ul_log_sizes := []\<rparr>"

subsection \<open>What the log promises\<close>

text \<open>The two vectors have the same length: sizes are never attributed to the wrong action.\<close>

definition ul_aligned :: "undo_log \<Rightarrow> bool" where
  "ul_aligned l \<longleftrightarrow> length (ul_log_sizes l) = length (ul_actions l)"

lemma ul_aligned_ops:
  "ul_aligned undo_log_new" "ul_aligned undo_log_disabled"
  "ul_aligned l \<Longrightarrow> ul_aligned (ul_log a n l)"
  "ul_aligned l \<Longrightarrow> ul_aligned (ul_mark_choice_point l)"
  "ul_aligned l \<Longrightarrow> ul_aligned (fst (ul_pop l))"
  "ul_aligned l \<Longrightarrow> ul_aligned (ul_rewind_to_choice_point l)"
  "ul_aligned (ul_clear l)"
  by (simp_all add: ul_aligned_def undo_log_new_def undo_log_disabled_def ul_log_def
      ul_mark_choice_point_def ul_pop_def ul_rewind_to_choice_point_def ul_clear_def Let_def)

lemma ul_pop_log: "ul_enabled l \<Longrightarrow> ul_pop (ul_log a n l) = (l, Some (a, n))"
  by (simp add: ul_pop_def ul_log_def)

lemma ul_pop_Some:
  assumes "ul_pop l = (l', Some (a, n))"
  shows "ul_actions l = ul_actions l' @ [a]" "ul_enabled l' = ul_enabled l"
    "ul_choice_points l' = ul_choice_points l"
  using assms by (auto simp: ul_pop_def split: if_splits)

lemma ul_log_fields [simp]:
  "ul_enabled (ul_log a n l) = ul_enabled l" "ul_choice_points (ul_log a n l) = ul_choice_points l"
  by (simp_all add: ul_log_def)

text \<open>Actions logged since a mark are forgotten by the rewind to that mark, and nothing else is.\<close>

lemma ul_rewind_mark:
  assumes "ul_enabled l" "ul_aligned l"
  shows "ul_rewind_to_choice_point (foldl (\<lambda>l (a, n). ul_log a n l) (ul_mark_choice_point l) as) = l"
proof -
  define m where "m = ul_mark_choice_point l"
  have "foldl (\<lambda>l (a, n). ul_log a n l) m as
      = m\<lparr>ul_actions := ul_actions m @ map fst as, ul_log_sizes := ul_log_sizes m @ map snd as\<rparr>"
    if "ul_enabled m" for m
    using that by (induction as arbitrary: m) (auto simp: ul_log_def split: prod.splits)
  then show ?thesis
    using assms by (simp add: m_def ul_mark_choice_point_def ul_rewind_to_choice_point_def
        ul_aligned_def Let_def)
qed

text \<open>Replaying a log forward leaves, for each card, the state its last action set.\<close>

lemma foldl_updates_last:
  assumes "\<And>m a. step m a = (case sel a of Some (k, v) \<Rightarrow> m(k \<mapsto> v) | None \<Rightarrow> m)"
  shows "foldl step m as k =
    (case find_map (\<lambda>a. case sel a of Some (k', v) \<Rightarrow> if k' = k then Some v else None | None \<Rightarrow> None)
        (rev as) of Some v \<Rightarrow> Some v | None \<Rightarrow> m k)"
  by (induction as rule: rev_induct) (auto simp: assms split: option.splits)

fun tap_of :: "card_id \<Rightarrow> game_action \<Rightarrow> bool option" where
  "tap_of c a = (case a of TapCard c' t \<Rightarrow> if c' = c then Some t else None | _ \<Rightarrow> None)"

fun control_of :: "card_id \<Rightarrow> game_action \<Rightarrow> player_id option" where
  "control_of c a =
     (case a of ChangeController c' _ p \<Rightarrow> if c' = c then Some p else None | _ \<Rightarrow> None)"

lemma reconstruct_tapped_last:
  "reconstruct_tapped_states l c = find_map (tap_of c) (rev (ul_actions l))"
proof -
  let ?sel = "\<lambda>a. case a of TapCard c t \<Rightarrow> Some (c, t) | _ \<Rightarrow> None"
  have "tap_of c = (\<lambda>a. case ?sel a of Some (k, v) \<Rightarrow> if k = c then Some v else None | None \<Rightarrow> None)"
    by (rule ext) (simp split: game_action.split)
  then show ?thesis
    unfolding reconstruct_tapped_states_def
    by (subst foldl_updates_last [where sel = ?sel]) (auto split: game_action.split option.split)
qed

lemma reconstruct_controller_last:
  "reconstruct_controller_states l c = find_map (control_of c) (rev (ul_actions l))"
proof -
  let ?sel = "\<lambda>a. case a of ChangeController c _ p \<Rightarrow> Some (c, p) | _ \<Rightarrow> None"
  have "control_of c = (\<lambda>a. case ?sel a of Some (k, v) \<Rightarrow> if k = c then Some v else None | None \<Rightarrow> None)"
    by (rule ext) (simp split: game_action.split)
  then show ?thesis
    unfolding reconstruct_controller_states_def
    by (subst foldl_updates_last [where sel = ?sel]) (auto split: game_action.split option.split)
qed

end
