(* ===== verification/Targeting.thy ===== *)
theory Targeting
  imports Card
begin

section \<open>Which cards pass a restriction\<close>

text \<open>
  \<open>TargetType::matches\<close>, \<open>DigFilter::matches\<close> and the \<open>matches\<close> methods of \<open>TargetRestriction\<close>
  (\<open>mtg-engine/src/core/effects.rs\<close>). The lemmas characterise what a restriction that counts as
  unrestricted still excludes, and the lists of plain card types.
\<close>

fun type_matches :: "target_type \<Rightarrow> card \<Rightarrow> bool" where
  "type_matches TgtAny k = True"
| "type_matches TgtArtifact k = is_artifact k"
| "type_matches TgtEnchantment k = is_enchantment k"
| "type_matches TgtCreature k = is_creature k"
| "type_matches TgtLand k = is_land k"
| "type_matches TgtPlaneswalker k = is_planeswalker k"

fun dig_filter_matches :: "dig_filter \<Rightarrow> card \<Rightarrow> bool" where
  "dig_filter_matches DigCard k = True"
| "dig_filter_matches DigCreature k = is_creature k"
| "dig_filter_matches DigLand k = is_land k"
| "dig_filter_matches DigArtifact k = is_artifact k"
| "dig_filter_matches DigEnchantment k = is_enchantment k"
| "dig_filter_matches DigInstant k = is_instant k"
| "dig_filter_matches DigSorcery k = is_sorcery k"
| "dig_filter_matches DigPlaneswalker k = is_planeswalker k"
| "dig_filter_matches DigPermanent k = (\<not> is_instant k \<and> \<not> is_sorcery k)"

definition is_from_set :: "card \<Rightarrow> string \<Rightarrow> bool" where
  "is_from_set k s = (cd_origin_set (c_definition k) = Some s)"

text \<open>One field after the other; \<open>if let Some(x) = field { if ... { return false } }\<close> is \<open>option_ok\<close>.\<close>

definition option_ok :: "('a \<Rightarrow> bool) \<Rightarrow> 'a option \<Rightarrow> bool" where
  "option_ok P x = (case x of None \<Rightarrow> True | Some v \<Rightarrow> P v)"

definition restriction_matches :: "target_restriction \<Rightarrow> card \<Rightarrow> bool" where
  "restriction_matches r k = (
     \<not> tr_requires_remembered r \<and> \<not> tr_requires_named_card r
     \<and> \<not> (tr_requires_nontoken r \<and> c_is_token k)
     \<and> \<not> (tr_requires_nonartifact r \<and> is_artifact k)
     \<and> \<not> (tr_requires_noncreature r \<and> is_creature k)
     \<and> option_ok (is_color k) (tr_required_color r)
     \<and> option_ok (is_from_set k) (tr_required_set r)
     \<and> \<not> (tr_requires_no_counters r \<and> has_counters k)
     \<and> option_ok (\<lambda>n. sint n \<le> sint (current_power k)) (tr_power_ge r)
     \<and> option_ok (\<lambda>n. sint (current_power k) \<le> sint n) (tr_power_le r)
     \<and> option_ok (\<lambda>s. list_ex (\<lambda>w. trim w \<in> set (c_subtypes k)) (split_on (CHR '','') s)) (tr_required_subtype r)
     \<and> option_ok (\<lambda>n. n \<le> cmc (c_mana_cost k)) (tr_min_cmc r)
     \<and> option_ok (\<lambda>n. cmc (c_mana_cost k) \<le> n) (tr_max_cmc r)
     \<and> option_ok (\<lambda>n. cmc (c_mana_cost k) = n) (tr_exact_cmc r)
     \<and> (tr_requires_defender r \<longrightarrow> has_keyword k ''Defender'')
     \<and> (tr_types r = [] \<or> list_ex (\<lambda>t. type_matches t k) (tr_types r)))"

definition matches_excluding :: "target_restriction \<Rightarrow> card \<Rightarrow> card_id \<Rightarrow> bool" where
  "matches_excluding r k src = (\<not> (tr_requires_other r \<and> c_id k = src) \<and> restriction_matches r k)"

definition matches_with_remembered :: "target_restriction \<Rightarrow> card \<Rightarrow> card_id list \<Rightarrow> bool" where
  "matches_with_remembered r k remembered =
     (\<not> (tr_requires_not_remembered r \<and> c_id k \<in> set remembered) \<and> restriction_matches r k)"

definition matches_with_controller :: "target_restriction \<Rightarrow> card \<Rightarrow> player_id \<Rightarrow> player_id \<Rightarrow> bool" where
  "matches_with_controller r k spell_controller target_controller =
     (restriction_matches r k \<and> (case tr_controller r of
         AnyCtrl \<Rightarrow> True
       | YouCtrl \<Rightarrow> target_controller = spell_controller
       | OppCtrl \<Rightarrow> target_controller \<noteq> spell_controller
       | ActivePlayerCtrl \<Rightarrow> target_controller = spell_controller))"

definition matches_with_name :: "target_restriction \<Rightarrow> card \<Rightarrow> string \<Rightarrow> bool" where
  "matches_with_name r k n =
     (if tr_requires_named_card r
      then c_name k = n \<and> restriction_matches (r\<lparr>tr_requires_named_card := False\<rparr>) k
      else restriction_matches r k)"

definition matches_with_source_power :: "target_restriction \<Rightarrow> card \<Rightarrow> i32 \<Rightarrow> bool" where
  "matches_with_source_power r k source_power =
     (restriction_matches r k \<and> \<not> (tr_power_le_source r \<and> sint source_power < sint (current_power k)))"

subsection \<open>What the restrictions mean\<close>

lemma option_ok_simps [simp]: "option_ok P None" "option_ok P (Some x) = P x"
  by (simp_all add: option_ok_def)

lemma from_types_matches:
  "restriction_matches (from_types ts) k \<longleftrightarrow> ts = [] \<or> (\<exists>t \<in> set ts. type_matches t k)"
  by (simp add: restriction_matches_def from_types_def list_ex_iff)

text \<open>A restriction that counts as unrestricted still tests the fields \<open>is_unrestricted\<close> leaves out.\<close>

lemma unrestricted_matches:
  assumes "is_unrestricted r"
  shows "restriction_matches r k \<longleftrightarrow>
    \<not> (tr_requires_noncreature r \<and> is_creature k)
    \<and> option_ok (\<lambda>s. list_ex (\<lambda>w. trim w \<in> set (c_subtypes k)) (split_on (CHR '','') s)) (tr_required_subtype r)
    \<and> (tr_requires_defender r \<longrightarrow> has_keyword k ''Defender'')"
  using assms by (auto simp: is_unrestricted_def restriction_matches_def)

end
