(* ===== verification/PersistentEffects.thy ===== *)
theory PersistentEffects
  imports Targeting IdStore
begin

section \<open>Persistent effects\<close>

text \<open>
  \<open>mtg-engine/src/core/persistent_effect.rs\<close>: effects that outlast the resolution that created
  them, the conditions under which they are cleaned up and their store, a second provider of
  the contract \<open>id_store\<close>.
\<close>

datatype persistent_effect_kind =
    MayPlayFromExile card_id mana_cost player_id
  | Imprint card_id
  | Suspend card_id u8
  | CantBeBlocked card_id
  | MayPlayOneWithoutManaCost "card_id list" player_id
  | MayPlayFromGraveyard player_id "i32 option" "i32 option" bool bool
  | CastTargetedSpellFromGraveyard card_id player_id bool
  | ExtraLandPlay player_id u8
  | GrantCastWithFlash player_id target_restriction

datatype cleanup_condition =
    TrackedCardLeavesZone card_id zone
  | SourceLeavesBattlefield card_id
  | TrackedCardIsCast card_id
  | EndOfTurn
  | Never
  | AnyOf "cleanup_condition list"

record persistent_effect =
  pe_id :: u32
  pe_source_card :: card_id
  pe_controller :: player_id
  pe_kind :: persistent_effect_kind
  pe_cleanup :: cleanup_condition

record persistent_effect_store =
  pes_effects :: "persistent_effect list"
  pes_next_id :: u32

definition pes_new :: persistent_effect_store where
  "pes_new = \<lparr>pes_effects = [], pes_next_id = 0\<rparr>"

definition pes_add :: "persistent_effect_kind \<Rightarrow> card_id \<Rightarrow> player_id \<Rightarrow> cleanup_condition
    \<Rightarrow> persistent_effect_store \<Rightarrow> persistent_effect_store \<times> u32" where
  "pes_add k src ctl cond s = (let i = pes_next_id s in
     (s\<lparr>pes_next_id := i + 1, pes_effects := pes_effects s @
        [\<lparr>pe_id = i, pe_source_card = src, pe_controller = ctl, pe_kind = k, pe_cleanup = cond\<rparr>]\<rparr>, i))"

definition pes_remove :: "u32 \<Rightarrow> persistent_effect_store \<Rightarrow> persistent_effect_store \<times> persistent_effect option" where
  "pes_remove i s = (case position_of i (map pe_id (pes_effects s)) of
       Some pos \<Rightarrow> (s\<lparr>pes_effects := take pos (pes_effects s) @ drop (Suc pos) (pes_effects s)\<rparr>,
         Some (pes_effects s ! pos))
     | None \<Rightarrow> (s, None))"

definition pes_get :: "u32 \<Rightarrow> persistent_effect_store \<Rightarrow> persistent_effect option" where
  "pes_get i s = find (\<lambda>e. pe_id e = i) (pes_effects s)"

definition find_may_play_from_exile :: "persistent_effect_store \<Rightarrow> card_id \<Rightarrow> persistent_effect list" where
  "find_may_play_from_exile s c = filter (\<lambda>e. case pe_kind e of
     MayPlayFromExile tracked _ _ \<Rightarrow> tracked = c | _ \<Rightarrow> False) (pes_effects s)"

definition is_creature_unblockable :: "persistent_effect_store \<Rightarrow> card_id \<Rightarrow> bool" where
  "is_creature_unblockable s c = list_ex (\<lambda>e. pe_kind e = CantBeBlocked c) (pes_effects s)"

definition find_may_play_from_graveyard :: "persistent_effect_store \<Rightarrow> player_id \<Rightarrow> persistent_effect list" where
  "find_may_play_from_graveyard s p = filter (\<lambda>e. case pe_kind e of
     MayPlayFromGraveyard ow _ _ _ _ \<Rightarrow> ow = p | _ \<Rightarrow> False) (pes_effects s)"

definition find_may_play_without_cost ::
  "persistent_effect_store \<Rightarrow> card_id \<Rightarrow> (u32 \<times> player_id) option" where
  "find_may_play_without_cost s c = find_map (\<lambda>e. case pe_kind e of
     MayPlayOneWithoutManaCost tracked b \<Rightarrow> if c \<in> set tracked then Some (pe_id e, b) else None
   | _ \<Rightarrow> None) (pes_effects s)"

definition can_play_without_mana_cost :: "persistent_effect_store \<Rightarrow> card_id \<Rightarrow> player_id \<Rightarrow> bool" where
  "can_play_without_mana_cost s c p = list_ex (\<lambda>e. case pe_kind e of
     MayPlayOneWithoutManaCost tracked b \<Rightarrow> c \<in> set tracked \<and> b = p | _ \<Rightarrow> False) (pes_effects s)"

fun should_cleanup_on_zone_change :: "cleanup_condition \<Rightarrow> card_id \<Rightarrow> zone \<Rightarrow> bool" where
  "should_cleanup_on_zone_change (TrackedCardLeavesZone k z) c from_zone = (k = c \<and> z = from_zone)"
| "should_cleanup_on_zone_change (SourceLeavesBattlefield src) c from_zone =
     (src = c \<and> from_zone = Battlefield)"
| "should_cleanup_on_zone_change (AnyOf cs) c from_zone =
     list_ex (\<lambda>k. should_cleanup_on_zone_change k c from_zone) cs"
| "should_cleanup_on_zone_change _ c from_zone = False"

fun should_cleanup_on_cast :: "cleanup_condition \<Rightarrow> card_id \<Rightarrow> bool" where
  "should_cleanup_on_cast (TrackedCardIsCast k) c = (k = c)"
| "should_cleanup_on_cast (AnyOf cs) c = list_ex (\<lambda>k. should_cleanup_on_cast k c) cs"
| "should_cleanup_on_cast _ c = False"

fun should_cleanup_at_eot :: "cleanup_condition \<Rightarrow> bool" where
  "should_cleanup_at_eot EndOfTurn = True"
| "should_cleanup_at_eot (AnyOf cs) = list_ex should_cleanup_at_eot cs"
| "should_cleanup_at_eot _ = False"

definition find_effects_to_cleanup_on_zone_change ::
  "persistent_effect_store \<Rightarrow> card_id \<Rightarrow> zone \<Rightarrow> u32 list" where
  "find_effects_to_cleanup_on_zone_change s c z =
     map pe_id (filter (\<lambda>e. should_cleanup_on_zone_change (pe_cleanup e) c z) (pes_effects s))"

definition find_effects_to_cleanup_on_cast :: "persistent_effect_store \<Rightarrow> card_id \<Rightarrow> u32 list" where
  "find_effects_to_cleanup_on_cast s c =
     map pe_id (filter (\<lambda>e. should_cleanup_on_cast (pe_cleanup e) c) (pes_effects s))"

definition find_effects_to_cleanup_at_eot :: "persistent_effect_store \<Rightarrow> u32 list" where
  "find_effects_to_cleanup_at_eot s =
     map pe_id (filter (\<lambda>e. should_cleanup_at_eot (pe_cleanup e)) (pes_effects s))"

fun pes_remove_many ::
  "u32 list \<Rightarrow> persistent_effect_store \<Rightarrow> persistent_effect_store \<times> persistent_effect list" where
  "pes_remove_many [] s = (s, [])"
| "pes_remove_many (i # is) s = (case pes_remove i s of
     (s', Some e) \<Rightarrow> (case pes_remove_many is s' of (s'', es) \<Rightarrow> (s'', e # es))
   | (s', None) \<Rightarrow> pes_remove_many is s')"

definition player_has_grant_cast_with_flash ::
  "persistent_effect_store \<Rightarrow> player_id \<Rightarrow> card \<Rightarrow> bool" where
  "player_has_grant_cast_with_flash s p k = list_ex (\<lambda>e. case pe_kind e of
     GrantCastWithFlash q r \<Rightarrow> q = p \<and> restriction_matches r k | _ \<Rightarrow> False) (pes_effects s)"

definition extra_land_plays_for_player :: "persistent_effect_store \<Rightarrow> player_id \<Rightarrow> u8" where
  "extra_land_plays_for_player s p = foldl sat_add 0 (List.map_filter (\<lambda>e. case pe_kind e of
     ExtraLandPlay q n \<Rightarrow> if q = p then Some n else None | _ \<Rightarrow> None) (pes_effects s))"

subsection \<open>The contract\<close>

text \<open>The arguments of \<open>add\<close> as an effect whose identifier the store fills in.\<close>

definition pes_add_effect ::
  "persistent_effect \<Rightarrow> persistent_effect_store \<Rightarrow> persistent_effect_store \<times> u32" where
  "pes_add_effect e = pes_add (pe_kind e) (pe_source_card e) (pe_controller e) (pe_cleanup e)"

lemma pe_position_find:
  "snd (pes_remove i s) = find (\<lambda>e. pe_id e = i) (pes_effects s)"
proof -
  have some: "position_of i (map pe_id es) = Some p \<Longrightarrow> find (\<lambda>e. pe_id e = i) es = Some (es ! p)" for es p
    by (induction es arbitrary: p) (auto split: if_splits)
  have none: "i \<notin> pe_id ` set es \<Longrightarrow> find (\<lambda>e. pe_id e = i) es = None" for es
    by (auto simp: find_None_iff)
  show ?thesis
    by (cases "position_of i (map pe_id (pes_effects s))")
      (auto simp: pes_remove_def some none split: option.split)
qed

interpretation pes: id_store pes_effects pes_next_id pe_id "\<lambda>i e. e\<lparr>pe_id := i\<rparr>" pes_add_effect pes_remove
proof (unfold_locales, goal_cases)
  case (5 i s)
  show ?case by (rule pe_position_find)
next
  case (6 i s)
  show ?case
    by (cases "position_of i (map pe_id (pes_effects s))")
      (simp_all add: pes_remove_def del: position_of_None)
next
  case (7 i s)
  show ?case by (simp add: pes_remove_def split: option.split)
qed (simp_all add: pes_add_effect_def pes_add_def Let_def)

text \<open>Cleaning up removes exactly the effects whose condition holds, in any order of removal.\<close>

lemma pes_remove_many_items:
  assumes "pes.inv s"
  shows "pes_effects (fst (pes_remove_many is s)) = filter (\<lambda>e. pe_id e \<notin> set is) (pes_effects s)
    \<and> pes.inv (fst (pes_remove_many is s))"
  using assms
proof (induction "is" arbitrary: s)
  case (Cons i js)
  obtain s' r where rm: "pes_remove i s = (s', r)" by (cases "pes_remove i s")
  have items: "pes_effects s' = filter (\<lambda>e. pe_id e \<noteq> i) (pes_effects s)"
    using pes.remove_eq_filter [OF Cons.prems, of i] rm by simp
  have inv: "pes.inv s'" using pes.inv_remove [OF Cons.prems, of i] rm by simp
  have "fst (pes_remove_many (i # js) s) = fst (pes_remove_many js s')"
    by (simp add: rm split: option.split prod.split)
  with Cons.IH [OF inv] show ?case
    by (auto simp: items intro: filter_cong)
qed simp

lemma cleanup_eot_exact:
  assumes "pes.inv s"
  shows "pes_effects (fst (pes_remove_many (find_effects_to_cleanup_at_eot s) s))
    = filter (\<lambda>e. \<not> should_cleanup_at_eot (pe_cleanup e)) (pes_effects s)"
proof -
  have "pe_id e \<in> set (find_effects_to_cleanup_at_eot s) \<longleftrightarrow> should_cleanup_at_eot (pe_cleanup e)"
    if "e \<in> set (pes_effects s)" for e
    using that assms by (auto simp: find_effects_to_cleanup_at_eot_def pes.inv_def dest: inj_onD
        simp: distinct_map)
  then show ?thesis
    by (simp add: pes_remove_many_items [OF assms] cong: filter_cong)
qed

lemma cleanup_zone_exact:
  assumes "pes.inv s"
  shows "pes_effects (fst (pes_remove_many (find_effects_to_cleanup_on_zone_change s c z) s))
    = filter (\<lambda>e. \<not> should_cleanup_on_zone_change (pe_cleanup e) c z) (pes_effects s)"
proof -
  have "pe_id e \<in> set (find_effects_to_cleanup_on_zone_change s c z)
      \<longleftrightarrow> should_cleanup_on_zone_change (pe_cleanup e) c z"
    if "e \<in> set (pes_effects s)" for e
    using that assms by (auto simp: find_effects_to_cleanup_on_zone_change_def pes.inv_def
        dest: inj_onD simp: distinct_map)
  then show ?thesis
    by (simp add: pes_remove_many_items [OF assms] cong: filter_cong)
qed

end
