(* ===== verification/ManaCache.thy ===== *)
theory ManaCache
  imports Card
begin

section \<open>The incremental mana source cache\<close>

text \<open>
  \<open>mtg-engine/src/game/mana_source_cache.rs\<close>: per player, the mana sources on the battlefield by
  kind and the mana the untapped simple sources offer, kept up to date by the four events and
  rebuilt from the battlefield after an undo. The specification of a cache is a list of
  identifiers with their cards in battlefield order; each event is shown to implement the
  corresponding change of that list, so the incremental cache equals the rebuilt one.
\<close>

record mana_source_cache =
  msx_player_id :: player_id
  msx_white_sources :: "card_id list"
  msx_blue_sources :: "card_id list"
  msx_black_sources :: "card_id list"
  msx_red_sources :: "card_id list"
  msx_green_sources :: "card_id list"
  msx_colorless_sources :: "card_id list"
  msx_complex_sources :: "card_id list"
  msx_untapped_white :: u32
  msx_untapped_blue :: u32
  msx_untapped_black :: u32
  msx_untapped_red :: u32
  msx_untapped_green :: u32
  msx_untapped_colorless :: u32
  msx_needs_rebuild :: bool

text \<open>The six lists of simple sources with their counts; the functions below are the field accesses.\<close>

datatype slot = SlotColor mana_color | SlotColorless

definition all_slots :: "slot list" where
  "all_slots = [SlotColor MWhite, SlotColor MBlue, SlotColor MBlack, SlotColor MRed,
     SlotColor MGreen, SlotColorless]"

fun slot_sources :: "slot \<Rightarrow> mana_source_cache \<Rightarrow> card_id list" where
  "slot_sources (SlotColor MWhite) m = msx_white_sources m"
| "slot_sources (SlotColor MBlue) m = msx_blue_sources m"
| "slot_sources (SlotColor MBlack) m = msx_black_sources m"
| "slot_sources (SlotColor MRed) m = msx_red_sources m"
| "slot_sources (SlotColor MGreen) m = msx_green_sources m"
| "slot_sources SlotColorless m = msx_colorless_sources m"

fun slot_untapped :: "slot \<Rightarrow> mana_source_cache \<Rightarrow> u32" where
  "slot_untapped (SlotColor MWhite) m = msx_untapped_white m"
| "slot_untapped (SlotColor MBlue) m = msx_untapped_blue m"
| "slot_untapped (SlotColor MBlack) m = msx_untapped_black m"
| "slot_untapped (SlotColor MRed) m = msx_untapped_red m"
| "slot_untapped (SlotColor MGreen) m = msx_untapped_green m"
| "slot_untapped SlotColorless m = msx_untapped_colorless m"

fun map_sources :: "slot \<Rightarrow> (card_id list \<Rightarrow> card_id list) \<Rightarrow> mana_source_cache \<Rightarrow> mana_source_cache" where
  "map_sources (SlotColor MWhite) f m = m\<lparr>msx_white_sources := f (msx_white_sources m)\<rparr>"
| "map_sources (SlotColor MBlue) f m = m\<lparr>msx_blue_sources := f (msx_blue_sources m)\<rparr>"
| "map_sources (SlotColor MBlack) f m = m\<lparr>msx_black_sources := f (msx_black_sources m)\<rparr>"
| "map_sources (SlotColor MRed) f m = m\<lparr>msx_red_sources := f (msx_red_sources m)\<rparr>"
| "map_sources (SlotColor MGreen) f m = m\<lparr>msx_green_sources := f (msx_green_sources m)\<rparr>"
| "map_sources SlotColorless f m = m\<lparr>msx_colorless_sources := f (msx_colorless_sources m)\<rparr>"

fun map_untapped :: "slot \<Rightarrow> (u32 \<Rightarrow> u32) \<Rightarrow> mana_source_cache \<Rightarrow> mana_source_cache" where
  "map_untapped (SlotColor MWhite) f m = m\<lparr>msx_untapped_white := f (msx_untapped_white m)\<rparr>"
| "map_untapped (SlotColor MBlue) f m = m\<lparr>msx_untapped_blue := f (msx_untapped_blue m)\<rparr>"
| "map_untapped (SlotColor MBlack) f m = m\<lparr>msx_untapped_black := f (msx_untapped_black m)\<rparr>"
| "map_untapped (SlotColor MRed) f m = m\<lparr>msx_untapped_red := f (msx_untapped_red m)\<rparr>"
| "map_untapped (SlotColor MGreen) f m = m\<lparr>msx_untapped_green := f (msx_untapped_green m)\<rparr>"
| "map_untapped SlotColorless f m = m\<lparr>msx_untapped_colorless := f (msx_untapped_colorless m)\<rparr>"

subsection \<open>The operations\<close>

definition msx_new :: "player_id \<Rightarrow> mana_source_cache" where
  "msx_new p = \<lparr>msx_player_id = p, msx_white_sources = [], msx_blue_sources = [],
     msx_black_sources = [], msx_red_sources = [], msx_green_sources = [],
     msx_colorless_sources = [], msx_complex_sources = [], msx_untapped_white = 0,
     msx_untapped_blue = 0, msx_untapped_black = 0, msx_untapped_red = 0, msx_untapped_green = 0,
     msx_untapped_colorless = 0, msx_needs_rebuild = False\<rparr>"

definition mark_dirty :: "mana_source_cache \<Rightarrow> mana_source_cache" where
  "mark_dirty m = m\<lparr>msx_needs_rebuild := True\<rparr>"

definition msx_is_empty :: "mana_source_cache \<Rightarrow> bool" where
  "msx_is_empty m = (msx_white_sources m = [] \<and> msx_blue_sources m = [] \<and> msx_black_sources m = []
     \<and> msx_red_sources m = [] \<and> msx_green_sources m = [] \<and> msx_colorless_sources m = []
     \<and> msx_complex_sources m = [])"

definition push_complex :: "card_id \<Rightarrow> mana_source_cache \<Rightarrow> mana_source_cache" where
  "push_complex c m = m\<lparr>msx_complex_sources := msx_complex_sources m @ [c]\<rparr>"

definition source_amount :: "card \<Rightarrow> u32" where
  "source_amount k = ucast (max (mpr_amount (cc_mana_production (card_cache k))) 1)"

definition push_simple :: "slot \<Rightarrow> card_id \<Rightarrow> card \<Rightarrow> mana_source_cache \<Rightarrow> mana_source_cache" where
  "push_simple sl c k m = (let m' = map_sources sl (\<lambda>xs. xs @ [c]) m in
     if \<not> c_tapped k then map_untapped sl (\<lambda>u. u + source_amount k) m' else m')"

definition on_card_entered :: "card_id \<Rightarrow> card \<Rightarrow> mana_source_cache \<Rightarrow> mana_source_cache" where
  "on_card_entered c k m =
     (if c_owner k \<noteq> msx_player_id m then m
      else if \<not> cc_is_mana_source (card_cache k) then m
      else if is_creature k then push_complex c m
      else if c_chosen_color k \<noteq> None then push_complex c m
      else case mpr_kind (cc_mana_production (card_cache k)) of
        Fixed col \<Rightarrow> push_simple (SlotColor col) c k m
      | KColorless \<Rightarrow> push_simple SlotColorless c k m
      | Choice _ \<Rightarrow> push_complex c m
      | AnyColor \<Rightarrow> push_complex c m)"

definition leave_slot :: "card_id \<Rightarrow> card \<Rightarrow> mana_source_cache \<Rightarrow> slot \<Rightarrow> mana_source_cache" where
  "leave_slot c k m sl =
     (if c \<in> set (slot_sources sl m)
      then (let m' = map_sources sl (remove1 c) m in
        if \<not> c_tapped k then map_untapped sl (\<lambda>u. sat_sub u (source_amount k)) m' else m')
      else m)"

definition on_card_left :: "card_id \<Rightarrow> card \<Rightarrow> mana_source_cache \<Rightarrow> mana_source_cache" where
  "on_card_left c k m =
     (if c_owner k \<noteq> msx_player_id m then m
      else if \<not> cc_is_mana_source (card_cache k) then m
      else let m' = foldl (leave_slot c k) m all_slots in
        m'\<lparr>msx_complex_sources := remove1 c (msx_complex_sources m')\<rparr>)"

text \<open>The \<open>else if\<close> chain of the two tap events: the first list that contains the card.\<close>

definition first_slot :: "card_id \<Rightarrow> mana_source_cache \<Rightarrow> slot option" where
  "first_slot c m = find (\<lambda>sl. c \<in> set (slot_sources sl m)) all_slots"

definition on_tap :: "card_id \<Rightarrow> card \<Rightarrow> mana_source_cache \<Rightarrow> mana_source_cache" where
  "on_tap c k m =
     (if c_owner k \<noteq> msx_player_id m then m
      else if \<not> cc_is_mana_source (card_cache k) then m
      else case first_slot c m of
        Some sl \<Rightarrow> map_untapped sl (\<lambda>u. sat_sub u (source_amount k)) m
      | None \<Rightarrow> m)"

definition on_untap :: "card_id \<Rightarrow> card \<Rightarrow> mana_source_cache \<Rightarrow> mana_source_cache" where
  "on_untap c k m =
     (if c_owner k \<noteq> msx_player_id m then m
      else if \<not> cc_is_mana_source (card_cache k) then m
      else case first_slot c m of
        Some sl \<Rightarrow> map_untapped sl (\<lambda>u. u + source_amount k) m
      | None \<Rightarrow> m)"

definition msx_clear :: "mana_source_cache \<Rightarrow> mana_source_cache" where
  "msx_clear m = (msx_new (msx_player_id m))"

text \<open>The battlefield scan: identifiers whose card is in the store, in battlefield order.\<close>

definition scan_entered ::
  "(card_id \<Rightarrow> card option) \<Rightarrow> mana_source_cache \<Rightarrow> card_id \<Rightarrow> mana_source_cache" where
  "scan_entered try_get m c = (case try_get c of Some k \<Rightarrow> on_card_entered c k m | None \<Rightarrow> m)"

definition rebuild_from_battlefield ::
  "(card_id \<Rightarrow> card option) \<Rightarrow> card_id list \<Rightarrow> mana_source_cache \<Rightarrow> mana_source_cache" where
  "rebuild_from_battlefield try_get bf m =
     (foldl (scan_entered try_get) ((msx_new (msx_player_id m))\<lparr>msx_needs_rebuild := msx_needs_rebuild m\<rparr>) bf)
        \<lparr>msx_needs_rebuild := False\<rparr>"

subsection \<open>The specification\<close>

text \<open>The list a card belongs to: a simple slot, the complex list, or none.\<close>

datatype source_class = Untracked | Complex | Simple slot

definition classify :: "player_id \<Rightarrow> card \<Rightarrow> source_class" where
  "classify p k =
     (if c_owner k \<noteq> p \<or> \<not> cc_is_mana_source (card_cache k) then Untracked
      else if is_creature k \<or> c_chosen_color k \<noteq> None then Complex
      else case mpr_kind (cc_mana_production (card_cache k)) of
        Fixed col \<Rightarrow> Simple (SlotColor col) | KColorless \<Rightarrow> Simple SlotColorless | _ \<Rightarrow> Complex)"

type_synonym board = "(card_id \<times> card) list"

definition class_ids :: "player_id \<Rightarrow> source_class \<Rightarrow> board \<Rightarrow> card_id list" where
  "class_ids p cl xs = map fst (filter (\<lambda>(c, k). classify p k = cl) xs)"

definition offered :: "player_id \<Rightarrow> slot \<Rightarrow> card \<Rightarrow> nat" where
  "offered p sl k = (if classify p k = Simple sl \<and> \<not> c_tapped k then unat (source_amount k) else 0)"

definition untapped_mana :: "player_id \<Rightarrow> slot \<Rightarrow> board \<Rightarrow> nat" where
  "untapped_mana p sl xs = sum_list (map (\<lambda>(c, k). offered p sl k) xs)"

definition represents :: "board \<Rightarrow> mana_source_cache \<Rightarrow> bool" where
  "represents xs m = (msx_complex_sources m = class_ids (msx_player_id m) Complex xs
     \<and> (\<forall>sl. slot_sources sl m = class_ids (msx_player_id m) (Simple sl) xs)
     \<and> (\<forall>sl. unat (slot_untapped sl m) = untapped_mana (msx_player_id m) sl xs))"

subsection \<open>Field laws\<close>

lemma slot_cases:
  obtains "sl = SlotColor MWhite" | "sl = SlotColor MBlue" | "sl = SlotColor MBlack"
    | "sl = SlotColor MRed" | "sl = SlotColor MGreen" | "sl = SlotColorless"
  by (metis mana_color.exhaust slot.exhaust)

lemma slot_sources_map_sources:
  "slot_sources t (map_sources sl f m) = (if t = sl then f (slot_sources t m) else slot_sources t m)"
  by (cases sl rule: slot_cases; cases t rule: slot_cases) auto

lemma slot_untapped_map_sources [simp]: "slot_untapped t (map_sources sl f m) = slot_untapped t m"
  by (cases sl rule: slot_cases; cases t rule: slot_cases) auto

lemma slot_untapped_map_untapped:
  "slot_untapped t (map_untapped sl f m) = (if t = sl then f (slot_untapped t m) else slot_untapped t m)"
  by (cases sl rule: slot_cases; cases t rule: slot_cases) auto

lemma slot_sources_map_untapped [simp]: "slot_sources t (map_untapped sl f m) = slot_sources t m"
  by (cases sl rule: slot_cases; cases t rule: slot_cases) auto

lemma map_slot_other_fields [simp]:
  "msx_player_id (map_sources sl f m) = msx_player_id m"
  "msx_complex_sources (map_sources sl f m) = msx_complex_sources m"
  "msx_player_id (map_untapped sl g m) = msx_player_id m"
  "msx_complex_sources (map_untapped sl g m) = msx_complex_sources m"
  by (cases sl rule: slot_cases; simp)+

lemma slot_fields_complex [simp]:
  "slot_sources sl (m\<lparr>msx_complex_sources := xs\<rparr>) = slot_sources sl m"
  "slot_untapped sl (m\<lparr>msx_complex_sources := xs\<rparr>) = slot_untapped sl m"
  by (cases sl rule: slot_cases; simp)+

lemma set_all_slots: "set all_slots = UNIV"
proof -
  have "sl \<in> set all_slots" for sl
    by (cases sl rule: slot_cases) (simp_all add: all_slots_def)
  then show ?thesis by auto
qed

lemma distinct_all_slots: "distinct all_slots"
  by (simp add: all_slots_def)

text \<open>A cache is determined by its lists and counts.\<close>

lemma cache_eqI:
  assumes "msx_player_id m = msx_player_id m'" "msx_complex_sources m = msx_complex_sources m'"
    "\<And>sl. slot_sources sl m = slot_sources sl m'" "\<And>sl. slot_untapped sl m = slot_untapped sl m'"
    "msx_needs_rebuild m = msx_needs_rebuild m'"
  shows "m = m'"
  using assms(1,2,5) assms(3) [of "SlotColor MWhite"] assms(3) [of "SlotColor MBlue"]
    assms(3) [of "SlotColor MBlack"] assms(3) [of "SlotColor MRed"] assms(3) [of "SlotColor MGreen"]
    assms(3) [of SlotColorless] assms(4) [of "SlotColor MWhite"] assms(4) [of "SlotColor MBlue"]
    assms(4) [of "SlotColor MBlack"] assms(4) [of "SlotColor MRed"] assms(4) [of "SlotColor MGreen"]
    assms(4) [of SlotColorless]
  by (intro mana_source_cache.equality) simp_all

lemma represents_unique:
  assumes "represents xs m" "represents xs m'" "msx_player_id m = msx_player_id m'"
    "msx_needs_rebuild m = msx_needs_rebuild m'"
  shows "m = m'"
proof (rule cache_eqI)
  fix sl
  have "unat (slot_untapped sl m) = unat (slot_untapped sl m')"
    using assms by (simp add: represents_def)
  then show "slot_untapped sl m = slot_untapped sl m'" by (simp add: unat_eq_iff_word)
qed (use assms in \<open>simp_all add: represents_def\<close>)

subsection \<open>The events implement the specification\<close>

lemma on_card_entered_classify:
  "on_card_entered c k m = (case classify (msx_player_id m) k of
     Untracked \<Rightarrow> m | Complex \<Rightarrow> push_complex c m | Simple sl \<Rightarrow> push_simple sl c k m)"
  by (simp add: on_card_entered_def classify_def split: mana_production_kind.split)

lemma classify_Untracked:
  "classify p k = Untracked \<longleftrightarrow> c_owner k \<noteq> p \<or> \<not> cc_is_mana_source (card_cache k)"
  by (simp add: classify_def split: mana_production_kind.split)

lemma class_ids_simps [simp]:
  "class_ids p cl [] = []"
  "class_ids p cl (xs @ ys) = class_ids p cl xs @ class_ids p cl ys"
  "class_ids p cl ((c, k) # xs) = (if classify p k = cl then c # class_ids p cl xs else class_ids p cl xs)"
  by (simp_all add: class_ids_def)

lemma untapped_mana_simps [simp]:
  "untapped_mana p sl [] = 0"
  "untapped_mana p sl (xs @ ys) = untapped_mana p sl xs + untapped_mana p sl ys"
  "untapped_mana p sl ((c, k) # xs) = offered p sl k + untapped_mana p sl xs"
  by (simp_all add: untapped_mana_def)

lemma class_ids_absent: "c \<notin> fst ` set xs \<Longrightarrow> c \<notin> set (class_ids p cl xs)"
  by (force simp: class_ids_def)

lemma push_fields [simp]:
  "msx_player_id (push_complex c m) = msx_player_id m"
  "msx_complex_sources (push_complex c m) = msx_complex_sources m @ [c]"
  "slot_sources sl (push_complex c m) = slot_sources sl m"
  "slot_untapped sl (push_complex c m) = slot_untapped sl m"
  "msx_player_id (push_simple sl c k m) = msx_player_id m"
  "msx_complex_sources (push_simple sl c k m) = msx_complex_sources m"
  by (simp_all add: push_complex_def push_simple_def Let_def)

lemma entered_represents:
  assumes rep: "represents xs m"
    and fits: "\<And>sl. untapped_mana (msx_player_id m) sl (xs @ [(c, k)]) < 2 ^ 32"
  shows "represents (xs @ [(c, k)]) (on_card_entered c k m)"
proof (cases "classify (msx_player_id m) k")
  case (Simple sl)
  have "unat (slot_untapped sl m + source_amount k)
      = untapped_mana (msx_player_id m) sl xs + unat (source_amount k)" if "\<not> c_tapped k"
    using fits [of sl] rep Simple that
    by (subst unat_plus_fits) (auto simp: represents_def offered_def)
  with rep Simple show ?thesis
    by (auto simp: on_card_entered_classify represents_def push_simple_def Let_def
        slot_sources_map_sources slot_untapped_map_untapped offered_def)
qed (use rep in \<open>simp_all add: on_card_entered_classify represents_def offered_def\<close>)

lemma board_split:
  assumes "distinct (map fst xs)" "(c, k) \<in> set xs"
  obtains ys zs where "xs = ys @ (c, k) # zs" "c \<notin> fst ` set ys" "c \<notin> fst ` set zs"
  using split_list [OF assms(2)] assms(1) by fastforce

definition board_remove :: "card_id \<Rightarrow> board \<Rightarrow> board" where
  "board_remove c xs = filter (\<lambda>(d, _). d \<noteq> c) xs"

definition board_update :: "card_id \<Rightarrow> (card \<Rightarrow> card) \<Rightarrow> board \<Rightarrow> board" where
  "board_update c f xs = map (\<lambda>(d, k). (d, if d = c then f k else k)) xs"

lemma board_absent:
  "c \<notin> fst ` set xs \<Longrightarrow> board_remove c xs = xs"
  "c \<notin> fst ` set xs \<Longrightarrow> board_update c f xs = xs"
  by (induction xs) (auto simp: board_remove_def board_update_def)

lemma board_middle:
  assumes "c \<notin> fst ` set ys" "c \<notin> fst ` set zs"
  shows "board_remove c (ys @ (c, k) # zs) = ys @ zs"
    and "board_update c f (ys @ (c, k) # zs) = ys @ (c, f k) # zs"
proof -
  have "board_remove c (ys @ (c, k) # zs) = board_remove c ys @ board_remove c zs"
    by (simp add: board_remove_def)
  with assms show "board_remove c (ys @ (c, k) # zs) = ys @ zs" by (simp add: board_absent)
  have "board_update c f (ys @ (c, k) # zs) = board_update c f ys @ (c, f k) # board_update c f zs"
    by (simp add: board_update_def)
  with assms show "board_update c f (ys @ (c, k) # zs) = ys @ (c, f k) # zs" by (simp add: board_absent)
qed

lemma leave_slots:
  assumes "distinct sls"
  shows "slot_sources sl (foldl (leave_slot c k) m sls)
      = (if sl \<in> set sls then remove1 c (slot_sources sl m) else slot_sources sl m)"
    and "slot_untapped sl (foldl (leave_slot c k) m sls)
      = (if sl \<in> set sls \<and> c \<in> set (slot_sources sl m) \<and> \<not> c_tapped k
         then sat_sub (slot_untapped sl m) (source_amount k) else slot_untapped sl m)"
    and "msx_player_id (foldl (leave_slot c k) m sls) = msx_player_id m"
    and "msx_complex_sources (foldl (leave_slot c k) m sls) = msx_complex_sources m"
proof -
  have one: "slot_sources sl (leave_slot c k m t)
      = (if sl = t then remove1 c (slot_sources sl m) else slot_sources sl m)" for sl t m
    by (simp add: leave_slot_def Let_def slot_sources_map_sources remove1_idem)
  have two: "slot_untapped sl (leave_slot c k m t)
      = (if sl = t \<and> c \<in> set (slot_sources sl m) \<and> \<not> c_tapped k
         then sat_sub (slot_untapped sl m) (source_amount k) else slot_untapped sl m)" for sl t m
    by (simp add: leave_slot_def Let_def slot_untapped_map_untapped)
  have three: "msx_player_id (leave_slot c k m t) = msx_player_id m"
    "msx_complex_sources (leave_slot c k m t) = msx_complex_sources m" for t m
    by (simp_all add: leave_slot_def Let_def)
  show "slot_sources sl (foldl (leave_slot c k) m sls)
      = (if sl \<in> set sls then remove1 c (slot_sources sl m) else slot_sources sl m)"
    using assms by (induction sls arbitrary: m) (auto simp: one)
  show "slot_untapped sl (foldl (leave_slot c k) m sls)
      = (if sl \<in> set sls \<and> c \<in> set (slot_sources sl m) \<and> \<not> c_tapped k
         then sat_sub (slot_untapped sl m) (source_amount k) else slot_untapped sl m)"
    using assms by (induction sls arbitrary: m) (auto simp: one two)
  show "msx_player_id (foldl (leave_slot c k) m sls) = msx_player_id m"
    "msx_complex_sources (foldl (leave_slot c k) m sls) = msx_complex_sources m"
    by (induction sls arbitrary: m) (simp_all add: three)
qed

lemma left_represents:
  assumes rep: "represents xs m" and "distinct (map fst xs)" "(c, k) \<in> set xs"
  shows "represents (board_remove c xs) (on_card_left c k m)"
proof -
  obtain ys zs where xs: "xs = ys @ (c, k) # zs" "c \<notin> fst ` set ys" "c \<notin> fst ` set zs"
    using board_split [OF assms(2,3)] .
  note removed = board_middle(1) [OF xs(2,3)]
  note absent = class_ids_absent [OF xs(2)] class_ids_absent [OF xs(3)]
  show ?thesis
  proof (cases "classify (msx_player_id m) k = Untracked")
    case True
    then have "on_card_left c k m = m" by (auto simp: on_card_left_def classify_Untracked)
    with True rep show ?thesis by (simp add: removed xs(1) represents_def offered_def)
  next
    case False
    then have m': "on_card_left c k m = (let m' = foldl (leave_slot c k) m all_slots in
        m'\<lparr>msx_complex_sources := remove1 c (msx_complex_sources m')\<rparr>)"
      by (simp add: on_card_left_def classify_Untracked)
    have "unat (sat_sub (slot_untapped sl m) (source_amount k))
        = untapped_mana (msx_player_id m) sl (ys @ zs)"
      if "classify (msx_player_id m) k = Simple sl" "\<not> c_tapped k" for sl
      using that rep by (simp add: unat_sat_sub represents_def xs(1) offered_def)
    with rep absent show ?thesis
      by (auto simp: represents_def m' Let_def removed xs(1) leave_slots [OF distinct_all_slots]
          set_all_slots remove1_append remove1_idem offered_def)
  qed
qed

lemma first_slot_classify:
  assumes "represents xs m" "distinct (map fst xs)" "(c, k) \<in> set xs"
  shows "first_slot c m = (case classify (msx_player_id m) k of Simple sl \<Rightarrow> Some sl | _ \<Rightarrow> None)"
proof -
  obtain ys zs where xs: "xs = ys @ (c, k) # zs" "c \<notin> fst ` set ys" "c \<notin> fst ` set zs"
    using board_split [OF assms(2,3)] .
  have mem: "c \<in> set (slot_sources sl m) \<longleftrightarrow> classify (msx_player_id m) k = Simple sl" for sl
    using assms(1) class_ids_absent [OF xs(2)] class_ids_absent [OF xs(3)]
    by (simp add: represents_def xs(1))
  have "find (\<lambda>t. classify (msx_player_id m) k = Simple t) all_slots
      = (case classify (msx_player_id m) k of Simple sl \<Rightarrow> Some sl | _ \<Rightarrow> None)"
  proof (cases "classify (msx_player_id m) k")
    case (Simple sl)
    then show ?thesis by (cases sl rule: slot_cases) (simp_all add: all_slots_def)
  qed (simp_all add: find_None_iff)
  then show ?thesis by (simp add: first_slot_def mem)
qed

lemma classify_tapped [simp]: "classify p (k\<lparr>c_tapped := b\<rparr>) = classify p k"
  by (simp add: classify_def card_cache_def is_creature_def split: mana_production_kind.split)

lemma source_amount_tapped [simp]: "source_amount (k\<lparr>c_tapped := b\<rparr>) = source_amount k"
  by (simp add: source_amount_def card_cache_def)

lemma tap_represents:
  assumes rep: "represents xs m" and "distinct (map fst xs)" "(c, k) \<in> set xs" "\<not> c_tapped k"
  shows "represents (board_update c card_tap xs) (on_tap c k m)"
proof -
  obtain ys zs where xs: "xs = ys @ (c, k) # zs" "c \<notin> fst ` set ys" "c \<notin> fst ` set zs"
    using board_split [OF assms(2,3)] .
  have upd: "board_update c card_tap (ys @ (c, k) # zs) = ys @ (c, k\<lparr>c_tapped := True\<rparr>) # zs"
    using board_middle(2) [OF xs(2,3)] by (simp add: card_tap_def)
  have tap: "on_tap c k m = (case classify (msx_player_id m) k of
      Simple sl \<Rightarrow> map_untapped sl (\<lambda>u. sat_sub u (source_amount k)) m | _ \<Rightarrow> m)"
  proof (cases "classify (msx_player_id m) k = Untracked")
    case True
    then show ?thesis using classify_Untracked [THEN iffD1, OF True] by (auto simp: on_tap_def)
  next
    case False
    then have "c_owner k = msx_player_id m" "cc_is_mana_source (card_cache k)"
      by (auto simp: classify_Untracked)
    then show ?thesis
      by (simp add: on_tap_def first_slot_classify [OF assms(1-3)] split: source_class.split)
  qed
  show ?thesis
  proof (cases "classify (msx_player_id m) k")
    case (Simple sl)
    have "unat (sat_sub (slot_untapped sl m) (source_amount k))
        = untapped_mana (msx_player_id m) sl (ys @ zs)"
      using Simple assms(4) rep by (simp add: unat_sat_sub represents_def xs(1) offered_def)
    with Simple rep show ?thesis
      by (auto simp: represents_def tap upd xs(1) slot_untapped_map_untapped offered_def)
  qed (use rep in \<open>simp_all add: represents_def tap upd xs(1) offered_def\<close>)
qed

lemma untap_represents:
  assumes rep: "represents xs m" and "distinct (map fst xs)" "(c, k) \<in> set xs" "c_tapped k"
    and fits: "\<And>sl. untapped_mana (msx_player_id m) sl (board_update c card_untap xs) < 2 ^ 32"
  shows "represents (board_update c card_untap xs) (on_untap c k m)"
proof -
  obtain ys zs where xs: "xs = ys @ (c, k) # zs" "c \<notin> fst ` set ys" "c \<notin> fst ` set zs"
    using board_split [OF assms(2,3)] .
  have upd: "board_update c card_untap (ys @ (c, k) # zs) = ys @ (c, k\<lparr>c_tapped := False\<rparr>) # zs"
    using board_middle(2) [OF xs(2,3)] by (simp add: card_untap_def)
  have untap: "on_untap c k m = (case classify (msx_player_id m) k of
      Simple sl \<Rightarrow> map_untapped sl (\<lambda>u. u + source_amount k) m | _ \<Rightarrow> m)"
  proof (cases "classify (msx_player_id m) k = Untracked")
    case True
    then show ?thesis using classify_Untracked [THEN iffD1, OF True] by (auto simp: on_untap_def)
  next
    case False
    then have "c_owner k = msx_player_id m" "cc_is_mana_source (card_cache k)"
      by (auto simp: classify_Untracked)
    then show ?thesis
      by (simp add: on_untap_def first_slot_classify [OF assms(1-3)] split: source_class.split)
  qed
  show ?thesis
  proof (cases "classify (msx_player_id m) k")
    case (Simple sl)
    have "unat (slot_untapped sl m + source_amount k)
        = untapped_mana (msx_player_id m) sl xs + unat (source_amount k)"
      using fits [of sl] rep Simple assms(4)
      by (subst unat_plus_fits) (auto simp: represents_def upd xs(1) offered_def)
    with Simple rep assms(4) show ?thesis
      by (auto simp: represents_def untap upd xs(1) slot_untapped_map_untapped offered_def)
  qed (use rep in \<open>simp_all add: represents_def untap upd xs(1) offered_def\<close>)
qed

lemma new_represents: "represents [] (msx_new p)"
proof -
  have "slot_sources sl (msx_new p) = [] \<and> slot_untapped sl (msx_new p) = 0" for sl
    by (cases sl rule: slot_cases) (simp_all add: msx_new_def)
  then show ?thesis by (simp add: represents_def) (simp add: msx_new_def)
qed

text \<open>The board a battlefield scan sees.\<close>

definition board_of :: "(card_id \<Rightarrow> card option) \<Rightarrow> card_id list \<Rightarrow> board" where
  "board_of try_get bf = List.map_filter (\<lambda>c. map_option (Pair c) (try_get c)) bf"

lemma on_card_entered_player [simp]: "msx_player_id (on_card_entered c k m) = msx_player_id m"
  by (simp add: on_card_entered_classify split: source_class.split)

lemma represents_rebuild_flag [simp]: "represents xs (m\<lparr>msx_needs_rebuild := b\<rparr>) \<longleftrightarrow> represents xs m"
proof -
  have "slot_sources sl (m\<lparr>msx_needs_rebuild := b\<rparr>) = slot_sources sl m
    \<and> slot_untapped sl (m\<lparr>msx_needs_rebuild := b\<rparr>) = slot_untapped sl m" for sl
    by (cases sl rule: slot_cases) simp_all
  then show ?thesis by (simp add: represents_def)
qed

lemma scan_represents:
  assumes "represents xs m"
    "\<And>sl. untapped_mana (msx_player_id m) sl (xs @ board_of try_get bf) < 2 ^ 32"
  shows "represents (xs @ board_of try_get bf) (foldl (scan_entered try_get) m bf)
    \<and> msx_player_id (foldl (scan_entered try_get) m bf) = msx_player_id m"
  using assms
proof (induction bf arbitrary: xs m)
  case (Cons c bf)
  show ?case
  proof (cases "try_get c")
    case None
    with Cons show ?thesis by (simp add: scan_entered_def board_of_def List.map_filter_def)
  next
    case (Some k)
    then have board: "board_of try_get (c # bf) = (c, k) # board_of try_get bf"
      by (simp add: board_of_def List.map_filter_def)
    have "untapped_mana (msx_player_id m) sl (xs @ [(c, k)]) < 2 ^ 32" for sl
      using Cons.prems(2) [of sl] by (simp add: board)
    then have "represents (xs @ [(c, k)]) (on_card_entered c k m)"
      by (rule entered_represents [OF Cons.prems(1)])
    moreover have "untapped_mana (msx_player_id (on_card_entered c k m)) sl
        ((xs @ [(c, k)]) @ board_of try_get bf) < 2 ^ 32" for sl
      using Cons.prems(2) [of sl] by (simp add: board)
    ultimately show ?thesis
      using Cons.IH [of "xs @ [(c, k)]" "on_card_entered c k m"] Some
      by (simp add: scan_entered_def board)
  qed
qed (simp add: board_of_def List.map_filter_def)

lemma rebuild_represents:
  assumes "\<And>sl. untapped_mana (msx_player_id m) sl (board_of try_get bf) < 2 ^ 32"
  shows "represents (board_of try_get bf) (rebuild_from_battlefield try_get bf m)"
    and "msx_player_id (rebuild_from_battlefield try_get bf m) = msx_player_id m"
    and "\<not> msx_needs_rebuild (rebuild_from_battlefield try_get bf m)"
proof -
  let ?m = "(msx_new (msx_player_id m))\<lparr>msx_needs_rebuild := msx_needs_rebuild m\<rparr>"
  have p: "msx_player_id ?m = msx_player_id m" by (simp add: msx_new_def)
  have "represents [] ?m" by (simp add: new_represents)
  from scan_represents [OF this, of try_get bf] assms p
  show "represents (board_of try_get bf) (rebuild_from_battlefield try_get bf m)"
    and "msx_player_id (rebuild_from_battlefield try_get bf m) = msx_player_id m"
    by (simp_all add: rebuild_from_battlefield_def)
  show "\<not> msx_needs_rebuild (rebuild_from_battlefield try_get bf m)"
    by (simp add: rebuild_from_battlefield_def)
qed

text \<open>The incremental cache is the rebuilt one.\<close>

lemma incremental_is_rebuild:
  assumes "represents (board_of try_get bf) m" "\<not> msx_needs_rebuild m"
  shows "rebuild_from_battlefield try_get bf m = m"
proof -
  have "untapped_mana (msx_player_id m) sl (board_of try_get bf) < 2 ^ 32" for sl
  proof -
    have "unat (slot_untapped sl m) < 2 ^ LENGTH(32)" by (rule unsigned_less)
    with assms(1) show ?thesis by (simp add: represents_def)
  qed
  from rebuild_represents [OF this] assms show ?thesis
    by (intro represents_unique) simp_all
qed

subsection \<open>Histories of one cache\<close>

lemma map_slot_flag [simp]:
  "msx_needs_rebuild (map_sources sl f m) = msx_needs_rebuild m"
  "msx_needs_rebuild (map_untapped sl g m) = msx_needs_rebuild m"
  by (cases sl rule: slot_cases; simp)+

lemma cache_ops_fixed [simp]:
  "msx_player_id (on_card_left c k m) = msx_player_id m" "msx_player_id (on_tap c k m) = msx_player_id m"
  "msx_player_id (on_untap c k m) = msx_player_id m"
  "msx_needs_rebuild (on_card_entered c k m) = msx_needs_rebuild m"
  "msx_needs_rebuild (on_card_left c k m) = msx_needs_rebuild m"
  "msx_needs_rebuild (on_tap c k m) = msx_needs_rebuild m"
  "msx_needs_rebuild (on_untap c k m) = msx_needs_rebuild m"
proof -
  have leave: "msx_player_id (foldl (leave_slot c k) m sls) = msx_player_id m
     \<and> msx_needs_rebuild (foldl (leave_slot c k) m sls) = msx_needs_rebuild m" for sls
    by (induction sls arbitrary: m) (simp_all add: leave_slot_def Let_def)
  show "msx_player_id (on_card_left c k m) = msx_player_id m"
    "msx_needs_rebuild (on_card_left c k m) = msx_needs_rebuild m"
    by (simp_all add: on_card_left_def leave Let_def)
qed (simp_all add: on_tap_def on_untap_def on_card_entered_classify push_complex_def push_simple_def
    Let_def split: option.split source_class.split)

text \<open>The cache after the events of a board: cards that enter, leave, tap and untap.\<close>

inductive cache_history :: "player_id \<Rightarrow> board \<Rightarrow> mana_source_cache \<Rightarrow> bool" for p where
  start: "cache_history p [] (msx_new p)"
| entered: "cache_history p (xs @ [(c, k)]) (on_card_entered c k m)"
    if "cache_history p xs m" "c \<notin> fst ` set xs"
      "\<And>sl. untapped_mana p sl (xs @ [(c, k)]) < 2 ^ 32"
| left: "cache_history p (board_remove c xs) (on_card_left c k m)"
    if "cache_history p xs m" "(c, k) \<in> set xs"
| tapped: "cache_history p (board_update c card_tap xs) (on_tap c k m)"
    if "cache_history p xs m" "(c, k) \<in> set xs" "\<not> c_tapped k"
| untapped: "cache_history p (board_update c card_untap xs) (on_untap c k m)"
    if "cache_history p xs m" "(c, k) \<in> set xs" "c_tapped k"
      "\<And>sl. untapped_mana p sl (board_update c card_untap xs) < 2 ^ 32"

lemma board_fsts: "map fst (board_remove c xs) = filter (\<lambda>d. d \<noteq> c) (map fst xs)"
  "map fst (board_update c f xs) = map fst xs"
  by (induction xs) (auto simp: board_remove_def board_update_def)

lemma cache_history_represents:
  "cache_history p xs m \<Longrightarrow>
     represents xs m \<and> distinct (map fst xs) \<and> msx_player_id m = p \<and> \<not> msx_needs_rebuild m"
proof (induction rule: cache_history.induct)
  case start
  show ?case using new_represents [of p] by (simp add: msx_new_def)
next
  case (entered xs m c k)
  then show ?case using entered_represents [of xs m c k] by simp
next
  case (left xs m c k)
  then show ?case using left_represents [of xs m c k] by (simp add: board_fsts)
next
  case (tapped xs m c k)
  then show ?case using tap_represents [of xs m c k] by (simp add: board_fsts)
next
  case (untapped xs m c k)
  then show ?case using untap_represents [of xs m c k] by (simp add: board_fsts)
qed

lemma board_of_fst:
  "(\<And>c k. (c, k) \<in> set xs \<Longrightarrow> try_get c = Some k) \<Longrightarrow> board_of try_get (map fst xs) = xs"
proof (induction xs)
  case (Cons x xs)
  then have "try_get (fst x) = Some (snd x)" by (cases x) simp
  moreover have "board_of try_get (map fst xs) = xs" using Cons by simp
  ultimately show ?case by (simp add: board_of_def List.map_filter_simps)
qed (simp add: board_of_def List.map_filter_simps)

end
