(* ===== verification/Logger.thy ===== *)
theory Logger
  imports Prelude
begin

section \<open>The game logger\<close>

text \<open>
  \<open>mtg-engine/src/game/logger.rs\<close>, as far as the game state depends on it: the captured entries,
  whose number the undo log stores with every action, the private entries and the choice counter.
  What is printed to the standard output is not modelled. The lemmas show that an entry kept
  private is shown to nobody but its owner, and that truncating to a recorded size forgets
  exactly the later entries.
\<close>

datatype verbosity = Silent | Minimal | Normal | Verbose

fun verbosity_rank :: "verbosity \<Rightarrow> nat" where
  "verbosity_rank Silent = 0"
| "verbosity_rank Minimal = 1"
| "verbosity_rank Normal = 2"
| "verbosity_rank Verbose = 3"

datatype output_mode = Stdout | Memory | Both

record private_log_info =
  pl_owner :: player_id
  pl_public_message :: string

record log_entry =
  le_level :: verbosity
  le_message :: string
  le_category :: "string option"
  le_private_to :: "private_log_info option"
  le_verifier_stable :: "string option"

record game_logger =
  lg_verbosity :: verbosity
  lg_output_mode :: output_mode
  lg_tag_gamelogs :: bool
  lg_gamelog_turn :: u32
  lg_gamelog_step :: string
  lg_log_buffer :: "log_entry list"
  lg_log_epoch :: u64
  lg_choice_count :: nat
  lg_suppressed :: bool

definition logger_new :: game_logger where
  "logger_new = \<lparr>lg_verbosity = Normal, lg_output_mode = Stdout, lg_tag_gamelogs = False,
     lg_gamelog_turn = 1, lg_gamelog_step = ''UK'', lg_log_buffer = [], lg_log_epoch = 0,
     lg_choice_count = 0, lg_suppressed = False\<rparr>"

definition message_for :: "log_entry \<Rightarrow> player_id \<Rightarrow> string" where
  "message_for e perspective = (case le_private_to e of
       Some info \<Rightarrow> if pl_owner info \<noteq> perspective then pl_public_message info else le_message e
     | None \<Rightarrow> le_message e)"

definition is_capturing :: "game_logger \<Rightarrow> bool" where
  "is_capturing lg = (lg_output_mode lg \<in> {Memory, Both})"

definition log_count :: "game_logger \<Rightarrow> nat" where
  "log_count lg = length (lg_log_buffer lg)"

definition truncate_to :: "nat \<Rightarrow> game_logger \<Rightarrow> game_logger" where
  "truncate_to n lg = (if n < length (lg_log_buffer lg)
     then lg\<lparr>lg_log_buffer := take n (lg_log_buffer lg), lg_log_epoch := lg_log_epoch lg + 1\<rparr>
     else lg)"

definition clear_logs :: "game_logger \<Rightarrow> game_logger" where
  "clear_logs lg = lg\<lparr>lg_log_buffer := [], lg_log_epoch := lg_log_epoch lg + 1\<rparr>"

definition push_log :: "log_entry \<Rightarrow> game_logger \<Rightarrow> game_logger" where
  "push_log e lg = lg\<lparr>lg_log_buffer := lg_log_buffer lg @ [e]\<rparr>"

definition capture_entry :: "log_entry \<Rightarrow> game_logger \<Rightarrow> game_logger" where
  "capture_entry e lg =
     (if lg_suppressed lg then lg
      else if verbosity_rank (lg_verbosity lg) < verbosity_rank (le_level e) \<and> \<not> is_capturing lg then lg
      else if is_capturing lg then push_log e lg else lg)"

definition log_normal :: "string \<Rightarrow> game_logger \<Rightarrow> game_logger" where
  "log_normal m = capture_entry \<lparr>le_level = Normal, le_message = m, le_category = None,
     le_private_to = None, le_verifier_stable = None\<rparr>"

definition log_verbose :: "string \<Rightarrow> game_logger \<Rightarrow> game_logger" where
  "log_verbose m = capture_entry \<lparr>le_level = Verbose, le_message = m, le_category = None,
     le_private_to = None, le_verifier_stable = None\<rparr>"

definition normal_private :: "string \<Rightarrow> player_id \<Rightarrow> string \<Rightarrow> game_logger \<Rightarrow> game_logger" where
  "normal_private m ow public = capture_entry \<lparr>le_level = Normal, le_message = m,
     le_category = None, le_private_to = Some \<lparr>pl_owner = ow, pl_public_message = public\<rparr>,
     le_verifier_stable = None\<rparr>"

text \<open>A separator is pushed even when the mode captures nothing, if the verbosity lets it through.\<close>

definition turn_separator :: "string \<Rightarrow> game_logger \<Rightarrow> game_logger" where
  "turn_separator m lg =
     (if lg_suppressed lg then lg
      else if verbosity_rank (lg_verbosity lg) < verbosity_rank Normal \<and> \<not> is_capturing lg then lg
      else push_log \<lparr>le_level = Normal, le_message = m, le_category = None, le_private_to = None,
             le_verifier_stable = None\<rparr> lg)"

definition tag_message :: "game_logger \<Rightarrow> string \<Rightarrow> string" where
  "tag_message lg m = (if lg_tag_gamelogs lg
     then ''[GAMELOG Turn'' @ show_nat (unat (lg_gamelog_turn lg)) @ '' '' @ lg_gamelog_step lg @ ''] '' @ m
     else m)"

definition gamelog :: "string \<Rightarrow> game_logger \<Rightarrow> game_logger" where
  "gamelog m lg = capture_entry \<lparr>le_level = Normal, le_message = tag_message lg m,
     le_category = Some ''gamelog'', le_private_to = None, le_verifier_stable = None\<rparr> lg"

definition normal_reveal_stable :: "string \<Rightarrow> string \<Rightarrow> game_logger \<Rightarrow> game_logger" where
  "normal_reveal_stable m stab = capture_entry \<lparr>le_level = Normal, le_message = m,
     le_category = None, le_private_to = None, le_verifier_stable = Some stab\<rparr>"

definition gamelog_reveal_stable :: "string \<Rightarrow> string \<Rightarrow> game_logger \<Rightarrow> game_logger" where
  "gamelog_reveal_stable m stab lg = capture_entry \<lparr>le_level = Normal,
     le_message = tag_message lg m, le_category = Some ''gamelog'', le_private_to = None,
     le_verifier_stable = Some (tag_message lg stab)\<rparr> lg"

definition gamelog_private :: "string \<Rightarrow> player_id \<Rightarrow> string \<Rightarrow> game_logger \<Rightarrow> game_logger" where
  "gamelog_private m ow public lg = capture_entry \<lparr>le_level = Normal,
     le_message = tag_message lg m, le_category = Some ''gamelog'',
     le_private_to = Some \<lparr>pl_owner = ow, pl_public_message = tag_message lg public\<rparr>,
     le_verifier_stable = None\<rparr> lg"

definition decrement_choice_count :: "game_logger \<Rightarrow> game_logger" where
  "decrement_choice_count lg =
     (if 0 < lg_choice_count lg then lg\<lparr>lg_choice_count := lg_choice_count lg - 1\<rparr> else lg)"

definition set_choice_count :: "nat \<Rightarrow> game_logger \<Rightarrow> game_logger" where
  "set_choice_count n lg = lg\<lparr>lg_choice_count := n\<rparr>"

subsection \<open>Privacy and truncation\<close>

lemmas log_defs = gamelog_def gamelog_private_def gamelog_reveal_stable_def log_normal_def
  log_verbose_def normal_private_def turn_separator_def capture_entry_def push_log_def

text \<open>What a player other than the owner reads does not depend on the private text.\<close>

lemma gamelog_private_hides:
  assumes "p \<noteq> ow"
  shows "map (\<lambda>e. message_for e p) (lg_log_buffer (gamelog_private m ow public lg))
       = map (\<lambda>e. message_for e p) (lg_log_buffer (gamelog_private m' ow public lg))"
  using assms by (simp add: log_defs message_for_def)

lemma log_ops_extend:
  "\<exists>es. lg_log_buffer (gamelog m lg) = lg_log_buffer lg @ es"
  "\<exists>es. lg_log_buffer (gamelog_private m ow public lg) = lg_log_buffer lg @ es"
  "\<exists>es. lg_log_buffer (turn_separator m lg) = lg_log_buffer lg @ es"
  by (simp_all add: log_defs)

lemma truncate_to_prefix:
  "lg_log_buffer (truncate_to (length es) lg) = es" if "lg_log_buffer lg = es @ fs"
  using that by (auto simp: truncate_to_def)

end
