(* ===== verification/ComponentProperties.thy ===== *)
theory ComponentProperties
  imports GameAction Combat Prevention Player PersistentEffects ManaCache Logger Costs
begin

section \<open>Properties of the single components\<close>

text \<open>
  The properties of the data components: mana, zones, turn structure, keywords, counters, cards,
  combat, the two id-keyed stores, the mana source cache, the log buffer and the undo log. Each is
  stated over the model of the code and rests on the lemmas of its component; the theorem after a
  property with hypotheses applies it at a concrete input.
\<close>

subsection \<open>Mana\<close>

text \<open>Printing a mana cost and parsing the text gives the cost back, for every cost of eight bytes.\<close>

theorem mana_cost_roundtrip: "from_string (mana_cost_display c) = c"
  by (rule from_string_display)

text \<open>
  As long as the byte-wide sums do not wrap, paying a cost from a pool succeeds exactly when every
  coloured requirement is met and the total suffices; then the total falls by exactly the cost and
  the generic part is drained from what the coloured part leaves, in the order WUBRGC.
\<close>

theorem pool_payment:
  assumes "pool_sum p < 256" "cost_sum c < 256"
  shows "case pay_cost p c of
      Inl _ \<Rightarrow> \<not> (list_all2 (\<le>) (cost_list c) (pool_list p) \<and> cost_sum c \<le> pool_sum p)
    | Inr q \<Rightarrow> pool_sum q + cost_sum c = pool_sum p
        \<and> pool_list q = drain (unat (mc_generic c)) (map2 (-) (pool_list p) (cost_list c))"
proof (cases "pay_cost p c")
  case (Inl e)
  then have "\<not> can_pay p c" using pay_cost_result [of p c] by auto
  then show ?thesis using Inl can_pay_exact [OF assms] by simp
next
  case (Inr q)
  then show ?thesis using pay_cost_conserves [OF assms Inr] pay_cost_drains [OF Inr] by simp
qed

theorem pool_payment_witness:
  "(case pay_cost (mana_pool_new\<lparr>mp_white := 2, mp_green := 3\<rparr>) (mana_cost_new\<lparr>mc_generic := 3, mc_green := 1\<rparr>) of
      Inl _ \<Rightarrow> False | Inr q \<Rightarrow> pool_list q = [0, 0, 0, 0, 1, 0])"
  using pool_payment [of "mana_pool_new\<lparr>mp_white := 2, mp_green := 3\<rparr>" "mana_cost_new\<lparr>mc_generic := 3, mc_green := 1\<rparr>"]
  by (simp add: pool_sum_def cost_sum_def pool_list_def cost_list_def mana_pool_new_def
      mana_cost_new_def split: sum.splits)



subsection \<open>Zones and turn structure\<close>

text \<open>
  Putting a card back at the position it was removed from restores the zone exactly, so an undone
  move does not permute the hand or the library.
\<close>

theorem reinsert_restores_zone:
  assumes "zone_position_of z c = Some p"
  shows "snd (zone_remove z c) \<and> zone_add_at (fst (zone_remove z c)) c p = z"
  using zone_add_at_remove [OF assms] position_of_Some_mem [of c "z_cards z" p] assms
  by (simp add: zone_remove_eq zone_position_of_def)

theorem reinsert_restores_zone_witness:
  "zone_add_at (fst (zone_remove ((card_zone_new Hand 0)\<lparr>z_cards := [4, 7, 9]\<rparr>) 7)) 7 1
     = (card_zone_new Hand 0)\<lparr>z_cards := [4, 7, 9]\<rparr>"
  using reinsert_restores_zone [of "(card_zone_new Hand 0)\<lparr>z_cards := [4, 7, 9]\<rparr>" 7 1]
  by (simp add: card_zone_new_def zone_position_of_def)

text \<open>
  A turn runs through the twelve steps in the order of their rank without skipping one, each
  advance that stays in the turn lowers the distance to the cleanup step, and only the cleanup step
  ends the turn.
\<close>

theorem turn_runs_through_steps:
  "(next_step s = Some t \<longrightarrow> as_hash_u32 t = as_hash_u32 s + 1 \<and> \<not> (\<exists>u. s < u \<and> u < t))
   \<and> (ts_advance_step ts = (ts', True) \<longrightarrow>
        11 - unat (as_hash_u32 (ts_current_step ts')) < 11 - unat (as_hash_u32 (ts_current_step ts)))
   \<and> (ts_advance_step ts = (ts', False) \<longleftrightarrow> ts' = ts \<and> ts_current_step ts = Cleanup)"
  using next_step_hash next_step_no_gap advance_step_measure advance_step_false by blast

theorem turn_runs_through_steps_witness:
  "as_hash_u32 Draw = as_hash_u32 Upkeep + 1
   \<and> ts_advance_step ((turn_structure_new 0)\<lparr>ts_current_step := Cleanup\<rparr>)
       = ((turn_structure_new 0)\<lparr>ts_current_step := Cleanup\<rparr>, False)"
  using turn_runs_through_steps [of Upkeep Draw "(turn_structure_new 0)\<lparr>ts_current_step := Cleanup\<rparr>"
      "(turn_structure_new 0)\<lparr>ts_current_step := Cleanup\<rparr>"]
  by simp

subsection \<open>Keywords, counters and cards\<close>

text \<open>
  A simple keyword that was absent is removed again without trace, and a complex keyword is found
  again with the arguments it was inserted with.
\<close>

theorem keyword_insert_roundtrip:
  assumes "kw_inv ks" "\<not> kw_contains ks (args_keyword a)" "\<not> kw_contains ks k"
    "is_complex (args_keyword a)" "\<not> is_complex k"
  shows "kw_remove (kw_insert ks k) k = ks
    \<and> kw_get_args (kw_insert_complex ks a) (args_keyword a) = Some a"
  using assms by (simp add: kw_remove_insert kw_get_args_insert_complex)

theorem keyword_insert_roundtrip_witness:
  "kw_remove (kw_insert kw_new ''Flying'') ''Flying'' = kw_new
   \<and> kw_get_args (kw_insert_complex kw_new (KeywordArgs ''Dredge'' [FAmount 3])) ''Dredge''
      = Some (KeywordArgs ''Dredge'' [FAmount 3])"
proof -
  have "is_complex ''Dredge''" "\<not> is_complex ''Flying''" by code_simp+
  then show ?thesis
    using keyword_insert_roundtrip [of kw_new "KeywordArgs ''Dredge'' [FAmount 3]" "''Flying''"]
    by (simp add: kw_inv_def kw_new_def kw_contains_def)
qed

text \<open>
  Adding counters and taking the same number off again gives the card back, counter order included,
  when the byte does not saturate and no opposite power/toughness counter annihilates them.
\<close>

theorem counter_roundtrip:
  assumes "counters_inv (c_counters c)" "unat (get_counter c ct) + unat n < 256"
    "ct = P1P1 \<Longrightarrow> get_counter c M1M1 = 0" "ct = M1M1 \<Longrightarrow> get_counter c P1P1 = 0"
  shows "remove_counter ct n (add_counter ct n c) = (c, n)"
  using assms by (rule remove_add_counter)

theorem counter_roundtrip_witness:
  "remove_counter P1P1 2 (add_counter P1P1 2 (card_new 5 ''Bear'' 0)) = (card_new 5 ''Bear'' 0, 2)"
  by (rule counter_roundtrip) (simp_all add: card_new_def counters_inv_def get_counter_def count_of_def)

text \<open>The cards that adding and removing counters can produce.\<close>

inductive counter_history :: "card \<Rightarrow> bool" where
  fresh: "counter_history (card_new i name ow)"
| added: "counter_history c \<Longrightarrow> counter_history (add_counter ct n c)"
| removed: "counter_history c \<Longrightarrow> counter_history (fst (remove_counter ct n c))"

text \<open>
  In every card reachable by adding and removing counters each kind of counter is listed once and
  with a positive count, and +1/+1 and -1/-1 counters never occur together.
\<close>

theorem counters_never_coexist:
  assumes "counter_history c"
  shows "distinct (map fst (c_counters c)) \<and> (\<forall>x \<in> set (c_counters c). 0 < snd x)
    \<and> \<not> (0 < get_counter c P1P1 \<and> 0 < get_counter c M1M1)"
proof -
  have "counters_inv (c_counters c)"
    using assms
  proof induction
    case (fresh i name ow)
    show ?case by (simp add: card_new_def counters_inv_def)
  qed (simp_all add: add_counter_inv remove_counter_inv)
  then show ?thesis by (auto simp: counters_inv_def get_counter_def)
qed

theorem counters_never_coexist_witness:
  "(let c = add_counter M1M1 3 (add_counter P1P1 2 (card_new 5 ''Bear'' 0)) in
      \<not> (0 < get_counter c P1P1 \<and> 0 < get_counter c M1M1))"
  using counters_never_coexist [OF counter_history.added [OF counter_history.added
      [OF counter_history.fresh]], of M1M1 3 P1P1 2 5 "''Bear''" 0]
  by (simp add: Let_def)

text \<open>
  C39: the snapshot taken as a card leaves the battlefield undoes the whole reset of its transient state,
  whether or not its definition is found and whatever the loader's parsers return.
\<close>

theorem leave_battlefield_restored:
  "restore_state_snapshot (capture_state_snapshot c) (reset_transient_state ld od c) = c"
  by (rule restore_after_reset)

subsection \<open>Combat, delayed triggers and persistent effects\<close>

text \<open>
  Taking back the declaration of an attacker and of a blocker gives the combat state exactly: the
  reverse index loses the entries the declaration made and no others.
\<close>

theorem declarations_taken_back:
  assumes "combat_inv s" "\<not> is_attacking s a" "\<not> is_blocking s b"
    "\<And>x. x \<in> set as \<Longrightarrow> cs_attacker_blockers s x \<noteq> Some []"
  shows "undo_declare_attacker a (cs_combat_active s) (declare_attacker a p s) = s
    \<and> undo_declare_blocker b as (declare_blocker b as s) = s"
  using assms by (simp add: undo_attacker undo_blocker)

theorem declarations_taken_back_witness:
  "undo_declare_blocker 9 [4, 5] (declare_blocker 9 [4, 5] (declare_attacker 4 1 combat_new))
     = declare_attacker 4 1 combat_new"
proof -
  have "combat_inv (declare_attacker 4 1 combat_new)"
    by (simp add: combat_inv_new combat_inv_declare_attacker)
  then show ?thesis
    using declarations_taken_back [of "declare_attacker 4 1 combat_new" 6 9 "[4, 5]" 1]
    by (simp add: declare_attacker_def combat_new_def is_attacking_def is_blocking_def)
qed

text \<open>
  A creature removed from combat neither attacks nor blocks nor is listed as a blocker, and another
  attacker stays blocked exactly when a blocker other than the removed creature remains.
\<close>

theorem removal_leaves_combat:
  "\<not> is_attacking (remove_from_combat c s) c \<and> \<not> is_blocking (remove_from_combat c s) c
   \<and> c \<notin> set (get_blockers (remove_from_combat c s) a)
   \<and> (is_blocked (remove_from_combat c s) a \<longleftrightarrow> a \<noteq> c \<and> (\<exists>b \<in> set (get_blockers s a). b \<noteq> c))"
  by (simp add: removed_not_in_combat is_blocked_remove)

text \<open>
  Undoing the registration of a delayed trigger restores the store and its next id, and putting a
  fired trigger back keeps the triggers as a multiset.
\<close>

theorem delayed_trigger_roundtrip:
  assumes "dts.inv s"
  shows "dts_undo_add (snd (dts_add t s)) (fst (dts_add t s)) = (s, Some (t\<lparr>dt_id := dts_next_id s\<rparr>))
    \<and> (case dts_remove i s of
         (s', Some u) \<Rightarrow> mset (dts_triggers (dts_restore u s')) = mset (dts_triggers s)
       | (s', None) \<Rightarrow> True)"
  using dts_undo_add_add [OF assms] dts_restore_removed [OF assms] by (auto split: prod.split option.split)

theorem delayed_trigger_roundtrip_witness:
  "(let t = delayed_trigger_new 0 5 6 0 (PhaseBegin [TEndStep] OwnerYou) DSacrifice in
      dts_undo_add (snd (dts_add t dts_new)) (fst (dts_add t dts_new))
        = (dts_new, Some (t\<lparr>dt_id := 1\<rparr>)))"
  using delayed_trigger_roundtrip [of dts_new
      "delayed_trigger_new 0 5 6 0 (PhaseBegin [TEndStep] OwnerYou) DSacrifice" 0]
  by (simp add: dts.inv_def dts_new_def Let_def)

text \<open>
  The end-of-turn cleanup of persistent effects removes exactly the effects whose cleanup condition
  asks for it, and the cleanup of a zone change exactly those bound to that card and zone.
\<close>

theorem effect_cleanup_exact:
  assumes "pes.inv s"
  shows "pes_effects (fst (pes_remove_many (find_effects_to_cleanup_at_eot s) s))
      = filter (\<lambda>e. \<not> should_cleanup_at_eot (pe_cleanup e)) (pes_effects s)
    \<and> pes_effects (fst (pes_remove_many (find_effects_to_cleanup_on_zone_change s c z) s))
      = filter (\<lambda>e. \<not> should_cleanup_on_zone_change (pe_cleanup e) c z) (pes_effects s)"
  using cleanup_eot_exact [OF assms] cleanup_zone_exact [OF assms] by simp

theorem effect_cleanup_exact_witness:
  "(let s = fst (pes_add (Imprint 4) 3 0 Never (fst (pes_add (CantBeBlocked 7) 3 0 EndOfTurn pes_new))) in
      map pe_id (pes_effects (fst (pes_remove_many (find_effects_to_cleanup_at_eot s) s))) = [1])"
  using effect_cleanup_exact [of "fst (pes_add (Imprint 4) 3 0 Never
      (fst (pes_add (CantBeBlocked 7) 3 0 EndOfTurn pes_new)))" 7 Battlefield]
  by (simp add: pes.inv_def pes_add_def pes_new_def Let_def)

subsection \<open>The mana source cache\<close>

text \<open>
  C40: the cache kept up to date event by event equals the cache rebuilt from the battlefield, source
  order and untapped amounts included, after every history of cards that enter, leave, tap and untap.
\<close>

theorem incremental_cache_is_rebuilt:
  assumes "cache_history p xs m" "\<And>c k. (c, k) \<in> set xs \<Longrightarrow> try_get c = Some k"
  shows "rebuild_from_battlefield try_get (map fst xs) m = m"
  using cache_history_represents [OF assms(1)] board_of_fst [of xs try_get, OF assms(2)]
  by (simp add: incremental_is_rebuild)

theorem incremental_cache_is_rebuilt_witness:
  "(let k = card_new 5 ''Forest'' 0; m = on_card_entered 5 k (msx_new 0) in
      rebuild_from_battlefield [5 \<mapsto> k] [5] m = m)"
proof -
  have u32: "unat w < 4294967296" for w :: u32 using unsigned_less [of w] by simp
  have "cache_history 0 ([] @ [(5, card_new 5 ''Forest'' 0)])
      (on_card_entered 5 (card_new 5 ''Forest'' 0) (msx_new 0))"
    by (rule cache_history.entered [OF cache_history.start])
      (simp_all add: offered_def u32)
  from incremental_cache_is_rebuilt [OF this, of "[5 \<mapsto> card_new 5 ''Forest'' 0]"]
  show ?thesis by (simp add: Let_def)
qed

subsection \<open>The log buffer and the undo log\<close>

text \<open>
  Whatever private line is logged, a player other than its owner reads the same buffer: the private
  text does not reach them.
\<close>

theorem private_line_hidden:
  assumes "p \<noteq> ow"
  shows "map (\<lambda>e. message_for e p) (lg_log_buffer (gamelog_private m ow public lg))
       = map (\<lambda>e. message_for e p) (lg_log_buffer (gamelog_private m' ow public lg))"
  using assms by (rule gamelog_private_hides)

theorem private_line_hidden_witness:
  "map (\<lambda>e. message_for e 1) (lg_log_buffer (gamelog_private ''A draws Bolt'' 0 ''A draws'' logger_new))
   = map (\<lambda>e. message_for e 1) (lg_log_buffer (gamelog_private ''A draws Ox'' 0 ''A draws'' logger_new))"
  by (rule private_line_hidden) simp

text \<open>
  Marking a choice point, logging any actions and rewinding to the choice point gives the undo log
  back as it was, actions, log sizes and choice points alike.
\<close>

theorem rewind_to_mark:
  assumes "ul_enabled l" "ul_aligned l"
  shows "ul_rewind_to_choice_point (foldl (\<lambda>l (a, n). ul_log a n l) (ul_mark_choice_point l) as) = l"
  using assms by (rule ul_rewind_mark)

theorem rewind_to_mark_witness:
  "ul_rewind_to_choice_point (foldl (\<lambda>l (a, n). ul_log a n l) (ul_mark_choice_point undo_log_new)
     [(TapCard 3 True, 0), (TapCard 4 True, 1)]) = undo_log_new"
  by (rule rewind_to_mark) (simp_all add: undo_log_new_def ul_aligned_def)

text \<open>
  Scanning the undo log forwards into a map answers, for every card, the last tap or untap logged
  for it.
\<close>

theorem tapped_states_are_last:
  "reconstruct_tapped_states l c = find_map (tap_of c) (rev (ul_actions l))"
  by (rule reconstruct_tapped_last)

end
