(* ===== verification/GameState.thy ===== *)
theory GameState
  imports GameAction Logger ManaCache PersistentEffects
begin

section \<open>The game state\<close>

text \<open>
  The \<open>GameState\<close> struct of \<open>mtg-engine/src/game/state.rs\<close> with its scratch part, its construction
  and its accessors. The generator of random numbers is represented by the bytes it serializes to;
  the bump allocator holds no state of the game and has no field. Zones and mana caches are vectors
  of pairs searched by player; that search keeps the contract \<open>entity_map\<close>. The equivalence
  \<open>durable\<close> forgets what undo does not restore: the log itself, the text log, the mana caches (they
  are marked dirty and rebuilt) and their version counter.
\<close>

type_synonym rng = "u8 list"

datatype mtg_error = MtgEntityNotFound u32 | InvalidAction string | NeedInput | Panicked | OutOfFuel

record sub_action_scratch =
  sc_pending_cycling_search :: "(player_id \<times> string) option"
  sc_pending_activation :: "(player_id \<times> card_id \<times> nat) option"
  sc_pending_activation_effect_idx :: "(nat \<times> card_id list) option"
  sc_spell_targets :: "(card_id \<times> card_id list) list"
  sc_pending_library_reorders :: "(player_id \<times> u64) list"
  sc_pending_dig_decisions :: "(player_id \<times> card_id list \<times> u64) list"
  sc_pending_dig_authoritative_decision :: "card_id list option"
  sc_sacrificed_for_cost :: "card_id option"

definition scratch_default :: sub_action_scratch where
  "scratch_default = \<lparr>sc_pending_cycling_search = None, sc_pending_activation = None,
     sc_pending_activation_effect_idx = None, sc_spell_targets = [],
     sc_pending_library_reorders = [], sc_pending_dig_decisions = [],
     sc_pending_dig_authoritative_decision = None, sc_sacrificed_for_cost = None\<rparr>"

record game_state =
  gs_cards :: "card entity_store"
  gs_players :: "player list"
  gs_player_zones :: "(player_id \<times> player_zones) list"
  gs_mana_caches :: "(player_id \<times> mana_source_cache) list"
  gs_battlefield :: card_zone
  gs_stack :: card_zone
  gs_turn :: turn_structure
  gs_combat :: combat_state
  gs_rng :: rng
  gs_next_entity_id :: u32
  gs_undo_log :: undo_log
  gs_logger :: game_logger
  gs_token_definitions :: "string \<rightharpoonup> card_definition"
  gs_card_definitions :: "string \<rightharpoonup> card_definition"
  gs_mana_state_version :: u32
  gs_skip_reveals :: bool
  gs_persistent_effects :: persistent_effect_store
  gs_current_damage_source :: "card_id option"
  gs_damage_dealt_by_source :: "i32 option"
  gs_current_spell_controller :: "player_id option"
  gs_last_sacrificed_toughness :: "i32 option"
  gs_delayed_triggers :: delayed_trigger_store
  gs_remembered_cards :: "card_id list"
  gs_remembered_players :: "player_id list"
  gs_remembered_amount :: "u32 option"
  gs_remembered_name :: "string option"
  gs_extra_turns :: "player_id list"
  gs_extra_combat_phases :: u8
  gs_is_shadow_game :: bool
  gs_is_commander_game :: bool
  gs_scratch :: sub_action_scratch

text \<open>\<open>ChaCha12Rng::seed_from_u64\<close> is the argument \<open>seed_from\<close>.\<close>

definition new_two_player_with_capacity ::
  "(u64 \<Rightarrow> rng) \<Rightarrow> string \<Rightarrow> string \<Rightarrow> i32 \<Rightarrow> nat \<Rightarrow> game_state" where
  "new_two_player_with_capacity seed_from player1_name player2_name starting_life deck_capacity =
     \<lparr>gs_cards = store_new,
      gs_players = [player_new 0 player1_name starting_life, player_new 1 player2_name starting_life],
      gs_player_zones = [(0, player_zones_new 0), (1, player_zones_new 1)],
      gs_mana_caches = [(0, msx_new 0), (1, msx_new 1)],
      gs_battlefield = card_zone_new Battlefield 2, gs_stack = card_zone_new Stack 2,
      gs_turn = turn_structure_new_with_idx 0 0, gs_combat = combat_new, gs_rng = seed_from 0,
      gs_next_entity_id = 3, gs_undo_log = undo_log_new, gs_logger = logger_new,
      gs_token_definitions = Map.empty, gs_card_definitions = Map.empty,
      gs_mana_state_version = 0, gs_skip_reveals = True, gs_persistent_effects = pes_new,
      gs_current_damage_source = None, gs_damage_dealt_by_source = None,
      gs_current_spell_controller = None, gs_last_sacrificed_toughness = None,
      gs_delayed_triggers = dts_new, gs_remembered_cards = [], gs_remembered_players = [],
      gs_remembered_amount = None, gs_remembered_name = None, gs_extra_turns = [],
      gs_extra_combat_phases = 0, gs_is_shadow_game = False, gs_is_commander_game = False,
      gs_scratch = scratch_default\<rparr>"

definition new_two_player :: "(u64 \<Rightarrow> rng) \<Rightarrow> string \<Rightarrow> string \<Rightarrow> i32 \<Rightarrow> game_state" where
  "new_two_player seed_from n1 n2 life = new_two_player_with_capacity seed_from n1 n2 life 0"

definition seed_rng :: "(u64 \<Rightarrow> rng) \<Rightarrow> u64 \<Rightarrow> game_state \<Rightarrow> game_state" where
  "seed_rng seed_from s g = g\<lparr>gs_rng := seed_from s\<rparr>"

definition set_skip_reveals :: "bool \<Rightarrow> game_state \<Rightarrow> game_state" where
  "set_skip_reveals b g = g\<lparr>gs_skip_reveals := b\<rparr>"

definition set_shadow_game :: "bool \<Rightarrow> game_state \<Rightarrow> game_state" where
  "set_shadow_game b g = g\<lparr>gs_is_shadow_game := b\<rparr>"

definition action_count :: "game_state \<Rightarrow> u64" where
  "action_count g = of_nat (ul_len (gs_undo_log g))"

definition increment_mana_version :: "game_state \<Rightarrow> game_state" where
  "increment_mana_version g = g\<lparr>gs_mana_state_version := gs_mana_state_version g + 1\<rparr>"

text \<open>\<open>self.undo_log.log(action, self.logger.log_count())\<close>, the sequence every logged operation ends with.\<close>

definition log_action :: "game_action \<Rightarrow> game_state \<Rightarrow> game_state" where
  "log_action a g = g\<lparr>gs_undo_log := ul_log a (log_count (gs_logger g)) (gs_undo_log g)\<rparr>"

definition log_action_at :: "game_action \<Rightarrow> nat \<Rightarrow> game_state \<Rightarrow> game_state" where
  "log_action_at a prior g = g\<lparr>gs_undo_log := ul_log a prior (gs_undo_log g)\<rparr>"

definition game_log :: "string \<Rightarrow> game_state \<Rightarrow> game_state" where
  "game_log m g = g\<lparr>gs_logger := gamelog m (gs_logger g)\<rparr>"

subsection \<open>Identifiers, cards and players\<close>

definition next_id :: "game_state \<Rightarrow> game_state \<times> u32" where
  "next_id g = (g\<lparr>gs_next_entity_id := gs_next_entity_id g + 1\<rparr>, gs_next_entity_id g)"

definition next_card_id :: "game_state \<Rightarrow> game_state \<times> card_id" where "next_card_id g = next_id g"

definition next_player_id :: "game_state \<Rightarrow> game_state \<times> player_id" where "next_player_id g = next_id g"

definition set_next_entity_id :: "u32 \<Rightarrow> game_state \<Rightarrow> game_state" where
  "set_next_entity_id i g = g\<lparr>gs_next_entity_id := i\<rparr>"

definition card_of :: "game_state \<Rightarrow> card_id \<Rightarrow> card option" where
  "card_of g c = store_try_get (gs_cards g) c"

definition map_card :: "card_id \<Rightarrow> (card \<Rightarrow> card) \<Rightarrow> game_state \<Rightarrow> game_state" where
  "map_card c f g = g\<lparr>gs_cards := store_try_mut c f (gs_cards g)\<rparr>"

definition map_cards :: "(card \<Rightarrow> card) \<Rightarrow> game_state \<Rightarrow> game_state" where
  "map_cards f g = g\<lparr>gs_cards := store_values_mut f (gs_cards g)\<rparr>"

definition try_get_player :: "game_state \<Rightarrow> player_id \<Rightarrow> player option" where
  "try_get_player g p = find_player (gs_players g) p"

definition get_player :: "game_state \<Rightarrow> player_id \<Rightarrow> mtg_error + player" where
  "get_player g p = (case find_player (gs_players g) p of
     Some x \<Rightarrow> Inr x | None \<Rightarrow> Inl (MtgEntityNotFound p))"

definition map_player :: "player_id \<Rightarrow> (player \<Rightarrow> player) \<Rightarrow> game_state \<Rightarrow> game_state" where
  "map_player p f g = g\<lparr>gs_players := update_player p f (gs_players g)\<rparr>"

definition map_players :: "(player \<Rightarrow> player) \<Rightarrow> game_state \<Rightarrow> game_state" where
  "map_players f g = g\<lparr>gs_players := map f (gs_players g)\<rparr>"

definition player_display_name :: "game_state \<Rightarrow> player_id \<Rightarrow> string" where
  "player_display_name g p = (case try_get_player g p of
     Some x \<Rightarrow> p_name x | None \<Rightarrow> ''Player '' @ show_nat (unat (p + 1)))"

definition get_player_by_idx :: "game_state \<Rightarrow> nat \<Rightarrow> player option" where
  "get_player_by_idx g i = (if i < length (gs_players g) then Some (gs_players g ! i) else None)"

definition get_player_idx :: "game_state \<Rightarrow> player_id \<Rightarrow> nat option" where
  "get_player_idx g p = position_of p (map p_id (gs_players g))"

definition get_next_player_idx :: "game_state \<Rightarrow> nat \<Rightarrow> nat" where
  "get_next_player_idx g i = (i + 1) mod length (gs_players g)"

definition get_other_player_idx :: "game_state \<Rightarrow> nat \<Rightarrow> nat option" where
  "get_other_player_idx g i = (if length (gs_players g) = 2 then Some (1 - i) else None)"

definition get_other_player_id :: "game_state \<Rightarrow> player_id \<Rightarrow> player_id option" where
  "get_other_player_id g p = (if length (gs_players g) = 2
     then map_option p_id (find (\<lambda>x. p_id x \<noteq> p) (gs_players g)) else None)"

definition get_next_player :: "game_state \<Rightarrow> player_id \<Rightarrow> mtg_error + player_id" where
  "get_next_player g p = (case get_player_idx g p of
       None \<Rightarrow> Inl (MtgEntityNotFound p)
     | Some i \<Rightarrow> Inr (p_id (gs_players g ! get_next_player_idx g i)))"

definition is_game_over :: "game_state \<Rightarrow> bool" where
  "is_game_over g = (length (filter (\<lambda>p. \<not> p_has_lost p) (gs_players g)) \<le> 1)"

definition get_winner :: "game_state \<Rightarrow> player_id option" where
  "get_winner g = (if \<not> is_game_over g then None
     else map_option p_id (find (\<lambda>p. \<not> p_has_lost p) (gs_players g)))"

subsection \<open>Zones and mana caches\<close>

text \<open>\<open>iter().find(|(id, _)| *id == player)\<close> and the write through \<open>iter_mut().find\<close>.\<close>

definition find_entry :: "('k \<times> 'v) list \<Rightarrow> 'k \<Rightarrow> 'v option" where
  "find_entry xs k = map_option snd (find (\<lambda>e. fst e = k) xs)"

definition map_entry :: "'k \<Rightarrow> ('v \<Rightarrow> 'v) \<Rightarrow> ('k \<times> 'v) list \<Rightarrow> ('k \<times> 'v) list" where
  "map_entry k f xs = update_first (\<lambda>e. fst e = k) (\<lambda>e. (fst e, f (snd e))) xs"

definition get_player_zones :: "game_state \<Rightarrow> player_id \<Rightarrow> player_zones option" where
  "get_player_zones g p = find_entry (gs_player_zones g) p"

definition map_player_zones :: "player_id \<Rightarrow> (player_zones \<Rightarrow> player_zones) \<Rightarrow> game_state \<Rightarrow> game_state" where
  "map_player_zones p f g = g\<lparr>gs_player_zones := map_entry p f (gs_player_zones g)\<rparr>"

definition is_card_in_exile :: "game_state \<Rightarrow> card_id \<Rightarrow> bool" where
  "is_card_in_exile g c = list_ex (\<lambda>(_, z). c \<in> set (z_cards (pz_exile z))) (gs_player_zones g)"

definition get_mana_cache :: "game_state \<Rightarrow> player_id \<Rightarrow> mana_source_cache option" where
  "get_mana_cache g p = find_entry (gs_mana_caches g) p"

definition map_mana_caches :: "(mana_source_cache \<Rightarrow> mana_source_cache) \<Rightarrow> game_state \<Rightarrow> game_state" where
  "map_mana_caches f g = g\<lparr>gs_mana_caches := map (\<lambda>(p, m). (p, f m)) (gs_mana_caches g)\<rparr>"

definition ensure_mana_cache :: "player_id \<Rightarrow> game_state \<Rightarrow> game_state" where
  "ensure_mana_cache p g = (if list_ex (\<lambda>(i, _). i = p) (gs_mana_caches g) then g
     else g\<lparr>gs_mana_caches := gs_mana_caches g @ [(p, mark_dirty (msx_new p))]\<rparr>)"

definition ensure_mana_caches_for_all_players :: "game_state \<Rightarrow> game_state" where
  "ensure_mana_caches_for_all_players g =
     foldl (\<lambda>g p. ensure_mana_cache p g) g (map p_id (gs_players g))"

definition rebuild_mana_cache_if_needed :: "player_id \<Rightarrow> game_state \<Rightarrow> game_state" where
  "rebuild_mana_cache_if_needed p g = (let g1 = ensure_mana_cache p g;
       needs = (case get_mana_cache g1 p of Some m \<Rightarrow> msx_needs_rebuild m | None \<Rightarrow> False) in
     if \<not> needs then g1
     else g1\<lparr>gs_mana_caches := map_entry p
       (rebuild_from_battlefield (card_of g1) (z_cards (gs_battlefield g1))) (gs_mana_caches g1)\<rparr>)"

text \<open>Serialization into a buffer of 64 bytes fails for a longer state.\<close>

definition capture_rng_state :: "game_state \<Rightarrow> u8 list option" where
  "capture_rng_state g = (if length (gs_rng g) \<le> 64 then Some (gs_rng g) else None)"

subsection \<open>Lookup contracts\<close>

interpretation entries: entity_map find_entry map_entry "\<lambda>_. True"
proof (unfold_locales, goal_cases)
  case (1 f k s)
  show ?case by (simp add: find_entry_def map_entry_def update_first_find option.map_comp comp_def)
next
  case (2 f k k' s)
  then have "find (\<lambda>e. fst e = k') (update_first (\<lambda>e. fst e = k) (\<lambda>e. (fst e, f (snd e))) s)
      = find (\<lambda>e. fst e = k') s"
    by (intro update_first_find_other) auto
  then show ?case by (simp add: find_entry_def map_entry_def)
next
  case (3 g k f s)
  show ?case by (simp add: map_entry_def update_first_compose comp_def)
next
  case (4 s k f g)
  then show ?case
    by (auto simp: find_entry_def map_entry_def intro!: update_first_cong_on)
next
  case (5 k s)
  show ?case by (simp add: map_entry_def update_first_id_on)
qed

lemma card_of_map_card:
  "card_of (map_card c f g) c' = (if c = c' then map_option f (card_of g c') else card_of g c')"
  by (simp add: card_of_def map_card_def store.lookup_modify_if)

lemma card_of_map_card_same [simp]: "card_of (map_card c f g) c = map_option f (card_of g c)"
  by (simp add: card_of_map_card)

lemma try_get_player_map_player [simp]:
  "keeps_id f \<Longrightarrow> try_get_player (map_player p f g) p = map_option f (try_get_player g p)"
  by (simp add: try_get_player_def map_player_def players.lookup_modify)

lemma get_player_zones_map_player_zones [simp]:
  "get_player_zones (map_player_zones p f g) p = map_option f (get_player_zones g p)"
  by (simp add: get_player_zones_def map_player_zones_def entries.lookup_modify)

subsection \<open>The durable part of a state\<close>

definition durable :: "game_state \<Rightarrow> game_state" where
  "durable g = g\<lparr>gs_undo_log := undo_log_new, gs_logger := logger_new, gs_mana_caches := [],
     gs_mana_state_version := 0, gs_scratch := scratch_default\<rparr>"

lemma durable_simps [simp]:
  "durable (g\<lparr>gs_undo_log := l\<rparr>) = durable g" "durable (g\<lparr>gs_logger := lg\<rparr>) = durable g"
  "durable (g\<lparr>gs_mana_caches := mc\<rparr>) = durable g"
  "durable (g\<lparr>gs_mana_state_version := v\<rparr>) = durable g" "durable (g\<lparr>gs_scratch := sc\<rparr>) = durable g"
  "durable (durable g) = durable g"
  "durable (log_action a g) = durable g" "durable (log_action_at a n g) = durable g"
  "durable (game_log m g) = durable g" "durable (increment_mana_version g) = durable g"
  "durable (map_mana_caches f g) = durable g"
  by (simp_all add: durable_def log_action_def log_action_at_def game_log_def
      increment_mana_version_def map_mana_caches_def)

lemma log_action_fields [simp]:
  "gs_cards (log_action a g) = gs_cards g" "gs_players (log_action a g) = gs_players g"
  "gs_logger (log_action a g) = gs_logger g" "gs_turn (log_action a g) = gs_turn g"
  "gs_player_zones (log_action a g) = gs_player_zones g" "card_of (log_action a g) = card_of g"
  "gs_combat (log_action a g) = gs_combat g" "gs_battlefield (log_action a g) = gs_battlefield g"
  by (simp_all add: log_action_def card_of_def fun_eq_iff)

text \<open>Reading a durable field, and writing one, commutes with forgetting the others.\<close>

lemma durable_fields [simp]:
  "gs_cards (durable g) = gs_cards g" "gs_players (durable g) = gs_players g"
  "gs_player_zones (durable g) = gs_player_zones g" "gs_battlefield (durable g) = gs_battlefield g"
  "gs_stack (durable g) = gs_stack g" "gs_turn (durable g) = gs_turn g"
  "gs_combat (durable g) = gs_combat g" "gs_rng (durable g) = gs_rng g"
  "gs_next_entity_id (durable g) = gs_next_entity_id g"
  "gs_delayed_triggers (durable g) = gs_delayed_triggers g"
  "gs_extra_turns (durable g) = gs_extra_turns g" "card_of (durable g) = card_of g"
  "try_get_player (durable g) = try_get_player g" "get_player_zones (durable g) = get_player_zones g"
  by (simp_all add: durable_def card_of_def try_get_player_def get_player_zones_def fun_eq_iff)

lemma durable_writes [simp]:
  "durable (map_card c f g) = map_card c f (durable g)"
  "durable (map_cards f g) = map_cards f (durable g)"
  "durable (map_player p h g) = map_player p h (durable g)"
  "durable (map_players h g) = map_players h (durable g)"
  "durable (map_player_zones p k g) = map_player_zones p k (durable g)"
  "durable (set_next_entity_id i g) = set_next_entity_id i (durable g)"
  "durable (g\<lparr>gs_cards := cs\<rparr>) = (durable g)\<lparr>gs_cards := cs\<rparr>"
  "durable (g\<lparr>gs_players := ps\<rparr>) = (durable g)\<lparr>gs_players := ps\<rparr>"
  "durable (g\<lparr>gs_player_zones := zs\<rparr>) = (durable g)\<lparr>gs_player_zones := zs\<rparr>"
  "durable (g\<lparr>gs_battlefield := bf\<rparr>) = (durable g)\<lparr>gs_battlefield := bf\<rparr>"
  "durable (g\<lparr>gs_stack := st\<rparr>) = (durable g)\<lparr>gs_stack := st\<rparr>"
  "durable (g\<lparr>gs_turn := t\<rparr>) = (durable g)\<lparr>gs_turn := t\<rparr>"
  "durable (g\<lparr>gs_combat := cb\<rparr>) = (durable g)\<lparr>gs_combat := cb\<rparr>"
  "durable (g\<lparr>gs_rng := r\<rparr>) = (durable g)\<lparr>gs_rng := r\<rparr>"
  "durable (g\<lparr>gs_delayed_triggers := d\<rparr>) = (durable g)\<lparr>gs_delayed_triggers := d\<rparr>"
  "durable (g\<lparr>gs_remembered_amount := ra\<rparr>) = (durable g)\<lparr>gs_remembered_amount := ra\<rparr>"
  "durable (g\<lparr>gs_remembered_name := rn\<rparr>) = (durable g)\<lparr>gs_remembered_name := rn\<rparr>"
  "durable (g\<lparr>gs_extra_turns := et\<rparr>) = (durable g)\<lparr>gs_extra_turns := et\<rparr>"
  by (simp_all add: durable_def map_card_def map_cards_def map_player_def map_players_def
      map_player_zones_def set_next_entity_id_def)

text \<open>Two states with the same durable part differ only by the fields \<open>durable\<close> erases.\<close>

lemma durable_eq_iff:
  "durable g = durable h \<longleftrightarrow> h = g\<lparr>gs_undo_log := gs_undo_log h, gs_logger := gs_logger h,
     gs_mana_caches := gs_mana_caches h, gs_mana_state_version := gs_mana_state_version h,
     gs_scratch := gs_scratch h\<rparr>"
  by (cases g; cases h) (auto simp: durable_def)

lemma map_card_cancel:
  assumes "\<And>k. card_of g c = Some k \<Longrightarrow> f (h k) = k"
  shows "map_card c f (map_card c h g) = g"
  using store.modify_cancel [of "gs_cards g" c f h] assms by (simp add: map_card_def card_of_def)

lemma map_player_cancel:
  assumes "keeps_id h" "\<And>x. try_get_player g p = Some x \<Longrightarrow> f (h x) = x"
  shows "map_player p f (map_player p h g) = g"
  using players.modify_cancel [of h "gs_players g" p f] assms
  by (simp add: map_player_def try_get_player_def)

lemma map_player_zones_cancel:
  assumes "\<And>z. get_player_zones g p = Some z \<Longrightarrow> f (h z) = z"
  shows "map_player_zones p f (map_player_zones p h g) = g"
  using entries.modify_cancel [of "gs_player_zones g" p f h] assms
  by (simp add: map_player_zones_def get_player_zones_def)

lemma map_card_absent: "card_of g c = None \<Longrightarrow> map_card c f g = g"
  by (simp add: map_card_def card_of_def store.modify_absent)

end
