(* ===== verification/Journal.thy ===== *)
theory Journal
  imports Main
begin

section \<open>Journalled state\<close>

text \<open>
  The interface between the operations of the game and its undo log: a state has a view (what undo
  is meant to restore), a list of actions, and a reversal of one action which acts on the view. An
  operation is \<open>reversible\<close> when the actions it appended, reversed from the last to the first,
  give back the view it started from. The locale shows that reversibility composes, so that it
  holds of every run of reversible operations and that rewinding to any earlier point of a run
  restores the view of that point.
\<close>

definition revert_all :: "('a \<Rightarrow> 's \<Rightarrow> 's) \<Rightarrow> 'a list \<Rightarrow> 's \<Rightarrow> 's" where
  "revert_all revert as s = foldr revert as s"

definition reversible ::
  "('s \<Rightarrow> 'v) \<Rightarrow> ('s \<Rightarrow> 'a list) \<Rightarrow> ('a \<Rightarrow> 's \<Rightarrow> 's) \<Rightarrow> 's \<Rightarrow> 's \<Rightarrow> bool" where
  "reversible view actions revert s s' \<longleftrightarrow>
     (\<exists>as. actions s' = actions s @ as \<and> view (revert_all revert as s') = view s)"

lemma revert_all_simps [simp]:
  "revert_all revert [] s = s" "revert_all revert [a] s = revert a s"
  "revert_all revert (as @ bs) s = revert_all revert as (revert_all revert bs s)"
  by (simp_all add: revert_all_def)

locale journal =
  fixes view :: "'s \<Rightarrow> 'v"
    and actions :: "'s \<Rightarrow> 'a list"
    and revert :: "'a \<Rightarrow> 's \<Rightarrow> 's"
  assumes revert_view: "view s = view t \<Longrightarrow> view (revert a s) = view (revert a t)"
begin

lemma revert_all_view: "view s = view t \<Longrightarrow> view (revert_all revert as s) = view (revert_all revert as t)"
  by (induction as) (simp_all add: revert_all_def revert_view [of "foldr revert _ s" "foldr revert _ t"])

lemma reversible_refl: "reversible view actions revert s s"
  unfolding reversible_def by (rule exI [of _ "[]"]) simp

lemma reversible_silent:
  "actions s' = actions s \<Longrightarrow> view s' = view s \<Longrightarrow> reversible view actions revert s s'"
  unfolding reversible_def by (rule exI [of _ "[]"]) simp

lemma reversible_one:
  "actions s' = actions s @ [a] \<Longrightarrow> view (revert a s') = view s \<Longrightarrow> reversible view actions revert s s'"
  unfolding reversible_def by (rule exI [of _ "[a]"]) simp

lemma reversible_trans:
  assumes "reversible view actions revert s t" "reversible view actions revert t u"
  shows "reversible view actions revert s u"
proof -
  from assms obtain as bs where
    as: "actions t = actions s @ as" "view (revert_all revert as t) = view s" and
    bs: "actions u = actions t @ bs" "view (revert_all revert bs u) = view t"
    unfolding reversible_def by blast
  have "view (revert_all revert (as @ bs) u) = view s"
    using revert_all_view [OF bs(2), of as] as(2) by simp
  then show ?thesis using as(1) bs(1) unfolding reversible_def by (intro exI [of _ "as @ bs"]) simp
qed

lemma reversible_same_view:
  assumes "reversible view actions revert s t" "actions u = actions t" "view u = view t"
  shows "reversible view actions revert s u"
  using reversible_trans [OF assms(1) reversible_silent [OF assms(2,3)]] .

lemma reversible_foldl:
  assumes "\<And>s x. x \<in> set xs \<Longrightarrow> reversible view actions revert s (f s x)"
  shows "reversible view actions revert s (foldl f s xs)"
  using assms
proof (induction xs arbitrary: s)
  case (Cons x xs)
  then have "reversible view actions revert (f s x) (foldl f (f s x) xs)" by simp
  then show ?case using Cons.prems [of x s] by (auto intro: reversible_trans)
qed (simp add: reversible_refl)

lemma reversible_run:
  assumes "\<And>s s'. step s s' \<Longrightarrow> reversible view actions revert s s'" "step\<^sup>*\<^sup>* s s'"
  shows "reversible view actions revert s s'"
  using assms(2) by induction (auto intro: reversible_refl reversible_trans assms(1))

text \<open>The log determines the rewound view: the actions past the length it had are what is reversed.\<close>

lemma reversible_iff_drop:
  "reversible view actions revert s s' \<longleftrightarrow> take (length (actions s)) (actions s') = actions s
     \<and> view (revert_all revert (drop (length (actions s)) (actions s')) s') = view s"
proof
  assume "take (length (actions s)) (actions s') = actions s
     \<and> view (revert_all revert (drop (length (actions s)) (actions s')) s') = view s"
  then show "reversible view actions revert s s'"
    unfolding reversible_def
    by (intro exI [of _ "drop (length (actions s)) (actions s')"]) (metis append_take_drop_id)
qed (auto simp: reversible_def)

end

end
