(* ===== verification/Undo.thy ===== *)
theory Undo
  imports GameState Journal
begin

section \<open>Undoing an action\<close>

text \<open>
  \<open>GameAction::undo\<close> of \<open>mtg-engine/src/undo.rs\<close>: one definition per arm and the dispatch. The
  method returns \<open>Result<(), String>\<close> and its callers continue after an \<open>Err\<close>, so the model returns
  the state as it was left together with the message, \<open>None\<close> for \<open>Ok\<close>. Deserializing a generator
  state is the argument \<open>deser\<close>. Some arms report a missing card or player and some tolerate it;
  the four helpers below are the shapes the source uses.
\<close>

type_synonym undo_result = "game_state \<times> string option"

definition not_found :: "string \<Rightarrow> u32 \<Rightarrow> string \<Rightarrow> string" where
  "not_found what i arm = what @ '' '' @ show_nat (unat i) @ '' not found for '' @ arm @ '' undo''"

definition undo_card :: "string \<Rightarrow> card_id \<Rightarrow> (card \<Rightarrow> card) \<Rightarrow> game_state \<Rightarrow> undo_result" where
  "undo_card arm c f g = (if card_of g c = None then (g, Some (not_found ''Card'' c arm))
     else (map_card c f g, None))"

definition undo_card_tolerant :: "card_id \<Rightarrow> (card \<Rightarrow> card) \<Rightarrow> game_state \<Rightarrow> undo_result" where
  "undo_card_tolerant c f g = (map_card c f g, None)"

definition undo_player :: "string \<Rightarrow> player_id \<Rightarrow> (player \<Rightarrow> player) \<Rightarrow> game_state \<Rightarrow> undo_result" where
  "undo_player arm p f g = (if try_get_player g p = None then (g, Some (not_found ''Player'' p arm))
     else (map_player p f g, None))"

definition undo_player_tolerant :: "player_id \<Rightarrow> (player \<Rightarrow> player) \<Rightarrow> game_state \<Rightarrow> undo_result" where
  "undo_player_tolerant p f g = (map_player p f g, None)"

subsection \<open>Zone moves\<close>

text \<open>Shared zones are fields of the game; the other five belong to the owner.\<close>

definition zone_of :: "game_state \<Rightarrow> zone \<Rightarrow> player_id \<Rightarrow> card_zone option" where
  "zone_of g z p = (case z of
       Battlefield \<Rightarrow> Some (gs_battlefield g)
     | Stack \<Rightarrow> Some (gs_stack g)
     | _ \<Rightarrow> (case get_player_zones g p of Some zs \<Rightarrow> get_zone zs z | None \<Rightarrow> None))"

definition map_zone :: "zone \<Rightarrow> player_id \<Rightarrow> (card_zone \<Rightarrow> card_zone) \<Rightarrow> game_state \<Rightarrow> game_state" where
  "map_zone z p f g = (case z of
       Battlefield \<Rightarrow> g\<lparr>gs_battlefield := f (gs_battlefield g)\<rparr>
     | Stack \<Rightarrow> g\<lparr>gs_stack := f (gs_stack g)\<rparr>
     | _ \<Rightarrow> map_player_zones p (get_zone_mut z f) g)"

definition remove_from_zone :: "card_id \<Rightarrow> zone \<Rightarrow> player_id \<Rightarrow> game_state \<Rightarrow> game_state \<times> bool" where
  "remove_from_zone c z p g = (case zone_of g z p of
       Some cz \<Rightarrow> (map_zone z p (\<lambda>cz. fst (zone_remove cz c)) g, snd (zone_remove cz c))
     | None \<Rightarrow> (g, False))"

definition undo_move_card ::
  "card_id \<Rightarrow> zone \<Rightarrow> zone \<Rightarrow> player_id \<Rightarrow> u32 option \<Rightarrow> game_state \<Rightarrow> undo_result" where
  "undo_move_card c from_zone to_zone ow from_position g =
     (let (g1, removed) = remove_from_zone c to_zone ow g in
      if \<not> removed then (g1, None)
      else (map_zone from_zone ow (\<lambda>z. case from_position of
              Some p \<Rightarrow> zone_add_at z c (unat p) | None \<Rightarrow> zone_add z c) g1, None))"

subsection \<open>Card fields\<close>

definition undo_tap_card :: "card_id \<Rightarrow> bool \<Rightarrow> game_state \<Rightarrow> undo_result" where
  "undo_tap_card c tapped g = (if card_of g c = None
     then (g, Some (not_found ''Card'' c ''TapCard''))
     else (increment_mana_version (map_card c (\<lambda>k. k\<lparr>c_tapped := \<not> tapped\<rparr>) g), None))"

definition undo_set_chosen_color :: "card_id \<Rightarrow> color option \<Rightarrow> game_state \<Rightarrow> undo_result" where
  "undo_set_chosen_color c prev = undo_card ''SetChosenColor'' c (\<lambda>k. k\<lparr>c_chosen_color := prev\<rparr>)"

definition undo_set_chosen_player :: "card_id \<Rightarrow> player_id option \<Rightarrow> game_state \<Rightarrow> undo_result" where
  "undo_set_chosen_player c prev = undo_card ''SetChosenPlayer'' c (\<lambda>k. k\<lparr>c_chosen_player := prev\<rparr>)"

definition undo_set_chosen_mode :: "card_id \<Rightarrow> string option \<Rightarrow> game_state \<Rightarrow> undo_result" where
  "undo_set_chosen_mode c prev = undo_card ''SetChosenMode'' c (\<lambda>k. k\<lparr>c_chosen_mode := prev\<rparr>)"

definition undo_set_chosen_name :: "card_id \<Rightarrow> string option \<Rightarrow> game_state \<Rightarrow> undo_result" where
  "undo_set_chosen_name c prev = undo_card ''SetChosenName'' c (\<lambda>k. k\<lparr>c_chosen_name := prev\<rparr>)"

definition undo_set_remembered_name :: "string option \<Rightarrow> game_state \<Rightarrow> undo_result" where
  "undo_set_remembered_name prev g = (g\<lparr>gs_remembered_name := prev\<rparr>, None)"

definition undo_set_stored_int :: "card_id \<Rightarrow> u32 option \<Rightarrow> game_state \<Rightarrow> undo_result" where
  "undo_set_stored_int c prev = undo_card ''SetStoredInt'' c (\<lambda>k. k\<lparr>c_stored_int := prev\<rparr>)"

definition undo_add_counter :: "card_id \<Rightarrow> counter_type \<Rightarrow> u8 \<Rightarrow> game_state \<Rightarrow> undo_result" where
  "undo_add_counter c t n = undo_card ''AddCounter'' c (\<lambda>k. fst (remove_counter t n k))"

definition undo_remove_counter :: "card_id \<Rightarrow> counter_type \<Rightarrow> u8 \<Rightarrow> game_state \<Rightarrow> undo_result" where
  "undo_remove_counter c t n = undo_card ''RemoveCounter'' c (add_counter t n)"

definition undo_pump_creature ::
  "card_id \<Rightarrow> i32 \<Rightarrow> i32 \<Rightarrow> keyword list \<Rightarrow> keyword_args list \<Rightarrow> game_state \<Rightarrow> undo_result" where
  "undo_pump_creature c power_delta toughness_delta kws kas =
     undo_card ''PumpCreature'' c (\<lambda>k. let ks = kws @ map args_keyword kas in
       k\<lparr>c_power_bonus := c_power_bonus k - power_delta,
         c_toughness_bonus := c_toughness_bonus k - toughness_delta,
         c_keywords := foldl kw_remove (c_keywords k) ks,
         c_temp_keywords_until_eot := foldl kw_remove (c_temp_keywords_until_eot k) ks\<rparr>)"

definition undo_debuff_creature :: "card_id \<Rightarrow> keyword list \<Rightarrow> game_state \<Rightarrow> undo_result" where
  "undo_debuff_creature c kws =
     undo_card ''DebuffCreature'' c (\<lambda>k. k\<lparr>c_keywords := foldl kw_insert (c_keywords k) kws\<rparr>)"

definition undo_set_turn_entered :: "card_id \<Rightarrow> u32 option \<Rightarrow> game_state \<Rightarrow> undo_result" where
  "undo_set_turn_entered c old =
     undo_card ''SetTurnEnteredBattlefield'' c (\<lambda>k. k\<lparr>c_turn_entered_battlefield := old\<rparr>)"

definition undo_change_controller :: "card_id \<Rightarrow> player_id \<Rightarrow> game_state \<Rightarrow> undo_result" where
  "undo_change_controller c old = undo_card ''ChangeController'' c (\<lambda>k. k\<lparr>c_controller := old\<rparr>)"

definition undo_set_attached_to :: "card_id \<Rightarrow> card_id option \<Rightarrow> game_state \<Rightarrow> undo_result" where
  "undo_set_attached_to c old g = (if card_of g c = None
     then (g, Some (not_found ''Equipment'' c ''SetAttachedTo''))
     else (map_card c (\<lambda>k. k\<lparr>c_attached_to := old\<rparr>) g, None))"

definition undo_reveal_card :: "card_id \<Rightarrow> string option \<Rightarrow> u8 \<Rightarrow> game_state \<Rightarrow> undo_result" where
  "undo_reveal_card c name old_mask g =
     (let is_late_binding = (name = None \<and> old_mask = 0);
          cleared = g\<lparr>gs_cards := fst (store_clear (gs_cards g) c)\<rparr> in
      if card_of g c \<noteq> None
      then (if is_late_binding then (cleared, None)
            else (map_card c (\<lambda>k. k\<lparr>c_revealed_to_mask := old_mask\<rparr>) g, None))
      else if old_mask = 0 \<and> name \<noteq> None then (cleared, None) else (g, None))"

definition undo_set_revealed_to_mask :: "card_id \<Rightarrow> u8 \<Rightarrow> game_state \<Rightarrow> undo_result" where
  "undo_set_revealed_to_mask c old = undo_card_tolerant c (\<lambda>k. k\<lparr>c_revealed_to_mask := old\<rparr>)"

definition undo_set_loyalty_activated :: "card_id \<Rightarrow> bool \<Rightarrow> game_state \<Rightarrow> undo_result" where
  "undo_set_loyalty_activated c old =
     undo_card ''SetLoyaltyActivated'' c (\<lambda>k. k\<lparr>c_loyalty_activated_this_turn := old\<rparr>)"

definition undo_set_temp_base_stats :: "card_id \<Rightarrow> i8 option \<Rightarrow> i8 option \<Rightarrow> game_state \<Rightarrow> undo_result" where
  "undo_set_temp_base_stats c pp pt = undo_card_tolerant c (restore_temp_base_stats pp pt)"

text \<open>The refresh of the type flags two arms end with.\<close>

definition refresh_typeline_cache :: "card \<Rightarrow> card" where
  "refresh_typeline_cache k = map_cache
     (\<lambda>cc. update_from_subtypes (c_subtypes k) (c_name k) (update_from_types (c_types k) cc)) k"

definition undo_animate_typeline ::
  "card_id \<Rightarrow> card_type list \<Rightarrow> string list \<Rightarrow> card_type list \<Rightarrow> string list \<Rightarrow> string list
    \<Rightarrow> keyword list \<Rightarrow> keyword_args list \<Rightarrow> game_state \<Rightarrow> undo_result" where
  "undo_animate_typeline c types subtypes ta_types ta_subtypes tr_subtypes kws kas =
     undo_card_tolerant c (\<lambda>k. refresh_typeline_cache
       (k\<lparr>c_types := types, c_subtypes := subtypes, c_temp_animate_types := ta_types,
          c_temp_animate_subtypes := ta_subtypes, c_temp_removed_subtypes := tr_subtypes,
          c_keywords := foldl kw_remove (c_keywords k) (kws @ map args_keyword kas)\<rparr>))"

definition undo_mark_damaged_by :: "card_id \<Rightarrow> card_id \<Rightarrow> game_state \<Rightarrow> undo_result" where
  "undo_mark_damaged_by target source = undo_card_tolerant target
     (\<lambda>k. k\<lparr>c_damaged_by_this_turn := remove_last source (c_damaged_by_this_turn k)\<rparr>)"

definition undo_mark_dealt_damage :: "card_id \<Rightarrow> bool \<Rightarrow> game_state \<Rightarrow> undo_result" where
  "undo_mark_dealt_damage c prev =
     undo_card_tolerant c (\<lambda>k. k\<lparr>c_dealt_damage_to_opponent_this_turn := prev\<rparr>)"

definition undo_mark_attacked :: "card_id \<Rightarrow> bool \<Rightarrow> game_state \<Rightarrow> undo_result" where
  "undo_mark_attacked c prev = undo_card_tolerant c (\<lambda>k. k\<lparr>c_attacked_this_turn := prev\<rparr>)"

definition undo_clone_card :: "card_id \<Rightarrow> card_copiable_state \<Rightarrow> game_state \<Rightarrow> undo_result" where
  "undo_clone_card c prev = undo_card_tolerant c (\<lambda>k. refresh_typeline_cache
       (restore_copiable_state prev k))"

definition undo_set_card_counters :: "card_id \<Rightarrow> (counter_type \<times> u8) list \<Rightarrow> game_state \<Rightarrow> undo_result" where
  "undo_set_card_counters c prev = undo_card_tolerant c (\<lambda>k. k\<lparr>c_counters := prev\<rparr>)"

definition undo_set_damage :: "card_id \<Rightarrow> i32 \<Rightarrow> game_state \<Rightarrow> undo_result" where
  "undo_set_damage c prev = undo_card_tolerant c (\<lambda>k. k\<lparr>c_damage := prev\<rparr>)"

definition undo_set_x_paid :: "card_id \<Rightarrow> u8 \<Rightarrow> game_state \<Rightarrow> undo_result" where
  "undo_set_x_paid c prev = undo_card_tolerant c (\<lambda>k. k\<lparr>c_x_paid := prev\<rparr>)"

definition undo_set_times_kicked :: "card_id \<Rightarrow> u8 \<Rightarrow> game_state \<Rightarrow> undo_result" where
  "undo_set_times_kicked c prev = undo_card_tolerant c (\<lambda>k. k\<lparr>c_times_kicked := prev\<rparr>)"

definition undo_set_bargain_paid :: "card_id \<Rightarrow> bool \<Rightarrow> game_state \<Rightarrow> undo_result" where
  "undo_set_bargain_paid c prev = undo_card_tolerant c (\<lambda>k. k\<lparr>c_bargain_paid := prev\<rparr>)"

definition undo_set_kicker_paid :: "card_id \<Rightarrow> bool \<Rightarrow> game_state \<Rightarrow> undo_result" where
  "undo_set_kicker_paid c prev = undo_card_tolerant c (\<lambda>k. k\<lparr>c_kicker_paid := prev\<rparr>)"

definition undo_set_offspring_paid :: "card_id \<Rightarrow> bool \<Rightarrow> game_state \<Rightarrow> undo_result" where
  "undo_set_offspring_paid c prev = undo_card_tolerant c (\<lambda>k. k\<lparr>c_offspring_paid := prev\<rparr>)"

definition undo_set_mode_cost_paid :: "card_id \<Rightarrow> u8 \<Rightarrow> game_state \<Rightarrow> undo_result" where
  "undo_set_mode_cost_paid c prev = undo_card_tolerant c (\<lambda>k. k\<lparr>c_mode_cost_paid := prev\<rparr>)"

definition undo_restore_card_state :: "card_id \<Rightarrow> card_state_snapshot \<Rightarrow> game_state \<Rightarrow> undo_result" where
  "undo_restore_card_state c snap = undo_card ''RestoreCardState'' c (restore_state_snapshot snap)"

subsection \<open>Player fields\<close>

definition undo_modify_life :: "player_id \<Rightarrow> i32 \<Rightarrow> game_state \<Rightarrow> undo_result" where
  "undo_modify_life p delta = undo_player ''ModifyLife'' p
     (\<lambda>x. let x' = x\<lparr>p_life := p_life x - delta\<rparr> in
        if 0 < sint (p_life x') then x'\<lparr>p_has_lost := False\<rparr> else x')"

definition undo_add_mana :: "player_id \<Rightarrow> mana_cost \<Rightarrow> game_state \<Rightarrow> undo_result" where
  "undo_add_mana p m = undo_player ''AddMana'' p (\<lambda>x. let mp = p_mana_pool x in
     x\<lparr>p_mana_pool := \<lparr>mp_white = sat_sub (mp_white mp) (mc_white m),
        mp_blue = sat_sub (mp_blue mp) (mc_blue m), mp_black = sat_sub (mp_black mp) (mc_black m),
        mp_red = sat_sub (mp_red mp) (mc_red m), mp_green = sat_sub (mp_green mp) (mc_green m),
        mp_colorless = sat_sub (mp_colorless mp) (mc_colorless m)\<rparr>\<rparr>)"

definition undo_empty_mana_pool ::
  "player_id \<Rightarrow> u8 \<Rightarrow> u8 \<Rightarrow> u8 \<Rightarrow> u8 \<Rightarrow> u8 \<Rightarrow> u8 \<Rightarrow> game_state \<Rightarrow> undo_result" where
  "undo_empty_mana_pool p w u b r gr cl = undo_player ''EmptyManaPool'' p
     (\<lambda>x. x\<lparr>p_mana_pool := \<lparr>mp_white = w, mp_blue = u, mp_black = b, mp_red = r, mp_green = gr,
        mp_colorless = cl\<rparr>\<rparr>)"

definition undo_set_lands_played :: "player_id \<Rightarrow> u8 \<Rightarrow> game_state \<Rightarrow> undo_result" where
  "undo_set_lands_played p old =
     undo_player ''SetLandsPlayedThisTurn'' p (\<lambda>x. x\<lparr>p_lands_played_this_turn := old\<rparr>)"

definition undo_set_cards_drawn :: "player_id \<Rightarrow> u8 \<Rightarrow> game_state \<Rightarrow> undo_result" where
  "undo_set_cards_drawn p old =
     undo_player ''SetCardsDrawnThisTurn'' p (\<lambda>x. x\<lparr>p_cards_drawn_this_turn := old\<rparr>)"

definition undo_set_spells_cast :: "player_id \<Rightarrow> u8 \<Rightarrow> game_state \<Rightarrow> undo_result" where
  "undo_set_spells_cast p old =
     undo_player ''SetSpellsCastThisTurn'' p (\<lambda>x. x\<lparr>p_spells_cast_this_turn := old\<rparr>)"

definition undo_set_commander_cast_count :: "player_id \<Rightarrow> u8 \<Rightarrow> game_state \<Rightarrow> undo_result" where
  "undo_set_commander_cast_count p old =
     undo_player ''SetCommanderCastCount'' p (\<lambda>x. x\<lparr>p_commander_cast_count := old\<rparr>)"

definition undo_set_commander_damage ::
  "player_id \<Rightarrow> player_id \<Rightarrow> u16 \<Rightarrow> game_state \<Rightarrow> undo_result" where
  "undo_set_commander_damage p from_player old = undo_player ''SetCommanderDamage'' p (\<lambda>x.
     let dmg1 = update_first (\<lambda>(pid, _). pid = from_player) (\<lambda>(pid, _). (pid, old))
           (p_commander_damage_taken x);
         dmg2 = (if old = 0 then filter (\<lambda>(pid, _). pid \<noteq> from_player) dmg1 else dmg1);
         x' = x\<lparr>p_commander_damage_taken := dmg2\<rparr>;
         still_lost = list_ex (\<lambda>(_, d). 21 \<le> d) dmg2 in
     if 0 < sint (p_life x') \<and> \<not> still_lost then x'\<lparr>p_has_lost := False\<rparr> else x')"

definition undo_set_skip_untap :: "player_id \<Rightarrow> bool \<Rightarrow> game_state \<Rightarrow> undo_result" where
  "undo_set_skip_untap p old = undo_player_tolerant p (\<lambda>x. x\<lparr>p_skip_untap_next_turn := old\<rparr>)"

definition undo_set_cant_cast :: "player_id \<Rightarrow> bool \<Rightarrow> game_state \<Rightarrow> undo_result" where
  "undo_set_cant_cast p old = undo_player_tolerant p (\<lambda>x. x\<lparr>p_cant_cast_spells := old\<rparr>)"

definition undo_set_source_shields ::
  "player_id \<Rightarrow> damage_prevention_shield list \<Rightarrow> game_state \<Rightarrow> undo_result" where
  "undo_set_source_shields p prev =
     undo_player_tolerant p (\<lambda>x. x\<lparr>p_source_prevention_shields := prev\<rparr>)"

definition undo_set_mana_pool :: "player_id \<Rightarrow> mana_pool \<Rightarrow> game_state \<Rightarrow> undo_result" where
  "undo_set_mana_pool p prev = undo_player_tolerant p (\<lambda>x. x\<lparr>p_mana_pool := prev\<rparr>)"

definition undo_set_combat_mana_pool :: "player_id \<Rightarrow> mana_pool option \<Rightarrow> game_state \<Rightarrow> undo_result" where
  "undo_set_combat_mana_pool p prev =
     undo_player_tolerant p (\<lambda>x. x\<lparr>p_combat_mana_pool := prev\<rparr>)"

subsection \<open>Fields of the game\<close>

definition undo_advance_step :: "step \<Rightarrow> game_state \<Rightarrow> undo_result" where
  "undo_advance_step from_step g = (g\<lparr>gs_turn := (gs_turn g)\<lparr>ts_current_step := from_step\<rparr>\<rparr>, None)"

definition restore_rng :: "(u8 list \<Rightarrow> rng option) \<Rightarrow> string \<Rightarrow> u8 list option \<Rightarrow> game_state \<Rightarrow> undo_result" where
  "restore_rng deser msg rng_state g = (case rng_state of
       None \<Rightarrow> (g, None)
     | Some bytes \<Rightarrow> (case deser bytes of Some r \<Rightarrow> (g\<lparr>gs_rng := r\<rparr>, None) | None \<Rightarrow> (g, Some msg)))"

definition undo_change_turn :: "(u8 list \<Rightarrow> rng option) \<Rightarrow> player_id \<Rightarrow> u32 \<Rightarrow> u8 list option
    \<Rightarrow> game_state \<Rightarrow> undo_result" where
  "undo_change_turn deser from_player turn_number rng_state g =
     restore_rng deser ''Failed to deserialize RNG state'' rng_state
       (g\<lparr>gs_turn := (gs_turn g)\<lparr>ts_active_player := from_player,
          ts_turn_number := if turn_number \<le> 1 then 1 else turn_number - 1\<rparr>\<rparr>)"

definition undo_shuffle_library :: "(u8 list \<Rightarrow> rng option) \<Rightarrow> player_id \<Rightarrow> card_id list
    \<Rightarrow> u8 list option \<Rightarrow> game_state \<Rightarrow> undo_result" where
  "undo_shuffle_library deser p previous_order rng_state g =
     (if get_player_zones g p = None
      then (g, Some (''Player '' @ show_nat (unat p) @ '' zones not found for ShuffleLibrary undo''))
      else restore_rng deser ''Failed to deserialize ShuffleLibrary RNG state'' rng_state
        (map_player_zones p (\<lambda>z. z\<lparr>pz_library := (pz_library z)\<lparr>z_cards := previous_order\<rparr>\<rparr>) g))"

definition undo_reorder_library :: "player_id \<Rightarrow> card_id list \<Rightarrow> card_id list option \<Rightarrow> game_state \<Rightarrow> undo_result" where
  "undo_reorder_library p previous_order previous_graveyard g = (map_player_zones p
     (\<lambda>z. let z1 = z\<lparr>pz_library := (pz_library z)\<lparr>z_cards := previous_order\<rparr>\<rparr> in
        case previous_graveyard of
          Some gy \<Rightarrow> z1\<lparr>pz_graveyard := (pz_graveyard z1)\<lparr>z_cards := gy\<rparr>\<rparr>
        | None \<Rightarrow> z1) g, None)"

definition undo_register_delayed_trigger :: "u32 \<Rightarrow> game_state \<Rightarrow> undo_result" where
  "undo_register_delayed_trigger i g =
     (g\<lparr>gs_delayed_triggers := fst (dts_undo_add i (gs_delayed_triggers g))\<rparr>, None)"

definition undo_fire_delayed_trigger :: "delayed_trigger \<Rightarrow> game_state \<Rightarrow> undo_result" where
  "undo_fire_delayed_trigger t g = (g\<lparr>gs_delayed_triggers := dts_restore t (gs_delayed_triggers g)\<rparr>, None)"

definition undo_set_remembered_amount :: "u32 option \<Rightarrow> game_state \<Rightarrow> undo_result" where
  "undo_set_remembered_amount prev g = (g\<lparr>gs_remembered_amount := prev\<rparr>, None)"

definition undo_declare_attacker_action :: "card_id \<Rightarrow> bool \<Rightarrow> game_state \<Rightarrow> undo_result" where
  "undo_declare_attacker_action c prev_active g =
     (g\<lparr>gs_combat := undo_declare_attacker c prev_active (gs_combat g)\<rparr>, None)"

definition undo_declare_blocker_action :: "card_id \<Rightarrow> card_id list \<Rightarrow> game_state \<Rightarrow> undo_result" where
  "undo_declare_blocker_action b attackers g =
     (g\<lparr>gs_combat := undo_declare_blocker b attackers (gs_combat g)\<rparr>, None)"

definition undo_clear_combat :: "combat_state \<Rightarrow> game_state \<Rightarrow> undo_result" where
  "undo_clear_combat prev g = (g\<lparr>gs_combat := prev\<rparr>, None)"

definition undo_push_extra_turn :: "player_id \<Rightarrow> game_state \<Rightarrow> undo_result" where
  "undo_push_extra_turn p g = (if gs_extra_turns g \<noteq> [] \<and> last (gs_extra_turns g) = p
     then (g\<lparr>gs_extra_turns := butlast (gs_extra_turns g)\<rparr>, None) else (g, None))"

definition undo_create_entity :: "card_id \<Rightarrow> game_state \<Rightarrow> undo_result" where
  "undo_create_entity c g =
     (set_next_entity_id c (g\<lparr>gs_battlefield := fst (zone_remove (gs_battlefield g) c),
        gs_cards := fst (clear_and_truncate (gs_cards g) c)\<rparr>), None)"

definition undo_regenerate :: "card_id \<Rightarrow> u8 \<Rightarrow> i32 \<Rightarrow> combat_state \<Rightarrow> game_state \<Rightarrow> undo_result" where
  "undo_regenerate c prev_shields prev_damage prev_combat g =
     ((map_card c (\<lambda>k. k\<lparr>c_regeneration_shields := prev_shields, c_damage := prev_damage\<rparr>) g)
        \<lparr>gs_combat := prev_combat\<rparr>, None)"

subsection \<open>The dispatch\<close>

primrec undo :: "game_action \<Rightarrow> (u8 list \<Rightarrow> rng option) \<Rightarrow> game_state \<Rightarrow> undo_result" where
  "undo (MoveCard c f t ow pos) = (\<lambda>_. undo_move_card c f t ow pos)"
| "undo (TapCard c b) = (\<lambda>_. undo_tap_card c b)"
| "undo (SetChosenColor c v) = (\<lambda>_. undo_set_chosen_color c v)"
| "undo (SetChosenPlayer c v) = (\<lambda>_. undo_set_chosen_player c v)"
| "undo (SetChosenMode c v) = (\<lambda>_. undo_set_chosen_mode c v)"
| "undo (SetChosenName c v) = (\<lambda>_. undo_set_chosen_name c v)"
| "undo (SetRememberedName v) = (\<lambda>_. undo_set_remembered_name v)"
| "undo (SetStoredInt c v) = (\<lambda>_. undo_set_stored_int c v)"
| "undo (ModifyLife p d) = (\<lambda>_. undo_modify_life p d)"
| "undo (AddMana p m) = (\<lambda>_. undo_add_mana p m)"
| "undo (EmptyManaPool p w u b r gr cl) = (\<lambda>_. undo_empty_mana_pool p w u b r gr cl)"
| "undo (AddCounter c t n) = (\<lambda>_. undo_add_counter c t n)"
| "undo (RemoveCounter c t n) = (\<lambda>_. undo_remove_counter c t n)"
| "undo (AdvanceStep s s') = (\<lambda>_. undo_advance_step s)"
| "undo (ChangeTurn p p' n r) = (\<lambda>ds. undo_change_turn ds p n r)"
| "undo (PumpCreature c dp dt ks kas) = (\<lambda>_. undo_pump_creature c dp dt ks kas)"
| "undo (DebuffCreature c ks) = (\<lambda>_. undo_debuff_creature c ks)"
| "undo (SetTurnEnteredBattlefield c old new) = (\<lambda>_. undo_set_turn_entered c old)"
| "undo (SetLandsPlayedThisTurn p old new) = (\<lambda>_. undo_set_lands_played p old)"
| "undo (SetSpellsCastThisTurn p old new) = (\<lambda>_. undo_set_spells_cast p old)"
| "undo (SetCardsDrawnThisTurn p old new) = (\<lambda>_. undo_set_cards_drawn p old)"
| "undo (ChangeController c old new) = (\<lambda>_. undo_change_controller c old)"
| "undo (SetAttachedTo c old new) = (\<lambda>_. undo_set_attached_to c old)"
| "undo (ChoicePoint p i ch) = (\<lambda>_ g. (g, None))"
| "undo (RevealCard c name to old) = (\<lambda>_. undo_reveal_card c name old)"
| "undo (SetRevealedToMask c old new) = (\<lambda>_. undo_set_revealed_to_mask c old)"
| "undo (SetLoyaltyActivated c old new) = (\<lambda>_. undo_set_loyalty_activated c old)"
| "undo (SetCommanderCastCount p old new) = (\<lambda>_. undo_set_commander_cast_count p old)"
| "undo (SetCommanderDamage p fp old new) = (\<lambda>_. undo_set_commander_damage p fp old)"
| "undo (ShuffleLibrary p order r) = (\<lambda>ds. undo_shuffle_library ds p order r)"
| "undo (RegisterDelayedTrigger i) = (\<lambda>_. undo_register_delayed_trigger i)"
| "undo (FireDelayedTrigger t) = (\<lambda>_. undo_fire_delayed_trigger t)"
| "undo (SetRememberedAmount v) = (\<lambda>_. undo_set_remembered_amount v)"
| "undo (DeclareAttacker c b) = (\<lambda>_. undo_declare_attacker_action c b)"
| "undo (DeclareBlocker b as) = (\<lambda>_. undo_declare_blocker_action b as)"
| "undo (ClearCombat prev) = (\<lambda>_. undo_clear_combat prev)"
| "undo (SetTempBaseStats c pp pt) = (\<lambda>_. undo_set_temp_base_stats c pp pt)"
| "undo (AnimateTypeline c ts ss tt tss rs ks kas) = (\<lambda>_. undo_animate_typeline c ts ss tt tss rs ks kas)"
| "undo (MarkDamagedBy t s) = (\<lambda>_. undo_mark_damaged_by t s)"
| "undo (MarkDealtDamageToOpponent c b) = (\<lambda>_. undo_mark_dealt_damage c b)"
| "undo (MarkAttackedThisTurn c b) = (\<lambda>_. undo_mark_attacked c b)"
| "undo (CloneCard c prev) = (\<lambda>_. undo_clone_card c prev)"
| "undo (PushExtraTurn p) = (\<lambda>_. undo_push_extra_turn p)"
| "undo (SetSkipUntapNextTurn p old new) = (\<lambda>_. undo_set_skip_untap p old)"
| "undo (SetCantCastSpells p old) = (\<lambda>_. undo_set_cant_cast p old)"
| "undo (CreateEntity c) = (\<lambda>_. undo_create_entity c)"
| "undo (SetCardCounters c prev) = (\<lambda>_. undo_set_card_counters c prev)"
| "undo (ReorderLibrary p order gy) = (\<lambda>_. undo_reorder_library p order gy)"
| "undo (RegenerateReplaceDestroy c sh d cb) = (\<lambda>_. undo_regenerate c sh d cb)"
| "undo (SetSourcePreventionShields p prev) = (\<lambda>_. undo_set_source_shields p prev)"
| "undo (SetCombatManaPool p prev) = (\<lambda>_. undo_set_combat_mana_pool p prev)"
| "undo (SetManaPool p prev) = (\<lambda>_. undo_set_mana_pool p prev)"
| "undo (SetDamage c prev) = (\<lambda>_. undo_set_damage c prev)"
| "undo (SetXPaid c prev) = (\<lambda>_. undo_set_x_paid c prev)"
| "undo (SetTimesKicked c prev) = (\<lambda>_. undo_set_times_kicked c prev)"
| "undo (SetBargainPaid c prev) = (\<lambda>_. undo_set_bargain_paid c prev)"
| "undo (SetKickerPaid c prev) = (\<lambda>_. undo_set_kicker_paid c prev)"
| "undo (SetOffspringPaid c prev) = (\<lambda>_. undo_set_offspring_paid c prev)"
| "undo (SetModeCostPaid c prev) = (\<lambda>_. undo_set_mode_cost_paid c prev)"
| "undo (RestoreCardState c snap) = (\<lambda>_. undo_restore_card_state c snap)"

subsection \<open>Undo acts on the durable part\<close>

lemmas undo_helpers = undo_card_def undo_card_tolerant_def undo_player_def undo_player_tolerant_def

lemmas undo_arms = undo_tap_card_def undo_set_chosen_color_def undo_set_chosen_player_def
  undo_set_chosen_mode_def undo_set_chosen_name_def undo_set_remembered_name_def
  undo_set_stored_int_def undo_add_counter_def undo_remove_counter_def undo_pump_creature_def
  undo_debuff_creature_def undo_set_turn_entered_def undo_change_controller_def
  undo_set_attached_to_def undo_reveal_card_def undo_set_revealed_to_mask_def
  undo_set_loyalty_activated_def undo_set_temp_base_stats_def undo_animate_typeline_def
  undo_mark_damaged_by_def undo_mark_dealt_damage_def undo_mark_attacked_def undo_clone_card_def
  undo_set_card_counters_def undo_set_damage_def undo_set_x_paid_def undo_set_times_kicked_def
  undo_set_bargain_paid_def undo_set_kicker_paid_def undo_set_offspring_paid_def
  undo_set_mode_cost_paid_def undo_restore_card_state_def undo_modify_life_def undo_add_mana_def
  undo_empty_mana_pool_def undo_set_lands_played_def undo_set_cards_drawn_def
  undo_set_spells_cast_def undo_set_commander_cast_count_def undo_set_commander_damage_def
  undo_set_skip_untap_def undo_set_cant_cast_def undo_set_source_shields_def
  undo_set_mana_pool_def undo_set_combat_mana_pool_def undo_advance_step_def undo_change_turn_def
  undo_shuffle_library_def undo_reorder_library_def undo_register_delayed_trigger_def
  undo_fire_delayed_trigger_def undo_set_remembered_amount_def undo_declare_attacker_action_def
  undo_declare_blocker_action_def undo_clear_combat_def undo_push_extra_turn_def
  undo_create_entity_def undo_regenerate_def

lemma zone_of_durable [simp]: "zone_of (durable g) = zone_of g"
  by (simp add: zone_of_def fun_eq_iff split: zone.split)

lemma map_zone_durable [simp]: "durable (map_zone z p f g) = map_zone z p f (durable g)"
  by (simp add: map_zone_def split: zone.split)

lemma remove_from_zone_durable [simp]:
  "durable (fst (remove_from_zone c z p g)) = fst (remove_from_zone c z p (durable g))"
  "snd (remove_from_zone c z p (durable g)) = snd (remove_from_zone c z p g)"
  by (simp_all add: remove_from_zone_def split: option.split)

lemma restore_rng_durable [simp]:
  "durable (fst (restore_rng ds m r g)) = fst (restore_rng ds m r (durable g))"
  by (simp add: restore_rng_def split: option.split)

lemma undo_move_card_durable:
  "durable (fst (undo_move_card c f t ow pos g)) = fst (undo_move_card c f t ow pos (durable g))"
  by (simp add: undo_move_card_def split_beta Let_def)

lemma durable_undo: "durable (fst (undo a ds g)) = durable (fst (undo a ds (durable g)))"
  by (cases a; simp add: undo_move_card_durable; auto simp: undo_arms undo_helpers Let_def)

lemma undo_keeps_log: "gs_undo_log (fst (undo a ds g)) = gs_undo_log g"
  "gs_logger (fst (undo a ds g)) = gs_logger g"
  by (cases a; simp add: undo_arms undo_helpers undo_move_card_def remove_from_zone_def map_zone_def
      map_card_def map_player_def map_player_zones_def increment_mana_version_def restore_rng_def
      set_next_entity_id_def split_beta Let_def split: option.split zone.split)+

text \<open>The effect of an undo on the state alone, the message aside, and the journal of the game.\<close>

definition game_actions :: "game_state \<Rightarrow> game_action list" where
  "game_actions g = ul_actions (gs_undo_log g)"

definition undo_effect :: "(u8 list \<Rightarrow> rng option) \<Rightarrow> game_action \<Rightarrow> game_state \<Rightarrow> game_state" where
  "undo_effect ds a g = fst (undo a ds g)"

interpretation game: journal durable game_actions "undo_effect ds" for ds
proof
  fix s t :: game_state and a
  assume "durable s = durable t"
  then show "durable (undo_effect ds a s) = durable (undo_effect ds a t)"
    unfolding undo_effect_def by (metis durable_undo)
qed

end
