(* ===== verification/StateOps.thy ===== *)
theory StateOps
  imports Undo
begin

section \<open>Logged operations on permanents\<close>

text \<open>
  The operations of \<open>mtg-engine/src/game/state.rs\<close> that change one permanent, one combat or one
  library and log the action that reverses the change. Each is shown to be reversible for the
  journal of the game: undoing what it logged restores the durable part of the state. Errors are
  the \<open>Inl\<close> of the result.
\<close>

subsection \<open>Reversible steps of the game\<close>

definition undoable :: "(u8 list \<Rightarrow> rng option) \<Rightarrow> game_state \<Rightarrow> game_state \<Rightarrow> bool" where
  "undoable ds g g' = reversible durable game_actions (undo_effect ds) g g'"

definition log_on :: "game_state \<Rightarrow> bool" where
  "log_on g = (ul_enabled (gs_undo_log g) \<and> ul_aligned (gs_undo_log g))"

lemma undoable_refl [simp]: "undoable ds g g"
  unfolding undoable_def by (rule game.reversible_refl)

lemma undoable_trans [trans]: "undoable ds g h \<Longrightarrow> undoable ds h k \<Longrightarrow> undoable ds g k"
  unfolding undoable_def by (rule game.reversible_trans)

lemma undoable_log:
  assumes "log_on g'" "game_actions g' = game_actions g" "durable (undo_effect ds a g') = durable g"
  shows "undoable ds g (log_action_at a n g')"
  unfolding undoable_def
proof (rule game.reversible_one)
  show "game_actions (log_action_at a n g') = game_actions g @ [a]"
    using assms(1,2) by (simp add: game_actions_def log_action_at_def ul_log_def log_on_def)
  have "durable (undo_effect ds a (log_action_at a n g')) = durable (undo_effect ds a g')"
    by (rule game.revert_view) simp
  then show "durable (undo_effect ds a (log_action_at a n g')) = durable g" using assms(3) by simp
qed

lemma log_action_at_eq: "log_action a g = log_action_at a (log_count (gs_logger g)) g"
  by (simp add: log_action_def log_action_at_def)

lemma undoable_log_action:
  assumes "log_on g'" "game_actions g' = game_actions g" "durable (undo_effect ds a g') = durable g"
  shows "undoable ds g (log_action a g')"
  unfolding log_action_at_eq using assms by (rule undoable_log)

lemma undoable_same_view:
  "undoable ds g h \<Longrightarrow> game_actions k = game_actions h \<Longrightarrow> durable k = durable h \<Longrightarrow> undoable ds g k"
  unfolding undoable_def by (rule game.reversible_same_view)

lemma undoable_silent: "game_actions h = game_actions g \<Longrightarrow> durable h = durable g \<Longrightarrow> undoable ds g h"
  unfolding undoable_def by (rule game.reversible_silent)

text \<open>What a write leaves alone.\<close>

lemma writes_keep_log [simp]:
  "gs_undo_log (map_card c f g) = gs_undo_log g" "gs_undo_log (map_player p h g) = gs_undo_log g"
  "gs_undo_log (map_cards f g) = gs_undo_log g" "gs_undo_log (map_players h g) = gs_undo_log g"
  "gs_undo_log (map_player_zones p k g) = gs_undo_log g" "gs_undo_log (map_zone z p j g) = gs_undo_log g"
  "gs_undo_log (map_mana_caches mf g) = gs_undo_log g" "gs_undo_log (game_log m g) = gs_undo_log g"
  "gs_undo_log (increment_mana_version g) = gs_undo_log g"
  by (simp_all add: map_card_def map_player_def map_cards_def map_players_def map_player_zones_def
      map_mana_caches_def game_log_def increment_mana_version_def map_zone_def split: zone.split)

lemma writes_keep_actions [simp]:
  "game_actions (map_card c f g) = game_actions g" "game_actions (map_player p h g) = game_actions g"
  "game_actions (map_cards f g) = game_actions g" "game_actions (map_players h g) = game_actions g"
  "game_actions (map_player_zones p k g) = game_actions g"
  "game_actions (map_zone z p j g) = game_actions g"
  "game_actions (map_mana_caches mf g) = game_actions g" "game_actions (game_log m g) = game_actions g"
  "game_actions (increment_mana_version g) = game_actions g"
  "game_actions (g\<lparr>gs_combat := cb\<rparr>) = game_actions g" "game_actions (g\<lparr>gs_turn := tn\<rparr>) = game_actions g"
  "game_actions (g\<lparr>gs_scratch := sc\<rparr>) = game_actions g" "game_actions (g\<lparr>gs_rng := rg\<rparr>) = game_actions g"
  "game_actions (g\<lparr>gs_battlefield := bf\<rparr>) = game_actions g" "game_actions (g\<lparr>gs_stack := sk\<rparr>) = game_actions g"
  by (simp_all add: game_actions_def)

lemma writes_keep_log_on [simp]:
  "log_on (map_card c f g) = log_on g" "log_on (map_player p h g) = log_on g"
  "log_on (map_cards f g) = log_on g" "log_on (map_players h g) = log_on g"
  "log_on (map_player_zones p k g) = log_on g" "log_on (map_zone z p j g) = log_on g"
  "log_on (map_mana_caches mf g) = log_on g" "log_on (game_log m g) = log_on g"
  "log_on (increment_mana_version g) = log_on g"
  "log_on (g\<lparr>gs_combat := cb\<rparr>) = log_on g" "log_on (g\<lparr>gs_turn := tn\<rparr>) = log_on g"
  "log_on (g\<lparr>gs_scratch := sc\<rparr>) = log_on g" "log_on (g\<lparr>gs_rng := rg\<rparr>) = log_on g"
  "log_on (g\<lparr>gs_battlefield := bf\<rparr>) = log_on g" "log_on (g\<lparr>gs_stack := sk\<rparr>) = log_on g"
  by (simp_all add: log_on_def)

lemma ul_aligned_log [simp]: "ul_aligned (ul_log a n l) = ul_aligned l"
  by (simp add: ul_log_def ul_aligned_def)

lemma log_on_log_action [simp]:
  "log_on (log_action a g) = log_on g" "log_on (log_action_at a n g) = log_on g"
  by (simp_all add: log_on_def log_action_def log_action_at_def)

lemma map_card_same: "(\<And>k. card_of g c = Some k \<Longrightarrow> f k = k) \<Longrightarrow> map_card c f g = g"
  by (simp add: map_card_def card_of_def store.modify_same)

text \<open>The two shapes most operations have: one write to a card, or to a player, and its log entry.\<close>

lemma undoable_map_card:
  assumes "log_on g" "undo_effect ds a (map_card c h g) = map_card c f (map_card c h g)"
    and "\<And>k. card_of g c = Some k \<Longrightarrow> f (h k) = k"
  shows "undoable ds g (log_action a (map_card c h g))"
  using assms by (intro undoable_log_action) (simp_all add: map_card_cancel)

lemma undoable_map_card_at:
  assumes "log_on g" "undo_effect ds a (map_card c h g) = map_card c f (map_card c h g)"
    and "\<And>k. card_of g c = Some k \<Longrightarrow> f (h k) = k"
  shows "undoable ds g (log_action_at a n (map_card c h g))"
  using assms by (intro undoable_log) (simp_all add: map_card_cancel)

subsection \<open>Tapping\<close>

definition tap_permanent :: "card_id \<Rightarrow> game_state \<Rightarrow> mtg_error + game_state" where
  "tap_permanent c g = (case card_of g c of
       None \<Rightarrow> Inl (MtgEntityNotFound c)
     | Some k \<Rightarrow> if c_tapped k then Inr g
         else Inr (let g1 = log_action (TapCard c True) (map_card c card_tap g) in
           increment_mana_version (map_mana_caches (on_tap c (card_tap k)) g1)))"

definition untap_permanent :: "card_id \<Rightarrow> game_state \<Rightarrow> mtg_error + game_state" where
  "untap_permanent c g = (case card_of g c of
       None \<Rightarrow> Inl (MtgEntityNotFound c)
     | Some k \<Rightarrow> if \<not> c_tapped k then Inr g
         else Inr (let g1 = log_action (TapCard c False) (map_card c card_untap g) in
           increment_mana_version (map_mana_caches (on_untap c (card_untap k)) g1)))"

definition untap_ids :: "player_id \<Rightarrow> game_state \<Rightarrow> card_id list" where
  "untap_ids p g = filter (\<lambda>c. case card_of g c of
     Some k \<Rightarrow> c_controller k = p \<and> c_tapped k | None \<Rightarrow> False) (z_cards (gs_battlefield g))"

fun untap_each :: "card_id list \<Rightarrow> game_state \<Rightarrow> mtg_error + game_state" where
  "untap_each [] g = Inr g"
| "untap_each (c # cs) g = (case untap_permanent c g of Inl e \<Rightarrow> Inl e | Inr g' \<Rightarrow> untap_each cs g')"

definition untap_all :: "player_id \<Rightarrow> game_state \<Rightarrow> mtg_error + game_state" where
  "untap_all p g = untap_each (untap_ids p g) g"

lemma undo_tap_effect:
  "durable (undo_effect ds (TapCard c b) g)
     = durable (map_card c (\<lambda>k. k\<lparr>c_tapped := \<not> b\<rparr>) g)"
  by (simp add: undo_effect_def undo_tap_card_def map_card_absent)

lemma tap_undoable:
  assumes "tap_permanent c g = Inr g'" "log_on g"
  shows "undoable ds g g'"
proof (cases "card_of g c")
  case (Some k)
  show ?thesis
  proof (cases "c_tapped k")
    case False
    have "undoable ds g (log_action (TapCard c True) (map_card c card_tap g))"
    proof (rule undoable_log_action)
      have "map_card c (\<lambda>k. k\<lparr>c_tapped := \<not> True\<rparr>) (map_card c card_tap g) = g"
        using Some False by (intro map_card_cancel) (auto simp: card_tap_def)
      then show "durable (undo_effect ds (TapCard c True) (map_card c card_tap g)) = durable g"
        by (simp only: undo_tap_effect)
    qed (use assms in simp_all)
    then show ?thesis
      using assms Some False
      by (auto simp: tap_permanent_def Let_def intro: undoable_same_view)
  qed (use assms Some in \<open>simp add: tap_permanent_def\<close>)
qed (use assms in \<open>simp add: tap_permanent_def\<close>)

lemma untap_undoable:
  assumes "untap_permanent c g = Inr g'" "log_on g"
  shows "undoable ds g g'"
proof (cases "card_of g c")
  case (Some k)
  show ?thesis
  proof (cases "c_tapped k")
    case True
    have "undoable ds g (log_action (TapCard c False) (map_card c card_untap g))"
    proof (rule undoable_log_action)
      have "map_card c (\<lambda>k. k\<lparr>c_tapped := \<not> False\<rparr>) (map_card c card_untap g) = g"
        using Some True by (intro map_card_cancel) (auto simp: card_untap_def)
      then show "durable (undo_effect ds (TapCard c False) (map_card c card_untap g)) = durable g"
        by (simp only: undo_tap_effect)
    qed (use assms in simp_all)
    then show ?thesis
      using assms Some True
      by (auto simp: untap_permanent_def Let_def intro: undoable_same_view)
  qed (use assms Some in \<open>simp add: untap_permanent_def\<close>)
qed (use assms in \<open>simp add: untap_permanent_def\<close>)

lemma untap_log_on: "untap_permanent c g = Inr g' \<Longrightarrow> log_on g' = log_on g"
  by (auto simp: untap_permanent_def Let_def split: option.splits if_splits)

lemma tap_log_on: "tap_permanent c g = Inr g' \<Longrightarrow> log_on g' = log_on g"
  by (auto simp: tap_permanent_def Let_def split: option.splits if_splits)

lemma untap_each_undoable: "untap_each cs g = Inr g' \<Longrightarrow> log_on g \<Longrightarrow> undoable ds g g' \<and> log_on g'"
proof (induction cs arbitrary: g)
  case (Cons c cs)
  then obtain h where h: "untap_permanent c g = Inr h" "untap_each cs h = Inr g'"
    by (auto split: sum.splits)
  have "log_on h" using untap_log_on [OF h(1)] Cons.prems(2) by simp
  moreover have "undoable ds g h" using h(1) Cons.prems(2) by (rule untap_undoable)
  ultimately show ?case using Cons.IH [OF h(2)] by (blast intro: undoable_trans)
qed simp

lemma untap_all_undoable: "untap_all p g = Inr g' \<Longrightarrow> log_on g \<Longrightarrow> undoable ds g g'"
  by (simp add: untap_all_def untap_each_undoable)

subsection \<open>Base power and toughness overrides\<close>

definition override_stats :: "i8 option \<Rightarrow> i8 option \<Rightarrow> card \<Rightarrow> card" where
  "override_stats pw tf k =
     (let k1 = (case pw of Some v \<Rightarrow> set_temp_base_power v k | None \<Rightarrow> k) in
      case tf of Some v \<Rightarrow> set_temp_base_toughness v k1 | None \<Rightarrow> k1)"

definition set_temp_base_stats_logged :: "card_id \<Rightarrow> i8 option \<Rightarrow> i8 option \<Rightarrow> game_state \<Rightarrow> game_state" where
  "set_temp_base_stats_logged c pw tf g = (case card_of g c of
       None \<Rightarrow> g
     | Some k \<Rightarrow> log_action (SetTempBaseStats c (c_temp_base_power k) (c_temp_base_toughness k))
         (map_card c (override_stats pw tf) g))"

definition clear_temp_base_stats_logged :: "card_id \<Rightarrow> game_state \<Rightarrow> game_state" where
  "clear_temp_base_stats_logged c g = (case card_of g c of
       None \<Rightarrow> g
     | Some k \<Rightarrow> if c_temp_base_power k = None \<and> c_temp_base_toughness k = None then g
         else log_action (SetTempBaseStats c (c_temp_base_power k) (c_temp_base_toughness k))
           (map_card c clear_temp_base_stats g))"

lemma set_temp_base_stats_undoable: "log_on g \<Longrightarrow> undoable ds g (set_temp_base_stats_logged c pw tf g)"
  by (auto simp: set_temp_base_stats_logged_def undo_effect_def undo_set_temp_base_stats_def
      undo_card_tolerant_def restore_temp_base_stats_def override_stats_def set_temp_base_power_def
      set_temp_base_toughness_def Let_def split: option.split intro!: undoable_map_card)

lemma clear_temp_base_stats_undoable: "log_on g \<Longrightarrow> undoable ds g (clear_temp_base_stats_logged c g)"
  by (auto simp: clear_temp_base_stats_logged_def undo_effect_def undo_set_temp_base_stats_def
      undo_card_tolerant_def restore_temp_base_stats_def clear_temp_base_stats_def
      split: option.split intro!: undoable_map_card)

subsection \<open>Earthbend\<close>

definition earthbend_types :: "card \<Rightarrow> card" where
  "earthbend_types k = (if is_creature k then k
     else refresh_typeline_cache ((add_type Creature k)
       \<lparr>c_temp_animate_types := c_temp_animate_types k @ [Creature]\<rparr>))"

definition earthbend_haste :: "card \<Rightarrow> card" where
  "earthbend_haste k = (if kw_contains (c_keywords k) ''Haste'' then k
     else k\<lparr>c_keywords := kw_insert (c_keywords k) ''Haste''\<rparr>)"

definition earthbend_animate_creature_haste_logged :: "card_id \<Rightarrow> game_state \<Rightarrow> game_state" where
  "earthbend_animate_creature_haste_logged c g = (case card_of g c of
       None \<Rightarrow> g
     | Some k \<Rightarrow>
         let types_changed = (\<not> is_creature k);
             granted = (if kw_contains (c_keywords k) ''Haste'' then [] else [''Haste'']);
             g1 = map_card c (earthbend_haste \<circ> earthbend_types) g in
         if types_changed \<or> granted \<noteq> []
         then log_action (AnimateTypeline c (c_types k) (c_subtypes k) (c_temp_animate_types k)
           (c_temp_animate_subtypes k) (c_temp_removed_subtypes k) granted []) g1
         else g1)"

text \<open>The type flags agree with what a refresh from the type line would compute.\<close>

definition typeline_ok :: "card \<Rightarrow> bool" where
  "typeline_ok k = (refresh_typeline_cache k = k)"

lemma haste_not_complex: "\<not> is_complex ''Haste''"
  by code_simp

lemma update_one_subtype_creature:
  "update_one_subtype (cc\<lparr>cc_is_creature := b\<rparr>) s = (update_one_subtype cc s)\<lparr>cc_is_creature := b\<rparr>"
  by (simp add: update_one_subtype_def)

lemma foldl_update_subtype_creature:
  "foldl update_one_subtype (cc\<lparr>cc_is_creature := b\<rparr>) ss
     = (foldl update_one_subtype cc ss)\<lparr>cc_is_creature := b\<rparr>"
  by (induction ss arbitrary: cc) (simp_all add: update_one_subtype_creature)

lemma update_from_subtypes_creature:
  "update_from_subtypes ss n (cc\<lparr>cc_is_creature := b\<rparr>) = (update_from_subtypes ss n cc)\<lparr>cc_is_creature := b\<rparr>"
  by (simp add: update_from_subtypes_def Let_def foldl_update_subtype_creature)

lemma update_from_types_creature:
  "update_from_types (ts @ [Creature]) cc = (update_from_types ts cc)\<lparr>cc_is_creature := True\<rparr>"
  "update_from_types ts (cc\<lparr>cc_is_creature := b\<rparr>) = update_from_types ts cc"
  by (simp_all add: update_from_types_def)

lemma typeline_okD:
  "typeline_ok k \<Longrightarrow> update_from_subtypes (c_subtypes k) (c_name k)
     (update_from_types (c_types k) (cd_cache (c_definition k))) = cd_cache (c_definition k)"
  by (auto simp: typeline_ok_def refresh_typeline_cache_def map_cache_def
      dest!: arg_cong [where f = "\<lambda>k. cd_cache (c_definition k)"])

lemma earthbend_types_effect:
  assumes "typeline_ok k" "\<not> is_creature k"
  shows "earthbend_types k = (map_cache (\<lambda>cc. cc\<lparr>cc_is_creature := True\<rparr>) k)
    \<lparr>c_types := c_types k @ [Creature], c_temp_animate_types := c_temp_animate_types k @ [Creature]\<rparr>"
  using typeline_okD [OF assms(1)] assms(2)
  by (simp add: earthbend_types_def refresh_typeline_cache_def add_type_def map_cache_def Let_def
      update_from_types_creature update_from_subtypes_creature)

definition revert_typeline :: "card \<Rightarrow> keyword list \<Rightarrow> card \<Rightarrow> card" where
  "revert_typeline k granted k' = refresh_typeline_cache
     (k'\<lparr>c_types := c_types k, c_subtypes := c_subtypes k,
       c_temp_animate_types := c_temp_animate_types k,
       c_temp_animate_subtypes := c_temp_animate_subtypes k,
       c_temp_removed_subtypes := c_temp_removed_subtypes k,
       c_keywords := foldl kw_remove (c_keywords k') granted\<rparr>)"

lemma revert_earthbend:
  assumes "typeline_ok k"
    "granted = (if kw_contains (c_keywords k) ''Haste'' then [] else [''Haste''])"
  shows "revert_typeline k granted (earthbend_haste (earthbend_types k)) = k"
proof -
  have cache: "update_from_subtypes (c_subtypes k) (c_name k) (update_from_types (c_types k)
      (cd_cache (c_definition k))) = cd_cache (c_definition k)"
    using assms(1) by (rule typeline_okD)
  have kws: "foldl kw_remove (c_keywords (earthbend_haste x)) granted = c_keywords k"
    if "c_keywords x = c_keywords k" for x
    using that assms(2) haste_not_complex by (simp add: earthbend_haste_def kw_remove_insert)
  show ?thesis
  proof (cases "is_creature k")
    case True
    then show ?thesis using cache kws [of k]
      by (simp add: earthbend_types_def revert_typeline_def refresh_typeline_cache_def map_cache_def
          earthbend_haste_def)
  next
    case False
    then show ?thesis
      using cache kws [of "earthbend_types k"]
      by (simp add: earthbend_types_effect [OF assms(1)] revert_typeline_def map_cache_def
          refresh_typeline_cache_def earthbend_haste_def update_from_types_creature)
  qed
qed

lemma earthbend_undoable:
  assumes "log_on g" "\<And>k. card_of g c = Some k \<Longrightarrow> typeline_ok k"
  shows "undoable ds g (earthbend_animate_creature_haste_logged c g)"
proof (cases "card_of g c")
  case (Some k)
  let ?granted = "if kw_contains (c_keywords k) ''Haste'' then [] else [''Haste'']"
  let ?a = "AnimateTypeline c (c_types k) (c_subtypes k) (c_temp_animate_types k)
           (c_temp_animate_subtypes k) (c_temp_removed_subtypes k) ?granted []"
  show ?thesis
  proof (cases "\<not> is_creature k \<or> ?granted \<noteq> []")
    case True
    have "undoable ds g (log_action ?a (map_card c (earthbend_haste \<circ> earthbend_types) g))"
    proof (rule undoable_map_card [OF assms(1)])
      show "undo_effect ds ?a h = map_card c (revert_typeline k ?granted) h" for h
        by (simp add: undo_effect_def undo_animate_typeline_def undo_card_tolerant_def
            revert_typeline_def [abs_def])
      show "revert_typeline k ?granted ((earthbend_haste \<circ> earthbend_types) k') = k'"
        if "card_of g c = Some k'" for k'
        using that Some assms(2) revert_earthbend [OF _ refl] by simp
    qed
    then show ?thesis
      using Some True by (simp add: earthbend_animate_creature_haste_logged_def Let_def)
  next
    case False
    then have "is_creature k" "kw_contains (c_keywords k) ''Haste''" by (auto split: if_splits)
    then have "map_card c (earthbend_haste \<circ> earthbend_types) g = g"
      using Some by (intro map_card_same) (simp add: earthbend_haste_def earthbend_types_def)
    then show ?thesis using Some False by (simp add: earthbend_animate_creature_haste_logged_def Let_def)
  qed
qed (simp add: earthbend_animate_creature_haste_logged_def)

subsection \<open>Regeneration\<close>

definition consume_shield :: "card \<Rightarrow> card" where
  "consume_shield k = k\<lparr>c_regeneration_shields := sat_sub (c_regeneration_shields k) 1, c_damage := 0\<rparr>"

definition apply_regeneration_shield :: "card_id \<Rightarrow> game_state \<Rightarrow> mtg_error + game_state" where
  "apply_regeneration_shield c g = (case card_of g c of
       None \<Rightarrow> Inl (MtgEntityNotFound c)
     | Some k \<Rightarrow> (case tap_permanent c (map_card c consume_shield g) of
           Inl e \<Rightarrow> Inl e
         | Inr g2 \<Rightarrow>
             let g3 = g2\<lparr>gs_combat := remove_from_combat c (gs_combat g2)\<rparr>;
                 g4 = log_action (RegenerateReplaceDestroy c (c_regeneration_shields k) (c_damage k)
                   (gs_combat g)) g3 in
             Inr (game_log (c_name k @ '' ('' @ show_nat (unat c)
               @ '') regenerates (shield consumed, tapped, damage removed)'') g4)))"

lemma map_card_map_card: "map_card c f (map_card c h g) = map_card c (f \<circ> h) g"
  by (simp add: map_card_def store.modify_modify)

lemma map_card_cong:
  "(\<And>k. card_of g c = Some k \<Longrightarrow> f k = h k) \<Longrightarrow> map_card c f g = map_card c h g"
  unfolding map_card_def card_of_def by (subst store.modify_cong [of "gs_cards g" c f h]) auto

lemma writes_keep_combat [simp]:
  "gs_combat (map_card c f g) = gs_combat g" "gs_combat (map_mana_caches mf g) = gs_combat g"
  "gs_combat (increment_mana_version g) = gs_combat g" "gs_combat (game_log m g) = gs_combat g"
  by (simp_all add: map_card_def map_mana_caches_def increment_mana_version_def game_log_def)

lemma combat_restore: "(map_card c f (g\<lparr>gs_combat := cb\<rparr>))\<lparr>gs_combat := gs_combat g\<rparr> = map_card c f g"
  by (simp add: map_card_def)

lemma tap_permanent_view:
  assumes "tap_permanent c g = Inr g'" "card_of g c = Some k"
  shows "durable g' = durable (map_card c (\<lambda>k. k\<lparr>c_tapped := True\<rparr>) g)"
    "game_actions g' = (if c_tapped k \<or> \<not> ul_enabled (gs_undo_log g) then game_actions g
       else game_actions g @ [TapCard c True])"
    "gs_combat g' = gs_combat g"
proof -
  have "map_card c (\<lambda>k. k\<lparr>c_tapped := True\<rparr>) (durable g) = durable g" if "c_tapped k"
    using that assms(2) by (intro map_card_same) simp
  then show "durable g' = durable (map_card c (\<lambda>k. k\<lparr>c_tapped := True\<rparr>) g)"
    using assms by (auto simp: tap_permanent_def Let_def card_tap_def [abs_def] split: if_splits)
  show "game_actions g' = (if c_tapped k \<or> \<not> ul_enabled (gs_undo_log g) then game_actions g
       else game_actions g @ [TapCard c True])"
    using assms
    by (auto simp: tap_permanent_def Let_def split: if_splits)
      (auto simp: game_actions_def log_action_def ul_log_def log_on_def)
  show "gs_combat g' = gs_combat g"
    using assms by (auto simp: tap_permanent_def Let_def split: if_splits)
qed

lemma regeneration_undoable:
  assumes reg: "apply_regeneration_shield c g = Inr g'" and log: "log_on g"
  shows "undoable ds g g'"
proof -
  obtain k where k: "card_of g c = Some k"
    using reg by (auto simp: apply_regeneration_shield_def split: option.splits)
  let ?a = "RegenerateReplaceDestroy c (c_regeneration_shields k) (c_damage k) (gs_combat g)"
  obtain g2 where g2: "tap_permanent c (map_card c consume_shield g) = Inr g2"
    using reg k by (auto simp: apply_regeneration_shield_def split: sum.splits)
  define g3 where "g3 = g2\<lparr>gs_combat := remove_from_combat c (gs_combat g2)\<rparr>"
  obtain gt where gt: "tap_permanent c g = Inr gt"
    using k by (cases "c_tapped k") (auto simp: tap_permanent_def)
  note view2 = tap_permanent_view [OF g2, simplified card_of_map_card_same k, simplified, OF refl]
  note viewt = tap_permanent_view [OF gt k]
  have g': "durable g' = durable g3" "game_actions g' = game_actions (log_action ?a g3)"
    using reg k g2 by (auto simp: apply_regeneration_shield_def g3_def Let_def)
  have "undoable ds gt (log_action ?a g3)"
  proof (rule undoable_log_action)
    show "log_on g3" using tap_log_on [OF g2] log by (simp add: g3_def)
    show "game_actions g3 = game_actions gt"
      using view2(2) viewt(2) by (simp add: g3_def consume_shield_def)
    have "durable (undo_effect ds ?a g3) = (map_card c (\<lambda>k'. k'\<lparr>c_regeneration_shields :=
        c_regeneration_shields k, c_damage := c_damage k\<rparr>) (durable g2))\<lparr>gs_combat := gs_combat g\<rparr>"
      by (simp add: undo_effect_def undo_regenerate_def g3_def map_card_def)
    also have "\<dots> = map_card c (\<lambda>k'. k'\<lparr>c_regeneration_shields := c_regeneration_shields k,
        c_damage := c_damage k\<rparr>) (durable g2)"
      using view2(3) by (simp add: map_card_def)
    also have "\<dots> = durable gt"
      unfolding view2(1) viewt(1) using k
      by (simp add: map_card_map_card) (rule map_card_cong, simp add: consume_shield_def)
    finally show "durable (undo_effect ds ?a g3) = durable gt" .
  qed
  then have "undoable ds g (log_action ?a g3)"
    using tap_undoable [OF gt log] by (rule undoable_trans [rotated])
  then show ?thesis by (rule undoable_same_view) (simp_all add: g')
qed

subsection \<open>Counters\<close>

definition add_counters :: "card_id \<Rightarrow> counter_type \<Rightarrow> u8 \<Rightarrow> game_state \<Rightarrow> mtg_error + game_state" where
  "add_counters c t n g = (case card_of g c of
       None \<Rightarrow> Inl (MtgEntityNotFound c)
     | Some k \<Rightarrow> Inr (log_action (SetCardCounters c (c_counters k)) (map_card c (add_counter t n) g)))"

definition remove_counters ::
  "card_id \<Rightarrow> counter_type \<Rightarrow> u8 \<Rightarrow> game_state \<Rightarrow> mtg_error + game_state \<times> u8" where
  "remove_counters c t n g = (case card_of g c of
       None \<Rightarrow> Inl (MtgEntityNotFound c)
     | Some k \<Rightarrow> let removed = snd (remove_counter t n k) in
         Inr (log_action (RemoveCounter c t removed) (map_card c (\<lambda>k. fst (remove_counter t n k)) g),
              removed))"

lemma add_counter_only_counters: "(add_counter t n k)\<lparr>c_counters := c_counters k\<rparr> = k"
  by (simp add: add_counter_def)

lemma add_counters_undoable: "add_counters c t n g = Inr g' \<Longrightarrow> log_on g \<Longrightarrow> undoable ds g g'"
  by (auto simp: add_counters_def undo_effect_def undo_set_card_counters_def undo_card_tolerant_def
      add_counter_only_counters split: option.splits intro!: undoable_map_card)

definition death_destination_for_card :: "game_state \<Rightarrow> card_id \<Rightarrow> zone" where
  "death_destination_for_card g c = (case store_get (gs_cards g) c of
       Inr k \<Rightarrow> if 0 < get_counter k ''Finality'' \<or> c_exile_if_would_die_this_turn k then Exile else Graveyard
     | Inl _ \<Rightarrow> Graveyard)"

text \<open>Removing part of the counters of one type is reversed exactly; removing all of them moves the
  entry to the end of the vector when it is put back.\<close>

lemma add_remove_counter:
  assumes inv: "counters_inv (c_counters k)" and part: "n < get_counter k t"
  shows "add_counter t n (fst (remove_counter t n k)) = k"
proof (cases "n = 0")
  case True
  then show ?thesis by (simp add: add_counter_def remove_counter_def)
next
  case False
  let ?P = "\<lambda>(u, _). u = t" and ?cs = "c_counters k" and ?m = "get_counter k t"
  obtain u m where um: "find ?P ?cs = Some (u, m)"
    using part by (cases "find ?P ?cs") (auto simp: get_counter_def count_of_def)
  then have found: "find ?P ?cs = Some (t, ?m)"
    using find_counter_Some by (fastforce simp: get_counter_def)
  have left: "?m - n \<noteq> 0" using part by auto
  let ?cs' = "update_first ?P (\<lambda>(u, m). (u, m - n)) ?cs"
  have dec: "dec_counter t n ?cs = ?cs'"
    using found left by (simp add: dec_counter_def)
  have again: "sat_add (?m - n) n = ?m"
  proof -
    have "unat ?m < 2 ^ LENGTH(8)" by (rule unsigned_less)
    then show ?thesis
      using part by (simp add: unat_eq_iff_word [symmetric] unat_sat_add unat_minus_le
          word_le_nat_alt word_less_nat_alt)
  qed
  have "put_counter t n ?cs' = update_first ?P ((\<lambda>(u, m). (u, sat_add m n)) \<circ> (\<lambda>(u, m). (u, m - n))) ?cs"
    using found by (simp add: put_counter_def update_first_find case_prod_beta' update_first_compose)
  also have "\<dots> = ?cs"
    using found again by (intro update_first_id_on) simp
  finally have "put_counter t n ?cs' = ?cs" .
  moreover have "annihilate ?cs = ?cs"
    using inv by (intro annihilate_same) (simp add: counters_inv_pos)
  moreover have "min ?m n = n" using part by (simp add: min.absorb2)
  ultimately show ?thesis
    using False found dec by (simp add: add_counter_def remove_counter_def)
qed

lemma remove_counters_undoable:
  assumes rm: "remove_counters c t n g = Inr (g', r)" and log: "log_on g"
    and part: "\<And>k. card_of g c = Some k \<Longrightarrow> counters_inv (c_counters k) \<and> n < get_counter k t"
  shows "undoable ds g g'"
proof -
  obtain k where k: "card_of g c = Some k" and r: "r = snd (remove_counter t n k)"
    and g': "g' = log_action (RemoveCounter c t r) (map_card c (\<lambda>k. fst (remove_counter t n k)) g)"
    using rm by (auto simp: remove_counters_def Let_def split: option.splits)
  have "r = n"
    using part [OF k] unfolding r
    by (auto simp: remove_counter_def get_counter_def count_of_def min_def split: option.splits)
  then show ?thesis
    unfolding g' using k part [OF k] log
    by (intro undoable_map_card [where f = "add_counter t n"])
      (auto simp: undo_effect_def undo_remove_counter_def undo_card_def add_remove_counter)
qed

subsection \<open>Revealing and concealing\<close>

definition maybe_reveal_to_player :: "card_id \<Rightarrow> player_id \<Rightarrow> nat \<Rightarrow> game_state \<Rightarrow> game_state" where
  "maybe_reveal_to_player c p prior g =
     (if gs_skip_reveals g then g
      else case card_of g c of
          Some k \<Rightarrow> if is_revealed_to k p then g
            else log_action_at (RevealCard c (Some (c_name k)) (RevealPlayer p) (c_revealed_to_mask k))
              prior (map_card c (mark_revealed_to p) g)
        | None \<Rightarrow> log_action_at (RevealCard c None (RevealPlayer p) 0) prior g)"

definition maybe_reveal_to_all :: "card_id \<Rightarrow> nat \<Rightarrow> game_state \<Rightarrow> game_state" where
  "maybe_reveal_to_all c prior g =
     (if gs_skip_reveals g then g
      else case card_of g c of
          Some k \<Rightarrow> if is_revealed_to_all k then g
            else log_action_at (RevealCard c (Some (c_name k)) RevealAll (c_revealed_to_mask k))
              prior (map_card c mark_revealed_to_all g)
        | None \<Rightarrow> log_action_at (RevealCard c None RevealAll 0) prior g)"

definition maybe_conceal_in_library :: "card_id \<Rightarrow> nat \<Rightarrow> game_state \<Rightarrow> game_state" where
  "maybe_conceal_in_library c prior g =
     (if gs_skip_reveals g then g
      else case card_of g c of
          Some k \<Rightarrow> if c_revealed_to_mask k \<noteq> 0
            then log_action_at (SetRevealedToMask c (c_revealed_to_mask k) 0) prior
              (map_card c clear_revealed_to_all g)
            else g
        | None \<Rightarrow> if gs_is_shadow_game g then log_action_at (SetRevealedToMask c 0 0) prior g else g)"

lemma undo_reveal_named:
  assumes "card_of g c = Some k"
  shows "undo_effect ds (RevealCard c (Some n) r old) g
    = map_card c (\<lambda>k. k\<lparr>c_revealed_to_mask := old\<rparr>) g"
  using assms by (simp add: undo_effect_def undo_reveal_card_def)

lemma undo_reveal_unknown:
  assumes "card_of g c = None"
  shows "undo_effect ds (RevealCard c None r 0) g = g"
  using assms by (simp add: undo_effect_def undo_reveal_card_def)

lemma reveal_to_player_undoable:
  assumes "log_on g" shows "undoable ds g (maybe_reveal_to_player c p prior g)"
  using assms
  by (cases "card_of g c") (auto simp: maybe_reveal_to_player_def undo_reveal_named undo_reveal_unknown
      mark_revealed_to_def intro!: undoable_map_card_at undoable_log map_card_cancel)

lemma reveal_to_all_undoable:
  assumes "log_on g" shows "undoable ds g (maybe_reveal_to_all c prior g)"
  using assms
  by (cases "card_of g c") (auto simp: maybe_reveal_to_all_def undo_reveal_named undo_reveal_unknown
      mark_revealed_to_all_def intro!: undoable_map_card_at undoable_log map_card_cancel)

lemma conceal_undoable:
  assumes "log_on g" shows "undoable ds g (maybe_conceal_in_library c prior g)"
  using assms
  by (cases "card_of g c") (auto simp: maybe_conceal_in_library_def undo_effect_def
      undo_set_revealed_to_mask_def undo_card_tolerant_def map_card_absent clear_revealed_to_all_def
      intro!: undoable_map_card_at undoable_log map_card_cancel)

lemma reveal_log_on [simp]:
  "log_on (maybe_reveal_to_player c p prior g) = log_on g"
  "log_on (maybe_reveal_to_all c prior g) = log_on g"
  "log_on (maybe_conceal_in_library c prior g) = log_on g"
  by (simp_all add: maybe_reveal_to_player_def maybe_reveal_to_all_def maybe_conceal_in_library_def
      split: option.split)

end
