(* ===== verification/ZoneOps.thy ===== *)
theory ZoneOps
  imports StateOps
begin

section \<open>Operations on zones: draw, shuffle, scry, surveil, counter\<close>

text \<open>
  The operations of \<open>mtg-engine/src/game/state.rs\<close> that move cards between zones with their own
  code or reorder a library. A move is reversed by taking the card out of its destination and
  reinserting it at the position it came from; the lemma \<open>undo_raw_move\<close> states this once, on the
  zones seen as a keyed map. The permutation a shuffle applies is an argument, with the generator
  state it leaves behind.
\<close>

subsection \<open>Zones as a keyed map\<close>

lemma zone_of_map_zone:
  "zone_of (map_zone z p f g) z' p = (if z = z' then map_option f (zone_of g z' p) else zone_of g z' p)"
  by (cases z; cases z'; cases "get_player_zones g p")
    (auto simp: zone_of_def map_zone_def get_player_zones_def map_player_zones_def
      entries.lookup_modify)

lemma map_zone_map_zone: "map_zone z p f (map_zone z p h g) = map_zone z p (f \<circ> h) g"
  by (cases z) (simp_all add: map_zone_def map_player_zones_def entries.modify_modify
      comp_def get_zone_mut.simps [abs_def])

lemma map_zone_cong:
  assumes "\<And>cz. zone_of g z p = Some cz \<Longrightarrow> f cz = h cz"
  shows "map_zone z p f g = map_zone z p h g"
  using assms
  by (cases z) (auto simp: map_zone_def zone_of_def map_player_zones_def get_player_zones_def
      intro!: entries.modify_cong arg_cong [where f = "\<lambda>zs. g\<lparr>gs_player_zones := zs\<rparr>"])

lemma map_zone_id: "map_zone z p (\<lambda>cz. cz) g = g"
  by (cases z) (simp_all add: map_zone_def map_player_zones_def entries.modify_same)

interpretation zones: entity_map "\<lambda>g z. zone_of g z p" "\<lambda>z f g. map_zone z p f g" "\<lambda>_. True" for p
  by unfold_locales (auto simp: zone_of_map_zone map_zone_map_zone map_zone_id intro: map_zone_cong)

text \<open>Writes to two different zones commute, as the zones are separate fields or vectors.\<close>

lemma map_entry_commute:
  "map_entry p f (map_entry p h xs) = map_entry p h (map_entry p f xs)"
  if "\<And>v. f (h v) = h (f v)"
  using that by (simp add: entries.modify_modify comp_def)

lemma get_zone_mut_commute:
  "z \<noteq> z' \<Longrightarrow> get_zone_mut z f (get_zone_mut z' h pz) = get_zone_mut z' h (get_zone_mut z f pz)"
  by (cases z; cases z') auto

lemma map_zone_commute:
  "z \<noteq> z' \<Longrightarrow> map_zone z p f (map_zone z' p h g) = map_zone z' p h (map_zone z p f g)"
  by (cases z; cases z')
    (simp_all add: map_zone_def map_player_zones_def map_entry_commute get_zone_mut_commute)

subsection \<open>A move and its reversal\<close>

definition raw_move :: "card_id \<Rightarrow> zone \<Rightarrow> zone \<Rightarrow> player_id \<Rightarrow> game_state \<Rightarrow> game_state" where
  "raw_move c from_zone to_zone ow g =
     map_zone to_zone ow (\<lambda>z. zone_add z c) (fst (remove_from_zone c from_zone ow g))"

definition position_in_zone :: "card_id \<Rightarrow> zone \<Rightarrow> player_id \<Rightarrow> game_state \<Rightarrow> u32 option" where
  "position_in_zone c z ow g = (case zone_of g z ow of
     Some cz \<Rightarrow> map_option of_nat (zone_position_of cz c) | None \<Rightarrow> None)"

text \<open>Where the reversal of a move is exact: the card is in its source, not yet in its destination,
  and its position fits the 32 bits of the log entry.\<close>

definition movable :: "card_id \<Rightarrow> zone \<Rightarrow> zone \<Rightarrow> player_id \<Rightarrow> game_state \<Rightarrow> bool" where
  "movable c from_zone to_zone ow g \<longleftrightarrow> from_zone \<noteq> to_zone
     \<and> (\<exists>zf. zone_of g from_zone ow = Some zf \<and> zone_contains zf c \<and> zone_len zf < 2 ^ 32)
     \<and> (\<exists>zt. zone_of g to_zone ow = Some zt \<and> \<not> zone_contains zt c)"

lemma undo_raw_move:
  assumes mv: "movable c f t ow g"
  shows "undo_effect ds (MoveCard c f t ow (position_in_zone c f ow g)) (raw_move c f t ow g) = g"
proof -
  obtain zf zt where zf: "zone_of g f ow = Some zf" and cf: "c \<in> set (z_cards zf)"
    and len: "length (z_cards zf) < 2 ^ 32" and ft: "f \<noteq> t"
    and zt: "zone_of g t ow = Some zt" and ct: "c \<notin> set (z_cards zt)"
    using mv by (auto simp: movable_def zone_contains_def zone_len_def)
  obtain i where i: "position_of c (z_cards zf) = Some i" using position_of_mem [OF cf] by blast
  then have il: "i < length (z_cards zf)" using position_of_Some_mem by metis
  have ui: "unat (of_nat i :: u32) = i" using il len by (simp add: unat_of_nat)
  let ?out = "\<lambda>cz. fst (zone_remove cz c)"
  let ?in = "\<lambda>cz. zone_add cz c"
  let ?g1 = "map_zone f ow ?out g"
  have raw: "raw_move c f t ow g = map_zone t ow ?in ?g1"
    using zf by (simp add: raw_move_def remove_from_zone_def)
  have z1: "zone_of (raw_move c f t ow g) t ow = Some (?in zt)"
    using zt ft by (simp add: raw zones.lookup_modify_if)
  have gone: "map_zone t ow ?out (raw_move c f t ow g) = ?g1"
    unfolding raw using zt ft ct
    by (intro zones.modify_cancel) (auto simp: zones.lookup_modify_if zone_remove_add zone_remove_eq
        zone_add_def remove1_append)
  have rem: "snd (zone_remove (?in zt) c)" by (simp add: zone_remove_eq zone_add_def)
  have "map_zone f ow (\<lambda>z. zone_add_at z c i) ?g1 = g"
    using zf i by (intro zones.modify_cancel) (auto simp: zone_add_at_remove zone_position_of_def)
  then show ?thesis
    using gone rem z1 zf i ui
    by (simp add: undo_effect_def undo_move_card_def remove_from_zone_def position_in_zone_def
        zone_position_of_def)
qed

lemma remove_from_zone_keeps_log [simp]:
  "gs_undo_log (fst (remove_from_zone c z p g)) = gs_undo_log g"
  "game_actions (fst (remove_from_zone c z p g)) = game_actions g"
  "log_on (fst (remove_from_zone c z p g)) = log_on g"
  by (simp_all add: remove_from_zone_def split: option.split)

lemma raw_move_keeps_log [simp]:
  "game_actions (raw_move c f t ow g) = game_actions g" "log_on (raw_move c f t ow g) = log_on g"
  by (simp_all add: raw_move_def)

subsection \<open>Shuffling and reordering a library\<close>

definition push_library_reorder :: "player_id \<Rightarrow> game_state \<Rightarrow> game_state" where
  "push_library_reorder p g = g\<lparr>gs_scratch := (gs_scratch g)\<lparr>sc_pending_library_reorders :=
     sc_pending_library_reorders (gs_scratch g) @ [(p, action_count g)]\<rparr>\<rparr>"

definition set_library :: "card_id list \<Rightarrow> player_zones \<Rightarrow> player_zones" where
  "set_library order z = z\<lparr>pz_library := (pz_library z)\<lparr>z_cards := order\<rparr>\<rparr>"

definition set_graveyard :: "card_id list \<Rightarrow> player_zones \<Rightarrow> player_zones" where
  "set_graveyard order z = z\<lparr>pz_graveyard := (pz_graveyard z)\<lparr>z_cards := order\<rparr>\<rparr>"

definition shuffle_library ::
  "(rng \<Rightarrow> card_id list \<Rightarrow> card_id list \<times> rng) \<Rightarrow> player_id \<Rightarrow> game_state \<Rightarrow> game_state" where
  "shuffle_library shuf p g = (case get_player_zones g p of
       None \<Rightarrow> g
     | Some zs \<Rightarrow>
         let rng_state = capture_rng_state g;
             previous_order = z_cards (pz_library zs);
             (order, r) = shuf (gs_rng g) previous_order;
             g1 = (map_player_zones p (set_library order) g)\<lparr>gs_rng := r\<rparr>;
             g2 = log_action (ShuffleLibrary p previous_order rng_state) g1 in
         if \<not> gs_skip_reveals g2 \<and> \<not> gs_is_shadow_game g2 then push_library_reorder p g2 else g2)"

definition log_library_reorder :: "player_id \<Rightarrow> bool \<Rightarrow> game_state \<Rightarrow> game_state" where
  "log_library_reorder p include_graveyard g = (case get_player_zones g p of
       None \<Rightarrow> g
     | Some z \<Rightarrow> log_action (ReorderLibrary p (z_cards (pz_library z))
         (if include_graveyard then Some (z_cards (pz_graveyard z)) else None)) g)"

lemma push_library_reorder_view [simp]:
  "durable (push_library_reorder p g) = durable g"
  "game_actions (push_library_reorder p g) = game_actions g"
  "log_on (push_library_reorder p g) = log_on g"
  by (simp_all add: push_library_reorder_def)

text \<open>A shuffle is reversed when the captured generator state can be read back.\<close>

lemma shuffle_undoable:
  assumes "log_on g" and rng: "length (gs_rng g) \<le> 64" "ds (gs_rng g) = Some (gs_rng g)"
  shows "undoable ds g (shuffle_library shuf p g)"
proof (cases "get_player_zones g p")
  case (Some zs)
  obtain order r where sh: "shuf (gs_rng g) (z_cards (pz_library zs)) = (order, r)" by force
  define g1 where "g1 = (map_player_zones p (set_library order) g)\<lparr>gs_rng := r\<rparr>"
  define g2 where "g2 = log_action (ShuffleLibrary p (z_cards (pz_library zs)) (Some (gs_rng g))) g1"
  have zones1: "get_player_zones g1 p = Some (set_library order zs)"
    using Some by (simp add: g1_def get_player_zones_def map_player_zones_def entries.lookup_modify)
  have "undo_effect ds (ShuffleLibrary p (z_cards (pz_library zs)) (Some (gs_rng g))) g1
      = (map_player_zones p (set_library (z_cards (pz_library zs))) g1)\<lparr>gs_rng := gs_rng g\<rparr>"
    using zones1 rng(2)
    by (simp add: undo_effect_def undo_shuffle_library_def restore_rng_def set_library_def [abs_def])
  also have "\<dots> = map_player_zones p (set_library (z_cards (pz_library zs)))
      (map_player_zones p (set_library order) g)"
    by (simp add: g1_def map_player_zones_def)
  also have "\<dots> = g"
    using Some by (intro map_player_zones_cancel) (simp add: set_library_def)
  finally have "undoable ds g g2"
    unfolding g2_def using assms(1) by (intro undoable_log_action) (simp_all add: g1_def)
  moreover have "shuffle_library shuf p g = (if \<not> gs_skip_reveals g2 \<and> \<not> gs_is_shadow_game g2
      then push_library_reorder p g2 else g2)"
    using Some sh rng(1)
    by (simp add: shuffle_library_def capture_rng_state_def g2_def g1_def Let_def)
  ultimately show ?thesis by (auto intro: undoable_same_view)
qed (simp add: shuffle_library_def)

subsection \<open>Scry and surveil\<close>

record scry_decision =
  sd_top :: "card_id list"
  sd_bottom :: "card_id list"

record surveil_decision =
  sv_top :: "card_id list"
  sv_graveyard :: "card_id list"

definition scry_keep_all_on_top :: "card_id list \<Rightarrow> scry_decision" where
  "scry_keep_all_on_top revealed = \<lparr>sd_top = rev revealed, sd_bottom = []\<rparr>"

definition surveil_keep_all_on_top :: "card_id list \<Rightarrow> surveil_decision" where
  "surveil_keep_all_on_top revealed = \<lparr>sv_top = rev revealed, sv_graveyard = []\<rparr>"

definition snapshot_top_n :: "game_state \<Rightarrow> player_id \<Rightarrow> u8 \<Rightarrow> card_id list" where
  "snapshot_top_n g p n = (case get_player_zones g p of
     None \<Rightarrow> [] | Some z \<Rightarrow> take (unat n) (rev (z_cards (pz_library z))))"

text \<open>The three loops of a scry, on the library's vector.\<close>

definition scry_reorder :: "card_id list \<Rightarrow> scry_decision \<Rightarrow> card_id list \<Rightarrow> card_id list" where
  "scry_reorder revealed d lib = (let
       lib1 = foldl (\<lambda>l c. remove1 c l) lib revealed;
       lib2 = foldl (\<lambda>l c. c # l) lib1 (rev (sd_bottom d)) in
     foldl (\<lambda>l c. l @ [c]) lib2 (sd_top d))"

definition player_tag :: "player_id \<Rightarrow> string" where
  "player_tag p = ''P'' @ show_nat (unat (p + 1))"

definition scry_message :: "player_id \<Rightarrow> card_id list \<Rightarrow> scry_decision \<Rightarrow> game_state \<Rightarrow> game_state" where
  "scry_message p revealed d g =
     (let name = (case card_of g (hd revealed) of Some k \<Rightarrow> c_name k | None \<Rightarrow> ''Unknown'') in
      if length revealed = 1
      then (if sd_bottom d = []
        then g\<lparr>gs_logger := normal_private (player_tag p @ '' scries 1, keeps '' @ name @ '' on top'') p
          (player_tag p @ '' scries 1, keeps the card on top'') (gs_logger g)\<rparr>
        else g\<lparr>gs_logger := normal_private (player_tag p @ '' scries 1, puts '' @ name @ '' on bottom'') p
          (player_tag p @ '' scries 1, puts the card on the bottom'') (gs_logger g)\<rparr>)
      else g\<lparr>gs_logger := log_normal (player_tag p @ '' scries '' @ show_nat (length revealed)
          @ '', keeps '' @ show_nat (length (sd_top d)) @ '' on top, puts ''
          @ show_nat (length (sd_bottom d)) @ '' on bottom'') (gs_logger g)\<rparr>)"

definition scry_apply_decision ::
  "player_id \<Rightarrow> card_id list \<Rightarrow> scry_decision \<Rightarrow> game_state \<Rightarrow> game_state" where
  "scry_apply_decision p revealed d g =
     (if revealed = [] then g
      else let library_actually_changed = (sd_bottom d \<noteq> []);
               g1 = log_library_reorder p False (scry_message p revealed d g);
               g2 = map_player_zones p
                 (\<lambda>z. set_library (scry_reorder revealed d (z_cards (pz_library z))) z) g1 in
        if library_actually_changed \<and> \<not> gs_skip_reveals g2 \<and> \<not> gs_is_shadow_game g2
        then push_library_reorder p g2 else g2)"

definition surveil_reorder ::
  "surveil_decision \<Rightarrow> card_id list \<times> card_id list \<Rightarrow> card_id list \<times> card_id list" where
  "surveil_reorder d lg = (let
       (lib1, gy) = foldl (\<lambda>(l, y) c. (remove1 c l, y @ [c])) lg (sv_graveyard d);
       lib2 = foldl (\<lambda>l c. remove1 c l) lib1 (sv_top d) in
     (foldl (\<lambda>l c. l @ [c]) lib2 (sv_top d), gy))"

definition surveil_zones :: "surveil_decision \<Rightarrow> player_zones \<Rightarrow> player_zones" where
  "surveil_zones d z = (let (l, y) = surveil_reorder d
       (z_cards (pz_library z), z_cards (pz_graveyard z)) in
     set_graveyard y (set_library l z))"

definition surveil_message :: "player_id \<Rightarrow> card_id list \<Rightarrow> surveil_decision \<Rightarrow> string" where
  "surveil_message p revealed d = player_tag p @ '' surveils '' @ show_nat (length revealed)
     @ '', keeps '' @ show_nat (length (sv_top d)) @ '' on top, puts ''
     @ show_nat (length (sv_graveyard d)) @ '' into graveyard''"

definition surveil_apply_decision ::
  "player_id \<Rightarrow> card_id list \<Rightarrow> surveil_decision \<Rightarrow> game_state \<Rightarrow> game_state" where
  "surveil_apply_decision p revealed d g =
     (if revealed = [] then g
      else let library_actually_changed = (sv_graveyard d \<noteq> []);
               g0 = game_log (surveil_message p revealed d) g;
               g2 = map_player_zones p (surveil_zones d) (log_library_reorder p True g0) in
        if library_actually_changed \<and> \<not> gs_skip_reveals g2 \<and> \<not> gs_is_shadow_game g2
        then push_library_reorder p g2 else g2)"

text \<open>The result of the three loops, and that a scry permutes the library.\<close>

lemma foldl_append_each: "foldl (\<lambda>l c. l @ [c]) l cs = l @ cs"
  by (induction cs arbitrary: l) simp_all

lemma foldl_push_front: "foldl (\<lambda>l c. c # l) l cs = rev cs @ l"
  by (induction cs arbitrary: l) simp_all

lemma scry_reorder_eq:
  "scry_reorder revealed d lib = sd_bottom d @ foldl (\<lambda>l c. remove1 c l) lib revealed @ sd_top d"
  by (simp add: scry_reorder_def Let_def foldl_append_each foldl_push_front)

lemma mset_foldl_remove1: "mset (foldl (\<lambda>l c. remove1 c l) l cs) = mset l - mset cs"
  by (induction cs arbitrary: l) simp_all

lemma foldl_remove1_top:
  assumes "distinct lib" "n \<le> length lib"
  shows "foldl (\<lambda>l c. remove1 c l) lib (take n (rev lib)) = take (length lib - n) lib"
  using assms
proof (induction n)
  case (Suc n)
  let ?i = "length lib - Suc n"
  have i: "?i < length lib" "length lib - n = Suc ?i" using Suc.prems by auto
  have "take (Suc n) (rev lib) = take n (rev lib) @ [lib ! ?i]"
    using Suc.prems i by (simp add: take_Suc_conv_app_nth rev_nth)
  then have "foldl (\<lambda>l c. remove1 c l) lib (take (Suc n) (rev lib))
      = remove1 (lib ! ?i) (take (length lib - n) lib)"
    using Suc by simp
  also have "\<dots> = remove1 (lib ! ?i) (take ?i lib @ [lib ! ?i])"
    using i by (simp add: take_Suc_conv_app_nth)
  also have "\<dots> = take ?i lib"
  proof (rule remove1_append_self)
    show "lib ! ?i \<notin> set (take ?i lib)"
      using Suc.prems(1) i(1) by (auto simp: in_set_conv_nth nth_eq_iff_index_eq)
  qed
  finally show ?case .
qed simp

lemma scry_reorder_top:
  assumes "distinct lib" "n \<le> length lib"
  shows "scry_reorder (take n (rev lib)) d lib = sd_bottom d @ take (length lib - n) lib @ sd_top d"
  using assms by (simp add: scry_reorder_eq foldl_remove1_top)

lemma scry_reorder_mset:
  assumes "mset (sd_top d) + mset (sd_bottom d) = mset revealed" "mset revealed \<subseteq># mset lib"
  shows "mset (scry_reorder revealed d lib) = mset lib"
proof -
  have "mset (scry_reorder revealed d lib) = mset lib - mset revealed + mset revealed"
    using assms(1) by (simp add: scry_reorder_eq mset_foldl_remove1 union_ac)
  then show ?thesis using assms(2) by (simp add: subset_mset.diff_add)
qed

lemma scry_keep_all:
  assumes "distinct lib" "n \<le> length lib"
  shows "scry_reorder (take n (rev lib)) (scry_keep_all_on_top (take n (rev lib))) lib = lib"
  using assms by (simp add: scry_reorder_top scry_keep_all_on_top_def rev_take)

lemma surveil_reorder_mset:
  assumes "mset (sv_top d) + mset (sv_graveyard d) \<subseteq># mset lib"
  shows "mset (fst (surveil_reorder d (lib, gy))) + mset (snd (surveil_reorder d (lib, gy)))
    = mset lib + mset gy"
    "snd (surveil_reorder d (lib, gy)) = gy @ sv_graveyard d"
proof -
  have loop: "foldl (\<lambda>(l, y) c. (remove1 c l, y @ [c])) (l, y) cs
      = (foldl (\<lambda>l c. remove1 c l) l cs, y @ cs)" for l y cs
    by (induction cs arbitrary: l y) simp_all
  have res: "surveil_reorder d (lib, gy)
    = (foldl (\<lambda>l c. remove1 c l) (foldl (\<lambda>l c. remove1 c l) lib (sv_graveyard d)) (sv_top d) @ sv_top d,
       gy @ sv_graveyard d)"
    by (simp add: surveil_reorder_def loop foldl_append_each)
  then show "snd (surveil_reorder d (lib, gy)) = gy @ sv_graveyard d" by simp
  have "mset lib - mset (sv_graveyard d) - mset (sv_top d) + (mset (sv_top d) + mset (sv_graveyard d))
      = mset lib"
    using assms by (simp add: diff_diff_add_mset add.commute subset_mset.diff_add)
  then show "mset (fst (surveil_reorder d (lib, gy))) + mset (snd (surveil_reorder d (lib, gy)))
    = mset lib + mset gy"
    by (simp add: res mset_foldl_remove1 union_ac)
qed

text \<open>Both record the order first; undoing the record restores library and graveyard.\<close>

definition restore_order :: "bool \<Rightarrow> player_zones \<Rightarrow> player_zones \<Rightarrow> player_zones" where
  "restore_order gy z z' = (let z1 = set_library (z_cards (pz_library z)) z' in
     if gy then set_graveyard (z_cards (pz_graveyard z)) z1 else z1)"

lemma map_player_zones_absent: "get_player_zones g p = None \<Longrightarrow> map_player_zones p f g = g"
  by (simp add: get_player_zones_def map_player_zones_def entries.modify_absent)

lemma reorder_undoable:
  assumes "log_on g" and undo: "\<And>z. get_player_zones g p = Some z \<Longrightarrow> restore_order gy z (h z) = z"
  shows "undoable ds g (map_player_zones p h (log_library_reorder p gy g))"
proof (cases "get_player_zones g p")
  case None
  then show ?thesis by (simp add: log_library_reorder_def map_player_zones_absent)
next
  case (Some z)
  let ?a = "ReorderLibrary p (z_cards (pz_library z)) (if gy then Some (z_cards (pz_graveyard z)) else None)"
  have "undo_effect ds ?a (map_player_zones p h g)
      = map_player_zones p (restore_order gy z) (map_player_zones p h g)"
    by (simp add: undo_effect_def undo_reorder_library_def restore_order_def [abs_def] set_library_def
        set_graveyard_def Let_def)
  also have "\<dots> = g" using Some undo [OF Some] by (intro map_player_zones_cancel) simp
  finally have "undoable ds g (log_action ?a (map_player_zones p h g))"
    using assms(1) by (intro undoable_log_action) simp_all
  moreover have "map_player_zones p h (log_action ?a g) = log_action ?a (map_player_zones p h g)"
    by (simp add: map_player_zones_def log_action_def)
  ultimately show ?thesis using Some by (simp add: log_library_reorder_def)
qed

lemma scry_message_view [simp]:
  "durable (scry_message p r d g) = durable g" "game_actions (scry_message p r d g) = game_actions g"
  "log_on (scry_message p r d g) = log_on g" "get_player_zones (scry_message p r d g) = get_player_zones g"
  by (auto simp: scry_message_def Let_def game_actions_def log_on_def get_player_zones_def fun_eq_iff)

lemma undoable_after_silent:
  "game_actions h = game_actions g \<Longrightarrow> durable h = durable g \<Longrightarrow> undoable ds h k \<Longrightarrow> undoable ds g k"
  using undoable_trans [OF undoable_silent] .

lemma undoable_push: "undoable ds g h \<Longrightarrow> undoable ds g (push_library_reorder p h)"
  by (rule undoable_same_view) simp_all

lemma scry_undoable:
  assumes "log_on g" shows "undoable ds g (scry_apply_decision p revealed d g)"
proof -
  let ?h = "\<lambda>z. set_library (scry_reorder revealed d (z_cards (pz_library z))) z"
  have "undoable ds (scry_message p revealed d g)
      (map_player_zones p ?h (log_library_reorder p False (scry_message p revealed d g)))"
    using assms by (intro reorder_undoable) (simp_all add: restore_order_def set_library_def)
  then have "undoable ds g (map_player_zones p ?h (log_library_reorder p False (scry_message p revealed d g)))"
    by (rule undoable_after_silent [rotated 2]) simp_all
  then show ?thesis
    by (auto simp: scry_apply_decision_def Let_def intro: undoable_push)
qed

lemma surveil_undoable:
  assumes "log_on g" shows "undoable ds g (surveil_apply_decision p revealed d g)"
proof -
  have "undoable ds (game_log m g) (map_player_zones p (surveil_zones d) (log_library_reorder p True (game_log m g)))" for m
    using assms by (intro reorder_undoable)
      (simp_all add: restore_order_def set_library_def set_graveyard_def surveil_zones_def split_beta)
  then have "undoable ds g (map_player_zones p (surveil_zones d) (log_library_reorder p True (game_log m g)))" for m
    by (rule undoable_after_silent [rotated 2]) simp_all
  then show ?thesis
    by (auto simp: surveil_apply_decision_def Let_def intro: undoable_push)
qed

subsection \<open>Countering a spell\<close>

definition counter_spell :: "card_id \<Rightarrow> game_state \<Rightarrow> mtg_error + game_state" where
  "counter_spell c g =
     (if \<not> zone_contains (gs_stack g) c
      then Inl (InvalidAction ''Cannot counter a spell that is not on the stack'')
      else case store_get (gs_cards g) c of
          Inl _ \<Rightarrow> Inl (MtgEntityNotFound c)
        | Inr k \<Rightarrow> Inr (log_action (MoveCard c Stack Graveyard (c_owner k)
              (position_in_zone c Stack (c_owner k) g)) (raw_move c Stack Graveyard (c_owner k) g)))"

lemma counter_spell_undoable:
  assumes "counter_spell c g = Inr g'" "log_on g"
    and "\<And>k. card_of g c = Some k \<Longrightarrow> movable c Stack Graveyard (c_owner k) g"
  shows "undoable ds g g'"
proof -
  obtain k where k: "store_get (gs_cards g) c = Inr k"
    and g': "g' = log_action (MoveCard c Stack Graveyard (c_owner k)
              (position_in_zone c Stack (c_owner k) g)) (raw_move c Stack Graveyard (c_owner k) g)"
    using assms(1) by (auto simp: counter_spell_def split: if_splits sum.splits)
  have "movable c Stack Graveyard (c_owner k) g"
    using assms(3) store_get_Inr [OF k] by (simp add: card_of_def)
  then show ?thesis
    unfolding g' using assms(2) by (intro undoable_log_action) (simp_all add: undo_raw_move)
qed

subsection \<open>Drawing\<close>

definition draw_zones :: "player_zones \<Rightarrow> player_zones" where
  "draw_zones z = (case draw_top (pz_library z) of
       (lib, Some c) \<Rightarrow> z\<lparr>pz_library := lib, pz_hand := zone_add (pz_hand z) c\<rparr>
     | (lib, None) \<Rightarrow> z)"

definition log_draw_count :: "player_id \<Rightarrow> nat \<Rightarrow> game_state \<Rightarrow> game_state \<times> u8" where
  "log_draw_count p prior g = (case try_get_player g p of
       Some x \<Rightarrow> let n = snd (record_card_drawn x) in
         (log_action_at (SetCardsDrawnThisTurn p (p_cards_drawn_this_turn x) n) prior
            (map_player p (\<lambda>x. fst (record_card_drawn x)) g), n)
     | None \<Rightarrow> (g, 1))"

definition draw_card_inner :: "player_id \<Rightarrow> bool \<Rightarrow> game_state \<Rightarrow> game_state \<times> card_id option \<times> u8" where
  "draw_card_inner p log_gamelog g = (case get_player_zones g p of
       None \<Rightarrow> (g, None, 0)
     | Some zs \<Rightarrow> (case draw_top (pz_library zs) of
           (lib, None) \<Rightarrow> (g, None, 0)
         | (lib, Some c) \<Rightarrow>
             let from_position = Some (of_nat (length (z_cards lib)));
                 g1 = map_player_zones p draw_zones g;
                 prior = log_count (gs_logger g1);
                 g2 = maybe_reveal_to_player c p prior g1;
                 g3 = log_action_at (MoveCard c Library Hand p from_position) prior g2;
                 (g4, n) = log_draw_count p prior g3;
                 card_name = (case card_of g4 c of Some k \<Rightarrow> c_name k | None \<Rightarrow> ''a card'');
                 g5 = (if log_gamelog then g4\<lparr>gs_logger := gamelog_private
                     (player_display_name g4 p @ '' draws '' @ card_name @ '' ('' @ show_nat (unat c) @ '')'')
                     p (player_display_name g4 p @ '' draws a card'') (gs_logger g4)\<rparr> else g4) in
             (g5, Some c, n)))"

definition draw_card_silent :: "player_id \<Rightarrow> game_state \<Rightarrow> game_state \<times> card_id option \<times> u8" where
  "draw_card_silent p g = draw_card_inner p False g"

text \<open>The reveal and the zone change touch different fields, so the draw is the reveal, then the
  move, then the count; each of the three is reversed by its own entry.\<close>

lemma reveal_map_player_zones:
  "maybe_reveal_to_player c p prior (map_player_zones q f g)
     = map_player_zones q f (maybe_reveal_to_player c p prior g)"
  by (simp add: maybe_reveal_to_player_def map_player_zones_def card_of_def map_card_def
      log_action_at_def split: option.split)

lemma reveal_zones [simp]:
  "get_player_zones (maybe_reveal_to_player c p prior g) = get_player_zones g"
  "gs_player_zones (maybe_reveal_to_player c p prior g) = gs_player_zones g"
  by (auto simp: maybe_reveal_to_player_def get_player_zones_def map_card_def log_action_at_def
      fun_eq_iff split: option.split)

lemma undo_draw:
  assumes zs: "get_player_zones g p = Some zs" and dr: "draw_top (pz_library zs) = (lib, Some c)"
    and fresh: "\<not> zone_contains (pz_hand zs) c" and len: "zone_len (pz_library zs) < 2 ^ 32"
  shows "undo_effect ds (MoveCard c Library Hand p (Some (of_nat (length (z_cards lib)))))
    (map_player_zones p draw_zones g) = g"
proof -
  let ?i = "length (z_cards lib)"
  have lib: "z_cards (pz_library zs) = z_cards lib @ [c]" "lib = (pz_library zs)\<lparr>z_cards := z_cards lib\<rparr>"
    using dr by (auto simp: draw_top_def split: if_splits)
  have ui: "unat (of_nat ?i :: u32) = ?i" using len lib(1) by (simp add: unat_of_nat zone_len_def)
  have d: "draw_zones zs = zs\<lparr>pz_library := lib, pz_hand := zone_add (pz_hand zs) c\<rparr>"
    using dr by (simp add: draw_zones_def)
  have z1: "zone_of (map_player_zones p draw_zones g) Hand p = Some (zone_add (pz_hand zs) c)"
    using zs d by (simp add: zone_of_def)
  have rem: "snd (zone_remove (zone_add (pz_hand zs) c) c)" by (simp add: zone_remove_eq zone_add_def)
  let ?rest = "\<lambda>z. get_zone_mut Library (\<lambda>l. zone_add_at l c ?i) (get_zone_mut Hand (\<lambda>h. fst (zone_remove h c)) z)"
  have "undo_effect ds (MoveCard c Library Hand p (Some (of_nat ?i))) (map_player_zones p draw_zones g)
      = map_player_zones p ?rest (map_player_zones p draw_zones g)"
    using z1 rem ui
    by (simp add: undo_effect_def undo_move_card_def remove_from_zone_def map_zone_def
        map_player_zones_def entries.modify_modify comp_def)
  also have "\<dots> = g"
  proof (rule map_player_zones_cancel)
    fix z assume "get_player_zones g p = Some z"
    then have z: "z = zs" using zs by simp
    have "zone_add_at lib c ?i = pz_library zs"
      using lib by (metis (no_types, lifting) zone_add_at_def Let_def insert_at_length min.idem
          card_zone.surjective card_zone.update_convs(3))
    moreover have "fst (zone_remove (zone_add (pz_hand zs) c) c) = pz_hand zs"
      using fresh by (rule zone_remove_add)
    ultimately show "?rest (draw_zones z) = z" unfolding z d by simp
  qed
  finally show ?thesis .
qed

lemma draw_count_undoable:
  assumes "log_on g" shows "undoable ds g (fst (log_draw_count p prior g))"
proof (cases "try_get_player g p")
  case (Some x)
  have "undoable ds g (log_action_at (SetCardsDrawnThisTurn p (p_cards_drawn_this_turn x) n) prior
      (map_player p (\<lambda>x. fst (record_card_drawn x)) g))" for n
  proof (rule undoable_log)
    have k: "keeps_id (\<lambda>x. fst (record_card_drawn x))" by (simp add: keeps_id_def record_card_drawn_def Let_def)
    have "undo_effect ds (SetCardsDrawnThisTurn p (p_cards_drawn_this_turn x) n)
        (map_player p (\<lambda>x. fst (record_card_drawn x)) g)
      = map_player p (\<lambda>y. y\<lparr>p_cards_drawn_this_turn := p_cards_drawn_this_turn x\<rparr>)
        (map_player p (\<lambda>x. fst (record_card_drawn x)) g)"
      using Some k by (simp add: undo_effect_def undo_set_cards_drawn_def undo_player_def)
    also have "\<dots> = g"
      using Some k by (intro map_player_cancel) (simp_all add: record_card_drawn_def Let_def)
    finally show "durable (undo_effect ds (SetCardsDrawnThisTurn p (p_cards_drawn_this_turn x) n)
        (map_player p (\<lambda>x. fst (record_card_drawn x)) g)) = durable g" by simp
  qed (use assms in simp_all)
  then show ?thesis using Some by (simp add: log_draw_count_def Let_def)
qed (simp add: log_draw_count_def)

lemma draw_undoable:
  assumes log: "log_on g"
    and zs: "\<And>zs lib c. get_player_zones g p = Some zs \<Longrightarrow> draw_top (pz_library zs) = (lib, Some c)
      \<Longrightarrow> \<not> zone_contains (pz_hand zs) c \<and> zone_len (pz_library zs) < 2 ^ 32"
  shows "undoable ds g (fst (draw_card_inner p lg g))"
proof (cases "get_player_zones g p")
  case (Some z)
  obtain lib oc where dr: "draw_top (pz_library z) = (lib, oc)" by force
  show ?thesis
  proof (cases oc)
    case None
    then show ?thesis using Some dr by (simp add: draw_card_inner_def)
  next
    case (Some c)
    let ?i = "Some (of_nat (length (z_cards lib)))"
    define prior where "prior = log_count (gs_logger (map_player_zones p draw_zones g))"
    define gr where "gr = maybe_reveal_to_player c p prior g"
    define g3 where "g3 = log_action_at (MoveCard c Library Hand p ?i) prior (map_player_zones p draw_zones gr)"
    have "undoable ds g gr" unfolding gr_def using log by (rule reveal_to_player_undoable)
    also have "undoable ds gr g3"
      unfolding g3_def
    proof (rule undoable_log)
      have "undo_effect ds (MoveCard c Library Hand p ?i) (map_player_zones p draw_zones gr) = gr"
        using zs [OF \<open>get_player_zones g p = Some z\<close>] dr Some \<open>get_player_zones g p = Some z\<close>
        by (intro undo_draw) (auto simp: gr_def)
      then show "durable (undo_effect ds (MoveCard c Library Hand p ?i) (map_player_zones p draw_zones gr))
        = durable gr" by simp
    qed (use log in \<open>simp_all add: gr_def\<close>)
    also have "undoable ds g3 (fst (log_draw_count p prior g3))"
      using log by (intro draw_count_undoable) (simp add: g3_def gr_def)
    finally have u: "undoable ds g (fst (log_draw_count p prior g3))" .
    have "\<exists>m. fst (draw_card_inner p lg g) = (fst (log_draw_count p prior g3))\<lparr>gs_logger := m\<rparr>"
      using \<open>get_player_zones g p = Some z\<close> dr Some
      by (auto simp: draw_card_inner_def Let_def g3_def gr_def prior_def reveal_map_player_zones split_beta
          intro: exI [of _ "gs_logger (fst (log_draw_count p prior g3))"])
    then show ?thesis using undoable_same_view [OF u] by (auto simp: game_actions_def)
  qed
qed (simp add: draw_card_inner_def)

end
