(* ===== verification/MoveCard.thy ===== *)
theory MoveCard
  imports ZoneOps
begin

section \<open>Moving a card between zones\<close>

text \<open>
  \<open>GameState::move_card\<close> of \<open>mtg-engine/src/game/state.rs\<close> as the sequence of its stages: the
  commander replacement, the reveal of a card that leaves a hidden zone, the detachment of
  equipment, the removal and the insertion, the replacements applied as a permanent enters, the
  log entry, the mana caches, the reset of a card that left the battlefield, the cleanup of
  persistent effects and the delayed triggers. The loader's parsers, the
  execution of a spell effect and the triggers of a death are the fields of
  \<open>game_env\<close>; what happens when a delayed trigger fires is the argument \<open>fire\<close> of
  \<open>move_card_with\<close>, tied to the move itself in the theory \<open>DelayedFire\<close>.
\<close>

record game_env =
  env_loader :: card_loader
  env_execute :: "effect \<Rightarrow> game_state \<Rightarrow> mtg_error + game_state"
  env_death_triggers :: "card_id \<Rightarrow> game_state \<Rightarrow> game_state"

definition em_dash :: string where "em_dash = [CHR 0xE2, CHR 0x80, CHR 0x94]"

definition verbose_log :: "string \<Rightarrow> game_state \<Rightarrow> game_state" where
  "verbose_log m g = g\<lparr>gs_logger := log_verbose m (gs_logger g)\<rparr>"

definition normal_log :: "string \<Rightarrow> game_state \<Rightarrow> game_state" where
  "normal_log m g = g\<lparr>gs_logger := log_normal m (gs_logger g)\<rparr>"

definition tag_card :: "card_id \<Rightarrow> card \<Rightarrow> string" where
  "tag_card c k = c_name k @ '' ('' @ show_nat (unat c) @ '')''"

subsection \<open>Before the move\<close>

definition commander_replacement :: "card_id \<Rightarrow> zone \<Rightarrow> game_state \<Rightarrow> game_state \<times> zone" where
  "commander_replacement c to g =
     (if gs_is_commander_game g \<and> (to = Graveyard \<or> to = Exile)
      then (case card_of g c of
          Some k \<Rightarrow> if c_is_commander k
            then (normal_log (c_name k @ '' returns to the command zone (commander replacement)'') g, Command)
            else (g, to)
        | None \<Rightarrow> (g, to))
      else (g, to))"

definition reveal_on_move :: "card_id \<Rightarrow> zone \<Rightarrow> zone \<Rightarrow> player_id \<Rightarrow> game_state \<Rightarrow> game_state" where
  "reveal_on_move c from_zone to ow g =
     (if gs_skip_reveals g then g
      else let prior = log_count (gs_logger g) in
        if from_zone \<in> {Library, Hand} \<and> to \<in> {Battlefield, Stack, Graveyard, Exile, Command}
        then maybe_reveal_to_all c prior g
        else if from_zone = Library \<and> to = Hand then maybe_reveal_to_player c ow prior g
        else if to = Library then maybe_conceal_in_library c prior g
        else g)"

definition equipment_on :: "card_id \<Rightarrow> game_state \<Rightarrow> card_id list" where
  "equipment_on c g = filter (\<lambda>e. case card_of g e of
       Some q \<Rightarrow> is_equipment q \<and> c_attached_to q = Some c | None \<Rightarrow> False)
     (z_cards (gs_battlefield g))"

definition detach_one :: "game_state \<Rightarrow> card_id \<Rightarrow> game_state" where
  "detach_one g e = (case card_of g e of
       None \<Rightarrow> g
     | Some q \<Rightarrow> verbose_log (c_name q @ '' detaches (creature left battlefield)'')
         (map_card e (\<lambda>q. q\<lparr>c_attached_to := None\<rparr>) g))"

definition detach_equipment :: "card_id \<Rightarrow> zone \<Rightarrow> game_state \<Rightarrow> game_state" where
  "detach_equipment c from_zone g =
     (if from_zone = Battlefield
      then (case card_of g c of
          Some k \<Rightarrow> if is_creature k then foldl detach_one g (equipment_on c g) else g
        | None \<Rightarrow> g)
      else g)"

subsection \<open>As a permanent enters\<close>

definition etb_tapped :: "card_id \<Rightarrow> game_state \<Rightarrow> game_state" where
  "etb_tapped c g = (case card_of g c of
       None \<Rightarrow> g
     | Some k \<Rightarrow> if cc_enters_tapped (card_cache k)
         then log_action_at (TapCard c True) (log_count (gs_logger g))
           (verbose_log (tag_card c k @ '' enters the battlefield tapped'')
             (map_card c card_tap g))
         else g)"

definition etb_tapped_by_other :: "card_id \<Rightarrow> game_state \<Rightarrow> bool" where
  "etb_tapped_by_other c g = (case card_of g c of
       None \<Rightarrow> False
     | Some k \<Rightarrow> \<not> c_tapped k \<and> list_ex (\<lambda>s. s \<noteq> c \<and> (case card_of g s of
           None \<Rightarrow> False
         | Some src \<Rightarrow> (case cd_etb_tapped_global (c_definition src) of
               None \<Rightarrow> False
             | Some pred \<Rightarrow> matches_with_controller pred k (c_controller src) (c_controller k))))
         (z_cards (gs_battlefield g)))"

definition etb_tapped_global :: "card_id \<Rightarrow> game_state \<Rightarrow> game_state" where
  "etb_tapped_global c g = (case card_of g c of
       None \<Rightarrow> g
     | Some k \<Rightarrow> if etb_tapped_by_other c g
         then verbose_log (tag_card c k @ '' enters the battlefield tapped'') (map_card c card_tap g)
         else g)"

text \<open>The number of symbols of a colour in a zone's cards, and the colours that occur at all.\<close>

fun color_amount :: "color \<Rightarrow> mana_cost \<Rightarrow> u8" where
  "color_amount White m = mc_white m"
| "color_amount Blue m = mc_blue m"
| "color_amount Black m = mc_black m"
| "color_amount Red m = mc_red m"
| "color_amount Green m = mc_green m"
| "color_amount Colorless m = 0"

definition deck_costs :: "game_state \<Rightarrow> player_id \<Rightarrow> mana_cost list" where
  "deck_costs g p = (case get_player_zones g p of
       None \<Rightarrow> []
     | Some z \<Rightarrow> map c_mana_cost (List.map_filter (card_of g)
         (z_cards (pz_hand z) @ z_cards (pz_library z) @ z_cards (pz_graveyard z))))"

definition color_count :: "mana_cost list \<Rightarrow> color \<Rightarrow> u32" where
  "color_count ms col = foldl (\<lambda>n m. n + ucast (color_amount col m)) 0 ms"

definition more_prominent :: "mana_cost list \<Rightarrow> color option \<Rightarrow> color \<Rightarrow> color option" where
  "more_prominent ms best col = (case best of
       None \<Rightarrow> Some col
     | Some b \<Rightarrow> if color_count ms b < color_count ms col then Some col else Some b)"

definition pick_prominent_color :: "game_state \<Rightarrow> player_id \<Rightarrow> color list \<Rightarrow> color" where
  "pick_prominent_color g p excluded =
     (let ms = deck_costs g p;
          cands = filter (\<lambda>col. list_ex (\<lambda>m. 0 < color_amount col m) ms \<and> col \<notin> set excluded) ALL_COLORS in
      case foldl (more_prominent ms) None cands of
        Some col \<Rightarrow> col
      | None \<Rightarrow> (case find (\<lambda>col. col \<notin> set excluded) ALL_COLORS of Some col \<Rightarrow> col | None \<Rightarrow> White))"

fun color_debug :: "color \<Rightarrow> string" where
  "color_debug White = ''White''"
| "color_debug Blue = ''Blue''"
| "color_debug Black = ''Black''"
| "color_debug Red = ''Red''"
| "color_debug Green = ''Green''"
| "color_debug Colorless = ''Colorless''"

definition etb_choose_color :: "card_id \<Rightarrow> player_id \<Rightarrow> game_state \<Rightarrow> game_state" where
  "etb_choose_color c ow g = (case card_of g c of
       None \<Rightarrow> g
     | Some k \<Rightarrow> if cc_etb_choose_color (card_cache k)
         then let chosen = pick_prominent_color g ow (cc_etb_exclude_colors (card_cache k)) in
           log_action_at (SetChosenColor c (c_chosen_color k)) (log_count (gs_logger g))
             (normal_log (tag_card c k @ '' - chose '' @ color_debug chosen)
               (map_card c (\<lambda>k. k\<lparr>c_chosen_color := Some chosen\<rparr>) g))
         else g)"

definition hand_size :: "game_state \<Rightarrow> player_id \<Rightarrow> nat" where
  "hand_size g p = (case get_player_zones g p of Some z \<Rightarrow> length (z_cards (pz_hand z)) | None \<Rightarrow> 0)"

definition better_opponent :: "game_state \<Rightarrow> player_id option \<Rightarrow> player_id \<Rightarrow> player_id option" where
  "better_opponent g best p = (case best of
       None \<Rightarrow> Some p
     | Some b \<Rightarrow> if hand_size g b < hand_size g p \<or> hand_size g b = hand_size g p \<and> p \<le> b
         then Some p else Some b)"

definition pick_chosen_opponent :: "game_state \<Rightarrow> player_id \<Rightarrow> player_id option" where
  "pick_chosen_opponent g chooser =
     foldl (better_opponent g) None (filter (\<lambda>p. p \<noteq> chooser) (map p_id (gs_players g)))"

definition etb_choose_player :: "card_id \<Rightarrow> game_state \<Rightarrow> game_state" where
  "etb_choose_player c g = (case card_of g c of
       None \<Rightarrow> g
     | Some k \<Rightarrow> if cc_etb_choose_player (card_cache k)
         then let chosen = pick_chosen_opponent g (c_controller k);
                  g1 = map_card c (\<lambda>k. k\<lparr>c_chosen_player := chosen\<rparr>) g;
                  g2 = (case chosen of
                      None \<Rightarrow> g1
                    | Some p \<Rightarrow> normal_log (tag_card c k @ '' - chose '' @ (case try_get_player g p of
                          Some x \<Rightarrow> p_name x | None \<Rightarrow> ''P'' @ show_nat (unat p))) g1) in
           log_action_at (SetChosenPlayer c (c_chosen_player k)) (log_count (gs_logger g)) g2
         else g)"

definition mode_choice :: "card \<Rightarrow> string" where
  "mode_choice k = (let choices = cc_etb_mode_choices (card_cache k) in
     case (case cc_etb_mode_ai_logic (card_cache k) of
         Some m \<Rightarrow> if list_ex (\<lambda>x. eq_ignore_ascii_case x m) choices then Some m else None
       | None \<Rightarrow> None) of
       Some m \<Rightarrow> m
     | None \<Rightarrow> (if choices = [] then ''unknown'' else hd choices))"

definition etb_choose_mode :: "card_id \<Rightarrow> game_state \<Rightarrow> game_state" where
  "etb_choose_mode c g = (case card_of g c of
       None \<Rightarrow> g
     | Some k \<Rightarrow> if cc_etb_choose_mode (card_cache k)
         then let chosen = mode_choice k in
           log_action_at (SetChosenMode c (c_chosen_mode k)) (log_count (gs_logger g))
             (normal_log (tag_card c k @ '' '' @ em_dash @ '' chose mode: '' @ chosen)
               (map_card c (\<lambda>k. k\<lparr>c_chosen_mode := Some chosen\<rparr>) g))
         else g)"

text \<open>The loop over the battlefield that names an opponent's card with the most non-mana abilities.\<close>

definition better_name :: "player_id \<Rightarrow> (string option \<times> nat) \<Rightarrow> card option \<Rightarrow> string option \<times> nat" where
  "better_name ctrl best ok = (case ok of
       None \<Rightarrow> best
     | Some k \<Rightarrow> if c_controller k = ctrl then best
         else let n = length (filter (\<lambda>a. \<not> aa_is_mana_ability a) (c_activated_abilities k)) in
           if 0 < n \<and> snd best < n then (Some (c_name k), n) else best)"

definition name_choice :: "game_state \<Rightarrow> player_id \<Rightarrow> string option" where
  "name_choice g ctrl =
     fst (foldl (better_name ctrl) (None, 0) (map (card_of g) (z_cards (gs_battlefield g))))"

definition etb_choose_name :: "card_id \<Rightarrow> game_state \<Rightarrow> game_state" where
  "etb_choose_name c g = (case card_of g c of
       None \<Rightarrow> g
     | Some k \<Rightarrow> if cc_etb_choose_name (card_cache k)
         then let chosen = name_choice g (c_controller k) in
           log_action_at (SetChosenName c (c_chosen_name k)) (log_count (gs_logger g))
             (normal_log (tag_card c k @ '' '' @ em_dash @ '' chose card name: ''
                 @ (case chosen of Some n \<Rightarrow> n | None \<Rightarrow> ''<none>''))
               (map_card c (\<lambda>k. k\<lparr>c_chosen_name := chosen\<rparr>) g))
         else g)"

text \<open>The life an entering permanent makes its controller pay: at most seven, never the last point.\<close>

definition pay_amount :: "i32 \<Rightarrow> u32" where
  "pay_amount life = (let r = sint (life - 1) in of_int (min (max r 0) 7))"

definition etb_pay_life :: "card_id \<Rightarrow> game_state \<Rightarrow> game_state" where
  "etb_pay_life c g = (case card_of g c of
       None \<Rightarrow> g
     | Some k \<Rightarrow> if cc_etb_pay_life (card_cache k)
         then let ctrl = c_controller k;
                  life = (case try_get_player g ctrl of Some x \<Rightarrow> p_life x | None \<Rightarrow> 1);
                  n = pay_amount life;
                  prior = log_count (gs_logger g);
                  g1 = map_player ctrl (lose_life (ucast n)) g;
                  g2 = (case try_get_player g1 ctrl of
                      None \<Rightarrow> g1
                    | Some x \<Rightarrow> game_log (p_name x @ '' pays '' @ show_nat (unat n) @ '' life as ''
                        @ c_name k @ '' enters the battlefield (life: '' @ show_i32 (p_life x) @ '')'') g1);
                  g3 = log_action_at (ModifyLife ctrl (ucast n)) prior g2;
                  prior' = log_count (gs_logger g3);
                  g4 = verbose_log (tag_card c k @ '' '' @ em_dash @ '' stored '' @ show_nat (unat n)
                    @ '' life paid on ETB'') (map_card c (\<lambda>k. k\<lparr>c_stored_int := Some n\<rparr>) g3) in
           log_action_at (SetStoredInt c (c_stored_int k)) prior' g4
         else g)"

definition etb_stages :: "card_id \<Rightarrow> player_id \<Rightarrow> game_state \<Rightarrow> game_state" where
  "etb_stages c ow g = etb_pay_life c (etb_choose_name c (etb_choose_mode c (etb_choose_player c
     (etb_choose_color c ow (etb_tapped_global c (etb_tapped c g))))))"

subsection \<open>After the move\<close>

definition zone_message :: "card_id \<Rightarrow> zone \<Rightarrow> zone \<Rightarrow> game_state \<Rightarrow> game_state" where
  "zone_message c from_zone to g = (case card_of g c of
       None \<Rightarrow> g
     | Some k \<Rightarrow>
         if from_zone = Battlefield \<and> to = Graveyard then verbose_log (tag_card c k @ '' goes to graveyard'') g
         else if from_zone = Battlefield \<and> to = Exile then normal_log (tag_card c k @ '' is exiled'') g
         else if from_zone = Battlefield \<and> to = Hand
           then normal_log (tag_card c k @ '' is returned to hand'') g
         else g)"

definition discard_message :: "card_id \<Rightarrow> zone \<Rightarrow> zone \<Rightarrow> game_state \<Rightarrow> game_state" where
  "discard_message c from_zone to g =
     (if from_zone = Hand \<and> to = Graveyard
      then let fallback = ''card#'' @ show_nat (unat c);
               display = (case card_of g c of Some k \<Rightarrow> c_name k | None \<Rightarrow> fallback) in
        g\<lparr>gs_logger := normal_reveal_stable (display @ '' is discarded'') (fallback @ '' is discarded'')
            (gs_logger g)\<rparr>
      else g)"

definition update_mana_caches :: "card_id \<Rightarrow> zone \<Rightarrow> zone \<Rightarrow> game_state \<Rightarrow> game_state" where
  "update_mana_caches c from_zone to g = (case card_of g c of
       None \<Rightarrow> g
     | Some k \<Rightarrow>
         let g1 = (if from_zone = Battlefield then map_mana_caches (on_card_left c k) g else g) in
         if to = Battlefield then map_mana_caches (on_card_entered c k) g1 else g1)"

definition bump_mana_version :: "zone \<Rightarrow> zone \<Rightarrow> game_state \<Rightarrow> game_state" where
  "bump_mana_version from_zone to g =
     (if from_zone = Battlefield \<or> to = Battlefield then increment_mana_version g else g)"

definition original_definition :: "game_state \<Rightarrow> card \<Rightarrow> card_definition option" where
  "original_definition g k = (case gs_card_definitions g (c_printed_name k) of
       Some d \<Rightarrow> Some d | None \<Rightarrow> gs_token_definitions g (c_printed_name k))"

definition reset_left_card :: "game_env \<Rightarrow> card_id \<Rightarrow> zone \<Rightarrow> game_state \<Rightarrow> game_state" where
  "reset_left_card env c from_zone g =
     (if from_zone = Battlefield
      then (case card_of g c of
          None \<Rightarrow> g
        | Some k \<Rightarrow> map_card c (reset_transient_state (env_loader env) (original_definition g k))
            (log_action (RestoreCardState c (capture_state_snapshot k)) g))
      else g)"

definition cleanup_effects_on_move :: "card_id \<Rightarrow> zone \<Rightarrow> game_state \<Rightarrow> game_state" where
  "cleanup_effects_on_move c from_zone g =
     (let ids = find_effects_to_cleanup_on_zone_change (gs_persistent_effects g) c from_zone in
      if ids = [] then g
      else g\<lparr>gs_persistent_effects := fst (pes_remove_many ids (gs_persistent_effects g))\<rparr>)"

subsection \<open>Delayed triggers\<close>

text \<open>The loop both trigger checks share: a trigger still in the store is taken out, logged and fired.\<close>

fun fire_each :: "(delayed_trigger \<Rightarrow> game_state \<Rightarrow> mtg_error + game_state) \<Rightarrow> u32 list \<Rightarrow> nat
    \<Rightarrow> game_state \<Rightarrow> mtg_error + (game_state \<times> nat)" where
  "fire_each fire [] n g = Inr (g, n)"
| "fire_each fire (i # is) n g = (case dts_remove i (gs_delayed_triggers g) of
       (s, None) \<Rightarrow> fire_each fire is n g
     | (s, Some t) \<Rightarrow> (case fire t (log_action (FireDelayedTrigger t) (g\<lparr>gs_delayed_triggers := s\<rparr>)) of
         Inl e \<Rightarrow> Inl e
       | Inr g' \<Rightarrow> fire_each fire is (n + 1) g'))"

definition check_delayed_triggers_on_zone_change ::
  "(delayed_trigger \<Rightarrow> game_state \<Rightarrow> mtg_error + game_state) \<Rightarrow> card_id \<Rightarrow> zone \<Rightarrow> zone
    \<Rightarrow> game_state \<Rightarrow> mtg_error + (game_state \<times> nat)" where
  "check_delayed_triggers_on_zone_change fire c from_zone to g =
     fire_each fire (find_zone_change_triggers (gs_delayed_triggers g) c from_zone to) 0 g"

definition check_delayed_triggers_on_phase ::
  "(delayed_trigger \<Rightarrow> game_state \<Rightarrow> mtg_error + game_state) \<Rightarrow> trigger_phase \<Rightarrow> player_id
    \<Rightarrow> game_state \<Rightarrow> mtg_error + (game_state \<times> nat)" where
  "check_delayed_triggers_on_phase fire ph active g =
     fire_each fire (find_phase_triggers (gs_delayed_triggers g) ph active) 0 g"

subsection \<open>The whole move\<close>

definition finish_move :: "game_env \<Rightarrow> card_id \<Rightarrow> zone \<Rightarrow> zone \<Rightarrow> game_state \<Rightarrow> game_state" where
  "finish_move env c from_zone to g = cleanup_effects_on_move c from_zone
     (reset_left_card env c from_zone (bump_mana_version from_zone to
       (update_mana_caches c from_zone to (discard_message c from_zone to
         (zone_message c from_zone to g)))))"

text \<open>What follows the removal: the insertion, the entry, the log entry and the rest.\<close>

definition settle_move ::
  "game_env \<Rightarrow> card_id \<Rightarrow> zone \<Rightarrow> zone \<Rightarrow> player_id \<Rightarrow> u32 option \<Rightarrow> game_state \<Rightarrow> game_state" where
  "settle_move env c from_zone to ow from_position g = (
     let g4 = map_zone to ow (\<lambda>z. zone_add z c) g;
         g5 = (if to = Battlefield then etb_stages c ow g4 else g4) in
     finish_move env c from_zone to (log_action (MoveCard c from_zone to ow from_position) g5))"

definition move_card_with ::
  "game_env \<Rightarrow> (delayed_trigger \<Rightarrow> game_state \<Rightarrow> mtg_error + game_state) \<Rightarrow> card_id \<Rightarrow> zone \<Rightarrow> zone
    \<Rightarrow> player_id \<Rightarrow> game_state \<Rightarrow> mtg_error + game_state" where
  "move_card_with env fire c from_zone to0 ow g0 = (
     let (g1, to) = commander_replacement c to0 g0;
         g2 = detach_equipment c from_zone (reveal_on_move c from_zone to ow g1);
         from_position = position_in_zone c from_zone ow g2;
         (g3, removed) = remove_from_zone c from_zone ow g2 in
     if \<not> removed then Inr g3
     else map_sum id fst (check_delayed_triggers_on_zone_change fire c from_zone to
       (settle_move env c from_zone to ow from_position g3)))"

text \<open>The state a move removes the card from, and the zone it goes to.\<close>

definition before_removal :: "card_id \<Rightarrow> zone \<Rightarrow> zone \<Rightarrow> player_id \<Rightarrow> game_state \<Rightarrow> game_state \<times> zone" where
  "before_removal c f t ow g = (case commander_replacement c t g of
     (g1, to) \<Rightarrow> (detach_equipment c f (reveal_on_move c f to ow g1), to))"

lemma move_card_with_Inr:
  assumes "move_card_with env fire c f t ow g = Inr g'" "before_removal c f t ow g = (g2, to)"
  obtains (absent) "\<not> snd (remove_from_zone c f ow g2)" "g' = fst (remove_from_zone c f ow g2)"
  | (moved) n where "snd (remove_from_zone c f ow g2)"
      "check_delayed_triggers_on_zone_change fire c f to (settle_move env c f to ow
         (position_in_zone c f ow g2) (fst (remove_from_zone c f ow g2))) = Inr (g', n)"
proof (cases "snd (remove_from_zone c f ow g2)")
  case False
  then show ?thesis using assms by (intro absent)
    (auto simp: move_card_with_def before_removal_def Let_def split: prod.splits)
next
  case True
  have "map_sum id fst (check_delayed_triggers_on_zone_change fire c f to (settle_move env c f to ow
      (position_in_zone c f ow g2) (fst (remove_from_zone c f ow g2)))) = Inr g'"
    using True assms by (auto simp: move_card_with_def before_removal_def Let_def split: prod.splits)
  then show ?thesis using True moved
    by (cases "check_delayed_triggers_on_zone_change fire c f to (settle_move env c f to ow
      (position_in_zone c f ow g2) (fst (remove_from_zone c f ow g2)))") auto
qed

end
