(* ===== verification/DelayedFire.thy ===== *)
theory DelayedFire
  imports MoveCard
begin

section \<open>Firing delayed triggers and copying spells\<close>

text \<open>
  \<open>copy_spell_onto_stack\<close>, \<open>find_card_zone\<close> and \<open>fire_delayed_trigger\<close> of
  \<open>mtg-engine/src/game/state.rs\<close>. A fired trigger may move cards, and a moved card may fire
  triggers: the knot between \<open>move_card_with\<close> and \<open>fire_with\<close> is tied by recursion on fuel, the
  depth of nested moves; \<open>OutOfFuel\<close> is the outcome when it runs out and no other result depends on
  the amount. The execution of a spell effect and the triggers of a death are fields of \<open>game_env\<close>.
\<close>

subsection \<open>Copies of spells\<close>

definition MAX_SPELL_COPIES_ON_STACK :: nat where "MAX_SPELL_COPIES_ON_STACK = 100"

definition live_copies :: "game_state \<Rightarrow> nat" where
  "live_copies g = length (filter (\<lambda>c. case card_of g c of Some k \<Rightarrow> c_is_token k | None \<Rightarrow> False)
     (z_cards (gs_stack g)))"

definition spell_targets_of :: "game_state \<Rightarrow> card_id \<Rightarrow> card_id list" where
  "spell_targets_of g c = (case find (\<lambda>(i, _). i = c) (sc_spell_targets (gs_scratch g)) of
     Some (_, t) \<Rightarrow> t | None \<Rightarrow> [])"

definition copy_spell_onto_stack :: "card_id \<Rightarrow> player_id \<Rightarrow> card_id list option \<Rightarrow> game_state
    \<Rightarrow> mtg_error + (game_state \<times> card_id option)" where
  "copy_spell_onto_stack orig ctl new_targets g =
     (if \<not> zone_contains (gs_stack g) orig then Inr (g, None)
      else if MAX_SPELL_COPIES_ON_STACK \<le> live_copies g then Inr (g, None)
      else case card_of g orig of
        None \<Rightarrow> Inl (MtgEntityNotFound orig)
      | Some k \<Rightarrow>
          let (g1, i) = next_card_id g;
              copy = k\<lparr>c_id := i, c_owner := ctl, c_controller := ctl, c_is_token := True\<rparr> in
          (case store_insert (gs_cards g1) i copy of
            Inl _ \<Rightarrow> Inl Panicked
          | Inr st \<Rightarrow>
              let g2 = g1\<lparr>gs_cards := st, gs_stack := zone_add (gs_stack g1) i\<rparr>;
                  targets = (case new_targets of Some t \<Rightarrow> t | None \<Rightarrow> spell_targets_of g2 orig);
                  g3 = g2\<lparr>gs_scratch := (gs_scratch g2)\<lparr>sc_spell_targets :=
                      sc_spell_targets (gs_scratch g2) @ [(i, targets)]\<rparr>\<rparr> in
              (case get_player g3 ctl of
                Inl e \<Rightarrow> Inl e
              | Inr p \<Rightarrow> Inr (game_log (p_name p @ '' copies '' @ c_name k @ '' (copy id=''
                  @ show_nat (unat i) @ '')'') g3, Some i))))"

subsection \<open>Where a card is\<close>

definition zone_holding :: "card_id \<Rightarrow> player_zones \<Rightarrow> zone option" where
  "zone_holding c z =
     (if zone_contains (pz_hand z) c then Some Hand
      else if zone_contains (pz_library z) c then Some Library
      else if zone_contains (pz_graveyard z) c then Some Graveyard
      else if zone_contains (pz_exile z) c then Some Exile
      else if zone_contains (pz_command z) c then Some Command else None)"

definition find_card_zone :: "game_state \<Rightarrow> card_id \<Rightarrow> zone option" where
  "find_card_zone g c =
     (if zone_contains (gs_battlefield g) c then Some Battlefield
      else if zone_contains (gs_stack g) c then Some Stack
      else find_map (\<lambda>(_, z). zone_holding c z) (gs_player_zones g))"

subsection \<open>The effects of a fired trigger\<close>

type_synonym mover = "card_id \<Rightarrow> zone \<Rightarrow> zone \<Rightarrow> player_id \<Rightarrow> game_state \<Rightarrow> mtg_error + game_state"

definition owner_or :: "player_id \<Rightarrow> card_id \<Rightarrow> game_state \<Rightarrow> player_id" where
  "owner_or ctl c g = (case card_of g c of Some k \<Rightarrow> c_owner k | None \<Rightarrow> ctl)"

definition fire_return :: "mover \<Rightarrow> card_id \<Rightarrow> player_id \<Rightarrow> bool \<Rightarrow> bool \<Rightarrow> game_state
    \<Rightarrow> mtg_error + game_state" where
  "fire_return move c ctl tapped to_owner g = (case card_of g c of
       None \<Rightarrow> Inr g
     | Some k \<Rightarrow>
         let z = (case find_card_zone g c of Some z \<Rightarrow> z | None \<Rightarrow> Graveyard) in
         case move c z Battlefield (if to_owner then c_owner k else ctl) g of
           Inl e \<Rightarrow> Inl e
         | Inr g1 \<Rightarrow> Inr (normal_log (c_name k @ '' returns to the battlefield''
             @ (if tapped then '' tapped'' else []))
             (if tapped then map_card c (\<lambda>k. k\<lparr>c_tapped := True\<rparr>) g1 else g1)))"

definition fire_sacrifice :: "mover \<Rightarrow> card_id \<Rightarrow> player_id \<Rightarrow> game_state \<Rightarrow> mtg_error + game_state" where
  "fire_sacrifice move c ctl g =
     (if find_card_zone g c = Some Battlefield
      then move c Battlefield (death_destination_for_card g c) (owner_or ctl c g) g
      else Inr g)"

definition fire_sacrifice_other ::
  "mover \<Rightarrow> card_id \<Rightarrow> player_id \<Rightarrow> game_state \<Rightarrow> mtg_error + game_state" where
  "fire_sacrifice_other move c ctl g =
     (if find_card_zone g c = Some Battlefield
      then let name = (case card_of g c of Some k \<Rightarrow> c_name k
             | None \<Rightarrow> ''card#'' @ show_nat (unat c)) in
        map_sum id (normal_log (name @ '' is sacrificed''))
          (move c Battlefield (death_destination_for_card g c) (owner_or ctl c g) g)
      else Inr g)"

definition fire_exile :: "mover \<Rightarrow> card_id \<Rightarrow> player_id \<Rightarrow> game_state \<Rightarrow> mtg_error + game_state" where
  "fire_exile move c ctl g = (case find_card_zone g c of
       Some z \<Rightarrow> move c z Exile (owner_or ctl c g) g | None \<Rightarrow> Inr g)"

definition fire_destroy_tracked ::
  "game_env \<Rightarrow> mover \<Rightarrow> card_id \<Rightarrow> bool \<Rightarrow> game_state \<Rightarrow> mtg_error + game_state" where
  "fire_destroy_tracked env move c require_attacked g =
     (let gate_ok = (\<not> require_attacked
          \<or> (case card_of g c of Some k \<Rightarrow> c_attacked_this_turn k | None \<Rightarrow> False)) in
      if find_card_zone g c = Some Battlefield \<and> gate_ok
      then (case card_of g c of
          None \<Rightarrow> Inl (MtgEntityNotFound c)
        | Some k \<Rightarrow>
            if has_indestructible k then Inr g
            else if 0 < c_regeneration_shields k then apply_regeneration_shield c g
            else map_sum id (game_log (c_name k @ '' is destroyed (Berserk)''))
              (move c Battlefield (death_destination_for_card g c) (c_owner k)
                (env_death_triggers env c g)))
      else Inr g)"

definition fire_earthbend :: "player_id \<Rightarrow> u8 \<Rightarrow> game_state \<Rightarrow> mtg_error + game_state" where
  "fire_earthbend ctl n g =
     (case find (\<lambda>c. case card_of g c of
           Some k \<Rightarrow> is_land k \<and> c_controller k = ctl \<and> \<not> c_tapped k | None \<Rightarrow> False)
         (z_cards (gs_battlefield g)) of
       None \<Rightarrow> Inr (normal_log ''Delayed trigger: no valid land target for earthbend'' g)
     | Some land \<Rightarrow>
         let name = (case card_of g land of Some k \<Rightarrow> c_name k | None \<Rightarrow> ''Land'');
             g1 = set_temp_base_stats_logged land (Some 0) (Some 0)
               (earthbend_animate_creature_haste_logged land g) in
         (case add_counters land P1P1 n g1 of
           Inl e \<Rightarrow> Inl e
         | Inr g2 \<Rightarrow>
             let t = delayed_trigger_new 0 land land ctl
                   (ZoneChange [Battlefield] [Graveyard, Exile]) (ReturnToBattlefield True True) in
             Inr (normal_log (''Delayed trigger: earthbend '' @ show_nat (unat n) @ '' on '' @ name)
               (g2\<lparr>gs_delayed_triggers := fst (dts_add t (gs_delayed_triggers g2))\<rparr>))))"

definition times_sign :: string where "times_sign = [CHR 0xC3, CHR 0x97]"

definition fire_add_mana :: "player_id \<Rightarrow> mana_cost \<Rightarrow> string option \<Rightarrow> u32 option \<Rightarrow> game_state
    \<Rightarrow> mtg_error + game_state" where
  "fire_add_mana p mana amount_var remembered g =
     (let count = (if amount_var \<noteq> None then (case remembered of Some n \<Rightarrow> n | None \<Rightarrow> 0)
          else ucast (mc_colorless mana)) in
      if 0 < count
      then (case get_player g p of
          Inl e \<Rightarrow> Inl e
        | Inr x \<Rightarrow>
            let prior = log_count (gs_logger g);
                g1 = map_player p (\<lambda>x. x\<lparr>p_mana_pool :=
                  ((\<lambda>mp. add_color mp Colorless) ^^ unat count) (p_mana_pool x)\<rparr>) g;
                added = mana_cost_new\<lparr>mc_colorless := (if unat count < 256 then ucast count else -1)\<rparr> in
            Inr (game_log (p_name x @ '' adds {C}'' @ times_sign @ show_nat (unat count)
                @ '' to mana pool (delayed trigger)'')
              (log_action_at (game_action.AddMana p added) prior g1)))
      else Inr g)"

definition fire_scry :: "player_id \<Rightarrow> u8 \<Rightarrow> game_state \<Rightarrow> game_state" where
  "fire_scry p n g =
     (let name = (case try_get_player g p of Some x \<Rightarrow> p_name x | None \<Rightarrow> ''Player'');
          g1 = game_log (name @ '' scrys '' @ show_nat (unat n) @ '' (opening-hand reveal trigger)'') g;
          revealed = snapshot_top_n g1 p n in
      if revealed \<noteq> [] then scry_apply_decision p revealed (scry_keep_all_on_top revealed) g1 else g1)"

definition fire_destroy_placeholder ::
  "game_env \<Rightarrow> mover \<Rightarrow> card_id \<Rightarrow> bool \<Rightarrow> game_state \<Rightarrow> mtg_error + game_state" where
  "fire_destroy_placeholder env move c no_regen g = (case card_of g c of
       None \<Rightarrow> Inr g
     | Some k \<Rightarrow>
         if \<not> c_attacked_this_turn k then Inr g
         else if \<not> zone_contains (gs_battlefield g) c then Inr g
         else if has_indestructible k then Inr g
         else if 0 < c_regeneration_shields k \<and> \<not> no_regen then apply_regeneration_shield c g
         else move c Battlefield (death_destination_for_card g c) (c_owner k)
           (env_death_triggers env c g))"

definition arrow :: string where "arrow = [CHR 0xE2, CHR 0x86, CHR 0x92]"

fun zone_debug :: "zone \<Rightarrow> string" where
  "zone_debug Library = ''Library''"
| "zone_debug Hand = ''Hand''"
| "zone_debug Battlefield = ''Battlefield''"
| "zone_debug Graveyard = ''Graveyard''"
| "zone_debug Exile = ''Exile''"
| "zone_debug Stack = ''Stack''"
| "zone_debug Command = ''Command''"

definition fire_execute :: "game_env \<Rightarrow> mover \<Rightarrow> card_id \<Rightarrow> player_id \<Rightarrow> u32 option \<Rightarrow> effect
    \<Rightarrow> game_state \<Rightarrow> mtg_error + game_state" where
  "fire_execute env move c ctl remembered e g = (case e of
       Earthbend _ n \<Rightarrow> fire_earthbend ctl n g
     | effect.AddMana _ mana _ amount_var \<Rightarrow> fire_add_mana ctl mana amount_var remembered g
     | Scry p n _ \<Rightarrow> Inr (fire_scry p n g)
     | DestroyPermanent target _ no_regen \<Rightarrow>
         if is_placeholder target then fire_destroy_placeholder env move c no_regen g else Inr g
     | DestroyAll restriction _ _ \<Rightarrow> env_execute env (DestroyAll restriction False None) g
     | GainLifeDynamic p a r \<Rightarrow> env_execute env (GainLifeDynamic p a r) g
     | SearchLibrary _ flt dest tapped shuf \<Rightarrow>
         let name = (case try_get_player g ctl of Some x \<Rightarrow> p_name x | None \<Rightarrow> ''Player'') in
         env_execute env (SearchLibrary ctl flt dest tapped shuf)
           (game_log (name @ '' copies Epic effect (search library '' @ arrow @ '' ''
             @ zone_debug dest @ '')'') g)
     | _ \<Rightarrow> Inr g)"

definition fire_effect ::
  "game_env \<Rightarrow> mover \<Rightarrow> delayed_trigger \<Rightarrow> game_state \<Rightarrow> mtg_error + game_state" where
  "fire_effect env move t g =
     (let c = dt_tracked_card t; ctl = dt_controller t in
      case dt_effect t of
        ReturnToBattlefield tapped to_owner \<Rightarrow> fire_return move c ctl tapped to_owner g
      | DSacrifice \<Rightarrow> fire_sacrifice move c ctl g
      | SacrificeOther d \<Rightarrow> fire_sacrifice_other move d ctl g
      | ExileCard \<Rightarrow> fire_exile move c ctl g
      | DestroyTracked require_attacked \<Rightarrow> fire_destroy_tracked env move c require_attacked g
      | CastWithoutPaying \<Rightarrow> Inr g
      | CopySpellAbility _ \<Rightarrow> map_sum id fst (copy_spell_onto_stack c ctl None g)
      | ExecuteEffect e \<Rightarrow> fire_execute env move c ctl (dt_remembered_amount t) e g)"

text \<open>A repeating trigger is registered again, unless its return found no card and left early.\<close>

definition re_register :: "delayed_trigger \<Rightarrow> game_state \<Rightarrow> game_state" where
  "re_register t g = (if dt_repeating t
     then g\<lparr>gs_delayed_triggers := fst (dts_add
       (t\<lparr>dt_id := 0, dt_expiry := None, dt_remembered_amount := None\<rparr>) (gs_delayed_triggers g))\<rparr>
     else g)"

fun returns_card :: "delayed_effect \<Rightarrow> bool" where
  "returns_card (ReturnToBattlefield _ _) = True"
| "returns_card _ = False"

definition fire_with ::
  "game_env \<Rightarrow> mover \<Rightarrow> delayed_trigger \<Rightarrow> game_state \<Rightarrow> mtg_error + game_state" where
  "fire_with env move t g =
     (if returns_card (dt_effect t) \<and> card_of g (dt_tracked_card t) = None then Inr g
      else map_sum id (re_register t) (fire_effect env move t g))"

subsection \<open>The knot\<close>

primrec move_card :: "nat \<Rightarrow> game_env \<Rightarrow> mover" where
  "move_card 0 env = (\<lambda>c f t ow g. Inl OutOfFuel)"
| "move_card (Suc n) env = move_card_with env (fire_with env (move_card n env))"

definition fire_delayed_trigger ::
  "nat \<Rightarrow> game_env \<Rightarrow> delayed_trigger \<Rightarrow> game_state \<Rightarrow> mtg_error + game_state" where
  "fire_delayed_trigger n env = fire_with env (move_card n env)"

subsection \<open>More fuel changes no result\<close>

lemma map_sum_Inl [simp]: "map_sum id h r = Inl e \<longleftrightarrow> r = Inl e"
  by (cases r) auto

lemma fire_effect_mono:
  assumes mono: "\<And>c f u ow h. move c f u ow h \<noteq> Inl OutOfFuel \<Longrightarrow> move' c f u ow h = move c f u ow h"
    and fin: "fire_effect env move t g \<noteq> Inl OutOfFuel"
  shows "fire_effect env move' t g = fire_effect env move t g"
proof (cases "dt_effect t")
  case (ReturnToBattlefield tapped to_owner)
  show ?thesis
  proof (cases "card_of g (dt_tracked_card t)")
    case (Some k)
    define z where "z = (case find_card_zone g (dt_tracked_card t) of Some z \<Rightarrow> z | None \<Rightarrow> Graveyard)"
    define ow where "ow = (if to_owner then c_owner k else dt_controller t)"
    have "move (dt_tracked_card t) z Battlefield ow g \<noteq> Inl OutOfFuel"
      using fin ReturnToBattlefield Some
      by (auto simp: fire_effect_def fire_return_def z_def [symmetric] ow_def [symmetric] Let_def)
    from mono [OF this] show ?thesis using ReturnToBattlefield Some
      by (simp add: fire_effect_def fire_return_def z_def [symmetric] ow_def [symmetric] Let_def)
  qed (simp add: ReturnToBattlefield fire_effect_def fire_return_def)
next
  case DSacrifice
  then show ?thesis using fin by (auto simp: fire_effect_def fire_sacrifice_def mono Let_def split: if_splits)
next
  case (SacrificeOther d)
  then show ?thesis using fin
    by (auto simp: fire_effect_def fire_sacrifice_other_def Let_def mono split: if_splits)
next
  case ExileCard
  then show ?thesis using fin by (auto simp: fire_effect_def fire_exile_def mono Let_def split: option.splits)
next
  case (DestroyTracked b)
  then show ?thesis using fin
    by (auto simp: fire_effect_def fire_destroy_tracked_def Let_def mono split: if_splits option.splits)
next
  case (ExecuteEffect e)
  then show ?thesis using fin
    by (cases e) (auto simp: fire_effect_def fire_execute_def fire_destroy_placeholder_def mono
        Let_def split: if_splits option.splits)
qed (simp_all add: fire_effect_def)

lemma fire_with_mono:
  assumes "\<And>c f u ow h. move c f u ow h \<noteq> Inl OutOfFuel \<Longrightarrow> move' c f u ow h = move c f u ow h"
    and "fire_with env move t g \<noteq> Inl OutOfFuel"
  shows "fire_with env move' t g = fire_with env move t g"
  using assms(2) fire_effect_mono [of move move' env t g, OF assms(1)]
  by (auto simp: fire_with_def)

lemma fire_each_mono:
  assumes "\<And>t h. fire t h \<noteq> Inl OutOfFuel \<Longrightarrow> fire' t h = fire t h"
    and "fire_each fire is n g \<noteq> Inl OutOfFuel"
  shows "fire_each fire' is n g = fire_each fire is n g"
  using assms(2)
proof (induction "is" arbitrary: n g)
  case (Cons i "is")
  obtain s r where rm: "dts_remove i (gs_delayed_triggers g) = (s, r)" by force
  show ?case
  proof (cases r)
    case None
    then show ?thesis using Cons rm by simp
  next
    case (Some t)
    then show ?thesis using Cons rm assms(1)
      by (cases "fire t (log_action (FireDelayedTrigger t) (g\<lparr>gs_delayed_triggers := s\<rparr>))") auto
  qed
qed simp

lemma move_card_with_mono:
  assumes "\<And>t h. fire t h \<noteq> Inl OutOfFuel \<Longrightarrow> fire' t h = fire t h"
    and "move_card_with env fire c f t ow g \<noteq> Inl OutOfFuel"
  shows "move_card_with env fire' c f t ow g = move_card_with env fire c f t ow g"
proof -
  obtain g1 to where g1: "commander_replacement c t g = (g1, to)" by force
  define g2 where "g2 = detach_equipment c f (reveal_on_move c f to ow g1)"
  obtain g3 removed where g3: "remove_from_zone c f ow g2 = (g3, removed)" by force
  define g7 where "g7 = settle_move env c f to ow (position_in_zone c f ow g2) g3"
  have eq: "move_card_with env fr c f t ow g = (if removed
      then map_sum id fst (fire_each fr (find_zone_change_triggers (gs_delayed_triggers g7) c f to) 0 g7)
      else Inr g3)" for fr
    using g1 g3 by (simp add: move_card_with_def g2_def [symmetric] g7_def
        check_delayed_triggers_on_zone_change_def Let_def)
  then show ?thesis
    using assms(2) fire_each_mono [of fire fire', OF assms(1)] by auto
qed

lemma move_card_mono:
  "move_card n env c f t ow g \<noteq> Inl OutOfFuel \<Longrightarrow> move_card (Suc n) env c f t ow g = move_card n env c f t ow g"
proof (induction n arbitrary: c f t ow g)
  case (Suc n)
  have "fire_with env (move_card (Suc n) env) u h = fire_with env (move_card n env) u h"
    if "fire_with env (move_card n env) u h \<noteq> Inl OutOfFuel" for u h
    using that by (rule fire_with_mono [rotated]) (rule Suc.IH)
  then show ?case
    using Suc.prems move_card_with_mono [of "fire_with env (move_card n env)"
        "fire_with env (move_card (Suc n) env)" env c f t ow g] by simp
qed simp

lemma move_card_more_fuel:
  assumes "move_card n env c f t ow g \<noteq> Inl OutOfFuel" "n \<le> m"
  shows "move_card m env c f t ow g = move_card n env c f t ow g"
  using assms(2) by (induction m rule: dec_induct) (use assms(1) move_card_mono in auto)

subsection \<open>The bound on copies\<close>

lemma copy_spell_fields:
  assumes "copy_spell_onto_stack orig ctl ts g = Inr (g', Some i)"
  obtains k where "i = gs_next_entity_id g" "live_copies g < MAX_SPELL_COPIES_ON_STACK"
    "z_cards (gs_stack g') = z_cards (gs_stack g) @ [i]" "gs_next_entity_id g' = i + 1"
    "card_of g orig = Some k" "card_of g i = None"
    "card_of g' = (card_of g)(i \<mapsto> k\<lparr>c_id := i, c_owner := ctl, c_controller := ctl, c_is_token := True\<rparr>)"
proof -
  let ?i = "gs_next_entity_id g"
  have on: "zone_contains (gs_stack g) orig" "\<not> MAX_SPELL_COPIES_ON_STACK \<le> live_copies g"
    using assms by (auto simp: copy_spell_onto_stack_def split: if_splits)
  obtain k where k: "card_of g orig = Some k"
    using assms on by (cases "card_of g orig") (simp_all add: copy_spell_onto_stack_def)
  let ?copy = "k\<lparr>c_id := ?i, c_owner := ctl, c_controller := ctl, c_is_token := True\<rparr>"
  obtain st where st: "store_insert (gs_cards g) ?i ?copy = Inr st"
    using assms on k by (cases "store_insert (gs_cards g) ?i ?copy")
      (simp_all add: copy_spell_onto_stack_def next_card_id_def next_id_def Let_def)
  define g3 where "g3 = (\<lambda>tg. g\<lparr>gs_next_entity_id := ?i + 1, gs_cards := st,
     gs_stack := zone_add (gs_stack g) ?i, gs_scratch := (gs_scratch g)\<lparr>sc_spell_targets :=
       sc_spell_targets (gs_scratch g) @ [(?i, tg)]\<rparr>\<rparr>)"
  have "\<exists>tg x m. get_player (g3 tg) ctl = Inr x \<and> g' = game_log m (g3 tg) \<and> i = ?i"
    using assms on k st unfolding g3_def
    by (simp add: copy_spell_onto_stack_def next_card_id_def next_id_def Let_def spell_targets_of_def
        split: sum.splits) blast
  then obtain tg m where g': "g' = game_log m (g3 tg)" "i = ?i" by blast
  have rest: "i = ?i" "live_copies g < MAX_SPELL_COPIES_ON_STACK"
    "z_cards (gs_stack g') = z_cards (gs_stack g) @ [i]" "gs_next_entity_id g' = i + 1" "gs_cards g' = st"
    using g' on(2) by (simp_all add: g3_def game_log_def zone_add_def)
  show thesis
  proof (rule that [OF rest(1-4) k])
    show "card_of g i = None" using st rest(1) by (simp add: store_insert_iff card_of_def)
    show "card_of g' = (card_of g)(i \<mapsto> k\<lparr>c_id := i, c_owner := ctl, c_controller := ctl, c_is_token := True\<rparr>)"
      using store_try_get_insert [OF st] rest(1,5) by (auto simp: card_of_def fun_eq_iff)
  qed
qed

lemma copy_spell_none: "copy_spell_onto_stack orig ctl ts g = Inr (g', None) \<Longrightarrow> g' = g"
  by (auto simp: copy_spell_onto_stack_def Let_def split: if_splits option.splits sum.splits prod.splits)

lemma live_copies_copied:
  assumes "copy_spell_onto_stack orig ctl ts g = Inr (g', Some i)"
    "gs_next_entity_id g \<notin> set (z_cards (gs_stack g))"
  shows "live_copies g' = Suc (live_copies g)"
  using assms(1)
proof (cases rule: copy_spell_fields)
  case (1 k)
  have "filter (\<lambda>c. case card_of g' c of Some k \<Rightarrow> c_is_token k | None \<Rightarrow> False) (z_cards (gs_stack g))
      = filter (\<lambda>c. case card_of g c of Some k \<Rightarrow> c_is_token k | None \<Rightarrow> False) (z_cards (gs_stack g))"
    using 1 assms(2) by (intro filter_cong) auto
  then show ?thesis using 1 by (simp add: live_copies_def)
qed

end
