(* ===== verification/MoveZones.thy ===== *)
theory MoveZones
  imports DelayedFire
begin

section \<open>Zone moves neither create nor destroy cards\<close>

text \<open>
  The cards of all zones as a multiset, and the lemmas that the stages of \<open>move_card_with\<close> other
  than the removal and the insertion leave the zones alone. Every move keeps the multiset, as long
  as the owner has zones and what fires keeps it; so does the move with its nested moves, for every
  amount of fuel.
\<close>

definition zones_of :: "game_state \<Rightarrow> card_zone \<times> card_zone \<times> (player_id \<times> player_zones) list" where
  "zones_of g = (gs_battlefield g, gs_stack g, gs_player_zones g)"

definition pz_mset :: "player_zones \<Rightarrow> card_id multiset" where
  "pz_mset z = mset (z_cards (pz_library z)) + mset (z_cards (pz_hand z)) + mset (z_cards (pz_graveyard z))
     + mset (z_cards (pz_exile z)) + mset (z_cards (pz_command z))"

definition zones_mset :: "game_state \<Rightarrow> card_id multiset" where
  "zones_mset g = mset (z_cards (gs_battlefield g)) + mset (z_cards (gs_stack g))
     + sum_list (map (\<lambda>e. pz_mset (snd e)) (gs_player_zones g))"

lemma zones_mset_cong: "zones_of g = zones_of h \<Longrightarrow> zones_mset g = zones_mset h"
  by (simp add: zones_of_def zones_mset_def)

lemma zones_of_writes [simp]:
  "zones_of (map_card c f g) = zones_of g" "zones_of (map_player p h g) = zones_of g"
  "zones_of (log_action a g) = zones_of g" "zones_of (log_action_at a n g) = zones_of g"
  "zones_of (game_log m g) = zones_of g" "zones_of (normal_log m g) = zones_of g"
  "zones_of (verbose_log m g) = zones_of g" "zones_of (increment_mana_version g) = zones_of g"
  "zones_of (map_mana_caches mf g) = zones_of g" "zones_of (g\<lparr>gs_logger := lg\<rparr>) = zones_of g"
  "zones_of (g\<lparr>gs_persistent_effects := pe\<rparr>) = zones_of g"
  "zones_of (g\<lparr>gs_delayed_triggers := dt\<rparr>) = zones_of g"
  "zones_of (g\<lparr>gs_cards := cs\<rparr>) = zones_of g" "zones_of (g\<lparr>gs_scratch := sc\<rparr>) = zones_of g"
  "zones_of (g\<lparr>gs_combat := cb\<rparr>) = zones_of g"
  by (simp_all add: zones_of_def map_card_def map_player_def log_action_def log_action_at_def
      game_log_def normal_log_def verbose_log_def increment_mana_version_def map_mana_caches_def)

lemma zones_of_before [simp]:
  "zones_of (fst (commander_replacement c to g)) = zones_of g"
  "zones_of (maybe_reveal_to_all c prior g) = zones_of g"
  "zones_of (maybe_reveal_to_player c p prior g) = zones_of g"
  "zones_of (maybe_conceal_in_library c prior g) = zones_of g"
  "zones_of (detach_one g e) = zones_of g"
  by (simp_all add: commander_replacement_def maybe_reveal_to_all_def maybe_reveal_to_player_def
      maybe_conceal_in_library_def detach_one_def Let_def split: option.split)

lemma zones_of_reveal [simp]: "zones_of (reveal_on_move c f t ow g) = zones_of g"
  by (simp add: reveal_on_move_def Let_def)

lemma zones_of_foldl: "(\<And>g x. zones_of (f g x) = zones_of g) \<Longrightarrow> zones_of (foldl f g xs) = zones_of g"
  by (induction xs arbitrary: g) simp_all

lemma zones_of_detach [simp]: "zones_of (detach_equipment c f g) = zones_of g"
  by (simp add: detach_equipment_def zones_of_foldl split: option.split)

lemma zones_of_etb [simp]:
  "zones_of (etb_tapped c g) = zones_of g" "zones_of (etb_tapped_global c g) = zones_of g"
  "zones_of (etb_choose_color c ow g) = zones_of g" "zones_of (etb_choose_player c g) = zones_of g"
  "zones_of (etb_choose_mode c g) = zones_of g" "zones_of (etb_choose_name c g) = zones_of g"
  "zones_of (etb_pay_life c g) = zones_of g"
  by (simp_all add: etb_tapped_def etb_tapped_global_def etb_choose_color_def etb_choose_player_def
      etb_choose_mode_def etb_choose_name_def etb_pay_life_def Let_def split: option.split)

lemma zones_of_etb_stages [simp]: "zones_of (etb_stages c ow g) = zones_of g"
  by (simp add: etb_stages_def)

lemma zones_of_after [simp]:
  "zones_of (cleanup_effects_on_move c f g) = zones_of g" "zones_of (reset_left_card env c f g) = zones_of g"
  "zones_of (bump_mana_version f t g) = zones_of g" "zones_of (update_mana_caches c f t g) = zones_of g"
  "zones_of (discard_message c f t g) = zones_of g" "zones_of (zone_message c f t g) = zones_of g"
  by (simp_all add: cleanup_effects_on_move_def reset_left_card_def bump_mana_version_def
      update_mana_caches_def discard_message_def zone_message_def Let_def split: option.split)

lemma zones_of_finish [simp]: "zones_of (finish_move env c f t g) = zones_of g"
  by (simp add: finish_move_def)

subsection \<open>The multiset under a change of one zone\<close>

lemma sum_list_update_first:
  assumes "find P xs = Some x"
  shows "sum_list (map w (update_first P f xs)) + w x = sum_list (map w xs) + (w (f x) :: 'a multiset)"
  using assms by (induction xs) (auto simp: ac_simps split: if_splits)

lemma pz_mset_get_zone_mut:
  "get_zone pz z = Some cz \<Longrightarrow>
     pz_mset (get_zone_mut z f pz) + mset (z_cards cz) = pz_mset pz + mset (z_cards (f cz))"
  by (cases z) (auto simp: pz_mset_def multiset_eq_iff)

lemma mset_exchange:
  fixes S :: "'a multiset"
  assumes "S + P = T + P'" "P' + a = P + b"
  shows "S + a = T + b"
proof (rule multiset_eqI)
  fix x
  show "count (S + a) x = count (T + b) x"
    using assms [THEN arg_cong, of "\<lambda>m. count m x"] by simp
qed

lemma zones_mset_map_zone:
  assumes "zone_of g z ow = Some cz"
  shows "zones_mset (map_zone z ow f g) + mset (z_cards cz) = zones_mset g + mset (z_cards (f cz))"
proof -
  have player: "zones_mset (map_player_zones ow (get_zone_mut z f) g) + mset (z_cards cz)
      = zones_mset g + mset (z_cards (f cz))"
    if "get_player_zones g ow = Some pz" "get_zone pz z = Some cz" for pz
  proof -
    from that(1) obtain e where e: "find (\<lambda>e. fst e = ow) (gs_player_zones g) = Some e" "snd e = pz"
      by (auto simp: get_player_zones_def find_entry_def)
    let ?w = "\<lambda>e :: player_id \<times> player_zones. pz_mset (snd e)"
    have "sum_list (map ?w (map_entry ow (get_zone_mut z f) (gs_player_zones g))) + mset (z_cards cz)
        = sum_list (map ?w (gs_player_zones g)) + mset (z_cards (f cz))"
    proof (rule mset_exchange [OF _ pz_mset_get_zone_mut [OF that(2), of f]])
      show "sum_list (map ?w (map_entry ow (get_zone_mut z f) (gs_player_zones g))) + pz_mset pz
          = sum_list (map ?w (gs_player_zones g)) + pz_mset (get_zone_mut z f pz)"
        using sum_list_update_first [OF e(1), of ?w "\<lambda>e. (fst e, get_zone_mut z f (snd e))"] e(2)
        by (simp add: map_entry_def)
    qed
    moreover have "zones_mset (map_player_zones ow (get_zone_mut z f) g)
        = mset (z_cards (gs_battlefield g)) + mset (z_cards (gs_stack g))
          + sum_list (map ?w (map_entry ow (get_zone_mut z f) (gs_player_zones g)))"
      by (simp add: zones_mset_def map_player_zones_def)
    ultimately show ?thesis unfolding zones_mset_def by (simp only: add.assoc)
  qed
  show ?thesis
  proof (cases z)
    case Battlefield
    with assms show ?thesis by (simp add: zone_of_def map_zone_def zones_mset_def ac_simps)
  next
    case Stack
    with assms show ?thesis by (simp add: zone_of_def map_zone_def zones_mset_def ac_simps)
  qed (use assms player in \<open>auto simp: zone_of_def map_zone_def split: option.splits\<close>)
qed

subsection \<open>Delayed triggers across the stages\<close>

lemma delayed_writes [simp]:
  "gs_delayed_triggers (map_card c f g) = gs_delayed_triggers g"
  "gs_delayed_triggers (map_player p h g) = gs_delayed_triggers g"
  "gs_delayed_triggers (map_zone z p j g) = gs_delayed_triggers g"
  "gs_delayed_triggers (log_action a g) = gs_delayed_triggers g"
  "gs_delayed_triggers (log_action_at a n g) = gs_delayed_triggers g"
  "gs_delayed_triggers (game_log m g) = gs_delayed_triggers g"
  "gs_delayed_triggers (normal_log m g) = gs_delayed_triggers g"
  "gs_delayed_triggers (verbose_log m g) = gs_delayed_triggers g"
  "gs_delayed_triggers (increment_mana_version g) = gs_delayed_triggers g"
  "gs_delayed_triggers (map_mana_caches mf g) = gs_delayed_triggers g"
  by (simp_all add: map_card_def map_player_def map_zone_def map_player_zones_def log_action_def
      log_action_at_def game_log_def normal_log_def verbose_log_def increment_mana_version_def
      map_mana_caches_def split: zone.split)

lemma delayed_before [simp]:
  "gs_delayed_triggers (fst (commander_replacement c to g)) = gs_delayed_triggers g"
  "gs_delayed_triggers (maybe_reveal_to_all c prior g) = gs_delayed_triggers g"
  "gs_delayed_triggers (maybe_reveal_to_player c p prior g) = gs_delayed_triggers g"
  "gs_delayed_triggers (maybe_conceal_in_library c prior g) = gs_delayed_triggers g"
  "gs_delayed_triggers (detach_one g e) = gs_delayed_triggers g"
  "gs_delayed_triggers (fst (remove_from_zone c z p g)) = gs_delayed_triggers g"
  by (simp_all add: commander_replacement_def maybe_reveal_to_all_def maybe_reveal_to_player_def
      maybe_conceal_in_library_def detach_one_def remove_from_zone_def Let_def split: option.split)

lemma delayed_reveal [simp]:
  "gs_delayed_triggers (reveal_on_move c f t ow g) = gs_delayed_triggers g"
  by (simp add: reveal_on_move_def Let_def)

lemma delayed_detach [simp]: "gs_delayed_triggers (detach_equipment c f g) = gs_delayed_triggers g"
proof -
  have "gs_delayed_triggers (foldl detach_one g es) = gs_delayed_triggers g" for es
    by (induction es arbitrary: g) simp_all
  then show ?thesis by (simp add: detach_equipment_def split: option.split)
qed

lemma delayed_etb [simp]:
  "gs_delayed_triggers (etb_tapped c g) = gs_delayed_triggers g"
  "gs_delayed_triggers (etb_tapped_global c g) = gs_delayed_triggers g"
  "gs_delayed_triggers (etb_choose_color c ow g) = gs_delayed_triggers g"
  "gs_delayed_triggers (etb_choose_player c g) = gs_delayed_triggers g"
  "gs_delayed_triggers (etb_choose_mode c g) = gs_delayed_triggers g"
  "gs_delayed_triggers (etb_choose_name c g) = gs_delayed_triggers g"
  "gs_delayed_triggers (etb_pay_life c g) = gs_delayed_triggers g"
  by (simp_all add: etb_tapped_def etb_tapped_global_def etb_choose_color_def etb_choose_player_def
      etb_choose_mode_def etb_choose_name_def etb_pay_life_def Let_def split: option.split)

lemma delayed_after [simp]:
  "gs_delayed_triggers (cleanup_effects_on_move c f g) = gs_delayed_triggers g"
  "gs_delayed_triggers (reset_left_card env c f g) = gs_delayed_triggers g"
  "gs_delayed_triggers (bump_mana_version f t g) = gs_delayed_triggers g"
  "gs_delayed_triggers (update_mana_caches c f t g) = gs_delayed_triggers g"
  "gs_delayed_triggers (discard_message c f t g) = gs_delayed_triggers g"
  "gs_delayed_triggers (zone_message c f t g) = gs_delayed_triggers g"
  by (simp_all add: cleanup_effects_on_move_def reset_left_card_def bump_mana_version_def
      update_mana_caches_def discard_message_def zone_message_def Let_def split: option.split)

lemma delayed_stages [simp]:
  "gs_delayed_triggers (finish_move env c f t g) = gs_delayed_triggers g"
  "gs_delayed_triggers (etb_stages c ow g) = gs_delayed_triggers g"
  by (simp_all add: finish_move_def etb_stages_def)

lemma delayed_move [simp]:
  "gs_delayed_triggers (settle_move env c f t ow pos g) = gs_delayed_triggers g"
  "gs_delayed_triggers (fst (before_removal c f t ow g)) = gs_delayed_triggers g"
proof -
  show "gs_delayed_triggers (fst (before_removal c f t ow g)) = gs_delayed_triggers g"
    by (cases "commander_replacement c t g")
      (simp add: before_removal_def, metis delayed_before(1) fst_conv)
qed (simp add: settle_move_def Let_def)

lemma zones_of_before_removal: "zones_of (fst (before_removal c f t ow g)) = zones_of g"
  by (cases "commander_replacement c t g") (simp add: before_removal_def, metis zones_of_before(1) fst_conv)

subsection \<open>The move\<close>

lemma zone_of_cong: "zones_of g = zones_of h \<Longrightarrow> zone_of g z ow = zone_of h z ow"
  by (cases z) (simp_all add: zones_of_def zone_of_def get_player_zones_def)

lemma fire_each_keeps:
  assumes "\<And>t h h'. fire t h = Inr h' \<Longrightarrow> w h' = w h"
    and "\<And>h a s. w (log_action a (h\<lparr>gs_delayed_triggers := s\<rparr>)) = w h"
    and "fire_each fire is n g = Inr (g', m)"
  shows "w g' = w g"
  using assms(3)
proof (induction "is" arbitrary: g n)
  case (Cons i "is")
  obtain s r where rm: "dts_remove i (gs_delayed_triggers g) = (s, r)" by force
  show ?case
  proof (cases r)
    case None
    then show ?thesis using Cons rm by simp
  next
    case (Some t)
    then obtain h where h: "fire t (log_action (FireDelayedTrigger t) (g\<lparr>gs_delayed_triggers := s\<rparr>)) = Inr h"
      "fire_each fire is (n + 1) h = Inr (g', m)"
      using Cons.prems rm by (auto split: sum.splits)
    then show ?thesis using Cons.IH [OF h(2)] assms(1) [OF h(1)] assms(2) by simp
  qed
qed simp

lemma has_zones_cong: "zones_of g = zones_of h \<Longrightarrow> get_player_zones g ow = get_player_zones h ow"
  by (simp add: zones_of_def get_player_zones_def)

lemma zone_of_total: "get_player_zones g ow \<noteq> None \<Longrightarrow> \<exists>cz. zone_of g z ow = Some cz"
  by (cases z) (auto simp: zone_of_def)

lemma zone_of_after_write:
  "zone_of g z ow = Some cz \<Longrightarrow> \<exists>cz'. zone_of (map_zone z' ow f g) z ow = Some cz'"
  by (auto simp: zone_of_map_zone)

lemma raw_move_conserves:
  assumes "get_player_zones g ow \<noteq> None" "snd (remove_from_zone c f ow g)"
  shows "zones_mset (map_zone t ow (\<lambda>z. zone_add z c) (fst (remove_from_zone c f ow g))) = zones_mset g"
proof -
  obtain zf where zf: "zone_of g f ow = Some zf" using zone_of_total [OF assms(1)] by blast
  then have cf: "c \<in> set (z_cards zf)" using assms(2) by (simp add: remove_from_zone_def zone_remove_eq)
  let ?g1 = "map_zone f ow (\<lambda>cz. fst (zone_remove cz c)) g"
  have g1: "fst (remove_from_zone c f ow g) = ?g1" using zf by (simp add: remove_from_zone_def)
  have "zones_mset ?g1 + mset (z_cards zf) = zones_mset g + (mset (z_cards zf) - {#c#})"
    using zones_mset_map_zone [OF zf, of "\<lambda>cz. fst (zone_remove cz c)"] by (simp add: zone_remove_eq)
  moreover obtain M where "mset (z_cards zf) = add_mset c M"
    using cf by (metis set_mset_mset multi_member_split)
  ultimately have one: "add_mset c (zones_mset ?g1) = zones_mset g" by simp
  obtain zt where zt: "zone_of ?g1 t ow = Some zt"
    using zone_of_total [OF assms(1), of t] zone_of_after_write by blast
  show ?thesis
    using zones_mset_map_zone [OF zt, of "\<lambda>z. zone_add z c"] one
    by (simp add: g1 zone_add_def)
qed

lemma remove_absent: "\<not> snd (remove_from_zone c f ow g) \<Longrightarrow> fst (remove_from_zone c f ow g) = g"
  by (auto simp: remove_from_zone_def zone_remove_eq remove1_idem map_zone_id
      intro: trans [OF map_zone_cong map_zone_id] split: option.splits)

lemma settle_move_zones:
  "zones_of (settle_move env c f t ow pos g) = zones_of (map_zone t ow (\<lambda>z. zone_add z c) g)"
  by (simp add: settle_move_def Let_def)

lemma move_card_with_conserves:
  assumes mv: "move_card_with env fire c f t ow g = Inr g'"
    and ow: "get_player_zones g ow \<noteq> None"
    and fire: "\<And>t h h'. fire t h = Inr h' \<Longrightarrow> zones_mset h' = zones_mset h"
  shows "zones_mset g' = zones_mset g"
proof -
  obtain g2 to where g2: "before_removal c f t ow g = (g2, to)" by force
  have z2: "zones_of g2 = zones_of g" using zones_of_before_removal [of c f t ow g] g2 by simp
  have m2: "zones_mset g2 = zones_mset g" using z2 by (rule zones_mset_cong)
  show ?thesis using mv g2
  proof (cases rule: move_card_with_Inr)
    case absent
    then show ?thesis using m2 by (simp add: remove_absent)
  next
    case (moved n)
    define g7 where "g7 = settle_move env c f to ow (position_in_zone c f ow g2)
      (fst (remove_from_zone c f ow g2))"
    have "zones_mset g7 = zones_mset g2"
      unfolding g7_def using moved(1) ow has_zones_cong [OF z2]
      by (simp add: zones_mset_cong [OF settle_move_zones] raw_move_conserves)
    moreover have "zones_mset g' = zones_mset g7"
    proof (rule fire_each_keeps)
      show "fire_each fire (find_zone_change_triggers (gs_delayed_triggers g7) c f to) 0 g7 = Inr (g', n)"
        using moved(2) by (simp add: check_delayed_triggers_on_zone_change_def g7_def)
      show "zones_mset h' = zones_mset h" if "fire t h = Inr h'" for t h h' using that by (rule fire)
    qed (auto intro: zones_mset_cong)
    ultimately show ?thesis using m2 by simp
  qed
qed

text \<open>A move no delayed trigger waits for: the nested moves play no part.\<close>

lemma quiet_move:
  assumes "before_removal c f t ow g = (g2, to)"
    and "find_zone_change_triggers (gs_delayed_triggers g) c f to = []"
  shows "move_card_with env fire c f t ow g = Inr (if snd (remove_from_zone c f ow g2)
    then settle_move env c f to ow (position_in_zone c f ow g2) (fst (remove_from_zone c f ow g2))
    else g2)"
proof -
  have "gs_delayed_triggers g2 = gs_delayed_triggers g"
    using delayed_move(2) [of c f t ow g] assms(1) by (simp del: delayed_move)
  moreover obtain g3 removed where rm: "remove_from_zone c f ow g2 = (g3, removed)" by force
  ultimately have "check_delayed_triggers_on_zone_change fire c f to (settle_move env c f to ow pos g3)
      = Inr (settle_move env c f to ow pos g3, 0)" for pos
    using assms(2) delayed_before(6) [of c f ow g2]
    by (simp add: check_delayed_triggers_on_zone_change_def del: delayed_before)
  then show ?thesis
    using assms(1) rm remove_absent [of c f ow g2]
    by (cases "commander_replacement c t g") (auto simp: move_card_with_def before_removal_def Let_def)
qed

end
