(* ===== verification/MoveUndo.thy ===== *)
theory MoveUndo
  imports MoveZones
begin

section \<open>Undoing a zone move\<close>

text \<open>
  The replacements applied as a permanent enters log their actions before the move logs its own, so
  on undo the move is reversed first and the replacements afterwards, on the state without the
  move. This is sound because the actions they log do not touch a zone: their reversal commutes
  with every write to a zone.
\<close>

subsection \<open>Actions that touch no zone\<close>

fun zone_free :: "game_action \<Rightarrow> bool" where
  "zone_free (TapCard c b) = True"
| "zone_free (SetChosenColor c v) = True"
| "zone_free (SetChosenPlayer c v) = True"
| "zone_free (SetChosenMode c v) = True"
| "zone_free (SetChosenName c v) = True"
| "zone_free (SetStoredInt c v) = True"
| "zone_free (ModifyLife p d) = True"
| "zone_free _ = False"

lemma map_zone_commutes:
  "map_card c h (map_zone z p f g) = map_zone z p f (map_card c h g)"
  "map_player q l (map_zone z p f g) = map_zone z p f (map_player q l g)"
  "increment_mana_version (map_zone z p f g) = map_zone z p f (increment_mana_version g)"
  by (cases z; simp add: map_card_def map_player_def map_zone_def map_player_zones_def
      increment_mana_version_def)+

lemma map_zone_reads [simp]:
  "card_of (map_zone z p f g) = card_of g" "try_get_player (map_zone z p f g) = try_get_player g"
  by (cases z; simp add: card_of_def map_zone_def map_player_zones_def try_get_player_def fun_eq_iff)+

lemma zone_free_commutes:
  "zone_free a \<Longrightarrow> undo_effect ds a (map_zone z p f g) = map_zone z p f (undo_effect ds a g)"
  by (cases a) (auto simp: undo_effect_def undo_arms undo_helpers map_zone_commutes split: option.split)

lemma revert_zone_free:
  "list_all zone_free as \<Longrightarrow> revert_all (undo_effect ds) as (map_zone z p f g)
     = map_zone z p f (revert_all (undo_effect ds) as g)"
  by (induction as) (simp_all add: revert_all_def zone_free_commutes)

definition entry_undoable :: "(u8 list \<Rightarrow> rng option) \<Rightarrow> game_state \<Rightarrow> game_state \<Rightarrow> bool" where
  "entry_undoable ds g g' \<longleftrightarrow> (\<exists>as. game_actions g' = game_actions g @ as \<and> list_all zone_free as
     \<and> durable (revert_all (undo_effect ds) as g') = durable g)"

lemma entry_refl: "entry_undoable ds g g"
  unfolding entry_undoable_def by (rule exI [of _ "[]"]) simp

lemma entry_trans [trans]:
  assumes "entry_undoable ds g h" "entry_undoable ds h k"
  shows "entry_undoable ds g k"
proof -
  obtain as bs where
    as: "game_actions h = game_actions g @ as" "list_all zone_free as"
      "durable (revert_all (undo_effect ds) as h) = durable g" and
    bs: "game_actions k = game_actions h @ bs" "list_all zone_free bs"
      "durable (revert_all (undo_effect ds) bs k) = durable h"
    using assms unfolding entry_undoable_def by blast
  have "durable (revert_all (undo_effect ds) (as @ bs) k) = durable g"
    using game.revert_all_view [OF bs(3), of ds as] as(3) by simp
  then show ?thesis
    using as bs unfolding entry_undoable_def by (intro exI [of _ "as @ bs"]) simp
qed

lemma entry_log:
  assumes "log_on h" "game_actions h = game_actions g" "zone_free a"
    "durable (undo_effect ds a h) = durable g"
  shows "entry_undoable ds g (log_action_at a n h)"
proof -
  have "game_actions (log_action_at a n h) = game_actions g @ [a]"
    using assms(1,2) by (simp add: game_actions_def log_action_at_def ul_log_def log_on_def)
  moreover have "durable (undo_effect ds a (log_action_at a n h)) = durable g"
    using game.revert_view [of "log_action_at a n h" h ds a] assms(4) by simp
  ultimately show ?thesis
    using assms(3) unfolding entry_undoable_def by (intro exI [of _ "[a]"]) simp
qed

subsection \<open>The replacements as a permanent enters\<close>

lemma log_line_view [simp]:
  "durable (normal_log m g) = durable g" "durable (verbose_log m g) = durable g"
  "card_of (normal_log m g) = card_of g" "card_of (verbose_log m g) = card_of g"
  "game_actions (normal_log m g) = game_actions g" "game_actions (verbose_log m g) = game_actions g"
  "log_on (normal_log m g) = log_on g" "log_on (verbose_log m g) = log_on g"
  "gs_battlefield (normal_log m g) = gs_battlefield g" "gs_battlefield (verbose_log m g) = gs_battlefield g"
  by (simp_all add: normal_log_def verbose_log_def game_actions_def log_on_def card_of_def fun_eq_iff)

lemma entry_card:
  assumes "log_on h" "game_actions h = game_actions g" "durable h = durable (map_card c f g)"
    "zone_free a" "durable (undo_effect ds a (map_card c f g)) = durable (map_card c r (map_card c f g))"
    "map_card c r (map_card c f g) = g"
  shows "entry_undoable ds g (log_action_at a n h)"
  using assms(1,2,4)
proof (rule entry_log)
  show "durable (undo_effect ds a h) = durable g"
    using game.revert_view [OF assms(3), of ds a] assms(5,6) by simp
qed

lemma undo_chosen:
  "durable (undo_effect ds (SetChosenColor c col) g) = durable (map_card c (\<lambda>k. k\<lparr>c_chosen_color := col\<rparr>) g)"
  "durable (undo_effect ds (SetChosenPlayer c pl) g) = durable (map_card c (\<lambda>k. k\<lparr>c_chosen_player := pl\<rparr>) g)"
  "durable (undo_effect ds (SetChosenMode c md) g) = durable (map_card c (\<lambda>k. k\<lparr>c_chosen_mode := md\<rparr>) g)"
  "durable (undo_effect ds (SetChosenName c nm) g) = durable (map_card c (\<lambda>k. k\<lparr>c_chosen_name := nm\<rparr>) g)"
  by (simp_all add: undo_effect_def undo_arms undo_helpers map_card_absent)

lemma etb_tapped_entry:
  assumes "log_on g" "\<And>k. card_of g c = Some k \<Longrightarrow> \<not> c_tapped k"
  shows "entry_undoable ds g (etb_tapped c g)"
  using assms
  by (auto simp: etb_tapped_def undo_tap_effect card_tap_def entry_refl split: option.split
      intro!: entry_card map_card_cancel)

lemma etb_choose_color_entry: "log_on g \<Longrightarrow> entry_undoable ds g (etb_choose_color c ow g)"
  by (auto simp: etb_choose_color_def undo_chosen entry_refl Let_def split: option.split
      intro!: entry_card map_card_cancel)

lemma etb_choose_mode_entry: "log_on g \<Longrightarrow> entry_undoable ds g (etb_choose_mode c g)"
  by (auto simp: etb_choose_mode_def undo_chosen entry_refl Let_def split: option.split
      intro!: entry_card map_card_cancel)

lemma etb_choose_name_entry: "log_on g \<Longrightarrow> entry_undoable ds g (etb_choose_name c g)"
  by (auto simp: etb_choose_name_def undo_chosen entry_refl Let_def split: option.split
      intro!: entry_card map_card_cancel)

lemma etb_choose_player_entry: "log_on g \<Longrightarrow> entry_undoable ds g (etb_choose_player c g)"
  by (auto simp: etb_choose_player_def undo_chosen entry_refl Let_def split: option.split
      intro!: entry_card map_card_cancel)

text \<open>What the stages leave alone: the definitions of the cards, the battlefield and the log switch.\<close>

definition defs_of :: "game_state \<Rightarrow> card_id \<Rightarrow> card_definition option" where
  "defs_of g c = map_option c_definition (card_of g c)"

lemma defs_of_map_card [simp]:
  "(\<And>k. c_definition (f k) = c_definition k) \<Longrightarrow> defs_of (map_card c f g) = defs_of g"
  by (auto simp: defs_of_def fun_eq_iff card_of_map_card option.map_comp comp_def)

lemma defs_of_log [simp]:
  "defs_of (log_action a g) = defs_of g" "defs_of (log_action_at a n g) = defs_of g"
  "defs_of (normal_log m g) = defs_of g" "defs_of (verbose_log m g) = defs_of g"
  by (simp_all add: defs_of_def fun_eq_iff log_action_at_def card_of_def)

lemma etb_stages_defs [simp]:
  "defs_of (etb_tapped c g) = defs_of g" "defs_of (etb_choose_color c ow g) = defs_of g"
  "defs_of (etb_choose_player c g) = defs_of g" "defs_of (etb_choose_mode c g) = defs_of g"
  "defs_of (etb_choose_name c g) = defs_of g"
  by (simp_all add: etb_tapped_def etb_choose_color_def etb_choose_player_def etb_choose_mode_def
      etb_choose_name_def card_tap_def Let_def split: option.split)

lemma etb_stages_log_on [simp]:
  "log_on (etb_tapped c g) = log_on g" "log_on (etb_choose_color c ow g) = log_on g"
  "log_on (etb_choose_player c g) = log_on g" "log_on (etb_choose_mode c g) = log_on g"
  "log_on (etb_choose_name c g) = log_on g"
  by (simp_all add: etb_tapped_def etb_choose_color_def etb_choose_player_def etb_choose_mode_def
      etb_choose_name_def Let_def split: option.split)

lemma etb_stages_field [simp]: "gs_battlefield (etb_tapped c g) = gs_battlefield g"
  using zones_of_etb(1) [of c g] by (simp add: zones_of_def del: zones_of_etb)

text \<open>
  An entry the log covers: the card enters untapped, pays no life, and no permanent imposes that
  others enter tapped. In the remaining cases the code writes a field it does not log, or logs the
  payment with the wrong sign.
\<close>

definition covered_entry :: "card_id \<Rightarrow> game_state \<Rightarrow> bool" where
  "covered_entry c g \<longleftrightarrow> (\<forall>k. card_of g c = Some k \<longrightarrow> \<not> c_tapped k \<and> \<not> cc_etb_pay_life (card_cache k))
     \<and> (\<forall>s \<in> set (z_cards (gs_battlefield g)). \<forall>d. s \<noteq> c \<longrightarrow> defs_of g s = Some d \<longrightarrow> cd_etb_tapped_global d = None)"

lemma no_tap_imposed:
  assumes "\<forall>s \<in> set (z_cards (gs_battlefield g)). \<forall>d. s \<noteq> c \<longrightarrow> defs_of g s = Some d \<longrightarrow> cd_etb_tapped_global d = None"
  shows "etb_tapped_global c g = g"
proof -
  have "\<not> etb_tapped_by_other c g"
    using assms by (auto simp: etb_tapped_by_other_def list_ex_iff defs_of_def split: option.splits)
  then show ?thesis by (simp add: etb_tapped_global_def split: option.split)
qed

lemma no_life_paid:
  "(\<And>d. defs_of g c = Some d \<Longrightarrow> \<not> cc_etb_pay_life (cd_cache d)) \<Longrightarrow> etb_pay_life c g = g"
  by (auto simp: etb_pay_life_def defs_of_def card_cache_def split: option.split)

lemma etb_stages_entry:
  assumes log: "log_on g" and cov: "covered_entry c g"
  shows "entry_undoable ds g (etb_stages c ow g)"
proof -
  have gl: "etb_tapped_global c (etb_tapped c g) = etb_tapped c g"
    using cov by (intro no_tap_imposed) (simp add: covered_entry_def)
  let ?h = "etb_choose_name c (etb_choose_mode c (etb_choose_player c (etb_choose_color c ow (etb_tapped c g))))"
  have pl: "etb_pay_life c ?h = ?h"
    using cov by (intro no_life_paid) (auto simp: covered_entry_def defs_of_def card_cache_def)
  have "entry_undoable ds g (etb_tapped c g)"
    using log cov by (intro etb_tapped_entry) (auto simp: covered_entry_def)
  also have "entry_undoable ds \<dots> (etb_choose_color c ow (etb_tapped c g))"
    by (rule etb_choose_color_entry) (simp add: log)
  also have "entry_undoable ds \<dots> (etb_choose_player c (etb_choose_color c ow (etb_tapped c g)))"
    by (rule etb_choose_player_entry) (simp add: log)
  also have "entry_undoable ds \<dots> (etb_choose_mode c (etb_choose_player c (etb_choose_color c ow (etb_tapped c g))))"
    by (rule etb_choose_mode_entry) (simp add: log)
  also have "entry_undoable ds \<dots> ?h" by (rule etb_choose_name_entry) (simp add: log)
  finally show ?thesis by (simp add: etb_stages_def gl pl)
qed

subsection \<open>The whole move\<close>

lemma undo_move_zone:
  assumes "zone_of g t ow = Some z" "zone_contains z c"
  shows "undo_effect ds (MoveCard c f t ow (Some p)) g
    = map_zone f ow (\<lambda>z. zone_add_at z c (unat p)) (map_zone t ow (\<lambda>z. fst (zone_remove z c)) g)"
  using assms by (simp add: undo_effect_def undo_move_card_def remove_from_zone_def zone_remove_eq
      zone_contains_def)

lemma moved_entry_undoable:
  assumes mv: "movable c f t ow g" and log: "log_on h" and entry: "entry_undoable ds (raw_move c f t ow g) h"
    and zs: "zones_of h = zones_of (raw_move c f t ow g)"
  shows "undoable ds g (log_action (MoveCard c f t ow (position_in_zone c f ow g)) h)"
proof -
  let ?g4 = "raw_move c f t ow g" and ?mc = "MoveCard c f t ow (position_in_zone c f ow g)"
  obtain i where pos: "position_in_zone c f ow g = Some i"
    using mv by (auto simp: movable_def position_in_zone_def zone_position_of_def zone_contains_def
        dest: position_of_mem)
  define U where "U = (\<lambda>g. map_zone f ow (\<lambda>z. zone_add_at z c (unat i))
    (map_zone t ow (\<lambda>z. fst (zone_remove z c)) g))"
  obtain zt where zt: "zone_of ?g4 t ow = Some zt" "zone_contains zt c"
    using mv by (auto simp: movable_def raw_move_def remove_from_zone_def zone_of_map_zone
        zone_add_def zone_contains_def)
  have U4: "undo_effect ds ?mc ?g4 = U ?g4" using undo_move_zone [OF zt, of ds f i] pos by (simp add: U_def)
  have zh: "zone_of h t ow = Some zt" using zt zone_of_cong [OF zs] by simp
  have Uh: "undo_effect ds ?mc h = U h" using undo_move_zone [OF zh zt(2), of ds f i] pos by (simp add: U_def)
  have durU: "durable (U g) = U (durable g)" for g by (simp add: U_def)
  obtain as where as: "game_actions h = game_actions ?g4 @ as" "list_all zone_free as"
      "durable (revert_all (undo_effect ds) as h) = durable ?g4"
    using entry unfolding entry_undoable_def by blast
  have acts: "game_actions (log_action ?mc h) = game_actions g @ as @ [?mc]"
    using as(1) log by (simp add: game_actions_def log_action_def ul_log_def log_on_def)
      (metis game_actions_def raw_move_keeps_log(1))
  have last: "durable (undo_effect ds ?mc (log_action ?mc h)) = durable (U h)"
    using game.revert_view [of "log_action ?mc h" h ds ?mc] Uh by simp
  have "durable (revert_all (undo_effect ds) (as @ [?mc]) (log_action ?mc h))
      = durable (revert_all (undo_effect ds) as (U h))"
    using game.revert_all_view [OF last, of ds as] by simp
  also have "revert_all (undo_effect ds) as (U h) = U (revert_all (undo_effect ds) as h)"
    using as(2) by (simp add: U_def revert_zone_free)
  also have "durable \<dots> = durable (U ?g4)" using as(3) by (simp add: durU)
  also have "\<dots> = durable g" using U4 undo_raw_move [OF mv, of ds] by simp
  finally show ?thesis
    using acts unfolding undoable_def reversible_def by (intro exI [of _ "as @ [?mc]"]) simp
qed

lemma finish_stages_view [simp]:
  "durable (zone_message c f t g) = durable g" "durable (discard_message c f t g) = durable g"
  "durable (update_mana_caches c f t g) = durable g" "durable (bump_mana_version f t g) = durable g"
  "game_actions (zone_message c f t g) = game_actions g" "game_actions (discard_message c f t g) = game_actions g"
  "game_actions (update_mana_caches c f t g) = game_actions g" "game_actions (bump_mana_version f t g) = game_actions g"
  "log_on (zone_message c f t g) = log_on g" "log_on (discard_message c f t g) = log_on g"
  "log_on (update_mana_caches c f t g) = log_on g" "log_on (bump_mana_version f t g) = log_on g"
  by (simp_all add: zone_message_def discard_message_def update_mana_caches_def bump_mana_version_def
      game_actions_def log_on_def normal_log_def verbose_log_def map_mana_caches_def
      increment_mana_version_def Let_def split: option.split)

lemma finish_stages_effects [simp]:
  "gs_persistent_effects (zone_message c f t g) = gs_persistent_effects g"
  "gs_persistent_effects (discard_message c f t g) = gs_persistent_effects g"
  "gs_persistent_effects (update_mana_caches c f t g) = gs_persistent_effects g"
  "gs_persistent_effects (bump_mana_version f t g) = gs_persistent_effects g"
  "gs_persistent_effects (reset_left_card env c f g) = gs_persistent_effects g"
  by (simp_all add: reset_left_card_def zone_message_def discard_message_def update_mana_caches_def
      bump_mana_version_def normal_log_def verbose_log_def log_action_def map_mana_caches_def
      map_card_def increment_mana_version_def Let_def split: option.split)

lemma finish_move_undoable:
  assumes log: "log_on g"
    and quiet: "find_effects_to_cleanup_on_zone_change (gs_persistent_effects g) c f = []"
  shows "undoable ds g (finish_move env c f t g)"
proof -
  define h where "h = bump_mana_version f t (update_mana_caches c f t (discard_message c f t (zone_message c f t g)))"
  have h: "durable h = durable g" "game_actions h = game_actions g" "log_on h"
    using log by (simp_all add: h_def)
  have reset: "undoable ds h (reset_left_card env c f h)"
  proof (cases "f = Battlefield \<and> card_of h c \<noteq> None")
    case True
    then obtain k where k: "card_of h c = Some k" by blast
    let ?s = "RestoreCardState c (capture_state_snapshot k)"
      and ?r = "reset_transient_state (env_loader env) (original_definition h k)"
    have "durable (undo_effect ds ?s (map_card c ?r (log_action ?s h))) = durable h"
    proof -
      have "undo_effect ds ?s (map_card c ?r x)
          = map_card c (restore_state_snapshot (capture_state_snapshot k)) (map_card c ?r x)"
        if "card_of x c = Some k" for x
        using that by (simp add: undo_effect_def undo_restore_card_state_def undo_card_def
            card_of_map_card)
      moreover have "map_card c (restore_state_snapshot (capture_state_snapshot k)) (map_card c ?r x) = x"
        if "card_of x c = Some k" for x
        using that by (intro map_card_cancel) (simp add: restore_after_reset)
      ultimately show ?thesis using k by simp
    qed
    moreover have "game_actions (map_card c ?r (log_action ?s h)) = game_actions h @ [?s]"
      using h(3) by (simp add: game_actions_def log_action_def ul_log_def log_on_def)
    moreover have "reset_left_card env c f h = map_card c ?r (log_action ?s h)"
      using True k by (simp add: reset_left_card_def)
    ultimately show ?thesis unfolding undoable_def by (simp add: game.reversible_one)
  qed (auto simp: reset_left_card_def)
  have pe: "gs_persistent_effects (reset_left_card env c f h) = gs_persistent_effects g"
    by (simp add: h_def)
  have "finish_move env c f t g = reset_left_card env c f h"
    using quiet pe by (simp add: finish_move_def h_def [symmetric] cleanup_effects_on_move_def)
  moreover have "undoable ds g h" using h by (intro undoable_silent) simp_all
  ultimately show ?thesis using reset by (metis undoable_trans)
qed

lemma detach_none:
  assumes "f = Battlefield \<longrightarrow> equipment_on c g = []"
  shows "detach_equipment c f g = g"
  using assms by (simp add: detach_equipment_def split: option.split)

text \<open>The moves whose every write is logged.\<close>

definition covered_move :: "card_id \<Rightarrow> zone \<Rightarrow> zone \<Rightarrow> player_id \<Rightarrow> game_state \<Rightarrow> bool" where
  "covered_move c f t ow g \<longleftrightarrow> movable c f t ow g
     \<and> find_effects_to_cleanup_on_zone_change (gs_persistent_effects g) c f = []
     \<and> find_zone_change_triggers (gs_delayed_triggers g) c f t = []
     \<and> (f = Battlefield \<longrightarrow> equipment_on c g = [])
     \<and> (t = Battlefield \<longrightarrow> covered_entry c g)"

lemma reveal_on_move_undoable: "log_on g \<Longrightarrow> undoable ds g (reveal_on_move c f t ow g)"
  by (simp add: reveal_on_move_def Let_def reveal_to_all_undoable reveal_to_player_undoable conceal_undoable)

lemma reveal_on_move_log_on [simp]: "log_on (reveal_on_move c f t ow g) = log_on g"
  by (simp add: reveal_on_move_def Let_def)

text \<open>A reveal changes nothing but the reveal mask of a card.\<close>

definition unmask :: "card \<Rightarrow> card" where "unmask k = k\<lparr>c_revealed_to_mask := 0\<rparr>"

lemma unmask_fields: "unmask k = unmask l \<Longrightarrow> c_definition k = c_definition l"
  "unmask k = unmask l \<Longrightarrow> c_attached_to k = c_attached_to l" "unmask k = unmask l \<Longrightarrow> c_tapped k = c_tapped l"
  by (cases k; cases l; simp add: unmask_def)+

lemma unmask_update [simp]: "unmask (k\<lparr>c_revealed_to_mask := m\<rparr>) = unmask k" by (simp add: unmask_def)

definition unmasked :: "game_state \<Rightarrow> card_id \<Rightarrow> card option" where
  "unmasked g s = map_option unmask (card_of g s)"

lemma unmasked_reveal_steps [simp]:
  "unmasked (maybe_reveal_to_all c n g) = unmasked g" "unmasked (maybe_reveal_to_player c p n g) = unmasked g"
  "unmasked (maybe_conceal_in_library c n g) = unmasked g"
  by (auto simp: unmasked_def fun_eq_iff maybe_reveal_to_all_def maybe_reveal_to_player_def
      maybe_conceal_in_library_def log_action_at_def card_of_map_card mark_revealed_to_def
      mark_revealed_to_all_def clear_revealed_to_all_def Let_def option.map_comp comp_def
      card_of_def [of "_\<lparr>gs_undo_log := _\<rparr>"] card_of_def [symmetric] split: option.split)

lemma unmasked_reveal: "unmasked (reveal_on_move c f t ow g) = unmasked g"
  by (simp add: reveal_on_move_def Let_def)

lemma unmasked_reads:
  assumes "unmasked g s = unmasked h s"
  shows "defs_of g s = defs_of h s"
    and "(case card_of g s of Some q \<Rightarrow> is_equipment q \<and> c_attached_to q = Some c | None \<Rightarrow> False)
      = (case card_of h s of Some q \<Rightarrow> is_equipment q \<and> c_attached_to q = Some c | None \<Rightarrow> False)"
    and "(\<forall>k. card_of g s = Some k \<longrightarrow> \<not> c_tapped k \<and> \<not> cc_etb_pay_life (card_cache k))
      = (\<forall>k. card_of h s = Some k \<longrightarrow> \<not> c_tapped k \<and> \<not> cc_etb_pay_life (card_cache k))"
proof -
  consider "card_of g s = None" "card_of h s = None"
    | k l where "card_of g s = Some k" "card_of h s = Some l" "c_definition k = c_definition l"
        "c_attached_to k = c_attached_to l" "c_tapped k = c_tapped l"
  proof (cases "card_of g s")
    case None
    then show ?thesis using assms that(1) by (simp add: unmasked_def)
  next
    case (Some k)
    then obtain l where l: "card_of h s = Some l" "unmask k = unmask l"
      using assms by (cases "card_of h s") (simp_all add: unmasked_def)
    show ?thesis by (rule that(2) [OF Some l(1) unmask_fields [OF l(2)]])
  qed
  then show "defs_of g s = defs_of h s"
    "(case card_of g s of Some q \<Rightarrow> is_equipment q \<and> c_attached_to q = Some c | None \<Rightarrow> False)
      = (case card_of h s of Some q \<Rightarrow> is_equipment q \<and> c_attached_to q = Some c | None \<Rightarrow> False)"
    "(\<forall>k. card_of g s = Some k \<longrightarrow> \<not> c_tapped k \<and> \<not> cc_etb_pay_life (card_cache k))
      = (\<forall>k. card_of h s = Some k \<longrightarrow> \<not> c_tapped k \<and> \<not> cc_etb_pay_life (card_cache k))"
    by (cases; simp add: defs_of_def is_equipment_def card_cache_def)+
qed

lemma covered_move_cong:
  assumes "zones_of g = zones_of h" "unmasked g = unmasked h"
    "gs_persistent_effects g = gs_persistent_effects h" "gs_delayed_triggers g = gs_delayed_triggers h"
    "covered_move c f t ow g"
  shows "covered_move c f t ow h"
proof -
  have "movable c f t ow h = movable c f t ow g"
    by (simp add: movable_def zone_of_cong [OF assms(1)])
  moreover have bf: "gs_battlefield h = gs_battlefield g" using assms(1) by (simp add: zones_of_def)
  moreover have "equipment_on c h = equipment_on c g"
    unfolding equipment_on_def bf
    by (rule filter_cong [OF refl]) (rule unmasked_reads(2) [of h _ g c], simp add: assms(2))
  moreover have "covered_entry c h = covered_entry c g"
    unfolding covered_entry_def bf
    using unmasked_reads(3) [of h c g] unmasked_reads(1) [of h _ g] assms(2) by simp
  ultimately show ?thesis using assms(3-5) by (simp add: covered_move_def)
qed

lemma effects_writes [simp]:
  "gs_persistent_effects (map_card c h g) = gs_persistent_effects g"
  "gs_persistent_effects (map_player p l g) = gs_persistent_effects g"
  "gs_persistent_effects (map_zone z p j g) = gs_persistent_effects g"
  "gs_persistent_effects (log_action a g) = gs_persistent_effects g"
  "gs_persistent_effects (log_action_at a n g) = gs_persistent_effects g"
  "gs_persistent_effects (game_log m g) = gs_persistent_effects g"
  "gs_persistent_effects (normal_log m g) = gs_persistent_effects g"
  "gs_persistent_effects (verbose_log m g) = gs_persistent_effects g"
  by (simp_all add: map_card_def map_player_def map_zone_def map_player_zones_def log_action_def
      log_action_at_def game_log_def normal_log_def verbose_log_def split: zone.split)

lemma effects_stages [simp]:
  "gs_persistent_effects (maybe_reveal_to_all c prior g) = gs_persistent_effects g"
  "gs_persistent_effects (maybe_reveal_to_player c p prior g) = gs_persistent_effects g"
  "gs_persistent_effects (maybe_conceal_in_library c prior g) = gs_persistent_effects g"
  "gs_persistent_effects (fst (remove_from_zone c z p g)) = gs_persistent_effects g"
  "gs_persistent_effects (etb_tapped c g) = gs_persistent_effects g"
  "gs_persistent_effects (etb_tapped_global c g) = gs_persistent_effects g"
  "gs_persistent_effects (etb_choose_color c ow g) = gs_persistent_effects g"
  "gs_persistent_effects (etb_choose_player c g) = gs_persistent_effects g"
  "gs_persistent_effects (etb_choose_mode c g) = gs_persistent_effects g"
  "gs_persistent_effects (etb_choose_name c g) = gs_persistent_effects g"
  "gs_persistent_effects (etb_pay_life c g) = gs_persistent_effects g"
  by (simp_all add: maybe_reveal_to_all_def maybe_reveal_to_player_def maybe_conceal_in_library_def
      remove_from_zone_def etb_tapped_def etb_tapped_global_def etb_choose_color_def
      etb_choose_player_def etb_choose_mode_def etb_choose_name_def etb_pay_life_def Let_def
      split: option.split)

lemma effects_composed [simp]:
  "gs_persistent_effects (reveal_on_move c f t ow g) = gs_persistent_effects g"
  "gs_persistent_effects (etb_stages c ow g) = gs_persistent_effects g"
  "gs_persistent_effects (raw_move c f t ow g) = gs_persistent_effects g"
  by (simp_all add: reveal_on_move_def etb_stages_def raw_move_def Let_def)

lemma etb_log_on [simp]: "log_on (etb_stages c ow g) = log_on g"
proof -
  have "log_on (etb_pay_life c x) = log_on x" "log_on (etb_tapped_global c x) = log_on x" for x
    by (simp_all add: etb_pay_life_def etb_tapped_global_def Let_def split: option.split)
  then show ?thesis by (simp add: etb_stages_def)
qed

lemma covered_entry_placed:
  assumes "covered_entry c g" "movable c f Battlefield ow g"
  shows "covered_entry c (raw_move c f Battlefield ow g)"
proof -
  have card: "card_of (raw_move c f Battlefield ow g) = card_of g"
    by (simp add: raw_move_def remove_from_zone_def split: option.split)
  have "f \<noteq> Battlefield" using assms(2) by (simp add: movable_def)
  then have "gs_battlefield (fst (remove_from_zone c f ow g)) = gs_battlefield g"
    by (cases f) (auto simp: remove_from_zone_def map_zone_def map_player_zones_def split: option.split)
  then have "z_cards (gs_battlefield (raw_move c f Battlefield ow g)) = z_cards (gs_battlefield g) @ [c]"
    by (simp add: raw_move_def map_zone_def zone_add_def)
  then show ?thesis using assms(1) card by (auto simp: covered_entry_def defs_of_def)
qed

lemma covered_move_undoable:
  assumes log: "log_on g" and before: "commander_replacement c t g = (g1, to)"
    and cov: "covered_move c f to ow g"
    and mv: "move_card_with env fire c f t ow g = Inr g'"
  shows "undoable ds g g'"
proof -
  define gr where "gr = reveal_on_move c f to ow g1"
  have g1: "zones_of g1 = zones_of g" "durable g1 = durable g" "game_actions g1 = game_actions g"
    "log_on g1" "gs_persistent_effects g1 = gs_persistent_effects g"
    "gs_delayed_triggers g1 = gs_delayed_triggers g" "card_of g1 = card_of g"
    using before log by (auto simp: commander_replacement_def normal_log_def log_on_def game_actions_def
        card_of_def fun_eq_iff zones_of_def split: option.splits if_splits)
  have "unmasked g1 = unmasked g" using g1(7) by (simp add: unmasked_def fun_eq_iff)
  then have covr: "covered_move c f to ow gr"
    using g1 covered_move_cong [OF _ _ _ _ cov, of gr] by (simp add: gr_def unmasked_reveal)
  have logr: "log_on gr" using g1(4) by (simp add: gr_def)
  have g2: "detach_equipment c f gr = gr"
    using covr by (intro detach_none) (simp add: covered_move_def)
  have u1: "undoable ds g gr"
    using undoable_trans [OF undoable_silent [OF g1(3,2)] reveal_on_move_undoable [OF g1(4)]]
    by (simp add: gr_def)
  have mvr: "movable c f to ow gr" using covr by (simp add: covered_move_def)
  let ?pos = "position_in_zone c f ow gr" and ?g4 = "raw_move c f to ow gr"
  define g5 where "g5 = (if to = Battlefield then etb_stages c ow ?g4 else ?g4)"
  have removed: "snd (remove_from_zone c f ow gr)"
    using mvr by (auto simp: movable_def remove_from_zone_def zone_remove_eq zone_contains_def)
  have "g' = finish_move env c f to (log_action (MoveCard c f to ow ?pos) g5)"
  proof -
    have "find_zone_change_triggers (gs_delayed_triggers g) c f to = []"
      using cov by (simp add: covered_move_def)
    with quiet_move [of c f t ow g gr to env fire] before g2 mv removed show ?thesis
      by (simp add: before_removal_def gr_def settle_move_def raw_move_def g5_def Let_def)
  qed
  moreover have "undoable ds gr (log_action (MoveCard c f to ow ?pos) g5)"
  proof (rule moved_entry_undoable [OF mvr])
    have "covered_entry c ?g4" if "to = Battlefield"
      using covr mvr that covered_entry_placed by (auto simp: covered_move_def)
    then show "entry_undoable ds ?g4 g5" using logr by (simp add: g5_def etb_stages_entry entry_refl)
    show "zones_of g5 = zones_of ?g4" by (simp add: g5_def)
    show "log_on g5" using logr by (simp add: g5_def)
  qed
  moreover have "undoable ds x (finish_move env c f to x)" if "log_on x"
      "gs_persistent_effects x = gs_persistent_effects g" for x
    using that cov by (intro finish_move_undoable) (simp_all add: covered_move_def)
  moreover have "log_on (log_action (MoveCard c f to ow ?pos) g5)" using logr by (simp add: g5_def)
  moreover have "gs_persistent_effects (log_action (MoveCard c f to ow ?pos) g5) = gs_persistent_effects g"
    using g1(5) by (simp add: g5_def gr_def)
  ultimately show ?thesis using u1 by (metis undoable_trans)
qed

end
