(* ===== verification/Turn.thy ===== *)
theory Turn
  imports MoveUndo
begin

section \<open>Steps and turns\<close>

text \<open>
  The passage of steps and turns in \<open>mtg-engine/src/game/state.rs\<close>: the cleanup at the end of a
  turn, the boundary marker of turn one, and \<open>advance_step\<close> with its additional combat phases, extra
  turns and the change of the active player. The number of calls that lead from a step to the
  cleanup step is computed exactly by \<open>steps_left\<close>, additional combats included.
\<close>

subsection \<open>Cleanup\<close>

definition cleanup_card :: "card \<Rightarrow> card \<times> bool" where
  "cleanup_card k = (let
       k1 = clear_temp_base_stats (k\<lparr>c_power_bonus := 0, c_toughness_bonus := 0\<rparr>);
       (k2, _, reverted_mana_source) = revert_temp_animation (k1\<lparr>c_damage := 0,
         c_dealt_damage_to_opponent_this_turn := False, c_attacked_this_turn := False\<rparr>) in
     (k2, reverted_mana_source))"

definition cleanup_permanent :: "game_state \<times> bool \<Rightarrow> card_id \<Rightarrow> game_state \<times> bool" where
  "cleanup_permanent s c = (case card_of (fst s) c of
       None \<Rightarrow> s
     | Some k \<Rightarrow> (map_card c (\<lambda>k. fst (cleanup_card k)) (fst s), snd s \<or> snd (cleanup_card k)))"

definition end_turn_grants :: "card \<Rightarrow> card" where
  "end_turn_grants k =
     (clear_temp_keywords_until_eot k)\<lparr>c_exile_if_would_go_to_graveyard_this_turn := False\<rparr>"

definition cleanup_temporary_effects :: "game_state \<Rightarrow> game_state" where
  "cleanup_temporary_effects g = (let
       (g1, any_reverted) = foldl cleanup_permanent (g, False) (z_cards (gs_battlefield g));
       g2 = map_cards end_turn_grants g1 in
     if any_reverted then increment_mana_version (map_mana_caches mark_dirty g2) else g2)"

subsection \<open>The boundary of turn one\<close>

definition ensure_turn_one_boundary :: "game_state \<Rightarrow> game_state" where
  "ensure_turn_one_boundary g =
     (if ts_turn_number (gs_turn g) \<noteq> 1 \<or> ul_current_turn (gs_undo_log g) \<noteq> None then g
      else let active_player = ts_active_player (gs_turn g) in
        log_action (ChangeTurn active_player active_player 1 (capture_rng_state g)) g)"

subsection \<open>Advancing\<close>

definition name_or_unknown :: "game_state \<Rightarrow> player_id option \<Rightarrow> string" where
  "name_or_unknown g p = (case Option.bind p (try_get_player g) of
     Some x \<Rightarrow> p_name x | None \<Rightarrow> ''Unknown'')"

definition life_or_zero :: "game_state \<Rightarrow> player_id option \<Rightarrow> i32" where
  "life_or_zero g p = (case Option.bind p (try_get_player g) of Some x \<Rightarrow> p_life x | None \<Rightarrow> 0)"

definition turn_message :: "u32 \<Rightarrow> player_id \<Rightarrow> game_state \<Rightarrow> string" where
  "turn_message n p g = (let other = get_other_player_id g p in
     ''  >>> Turn '' @ show_nat (unat n) @ '' - '' @ name_or_unknown g (Some p) @ '' ''
       @ show_i32 (life_or_zero g (Some p)) @ '' ('' @ name_or_unknown g other @ '' ''
       @ show_i32 (life_or_zero g other) @ '') <<<<'')"

definition take_next_player :: "game_state \<Rightarrow> mtg_error + (game_state \<times> player_id)" where
  "take_next_player g = (case gs_extra_turns g of
       p # ps \<Rightarrow> (let g1 = g\<lparr>gs_extra_turns := ps\<rparr> in
         Inr (game_log (''Extra turn for '' @ name_or_unknown g1 (Some p) @ ''!'') g1, p))
     | [] \<Rightarrow> (case get_next_player g (ts_active_player (gs_turn g)) of
           Inl e \<Rightarrow> Inl e | Inr p \<Rightarrow> Inr (g, p)))"

definition separate_turns :: "string \<Rightarrow> game_state \<Rightarrow> game_state" where
  "separate_turns m g = g\<lparr>gs_logger := turn_separator m (turn_separator '''' (gs_logger g))\<rparr>"

definition change_turn :: "game_state \<Rightarrow> mtg_error + game_state" where
  "change_turn g = (case take_next_player g of
       Inl e \<Rightarrow> Inl e
     | Inr (g1, next_player) \<Rightarrow>
         let old_turn_number = ts_turn_number (gs_turn g1);
             rng_state = capture_rng_state g1;
             g2 = g1\<lparr>gs_turn := next_turn (gs_turn g1) next_player\<rparr>;
             g3 = separate_turns (turn_message (old_turn_number + 1) next_player g2) g2;
             g4 = log_action (ChangeTurn (ts_active_player (gs_turn g)) next_player
               (old_turn_number + 1) rng_state) g3 in
         Inr (map_player next_player reset_lands_played g4))"

definition advance_step :: "game_state \<Rightarrow> mtg_error + game_state" where
  "advance_step g0 = (let
       from_step = ts_current_step (gs_turn g0);
       g = (if from_step = End \<and> next_step (ts_current_step (gs_turn g0)) = Some Cleanup
            then cleanup_temporary_effects g0 else g0) in
     if from_step = EndCombat \<and> 0 < gs_extra_combat_phases g
     then Inr (game_log ''Additional combat phase begins!''
       (g\<lparr>gs_extra_combat_phases := gs_extra_combat_phases g - 1,
          gs_turn := (gs_turn g)\<lparr>ts_current_step := BeginCombat\<rparr>\<rparr>))
     else let
       g1 = (if from_step = Cleanup then g\<lparr>gs_extra_combat_phases := 0\<rparr> else g);
       (ts, moved) = ts_advance_step (gs_turn g1) in
     if \<not> moved then change_turn (g1\<lparr>gs_turn := ts\<rparr>)
     else Inr (let g2 = g1\<lparr>gs_turn := ts\<rparr> in
       log_action (AdvanceStep from_step (ts_current_step (gs_turn g2))) g2))"

subsection \<open>What cleanup leaves\<close>

lemma cleanup_keeps [simp]:
  "gs_turn (cleanup_temporary_effects g) = gs_turn g"
  "gs_extra_combat_phases (cleanup_temporary_effects g) = gs_extra_combat_phases g"
  "gs_players (cleanup_temporary_effects g) = gs_players g"
  "gs_battlefield (cleanup_temporary_effects g) = gs_battlefield g"
  "gs_undo_log (cleanup_temporary_effects g) = gs_undo_log g"
proof -
  have "gs_turn (fst (foldl cleanup_permanent s cs)) = gs_turn (fst s)
    \<and> gs_extra_combat_phases (fst (foldl cleanup_permanent s cs)) = gs_extra_combat_phases (fst s)
    \<and> gs_players (fst (foldl cleanup_permanent s cs)) = gs_players (fst s)
    \<and> gs_battlefield (fst (foldl cleanup_permanent s cs)) = gs_battlefield (fst s)
    \<and> gs_undo_log (fst (foldl cleanup_permanent s cs)) = gs_undo_log (fst s)" for s cs
    by (induction cs arbitrary: s) (simp_all add: cleanup_permanent_def map_card_def split: option.split)
  from this [of "(g, False)"] show
    "gs_turn (cleanup_temporary_effects g) = gs_turn g"
    "gs_extra_combat_phases (cleanup_temporary_effects g) = gs_extra_combat_phases g"
    "gs_players (cleanup_temporary_effects g) = gs_players g"
    "gs_battlefield (cleanup_temporary_effects g) = gs_battlefield g"
    "gs_undo_log (cleanup_temporary_effects g) = gs_undo_log g"
    by (simp_all add: cleanup_temporary_effects_def split_beta map_cards_def map_mana_caches_def
        increment_mana_version_def Let_def)
qed

text \<open>A card as cleanup leaves it on the battlefield.\<close>

definition clean_permanent :: "card \<Rightarrow> bool" where
  "clean_permanent k \<longleftrightarrow> c_power_bonus k = 0 \<and> c_toughness_bonus k = 0 \<and> c_damage k = 0
     \<and> c_temp_base_power k = None \<and> c_temp_base_toughness k = None
     \<and> c_temp_animate_types k = [] \<and> c_temp_animate_subtypes k = [] \<and> c_temp_removed_subtypes k = []
     \<and> \<not> c_dealt_damage_to_opponent_this_turn k \<and> \<not> c_attacked_this_turn k"

definition no_grants :: "card \<Rightarrow> bool" where
  "no_grants k \<longleftrightarrow> ks_keywords (c_temp_keywords_until_eot k) = {}
     \<and> \<not> c_exile_if_would_go_to_graveyard_this_turn k"

lemma cleanup_card_clean: "clean_permanent (fst (cleanup_card k))"
  by (simp add: clean_permanent_def cleanup_card_def revert_temp_animation_def clear_temp_base_stats_def
      map_cache_def Let_def split_beta)

lemma cleanup_step:
  "card_of (fst (cleanup_permanent s d)) c
     = (if c = d then map_option (\<lambda>k. fst (cleanup_card k)) (card_of (fst s) c) else card_of (fst s) c)"
  by (simp add: cleanup_permanent_def card_of_map_card split: option.split)

lemma cleanup_foldl_clean:
  assumes "c \<in> set cs \<or> (\<forall>k. card_of (fst s) c = Some k \<longrightarrow> clean_permanent k)"
    and "card_of (fst (foldl cleanup_permanent s cs)) c = Some k"
  shows "clean_permanent k"
  using assms
proof (induction cs arbitrary: s)
  case (Cons d cs)
  have "c \<in> set cs \<or> (\<forall>k. card_of (fst (cleanup_permanent s d)) c = Some k \<longrightarrow> clean_permanent k)"
    using Cons.prems(1) by (auto simp: cleanup_step cleanup_card_clean)
  then show ?case using Cons.IH Cons.prems(2) by simp
qed simp

lemma cleanup_foldl_other:
  "c \<notin> set cs \<Longrightarrow> card_of (fst (foldl cleanup_permanent s cs)) c = card_of (fst s) c"
  by (induction cs arbitrary: s) (simp_all add: cleanup_step)

lemma cleanup_foldl_known:
  "card_of (fst (foldl cleanup_permanent s cs)) c = None \<longleftrightarrow> card_of (fst s) c = None"
  by (induction cs arbitrary: s) (simp_all add: cleanup_step)

lemma cleanup_card_of:
  "card_of (cleanup_temporary_effects g) c
     = map_option end_turn_grants (card_of (fst (foldl cleanup_permanent (g, False) (z_cards (gs_battlefield g)))) c)"
  by (simp add: cleanup_temporary_effects_def split_beta Let_def card_of_def map_cards_def
      map_mana_caches_def increment_mana_version_def store_try_get_def store_values_mut_def)

lemma end_turn_grants_clean: "clean_permanent (end_turn_grants k) = clean_permanent k"
  "no_grants (end_turn_grants k)"
  by (simp_all add: clean_permanent_def no_grants_def end_turn_grants_def
      clear_temp_keywords_until_eot_def kw_clear_def)

lemma cleanup_cleans:
  assumes "card_of (cleanup_temporary_effects g) c = Some k"
  shows "no_grants k" "zone_contains (gs_battlefield g) c \<Longrightarrow> clean_permanent k"
proof -
  obtain k' where k: "k = end_turn_grants k'"
    and k': "card_of (fst (foldl cleanup_permanent (g, False) (z_cards (gs_battlefield g)))) c = Some k'"
    using assms by (auto simp: cleanup_card_of)
  show "no_grants k" by (simp add: k end_turn_grants_clean)
  show "zone_contains (gs_battlefield g) c \<Longrightarrow> clean_permanent k"
    using cleanup_foldl_clean [OF _ k'] by (simp add: k end_turn_grants_clean zone_contains_def)
qed

text \<open>Off the battlefield cleanup changes only the grants.\<close>

lemma cleanup_elsewhere:
  "\<not> zone_contains (gs_battlefield g) c
    \<Longrightarrow> card_of (cleanup_temporary_effects g) c = map_option end_turn_grants (card_of g c)"
  by (simp add: cleanup_card_of cleanup_foldl_other zone_contains_def)

subsection \<open>Within a turn\<close>

definition steps_left :: "game_state \<Rightarrow> nat" where
  "steps_left g = (let r = unat (as_hash_u32 (ts_current_step (gs_turn g))) in
     (11 - r) + (if r \<le> 8 then 5 * unat (gs_extra_combat_phases g) else 0))"

definition within_turn :: "game_state \<Rightarrow> bool" where
  "within_turn g \<longleftrightarrow> ts_current_step (gs_turn g) \<noteq> Cleanup"

lemma advance_within:
  assumes "within_turn g" "\<not> (ts_current_step (gs_turn g) = EndCombat \<and> 0 < gs_extra_combat_phases g)"
  obtains s where "next_step (ts_current_step (gs_turn g)) = Some s"
    "advance_step g = Inr (log_action (AdvanceStep (ts_current_step (gs_turn g)) s)
       ((if ts_current_step (gs_turn g) = End then cleanup_temporary_effects g else g)
         \<lparr>gs_turn := (gs_turn g)\<lparr>ts_current_step := s\<rparr>\<rparr>))"
proof -
  obtain s where s: "next_step (ts_current_step (gs_turn g)) = Some s"
    using assms(1) by (auto simp: within_turn_def next_step_None [symmetric])
  show ?thesis
    by (rule that [OF s], cases "ts_current_step (gs_turn g)")
      (use assms s in \<open>auto simp: advance_step_def within_turn_def ts_advance_step_def Let_def\<close>)
qed

lemma advance_extra_combat:
  assumes "ts_current_step (gs_turn g) = EndCombat" "0 < gs_extra_combat_phases g"
  shows "advance_step g = Inr (game_log ''Additional combat phase begins!''
       (g\<lparr>gs_extra_combat_phases := gs_extra_combat_phases g - 1,
          gs_turn := (gs_turn g)\<lparr>ts_current_step := BeginCombat\<rparr>\<rparr>))"
  using assms by (simp add: advance_step_def Let_def)

lemma game_log_fields [simp]: "gs_turn (game_log m g) = gs_turn g"
  "gs_extra_combat_phases (game_log m g) = gs_extra_combat_phases g"
  "gs_extra_turns (game_log m g) = gs_extra_turns g" "gs_players (game_log m g) = gs_players g"
  by (simp_all add: game_log_def)

lemma steps_left_zero: "steps_left g = 0 \<longleftrightarrow> ts_current_step (gs_turn g) = Cleanup"
  by (cases "ts_current_step (gs_turn g)") (simp_all add: steps_left_def)

lemma advance_counts_down:
  assumes "within_turn g"
  obtains g' where "advance_step g = Inr g'" "steps_left g = Suc (steps_left g')"
proof (cases "ts_current_step (gs_turn g) = EndCombat \<and> 0 < gs_extra_combat_phases g")
  case True
  then have pos: "0 < unat (gs_extra_combat_phases g)" by (simp add: word_less_nat_alt)
  then have "unat (gs_extra_combat_phases g - 1) = unat (gs_extra_combat_phases g) - 1"
    by (simp add: unat_minus_one unat_gt_0)
  then show ?thesis
    using True pos by (intro that [OF advance_extra_combat]) (simp_all add: steps_left_def)
next
  case False
  obtain s where s: "next_step (ts_current_step (gs_turn g)) = Some s"
    and adv: "advance_step g = Inr (log_action (AdvanceStep (ts_current_step (gs_turn g)) s)
       ((if ts_current_step (gs_turn g) = End then cleanup_temporary_effects g else g)
         \<lparr>gs_turn := (gs_turn g)\<lparr>ts_current_step := s\<rparr>\<rparr>))"
    using advance_within [OF assms False] by blast
  show ?thesis
    using s False
    by (intro that [OF adv], cases "ts_current_step (gs_turn g)")
      (auto simp: steps_left_def log_action_def word_less_nat_alt)
qed

text \<open>Advancing again and again.\<close>

fun advance_times :: "nat \<Rightarrow> game_state \<Rightarrow> mtg_error + game_state" where
  "advance_times 0 g = Inr g"
| "advance_times (Suc n) g = (case advance_step g of Inl e \<Rightarrow> Inl e | Inr g' \<Rightarrow> advance_times n g')"

lemma reaches_cleanup:
  "\<exists>g'. advance_times (steps_left g) g = Inr g' \<and> ts_current_step (gs_turn g') = Cleanup"
proof (induction "steps_left g" arbitrary: g)
  case 0
  then show ?case using steps_left_zero [of g] by simp
next
  case (Suc n)
  then have "within_turn g" using steps_left_zero [of g] by (auto simp: within_turn_def)
  then obtain g' where "advance_step g = Inr g'" "steps_left g = Suc (steps_left g')"
    by (rule advance_counts_down)
  then show ?case using Suc.hyps(1) [of g'] Suc.hyps(2) by simp
qed

lemma not_cleanup_before:
  assumes "n < steps_left g" "advance_times n g = Inr g'"
  shows "ts_current_step (gs_turn g') \<noteq> Cleanup"
  using assms
proof (induction n arbitrary: g)
  case 0
  then show ?case using steps_left_zero [of g] by simp
next
  case (Suc n)
  then have "within_turn g" using steps_left_zero [of g] by (auto simp: within_turn_def)
  then obtain h where "advance_step g = Inr h" "steps_left g = Suc (steps_left h)"
    by (rule advance_counts_down)
  then show ?case using Suc by simp
qed

subsection \<open>Undoing a step\<close>

text \<open>Nothing on the battlefield and no grant is left to clean up.\<close>

definition nothing_to_clean :: "game_state \<Rightarrow> bool" where
  "nothing_to_clean g \<longleftrightarrow> durable (cleanup_temporary_effects g) = durable g"

lemma advance_undoable:
  assumes log: "log_on g" and adv: "advance_step g = Inr g'" and turn: "within_turn g"
    and combat: "\<not> (ts_current_step (gs_turn g) = EndCombat \<and> 0 < gs_extra_combat_phases g)"
    and clean: "ts_current_step (gs_turn g) = End \<Longrightarrow> nothing_to_clean g"
  shows "undoable ds g g'"
proof -
  define h where "h = (if ts_current_step (gs_turn g) = End then cleanup_temporary_effects g else g)"
  obtain s where g': "g' = log_action (AdvanceStep (ts_current_step (gs_turn g)) s)
       (h\<lparr>gs_turn := (gs_turn g)\<lparr>ts_current_step := s\<rparr>\<rparr>)"
    using advance_within [OF turn combat] adv unfolding h_def by (metis Inr_inject)
  have h: "durable h = durable g" "game_actions h = game_actions g" "log_on h"
    using clean log by (simp_all add: h_def nothing_to_clean_def game_actions_def log_on_def)
  have "undo_effect ds (AdvanceStep (ts_current_step (gs_turn g)) s)
      (h\<lparr>gs_turn := (gs_turn g)\<lparr>ts_current_step := s\<rparr>\<rparr>) = h\<lparr>gs_turn := gs_turn g\<rparr>"
    by (simp add: undo_effect_def undo_advance_step_def)
  moreover have "durable (h\<lparr>gs_turn := gs_turn g\<rparr>) = durable g"
    using h(1) by simp
  ultimately show ?thesis
    unfolding g' using h by (intro undoable_log_action) simp_all
qed

lemma advance_log_on: "advance_step g = Inr g' \<Longrightarrow> within_turn g \<Longrightarrow> log_on g' = log_on g"
proof (cases "ts_current_step (gs_turn g) = EndCombat \<and> 0 < gs_extra_combat_phases g")
  case True
  then show "advance_step g = Inr g' \<Longrightarrow> log_on g' = log_on g"
    by (auto simp: advance_extra_combat log_on_def)
next
  case False
  then show "advance_step g = Inr g' \<Longrightarrow> within_turn g \<Longrightarrow> log_on g' = log_on g"
    by (elim advance_within) (auto simp: log_on_def log_action_def split: if_splits)
qed

text \<open>The marker of turn one is logged once and is undone without effect.\<close>

lemma turn_one_boundary_undoable:
  assumes log: "log_on g" and rng: "\<And>b. capture_rng_state g = Some b \<Longrightarrow> ds b = Some (gs_rng g)"
  shows "undoable ds g (ensure_turn_one_boundary g)"
proof (cases "ts_turn_number (gs_turn g) \<noteq> 1 \<or> ul_current_turn (gs_undo_log g) \<noteq> None")
  case False
  let ?p = "ts_active_player (gs_turn g)"
  have "undo_effect ds (ChangeTurn ?p ?p 1 (capture_rng_state g)) g = g"
    using False rng
    by (cases "capture_rng_state g") (simp_all add: undo_effect_def undo_change_turn_def restore_rng_def)
  then have "undoable ds g (log_action (ChangeTurn ?p ?p 1 (capture_rng_state g)) g)"
    using log by (intro undoable_log_action) simp_all
  then show ?thesis using False by (simp add: ensure_turn_one_boundary_def Let_def)
qed (auto simp: ensure_turn_one_boundary_def)

lemma current_turn_log:
  "ul_enabled l \<Longrightarrow> ul_current_turn (ul_log a n l) = (case turn_of a of Some t \<Rightarrow> Some t | None \<Rightarrow> ul_current_turn l)"
  by (simp add: ul_current_turn_def ul_log_def split: option.split)

lemma turn_one_boundary_once:
  assumes "log_on g"
  shows "ensure_turn_one_boundary (ensure_turn_one_boundary g) = ensure_turn_one_boundary g"
proof (cases "ts_turn_number (gs_turn g) \<noteq> 1 \<or> ul_current_turn (gs_undo_log g) \<noteq> None")
  case False
  then have "ul_current_turn (gs_undo_log (ensure_turn_one_boundary g)) = Some 1"
    using assms
    by (simp add: ensure_turn_one_boundary_def Let_def log_action_def log_on_def current_turn_log)
  then show ?thesis by (simp add: ensure_turn_one_boundary_def [of "ensure_turn_one_boundary g"])
qed (auto simp: ensure_turn_one_boundary_def)

subsection \<open>The change of turn\<close>

definition next_active :: "game_state \<Rightarrow> mtg_error + player_id" where
  "next_active g = (case gs_extra_turns g of
     p # ps \<Rightarrow> Inr p | [] \<Rightarrow> get_next_player g (ts_active_player (gs_turn g)))"

lemma take_next_player_active:
  "take_next_player g = Inr (g1, p) \<Longrightarrow> next_active g = Inr p \<and> gs_extra_turns g1 = tl (gs_extra_turns g)
     \<and> gs_turn g1 = gs_turn g \<and> gs_players g1 = gs_players g \<and> gs_undo_log g1 = gs_undo_log g
     \<and> gs_rng g1 = gs_rng g \<and> gs_extra_combat_phases g1 = gs_extra_combat_phases g"
  by (auto simp: take_next_player_def next_active_def Let_def game_log_def split: list.splits sum.splits)

lemma take_next_player_Inl: "take_next_player g = Inl e \<longleftrightarrow> next_active g = Inl e"
  by (auto simp: take_next_player_def next_active_def Let_def split: list.splits sum.splits)

lemma advance_at_cleanup:
  "ts_current_step (gs_turn g) = Cleanup \<Longrightarrow> advance_step g = change_turn (g\<lparr>gs_extra_combat_phases := 0\<rparr>)"
  by (simp add: advance_step_def ts_advance_step_def Let_def)

lemma keeps_id_reset_lands [simp]: "keeps_id reset_lands_played"
  by (simp add: keeps_id_def reset_lands_played_def)

lemma change_turn_fields:
  assumes "change_turn g = Inr g'"
  obtains p where "next_active g = Inr p" "gs_turn g' = next_turn (gs_turn g) p"
    "gs_players g' = update_player p reset_lands_played (gs_players g)"
    "gs_extra_turns g' = tl (gs_extra_turns g)" "gs_extra_combat_phases g' = gs_extra_combat_phases g"
    "log_on g \<Longrightarrow> game_actions g' = game_actions g
       @ [ChangeTurn (ts_active_player (gs_turn g)) p (ts_turn_number (gs_turn g) + 1) (capture_rng_state g)]"
proof -
  obtain g1 p where t: "take_next_player g = Inr (g1, p)"
    using assms by (auto simp: change_turn_def split: sum.splits)
  note f = take_next_player_active [OF t]
  show ?thesis
    by (rule that [of p])
      (use assms t f in \<open>auto simp: change_turn_def Let_def map_player_def log_action_def separate_turns_def
        game_actions_def ul_log_def log_on_def capture_rng_state_def\<close>)
qed

end
