(* ===== verification/Rewind.thy ===== *)
theory Rewind
  imports Turn
begin

section \<open>Rewinding the game\<close>

text \<open>
  The three ways the engine goes back in time: \<open>GameState::undo\<close> (one action) and
  \<open>undo_to_previous_choice_point\<close> (until a player's last choice) of
  \<open>mtg-engine/src/game/state.rs\<close>, and \<open>UndoLog::rewind_to_turn_start\<close> of
  \<open>mtg-engine/src/undo.rs\<close>. The loops pop the log until it is empty or a marker stops them, so the
  length of the log bounds them. Each is shown to revert exactly the actions past its marker; with
  the reversibility of the operations this gives back the durable state of the marker.
\<close>

subsection \<open>Undoing one action\<close>

definition clear_undone_scratch :: "sub_action_scratch \<Rightarrow> sub_action_scratch" where
  "clear_undone_scratch s = s\<lparr>sc_pending_activation := None, sc_pending_activation_effect_idx := None,
     sc_pending_cycling_search := None, sc_spell_targets := []\<rparr>"

definition game_undo :: "(u8 list \<Rightarrow> rng option) \<Rightarrow> game_state \<Rightarrow> game_state \<times> nat option" where
  "game_undo ds g = (case ul_pop (gs_undo_log g) of
       (l, None) \<Rightarrow> (g, None)
     | (l, Some (a, prior_log_size)) \<Rightarrow>
         let g1 = fst (undo a ds (g\<lparr>gs_undo_log := l\<rparr>));
             g2 = map_mana_caches mark_dirty g1 in
         (if ul_is_empty (gs_undo_log g2)
          then g2\<lparr>gs_scratch := clear_undone_scratch (gs_scratch g2)\<rparr> else g2,
          Some prior_log_size))"

subsection \<open>Undoing to a choice\<close>

fun choice_of :: "game_action \<Rightarrow> (player_id \<times> u32) option" where
  "choice_of a = (case a of ChoicePoint p i ch \<Rightarrow> Some (p, i) | _ \<Rightarrow> None)"

function undo_loop :: "(u8 list \<Rightarrow> rng option) \<Rightarrow> player_id \<Rightarrow> nat \<Rightarrow> game_state
    \<Rightarrow> game_state \<times> nat \<times> nat option" where
  "undo_loop ds requesting n g = (case ul_pop (gs_undo_log g) of
       (l, None) \<Rightarrow> (g, n, None)
     | (l, Some (a, prior_log_size)) \<Rightarrow>
         let g1 = g\<lparr>gs_undo_log := l\<rparr> in
         (case choice_of a of
            Some (p, i) \<Rightarrow> if p = requesting
              then (g1\<lparr>gs_logger := set_choice_count (unat (sat_sub i 1)) (gs_logger g1)\<rparr>, n, Some prior_log_size)
              else undo_loop ds requesting n g1
          | None \<Rightarrow> let g2 = fst (undo a ds g1) in
              undo_loop ds requesting (n + 1)
                (g2\<lparr>gs_logger := truncate_to prior_log_size (gs_logger g2)\<rparr>)))"
  by pat_completeness auto

lemma ul_pop_shorter: "ul_pop l = (l', Some x) \<Longrightarrow> length (ul_actions l') < length (ul_actions l)"
  by (auto simp: ul_pop_def split: if_splits)

termination undo_loop
  by (relation "measure (\<lambda>(ds, p, n, g). length (ul_actions (gs_undo_log g)))")
    (auto simp: undo_keeps_log dest!: ul_pop_shorter [OF sym])

declare undo_loop.simps [simp del]

definition undo_to_previous_choice_point ::
  "(u8 list \<Rightarrow> rng option) \<Rightarrow> player_id \<Rightarrow> game_state \<Rightarrow> game_state \<times> (nat \<times> nat) option" where
  "undo_to_previous_choice_point ds requesting g =
     (if \<not> list_ex (\<lambda>a. case choice_of a of Some (p, _) \<Rightarrow> p = requesting | None \<Rightarrow> False)
            (ul_actions (gs_undo_log g)) then (g, None)
      else let (g1, actions_undone, choice_log_size) = undo_loop ds requesting 0 g;
               g2 = increment_mana_version (map_mana_caches mark_dirty g1) in
        (g2, case choice_log_size of Some log_size \<Rightarrow> Some (actions_undone, log_size) | None \<Rightarrow> None))"

subsection \<open>Rewinding to the start of a turn\<close>

function rewind_loop :: "(u8 list \<Rightarrow> rng option) \<Rightarrow> undo_log \<Rightarrow> game_state \<Rightarrow> game_action list \<Rightarrow> nat
    \<Rightarrow> undo_log \<times> game_state \<times> game_action list \<times> nat \<times> (u32 \<times> nat) option" where
  "rewind_loop ds l g choices_reversed actions_rewound = (case ul_pop l of
       (l', None) \<Rightarrow> (l', g, choices_reversed, actions_rewound, None)
     | (l', Some (a, log_size)) \<Rightarrow>
         (case turn_of a of
            Some tn \<Rightarrow> (l'\<lparr>ul_actions := ul_actions l' @ [a], ul_log_sizes := ul_log_sizes l' @ [log_size]\<rparr>,
              g, choices_reversed, actions_rewound, Some (tn, log_size))
          | None \<Rightarrow> if choice_of a \<noteq> None
              then rewind_loop ds l' g (choices_reversed @ [a]) (actions_rewound + 1)
              else rewind_loop ds l' (fst (undo a ds g)) choices_reversed (actions_rewound + 1)))"
  by pat_completeness auto

termination rewind_loop
  by (relation "measure (\<lambda>(ds, l, g, cs, n). length (ul_actions l))")
    (auto dest!: ul_pop_shorter [OF sym])

declare rewind_loop.simps [simp del]

definition reset_permanent :: "card \<Rightarrow> card" where
  "reset_permanent k = (clear_temp_base_stats (k\<lparr>c_damage := 0, c_power_bonus := 0, c_toughness_bonus := 0\<rparr>))
     \<lparr>c_damage_prevention := 0, c_exile_if_would_die_this_turn := False,
      c_prevent_all_combat_damage_this_turn := False\<rparr>"

definition reset_any_card :: "card \<Rightarrow> card" where
  "reset_any_card k = clear_temp_keywords_until_eot (k\<lparr>c_regeneration_shields := 0\<rparr>)"

definition reset_player :: "player \<Rightarrow> player" where
  "reset_player x = x\<lparr>p_damage_prevention := 0, p_source_prevention_shields := [],
     p_combat_mana_pool := None\<rparr>"

definition reset_scratch :: "sub_action_scratch \<Rightarrow> sub_action_scratch" where
  "reset_scratch s = s\<lparr>sc_pending_activation := None, sc_pending_cycling_search := None,
     sc_spell_targets := [], sc_pending_library_reorders := []\<rparr>"

definition library_ids :: "game_state \<Rightarrow> card_id list" where
  "library_ids g = concat (map (\<lambda>z. z_cards (pz_library z))
     (List.map_filter (\<lambda>x. get_player_zones g (p_id x)) (gs_players g)))"

definition clear_hidden_libraries :: "game_state \<Rightarrow> game_state" where
  "clear_hidden_libraries g = (if gs_is_shadow_game g
     then g\<lparr>gs_cards := foldl (\<lambda>cs c. if store_contains cs c then fst (store_clear cs c) else cs)
       (gs_cards g) (library_ids g)\<rparr>
     else g)"

definition reset_turn_transients :: "game_state \<Rightarrow> game_state" where
  "reset_turn_transients g = (let
       g1 = map_mana_caches msx_clear (increment_mana_version g);
       g2 = g1\<lparr>gs_turn := (gs_turn g1)\<lparr>ts_priority_player := None, ts_consecutive_passes := 0\<rparr>,
         gs_scratch := reset_scratch (gs_scratch g1), gs_combat := combat_clear (gs_combat g1)\<rparr>;
       g3 = foldl (\<lambda>h c. map_card c reset_permanent h) g2 (z_cards (gs_battlefield g2));
       g4 = map_players reset_player (map_cards reset_any_card g3) in
     clear_hidden_libraries g4)"

definition rewind_to_turn_start :: "(u8 list \<Rightarrow> rng option) \<Rightarrow> undo_log \<Rightarrow> game_state
    \<Rightarrow> undo_log \<times> game_state \<times> (u32 \<times> game_action list \<times> nat \<times> nat) option" where
  "rewind_to_turn_start ds l g =
     (if \<not> ul_enabled l then (l, g, None)
      else let (l', g', choices_reversed, n, turn) = rewind_loop ds l g [] 0;
               (effective_turn, log_size) = (case turn of Some tz \<Rightarrow> tz | None \<Rightarrow> (1, 0)) in
        (l', reset_turn_transients g', Some (effective_turn, rev choices_reversed, n, log_size)))"

subsection \<open>One action back\<close>

lemma undo_choice_identity: "choice_of a \<noteq> None \<Longrightarrow> undo_effect ds a g = g"
  by (cases a) (simp_all add: undo_effect_def)

lemma pop_last:
  assumes "ul_actions l = as @ [a]"
  obtains l' sz where "ul_pop l = (l', Some (a, sz))" "ul_actions l' = as"
    "ul_enabled l' = ul_enabled l" "ul_log_sizes l' = butlast (ul_log_sizes l)"
    "ul_aligned l \<Longrightarrow> ul_aligned l'" "ul_aligned l \<Longrightarrow> sz = ul_log_sizes l ! length as"
    "ul_choice_points l' = ul_choice_points l"
proof -
  let ?l' = "l\<lparr>ul_actions := as, ul_log_sizes := butlast (ul_log_sizes l)\<rparr>"
  let ?sz = "if ul_log_sizes l = [] then 0 else last (ul_log_sizes l)"
  show ?thesis
  proof (rule that [of ?l' ?sz])
    show "ul_pop l = (?l', Some (a, ?sz))" using assms by (simp add: ul_pop_def)
    show "?sz = ul_log_sizes l ! length as" if "ul_aligned l"
    proof -
      have len: "length (ul_log_sizes l) = Suc (length as)"
        using that assms by (simp add: ul_aligned_def)
      then have "ul_log_sizes l \<noteq> []" by auto
      then show ?thesis using len by (simp add: last_conv_nth)
    qed
  qed (use assms in \<open>auto simp: ul_aligned_def\<close>)
qed

lemma undo_effect_log [simp]: "gs_undo_log (undo_effect ds a g) = gs_undo_log g"
  "game_actions (undo_effect ds a g) = game_actions g"
  "gs_logger (undo_effect ds a g) = gs_logger g"
  by (simp_all add: undo_effect_def undo_keeps_log game_actions_def)

lemma game_undo_one:
  assumes "game_actions g = as @ [a]"
  shows "durable (fst (game_undo ds g)) = durable (undo_effect ds a g)"
    "game_actions (fst (game_undo ds g)) = as" "snd (game_undo ds g) \<noteq> None"
    "log_on g \<Longrightarrow> log_on (fst (game_undo ds g))"
proof -
  obtain l sz where l: "ul_pop (gs_undo_log g) = (l, Some (a, sz))" "ul_actions l = as"
    "ul_enabled l = ul_enabled (gs_undo_log g)" "ul_aligned (gs_undo_log g) \<Longrightarrow> ul_aligned l"
    using assms by (auto simp: game_actions_def elim: pop_last)
  define h where "h = map_mana_caches mark_dirty (undo_effect ds a (g\<lparr>gs_undo_log := l\<rparr>))"
  have u: "fst (game_undo ds g) = (if ul_is_empty (gs_undo_log h)
       then h\<lparr>gs_scratch := clear_undone_scratch (gs_scratch h)\<rparr> else h)"
    by (simp add: game_undo_def l(1) h_def undo_effect_def Let_def)
  have log: "gs_undo_log h = l" by (simp add: h_def)
  have "durable h = durable (undo_effect ds a (g\<lparr>gs_undo_log := l\<rparr>))" by (simp add: h_def)
  also have "\<dots> = durable (undo_effect ds a g)" by (rule game.revert_view) simp
  finally show "durable (fst (game_undo ds g)) = durable (undo_effect ds a g)" by (simp add: u)
  show "game_actions (fst (game_undo ds g)) = as" using l(2) log by (simp add: u game_actions_def)
  show "snd (game_undo ds g) \<noteq> None" by (simp add: game_undo_def l(1) Let_def)
  show "log_on g \<Longrightarrow> log_on (fst (game_undo ds g))" using l log by (simp add: u log_on_def)
qed

fun undo_times :: "(u8 list \<Rightarrow> rng option) \<Rightarrow> nat \<Rightarrow> game_state \<Rightarrow> game_state" where
  "undo_times ds 0 g = g"
| "undo_times ds (Suc n) g = undo_times ds n (fst (game_undo ds g))"

lemma undo_times_reverts:
  assumes "game_actions g = as @ bs"
  shows "durable (undo_times ds (length bs) g) = durable (revert_all (undo_effect ds) bs g)
    \<and> game_actions (undo_times ds (length bs) g) = as"
  using assms
proof (induction bs arbitrary: g rule: rev_induct)
  case (snoc a bs)
  have acts: "game_actions g = (as @ bs) @ [a]" using snoc.prems by simp
  let ?h = "fst (game_undo ds g)"
  have "durable (undo_times ds (length bs) ?h) = durable (revert_all (undo_effect ds) bs ?h)
    \<and> game_actions (undo_times ds (length bs) ?h) = as"
    using game_undo_one(2) [OF acts] by (intro snoc.IH)
  moreover have "durable (revert_all (undo_effect ds) bs ?h)
      = durable (revert_all (undo_effect ds) bs (undo_effect ds a g))"
    by (rule game.revert_all_view) (rule game_undo_one(1) [OF acts])
  ultimately show ?case by simp
qed simp

lemma undoable_split:
  assumes "undoable ds g g'"
  obtains bs where "game_actions g' = game_actions g @ bs"
    "durable (revert_all (undo_effect ds) bs g') = durable g"
  using assms by (auto simp: undoable_def reversible_def)

lemma undo_times_undoable:
  assumes "undoable ds g g'"
  defines "n \<equiv> length (game_actions g') - length (game_actions g)"
  shows "durable (undo_times ds n g') = durable g" "game_actions (undo_times ds n g') = game_actions g"
proof -
  obtain bs where bs: "game_actions g' = game_actions g @ bs"
    "durable (revert_all (undo_effect ds) bs g') = durable g"
    using assms(1) by (rule undoable_split)
  have "n = length bs" using bs(1) by (simp add: n_def)
  then show "durable (undo_times ds n g') = durable g" "game_actions (undo_times ds n g') = game_actions g"
    using undo_times_reverts [OF bs(1)] bs(2) by auto
qed

subsection \<open>Back to a choice\<close>

lemma undo_loop_stops:
  assumes "game_actions g = as @ ChoicePoint p i ch # bs" "ul_aligned (gs_undo_log g)"
    and "\<And>b j. b \<in> set bs \<Longrightarrow> choice_of b \<noteq> Some (p, j)"
  shows "\<exists>g'. undo_loop ds p n g = (g', n + length (filter (\<lambda>b. choice_of b = None) bs),
        Some (ul_log_sizes (gs_undo_log g) ! length as))
     \<and> durable g' = durable (revert_all (undo_effect ds) bs g) \<and> game_actions g' = as
     \<and> lg_choice_count (gs_logger g') = unat (sat_sub i 1)"
  using assms
proof (induction bs arbitrary: g n rule: rev_induct)
  case Nil
  then obtain l sz where l: "ul_pop (gs_undo_log g) = (l, Some (ChoicePoint p i ch, sz))"
    "ul_actions l = as" "sz = ul_log_sizes (gs_undo_log g) ! length as"
    by (auto simp: game_actions_def elim: pop_last)
  show ?case
    by (subst undo_loop.simps) (simp add: l Let_def game_actions_def set_choice_count_def)
next
  case (snoc b bs)
  have acts: "ul_actions (gs_undo_log g) = (as @ ChoicePoint p i ch # bs) @ [b]"
    using snoc.prems(1) by (simp add: game_actions_def)
  obtain l sz where l: "ul_pop (gs_undo_log g) = (l, Some (b, sz))"
    "ul_actions l = as @ ChoicePoint p i ch # bs" "ul_log_sizes l = butlast (ul_log_sizes (gs_undo_log g))"
    "ul_aligned l"
    by (rule pop_last [OF acts]) (use snoc.prems(2) in blast)
  have size: "ul_log_sizes l ! length as = ul_log_sizes (gs_undo_log g) ! length as"
    using l snoc.prems(2) acts by (simp add: ul_aligned_def nth_butlast)
  define h where "h = (case choice_of b of Some _ \<Rightarrow> g\<lparr>gs_undo_log := l\<rparr>
    | None \<Rightarrow> let g2 = undo_effect ds b (g\<lparr>gs_undo_log := l\<rparr>) in g2\<lparr>gs_logger := truncate_to sz (gs_logger g2)\<rparr>)"
  have log: "gs_undo_log h = l" by (simp add: h_def Let_def split: option.split)
  have other: "\<And>j. choice_of b \<noteq> Some (p, j)" using snoc.prems(3) by simp
  have step: "undo_loop ds p n g = undo_loop ds p (n + (if choice_of b = None then 1 else 0)) h"
    using other by (subst undo_loop.simps)
      (simp add: l(1) h_def Let_def undo_effect_def split: option.split)
  have "durable (undo_effect ds b (g\<lparr>gs_undo_log := l\<rparr>)) = durable (undo_effect ds b g)"
    by (rule game.revert_view) simp
  then have view: "durable h = durable (undo_effect ds b g)"
    by (cases "choice_of b") (simp_all add: h_def Let_def undo_choice_identity)
  have "durable (revert_all (undo_effect ds) bs h) = durable (revert_all (undo_effect ds) bs (undo_effect ds b g))"
    by (rule game.revert_all_view) (rule view)
  then show ?case
    using snoc.IH [of h "n + (if choice_of b = None then 1 else 0)"] snoc.prems(3) l(2,4)
    by (cases "choice_of b") (auto simp: step log size game_actions_def)
qed

lemma choice_point_restored:
  assumes g0: "log_on g0" and g1: "g1 = log_action_at (ChoicePoint p i ch) sz g0"
    and run: "undoable ds g1 g2" and log: "log_on g2"
    and mine: "\<And>b j. b \<in> set (drop (length (game_actions g1)) (game_actions g2)) \<Longrightarrow> choice_of b \<noteq> Some (p, j)"
  shows "\<exists>g3 k. undo_to_previous_choice_point ds p g2 = (g3, Some (k, ul_log_sizes (gs_undo_log g2) ! length (game_actions g0)))
    \<and> durable g3 = durable g0 \<and> game_actions g3 = game_actions g0
    \<and> lg_choice_count (gs_logger g3) = unat (sat_sub i 1)"
proof -
  obtain bs where bs: "game_actions g2 = game_actions g1 @ bs"
    "durable (revert_all (undo_effect ds) bs g2) = durable g1"
    using run by (rule undoable_split)
  have acts: "game_actions g2 = game_actions g0 @ ChoicePoint p i ch # bs"
    using bs(1) g0 by (simp add: g1 game_actions_def log_action_at_def ul_log_def log_on_def)
  have no: "b \<in> set bs \<Longrightarrow> choice_of b \<noteq> Some (p, j)" for b j using mine bs(1) by simp
  have aligned: "ul_aligned (gs_undo_log g2)" using log by (simp add: log_on_def)
  obtain g' where g': "undo_loop ds p 0 g2 = (g', length (filter (\<lambda>b. choice_of b = None) bs),
        Some (ul_log_sizes (gs_undo_log g2) ! length (game_actions g0)))"
    "durable g' = durable (revert_all (undo_effect ds) bs g2)" "game_actions g' = game_actions g0"
    "lg_choice_count (gs_logger g') = unat (sat_sub i 1)"
    using undo_loop_stops [OF acts aligned no, of ds 0] by auto
  have found: "list_ex (\<lambda>a. case choice_of a of Some (p', _) \<Rightarrow> p' = p | None \<Rightarrow> False)
      (ul_actions (gs_undo_log g2))"
    using acts by (simp add: game_actions_def)
  let ?g3 = "increment_mana_version (map_mana_caches mark_dirty g')"
  have "undo_to_previous_choice_point ds p g2 = (?g3, Some (length (filter (\<lambda>b. choice_of b = None) bs),
        ul_log_sizes (gs_undo_log g2) ! length (game_actions g0)))"
    using found g'(1) by (simp add: undo_to_previous_choice_point_def)
  moreover have "durable ?g3 = durable g0" using g'(2) bs(2) by (simp add: g1)
  moreover have "gs_logger ?g3 = gs_logger g'" by (simp add: increment_mana_version_def map_mana_caches_def)
  ultimately show ?thesis using g'(3,4) by auto
qed

subsection \<open>Back to the start of the turn\<close>

lemma rewind_loop_reverts:
  assumes "ul_actions l = as @ a # bs" "turn_of a = Some tn" "ul_aligned l"
    and "\<And>b. b \<in> set bs \<Longrightarrow> turn_of b = None"
  shows "\<exists>l' g'. rewind_loop ds l g cs n = (l', g', cs @ filter (\<lambda>b. choice_of b \<noteq> None) (rev bs),
        n + length bs, Some (tn, ul_log_sizes l ! length as))
     \<and> durable g' = durable (revert_all (undo_effect ds) bs g)
     \<and> ul_actions l' = as @ [a] \<and> ul_enabled l' = ul_enabled l \<and> ul_aligned l'"
  using assms
proof (induction bs arbitrary: l g cs n rule: rev_induct)
  case Nil
  obtain l' sz where l': "ul_pop l = (l', Some (a, sz))" "ul_actions l' = as"
    "ul_enabled l' = ul_enabled l" "ul_aligned l'" "sz = ul_log_sizes l ! length as"
    by (rule pop_last [of l as a]) (use Nil.prems in auto)
  show ?case
    using l' Nil.prems(2) by (subst rewind_loop.simps) (simp add: ul_aligned_def)
next
  case (snoc b bs)
  obtain m sz where m: "ul_pop l = (m, Some (b, sz))" "ul_actions m = as @ a # bs"
    "ul_enabled m = ul_enabled l" "ul_aligned m" "ul_log_sizes m = butlast (ul_log_sizes l)"
    by (rule pop_last [of l "as @ a # bs" b]) (use snoc.prems in auto)
  have size: "ul_log_sizes m ! length as = ul_log_sizes l ! length as"
    using m snoc.prems(1,3) by (simp add: ul_aligned_def nth_butlast)
  let ?cs = "if choice_of b \<noteq> None then cs @ [b] else cs"
  have "turn_of b = None" using snoc.prems(4) by simp
  then have step: "rewind_loop ds l g cs n = rewind_loop ds m (undo_effect ds b g) ?cs (n + 1)"
    by (subst rewind_loop.simps) (simp add: m(1) undo_effect_def [symmetric] undo_choice_identity)
  show ?case
    using snoc.IH [OF m(2) snoc.prems(2) m(4), of "undo_effect ds b g" ?cs "n + 1"] snoc.prems(4) m(3) size
    by (auto simp: step)
qed

lemma reset_transients_durable:
  assumes "durable g = durable h"
  shows "durable (reset_turn_transients g) = durable (reset_turn_transients h)"
proof -
  have fold: "durable (foldl (\<lambda>h c. map_card c reset_permanent h) k cs)
      = foldl (\<lambda>h c. map_card c reset_permanent h) (durable k) cs" for k cs
    by (induction cs arbitrary: k) simp_all
  have lib: "durable (clear_hidden_libraries k) = clear_hidden_libraries (durable k)" for k
    by (simp add: clear_hidden_libraries_def library_ids_def durable_def get_player_zones_def)
  have eq: "durable (reset_turn_transients k) = clear_hidden_libraries (map_players reset_player
      (map_cards reset_any_card (foldl (\<lambda>h c. map_card c reset_permanent h)
        ((durable k)\<lparr>gs_turn := (gs_turn (durable k))\<lparr>ts_priority_player := None, ts_consecutive_passes := 0\<rparr>,
           gs_combat := combat_clear (gs_combat (durable k))\<rparr>) (z_cards (gs_battlefield (durable k))))))" for k
  proof -
    have "durable (k\<lparr>gs_turn := t, gs_scratch := s, gs_combat := c\<rparr>)
        = (durable k)\<lparr>gs_turn := t, gs_combat := c\<rparr>" for k t s c by (simp add: durable_def)
    then show ?thesis
      by (simp add: reset_turn_transients_def lib fold Let_def)
        (simp add: map_mana_caches_def increment_mana_version_def)
  qed
  show ?thesis using assms by (simp add: eq)
qed

text \<open>The start of a turn: what the reset would clear is clear already.\<close>

definition at_turn_start :: "game_state \<Rightarrow> bool" where
  "at_turn_start g \<longleftrightarrow> durable (reset_turn_transients g) = durable g"

lemma turn_start_restored:
  assumes mark: "game_actions g1 = as @ [a]" "turn_of a = Some tn" and start: "at_turn_start g1"
    and run: "undoable ds g1 g2" and log: "log_on g2"
    and same: "\<And>b. b \<in> set (drop (length (game_actions g1)) (game_actions g2)) \<Longrightarrow> turn_of b = None"
  shows "\<exists>l g3. rewind_to_turn_start ds (gs_undo_log g2) g2 = (l, g3, Some (tn,
        filter (\<lambda>b. choice_of b \<noteq> None) (drop (length (game_actions g1)) (game_actions g2)),
        length (game_actions g2) - length (game_actions g1),
        ul_log_sizes (gs_undo_log g2) ! length as))
     \<and> durable g3 = durable g1 \<and> ul_actions l = game_actions g1"
proof -
  obtain bs where bs: "game_actions g2 = game_actions g1 @ bs"
    "durable (revert_all (undo_effect ds) bs g2) = durable g1"
    using run by (rule undoable_split)
  have acts: "ul_actions (gs_undo_log g2) = as @ a # bs" using bs(1) mark by (simp add: game_actions_def)
  have en: "ul_enabled (gs_undo_log g2)" "ul_aligned (gs_undo_log g2)" using log by (simp_all add: log_on_def)
  have no: "b \<in> set bs \<Longrightarrow> turn_of b = None" for b using same bs(1) by simp
  obtain l g' where r: "rewind_loop ds (gs_undo_log g2) g2 [] 0 =
      (l, g', filter (\<lambda>b. choice_of b \<noteq> None) (rev bs), length bs, Some (tn, ul_log_sizes (gs_undo_log g2) ! length as))"
    "durable g' = durable (revert_all (undo_effect ds) bs g2)" "ul_actions l = as @ [a]"
    using rewind_loop_reverts [OF acts mark(2) en(2) no, of ds g2 "[]" 0] by auto
  have "durable (reset_turn_transients g') = durable (reset_turn_transients g1)"
    using r(2) bs(2) by (intro reset_transients_durable) simp
  also have "\<dots> = durable g1" using start by (simp add: at_turn_start_def)
  finally have "durable (reset_turn_transients g') = durable g1" .
  then show ?thesis
    using r(1,3) en(1) bs(1) mark(1) by (simp add: rewind_to_turn_start_def rev_filter)
qed

end
