(* ===== verification/LoggedRuns.thy ===== *)
theory LoggedRuns
  imports Rewind
begin

section \<open>Runs of logged operations\<close>

text \<open>
  The operations whose every durable write is logged, as one step relation on game states, and the
  runs they make. A step is reversible for the journal of the game and keeps the log in order, so by
  the journal's composition law a run of any length is undone action by action, whatever the order
  of its operations. The side conditions of the rules are the cases the code logs completely.
\<close>

subsection \<open>The log stays on\<close>

lemma set_temp_base_stats_log_on [simp]: "log_on (set_temp_base_stats_logged c pw tf g) = log_on g"
  "log_on (clear_temp_base_stats_logged c g) = log_on g"
  by (simp_all add: set_temp_base_stats_logged_def clear_temp_base_stats_logged_def split: option.split)

lemma earthbend_log_on [simp]: "log_on (earthbend_animate_creature_haste_logged c g) = log_on g"
  by (simp add: earthbend_animate_creature_haste_logged_def Let_def split: option.split)

lemma regeneration_log_on: "apply_regeneration_shield c g = Inr g' \<Longrightarrow> log_on g' = log_on g"
  by (auto simp: apply_regeneration_shield_def Let_def dest!: tap_log_on split: option.splits sum.splits)

lemma counters_log_on:
  "add_counters c t n g = Inr g' \<Longrightarrow> log_on g' = log_on g"
  "remove_counters c t n g = Inr (g', r) \<Longrightarrow> log_on g' = log_on g"
  by (auto simp: add_counters_def remove_counters_def Let_def split: option.splits)

lemma library_log_on [simp]:
  "log_on (shuffle_library shuf p g) = log_on g"
  "log_on (scry_apply_decision p revealed d g) = log_on g"
  "log_on (surveil_apply_decision p revealed sd g) = log_on g"
  by (simp_all add: shuffle_library_def scry_apply_decision_def surveil_apply_decision_def
      log_library_reorder_def Let_def split: option.split prod.split)

lemma counter_spell_log_on: "counter_spell c g = Inr g' \<Longrightarrow> log_on g' = log_on g"
  by (auto simp: counter_spell_def split: if_splits sum.splits)

lemma logger_log_on [simp]: "log_on (g\<lparr>gs_logger := m\<rparr>) = log_on g"
  by (simp add: log_on_def)

lemma draw_log_on [simp]: "log_on (fst (draw_card_inner p lg g)) = log_on g"
proof -
  have "log_on (fst (log_draw_count p prior g)) = log_on g" for prior g
    by (simp add: log_draw_count_def Let_def split: option.split)
  then show ?thesis
    by (simp add: draw_card_inner_def Let_def split_beta split: option.split)
qed

lemma finish_move_log_on [simp]: "log_on (finish_move env c f t g) = log_on g"
proof -
  have "log_on (cleanup_effects_on_move c f x) = log_on x" for x
    by (simp add: cleanup_effects_on_move_def Let_def log_on_def)
  moreover have "log_on (reset_left_card env c f x) = log_on x" for x
    by (simp add: reset_left_card_def split: option.split)
  ultimately show ?thesis by (simp add: finish_move_def)
qed

lemma detach_log_on [simp]: "log_on (detach_equipment c f g) = log_on g"
proof -
  have "log_on (detach_one g e) = log_on g" for g e
    by (simp add: detach_one_def Let_def normal_log_def split: option.split)
  then have "log_on (foldl detach_one g es) = log_on g" for es
    by (induction es arbitrary: g) simp_all
  then show ?thesis by (simp add: detach_equipment_def split: option.split)
qed

lemma commander_log_on: "commander_replacement c t g = (g1, to) \<Longrightarrow> log_on g1 = log_on g"
  by (auto simp: commander_replacement_def normal_log_def log_on_def split: option.splits if_splits)

lemma move_log_on:
  assumes "commander_replacement c t g = (g1, to)" "covered_move c f to ow g"
    and "move_card_with env fire c f t ow g = Inr g'"
  shows "log_on g' = log_on g"
proof -
  obtain g2 where g2: "before_removal c f t ow g = (g2, to)" "log_on g2 = log_on g"
    using assms(1) commander_log_on [OF assms(1)] by (simp add: before_removal_def)
  have "find_zone_change_triggers (gs_delayed_triggers g) c f to = []"
    using assms(2) by (simp add: covered_move_def)
  then show ?thesis
    using quiet_move [OF g2(1), of env fire] assms(3) g2(2)
    by (simp add: settle_move_def Let_def split: if_splits)
qed

subsection \<open>The step relation\<close>

inductive logged_step :: "(u8 list \<Rightarrow> rng option) \<Rightarrow> game_state \<Rightarrow> game_state \<Rightarrow> bool" for ds where
  tapped: "tap_permanent c g = Inr g' \<Longrightarrow> logged_step ds g g'"
| untapped: "untap_permanent c g = Inr g' \<Longrightarrow> logged_step ds g g'"
| untapped_all: "untap_all p g = Inr g' \<Longrightarrow> logged_step ds g g'"
| overridden: "logged_step ds g (set_temp_base_stats_logged c pw tf g)"
| override_cleared: "logged_step ds g (clear_temp_base_stats_logged c g)"
| earthbent: "(\<And>k. card_of g c = Some k \<Longrightarrow> typeline_ok k)
    \<Longrightarrow> logged_step ds g (earthbend_animate_creature_haste_logged c g)"
| regenerated: "apply_regeneration_shield c g = Inr g' \<Longrightarrow> logged_step ds g g'"
| counters_added: "add_counters c t n g = Inr g' \<Longrightarrow> logged_step ds g g'"
| counters_removed: "remove_counters c t n g = Inr (g', r)
    \<Longrightarrow> (\<And>k. card_of g c = Some k \<Longrightarrow> counters_inv (c_counters k) \<and> n < get_counter k t)
    \<Longrightarrow> logged_step ds g g'"
| revealed: "logged_step ds g (maybe_reveal_to_player c p prior g)"
| revealed_all: "logged_step ds g (maybe_reveal_to_all c prior g)"
| concealed: "logged_step ds g (maybe_conceal_in_library c prior g)"
| shuffled: "length (gs_rng g) \<le> 64 \<Longrightarrow> ds (gs_rng g) = Some (gs_rng g)
    \<Longrightarrow> logged_step ds g (shuffle_library shuf p g)"
| scried: "logged_step ds g (scry_apply_decision p cs d g)"
| surveiled: "logged_step ds g (surveil_apply_decision p cs sd g)"
| countered: "counter_spell c g = Inr g'
    \<Longrightarrow> (\<And>k. card_of g c = Some k \<Longrightarrow> movable c Stack Graveyard (c_owner k) g) \<Longrightarrow> logged_step ds g g'"
| drawn: "(\<And>zs lib c. get_player_zones g p = Some zs \<Longrightarrow> draw_top (pz_library zs) = (lib, Some c)
      \<Longrightarrow> \<not> zone_contains (pz_hand zs) c \<and> zone_len (pz_library zs) < 2 ^ 32)
    \<Longrightarrow> logged_step ds g (fst (draw_card_inner p lg g))"
| moved: "commander_replacement c t g = (g1, to) \<Longrightarrow> covered_move c f to ow g
    \<Longrightarrow> move_card_with env fire c f t ow g = Inr g' \<Longrightarrow> logged_step ds g g'"
| stepped: "advance_step g = Inr g' \<Longrightarrow> within_turn g
    \<Longrightarrow> \<not> (ts_current_step (gs_turn g) = EndCombat \<and> 0 < gs_extra_combat_phases g)
    \<Longrightarrow> (ts_current_step (gs_turn g) = End \<Longrightarrow> nothing_to_clean g) \<Longrightarrow> logged_step ds g g'"
| turn_one: "(\<And>b. capture_rng_state g = Some b \<Longrightarrow> ds b = Some (gs_rng g))
    \<Longrightarrow> logged_step ds g (ensure_turn_one_boundary g)"
| chosen: "logged_step ds g (log_action (ChoicePoint p i ch) g)"
| noted: "logged_step ds g (game_log m g)"

lemma choice_undoable: "log_on g \<Longrightarrow> undoable ds g (log_action (ChoicePoint p i ch) g)"
  by (intro undoable_log_action) (simp_all add: undo_choice_identity)

lemmas step_undoable = tap_undoable untap_undoable untap_all_undoable set_temp_base_stats_undoable
  clear_temp_base_stats_undoable earthbend_undoable regeneration_undoable add_counters_undoable
  remove_counters_undoable reveal_to_player_undoable reveal_to_all_undoable conceal_undoable
  shuffle_undoable scry_undoable surveil_undoable counter_spell_undoable draw_undoable
  covered_move_undoable advance_undoable turn_one_boundary_undoable choice_undoable

lemma logged_step_undoable: "logged_step ds g g' \<Longrightarrow> log_on g \<Longrightarrow> undoable ds g g'"
proof (induction rule: logged_step.induct)
  case (noted g m)
  show ?case by (rule undoable_silent) simp_all
qed (blast intro: step_undoable)+

lemma turn_one_log_on [simp]: "log_on (ensure_turn_one_boundary g) = log_on g"
  by (simp add: ensure_turn_one_boundary_def Let_def)

lemma untap_all_log_on: "untap_all p g = Inr g' \<Longrightarrow> log_on g \<Longrightarrow> log_on g'"
  using untap_each_undoable [of "untap_ids p g" g g'] by (simp add: untap_all_def)

lemma logged_step_log_on: "logged_step ds g g' \<Longrightarrow> log_on g \<Longrightarrow> log_on g'"
  by (induction rule: logged_step.induct)
    (simp_all add: tap_log_on untap_log_on regeneration_log_on counters_log_on counter_spell_log_on
      move_log_on advance_log_on untap_all_log_on)

lemma logged_run:
  assumes "(logged_step ds)\<^sup>*\<^sup>* g g'" "log_on g"
  shows "undoable ds g g' \<and> log_on g'"
  using assms
proof (induction rule: rtranclp_induct)
  case (step h k)
  then show ?case
    using logged_step_undoable [OF step.hyps(2)] logged_step_log_on [OF step.hyps(2)]
    by (blast intro: undoable_trans)
qed simp

lemma logged_run_rewound:
  assumes "(logged_step ds)\<^sup>*\<^sup>* g g'" "log_on g"
  defines "n \<equiv> length (game_actions g') - length (game_actions g)"
  shows "durable (undo_times ds n g') = durable g \<and> game_actions (undo_times ds n g') = game_actions g"
  using undo_times_undoable [of ds g g'] logged_run [OF assms(1,2)] by (simp add: n_def)

end
