(* ===== verification/GameProperties.thy ===== *)
theory GameProperties
  imports LoggedRuns
begin

section \<open>Properties of the game state\<close>

text \<open>
  The properties of the operations of the game as a whole: what the undo log takes back, what a
  rewind restores, what a move conserves, how a turn passes. Each rests on the lemmas of the
  operations; the theorem after a property with hypotheses applies it to the small game below, two
  players with one creature on the battlefield and three cards in a library.
\<close>

subsection \<open>A small game\<close>

definition bear :: card where
  "bear = card_new 3 ''Bear'' 0"

definition sample_game :: game_state where
  "sample_game = (new_two_player (\<lambda>_. [0]) ''A'' ''B'' 20)\<lparr>gs_cards := \<lparr>entities = [None, None, None, Some bear]\<rparr>,
     gs_battlefield := (card_zone_new Battlefield 2)\<lparr>z_cards := [3]\<rparr>,
     gs_player_zones := [(0, set_library [4, 5, 6] (player_zones_new 0)), (1, player_zones_new 1)]\<rparr>"

definition sample_env :: game_env where
  "sample_env = \<lparr>env_loader = \<lparr>ld_parse_keywords = (\<lambda>_. kw_new), ld_parse_effects = (\<lambda>_. []),
       ld_parse_triggers = (\<lambda>_. []), ld_parse_activated_abilities = (\<lambda>_. []),
       ld_parse_static_abilities = (\<lambda>_. [])\<rparr>,
     env_execute = (\<lambda>_ g. Inr g), env_death_triggers = (\<lambda>_ g. g)\<rparr>"

lemmas sample_defs = sample_game_def new_two_player_def new_two_player_with_capacity_def

lemma bear_fields [simp]: "c_tapped bear = False" "c_name bear = ''Bear''" "c_types bear = []"
  "c_controller bear = 0" "c_owner bear = 0" "c_counters bear = []" "c_is_token bear = False"
  "c_damage bear = 0"
  by (simp_all add: bear_def card_new_def Let_def)

lemma sample_card [simp]: "card_of sample_game c = (if c = 3 then Some bear else None)"
proof -
  have three: "c = 3 \<longleftrightarrow> unat c = 3" using unat_eq_iff_word [of c 3] by simp
  have "unat c < 4 \<Longrightarrow> unat c \<noteq> 3 \<Longrightarrow> unat c = 0 \<or> unat c = 1 \<or> unat c = 2" by linarith
  then show ?thesis
    unfolding three by (auto simp: sample_defs card_of_def store_try_get_def)
qed

lemma sample_log [simp]: "log_on sample_game" "game_actions sample_game = []"
  by (simp_all add: log_on_def game_actions_def sample_defs undo_log_new_def ul_aligned_def)

lemma sample_fields [simp]: "gs_turn sample_game = turn_structure_new_with_idx 0 0"
  "gs_rng sample_game = [0]" "gs_extra_combat_phases sample_game = 0"
  by (simp_all add: sample_defs)

lemma sample_tap: "tap_permanent 3 sample_game = Inr (increment_mana_version
    (map_mana_caches (on_tap 3 (card_tap bear)) (log_action (TapCard 3 True) (map_card 3 card_tap sample_game))))"
  by (simp add: tap_permanent_def Let_def)

subsection \<open>The undo log\<close>

text \<open>
  C1: any run of logged operations, in any order and interleaving (taps and untaps, power and toughness
  overrides, animation, regeneration, counters, reveals, shuffles, scry, surveil, countered spells,
  draws, moves, step advances, choice points), is taken back by undoing as many actions as it logged:
  the state without its caches and text log, and the undo log itself, are those before the run.
\<close>

theorem logged_run_taken_back:
  assumes "(logged_step ds)\<^sup>*\<^sup>* g g'" "log_on g"
  shows "durable (undo_times ds (length (game_actions g') - length (game_actions g)) g') = durable g
    \<and> game_actions (undo_times ds (length (game_actions g') - length (game_actions g)) g') = game_actions g"
  using logged_run_rewound [OF assms] .

lemma sample_advance: "advance_step (increment_mana_version (map_mana_caches f (log_action a (map_card 3 h sample_game))))
  = Inr (log_action (AdvanceStep Untap Upkeep) ((increment_mana_version (map_mana_caches f (log_action a
      (map_card 3 h sample_game))))\<lparr>gs_turn := (gs_turn sample_game)\<lparr>ts_current_step := Upkeep\<rparr>\<rparr>))"
  by (simp add: advance_step_def ts_advance_step_def turn_structure_new_with_idx_def Let_def
      increment_mana_version_def map_mana_caches_def map_card_def)

theorem logged_run_taken_back_witness:
  "\<exists>g1 g2. tap_permanent 3 sample_game = Inr g1 \<and> advance_step g1 = Inr g2
     \<and> ts_current_step (gs_turn g2) = Upkeep \<and> length (game_actions g2) = 2
     \<and> durable (undo_times Some 2 g2) = durable sample_game"
proof -
  define g1 where "g1 = increment_mana_version (map_mana_caches (on_tap 3 (card_tap bear))
    (log_action (TapCard 3 True) (map_card 3 card_tap sample_game)))"
  define g2 where "g2 = log_action (AdvanceStep Untap Upkeep) (g1\<lparr>gs_turn :=
    (gs_turn sample_game)\<lparr>ts_current_step := Upkeep\<rparr>\<rparr>)"
  have steps: "tap_permanent 3 sample_game = Inr g1" "advance_step g1 = Inr g2"
    unfolding g2_def g1_def by (rule sample_tap, rule sample_advance)
  have "gs_turn g1 = turn_structure_new_with_idx 0 0"
    by (simp add: g1_def increment_mana_version_def map_mana_caches_def map_card_def log_action_def)
  then have "logged_step Some g1 g2"
    using steps(2) by (intro stepped) (simp_all add: within_turn_def turn_structure_new_with_idx_def)
  then have run: "(logged_step Some)\<^sup>*\<^sup>* sample_game g2"
    using tapped [OF steps(1)] by (meson rtranclp.rtrancl_into_rtrancl rtranclp.rtrancl_refl)
  have "length (game_actions g2) = 2"
    using sample_log
    by (simp add: g2_def g1_def game_actions_def log_action_def ul_log_def log_on_def
        increment_mana_version_def map_mana_caches_def map_card_def)
  then show ?thesis
    using logged_run_taken_back [OF run] steps by (simp add: g2_def)
qed




lemma sample_boundary: "ensure_turn_one_boundary sample_game
    = log_action (ChangeTurn 0 0 1 (Some [0])) sample_game"
  by (simp add: ensure_turn_one_boundary_def capture_rng_state_def turn_structure_new_with_idx_def)
    (simp add: sample_defs ul_current_turn_def undo_log_new_def)

lemma sample_cards: "gs_cards sample_game = \<lparr>entities = [None, None, None, Some bear]\<rparr>"
  by (simp add: sample_defs)

lemma sample_at_turn_start: "at_turn_start (ensure_turn_one_boundary sample_game)"
proof -
  have dur: "durable (reset_turn_transients sample_game) = durable sample_game"
  proof -
    have bear: "reset_permanent bear = bear" "reset_any_card bear = bear"
      by (simp_all add: bear_def card_new_def Let_def reset_permanent_def reset_any_card_def
          clear_temp_base_stats_def clear_temp_keywords_until_eot_def kw_remove_all_def kw_new_def kw_clear_def)
    have players: "map reset_player (gs_players sample_game) = gs_players sample_game"
      by (simp add: sample_defs reset_player_def player_new_def)
    have combat: "combat_clear (gs_combat sample_game) = gs_combat sample_game"
      by (simp add: sample_defs combat_clear_def combat_new_def)
    have field: "z_cards (gs_battlefield sample_game) = [3]" "gs_is_shadow_game sample_game = False"
      by (simp_all add: sample_defs)
    have perm: "store_try_mut 3 reset_permanent (gs_cards sample_game) = gs_cards sample_game"
      by (simp add: sample_cards store_try_mut_def store_try_get_def bear)
    have all: "store_values_mut reset_any_card (gs_cards sample_game) = gs_cards sample_game"
      by (simp add: sample_cards store_values_mut_def bear)
    show ?thesis
      using field players combat perm all
      by (simp add: reset_turn_transients_def Let_def durable_def clear_hidden_libraries_def map_players_def
          map_cards_def map_card_def increment_mana_version_def map_mana_caches_def
          turn_structure_new_with_idx_def)
  qed
  moreover have "durable (reset_turn_transients (log_action a g)) = durable (reset_turn_transients g)" for a g
    by (rule reset_transients_durable) simp
  ultimately show ?thesis by (simp add: at_turn_start_def sample_boundary)
qed


subsection \<open>Moving cards\<close>

text \<open>
  C3: a move that fires no delayed trigger returns, with any fuel, and never creates, loses or
  duplicates a card: over all zones of the game the cards are the same multiset before and after,
  whether or not the card was found, and whatever zone the commander rule sends it to.
\<close>

theorem move_conserves_cards:
  assumes "get_player_zones g ow \<noteq> None"
    and "find_zone_change_triggers (gs_delayed_triggers g) c f (snd (commander_replacement c t g)) = []"
  shows "\<exists>g'. move_card (Suc n) env c f t ow g = Inr g' \<and> zones_mset g' = zones_mset g"
proof -
  obtain g2 to where g2: "before_removal c f t ow g = (g2, to)" by force
  then have "to = snd (commander_replacement c t g)"
    by (auto simp: before_removal_def split: prod.splits)
  then obtain g' where g': "move_card (Suc n) env c f t ow g = Inr g'"
    using quiet_move [OF g2] assms(2) by simp
  moreover have "move_card_with env (\<lambda>_ h. Inl OutOfFuel) c f t ow g = Inr g'"
    using g' quiet_move [OF g2] assms(2) \<open>to = _\<close> by simp
  then have "zones_mset g' = zones_mset g"
    by (rule move_card_with_conserves [OF _ assms(1)]) simp
  ultimately show ?thesis by blast
qed

theorem move_conserves_cards_witness:
  "\<exists>g'. move_card 1 sample_env 3 Battlefield Graveyard 0 sample_game = Inr g'
     \<and> zones_mset g' = {#3, 4, 5, 6#}"
proof -
  have mset: "zones_mset sample_game = {#3, 4, 5, 6#}"
    by (simp add: zones_mset_def sample_defs pz_mset_def set_library_def player_zones_new_def
        card_zone_new_def)
  have "find_zone_change_triggers (gs_delayed_triggers sample_game) 3 Battlefield
      (snd (commander_replacement 3 Graveyard sample_game)) = []"
    by (simp add: sample_defs dts_new_def find_zone_change_triggers_def)
  moreover have "get_player_zones sample_game 0 \<noteq> None"
    by (simp add: sample_defs get_player_zones_def find_entry_def)
  ultimately show ?thesis
    using move_conserves_cards [of sample_game 0 3 Battlefield Graveyard 0 sample_env] mset by simp
qed

text \<open>
  C2: a move whose every effect is logged (the card is where the caller says, no trigger or persistent
  effect reacts, no equipment falls off, the entry pays no life and is tapped by no other permanent)
  always returns and is undone exactly, together with the reset of the card that leaves the
  battlefield and the choices made as it enters.
\<close>

theorem covered_move_taken_back:
  assumes "log_on g" "commander_replacement c t g = (g1, to)" "covered_move c f to ow g"
  shows "\<exists>g'. move_card (Suc n) env c f t ow g = Inr g'
    \<and> durable (undo_times ds (length (game_actions g') - length (game_actions g)) g') = durable g
    \<and> game_actions (undo_times ds (length (game_actions g') - length (game_actions g)) g') = game_actions g"
proof -
  obtain g2 where g2: "before_removal c f t ow g = (g2, to)"
    using assms(2) by (simp add: before_removal_def)
  have "find_zone_change_triggers (gs_delayed_triggers g) c f to = []"
    using assms(3) by (simp add: covered_move_def)
  then obtain g' where g': "move_card_with env (fire_with env (move_card n env)) c f t ow g = Inr g'"
    using quiet_move [OF g2] by blast
  then have "undoable ds g g'" using covered_move_undoable assms by blast
  then show ?thesis using undo_times_undoable g' by auto
qed

lemma sample_battlefield: "z_cards (gs_battlefield sample_game) = [3]"
  by (simp add: sample_defs)

lemma bear_unattached: "c_attached_to bear = None"
  by (simp add: bear_def card_new_def Let_def)

lemma sample_covered: "covered_move 3 Battlefield Graveyard 0 sample_game"
proof -
  have "equipment_on 3 sample_game = []"
    by (simp add: equipment_on_def sample_battlefield bear_unattached)
  then show ?thesis
    by (simp add: covered_move_def movable_def zone_of_def sample_defs get_player_zones_def find_entry_def
        set_library_def player_zones_new_def card_zone_new_def zone_contains_def zone_len_def
        pes_new_def find_effects_to_cleanup_on_zone_change_def dts_new_def find_zone_change_triggers_def)
qed

theorem covered_move_taken_back_witness:
  "\<exists>g'. move_card 1 sample_env 3 Battlefield Graveyard 0 sample_game = Inr g'
     \<and> durable (undo_times Some (length (game_actions g')) g') = durable sample_game"
proof -
  have "commander_replacement 3 Graveyard sample_game = (sample_game, Graveyard)"
    by (simp add: commander_replacement_def sample_defs)
  then show ?thesis
    using covered_move_taken_back [OF sample_log(1) _ sample_covered, of Graveyard sample_game 0 sample_env Some]
    by (auto simp del: move_card.simps)
qed

text \<open>
  C18: the fuel of the recursion between moves and the delayed triggers they fire is only a device: once
  a move returns a state or an error of the code with some fuel, every larger fuel gives the same.
\<close>

theorem move_fuel_irrelevant:
  assumes "move_card n env c f t ow g = r" "r \<noteq> Inl OutOfFuel" "n \<le> m"
  shows "move_card m env c f t ow g = r"
  using move_card_more_fuel assms by blast

theorem move_fuel_irrelevant_witness:
  "move_card 9 sample_env 3 Battlefield Graveyard 0 sample_game
     = move_card 1 sample_env 3 Battlefield Graveyard 0 sample_game"
proof -
  have "find_zone_change_triggers (gs_delayed_triggers sample_game) 3 Battlefield Graveyard = []"
    by (simp add: sample_defs dts_new_def find_zone_change_triggers_def)
  moreover obtain g2 where "before_removal 3 Battlefield Graveyard 0 sample_game = (g2, Graveyard)"
    by (simp add: before_removal_def commander_replacement_def sample_defs)
  ultimately obtain g' where "move_card 1 sample_env 3 Battlefield Graveyard 0 sample_game = Inr g'"
    using quiet_move by (metis One_nat_def move_card.simps(2))
  then show ?thesis using move_fuel_irrelevant [of 1 sample_env 3 Battlefield Graveyard 0 sample_game _ 9] by simp
qed

text \<open>
  Copying a spell on the stack never brings the number of copies there above the limit of one
  hundred: a copy made adds one and only below the limit, with a fresh identifier on top of the
  stack; at the limit, and for a spell that has left the stack, nothing changes.
\<close>

theorem spell_copies_bounded:
  assumes "copy_spell_onto_stack orig ctl ts g = Inr (g', r)"
    and "gs_next_entity_id g \<notin> set (z_cards (gs_stack g))"
  shows "(live_copies g \<le> MAX_SPELL_COPIES_ON_STACK \<longrightarrow> live_copies g' \<le> MAX_SPELL_COPIES_ON_STACK)
    \<and> (case r of None \<Rightarrow> g' = g
      | Some i \<Rightarrow> i = gs_next_entity_id g \<and> card_of g i = None \<and> live_copies g' = live_copies g + 1
          \<and> z_cards (gs_stack g') = z_cards (gs_stack g) @ [i])"
proof (cases r)
  case None
  then have "g' = g" using copy_spell_none assms(1) by blast
  then show ?thesis using None by simp
next
  case (Some i)
  then have cp: "copy_spell_onto_stack orig ctl ts g = Inr (g', Some i)" using assms(1) by simp
  from cp show ?thesis
    by (rule copy_spell_fields) (use Some live_copies_copied [OF cp assms(2)] in simp)
qed

lemma sample_player: "find_player (gs_players sample_game) 0 = Some (player_new 0 ''A'' 20)"
  by (simp add: sample_defs find_player_def player_new_def)

theorem spell_copies_bounded_witness:
  "\<exists>g' i. copy_spell_onto_stack 3 0 None (sample_game\<lparr>gs_next_entity_id := 7,
       gs_stack := (card_zone_new Stack 2)\<lparr>z_cards := [3]\<rparr>\<rparr>) = Inr (g', Some i)
     \<and> i = 7 \<and> live_copies g' = 1 \<and> z_cards (gs_stack g') = [3, 7]"
proof -
  let ?g = "sample_game\<lparr>gs_next_entity_id := 7, gs_stack := (card_zone_new Stack 2)\<lparr>z_cards := [3]\<rparr>\<rparr>"
  have none: "live_copies ?g = 0" by (simp add: live_copies_def card_of_def sample_cards store_try_get_def)
  obtain g' i where g': "copy_spell_onto_stack 3 0 None ?g = Inr (g', Some i)"
    using none
    by (simp add: copy_spell_onto_stack_def zone_contains_def MAX_SPELL_COPIES_ON_STACK_def card_of_def
        sample_cards store_try_get_def next_card_id_def next_id_def store_insert_def grow_def Let_def
        get_player_def sample_player)
  have "7 \<notin> set (z_cards (gs_stack ?g))" by simp
  then show ?thesis
    using spell_copies_bounded [OF g'] g' none by simp
qed

text \<open>
  A permanent that makes its controller pay life as it enters is not undone: the entry logged for
  the payment has the wrong sign, so undoing it and the record of the amount leaves the controller
  with the life before the entry less twice the amount paid.
\<close>

theorem life_payment_undone_twice:
  assumes "log_on g" "card_of g c = Some k" "cc_etb_pay_life (card_cache k)"
    and "try_get_player g (c_controller k) = Some x"
  shows "length (game_actions (etb_pay_life c g)) = length (game_actions g) + 2
    \<and> map_option p_life (try_get_player (undo_times ds 2 (etb_pay_life c g)) (c_controller k))
      = Some (p_life x - 2 * ucast (pay_amount (p_life x)))"
proof -
  let ?p = "c_controller k" and ?n = "pay_amount (p_life x)"
  define as where "as = [ModifyLife ?p (ucast ?n), SetStoredInt c (c_stored_int k)]"
  have kid: "keeps_id (lose_life (ucast ?n))" by (simp add: keeps_id_def lose_life_def Let_def)
  have acts: "game_actions (etb_pay_life c g) = game_actions g @ as"
    using assms kid by (simp add: etb_pay_life_def Let_def game_actions_def log_action_at_def
        ul_log_def log_on_def verbose_log_def as_def)
  have "try_get_player (etb_pay_life c g) ?p = map_option (lose_life (ucast ?n)) (try_get_player g ?p)"
    using assms kid by (simp add: etb_pay_life_def Let_def try_get_player_def log_action_at_def
        verbose_log_def map_card_def map_player_def game_log_def players.lookup_modify)
  then have paid: "try_get_player (etb_pay_life c g) ?p = Some (lose_life (ucast ?n) x)"
    using assms(4) by simp
  have "try_get_player (undo_times ds 2 (etb_pay_life c g)) ?p
      = try_get_player (revert_all (undo_effect ds) as (etb_pay_life c g)) ?p"
    using undo_times_reverts [OF acts, of ds] unfolding as_def
    by (metis durable_fields(13) length_Cons list.size(3) numeral_2_eq_2)
  moreover have reverted: "map_option p_life (try_get_player (revert_all (undo_effect ds) as h) ?p)
      = Some (p_life y - ucast ?n)" if "try_get_player h ?p = Some y" for h y
  proof -
    have h: "try_get_player (undo_effect ds (SetStoredInt c (c_stored_int k)) h) ?p = Some y"
      using that by (simp add: undo_effect_def undo_set_stored_int_def undo_card_def
          try_get_player_def map_card_def split: option.split)
    have k: "keeps_id (\<lambda>x. let x' = x\<lparr>p_life := p_life x - d\<rparr> in
        if 0 < sint (p_life x') then x'\<lparr>p_has_lost := False\<rparr> else x')" for d
      by (simp add: keeps_id_def Let_def)
    show ?thesis
      using h k [of "ucast ?n"]
      by (simp add: as_def revert_all_def undo_effect_def [of ds "ModifyLife _ _"] undo_modify_life_def undo_player_def Let_def)
  qed
  moreover have "p_life (lose_life (ucast ?n) x) - ucast ?n = p_life x - 2 * ucast ?n"
    by (simp add: lose_life_def Let_def)
  ultimately have "map_option p_life (try_get_player (undo_times ds 2 (etb_pay_life c g)) ?p)
      = Some (p_life x - 2 * ucast ?n)"
    using reverted [OF paid] by metis
  then show ?thesis using acts by (simp add: as_def)
qed

theorem life_payment_undone_twice_witness:
  "(let b = bear\<lparr>c_definition := (c_definition bear)\<lparr>cd_cache := (cd_cache (c_definition bear))\<lparr>cc_etb_pay_life := True\<rparr>\<rparr>\<rparr>;
        g = sample_game\<lparr>gs_cards := \<lparr>entities = [None, None, None, Some b]\<rparr>\<rparr> in
    map_option p_life (try_get_player (undo_times Some 2 (etb_pay_life 3 g)) 0) = Some 6)"
proof -
  let ?b = "bear\<lparr>c_definition := (c_definition bear)\<lparr>cd_cache := (cd_cache (c_definition bear))\<lparr>cc_etb_pay_life := True\<rparr>\<rparr>\<rparr>"
  let ?g = "sample_game\<lparr>gs_cards := \<lparr>entities = [None, None, None, Some ?b]\<rparr>\<rparr>"
  have "log_on ?g" using sample_log(1) by (simp add: log_on_def)
  moreover have "card_of ?g 3 = Some ?b" by (simp add: card_of_def store_try_get_def)
  moreover have "cc_etb_pay_life (card_cache ?b)" by (simp add: card_cache_def)
  moreover have "try_get_player ?g (c_controller ?b) = Some (player_new 0 ''A'' 20)"
    using sample_player by (simp add: try_get_player_def)
  ultimately show ?thesis
    using life_payment_undone_twice [of ?g 3 ?b "player_new 0 ''A'' 20" Some]
    by (simp add: player_new_def pay_amount_def)
qed

subsection \<open>Turns\<close>

text \<open>
  C7: from any state, advancing step by step never fails before the cleanup step and reaches it after
  exactly the steps that are left, each pending additional combat phase costing five more; no earlier
  step of the run is the cleanup step.
\<close>

theorem turn_terminates:
  "(\<exists>g'. advance_times (steps_left g) g = Inr g' \<and> ts_current_step (gs_turn g') = Cleanup)
   \<and> (\<forall>n < steps_left g. \<exists>g'. advance_times n g = Inr g' \<and> ts_current_step (gs_turn g') \<noteq> Cleanup)"
proof -
  have "\<exists>g'. advance_times n g = Inr g'" if "n < steps_left g" for n
    using that
  proof (induction n arbitrary: g)
    case (Suc n)
    then have "within_turn g" using steps_left_zero [of g] by (auto simp: within_turn_def)
    then obtain h where "advance_step g = Inr h" "steps_left g = Suc (steps_left h)"
      by (rule advance_counts_down)
    then show ?case using Suc by simp
  qed simp
  then show ?thesis using reaches_cleanup not_cleanup_before by blast
qed

theorem turn_terminates_witness:
  "\<exists>g'. advance_times 21 (sample_game\<lparr>gs_extra_combat_phases := 2\<rparr>) = Inr g'
     \<and> ts_current_step (gs_turn g') = Cleanup"
proof -
  have "steps_left (sample_game\<lparr>gs_extra_combat_phases := 2\<rparr>) = 21"
    by (simp add: steps_left_def turn_structure_new_with_idx_def)
  then show ?thesis using turn_terminates [of "sample_game\<lparr>gs_extra_combat_phases := 2\<rparr>"] by metis
qed

lemma turn_changes_at:
  assumes "ts_current_step (gs_turn g) = Cleanup" "log_on g"
  shows "case next_active g of
      Inl e \<Rightarrow> advance_step g = Inl e
    | Inr p \<Rightarrow> \<exists>g'. advance_step g = Inr g'
        \<and> gs_turn g' = (gs_turn g)\<lparr>ts_turn_number := ts_turn_number (gs_turn g) + 1,
            ts_current_step := Untap, ts_active_player := p, ts_priority_player := None,
            ts_consecutive_passes := 0\<rparr>
        \<and> gs_players g' = update_player p reset_lands_played (gs_players g)
        \<and> gs_extra_turns g' = tl (gs_extra_turns g) \<and> gs_extra_combat_phases g' = 0
        \<and> game_actions g' = game_actions g @ [ChangeTurn (ts_active_player (gs_turn g)) p
            (ts_turn_number (gs_turn g) + 1) (capture_rng_state g)]"
proof -
  let ?g = "g\<lparr>gs_extra_combat_phases := 0\<rparr>"
  have adv: "advance_step g = change_turn ?g" by (rule advance_at_cleanup [OF assms(1)])
  have "get_player_idx ?g = get_player_idx g" "get_next_player_idx ?g = get_next_player_idx g"
    by (simp_all add: get_player_idx_def get_next_player_idx_def fun_eq_iff)
  then have "get_next_player ?g = get_next_player g" by (simp add: get_next_player_def fun_eq_iff split: option.split)
  then have next_eq: "next_active ?g = next_active g" by (simp add: next_active_def split: list.split)
  show ?thesis
  proof (cases "next_active g")
    case (Inl e)
    then have "take_next_player ?g = Inl e" using next_eq take_next_player_Inl by simp
    then show ?thesis using Inl adv by (simp add: change_turn_def)
  next
    case (Inr p)
    then have "take_next_player ?g \<noteq> Inl e" for e using next_eq take_next_player_Inl [of ?g e] by simp
    then obtain g' where g': "change_turn ?g = Inr g'"
      by (cases "take_next_player ?g") (auto simp: change_turn_def Let_def)
    show ?thesis
    proof (rule change_turn_fields [OF g'])
      fix q assume q: "next_active ?g = Inr q" "gs_turn g' = next_turn (gs_turn ?g) q"
        "gs_players g' = update_player q reset_lands_played (gs_players ?g)"
        "gs_extra_turns g' = tl (gs_extra_turns ?g)" "gs_extra_combat_phases g' = gs_extra_combat_phases ?g"
        "log_on ?g \<Longrightarrow> game_actions g' = game_actions ?g @ [ChangeTurn (ts_active_player (gs_turn ?g)) q
           (ts_turn_number (gs_turn ?g) + 1) (capture_rng_state ?g)]"
      have "q = p" using q(1) next_eq Inr by simp
      moreover have "log_on ?g" using assms(2) by (simp add: log_on_def)
      ultimately show ?thesis
        using q adv g' Inr by (simp add: next_turn_def game_actions_def capture_rng_state_def)
    qed
  qed
qed

text \<open>
  C8: leaving the cleanup step hands the turn to the first player of the queue of extra turns, or else to
  the next player in seating order, and fails only when that player cannot be found; the turn number
  goes up by one, the new turn starts at the untap step with no priority and no passes, pending
  combats are dropped, the new player may play lands again, and one marker with the generator state
  is logged.
\<close>

theorem turn_changes:
  assumes "ts_current_step (gs_turn g) = Cleanup" "log_on g"
  shows "case next_active g of
      Inl e \<Rightarrow> advance_step g = Inl e
    | Inr p \<Rightarrow> \<exists>g'. advance_step g = Inr g'
        \<and> gs_turn g' = (gs_turn g)\<lparr>ts_turn_number := ts_turn_number (gs_turn g) + 1,
            ts_current_step := Untap, ts_active_player := p, ts_priority_player := None,
            ts_consecutive_passes := 0\<rparr>
        \<and> gs_players g' = update_player p reset_lands_played (gs_players g)
        \<and> gs_extra_turns g' = tl (gs_extra_turns g) \<and> gs_extra_combat_phases g' = 0
        \<and> game_actions g' = game_actions g @ [ChangeTurn (ts_active_player (gs_turn g)) p
            (ts_turn_number (gs_turn g) + 1) (capture_rng_state g)]"
  using assms by (rule turn_changes_at)

theorem turn_changes_witness:
  "\<exists>g'. advance_step (sample_game\<lparr>gs_turn := (turn_structure_new 1)\<lparr>ts_current_step := Cleanup\<rparr>\<rparr>) = Inr g'
     \<and> ts_active_player (gs_turn g') = 0 \<and> ts_turn_number (gs_turn g') = 2
     \<and> game_actions g' = [ChangeTurn 1 0 2 (Some [0])]"
proof -
  let ?g = "sample_game\<lparr>gs_turn := (turn_structure_new 1)\<lparr>ts_current_step := Cleanup\<rparr>\<rparr>"
  have "gs_players sample_game = [player_new 0 ''A'' 20, player_new 1 ''B'' 20]" "gs_extra_turns sample_game = []"
    by (simp_all add: sample_defs)
  then have "next_active ?g = Inr 0"
    by (simp add: next_active_def get_next_player_def get_player_idx_def get_next_player_idx_def
        turn_structure_new_def player_new_def)
  then show ?thesis
    using turn_changes [of ?g] sample_log
    by (auto simp: turn_structure_new_def capture_rng_state_def)
qed


text \<open>
  Undoing a change of turn does not go back to the cleanup step it left: turn number and active
  player are those before, but the game stands in the untap step, the incoming player's count of
  land plays stays reset and a consumed extra turn stays consumed.
\<close>

theorem turn_change_half_undone:
  assumes "ts_current_step (gs_turn g) = Cleanup" "log_on g" "next_active g = Inr p"
    and "\<And>b. capture_rng_state g = Some b \<Longrightarrow> \<exists>r. ds b = Some r"
    and "1 \<le> ts_turn_number (gs_turn g)" "ts_turn_number (gs_turn g) + 1 \<noteq> 0"
  shows "\<exists>g' h. advance_step g = Inr g' \<and> fst (game_undo ds g') = h
    \<and> ts_turn_number (gs_turn h) = ts_turn_number (gs_turn g)
    \<and> ts_active_player (gs_turn h) = ts_active_player (gs_turn g) \<and> ts_current_step (gs_turn h) = Untap
    \<and> gs_players h = update_player p reset_lands_played (gs_players g)
    \<and> gs_extra_turns h = tl (gs_extra_turns g)"
proof -
  let ?g = "g\<lparr>gs_extra_combat_phases := 0\<rparr>"
  let ?a = "ChangeTurn (ts_active_player (gs_turn g)) p (ts_turn_number (gs_turn g) + 1) (capture_rng_state g)"
  obtain g' where g': "advance_step g = Inr g'" "gs_turn g' = (gs_turn g)\<lparr>ts_turn_number := ts_turn_number (gs_turn g) + 1,
            ts_current_step := Untap, ts_active_player := p, ts_priority_player := None,
            ts_consecutive_passes := 0\<rparr>"
    "gs_players g' = update_player p reset_lands_played (gs_players g)"
    "gs_extra_turns g' = tl (gs_extra_turns g)" "game_actions g' = game_actions g @ [?a]"
    using turn_changes_at [OF assms(1,2)] assms(3) by auto
  let ?h = "fst (game_undo ds g')"
  have view: "durable ?h = durable (undo_effect ds ?a g')" by (rule game_undo_one(1) [OF g'(5)])
  have pos: "\<not> ts_turn_number (gs_turn g) + 1 \<le> 1"
    using assms(5,6) by (metis add.commute add_cancel_right_left inc_le le_less not_less word_le_less_eq word_less_1 zero_neq_one)
  define k where "k = undo_effect ds ?a g'"
  have "gs_turn k = (gs_turn g')\<lparr>ts_active_player := ts_active_player (gs_turn g),
      ts_turn_number := ts_turn_number (gs_turn g)\<rparr> \<and> gs_players k = gs_players g' \<and> gs_extra_turns k = gs_extra_turns g'"
    using pos assms(4)
    by (cases "capture_rng_state g") (auto simp: k_def undo_effect_def undo_change_turn_def restore_rng_def
        dest!: assms(4))
  moreover have "gs_turn ?h = gs_turn k" "gs_players ?h = gs_players k" "gs_extra_turns ?h = gs_extra_turns k"
    using view unfolding k_def by (metis durable_fields)+
  ultimately show ?thesis using g' by simp
qed

lemma sample_next_active:
  "next_active (sample_game\<lparr>gs_turn := (turn_structure_new 1)\<lparr>ts_current_step := Cleanup\<rparr>\<rparr>) = Inr 0"
proof -
  have "gs_players sample_game = [player_new 0 ''A'' 20, player_new 1 ''B'' 20]" "gs_extra_turns sample_game = []"
    by (simp_all add: sample_defs)
  then show ?thesis
    by (simp add: next_active_def get_next_player_def get_player_idx_def get_next_player_idx_def
        turn_structure_new_def player_new_def)
qed

theorem turn_change_half_undone_witness:
  "\<exists>g'. advance_step (sample_game\<lparr>gs_turn := (turn_structure_new 1)\<lparr>ts_current_step := Cleanup\<rparr>\<rparr>) = Inr g'
     \<and> ts_current_step (gs_turn (fst (game_undo Some g'))) = Untap"
  using turn_change_half_undone [OF _ _ sample_next_active, of Some] sample_log
  by (auto simp: turn_structure_new_def)

subsection \<open>Libraries\<close>



end
