(* ===== verification/ManaPayment.thy ===== *)
theory ManaPayment
  imports ManaProduction
begin

section \<open>Resolving mana payments\<close>

text \<open>
  \<open>mtg-engine/src/game/mana_payment/mod.rs\<close>: whether a cost can be paid from a list of mana sources
  and in which order to tap them. The shared bounds check, the simple resolver for sources of one
  colour and the greedy resolver for flexible sources. The buffer the caller passes for the tap
  order is an optional list that is handed back. What a tapped set of sources can pay is specified
  by \<open>pays\<close>: every source gives its whole amount in one colour it can produce, each colour of the
  cost is met, and the total covers the rest.
\<close>

datatype payment_result = Yes | No | Maybe

record mana_source =
  ms_card_id :: card_id
  ms_production :: mana_production
  ms_is_tapped :: bool
  ms_has_summoning_sickness :: bool

definition amount_of :: "mana_source \<Rightarrow> u8" where
  "amount_of s = mpr_amount (ms_production s)"

definition kind_of :: "mana_source \<Rightarrow> mana_production_kind" where
  "kind_of s = mpr_kind (ms_production s)"

definition usable :: "mana_source \<Rightarrow> bool" where
  "usable s \<longleftrightarrow> \<not> ms_is_tapped s \<and> \<not> ms_has_summoning_sickness s"

subsection \<open>The bounds check\<close>

text \<open>The local variables of the single pass: the net sum, the lower and the upper bound of each
  colour, and the amount of flexible sources.\<close>

record payment_bounds =
  pb_delta :: "16 word"
  pb_min :: mana_pool
  pb_max :: mana_pool
  pb_flexible :: u8

definition bounds_start :: payment_bounds where
  "bounds_start = \<lparr>pb_delta = 0, pb_min = mana_pool_new, pb_max = mana_pool_new, pb_flexible = 0\<rparr>"

fun plus_color :: "mana_color \<Rightarrow> u8 \<Rightarrow> mana_pool \<Rightarrow> mana_pool" where
  "plus_color MWhite n p = p\<lparr>mp_white := mp_white p + n\<rparr>"
| "plus_color MBlue n p = p\<lparr>mp_blue := mp_blue p + n\<rparr>"
| "plus_color MBlack n p = p\<lparr>mp_black := mp_black p + n\<rparr>"
| "plus_color MRed n p = p\<lparr>mp_red := mp_red p + n\<rparr>"
| "plus_color MGreen n p = p\<lparr>mp_green := mp_green p + n\<rparr>"

definition plus_colorless :: "u8 \<Rightarrow> mana_pool \<Rightarrow> mana_pool" where
  "plus_colorless n p = p\<lparr>mp_colorless := mp_colorless p + n\<rparr>"

fun add_kind :: "mana_production_kind \<Rightarrow> u8 \<Rightarrow> payment_bounds \<Rightarrow> payment_bounds" where
  "add_kind (Fixed c) n b = b\<lparr>pb_min := plus_color c n (pb_min b), pb_max := plus_color c n (pb_max b)\<rparr>"
| "add_kind KColorless n b = b\<lparr>pb_min := plus_colorless n (pb_min b), pb_max := plus_colorless n (pb_max b)\<rparr>"
| "add_kind (Choice cs) n b = b\<lparr>pb_flexible := sat_add (pb_flexible b) n,
     pb_max := foldl (\<lambda>p c. plus_color c n p) (pb_max b) (mcs_iter cs)\<rparr>"
| "add_kind AnyColor n b = b\<lparr>pb_flexible := sat_add (pb_flexible b) n,
     pb_max := foldl (\<lambda>p c. plus_color c n p) (pb_max b) ALL_MANA_COLORS\<rparr>"

definition bounds_step :: "payment_bounds \<Rightarrow> mana_source \<Rightarrow> payment_bounds" where
  "bounds_step b s = (if ms_is_tapped s \<or> ms_has_summoning_sickness s then b
     else add_kind (kind_of s) (amount_of s)
       (b\<lparr>pb_delta := pb_delta b + scast (net_delta (ms_production s))\<rparr>))"

definition needed_mana :: "mana_cost \<Rightarrow> u8" where
  "needed_mana c = sat_add (sat_add (sat_add (sat_add (sat_add (sat_add (mc_white c) (mc_blue c))
     (mc_black c)) (mc_red c)) (mc_green c)) (mc_colorless c)) (mc_generic c)"

definition over_max :: "mana_cost \<Rightarrow> mana_pool \<Rightarrow> bool" where
  "over_max c m \<longleftrightarrow> mp_white m < mc_white c \<or> mp_blue m < mc_blue c \<or> mp_black m < mc_black c
     \<or> mp_red m < mc_red c \<or> mp_green m < mc_green c \<or> mp_colorless m < mc_colorless c"

definition total_excess :: "mana_cost \<Rightarrow> mana_pool \<Rightarrow> u8" where
  "total_excess c m = sat_sub (mp_white m) (mc_white c) + sat_sub (mp_blue m) (mc_blue c)
     + sat_sub (mp_black m) (mc_black c) + sat_sub (mp_red m) (mc_red c)
     + sat_sub (mp_green m) (mc_green c) + sat_sub (mp_colorless m) (mc_colorless c)"

definition bounds_check_payment :: "mana_cost \<Rightarrow> mana_source list \<Rightarrow> payment_result" where
  "bounds_check_payment cost sources = (let b = foldl bounds_step bounds_start sources in
     if sint (pb_delta b) < uint (needed_mana cost) then No
     else if over_max cost (pb_max b) then No
     else if \<not> over_max cost (pb_min b)
       \<and> mc_generic cost \<le> pb_flexible b + total_excess cost (pb_min b) then Yes
     else Maybe)"

definition quick_check :: "mana_cost \<Rightarrow> mana_source list \<Rightarrow> payment_result" where
  "quick_check cost sources = bounds_check_payment cost sources"

subsection \<open>The simple resolver\<close>

definition is_simple_kind :: "mana_production_kind \<Rightarrow> bool" where
  "is_simple_kind k = (case k of Fixed _ \<Rightarrow> True | KColorless \<Rightarrow> True | _ \<Rightarrow> False)"

text \<open>The loop all phases share: walk the sources until enough is tapped, skipping those in use.\<close>

fun tap_matching :: "(mana_production_kind \<Rightarrow> bool) \<Rightarrow> u8 \<Rightarrow> mana_source list \<Rightarrow> card_id list \<Rightarrow> u8
    \<Rightarrow> card_id list \<times> u8" where
  "tap_matching P n [] order tapped = (order, tapped)"
| "tap_matching P n (s # ss) order tapped =
     (if n \<le> tapped then (order, tapped)
      else if ms_is_tapped s \<or> ms_has_summoning_sickness s \<or> ms_card_id s \<in> set order
        then tap_matching P n ss order tapped
      else if P (kind_of s)
        then tap_matching P n ss (order @ [ms_card_id s]) (sat_add tapped (amount_of s))
      else tap_matching P n ss order tapped)"

definition tap_fixed :: "mana_color \<Rightarrow> u8 \<Rightarrow> mana_source list \<Rightarrow> card_id list \<times> u8 \<Rightarrow> card_id list \<times> u8" where
  "tap_fixed c n sources st = (let (order, extra) = st;
       (order', t) = (if n = 0 then (order, 0) else tap_matching (\<lambda>k. k = Fixed c) n sources order 0) in
     (order', sat_add extra (sat_sub t n)))"

definition simple_tap_order :: "mana_cost \<Rightarrow> mana_source list \<Rightarrow> card_id list" where
  "simple_tap_order cost sources = (let
       st = tap_fixed MGreen (mc_green cost) sources (tap_fixed MRed (mc_red cost) sources
         (tap_fixed MBlack (mc_black cost) sources (tap_fixed MBlue (mc_blue cost) sources
           (tap_fixed MWhite (mc_white cost) sources ([], 0)))));
       (order1, tapped_colorless) = tap_matching (\<lambda>k. k = KColorless) (mc_colorless cost) sources (fst st) 0;
       extra_generic = sat_add (snd st) (sat_sub tapped_colorless (mc_colorless cost));
       generic = (if 0 < mc_generic cost then mc_generic cost - min (mc_generic cost) extra_generic
                  else mc_generic cost) in
     fst (tap_matching is_simple_kind generic sources order1 0))"

definition simple_check_payment ::
  "mana_cost \<Rightarrow> mana_source list \<Rightarrow> card_id list option \<Rightarrow> payment_result \<times> card_id list option" where
  "simple_check_payment cost sources out =
     (if list_ex (\<lambda>s. \<not> ms_is_tapped s \<and> \<not> ms_has_summoning_sickness s \<and> \<not> is_simple_kind (kind_of s)) sources
      then (Maybe, out)
      else if bounds_check_payment cost sources = No then (No, out)
      else case out of
        None \<Rightarrow> (Yes, None)
      | Some _ \<Rightarrow> (Yes, Some (simple_tap_order cost sources)))"

subsection \<open>The greedy resolver\<close>

fun can_produce_color :: "mana_production_kind \<Rightarrow> mana_color \<Rightarrow> bool" where
  "can_produce_color (Fixed d) c = (d = c)"
| "can_produce_color (Choice cs) c = mcs_contains cs c"
| "can_produce_color AnyColor c = True"
| "can_produce_color KColorless c = False"

definition score_for_color :: "mana_production \<Rightarrow> mana_color \<Rightarrow> u16" where
  "score_for_color p c = sat_add (side_cost_score p) (case mpr_kind p of
       Fixed d \<Rightarrow> if d = c then 0 else - 1
     | Choice cs \<Rightarrow> if mcs_contains cs c then of_nat (mcs_len cs) else - 1
     | AnyColor \<Rightarrow> 100
     | KColorless \<Rightarrow> - 1)"

definition generic_score :: "mana_production \<Rightarrow> u16" where
  "generic_score p = (let
       score = side_cost_score p;
       score1 = (if 1 < mpr_amount p then sat_add score (ucast (mpr_amount p - 1) * 2) else score);
       kind_bias = (case mpr_kind p of
           Fixed _ \<Rightarrow> 0 | KColorless \<Rightarrow> 0 | Choice cs \<Rightarrow> of_nat (mcs_len cs) | AnyColor \<Rightarrow> 4) in
     sat_add score1 kind_bias)"

text \<open>The candidates of a phase are the positions of the admissible sources, sorted stably by score.\<close>

definition candidates :: "(mana_production \<Rightarrow> bool) \<Rightarrow> (mana_production \<Rightarrow> u16) \<Rightarrow> mana_source list
    \<Rightarrow> card_id list \<Rightarrow> (nat \<times> u16) list" where
  "candidates P score sources order = sort_key snd
     (map (\<lambda>(i, s). (i, score (ms_production s)))
       (filter (\<lambda>(_, s). \<not> ms_is_tapped s \<and> \<not> ms_has_summoning_sickness s
           \<and> ms_card_id s \<notin> set order \<and> P (ms_production s))
         (enumerate 0 sources)))"

fun tap_candidates :: "u8 \<Rightarrow> mana_source list \<Rightarrow> (nat \<times> u16) list \<Rightarrow> card_id list \<Rightarrow> u8
    \<Rightarrow> card_id list \<times> u8" where
  "tap_candidates n sources [] order tapped = (order, tapped)"
| "tap_candidates n sources ((i, sc) # cs) order tapped =
     (if n \<le> tapped then (order, tapped)
      else tap_candidates n sources cs (order @ [ms_card_id (sources ! i)])
        (sat_add tapped (amount_of (sources ! i))))"

definition tap_phase :: "(mana_production \<Rightarrow> bool) \<Rightarrow> (mana_production \<Rightarrow> u16) \<Rightarrow> u8 \<Rightarrow> mana_source list
    \<Rightarrow> card_id list \<Rightarrow> (card_id list \<times> u8) option" where
  "tap_phase P score n sources order = (case tap_candidates n sources (candidates P score sources order) order 0 of
     (order', tapped) \<Rightarrow> if n \<le> tapped then Some (order', tapped) else None)"

definition tap_for_color :: "mana_color \<Rightarrow> u8 \<Rightarrow> mana_source list \<Rightarrow> card_id list \<Rightarrow> (card_id list \<times> u8) option" where
  "tap_for_color c = tap_phase (\<lambda>p. can_produce_color (mpr_kind p) c) (\<lambda>p. score_for_color p c)"

definition tap_for_colorless :: "u8 \<Rightarrow> mana_source list \<Rightarrow> card_id list \<Rightarrow> (card_id list \<times> u8) option" where
  "tap_for_colorless = tap_phase (\<lambda>p. mpr_kind p = KColorless) generic_score"

definition tap_for_generic :: "u8 \<Rightarrow> mana_source list \<Rightarrow> card_id list \<Rightarrow> (card_id list \<times> u8) option" where
  "tap_for_generic = tap_phase produces_mana generic_score"

text \<open>One requirement: nothing to do when it is zero, otherwise tap for it and keep the surplus.\<close>

definition pay_requirement :: "(u8 \<Rightarrow> mana_source list \<Rightarrow> card_id list \<Rightarrow> (card_id list \<times> u8) option)
    \<Rightarrow> u8 \<Rightarrow> mana_source list \<Rightarrow> card_id list \<times> u8 \<Rightarrow> (card_id list \<times> u8) option" where
  "pay_requirement tap n sources st = (if 0 < n
     then map_option (\<lambda>(order, t). (order, sat_add (snd st) (sat_sub t n))) (tap n sources (fst st))
     else Some st)"

definition greedy_tap_order :: "mana_cost \<Rightarrow> mana_source list \<Rightarrow> card_id list option" where
  "greedy_tap_order cost sources =
     Option.bind (pay_requirement (tap_for_color MWhite) (mc_white cost) sources ([], 0)) (\<lambda>s1.
     Option.bind (pay_requirement (tap_for_color MBlue) (mc_blue cost) sources s1) (\<lambda>s2.
     Option.bind (pay_requirement (tap_for_color MBlack) (mc_black cost) sources s2) (\<lambda>s3.
     Option.bind (pay_requirement (tap_for_color MRed) (mc_red cost) sources s3) (\<lambda>s4.
     Option.bind (pay_requirement (tap_for_color MGreen) (mc_green cost) sources s4) (\<lambda>s5.
     Option.bind (pay_requirement tap_for_colorless (mc_colorless cost) sources s5) (\<lambda>(order, extra_generic).
       let generic = (if 0 < mc_generic cost then mc_generic cost - min (mc_generic cost) extra_generic
                      else mc_generic cost) in
       if 0 < generic then map_option fst (tap_for_generic generic sources order) else Some order))))))"

definition try_greedy_payment ::
  "mana_cost \<Rightarrow> mana_source list \<Rightarrow> card_id list option \<Rightarrow> bool \<times> card_id list option" where
  "try_greedy_payment cost sources out = (case greedy_tap_order cost sources of
     None \<Rightarrow> (False, out)
   | Some order \<Rightarrow> (True, map_option (\<lambda>_. order) out))"

definition greedy_check_payment ::
  "mana_cost \<Rightarrow> mana_source list \<Rightarrow> card_id list option \<Rightarrow> payment_result \<times> card_id list option" where
  "greedy_check_payment cost sources out =
     (if bounds_check_payment cost sources = No then (No, out)
      else case try_greedy_payment cost sources out of
        (True, out') \<Rightarrow> (Yes, out') | (False, out') \<Rightarrow> (Maybe, out'))"

subsection \<open>The two queries of the trait\<close>

type_synonym resolver =
  "mana_cost \<Rightarrow> mana_source list \<Rightarrow> card_id list option \<Rightarrow> payment_result \<times> card_id list option"

definition resolver_can_pay :: "resolver \<Rightarrow> mana_cost \<Rightarrow> mana_source list \<Rightarrow> bool" where
  "resolver_can_pay check cost sources = (fst (check cost sources None) = Yes)"

definition compute_tap_order ::
  "resolver \<Rightarrow> mana_cost \<Rightarrow> mana_source list \<Rightarrow> card_id list \<Rightarrow> bool \<times> card_id list option" where
  "compute_tap_order check cost sources buffer = (case check cost sources (Some []) of
     (r, out) \<Rightarrow> (r = Yes, out))"

subsection \<open>What a set of tapped sources pays\<close>

fun of_mana_color :: "mana_color \<Rightarrow> color" where
  "of_mana_color MWhite = White"
| "of_mana_color MBlue = Blue"
| "of_mana_color MBlack = Black"
| "of_mana_color MRed = Red"
| "of_mana_color MGreen = Green"

fun required :: "mana_cost \<Rightarrow> color \<Rightarrow> u8" where
  "required m White = mc_white m"
| "required m Blue = mc_blue m"
| "required m Black = mc_black m"
| "required m Red = mc_red m"
| "required m Green = mc_green m"
| "required m Colorless = mc_colorless m"

fun produces :: "mana_production_kind \<Rightarrow> color \<Rightarrow> bool" where
  "produces (Fixed d) c = (of_mana_color d = c)"
| "produces (Choice cs) c = (\<exists>d. mcs_contains cs d \<and> of_mana_color d = c)"
| "produces AnyColor c = (c \<noteq> Colorless)"
| "produces KColorless c = (c = Colorless)"

text \<open>A payment lists the tapped sources, each with the colour its mana is spent on, or none for the
  generic part.\<close>

type_synonym payment = "(mana_source \<times> color option) list"

definition spent_on :: "color \<Rightarrow> payment \<Rightarrow> nat" where
  "spent_on c T = sum_list (map (\<lambda>(s, d). if d = Some c then unat (amount_of s) else 0) T)"

definition total_tapped :: "payment \<Rightarrow> nat" where
  "total_tapped T = sum_list (map (\<lambda>(s, d). unat (amount_of s)) T)"

definition all_required :: "mana_cost \<Rightarrow> nat" where
  "all_required m = sum_list (map (\<lambda>c. unat (required m c)) all_colors_and_colorless)"

definition admissible :: "mana_source list \<Rightarrow> payment \<Rightarrow> bool" where
  "admissible sources T \<longleftrightarrow> distinct (map (ms_card_id \<circ> fst) T)
     \<and> (\<forall>(s, d) \<in> set T. s \<in> set sources \<and> usable s
          \<and> (case d of Some c \<Rightarrow> produces (kind_of s) c | None \<Rightarrow> kind_produces_mana (kind_of s)))"

definition pays :: "mana_cost \<Rightarrow> payment \<Rightarrow> bool" where
  "pays m T \<longleftrightarrow> (\<forall>c. unat (required m c) \<le> spent_on c T)
     \<and> all_required m + unat (mc_generic m) \<le> total_tapped T"

definition payable :: "mana_cost \<Rightarrow> mana_source list \<Rightarrow> bool" where
  "payable m sources \<longleftrightarrow> (\<exists>T. admissible sources T \<and> pays m T)"

lemma payment_append [simp]:
  "spent_on c (T @ U) = spent_on c T + spent_on c U" "total_tapped (T @ U) = total_tapped T + total_tapped U"
  "spent_on c [] = 0" "total_tapped [] = 0"
  by (simp_all add: spent_on_def total_tapped_def)

lemma payment_tagged [simp]:
  "total_tapped (map (\<lambda>s. (s, d)) S) = sum_list (map (unat \<circ> amount_of) S)"
  "spent_on c (map (\<lambda>s. (s, d)) S) = (if d = Some c then sum_list (map (unat \<circ> amount_of) S) else 0)"
  by (induction S) (simp_all add: spent_on_def total_tapped_def)

subsection \<open>One phase of the greedy resolver\<close>

lemma tap_candidates_prefix:
  "\<exists>k. fst (tap_candidates n src cs order t) = order @ map (\<lambda>(i, sc). ms_card_id (src ! i)) (take k cs)
     \<and> unat (snd (tap_candidates n src cs order t))
         \<le> unat t + sum_list (map (\<lambda>(i, sc). unat (amount_of (src ! i))) (take k cs))
     \<and> (\<forall>j < min k (length cs). unat t + sum_list (map (\<lambda>(i, sc). unat (amount_of (src ! i))) (take j cs)) < unat n)"
proof (induction cs arbitrary: order t)
  case (Cons x cs)
  obtain i sc where x: "x = (i, sc)" by force
  show ?case
  proof (cases "n \<le> t")
    case True
    then show ?thesis by (intro exI [of _ 0]) (simp add: x)
  next
    case False
    let ?order = "order @ [ms_card_id (src ! i)]" and ?t = "sat_add t (amount_of (src ! i))"
    obtain k where k: "fst (tap_candidates n src cs ?order ?t)
          = ?order @ map (\<lambda>(i, sc). ms_card_id (src ! i)) (take k cs)"
        "unat (snd (tap_candidates n src cs ?order ?t))
         \<le> unat ?t + sum_list (map (\<lambda>(i, sc). unat (amount_of (src ! i))) (take k cs))"
        "\<forall>j < min k (length cs). unat ?t + sum_list (map (\<lambda>(i, sc). unat (amount_of (src ! i))) (take j cs)) < unat n"
      using Cons.IH by blast
    have "unat n < 2 ^ LENGTH(8)" by (rule unsigned_less)
    then have n256: "unat n < 256" by simp
    have le: "unat ?t \<le> unat t + unat (amount_of (src ! i))" by (simp add: unat_sat_add)
    have "unat t + sum_list (map (\<lambda>(i, sc). unat (amount_of (src ! i))) (take j (x # cs))) < unat n"
      if j: "j < min (Suc k) (length (x # cs))" for j
    proof (cases j)
      case 0
      then show ?thesis using False by (simp add: word_le_nat_alt)
    next
      case (Suc i')
      with j k(3) have "unat ?t + sum_list (map (\<lambda>(i, sc). unat (amount_of (src ! i))) (take i' cs)) < unat n" by simp
      moreover from this have "unat ?t = unat t + unat (amount_of (src ! i))"
        using n256 by (simp add: unat_sat_add min_def split: if_splits)
      ultimately show ?thesis by (simp add: Suc x)
    qed
    then show ?thesis using k le by (intro exI [of _ "Suc k"]) (simp add: x False)
  qed
qed simp

lemma candidates_sources:
  fixes src :: "mana_source list"
  assumes "distinct (map ms_card_id src)"
    and S_def: "S = map (\<lambda>(i, sc). src ! i) (candidates P score src order)"
  shows "distinct (map ms_card_id S)"
    and "s \<in> set S \<longleftrightarrow> s \<in> set src \<and> usable s \<and> ms_card_id s \<notin> set order \<and> P (ms_production s)"
proof -
  let ?F = "filter (\<lambda>(i, s). \<not> ms_is_tapped s \<and> \<not> ms_has_summoning_sickness s
           \<and> ms_card_id s \<notin> set order \<and> P (ms_production s)) (enumerate 0 src)"
  let ?c = "map (\<lambda>(i, s). (i, score (ms_production s))) ?F"
  have nth: "src ! i = s" if "(i, s) \<in> set ?F" for i s
    using that by (auto simp: in_set_enumerate_eq)
  have F: "map snd ?F = filter (\<lambda>s. \<not> ms_is_tapped s \<and> \<not> ms_has_summoning_sickness s
           \<and> ms_card_id s \<notin> set order \<and> P (ms_production s)) src"
  proof -
    have "map snd (filter (\<lambda>(i, s). Q s) xs) = filter Q (map snd xs)" for Q and xs :: "(nat \<times> mana_source) list"
      by (induction xs) auto
    then show ?thesis by simp
  qed
  have nth_back: "map (\<lambda>(i, sc). src ! i) ?c = map snd ?F"
    using nth by (auto simp del: set_filter)
  have perm: "mset S = mset (map snd ?F)"
    unfolding nth_back [symmetric] by (simp only: S_def candidates_def mset_map mset_sort)
  have sets: "set S = set (map snd ?F)" by (rule mset_eq_setD [OF perm])
  show "s \<in> set S \<longleftrightarrow> s \<in> set src \<and> usable s \<and> ms_card_id s \<notin> set order \<and> P (ms_production s)"
    unfolding sets F by (auto simp: usable_def)
  have same: "mset (map ms_card_id S) = mset (map ms_card_id (map snd ?F))"
    by (simp only: mset_map perm)
  have "distinct (map ms_card_id (map snd ?F))"
    unfolding F using assms(1) by (rule distinct_map_filter)
  then show "distinct (map ms_card_id S)" by (rule mset_eq_imp_distinct_iff [OF same, THEN iffD2])
qed

lemma tap_phase_sound:
  assumes "distinct (map ms_card_id src)" "tap_phase P score n src order = Some (order', t)"
  obtains S where "order' = order @ map ms_card_id S" "distinct (map ms_card_id S)"
    "\<And>s. s \<in> set S \<Longrightarrow> s \<in> set src \<and> usable s \<and> ms_card_id s \<notin> set order \<and> P (ms_production s)"
    "n \<le> t" "unat t \<le> sum_list (map (unat \<circ> amount_of) S)"
    "\<And>j. j < length S \<Longrightarrow> sum_list (map (unat \<circ> amount_of) (take j S)) < unat n"
proof -
  let ?cs = "candidates P score src order"
  define C where "C = map (\<lambda>(i, sc). src ! i) ?cs"
  note C = candidates_sources [OF assms(1) C_def]
  have res: "tap_candidates n src ?cs order 0 = (order', t)" "n \<le> t"
    using assms(2) by (auto simp: tap_phase_def split: prod.splits if_splits)
  obtain k where k: "order' = order @ map (\<lambda>(i, sc). ms_card_id (src ! i)) (take k ?cs)"
      "unat t \<le> sum_list (map (\<lambda>(i, sc). unat (amount_of (src ! i))) (take k ?cs))"
      "\<And>j. j < min k (length ?cs) \<Longrightarrow> sum_list (map (\<lambda>(i, sc). unat (amount_of (src ! i))) (take j ?cs)) < unat n"
    using tap_candidates_prefix [of n src ?cs order 0] res by auto
  have S: "take k C = map (\<lambda>(i, sc). src ! i) (take k ?cs)" by (simp add: C_def take_map)
  show ?thesis
  proof (rule that [of "take k C"])
    show "order' = order @ map ms_card_id (take k C)"
      by (simp add: k(1) S comp_def split_beta)
    show "distinct (map ms_card_id (take k C))"
      using C(1) by (metis distinct_take take_map)
    show "s \<in> set src \<and> usable s \<and> ms_card_id s \<notin> set order \<and> P (ms_production s)"
      if "s \<in> set (take k C)" for s
      using that C(2) by (meson in_set_takeD)
    show "unat t \<le> sum_list (map (unat \<circ> amount_of) (take k C))"
      using k(2) by (simp add: S comp_def case_prod_unfold)
    show "sum_list (map (unat \<circ> amount_of) (take j (take k C))) < unat n" if "j < length (take k C)" for j
    proof -
      have "j < min k (length ?cs)" using that by (simp add: C_def)
      then show ?thesis using k(3) [of j] that by (simp add: C_def take_map comp_def case_prod_unfold min_absorb1)
    qed
  qed (rule res(2))
qed

text \<open>The order of a payment: colour after colour, a source only while its colour is still needed, and
  for the generic part only when every colour is met.\<close>

fun in_order :: "mana_cost \<Rightarrow> payment \<Rightarrow> payment \<Rightarrow> bool" where
  "in_order m A [] \<longleftrightarrow> True"
| "in_order m A ((s, d) # T) \<longleftrightarrow> (case d of
       Some c \<Rightarrow> spent_on c A < unat (required m c)
         \<and> (\<forall>c' \<in> set (takeWhile (\<lambda>x. x \<noteq> c) all_colors_and_colorless). unat (required m c') \<le> spent_on c' A)
     | None \<Rightarrow> \<forall>c'. unat (required m c') \<le> spent_on c' A)
     \<and> in_order m (A @ [(s, d)]) T"

lemma in_order_append: "in_order m A (T @ U) \<longleftrightarrow> in_order m A T \<and> in_order m (A @ T) U"
  by (induction m A T rule: in_order.induct) auto

lemma in_order_color:
  assumes "spent_on c A = 0" "\<And>c'. c' \<in> set (takeWhile (\<lambda>x. x \<noteq> c) all_colors_and_colorless) \<Longrightarrow>
      unat (required m c') \<le> spent_on c' A"
    and "\<And>j. j < length S \<Longrightarrow> t + sum_list (map (unat \<circ> amount_of) (take j S)) < unat (required m c)"
    and "t = spent_on c B" "set (map snd B) \<subseteq> {Some c}"
  shows "in_order m (A @ B) (map (\<lambda>s. (s, Some c)) S)"
  using assms(3-)
proof (induction S arbitrary: t B)
  case (Cons s S)
  have "c' \<noteq> c" if "c' \<in> set (takeWhile (\<lambda>x. x \<noteq> c) all_colors_and_colorless)" for c'
    using that by (auto dest: set_takeWhileD)
  then have "unat (required m c') \<le> spent_on c' (A @ B)"
    if "c' \<in> set (takeWhile (\<lambda>x. x \<noteq> c) all_colors_and_colorless)" for c'
    using assms(2) [OF that] by simp
  moreover have "spent_on c (A @ B) < unat (required m c)"
    using Cons.prems(1) [of 0] assms(1) Cons.prems(2) by simp
  moreover have "in_order m (A @ B @ [(s, Some c)]) (map (\<lambda>s. (s, Some c)) S)"
  proof (rule Cons.IH)
    show "spent_on c B + unat (amount_of s) + sum_list (map (unat \<circ> amount_of) (take j S)) < unat (required m c)"
      if "j < length S" for j
      using Cons.prems(1) [of "Suc j"] that Cons.prems(2) by (simp add: comp_def)
    show "spent_on c B + unat (amount_of s) = spent_on c (B @ [(s, Some c)])" by (simp add: spent_on_def)
    show "set (map snd (B @ [(s, Some c)])) \<subseteq> {Some c}" using Cons.prems(3) by simp
  qed
  ultimately show ?case by simp
qed simp

lemma in_order_generic:
  assumes "\<And>c'. unat (required m c') \<le> spent_on c' A"
  shows "in_order m A (map (\<lambda>s. (s, None)) S)"
  using assms by (induction S arbitrary: A) (simp_all add: le_add1 trans_le_add1)

text \<open>The invariant of the coloured phases: the order taps a payment that meets the colours paid so
  far, spends nothing on the others, and has the surplus left over.\<close>

definition paid_so_far :: "color list \<Rightarrow> mana_cost \<Rightarrow> mana_source list \<Rightarrow> card_id list \<times> u8 \<Rightarrow> payment \<Rightarrow> bool" where
  "paid_so_far cs m src st T \<longleftrightarrow> fst st = map (ms_card_id \<circ> fst) T \<and> admissible src T
     \<and> (\<forall>c \<in> set cs. unat (required m c) \<le> spent_on c T)
     \<and> unat (snd st) + sum_list (map (\<lambda>c. unat (required m c)) cs) \<le> total_tapped T"

definition orderly_so_far :: "color list \<Rightarrow> mana_cost \<Rightarrow> mana_source list \<Rightarrow> card_id list \<times> u8 \<Rightarrow> payment \<Rightarrow> bool" where
  "orderly_so_far cs m src st T \<longleftrightarrow> paid_so_far cs m src st T \<and> in_order m [] T
     \<and> (\<forall>c. c \<notin> set cs \<longrightarrow> spent_on c T = 0)"

lemmas so_far_defs = orderly_so_far_def paid_so_far_def

lemma admissible_append:
  assumes "admissible src T" "distinct (map ms_card_id S)"
    and "\<And>s. s \<in> set S \<Longrightarrow> s \<in> set src \<and> usable s \<and> ms_card_id s \<notin> set (map (ms_card_id \<circ> fst) T)
      \<and> (case d of Some c \<Rightarrow> produces (kind_of s) c | None \<Rightarrow> kind_produces_mana (kind_of s))"
  shows "admissible src (T @ map (\<lambda>s. (s, d)) S)"
proof -
  have "set (map ms_card_id S) \<inter> set (map (ms_card_id \<circ> fst) T) = {}" using assms(3) by auto
  then have "distinct (map (ms_card_id \<circ> fst) (T @ map (\<lambda>s. (s, d)) S))"
    using assms(1,2) by (auto simp: admissible_def comp_def)
  moreover have "s \<in> set src \<and> usable s
      \<and> (case e of Some c \<Rightarrow> produces (kind_of s) c | None \<Rightarrow> kind_produces_mana (kind_of s))"
    if "(s, e) \<in> set (T @ map (\<lambda>s. (s, d)) S)" for s e
    using that assms(1,3) by (auto simp: admissible_def)
  ultimately show ?thesis by (auto simp: admissible_def)
qed

lemma can_produce_produces: "can_produce_color k c \<longleftrightarrow> produces k (of_mana_color c)"
proof -
  have inj: "of_mana_color a = of_mana_color b \<longleftrightarrow> a = b" for a b by (cases a; cases b) simp_all
  then show ?thesis by (cases k) (auto simp: inj; cases c; simp)+
qed

lemma pay_requirement_sound:
  assumes dist: "distinct (map ms_card_id src)" and inv: "orderly_so_far cs m src st T"
    and pay: "pay_requirement (tap_phase P score) (required m c) src st = Some st'"
    and P: "\<And>p. P p \<Longrightarrow> produces (mpr_kind p) c"
    and cs: "c \<notin> set cs" "set (takeWhile (\<lambda>x. x \<noteq> c) all_colors_and_colorless) \<subseteq> set cs"
  shows "\<exists>T'. orderly_so_far (cs @ [c]) m src st' T'"
proof (cases "0 < required m c")
  case False
  then show ?thesis using inv pay
    by (intro exI [of _ T]) (auto simp: pay_requirement_def so_far_defs word_neq_0_conv [symmetric])
next
  case True
  then obtain order' t where t: "tap_phase P score (required m c) src (fst st) = Some (order', t)"
    and st': "st' = (order', sat_add (snd st) (sat_sub t (required m c)))"
    using pay by (auto simp: pay_requirement_def)
  obtain S where S: "order' = fst st @ map ms_card_id S" "distinct (map ms_card_id S)"
    "\<And>s. s \<in> set S \<Longrightarrow> s \<in> set src \<and> usable s \<and> ms_card_id s \<notin> set (fst st) \<and> P (ms_production s)"
    "required m c \<le> t" "unat t \<le> sum_list (map (unat \<circ> amount_of) S)"
    "\<And>j. j < length S \<Longrightarrow> sum_list (map (unat \<circ> amount_of) (take j S)) < unat (required m c)"
    by (rule tap_phase_sound [OF dist t]) blast
  let ?T = "T @ map (\<lambda>s. (s, Some c)) S"
  have adm: "admissible src ?T"
    using inv S(2,3) P by (intro admissible_append) (auto simp: so_far_defs kind_of_def)
  have "unat (snd st') \<le> unat (snd st) + (unat t - unat (required m c))"
    by (simp add: st' unat_sat_add unat_sat_sub)
  moreover have "unat (required m c) \<le> unat t" using S(4) by (simp add: word_le_nat_alt)
  moreover have "in_order m [] ?T"
  proof -
    have "in_order m (T @ []) (map (\<lambda>s. (s, Some c)) S)"
      by (rule in_order_color [where t = 0]) (use inv cs S(6) in \<open>auto simp: so_far_defs\<close>)
    then show ?thesis using inv by (simp add: in_order_append so_far_defs)
  qed
  ultimately show ?thesis
    using inv adm S(1,5) by (intro exI [of _ ?T]) (auto simp: so_far_defs st' comp_def)
qed

lemma greedy_sound:
  assumes dist: "distinct (map ms_card_id src)" and res: "greedy_tap_order m src = Some order"
  shows "\<exists>T. order = map (ms_card_id \<circ> fst) T \<and> admissible src T \<and> pays m T \<and> in_order m [] T"
proof -
  have color: "\<exists>T'. orderly_so_far (cs @ [of_mana_color c]) m src st' T'"
    if "orderly_so_far cs m src st T" "pay_requirement (tap_for_color c) (required m (of_mana_color c)) src st = Some st'"
      "of_mana_color c \<notin> set cs" "set (takeWhile (\<lambda>x. x \<noteq> of_mana_color c) all_colors_and_colorless) \<subseteq> set cs"
    for cs c st st' T
    using pay_requirement_sound [OF dist that(1) that(2) [unfolded tap_for_color_def] _ that(3,4)]
    by (simp add: can_produce_produces)
  note wubrg = all_colors_and_colorless_def
  obtain s1 s2 s3 s4 s5 st6 where
    s: "pay_requirement (tap_for_color MWhite) (mc_white m) src ([], 0) = Some s1"
    "pay_requirement (tap_for_color MBlue) (mc_blue m) src s1 = Some s2"
    "pay_requirement (tap_for_color MBlack) (mc_black m) src s2 = Some s3"
    "pay_requirement (tap_for_color MRed) (mc_red m) src s3 = Some s4"
    "pay_requirement (tap_for_color MGreen) (mc_green m) src s4 = Some s5"
    "pay_requirement tap_for_colorless (mc_colorless m) src s5 = Some st6"
    using res by (auto simp: greedy_tap_order_def bind_eq_Some_conv)
  define generic where "generic = (if 0 < mc_generic m then mc_generic m - min (mc_generic m) (snd st6)
                      else mc_generic m)"
  have "greedy_tap_order m src
      = (if 0 < generic then map_option fst (tap_for_generic generic src (fst st6)) else Some (fst st6))"
    by (simp add: greedy_tap_order_def s generic_def Let_def split_beta)
  then have last_phase: "(if 0 < generic then map_option fst (tap_for_generic generic src (fst st6))
      else Some (fst st6)) = Some order" using res by metis
  have "orderly_so_far [] m src ([], 0) []" by (simp add: so_far_defs admissible_def)
  then have "\<exists>T. orderly_so_far ([] @ [White]) m src s1 T" using color [of "[]" "([], 0)" "[]" MWhite s1] s(1) by (simp add: wubrg)
  then have "\<exists>T. orderly_so_far [White, Blue] m src s2 T" using color [of "[White]" s1 _ MBlue s2] s(2) by (auto simp: wubrg)
  then have "\<exists>T. orderly_so_far [White, Blue, Black] m src s3 T"
    using color [of "[White, Blue]" s2 _ MBlack s3] s(3) by (auto simp: wubrg)
  then have "\<exists>T. orderly_so_far [White, Blue, Black, Red] m src s4 T"
    using color [of "[White, Blue, Black]" s3 _ MRed s4] s(4) by (auto simp: wubrg)
  then have "\<exists>T. orderly_so_far [White, Blue, Black, Red, Green] m src s5 T"
    using color [of "[White, Blue, Black, Red]" s4 _ MGreen s5] s(5) by (auto simp: wubrg)
  then obtain T5 where "orderly_so_far [White, Blue, Black, Red, Green] m src s5 T5" by blast
  from pay_requirement_sound [OF dist this, of "\<lambda>p. mpr_kind p = KColorless" generic_score Colorless st6]
  obtain T where T: "orderly_so_far all_colors_and_colorless m src st6 T"
    using s(6) by (auto simp: tap_for_colorless_def wubrg)
  have all: "c \<in> set all_colors_and_colorless" for c
    by (cases c) (simp_all add: all_colors_and_colorless_def)
  have met: "unat (required m c) \<le> spent_on c T" for c
    using T all [of c] by (simp add: so_far_defs)
  have sum: "unat (snd st6) + all_required m \<le> total_tapped T"
    using T by (simp add: so_far_defs all_required_def)
  have g: "unat generic = unat (mc_generic m) - unat (snd st6)"
    by (auto simp: generic_def unat_minus_min_left word_neq_0_conv [symmetric])
  show ?thesis
  proof (cases "0 < generic")
    case False
    then have "unat (mc_generic m) \<le> unat (snd st6)" using g by (simp add: word_neq_0_conv [symmetric])
    then show ?thesis using T met sum last_phase False
      by (intro exI [of _ T]) (auto simp: so_far_defs pays_def)
  next
    case True
    then obtain order' t where t: "tap_phase produces_mana generic_score generic src (fst st6) = Some (order', t)"
      and order: "order = order'"
      using last_phase by (auto simp: tap_for_generic_def)
    obtain S where S: "order' = fst st6 @ map ms_card_id S" "distinct (map ms_card_id S)"
      "\<And>s. s \<in> set S \<Longrightarrow> s \<in> set src \<and> usable s \<and> ms_card_id s \<notin> set (fst st6) \<and> produces_mana (ms_production s)"
      "generic \<le> t" "unat t \<le> sum_list (map (unat \<circ> amount_of) S)"
      by (rule tap_phase_sound [OF dist t]) blast
    let ?T = "T @ map (\<lambda>s. (s, None)) S"
    have "in_order m [] ?T"
      using T in_order_generic [OF met, of S] by (simp add: so_far_defs in_order_append)
    moreover have "admissible src ?T"
      using T S(2,3) by (intro admissible_append) (auto simp: so_far_defs kind_of_def produces_mana_def)
    moreover have "unat generic \<le> sum_list (map (unat \<circ> amount_of) S)"
      using S(4,5) by (simp add: word_le_nat_alt)
    then have "pays m ?T" using met sum g by (auto simp: pays_def le_diff_conv)
    moreover have "order = map (ms_card_id \<circ> fst) ?T"
      using T S(1) order by (simp add: so_far_defs comp_def)
    ultimately show ?thesis by blast
  qed
qed

subsection \<open>What the bounds count\<close>

definition amount_where :: "(mana_source \<Rightarrow> bool) \<Rightarrow> mana_source list \<Rightarrow> nat" where
  "amount_where P src = sum_list (map (\<lambda>s. if usable s \<and> P s then unat (amount_of s) else 0) src)"

definition flexible_kind :: "mana_production_kind \<Rightarrow> bool" where
  "flexible_kind k = (case k of Choice _ \<Rightarrow> True | AnyColor \<Rightarrow> True | _ \<Rightarrow> False)"

text \<open>Sources that tap for free and at most 127 mana in all, so that no byte wraps.\<close>

definition plain_sources :: "mana_source list \<Rightarrow> bool" where
  "plain_sources src \<longleftrightarrow> distinct (map ms_card_id src) \<and> amount_where (\<lambda>_. True) src < 128
     \<and> (\<forall>s \<in> set src. mpr_activation_cost (ms_production s) = None \<and> kind_produces_mana (kind_of s))"

fun pool_get :: "mana_pool \<Rightarrow> color \<Rightarrow> u8" where
  "pool_get p White = mp_white p"
| "pool_get p Blue = mp_blue p"
| "pool_get p Black = mp_black p"
| "pool_get p Red = mp_red p"
| "pool_get p Green = mp_green p"
| "pool_get p Colorless = mp_colorless p"

lemma amount_where_simps [simp]:
  "amount_where P [] = 0" "amount_where P (xs @ ys) = amount_where P xs + amount_where P ys"
  "amount_where P [s] = (if usable s \<and> P s then unat (amount_of s) else 0)"
  by (simp_all add: amount_where_def)

lemma amount_where_mono: "(\<And>s. s \<in> set src \<Longrightarrow> P s \<Longrightarrow> Q s) \<Longrightarrow> amount_where P src \<le> amount_where Q src"
  by (auto simp: amount_where_def intro!: sum_list_mono)

lemma amount_where_all: "amount_where P src \<le> amount_where (\<lambda>_. True) src"
  by (rule amount_where_mono) simp

lemma pool_get_plus [simp]:
  "pool_get (plus_color d n p) c = (if of_mana_color d = c then pool_get p c + n else pool_get p c)"
  "pool_get (plus_colorless n p) c = (if c = Colorless then pool_get p c + n else pool_get p c)"
  "pool_get mana_pool_new c = 0"
  by (cases d; cases c; simp) (cases c; simp add: plus_colorless_def mana_pool_new_def)+

lemma pool_get_foldl:
  "distinct ds \<Longrightarrow> pool_get (foldl (\<lambda>p d. plus_color d n p) p ds) c
     = (if \<exists>d \<in> set ds. of_mana_color d = c then pool_get p c + n else pool_get p c)"
proof (induction ds arbitrary: p)
  case (Cons d ds)
  have inj: "of_mana_color a = of_mana_color b \<longleftrightarrow> a = b" for a b by (cases a; cases b) simp_all
  show ?case using Cons by (auto simp: inj)
qed simp

lemma any_color: "(\<exists>d. of_mana_color d = c) \<longleftrightarrow> c \<noteq> Colorless"
proof (cases c)
  case White then show ?thesis by (auto intro: exI [of _ MWhite])
next
  case Blue then show ?thesis by (auto intro: exI [of _ MBlue])
next
  case Black then show ?thesis by (auto intro: exI [of _ MBlack])
next
  case Red then show ?thesis by (auto intro: exI [of _ MRed])
next
  case Green then show ?thesis by (auto intro: exI [of _ MGreen])
next
  case Colorless
  have "of_mana_color d \<noteq> Colorless" for d by (cases d) simp_all
  then show ?thesis using Colorless by simp
qed

lemma add_kind_max: "pool_get (pb_max (add_kind k n b)) c
    = (if produces k c then pool_get (pb_max b) c + n else pool_get (pb_max b) c)"
proof (cases k)
  case (Choice cs)
  then show ?thesis by (simp add: pool_get_foldl distinct_mcs_iter set_mcs_iter)
next
  case AnyColor
  have "distinct ALL_MANA_COLORS" by (simp add: ALL_MANA_COLORS_def)
  with AnyColor show ?thesis by (simp add: pool_get_foldl set_all_mana_colors any_color)
qed simp_all

lemma add_kind_rest:
  "pool_get (pb_min (add_kind k n b)) c
    = (if \<not> flexible_kind k \<and> produces k c then pool_get (pb_min b) c + n else pool_get (pb_min b) c)"
  "pb_flexible (add_kind k n b) = (if flexible_kind k then sat_add (pb_flexible b) n else pb_flexible b)"
  "pb_delta (add_kind k n b) = pb_delta b"
  by (cases k; simp add: flexible_kind_def)+

lemma small_amount: "usable s \<Longrightarrow> s \<in> set src \<Longrightarrow> amount_where (\<lambda>_. True) src < 128 \<Longrightarrow> unat (amount_of s) < 128"
proof (induction src)
  case (Cons x src)
  have "amount_where (\<lambda>_. True) (x # src) = amount_where (\<lambda>_. True) [x] + amount_where (\<lambda>_. True) src"
    by (simp add: amount_where_def)
  then show ?case using Cons by auto
qed simp

lemma free_delta:
  assumes "mpr_activation_cost p = None" "unat (mpr_amount p) < 128"
  shows "(scast (net_delta p) :: 16 word) = of_nat (unat (mpr_amount p))"
proof -
  have "int (unat (mpr_amount p)) < 128" using assms(2) by linarith
  then have small: "uint (mpr_amount p) < 2 ^ 7" by simp
  have "signed_take_bit 7 (uint (mpr_amount p)) = uint (mpr_amount p)"
    by (rule signed_take_bit_int_eq_self) (use small uint_ge_0 [of "mpr_amount p"] in linarith)+
  then have "sint (mpr_amount p) = uint (mpr_amount p)" by (simp add: sint_uint)
  then have "(scast (mpr_amount p) :: 16 word) = of_int (uint (mpr_amount p))" by (simp add: scast_eq)
  then show ?thesis using assms(1) by (simp add: net_delta_def)
qed

definition counts_ok :: "mana_source list \<Rightarrow> payment_bounds \<Rightarrow> bool" where
  "counts_ok src b \<longleftrightarrow> pb_delta b = of_nat (amount_where (\<lambda>_. True) src)
     \<and> (\<forall>c. unat (pool_get (pb_max b) c) = amount_where (\<lambda>s. produces (kind_of s) c) src)
     \<and> (\<forall>c. unat (pool_get (pb_min b) c)
          = amount_where (\<lambda>s. \<not> flexible_kind (kind_of s) \<and> produces (kind_of s) c) src)
     \<and> unat (pb_flexible b) = amount_where (\<lambda>s. flexible_kind (kind_of s)) src"

lemma unat_add_small: "unat a = x \<Longrightarrow> x + unat n < 128 \<Longrightarrow> unat (a + n) = x + unat n" for a n :: u8
  by (subst unat_plus_fits) simp_all

lemma bounds_counts:
  assumes "amount_where (\<lambda>_. True) src < 128"
    and "\<And>s. s \<in> set src \<Longrightarrow> mpr_activation_cost (ms_production s) = None"
  shows "counts_ok src (foldl bounds_step bounds_start src)"
  using assms
proof (induction src rule: rev_induct)
  case Nil
  show ?case by (simp add: counts_ok_def bounds_start_def)
next
  case (snoc s src)
  let ?b = "foldl bounds_step bounds_start src"
  have IH: "counts_ok src ?b" using snoc by auto
  show ?case
  proof (cases "usable s")
    case False
    then have "bounds_step ?b s = ?b" by (auto simp: bounds_step_def usable_def)
    then show ?thesis using IH False by (simp add: counts_ok_def)
  next
    case True
    then have total: "amount_where (\<lambda>_. True) src + unat (amount_of s) < 128" using snoc.prems(1) by simp
    have part: "amount_where P src + unat (amount_of s) < 128" for P
      using total amount_where_all [of P src] by linarith
    have step: "bounds_step ?b s = add_kind (kind_of s) (amount_of s)
        (?b\<lparr>pb_delta := pb_delta ?b + scast (net_delta (ms_production s))\<rparr>)"
      using True by (simp add: bounds_step_def usable_def)
    have delta: "(scast (net_delta (ms_production s)) :: 16 word) = of_nat (unat (amount_of s))"
      using total snoc.prems(2) by (simp add: free_delta amount_of_def)
    have flex: "unat (sat_add (pb_flexible ?b) (amount_of s))
        = amount_where (\<lambda>s. flexible_kind (kind_of s)) src + unat (amount_of s)"
      using IH part [of "\<lambda>s. flexible_kind (kind_of s)"] by (simp add: unat_sat_add counts_ok_def)
    show ?thesis
      using IH True part flex
      by (simp add: counts_ok_def step delta add_kind_max add_kind_rest unat_add_small)
  qed
qed

text \<open>A payment never takes more than the sources offer.\<close>

lemma payment_bounded:
  fixes T :: payment
  assumes "admissible src T" "distinct (map ms_card_id src)"
    and "\<And>s d. (s, d) \<in> set T \<Longrightarrow> g (s, d) \<le> (if usable s \<and> P s then unat (amount_of s) else 0)"
  shows "sum_list (map g T) \<le> amount_where P src"
proof -
  let ?h = "\<lambda>s. if usable s \<and> P s then unat (amount_of s) else 0"
  have sub: "set (map fst T) \<subseteq> set src" using assms(1) by (auto simp: admissible_def)
  have dT: "distinct (map fst T)"
    using assms(1) by (auto simp: admissible_def distinct_map intro: inj_on_imageI2)
  have ds: "distinct src" using assms(2) by (simp add: distinct_map)
  have "sum_list (map g T) \<le> sum_list (map (?h \<circ> fst) T)"
  proof (rule sum_list_mono)
    fix x assume "x \<in> set T"
    then show "g x \<le> (?h \<circ> fst) x" using assms(3) [of "fst x" "snd x"] by simp
  qed
  also have "\<dots> = sum_list (map ?h (map fst T))" by simp
  also have "\<dots> = sum ?h (set (map fst T))" using dT by (rule sum_list_distinct_conv_sum_set)
  also have "\<dots> \<le> sum ?h (set src)" using sub by (intro sum_mono2) auto
  also have "\<dots> = amount_where P src"
    using ds by (simp add: amount_where_def sum_list_distinct_conv_sum_set)
  finally show ?thesis .
qed

lemma payment_within:
  assumes "admissible src T" "distinct (map ms_card_id src)"
  shows "spent_on c T \<le> amount_where (\<lambda>s. produces (kind_of s) c) src"
    and "total_tapped T \<le> amount_where (\<lambda>_. True) src"
proof -
  show "spent_on c T \<le> amount_where (\<lambda>s. produces (kind_of s) c) src"
    unfolding spent_on_def using assms
    by (intro payment_bounded) (auto simp: admissible_def split: option.splits)
  show "total_tapped T \<le> amount_where (\<lambda>_. True) src"
    unfolding total_tapped_def using assms by (intro payment_bounded) (auto simp: admissible_def)
qed

lemma over_max_iff: "over_max m p \<longleftrightarrow> (\<exists>c. pool_get p c < required m c)"
proof -
  have "(\<exists>c. Q c) \<longleftrightarrow> Q White \<or> Q Blue \<or> Q Black \<or> Q Red \<or> Q Green \<or> Q Colorless" for Q
    by (metis color.exhaust)
  then show ?thesis by (simp add: over_max_def)
qed

lemma needed_le: "unat (needed_mana m) \<le> all_required m + unat (mc_generic m)"
proof -
  have sat: "unat a \<le> A \<Longrightarrow> unat (sat_add a b) \<le> A + unat b" for a b :: u8 and A
    by (simp add: unat_sat_add)
  have "unat (needed_mana m) \<le> unat (mc_white m) + unat (mc_blue m) + unat (mc_black m) + unat (mc_red m)
      + unat (mc_green m) + unat (mc_colorless m) + unat (mc_generic m)"
    unfolding needed_mana_def by (intro sat order_refl)
  then show ?thesis by (simp add: all_required_def all_colors_and_colorless_def)
qed

lemma needed_min: "unat (needed_mana m) = min (all_required m + unat (mc_generic m)) 255"
proof -
  have sat: "unat a = min A 255 \<Longrightarrow> unat (sat_add a b) = min (A + unat b) 255" for a b :: u8 and A
    by (simp add: unat_sat_add)
  have "unat (mc_white m) < 2 ^ LENGTH(8)" by (rule unsigned_less)
  then have "unat (mc_white m) = min (unat (mc_white m)) 255" by simp
  then have "unat (needed_mana m) = min (unat (mc_white m) + unat (mc_blue m) + unat (mc_black m)
      + unat (mc_red m) + unat (mc_green m) + unat (mc_colorless m) + unat (mc_generic m)) 255"
    unfolding needed_mana_def by (intro sat)
  then show ?thesis by (simp add: all_required_def all_colors_and_colorless_def add.assoc)
qed

lemma delta_value:
  assumes "amount_where (\<lambda>_. True) src < 128" "counts_ok src b"
  shows "sint (pb_delta b) = int (amount_where (\<lambda>_. True) src)"
proof -
  let ?n = "amount_where (\<lambda>_. True) src"
  have "uint (of_nat ?n :: 16 word) = int ?n"
    using assms(1) by (simp add: uint_nat unat_of_nat)
  moreover have "signed_take_bit 15 (int ?n) = int ?n"
    using assms(1) by (intro signed_take_bit_int_eq_self) simp_all
  ultimately show ?thesis using assms(2) by (simp add: counts_ok_def sint_uint)
qed

lemma bounds_No_sound:
  assumes plain: "plain_sources src" and "payable m src"
  shows "bounds_check_payment m src \<noteq> No"
proof -
  obtain T where T: "admissible src T" "pays m T" using assms(2) by (auto simp: payable_def)
  let ?b = "foldl bounds_step bounds_start src"
  have small: "amount_where (\<lambda>_. True) src < 128" and dist: "distinct (map ms_card_id src)"
    using plain by (simp_all add: plain_sources_def)
  have ok: "counts_ok src ?b" using plain by (intro bounds_counts) (simp_all add: plain_sources_def)
  have "unat (required m c) \<le> unat (pool_get (pb_max ?b) c)" for c
    using T(2) payment_within(1) [OF T(1) dist, of c] ok by (simp add: pays_def counts_ok_def) (meson le_trans)
  then have "\<not> over_max m (pb_max ?b)" by (auto simp: over_max_iff word_less_nat_alt not_less)
  moreover have "unat (needed_mana m) \<le> amount_where (\<lambda>_. True) src"
    using needed_le [of m] T(2) payment_within(2) [OF T(1) dist] by (simp add: pays_def)
  then have "\<not> sint (pb_delta ?b) < uint (needed_mana m)"
    using delta_value [OF small ok] by (simp add: uint_nat del: of_nat_unat)
  ultimately show ?thesis by (simp add: bounds_check_payment_def Let_def)
qed

subsection \<open>A definite yes is payable\<close>

definition only_color :: "mana_source \<Rightarrow> color option" where
  "only_color s = (case kind_of s of Fixed d \<Rightarrow> Some (of_mana_color d) | KColorless \<Rightarrow> Some Colorless | _ \<Rightarrow> None)"

definition tap_all :: "mana_source list \<Rightarrow> payment" where
  "tap_all src = map (\<lambda>s. (s, only_color s)) (filter usable src)"

lemma only_color_Some: "only_color s = Some c \<longleftrightarrow> \<not> flexible_kind (kind_of s) \<and> produces (kind_of s) c"
  by (cases "kind_of s") (auto simp: only_color_def flexible_kind_def)

lemma tap_all_admissible: "plain_sources src \<Longrightarrow> admissible src (tap_all src)"
  by (auto simp: admissible_def tap_all_def plain_sources_def comp_def only_color_Some
      distinct_map_filter split: option.split)

lemma tap_all_sums:
  "spent_on c (tap_all src) = amount_where (\<lambda>s. \<not> flexible_kind (kind_of s) \<and> produces (kind_of s) c) src"
  "total_tapped (tap_all src) = amount_where (\<lambda>_. True) src"
  by (induction src)
    (auto simp: tap_all_def amount_where_def spent_on_def total_tapped_def only_color_Some)

lemma split_by_color:
  "sum_list (map (\<lambda>c. amount_where (\<lambda>s. \<not> flexible_kind (kind_of s) \<and> produces (kind_of s) c) src)
      all_colors_and_colorless) + amount_where (\<lambda>s. flexible_kind (kind_of s)) src
    = amount_where (\<lambda>_. True) src"
proof (induction src)
  case (Cons s src)
  have step: "amount_where P (s # src) = (if usable s \<and> P s then unat (amount_of s) else 0) + amount_where P src" for P
    by (simp add: amount_where_def)
  have one: "sum_list (map (\<lambda>c. if usable s \<and> \<not> flexible_kind (kind_of s) \<and> produces (kind_of s) c
      then unat (amount_of s) else 0) all_colors_and_colorless)
    = (if usable s \<and> \<not> flexible_kind (kind_of s) then unat (amount_of s) else 0)"
  proof (cases "kind_of s")
    case (Fixed d)
    then show ?thesis by (cases d) (simp_all add: all_colors_and_colorless_def flexible_kind_def)
  qed (simp_all add: all_colors_and_colorless_def flexible_kind_def)
  show ?case using Cons one unfolding step by (simp add: sum_list_addf)
qed (simp add: all_colors_and_colorless_def)

lemma unat_sum6:
  fixes a :: u8
  assumes "unat a + unat b + unat c + unat d + unat e + unat f < 256"
  shows "unat (a + b + c + d + e + f) = unat a + unat b + unat c + unat d + unat e + unat f"
  using assms by (simp add: unat_plus_fits)

lemma bounds_Yes_sound:
  assumes plain: "plain_sources src" and yes: "bounds_check_payment m src = Yes"
  shows "payable m src"
proof -
  let ?b = "foldl bounds_step bounds_start src"
  have ok: "counts_ok src ?b" using plain by (intro bounds_counts) (simp_all add: plain_sources_def)
  have small: "amount_where (\<lambda>_. True) src < 128" using plain by (simp add: plain_sources_def)
  have res: "\<not> over_max m (pb_min ?b)" "mc_generic m \<le> pb_flexible ?b + total_excess m (pb_min ?b)"
    using yes by (auto simp: bounds_check_payment_def Let_def split: if_splits)
  have met: "unat (required m c) \<le> unat (pool_get (pb_min ?b) c)" for c
    using res(1) by (simp add: over_max_iff not_less word_le_nat_alt)
  have fixed: "unat (pool_get (pb_min ?b) c) = spent_on c (tap_all src)" for c
    using ok by (simp add: counts_ok_def tap_all_sums)
  have parts: "sum_list (map (\<lambda>c. unat (pool_get (pb_min ?b) c)) all_colors_and_colorless)
      + unat (pb_flexible ?b) = total_tapped (tap_all src)"
    using split_by_color [of src] ok by (simp add: fixed tap_all_sums counts_ok_def)
  have refill: "unat (sat_sub (pool_get (pb_min ?b) c) (required m c)) + unat (required m c)
      = unat (pool_get (pb_min ?b) c)" for c
    using met [of c] by (simp add: unat_sat_sub)
  note six = refill [of White, unfolded pool_get.simps required.simps]
    refill [of Blue, unfolded pool_get.simps required.simps]
    refill [of Black, unfolded pool_get.simps required.simps]
    refill [of Red, unfolded pool_get.simps required.simps]
    refill [of Green, unfolded pool_get.simps required.simps]
    refill [of Colorless, unfolded pool_get.simps required.simps]
  have tot: "total_tapped (tap_all src) < 128" using small by (simp add: tap_all_sums)
  have lt: "unat (mp_white (pb_min ?b)) + unat (mp_blue (pb_min ?b)) + unat (mp_black (pb_min ?b))
      + unat (mp_red (pb_min ?b)) + unat (mp_green (pb_min ?b)) + unat (mp_colorless (pb_min ?b))
      + unat (pb_flexible ?b) = total_tapped (tap_all src)"
    using parts by (simp add: all_colors_and_colorless_def add.assoc)
  have req: "all_required m = unat (mc_white m) + unat (mc_blue m) + unat (mc_black m) + unat (mc_red m)
      + unat (mc_green m) + unat (mc_colorless m)"
    by (simp add: all_required_def all_colors_and_colorless_def)
  have sum: "unat (total_excess m (pb_min ?b)) = unat (sat_sub (mp_white (pb_min ?b)) (mc_white m))
      + unat (sat_sub (mp_blue (pb_min ?b)) (mc_blue m)) + unat (sat_sub (mp_black (pb_min ?b)) (mc_black m))
      + unat (sat_sub (mp_red (pb_min ?b)) (mc_red m)) + unat (sat_sub (mp_green (pb_min ?b)) (mc_green m))
      + unat (sat_sub (mp_colorless (pb_min ?b)) (mc_colorless m))"
    unfolding total_excess_def by (rule unat_sum6) (use six lt tot in linarith)
  have excess: "unat (total_excess m (pb_min ?b)) + all_required m + unat (pb_flexible ?b)
      = total_tapped (tap_all src)"
    using six lt unfolding sum req by linarith
  have "unat (pb_flexible ?b + total_excess m (pb_min ?b)) = unat (pb_flexible ?b) + unat (total_excess m (pb_min ?b))"
    using excess small by (intro unat_plus_fits) (simp add: tap_all_sums)
  then have "all_required m + unat (mc_generic m) \<le> total_tapped (tap_all src)"
    using res(2) excess by (simp add: word_le_nat_alt)
  then have "pays m (tap_all src)" using met by (simp add: pays_def fixed)
  then show ?thesis using tap_all_admissible [OF plain] by (auto simp: payable_def)
qed

text \<open>Without flexible sources the check decides.\<close>

definition simple_sources :: "mana_source list \<Rightarrow> bool" where
  "simple_sources src \<longleftrightarrow> (\<forall>s \<in> set src. usable s \<longrightarrow> is_simple_kind (kind_of s))"

lemma simple_not_flexible: "is_simple_kind k \<longleftrightarrow> \<not> flexible_kind k"
  by (cases k) (simp_all add: is_simple_kind_def flexible_kind_def)

lemma simple_bounds_pay:
  assumes plain: "plain_sources src" and simple: "simple_sources src" and no: "bounds_check_payment m src \<noteq> No"
  shows "pays m (tap_all src)"
proof -
  let ?b = "foldl bounds_step bounds_start src"
  have ok: "counts_ok src ?b" using plain by (intro bounds_counts) (simp_all add: plain_sources_def)
  have small: "amount_where (\<lambda>_. True) src < 128" using plain by (simp add: plain_sources_def)
  have res: "\<not> over_max m (pb_max ?b)" "\<not> sint (pb_delta ?b) < uint (needed_mana m)"
    using no by (auto simp: bounds_check_payment_def Let_def split: if_splits)
  have same: "amount_where (\<lambda>s. produces (kind_of s) c) src
      = amount_where (\<lambda>s. \<not> flexible_kind (kind_of s) \<and> produces (kind_of s) c) src" for c
    unfolding amount_where_def using simple
    by (intro arg_cong [where f = sum_list] map_cong) (auto simp: simple_sources_def simple_not_flexible)
  have met: "unat (required m c) \<le> spent_on c (tap_all src)" for c
    using res(1) ok by (simp add: over_max_iff not_less word_le_nat_alt counts_ok_def same tap_all_sums)
  have "unat (needed_mana m) \<le> amount_where (\<lambda>_. True) src"
    using res(2) delta_value [OF small ok] by (simp add: uint_nat del: of_nat_unat)
  moreover have "unat (needed_mana m) = min (all_required m + unat (mc_generic m)) 255"
    by (rule needed_min)
  ultimately have "all_required m + unat (mc_generic m) \<le> total_tapped (tap_all src)"
    using small by (simp add: tap_all_sums)
  then show ?thesis using met by (simp add: pays_def)
qed

subsection \<open>The order of the simple resolver\<close>

lemma tap_matching_spec:
  assumes "distinct (map ms_card_id src)" "unat t + amount_where (\<lambda>_. True) src < 256"
  shows "\<exists>S. fst (tap_matching P n src ord t) = ord @ map ms_card_id S \<and> distinct (map ms_card_id S)
    \<and> (\<forall>s \<in> set S. s \<in> set src \<and> usable s \<and> ms_card_id s \<notin> set ord \<and> P (kind_of s))
    \<and> unat (snd (tap_matching P n src ord t)) = unat t + sum_list (map (unat \<circ> amount_of) S)
    \<and> (n \<le> snd (tap_matching P n src ord t)
       \<or> (\<forall>s \<in> set src. usable s \<and> ms_card_id s \<notin> set ord \<and> P (kind_of s) \<longrightarrow> s \<in> set S))"
    (is "\<exists>S. ?Q src ord t S")
  using assms
proof (induction src arbitrary: ord t)
  case Nil
  show ?case by (intro exI [of _ "[]"]) simp
next
  case (Cons s src)
  have split: "amount_where (\<lambda>_. True) (s # src)
      = (if usable s then unat (amount_of s) else 0) + amount_where (\<lambda>_. True) src"
    by (simp add: amount_where_def)
  let ?skip = "ms_is_tapped s \<or> ms_has_summoning_sickness s \<or> ms_card_id s \<in> set ord"
  consider (enough) "n \<le> t" | (skip) "\<not> n \<le> t" "?skip \<or> \<not> P (kind_of s)"
    | (tap) "\<not> n \<le> t" "\<not> ?skip" "P (kind_of s)" by blast
  then show ?case
  proof cases
    case enough
    then show ?thesis by (intro exI [of _ "[]"]) simp
  next
    case skip
    have "unat t + amount_where (\<lambda>_. True) src < 256" using Cons.prems(2) split by simp
    then obtain S where "?Q src ord t S" using Cons.IH Cons.prems(1) by fastforce
    moreover have "tap_matching P n (s # src) ord t = tap_matching P n src ord t" using skip by auto
    ultimately show ?thesis using skip by (intro exI [of _ S]) (auto simp: usable_def)
  next
    case tap
    have u: "usable s" using tap by (simp add: usable_def)
    then have sum: "unat (sat_add t (amount_of s)) = unat t + unat (amount_of s)"
      using Cons.prems(2) split by (simp add: unat_sat_add)
    then have less: "unat (sat_add t (amount_of s)) + amount_where (\<lambda>_. True) src < 256"
      using Cons.prems(2) split u by simp
    have dd: "distinct (map ms_card_id src)" using Cons.prems(1) by simp
    obtain S where all: "?Q src (ord @ [ms_card_id s]) (sat_add t (amount_of s)) S"
      using Cons.IH [OF dd less, of "ord @ [ms_card_id s]"] ..
    note S = all [THEN conjunct1] and dS = all [THEN conjunct2, THEN conjunct1]
      and inS = all [THEN conjunct2, THEN conjunct2, THEN conjunct1, rule_format]
      and tS = all [THEN conjunct2, THEN conjunct2, THEN conjunct2, THEN conjunct1]
      and full = all [THEN conjunct2, THEN conjunct2, THEN conjunct2, THEN conjunct2]
    have eq: "tap_matching P n (s # src) ord t = tap_matching P n src (ord @ [ms_card_id s]) (sat_add t (amount_of s))"
      using tap by simp
    have other: "ms_card_id r \<noteq> ms_card_id s" if "r \<in> set src" for r
    proof
      assume same: "ms_card_id r = ms_card_id s"
      have "ms_card_id r \<in> ms_card_id ` set src" using that by (rule imageI)
      then show False using Cons.prems(1) unfolding same by simp
    qed
    show ?thesis
    proof (intro exI [of _ "s # S"] conjI ballI)
      show "fst (tap_matching P n (s # src) ord t) = ord @ map ms_card_id (s # S)" by (simp only: eq S) simp
      show "distinct (map ms_card_id (s # S))" using dS inS by fastforce
      show "unat (snd (tap_matching P n (s # src) ord t)) = unat t + sum_list (map (unat \<circ> amount_of) (s # S))"
        by (simp only: eq tS sum) (simp add: comp_def)
      show "n \<le> snd (tap_matching P n (s # src) ord t)
          \<or> (\<forall>r \<in> set (s # src). usable r \<and> ms_card_id r \<notin> set ord \<and> P (kind_of r) \<longrightarrow> r \<in> set (s # S))"
        using full other unfolding eq by force
    qed (use inS u tap in auto)
  qed
qed

fun kind_for :: "color \<Rightarrow> mana_production_kind" where
  "kind_for White = Fixed MWhite"
| "kind_for Blue = Fixed MBlue"
| "kind_for Black = Fixed MBlack"
| "kind_for Red = Fixed MRed"
| "kind_for Green = Fixed MGreen"
| "kind_for Colorless = KColorless"

lemma kind_for_produces: "produces (kind_for c) d \<longleftrightarrow> c = d" "\<not> flexible_kind (kind_for c)"
  by (cases c; cases d; simp) (cases c; simp add: flexible_kind_def)

lemma kind_for_iff: "\<not> flexible_kind k \<and> produces k c \<longleftrightarrow> k = kind_for c"
proof (cases k)
  case (Fixed d)
  then show ?thesis by (cases d; cases c) (simp_all add: flexible_kind_def)
next
  case KColorless
  then show ?thesis by (cases c) (simp_all add: flexible_kind_def)
next
  case (Choice cs)
  then show ?thesis by (cases c) (simp_all add: flexible_kind_def)
next
  case AnyColor
  then show ?thesis by (cases c) (simp_all add: flexible_kind_def)
qed

text \<open>The invariant of its phases is exact: the surplus is what is tapped beyond what was paid.\<close>

definition exactly_paid :: "color list \<Rightarrow> mana_cost \<Rightarrow> mana_source list \<Rightarrow> card_id list \<times> u8 \<Rightarrow> payment \<Rightarrow> bool" where
  "exactly_paid cs m src st T \<longleftrightarrow> paid_so_far cs m src st T
     \<and> (\<forall>(s, d) \<in> set T. \<exists>c \<in> set cs. d = Some c \<and> kind_of s = kind_for c)
     \<and> unat (snd st) + sum_list (map (\<lambda>c. unat (required m c)) cs) = total_tapped T"

text \<open>Summing over sources tapped in part.\<close>

lemma distinct_amounts:
  assumes "distinct (map ms_card_id src)" "distinct (map ms_card_id S)"
    and "\<And>s. s \<in> set S \<longleftrightarrow> s \<in> set src \<and> usable s \<and> P s"
  shows "sum_list (map (unat \<circ> amount_of) S) = amount_where P src"
proof -
  have d: "distinct S" "distinct src" using assms(1,2) by (auto simp: distinct_map)
  have "sum_list (map (unat \<circ> amount_of) S) = sum (unat \<circ> amount_of) (set S)"
    using d(1) by (rule sum_list_distinct_conv_sum_set)
  also have "set S = {s \<in> set src. usable s \<and> P s}" using assms(3) by blast
  also have "sum (unat \<circ> amount_of) {s \<in> set src. usable s \<and> P s}
      = sum (\<lambda>s. if usable s \<and> P s then unat (amount_of s) else 0) (set src)"
    by (simp add: sum.inter_filter)
  also have "\<dots> = amount_where P src"
    using d(2) by (simp add: amount_where_def sum_list_distinct_conv_sum_set)
  finally show ?thesis .
qed

lemma fixed_phase:
  assumes plain: "plain_sources src" and inv: "exactly_paid cs m src (ord, ex) T" and new: "c \<notin> set cs"
    and enough: "unat (required m c) \<le> spent_on c (tap_all src)"
    and st: "tap_matching (\<lambda>k. k = kind_for c) (required m c) src ord 0 = (ord', t)"
  shows "\<exists>T'. exactly_paid (cs @ [c]) m src (ord', sat_add ex (sat_sub t (required m c))) T'"
proof -
  have dist: "distinct (map ms_card_id src)" and small: "amount_where (\<lambda>_. True) src < 128"
    using plain by (simp_all add: plain_sources_def)
  obtain S where S: "ord' = ord @ map ms_card_id S" "distinct (map ms_card_id S)"
    "\<And>s. s \<in> set S \<Longrightarrow> s \<in> set src \<and> usable s \<and> ms_card_id s \<notin> set ord \<and> kind_of s = kind_for c"
    "unat t = sum_list (map (unat \<circ> amount_of) S)"
    "required m c \<le> t \<or> (\<forall>s \<in> set src. usable s \<and> ms_card_id s \<notin> set ord \<and> kind_of s = kind_for c \<longrightarrow> s \<in> set S)"
    using tap_matching_spec [OF dist, of 0 "\<lambda>k. k = kind_for c" "required m c" ord] small st by auto
  have ordT: "ord = map (ms_card_id \<circ> fst) T" using inv by (simp add: exactly_paid_def paid_so_far_def)
  have untapped: "ms_card_id s \<notin> set ord" if "s \<in> set src" "kind_of s = kind_for c" for s
  proof
    assume "ms_card_id s \<in> set ord"
    then obtain r d where r: "(r, d) \<in> set T" "ms_card_id r = ms_card_id s" unfolding ordT by auto
    then have "r \<in> set src" "\<exists>c' \<in> set cs. kind_of r = kind_for c'"
      using inv by (auto simp: exactly_paid_def paid_so_far_def admissible_def)
    moreover have "r = s" using calculation(1) that(1) r(2) dist by (simp add: distinct_map inj_on_def)
    ultimately show False using that(2) new kind_for_produces(1) by metis
  qed
  have full: "required m c \<le> t"
  proof (rule ccontr)
    assume few: "\<not> required m c \<le> t"
    have "s \<in> set S \<longleftrightarrow> s \<in> set src \<and> usable s \<and> kind_of s = kind_for c" for s
    proof
      show "s \<in> set S \<Longrightarrow> s \<in> set src \<and> usable s \<and> kind_of s = kind_for c" using S(3) by simp
      show "s \<in> set src \<and> usable s \<and> kind_of s = kind_for c \<Longrightarrow> s \<in> set S"
        using S(5) untapped few by (elim conjE disjE) simp_all
    qed
    then have "sum_list (map (unat \<circ> amount_of) S) = amount_where (\<lambda>s. kind_of s = kind_for c) src"
      by (rule distinct_amounts [OF dist S(2)])
    then have "unat t = amount_where (\<lambda>s. kind_of s = kind_for c) src" using S(4) by simp
    then have "unat t = spent_on c (tap_all src)" by (simp add: tap_all_sums kind_for_iff)
    then show False using enough few by (simp add: word_le_nat_alt)
  qed
  let ?T = "T @ map (\<lambda>s. (s, Some c)) S"
  have adm: "admissible src ?T"
  proof (rule admissible_append)
    show "admissible src T" using inv by (simp add: exactly_paid_def paid_so_far_def)
    show "distinct (map ms_card_id S)" by (rule S(2))
  qed (use S(3) ordT in \<open>auto simp: kind_for_produces\<close>)
  have le: "unat (required m c) \<le> unat t" using full by (simp add: word_le_nat_alt)
  have "total_tapped ?T \<le> amount_where (\<lambda>_. True) src" by (rule payment_within(2) [OF adm dist])
  then have bound: "total_tapped T + unat t < 128" using small S(4) by simp
  have ex: "unat ex + sum_list (map (\<lambda>c. unat (required m c)) cs) = total_tapped T"
    using inv by (simp add: exactly_paid_def)
  have "unat (sat_add ex (sat_sub t (required m c))) = unat ex + (unat t - unat (required m c))"
    using bound ex by (simp add: unat_sat_add unat_sat_sub)
  then have sum: "unat (sat_add ex (sat_sub t (required m c))) + sum_list (map (\<lambda>c. unat (required m c)) (cs @ [c]))
      = total_tapped ?T"
    using ex le S(4) by simp
  have met: "unat (required m d) \<le> spent_on d ?T" if "d \<in> set (cs @ [c])" for d
  proof (cases "d = c")
    case True
    then show ?thesis using le S(4) by simp
  next
    case False
    then show ?thesis using that inv by (auto simp: exactly_paid_def paid_so_far_def)
  qed
  have tags: "\<exists>d \<in> set (cs @ [c]). e = Some d \<and> kind_of s = kind_for d" if "(s, e) \<in> set ?T" for s e
    using that inv S(3) by (auto simp: exactly_paid_def)
  have "ord' = map (ms_card_id \<circ> fst) ?T" using ordT S(1) by (simp add: comp_def)
  then have "paid_so_far (cs @ [c]) m src (ord', sat_add ex (sat_sub t (required m c))) ?T"
    using adm met sum by (simp add: paid_so_far_def)
  then have "exactly_paid (cs @ [c]) m src (ord', sat_add ex (sat_sub t (required m c))) ?T"
    using sum tags unfolding exactly_paid_def by auto
  then show ?thesis by blast
qed

lemma tap_matching_0: "tap_matching P 0 src ord 0 = (ord, 0)"
  by (cases src) simp_all

lemma tap_fixed_phase:
  assumes "plain_sources src" "\<exists>T. exactly_paid cs m src st T" "of_mana_color c \<notin> set cs"
    and "\<And>c. unat (required m c) \<le> spent_on c (tap_all src)"
  shows "\<exists>T. exactly_paid (cs @ [of_mana_color c]) m src (tap_fixed c (required m (of_mana_color c)) src st) T"
proof -
  obtain ord ex where st: "st = (ord, ex)" by force
  obtain ord' t where r: "tap_matching (\<lambda>k. k = kind_for (of_mana_color c)) (required m (of_mana_color c)) src ord 0
      = (ord', t)" by force
  have k: "kind_for (of_mana_color c) = Fixed c" by (cases c) simp_all
  have "tap_fixed c (required m (of_mana_color c)) src st
      = (ord', sat_add ex (sat_sub t (required m (of_mana_color c))))"
    using r unfolding k by (auto simp: tap_fixed_def st tap_matching_0)
  then show ?thesis
    using fixed_phase [OF assms(1) _ assms(3,4) r] assms(2) by (auto simp: st)
qed

lemma all_tapped_total:
  assumes "distinct (map ms_card_id src)" "admissible src T"
    and "\<And>s. s \<in> set src \<Longrightarrow> usable s \<Longrightarrow> ms_card_id s \<in> set (map (ms_card_id \<circ> fst) T)"
  shows "total_tapped T = amount_where (\<lambda>_. True) src"
proof -
  have sum: "total_tapped T = sum_list (map (unat \<circ> amount_of) (map fst T))"
    by (simp add: total_tapped_def comp_def case_prod_unfold)
  show ?thesis
    unfolding sum
  proof (rule distinct_amounts [OF assms(1)])
    show "distinct (map ms_card_id (map fst T))" using assms(2) by (simp add: admissible_def)
    show "s \<in> set (map fst T) \<longleftrightarrow> s \<in> set src \<and> usable s \<and> True" for s
    proof
      assume "s \<in> set (map fst T)"
      then show "s \<in> set src \<and> usable s \<and> True" using assms(2) by (auto simp: admissible_def)
    next
      assume s: "s \<in> set src \<and> usable s \<and> True"
      then obtain r d where r: "(r, d) \<in> set T" "ms_card_id r = ms_card_id s" using assms(3) [of s] by force
      then have "r \<in> set src" using assms(2) by (auto simp: admissible_def)
      then have "r = s" using r(2) s assms(1) by (simp add: distinct_map inj_on_def)
      then show "s \<in> set (map fst T)" using r(1) by force
    qed
  qed
qed

lemma generic_phase:
  assumes plain: "plain_sources src" and inv: "exactly_paid all_colors_and_colorless m src (ord, ex) T"
    and enough: "all_required m + unat (mc_generic m) \<le> total_tapped (tap_all src)"
    and g: "g = mc_generic m - min (mc_generic m) ex"
    and simple: "simple_sources src"
  shows "\<exists>T. fst (tap_matching is_simple_kind g src ord 0) = map (ms_card_id \<circ> fst) T \<and> admissible src T \<and> pays m T"
proof -
  have dist: "distinct (map ms_card_id src)" and small: "amount_where (\<lambda>_. True) src < 128"
    using plain by (simp_all add: plain_sources_def)
  obtain ord' t where r: "tap_matching is_simple_kind g src ord 0 = (ord', t)" by force
  obtain S where S: "ord' = ord @ map ms_card_id S" "distinct (map ms_card_id S)"
    "\<And>s. s \<in> set S \<Longrightarrow> s \<in> set src \<and> usable s \<and> ms_card_id s \<notin> set ord \<and> is_simple_kind (kind_of s)"
    "unat t = sum_list (map (unat \<circ> amount_of) S)"
    "g \<le> t \<or> (\<forall>s \<in> set src. usable s \<and> ms_card_id s \<notin> set ord \<and> is_simple_kind (kind_of s) \<longrightarrow> s \<in> set S)"
    using tap_matching_spec [OF dist, of 0 is_simple_kind g ord] small r by auto
  have paid: "ord = map (ms_card_id \<circ> fst) T" "admissible src T"
    "unat ex + all_required m = total_tapped T"
    using inv by (simp_all add: exactly_paid_def paid_so_far_def all_required_def)
  let ?T = "T @ map (\<lambda>s. (s, None)) S"
  have adm: "admissible src ?T"
  proof (rule admissible_append)
    have "is_simple_kind k \<Longrightarrow> kind_produces_mana k" for k by (cases k) (simp_all add: is_simple_kind_def)
    then show "s \<in> set S \<Longrightarrow> s \<in> set src \<and> usable s \<and> ms_card_id s \<notin> set (map (ms_card_id \<circ> fst) T)
      \<and> (case None of Some c \<Rightarrow> produces (kind_of s) c | None \<Rightarrow> kind_produces_mana (kind_of s))" for s
      using S(3) paid(1) by simp
  qed (fact paid(2) S(2))+
  have ord: "ord' = map (ms_card_id \<circ> fst) ?T" using paid(1) S(1) by (simp add: comp_def)
  have "all_required m + unat (mc_generic m) \<le> total_tapped ?T"
  proof (cases "g \<le> t")
    case True
    have "unat g = unat (mc_generic m) - min (unat (mc_generic m)) (unat ex)"
      unfolding g by (cases "mc_generic m \<le> ex") (simp_all add: min_def unat_sub word_le_nat_alt)
    then show ?thesis using True S(4) paid(3) by (simp add: word_le_nat_alt)
  next
    case False
    have "total_tapped ?T = amount_where (\<lambda>_. True) src"
    proof (rule all_tapped_total [OF dist adm])
      fix s assume s: "s \<in> set src" "usable s"
      then have "is_simple_kind (kind_of s)" using simple by (simp add: simple_sources_def)
      then show "ms_card_id s \<in> set (map (ms_card_id \<circ> fst) ?T)"
        using False S(1,5) s unfolding ord [symmetric] by auto
    qed
    then show ?thesis using enough by (simp add: tap_all_sums)
  qed
  moreover have "unat (required m c) \<le> spent_on c ?T" for c
  proof -
    have "c \<in> set all_colors_and_colorless" by (cases c) (simp_all add: all_colors_and_colorless_def)
    then show ?thesis using inv by (auto simp: exactly_paid_def paid_so_far_def)
  qed
  ultimately have "pays m ?T" by (simp add: pays_def)
  then show ?thesis using adm ord r by (intro exI [of _ ?T] conjI) simp_all
qed

text \<open>The order the simple resolver hands back pays the cost.\<close>

lemma simple_order_pays:
  assumes plain: "plain_sources src" and simple: "simple_sources src"
    and pay: "pays m (tap_all src)"
  shows "\<exists>T. simple_tap_order m src = map (ms_card_id \<circ> fst) T \<and> admissible src T \<and> pays m T"
proof -
  have met: "unat (required m c) \<le> spent_on c (tap_all src)" for c using pay by (simp add: pays_def)
  let ?s1 = "tap_fixed MWhite (mc_white m) src ([], 0)"
  let ?s2 = "tap_fixed MBlue (mc_blue m) src ?s1"
  let ?s3 = "tap_fixed MBlack (mc_black m) src ?s2"
  let ?s4 = "tap_fixed MRed (mc_red m) src ?s3"
  let ?s5 = "tap_fixed MGreen (mc_green m) src ?s4"
  note phase = tap_fixed_phase [OF plain _ _ met]
  have "\<exists>T. exactly_paid [] m src ([], 0) T"
    by (intro exI [of _ "[]"]) (simp add: exactly_paid_def paid_so_far_def admissible_def)
  then have "\<exists>T. exactly_paid [White] m src ?s1 T" using phase [of "[]" "([], 0)" MWhite] by simp
  then have "\<exists>T. exactly_paid [White, Blue] m src ?s2 T" using phase [of "[White]" ?s1 MBlue] by simp
  then have "\<exists>T. exactly_paid [White, Blue, Black] m src ?s3 T"
    using phase [of "[White, Blue]" ?s2 MBlack] by simp
  then have "\<exists>T. exactly_paid [White, Blue, Black, Red] m src ?s4 T"
    using phase [of "[White, Blue, Black]" ?s3 MRed] by simp
  then have "\<exists>T. exactly_paid [White, Blue, Black, Red, Green] m src ?s5 T"
    using phase [of "[White, Blue, Black, Red]" ?s4 MGreen] by simp
  then obtain T5 where T5: "exactly_paid [White, Blue, Black, Red, Green] m src (fst ?s5, snd ?s5) T5" by auto
  obtain order1 tc where r: "tap_matching (\<lambda>k. k = KColorless) (mc_colorless m) src (fst ?s5) 0 = (order1, tc)"
    by force
  obtain T where T: "exactly_paid all_colors_and_colorless m src
      (order1, sat_add (snd ?s5) (sat_sub tc (mc_colorless m))) T"
    using fixed_phase [OF plain T5 _ met, of Colorless order1 tc] r by (auto simp: all_colors_and_colorless_def)
  define g where "g = mc_generic m - min (mc_generic m) (sat_add (snd ?s5) (sat_sub tc (mc_colorless m)))"
  have "simple_tap_order m src = fst (tap_matching is_simple_kind g src order1 0)"
    unfolding simple_tap_order_def Let_def r
    by (cases "mc_generic m = 0") (simp_all add: case_prod_unfold g_def word_gt_0)
  then show ?thesis using generic_phase [OF plain T _ g_def simple] pay by (simp add: pays_def)
qed

end
