(* ===== verification/ContinuousEffects.thy ===== *)
theory ContinuousEffects
  imports GameState
begin

section \<open>Continuous effects: granted keywords and the power and toughness layers\<close>

text \<open>
  \<open>mtg-engine/src/game/continuous_effects.rs\<close> with the helpers it calls (\<open>get_attached_equipment\<close>,
  \<open>get_attached_auras\<close>, \<open>count_cards_matching_filter\<close> of \<open>game/actions/mod.rs\<close>, \<open>opalescence_pt\<close> of
  \<open>game/state.rs\<close>). The selector match, the inline match of the power and toughness layer and the one
  of the keyword layer are three separate matches in the code and three definitions here.

  A selector can ask whether the creature has flying, which scans the keyword grants, whose selectors
  can ask again. That recursion is the fuel of \<open>get_granted_keywords\<close>: one unit per scan; \<open>OutOfFuel\<close>
  stands for a scan inside a scan that deep.
\<close>

subsection \<open>Attachments and counting\<close>

definition attached_where :: "(card \<Rightarrow> bool) \<Rightarrow> game_state \<Rightarrow> card_id \<Rightarrow> card_id list" where
  "attached_where P g c = filter (\<lambda>i. case card_of g i of
       None \<Rightarrow> False | Some k \<Rightarrow> P k \<and> c_attached_to k = Some c) (z_cards (gs_battlefield g))"

definition get_attached_equipment :: "game_state \<Rightarrow> card_id \<Rightarrow> card_id list" where
  "get_attached_equipment = attached_where is_equipment"

definition get_attached_auras :: "game_state \<Rightarrow> card_id \<Rightarrow> card_id list" where
  "get_attached_auras = attached_where is_aura"

text \<open>The zone a filter counts in; \<open>None\<close> where the code returns zero at once.\<close>

fun filter_zone :: "game_state \<Rightarrow> player_id \<Rightarrow> zone \<Rightarrow> card_id list option" where
  "filter_zone g p Battlefield = Some (z_cards (gs_battlefield g))"
| "filter_zone g p Graveyard = map_option (\<lambda>z. z_cards (pz_graveyard z)) (get_player_zones g p)"
| "filter_zone g p Hand = map_option (\<lambda>z. z_cards (pz_hand z)) (get_player_zones g p)"
| "filter_zone g p Exile = map_option (\<lambda>z. z_cards (pz_exile z)) (get_player_zones g p)"
| "filter_zone g p Library = map_option (\<lambda>z. z_cards (pz_library z)) (get_player_zones g p)"
| "filter_zone g p Stack = None"
| "filter_zone g p Command = None"

text \<open>\<open>splitn(2, '.')\<close> and the qualifiers joined by \<open>+\<close>; the first ownership qualifier counts.\<close>

definition filter_type :: "string \<Rightarrow> string" where
  "filter_type f = takeWhile (\<lambda>ch. ch \<noteq> CHR ''.'') f"

definition filter_quals :: "string \<Rightarrow> string list" where
  "filter_quals f = (case dropWhile (\<lambda>ch. ch \<noteq> CHR ''.'') f of
     [] \<Rightarrow> [] | _ # rest \<Rightarrow> split_on (CHR ''+'') rest)"

definition filter_ownership :: "string list \<Rightarrow> string" where
  "filter_ownership quals = unwrap_or
     (find (\<lambda>q. q \<in> {''YouOwn'', ''OppOwn'', ''YouCtrl'', ''OppCtrl''}) quals) ''YouOwn''"

definition ownership_ok :: "player_id \<Rightarrow> string \<Rightarrow> card \<Rightarrow> bool" where
  "ownership_ok p o' k =
     (if o' = ''YouOwn'' then c_owner k = p
      else if o' = ''OppOwn'' then c_owner k \<noteq> p
      else if o' = ''YouCtrl'' then c_controller k = p
      else if o' = ''OppCtrl'' then c_controller k \<noteq> p
      else True)"

definition filter_type_ok :: "string \<Rightarrow> card \<Rightarrow> bool" where
  "filter_type_ok t k =
     (if t \<in> {'''', ''Card'', ''Permanent''} then True
      else if t = ''Land'' then is_land k
      else if t = ''Artifact'' then is_artifact k
      else if t = ''Creature'' then is_creature k
      else if t = ''Enchantment'' then is_enchantment k
      else if t = ''Instant'' then Instant \<in> set (c_types k)
      else if t = ''Sorcery'' then Sorcery \<in> set (c_types k)
      else if t = ''Planeswalker'' then Planeswalker \<in> set (c_types k)
      else t \<in> set (c_subtypes k))"

definition color_qual_ok :: "card \<Rightarrow> string \<Rightarrow> bool" where
  "color_qual_ok k q =
     (if q = ''White'' then White \<in> set (c_colors k)
      else if q = ''Blue'' then Blue \<in> set (c_colors k)
      else if q = ''Black'' then Black \<in> set (c_colors k)
      else if q = ''Red'' then Red \<in> set (c_colors k)
      else if q = ''Green'' then Green \<in> set (c_colors k)
      else True)"

definition count_single_filter :: "game_state \<Rightarrow> player_id \<Rightarrow> string \<Rightarrow> zone \<Rightarrow> nat" where
  "count_single_filter g p f z = (let
       t = filter_type f; quals = filter_quals f; own = filter_ownership quals;
       reserved_owner_matches = gs_is_shadow_game g \<and> t \<in> {'''', ''Card'', ''Permanent''}
         \<and> own \<in> {''YouOwn'', ''YouCtrl''}
         \<and> \<not> list_ex (\<lambda>q. q \<in> {''White'', ''Blue'', ''Black'', ''Red'', ''Green''}) quals in
     case filter_zone g p z of
       None \<Rightarrow> 0
     | Some ids \<Rightarrow> length (filter (\<lambda>i. case card_of g i of
           None \<Rightarrow> reserved_owner_matches
         | Some k \<Rightarrow> ownership_ok p own k \<and> filter_type_ok t k \<and> list_all (color_qual_ok k) quals) ids))"

text \<open>A filter with commas counts the distinct cards that match some part; a part that counts nothing by
  itself is skipped, and the scan for the cards of a part reads its type and ownership only.\<close>

definition part_matches :: "game_state \<Rightarrow> player_id \<Rightarrow> zone \<Rightarrow> string \<Rightarrow> card_id list" where
  "part_matches g p z part = (case filter_zone g p z of
       None \<Rightarrow> []
     | Some ids \<Rightarrow> if part = [] \<or> count_single_filter g p part z = 0 then []
         else filter (\<lambda>i. case card_of g i of None \<Rightarrow> False
           | Some k \<Rightarrow> ownership_ok p (filter_ownership (filter_quals part)) k
               \<and> filter_type_ok (filter_type part) k) ids)"

definition count_cards_matching_filter :: "game_state \<Rightarrow> player_id \<Rightarrow> string \<Rightarrow> zone \<Rightarrow> nat" where
  "count_cards_matching_filter g p f z =
     (if CHR '','' \<in> set f
      then card (set (concat (map (part_matches g p z) (map trim (split_on (CHR '','') f)))))
      else count_single_filter g p f z)"

fun static_condition_met :: "game_state \<Rightarrow> static_condition \<Rightarrow> player_id \<Rightarrow> bool" where
  "static_condition_met g PlayerTurn p = (ts_active_player (gs_turn g) = p)"
| "static_condition_met g NotPlayerTurn p = (ts_active_player (gs_turn g) \<noteq> p)"
| "static_condition_met g (ControlsPresent f z n) p = (unat n \<le> count_cards_matching_filter g p f z)"

text \<open>\<open>if let Some(cond) = condition { if !met { continue } }\<close>.\<close>

definition condition_holds :: "game_state \<Rightarrow> static_condition option \<Rightarrow> card \<Rightarrow> bool" where
  "condition_holds g cond src = (case cond of None \<Rightarrow> True | Some d \<Rightarrow> static_condition_met g d (c_controller src))"

subsection \<open>The selector match\<close>

text \<open>The arguments of each match: the permanent \<open>c\<close> with its card \<open>k\<close>, the source \<open>s\<close> with its card \<open>src\<close>.\<close>

definition selector_counter :: "string \<Rightarrow> card \<Rightarrow> u8" where
  "selector_counter t src =
     (if t = ''CHARGE'' then get_counter src ''Charge''
      else if t = ''P1P1'' then get_counter src P1P1
      else if t = ''DIVINITY'' then get_counter src ''Divinity''
      else 0)"

definition basic_land_name :: "string \<Rightarrow> bool" where
  "basic_land_name n = (n \<in> {''Plains'', ''Island'', ''Swamp'', ''Mountain'', ''Forest''})"

definition cost_has_color :: "card \<Rightarrow> string \<Rightarrow> bool" where
  "cost_has_color k col =
     (if col = ''White'' then 0 < mc_white (c_mana_cost k)
      else if col = ''Blue'' then 0 < mc_blue (c_mana_cost k)
      else if col = ''Black'' then 0 < mc_black (c_mana_cost k)
      else if col = ''Red'' then 0 < mc_red (c_mana_cost k)
      else if col = ''Green'' then 0 < mc_green (c_mana_cost k)
      else False)"

definition has_subtype :: "card \<Rightarrow> string \<Rightarrow> bool" where
  "has_subtype k t = (t \<in> set (c_subtypes k))"

fun self_matches :: "game_state \<Rightarrow> own_selector \<Rightarrow> card_id \<Rightarrow> card \<Rightarrow> card_id \<Rightarrow> card \<Rightarrow> bool" where
  "self_matches g SelfCard c k s src = (c = s)"
| "self_matches g SelfWhenEquipped c k s src = (c = s \<and> get_attached_equipment g c \<noteq> [])"
| "self_matches g SelfWhenEnchanted c k s src = (c = s \<and> get_attached_auras g c \<noteq> [])"
| "self_matches g SelfWhenAttacking c k s src = (c = s \<and> is_attacking (gs_combat g) c)"
| "self_matches g SelfWhenUntapped c k s src = (c = s \<and> \<not> c_tapped k)"
| "self_matches g SelfWhenMonstrous c k s src = False"
| "self_matches g SelfWhenRenowned c k s src = False"
| "self_matches g (SelfWithCounters t n) c k s src = (c = s \<and> (ucast n :: u8) \<le> selector_counter t src)"
| "self_matches g SelfThisTurnEntered c k s src =
     (c = s \<and> c_turn_entered_battlefield k = Some (ts_turn_number (gs_turn g)))"
| "self_matches g SelfTopLibrary c k s src = False"
| "self_matches g SelfWhenTapped c k s src = (c = s \<and> c_tapped k)"
| "self_matches g SelfWhenCast c k s src = (c = s)"
| "self_matches g SelfWhenNotAttacking c k s src = (c = s \<and> \<not> is_attacking (gs_combat g) c)"
| "self_matches g SelfWhenNotInCombat c k s src =
     (c = s \<and> \<not> is_attacking (gs_combat g) c \<and> \<not> is_blocking (gs_combat g) c)"

fun attached_matches :: "game_state \<Rightarrow> attached_selector \<Rightarrow> card_id \<Rightarrow> card \<Rightarrow> card_id \<Rightarrow> card \<Rightarrow> bool" where
  "attached_matches g CreatureEquippedBy c k s src = (s \<in> set (get_attached_equipment g c))"
| "attached_matches g LandAttachedBy c k s src = False"
| "attached_matches g CreatureEnchantedBy c k s src = (s \<in> set (get_attached_auras g c))"
| "attached_matches g CreatureAttachedBy c k s src = (c_attached_to src = Some c)"
| "attached_matches g ArtifactEnchantedBy c k s src = (s \<in> set (get_attached_auras g c))"
| "attached_matches g PlaneswalkerEnchantedBy c k s src = (s \<in> set (get_attached_auras g c))"
| "attached_matches g EquipmentEnchantedBy c k s src = (s \<in> set (get_attached_auras g c))"
| "attached_matches g LandEnchantedBy c k s src = False"
| "attached_matches g CardAttachedBy c k s src = (c_attached_to src = Some c)"
| "attached_matches g HumanEquippedBy c k s src =
     (s \<in> set (get_attached_equipment g c) \<and> has_subtype k ''Human'')"
| "attached_matches g EquippedByLegendary c k s src = list_ex (\<lambda>e. case card_of g e of
       None \<Rightarrow> False | Some q \<Rightarrow> has_subtype q ''Legendary'') (get_attached_equipment g c)"
| "attached_matches g PermanentAttachedBy c k s src = (c_attached_to src = Some c)"
| "attached_matches g PermanentEquippedBy c k s src = (s \<in> set (get_attached_equipment g c))"
| "attached_matches g VehicleAttachedBy c k s src = (c_attached_to src = Some c \<and> has_subtype k ''Vehicle'')"
| "attached_matches g (EquippedBySubtype t) c k s src =
     (s \<in> set (get_attached_equipment g c) \<and> has_subtype k t)"

fun creature_matches :: "game_state \<Rightarrow> creature_selector \<Rightarrow> card_id \<Rightarrow> card \<Rightarrow> card_id \<Rightarrow> card \<Rightarrow> bool" where
  "creature_matches g CreaturesYouControl c k s src = (c_controller k = c_controller src)"
| "creature_matches g CreaturesYouControlOther c k s src = (c \<noteq> s \<and> c_controller k = c_controller src)"
| "creature_matches g AllCreatures c k s src = is_creature k"
| "creature_matches g (CreaturesWithPowerGE n) c k s src =
     (is_creature k \<and> sint n \<le> sint (current_power k))"
| "creature_matches g LandCreaturesYouControl c k s src = (c_controller k = c_controller src \<and> is_land k)"
| "creature_matches g EquippedCreaturesYouControl c k s src =
     (c_controller k = c_controller src \<and> get_attached_equipment g c \<noteq> [])"
| "creature_matches g EnchantedCreaturesYouControl c k s src =
     (c_controller k = c_controller src \<and> get_attached_auras g c \<noteq> [])"
| "creature_matches g CreaturesOpponentControls c k s src = (c_controller k \<noteq> c_controller src)"
| "creature_matches g TokenCreaturesYouControl c k s src =
     (c_is_token k \<and> is_creature k \<and> c_controller k = c_controller src)"
| "creature_matches g AttackingCreaturesYouControl c k s src =
     (c_controller k = c_controller src \<and> is_attacking (gs_combat g) c)"
| "creature_matches g AllAttackingCreatures c k s src = is_attacking (gs_combat g) c"
| "creature_matches g TappedCreaturesYouControlOther c k s src =
     (c \<noteq> s \<and> c_controller k = c_controller src \<and> c_tapped k)"
| "creature_matches g UntappedCreaturesYouControlOther c k s src =
     (c \<noteq> s \<and> c_controller k = c_controller src \<and> \<not> c_tapped k)"
| "creature_matches g SliversYouControl c k s src =
     (c_controller k = c_controller src \<and> has_subtype k ''Sliver'')"
| "creature_matches g CreatureYouControlWasCast c k s src =
     (is_creature k \<and> c_controller k = c_controller src)"

fun permanent_matches :: "permanent_selector \<Rightarrow> card_id \<Rightarrow> card \<Rightarrow> card_id \<Rightarrow> card \<Rightarrow> bool" where
  "permanent_matches ArtifactsYouControl c k s src = (c_controller k = c_controller src \<and> is_artifact k)"
| "permanent_matches ArtifactsYouControlOther c k s src =
     (c \<noteq> s \<and> c_controller k = c_controller src \<and> is_artifact k)"
| "permanent_matches AllLands c k s src = is_land k"
| "permanent_matches PermanentsYouControl c k s src = (c_controller k = c_controller src)"
| "permanent_matches LandsYouOwn c k s src = (is_land k \<and> c_owner k = c_controller src)"
| "permanent_matches NonLandPermanentsYouControl c k s src =
     (c_controller k = c_controller src \<and> \<not> is_land k)"
| "permanent_matches NonLandCardsYouOwn c k s src = (c_owner k = c_controller src \<and> \<not> is_land k)"
| "permanent_matches AllPermanents c k s src = True"
| "permanent_matches AllCards c k s src = True"
| "permanent_matches CardsYouControl c k s src = (c_controller k = c_controller src)"
| "permanent_matches CardsOpponentOwns c k s src = (c_owner k \<noteq> c_controller src)"
| "permanent_matches NonBasicLands c k s src = (is_land k \<and> \<not> basic_land_name (c_name k))"
| "permanent_matches ArtifactsNonCreature c k s src = (is_artifact k \<and> \<not> is_creature k)"
| "permanent_matches AllArtifacts c k s src = is_artifact k"
| "permanent_matches BasicLandsYouControl c k s src =
     (is_land k \<and> c_controller k = c_controller src \<and> basic_land_name (c_name k))"
| "permanent_matches NonLandCardsYouOwnWithoutForetell c k s src =
     (c_owner k = c_controller src \<and> \<not> is_land k)"
| "permanent_matches ArtifactsNonCreatureYouControl c k s src =
     (c_controller k = c_controller src \<and> is_artifact k \<and> \<not> is_creature k)"
| "permanent_matches ArtifactCreaturesYouControlOther c k s src =
     (c \<noteq> s \<and> c_controller k = c_controller src \<and> is_artifact k \<and> is_creature k)"
| "permanent_matches TreasuresYouControl c k s src =
     (c_controller k = c_controller src \<and> has_subtype k ''Treasure'')"
| "permanent_matches CardsYouControlWasCast c k s src = (c_controller k = c_controller src)"
| "permanent_matches PermanentsOpponentControls c k s src = (c_controller k \<noteq> c_controller src)"
| "permanent_matches LegendaryYouControl c k s src =
     (c_controller k = c_controller src \<and> has_subtype k ''Legendary'')"
| "permanent_matches LegendaryOtherYouControl c k s src =
     (c \<noteq> s \<and> c_controller k = c_controller src \<and> has_subtype k ''Legendary'')"
| "permanent_matches NonAuraEnchantmentsOther c k s src =
     (c \<noteq> s \<and> is_enchantment k \<and> \<not> has_subtype k ''Aura'')"
| "permanent_matches EnchantmentsYouControl c k s src =
     (c_controller k = c_controller src \<and> is_enchantment k)"
| "permanent_matches HistoricYouControl c k s src = (c_controller k = c_controller src
     \<and> (has_subtype k ''Legendary'' \<or> is_artifact k \<or> has_subtype k ''Saga''))"
| "permanent_matches HistoricYouOwn c k s src = (c_owner k = c_controller src
     \<and> (has_subtype k ''Legendary'' \<or> is_artifact k \<or> has_subtype k ''Saga''))"
| "permanent_matches NonTokenArtifactsYouControl c k s src =
     (c_controller k = c_controller src \<and> is_artifact k)"
| "permanent_matches NonLegendaryArtifactsYouControl c k s src =
     (c_controller k = c_controller src \<and> is_artifact k \<and> \<not> has_subtype k ''Legendary'')"

text \<open>The two selectors by card type know artifacts only.\<close>

fun typed_matches :: "game_state \<Rightarrow> typed_selector \<Rightarrow> card_id \<Rightarrow> card \<Rightarrow> card_id \<Rightarrow> card \<Rightarrow> bool" where
  "typed_matches g (CreatureTypeYouControl t) c k s src =
     (c_controller k = c_controller src \<and> has_subtype k t)"
| "typed_matches g (CreatureTypeOtherYouControl t) c k s src =
     (c \<noteq> s \<and> c_controller k = c_controller src \<and> has_subtype k t)"
| "typed_matches g (CreatureTypesOtherYouControl ts) c k s src =
     (c \<noteq> s \<and> c_controller k = c_controller src \<and> list_ex (has_subtype k) ts)"
| "typed_matches g (CreatureCardTypeOtherYouControl t) c k s src =
     (c \<noteq> s \<and> c_controller k = c_controller src \<and> (t = Artifact \<and> is_artifact k))"
| "typed_matches g (CreatureCardTypeYouControl t) c k s src =
     (c_controller k = c_controller src \<and> (t = Artifact \<and> is_artifact k))"
| "typed_matches g (CreatureNonTypeOtherYouControl t) c k s src =
     (c \<noteq> s \<and> c_controller k = c_controller src \<and> \<not> has_subtype k t)"
| "typed_matches g (AllCreaturesOfType t) c k s src = has_subtype k t"
| "typed_matches g (TokenCreatureTypeYouControl t) c k s src =
     (c_is_token k \<and> is_creature k \<and> c_controller k = c_controller src \<and> has_subtype k t)"
| "typed_matches g (CreatureColorOther col) c k s src = (c \<noteq> s \<and> is_creature k \<and> cost_has_color k col)"
| "typed_matches g (AllCreaturesOfColor col) c k s src = (is_creature k \<and> cost_has_color k col)"
| "typed_matches g (SpecificLandType t) c k s src = (is_land k \<and> has_subtype k t)"
| "typed_matches g (NonLandCmcLE n) c k s src = (\<not> is_land k \<and> uint (cmc (c_mana_cost k)) \<le> sint n)"
| "typed_matches g (CreatureTypeOther t) c k s src = (c \<noteq> s \<and> has_subtype k t)"
| "typed_matches g (PermanentSubtypeYouControl t) c k s src =
     (c_controller k = c_controller src \<and> has_subtype k t)"
| "typed_matches g (AttackingCreatureTypeYouControl t) c k s src =
     (c_controller k = c_controller src \<and> has_subtype k t \<and> is_attacking (gs_combat g) c)"
| "typed_matches g (EquippedCreatureTypeYouControl t) c k s src =
     (c_controller k = c_controller src \<and> has_subtype k t \<and> get_attached_equipment g c \<noteq> [])"
| "typed_matches g (LegendarySubtypeYouControl t) c k s src =
     (c_controller k = c_controller src \<and> has_subtype k t \<and> has_subtype k ''Legendary'')"
| "typed_matches g (CardSubtypeOtherYouControl t) c k s src =
     (c \<noteq> s \<and> c_controller k = c_controller src \<and> has_subtype k t)"
| "typed_matches g (CardSubtypeYouControl t) c k s src =
     (c_controller k = c_controller src \<and> has_subtype k t)"
| "typed_matches g (PermanentSubtypeOtherYouControl t) c k s src =
     (c \<noteq> s \<and> c_controller k = c_controller src \<and> has_subtype k t)"
| "typed_matches g (SubtypeOther t) c k s src = (c \<noteq> s \<and> has_subtype k t)"

text \<open>\<open>flying\<close> is the answer of \<open>has_keyword_with_effects(c, Flying)\<close>, used by one selector only.\<close>

fun selector_matches :: "game_state \<Rightarrow> mtg_error + bool \<Rightarrow> affected_selector \<Rightarrow> card_id \<Rightarrow> card \<Rightarrow> card_id \<Rightarrow> card
      \<Rightarrow> mtg_error + bool"
  and selector_any :: "game_state \<Rightarrow> mtg_error + bool \<Rightarrow> affected_selector list \<Rightarrow> card_id \<Rightarrow> card \<Rightarrow> card_id \<Rightarrow> card
      \<Rightarrow> mtg_error + bool" where
  "selector_matches g flying (OnSelf x) c k s src = Inr (self_matches g x c k s src)"
| "selector_matches g flying (OnAttached x) c k s src = Inr (attached_matches g x c k s src)"
| "selector_matches g flying (OnCreatures x) c k s src = Inr (creature_matches g x c k s src)"
| "selector_matches g flying CreatureWithFlyingOppCtrl c k s src =
     (if is_creature k \<and> c_controller k \<noteq> c_controller src then flying else Inr False)"
| "selector_matches g flying (OnPermanents x) c k s src = Inr (permanent_matches x c k s src)"
| "selector_matches g flying (OnType x) c k s src = Inr (typed_matches g x c k s src)"
| "selector_matches g flying (OnOther x) c k s src = Inr False"
| "selector_matches g flying (AnySelector xs) c k s src = selector_any g flying xs c k s src"
| "selector_any g flying [] c k s src = Inr False"
| "selector_any g flying (x # xs) c k s src = (case selector_matches g flying x c k s src of
       Inl e \<Rightarrow> Inl e
     | Inr True \<Rightarrow> Inr True
     | Inr False \<Rightarrow> selector_any g flying xs c k s src)"

definition selector_applies_to_creature ::
  "game_state \<Rightarrow> mtg_error + bool \<Rightarrow> affected_selector \<Rightarrow> card_id \<Rightarrow> card_id \<Rightarrow> mtg_error + bool" where
  "selector_applies_to_creature g flying sel c s = (case card_of g c of
       None \<Rightarrow> Inr False
     | Some k \<Rightarrow> case card_of g s of
         None \<Rightarrow> Inr False
       | Some src \<Rightarrow> selector_matches g flying sel c k s src)"

subsection \<open>Granted keywords\<close>

definition static_sources :: "game_state \<Rightarrow> card_id list" where
  "static_sources g = z_cards (gs_battlefield g)
     @ concat (map (\<lambda>(_, z). z_cards (pz_command z)) (gs_player_zones g))"

text \<open>The match of the keyword layer: the selectors it supports, any other grants nothing.\<close>

definition grant_matches :: "game_state \<Rightarrow> mtg_error + bool \<Rightarrow> affected_selector \<Rightarrow> card_id \<Rightarrow> card \<Rightarrow> card_id \<Rightarrow> card
      \<Rightarrow> mtg_error + bool" where
  "grant_matches g flying sel c k s src = (case sel of
       OnType x \<Rightarrow> Inr (case x of
           CreatureTypeOtherYouControl t \<Rightarrow> c \<noteq> s \<and> c_controller k = c_controller src \<and> has_subtype k t
         | CreatureTypesOtherYouControl ts \<Rightarrow>
             c \<noteq> s \<and> c_controller k = c_controller src \<and> list_ex (has_subtype k) ts
         | AllCreaturesOfType t \<Rightarrow> has_subtype k t
         | _ \<Rightarrow> False)
     | OnCreatures x \<Rightarrow> Inr (case x of
           CreaturesYouControl \<Rightarrow> c_controller k = c_controller src
         | CreaturesYouControlOther \<Rightarrow> c \<noteq> s \<and> c_controller k = c_controller src
         | AllCreatures \<Rightarrow> is_creature k
         | CreaturesWithPowerGE n \<Rightarrow> is_creature k \<and> sint n \<le> sint (current_power k)
         | _ \<Rightarrow> False)
     | OnAttached x \<Rightarrow> Inr (case x of
           CreatureEquippedBy \<Rightarrow> s \<in> set (get_attached_equipment g c)
         | CreatureEnchantedBy \<Rightarrow> s \<in> set (get_attached_auras g c)
         | _ \<Rightarrow> False)
     | OnSelf x \<Rightarrow> Inr (x = SelfWhenAttacking \<and> c = s \<and> is_attacking (gs_combat g) c)
     | AnySelector xs \<Rightarrow> selector_any g flying xs c k s src
     | OnPermanents x \<Rightarrow> Inr (x = AllLands \<and> is_land k)
     | OnOther x \<Rightarrow> Inr (x = LandsYouControl \<and> is_land k \<and> c_controller k = c_controller src)
     | CreatureWithFlyingOppCtrl \<Rightarrow> Inr False)"

definition grant_ability ::
  "game_state \<Rightarrow> mtg_error + bool \<Rightarrow> card_id \<Rightarrow> card \<Rightarrow> card_id \<Rightarrow> card \<Rightarrow> keyword_set \<Rightarrow> static_ability
     \<Rightarrow> mtg_error + keyword_set" where
  "grant_ability g flying c k s src ks ab = (case ab of
       GrantKeyword sel kw d cond \<Rightarrow>
         if \<not> condition_holds g cond src then Inr ks
         else (case grant_matches g flying sel c k s src of
             Inl e \<Rightarrow> Inl e
           | Inr b \<Rightarrow> Inr (if b then kw_insert ks kw else ks))
     | _ \<Rightarrow> Inr ks)"

definition grant_from_source ::
  "game_state \<Rightarrow> mtg_error + bool \<Rightarrow> card_id \<Rightarrow> card \<Rightarrow> keyword_set \<Rightarrow> card_id \<Rightarrow> mtg_error + keyword_set" where
  "grant_from_source g flying c k ks s = (case card_of g s of
       None \<Rightarrow> Inr ks
     | Some src \<Rightarrow> fold_result (grant_ability g flying c k s src) ks (c_static_abilities src))"

definition keyword_or_granted :: "game_state \<Rightarrow> card_id \<Rightarrow> keyword \<Rightarrow> mtg_error + keyword_set \<Rightarrow> mtg_error + bool" where
  "keyword_or_granted g c kw granted =
     (if (case card_of g c of None \<Rightarrow> False | Some k \<Rightarrow> has_keyword k kw) then Inr True
      else map_sum id (\<lambda>ks. kw_contains ks kw) granted)"

fun get_granted_keywords :: "nat \<Rightarrow> game_state \<Rightarrow> card_id \<Rightarrow> mtg_error + keyword_set" where
  "get_granted_keywords 0 g c = Inl OutOfFuel"
| "get_granted_keywords (Suc n) g c = (case card_of g c of
       None \<Rightarrow> Inr kw_new
     | Some k \<Rightarrow> fold_result
         (grant_from_source g (keyword_or_granted g c ''Flying'' (get_granted_keywords n g c)) c k)
         kw_new (static_sources g))"

definition has_keyword_with_effects :: "nat \<Rightarrow> game_state \<Rightarrow> card_id \<Rightarrow> keyword \<Rightarrow> mtg_error + bool" where
  "has_keyword_with_effects n g c kw = keyword_or_granted g c kw (get_granted_keywords n g c)"

text \<open>\<open>has_islandwalk\<close> reads the printed keywords only: granted ones carry no argument.\<close>

definition has_islandwalk :: "game_state \<Rightarrow> card_id \<Rightarrow> bool" where
  "has_islandwalk g c = (case card_of g c of None \<Rightarrow> False
     | Some k \<Rightarrow> KeywordArgs ''Landwalk'' [FType ''Island''] \<in> set (ks_args (c_keywords k)))"

subsection \<open>Granted activated abilities\<close>

definition ability_granted :: "game_state \<Rightarrow> affected_selector \<Rightarrow> card_id \<Rightarrow> card \<Rightarrow> card_id \<Rightarrow> card \<Rightarrow> bool" where
  "ability_granted g sel c k s src = (case sel of
       OnOther x \<Rightarrow> x = LandsYouControl \<and> is_land k \<and> c_controller k = c_controller src
     | OnAttached x \<Rightarrow> (case x of
           CreatureEnchantedBy \<Rightarrow> s \<in> set (get_attached_auras g c)
         | LandEnchantedBy \<Rightarrow> is_land k \<and> s \<in> set (get_attached_auras g c)
         | _ \<Rightarrow> False)
     | OnSelf x \<Rightarrow> x = SelfCard \<and> c = s
     | OnCreatures x \<Rightarrow> x = CreaturesYouControl \<and> is_creature k \<and> c_controller k = c_controller src
     | _ \<Rightarrow> False)"

definition granted_by :: "game_state \<Rightarrow> card_id \<Rightarrow> card \<Rightarrow> card_id \<Rightarrow> activated_ability list" where
  "granted_by g c k s = (case card_of g s of
       None \<Rightarrow> []
     | Some src \<Rightarrow> List.map_filter (\<lambda>ab. case ab of
           GrantAbility sel a d \<Rightarrow> if ability_granted g sel c k s src then Some a else None
         | _ \<Rightarrow> None) (c_static_abilities src))"

definition get_granted_abilities :: "game_state \<Rightarrow> card_id \<Rightarrow> activated_ability list" where
  "get_granted_abilities g c = (case card_of g c of
       None \<Rightarrow> []
     | Some k \<Rightarrow> concat (map (granted_by g c k) (static_sources g)))"

subsection \<open>The layers of power and toughness\<close>

record pt_breakdown =
  pt_base :: "i32 \<times> i32"
  pt_characteristic_value :: "(i32 \<times> i32) option"
  pt_setpt_value :: "(i32 \<times> i32) option"
  pt_modifypt_effects :: "i32 \<times> i32"
  pt_modifypt_counters :: "i32 \<times> i32"
  pt_is_switched :: bool

definition final_pt :: "pt_breakdown \<Rightarrow> i32 \<times> i32" where
  "final_pt b = (let
       p0 = (case pt_characteristic_value b of Some v \<Rightarrow> v | None \<Rightarrow> pt_base b);
       p1 = (case pt_setpt_value b of Some v \<Rightarrow> v | None \<Rightarrow> p0);
       power = fst p1 + (fst (pt_modifypt_effects b) + fst (pt_modifypt_counters b));
       toughness = snd p1 + (snd (pt_modifypt_effects b) + snd (pt_modifypt_counters b)) in
     if pt_is_switched b then (toughness, power) else (power, toughness))"

definition pt_power :: "pt_breakdown \<Rightarrow> i32" where "pt_power b = fst (final_pt b)"

definition pt_toughness :: "pt_breakdown \<Rightarrow> i32" where "pt_toughness b = snd (final_pt b)"

text \<open>Layer 7a. The count of creature cards in the graveyards is capped at the largest \<open>i32\<close>.\<close>

definition graveyard_creatures :: "game_state \<Rightarrow> nat" where
  "graveyard_creatures g = sum_list (map (\<lambda>(_, z). length (filter (\<lambda>i. case card_of g i of
       None \<Rightarrow> False | Some k \<Rightarrow> is_creature k) (z_cards (pz_graveyard z)))) (gs_player_zones g))"

fun cda_value :: "game_state \<Rightarrow> card \<Rightarrow> cda_pt_source \<Rightarrow> i32" where
  "cda_value g k ControllerLifeTotal =
     (case try_get_player g (c_controller k) of Some p \<Rightarrow> p_life p | None \<Rightarrow> 0)"
| "cda_value g k (AllGraveyardCreatures m) =
     modifier_apply m (if graveyard_creatures g < 2 ^ 31 then of_nat (graveyard_creatures g) else 2 ^ 31 - 1)"

definition calculate_cda_pt :: "game_state \<Rightarrow> card \<Rightarrow> (i32 \<times> i32) option" where
  "calculate_cda_pt g k = find_map (\<lambda>ab. case ab of
       CharacteristicDefiningPt p t d \<Rightarrow> Some (cda_value g k p, cda_value g k t)
     | _ \<Rightarrow> None) (c_static_abilities k)"

text \<open>Layer 7b.\<close>

definition is_opalescence_creature :: "game_state \<Rightarrow> card \<Rightarrow> bool" where
  "is_opalescence_creature g k = (is_enchantment k \<and> \<not> has_subtype k ''Aura''
     \<and> list_ex (\<lambda>s. s \<noteq> c_id k \<and> (case card_of g s of
           None \<Rightarrow> False
         | Some src \<Rightarrow> list_ex (\<lambda>ab. case ab of OpalescenceStyle d \<Rightarrow> True | _ \<Rightarrow> False)
             (c_static_abilities src))) (z_cards (gs_battlefield g)))"

definition opalescence_pt :: "game_state \<Rightarrow> card \<Rightarrow> i32 option" where
  "opalescence_pt g k = (if is_opalescence_creature g k then Some (ucast (cmc (c_mana_cost k))) else None)"

text \<open>
  Layer 7c, the inline match: its own arms, then the last arm, which hands the other selectors to the
  selector match. Some arms compare with the identifier stored in the source card (\<open>source.id\<close>),
  others with the identifier the source was looked up by.
\<close>

definition card_type_ok :: "card_type \<Rightarrow> card \<Rightarrow> bool" where
  "card_type_ok t k = (case t of
       Artifact \<Rightarrow> is_artifact k
     | Land \<Rightarrow> is_land k
     | Creature \<Rightarrow> is_creature k
     | _ \<Rightarrow> t \<in> set (c_types k))"

fun modify_self :: "game_state \<Rightarrow> own_selector \<Rightarrow> card_id \<Rightarrow> card \<Rightarrow> card_id \<Rightarrow> card \<Rightarrow> bool" where
  "modify_self g SelfCard c k s src = (c = s)"
| "modify_self g SelfWhenEquipped c k s src = (c = s \<and> get_attached_equipment g c \<noteq> [])"
| "modify_self g SelfWhenEnchanted c k s src = (c = s \<and> get_attached_auras g c \<noteq> [])"
| "modify_self g SelfWhenAttacking c k s src = (c = c_id src \<and> is_attacking (gs_combat g) c)"
| "modify_self g SelfWhenUntapped c k s src = (c = c_id src \<and> \<not> c_tapped k)"
| "modify_self g SelfWhenMonstrous c k s src = False"
| "modify_self g SelfWhenRenowned c k s src = False"
| "modify_self g (SelfWithCounters t n) c k s src =
     (c = c_id src \<and> (ucast n :: u8) \<le> selector_counter t src)"
| "modify_self g SelfThisTurnEntered c k s src =
     (c = c_id src \<and> c_turn_entered_battlefield k = Some (ts_turn_number (gs_turn g)))"
| "modify_self g x c k s src = self_matches g x c k s src"

fun modify_attached :: "game_state \<Rightarrow> attached_selector \<Rightarrow> card_id \<Rightarrow> card \<Rightarrow> card_id \<Rightarrow> card \<Rightarrow> bool" where
  "modify_attached g CreatureEquippedBy c k s src = (s \<in> set (get_attached_equipment g c))"
| "modify_attached g LandAttachedBy c k s src = False"
| "modify_attached g CreatureEnchantedBy c k s src = (s \<in> set (get_attached_auras g c))"
| "modify_attached g CreatureAttachedBy c k s src = (c_attached_to src = Some c)"
| "modify_attached g ArtifactEnchantedBy c k s src = (c_attached_to src = Some c)"
| "modify_attached g PlaneswalkerEnchantedBy c k s src = (c_attached_to src = Some c)"
| "modify_attached g EquipmentEnchantedBy c k s src = (c_attached_to src = Some c)"
| "modify_attached g CardAttachedBy c k s src = (c_attached_to src = Some c)"
| "modify_attached g HumanEquippedBy c k s src =
     (s \<in> set (get_attached_equipment g c) \<and> has_subtype k ''Human'')"
| "modify_attached g x c k s src = attached_matches g x c k s src"

fun modify_creatures :: "game_state \<Rightarrow> creature_selector \<Rightarrow> card_id \<Rightarrow> card \<Rightarrow> card_id \<Rightarrow> card \<Rightarrow> bool" where
  "modify_creatures g CreaturesYouControl c k s src = (c_controller k = c_controller src)"
| "modify_creatures g CreaturesYouControlOther c k s src = (c \<noteq> s \<and> c_controller k = c_controller src)"
| "modify_creatures g AllCreatures c k s src = is_creature k"
| "modify_creatures g (CreaturesWithPowerGE n) c k s src = False"
| "modify_creatures g LandCreaturesYouControl c k s src =
     (c_controller k = c_controller src \<and> is_creature k \<and> is_land k)"
| "modify_creatures g EquippedCreaturesYouControl c k s src =
     (c_controller k = c_controller src \<and> get_attached_equipment g c \<noteq> [])"
| "modify_creatures g EnchantedCreaturesYouControl c k s src =
     (c_controller k = c_controller src \<and> get_attached_auras g c \<noteq> [])"
| "modify_creatures g CreaturesOpponentControls c k s src = (c_controller k \<noteq> c_controller src)"
| "modify_creatures g TokenCreaturesYouControl c k s src =
     (c_is_token k \<and> is_creature k \<and> c_controller k = c_controller src)"
| "modify_creatures g AttackingCreaturesYouControl c k s src =
     (c_controller k = c_controller src \<and> is_attacking (gs_combat g) c)"
| "modify_creatures g AllAttackingCreatures c k s src = is_attacking (gs_combat g) c"
| "modify_creatures g TappedCreaturesYouControlOther c k s src =
     (c \<noteq> c_id src \<and> c_controller k = c_controller src \<and> c_tapped k)"
| "modify_creatures g UntappedCreaturesYouControlOther c k s src =
     (c \<noteq> c_id src \<and> c_controller k = c_controller src \<and> \<not> c_tapped k)"
| "modify_creatures g x c k s src = creature_matches g x c k s src"

fun modify_permanents :: "permanent_selector \<Rightarrow> card_id \<Rightarrow> card \<Rightarrow> card_id \<Rightarrow> card \<Rightarrow> bool" where
  "modify_permanents ArtifactsYouControl c k s src = (is_artifact k \<and> c_controller k = c_controller src)"
| "modify_permanents ArtifactsYouControlOther c k s src =
     (is_artifact k \<and> c \<noteq> s \<and> c_controller k = c_controller src)"
| "modify_permanents AllLands c k s src = is_land k"
| "modify_permanents PermanentsYouControl c k s src = (c_controller k = c_controller src)"
| "modify_permanents LandsYouOwn c k s src = (is_land k \<and> c_owner k = c_controller src)"
| "modify_permanents NonLandPermanentsYouControl c k s src =
     (c_controller k = c_controller src \<and> \<not> is_land k)"
| "modify_permanents NonLandCardsYouOwn c k s src = (c_owner k = c_controller src \<and> \<not> is_land k)"
| "modify_permanents AllPermanents c k s src = True"
| "modify_permanents AllCards c k s src = True"
| "modify_permanents CardsYouControl c k s src = (c_controller k = c_controller src)"
| "modify_permanents CardsOpponentOwns c k s src = (c_owner k \<noteq> c_controller src)"
| "modify_permanents NonBasicLands c k s src = (is_land k \<and> \<not> basic_land_name (c_name k))"
| "modify_permanents x c k s src = permanent_matches x c k s src"

fun modify_typed :: "game_state \<Rightarrow> typed_selector \<Rightarrow> card_id \<Rightarrow> card \<Rightarrow> card_id \<Rightarrow> card \<Rightarrow> bool" where
  "modify_typed g (CreatureTypesOtherYouControl ts) c k s src =
     (c \<noteq> s \<and> c_controller k = c_controller src \<and> list_ex (has_subtype k) ts)"
| "modify_typed g (CreatureTypeYouControl t) c k s src =
     (c_controller k = c_controller src \<and> has_subtype k t)"
| "modify_typed g (CreatureTypeOtherYouControl t) c k s src =
     (c \<noteq> s \<and> c_controller k = c_controller src \<and> has_subtype k t)"
| "modify_typed g (CreatureCardTypeOtherYouControl t) c k s src =
     (c \<noteq> s \<and> c_controller k = c_controller src \<and> card_type_ok t k)"
| "modify_typed g (CreatureCardTypeYouControl t) c k s src =
     (c_controller k = c_controller src \<and> card_type_ok t k)"
| "modify_typed g (CreatureNonTypeOtherYouControl t) c k s src =
     (c \<noteq> s \<and> c_controller k = c_controller src \<and> \<not> has_subtype k t)"
| "modify_typed g (AllCreaturesOfType t) c k s src = has_subtype k t"
| "modify_typed g (TokenCreatureTypeYouControl t) c k s src =
     (c_is_token k \<and> is_creature k \<and> c_controller k = c_controller src \<and> has_subtype k t)"
| "modify_typed g (CreatureColorOther col) c k s src =
     (c \<noteq> c_id src \<and> is_creature k \<and> cost_has_color k col)"
| "modify_typed g (AllCreaturesOfColor col) c k s src = (is_creature k \<and> cost_has_color k col)"
| "modify_typed g x c k s src = typed_matches g x c k s src"

fun modify_matches :: "game_state \<Rightarrow> mtg_error + bool \<Rightarrow> affected_selector \<Rightarrow> card_id \<Rightarrow> card \<Rightarrow> card_id \<Rightarrow> card
      \<Rightarrow> mtg_error + bool" where
  "modify_matches g flying (OnSelf x) c k s src = Inr (modify_self g x c k s src)"
| "modify_matches g flying (OnAttached x) c k s src = Inr (modify_attached g x c k s src)"
| "modify_matches g flying (OnCreatures x) c k s src = Inr (modify_creatures g x c k s src)"
| "modify_matches g flying (OnPermanents x) c k s src = Inr (modify_permanents x c k s src)"
| "modify_matches g flying (OnType x) c k s src = Inr (modify_typed g x c k s src)"
| "modify_matches g flying (OnOther x) c k s src = Inr False"
| "modify_matches g flying (AnySelector xs) c k s src = selector_any g flying xs c k s src"
| "modify_matches g flying CreatureWithFlyingOppCtrl c k s src =
     selector_matches g flying CreatureWithFlyingOppCtrl c k s src"

definition modify_ability ::
  "game_state \<Rightarrow> mtg_error + bool \<Rightarrow> card_id \<Rightarrow> card \<Rightarrow> card_id \<Rightarrow> card \<Rightarrow> i32 \<times> i32 \<Rightarrow> static_ability
     \<Rightarrow> mtg_error + i32 \<times> i32" where
  "modify_ability g flying c k s src acc ab = (case ab of
       ModifyPT sel p t d cond \<Rightarrow>
         if \<not> condition_holds g cond src then Inr acc
         else (case modify_matches g flying sel c k s src of
             Inl e \<Rightarrow> Inl e
           | Inr b \<Rightarrow> Inr (if b then (fst acc + p, snd acc + t) else acc))
     | _ \<Rightarrow> Inr acc)"

text \<open>An unrevealed card on the battlefield is a panic; one in a command zone is passed over.\<close>

definition modify_from_source ::
  "game_state \<Rightarrow> mtg_error + bool \<Rightarrow> card_id \<Rightarrow> card \<Rightarrow> i32 \<times> i32 \<Rightarrow> card_id \<Rightarrow> mtg_error + i32 \<times> i32" where
  "modify_from_source g flying c k acc s = (case card_of g s of
       None \<Rightarrow> if s \<in> set (z_cards (gs_battlefield g)) then Inl Panicked else Inr acc
     | Some src \<Rightarrow> fold_result (modify_ability g flying c k s src) acc (c_static_abilities src))"

text \<open>The creature is the card its caller has already looked up.\<close>

definition calculate_modifypt_effects :: "nat \<Rightarrow> game_state \<Rightarrow> card_id \<Rightarrow> card \<Rightarrow> mtg_error + i32 \<times> i32" where
  "calculate_modifypt_effects n g c k =
     fold_result (modify_from_source g (has_keyword_with_effects n g c ''Flying'') c k) (0, 0) (static_sources g)"

definition calculate_modifypt_counters :: "card \<Rightarrow> i32 \<times> i32" where
  "calculate_modifypt_counters k = (let d = ucast (get_counter k P1P1) - ucast (get_counter k M1M1) in (d, d))"

definition get_pt_breakdown :: "nat \<Rightarrow> game_state \<Rightarrow> card_id \<Rightarrow> mtg_error + pt_breakdown" where
  "get_pt_breakdown n g c = (case card_of g c of
       None \<Rightarrow> Inl (MtgEntityNotFound c)
     | Some k \<Rightarrow> (case calculate_modifypt_effects n g c k of
         Inl e \<Rightarrow> Inl e
       | Inr eff \<Rightarrow> Inr \<lparr>
           pt_base = (scast (unwrap_or (or_else (c_temp_base_power k) (c_base_power k)) 0),
             scast (unwrap_or (or_else (c_temp_base_toughness k) (c_base_toughness k)) 0)),
           pt_characteristic_value = calculate_cda_pt g k,
           pt_setpt_value = map_option (\<lambda>v. (v, v)) (opalescence_pt g k),
           pt_modifypt_effects = (fst eff + c_power_bonus k, snd eff + c_toughness_bonus k),
           pt_modifypt_counters = calculate_modifypt_counters k,
           pt_is_switched = False\<rparr>))"

definition get_effective_power :: "nat \<Rightarrow> game_state \<Rightarrow> card_id \<Rightarrow> mtg_error + i32" where
  "get_effective_power n g c = map_sum id pt_power (get_pt_breakdown n g c)"

definition get_effective_toughness :: "nat \<Rightarrow> game_state \<Rightarrow> card_id \<Rightarrow> mtg_error + i32" where
  "get_effective_toughness n g c = map_sum id pt_toughness (get_pt_breakdown n g c)"

end
