(* ===== verification/ManaEngine.thy ===== *)
theory ManaEngine
  imports ManaPayment ContinuousEffects
begin

section \<open>The mana engine\<close>

text \<open>
  \<open>mtg-engine/src/game/mana_engine.rs\<close> and the two helpers of \<open>game/mana_payment/payment_execution.rs\<close> it
  calls: the per-player engine that reads the mana source cache, the scan of the battlefield it falls
  back on, the scan that verifies it, and the queries on affordable costs. The flag of the debug
  verification is left out; \<open>verify_incremental_correctness\<close> is the test that would panic.
\<close>

text \<open>\<open>ManaCapacity\<close> has the six byte counts of a pool, and \<open>can_pay_simple\<close> is the same call.\<close>

type_synonym mana_capacity = mana_pool

definition capacity_total :: "mana_capacity \<Rightarrow> u8" where
  "capacity_total m = sat_add (sat_add (sat_add (sat_add (sat_add (mp_white m) (mp_blue m)) (mp_black m))
     (mp_red m)) (mp_green m)) (mp_colorless m)"

definition can_pay_simple :: "mana_capacity \<Rightarrow> mana_cost \<Rightarrow> bool" where
  "can_pay_simple m c = is_affordable c (mp_white m) (mp_blue m) (mp_black m) (mp_red m) (mp_green m) (mp_colorless m)"

record mana_engine =
  me_simple_sources :: "card_id list"
  me_complex_sources :: "card_id list"
  me_simple_capacity :: mana_capacity
  me_mana_sources :: "mana_source list"
  me_use_greedy_resolver :: bool
  me_cached_player :: "player_id option"
  me_cached_version :: u32

definition mana_engine_new :: mana_engine where
  "mana_engine_new = \<lparr>me_simple_sources = [], me_complex_sources = [], me_simple_capacity = mana_pool_new,
     me_mana_sources = [], me_use_greedy_resolver = False, me_cached_player = None, me_cached_version = - 1\<rparr>"

subsection \<open>What a source produces\<close>

text \<open>The two accumulators of \<open>merge_mana_production_kinds\<close>.\<close>

fun kind_colors :: "mana_production_kind \<Rightarrow> mana_colors \<Rightarrow> mana_colors" where
  "kind_colors (Fixed c) s = mcs_insert s c"
| "kind_colors (Choice cs) s = foldl mcs_insert s (mcs_iter cs)"
| "kind_colors KColorless s = s"
| "kind_colors AnyColor s = s"

definition merge_mana_production_kinds ::
  "mana_production_kind \<Rightarrow> mana_production_kind \<Rightarrow> mana_production_kind" where
  "merge_mana_production_kinds a b =
     (if a = AnyColor \<or> b = AnyColor then AnyColor
      else let colors = kind_colors b (kind_colors a mcs_new);
             has_colorless = (a = KColorless \<or> b = KColorless) in
        if mcs_len colors = 0 then (if has_colorless then KColorless else Choice mcs_new)
        else if mcs_len colors = 1 \<and> \<not> has_colorless then Fixed (hd (mcs_iter colors))
        else Choice colors)"

definition get_effective_mana_production ::
  "game_state \<Rightarrow> card_id \<Rightarrow> mana_production \<Rightarrow> mana_production option" where
  "get_effective_mana_production g c cached = (let abls = filter aa_is_mana_ability (get_granted_abilities g c) in
     if abls = [] then None
     else let granted = derive_mana_production_from_abilities abls in
       if \<not> produces_mana granted then None
       else Some (mp_free (merge_mana_production_kinds (mpr_kind cached) (mpr_kind granted))))"

definition reflected_mana_colors :: "game_state \<Rightarrow> player_id \<Rightarrow> mana_colors" where
  "reflected_mana_colors g p = foldl (\<lambda>colors i. case card_of g i of
       None \<Rightarrow> colors
     | Some k \<Rightarrow> if \<not> is_land k \<or> c_controller k = p then colors
         else (case mpr_kind (cc_mana_production (card_cache k)) of
             AnyColor \<Rightarrow> foldl mcs_insert colors ALL_MANA_COLORS
           | kind \<Rightarrow> kind_colors kind colors)) mcs_new (z_cards (gs_battlefield g))"

definition is_reflected :: "card \<Rightarrow> bool" where
  "is_reflected k = list_ex (\<lambda>ab. aa_is_mana_ability ab \<and> aa_produces_reflected_mana ab) (c_activated_abilities k)"

definition effective_production_for_resolution :: "game_state \<Rightarrow> card_id \<Rightarrow> player_id \<Rightarrow> mana_production" where
  "effective_production_for_resolution g c p = (case card_of g c of
       None \<Rightarrow> mana_production_default
     | Some k \<Rightarrow> let cached = cc_mana_production (card_cache k) in
         if \<not> is_reflected k then cached
         else cached\<lparr>mpr_kind := Choice (reflected_mana_colors g p)\<rparr>)"

subsection \<open>Scanning the battlefield\<close>

definition mana_sick :: "game_state \<Rightarrow> card \<Rightarrow> bool" where
  "mana_sick g k = (is_creature k \<and> c_turn_entered_battlefield k = Some (ts_turn_number (gs_turn g))
     \<and> \<not> has_keyword k ''Haste'')"

text \<open>The four results of a scan: simple and complex sources, capacity, all sources.\<close>

type_synonym scan = "card_id list \<times> card_id list \<times> mana_capacity \<times> mana_source list"

text \<open>A source is classified by its production; creatures are complex.\<close>

definition add_source :: "card_id \<Rightarrow> card \<Rightarrow> mana_production \<Rightarrow> scan \<Rightarrow> scan" where
  "add_source c k prd = (\<lambda>(simple, complex, cap, sources).
     let n = max (mpr_amount prd) 1 in
     if is_creature k then (simple, complex @ [c], cap, sources)
     else (case mpr_kind prd of
         Fixed col \<Rightarrow> (simple @ [c], complex, if c_tapped k then cap else plus_color col n cap, sources)
       | KColorless \<Rightarrow> (simple @ [c], complex, if c_tapped k then cap else plus_colorless n cap, sources)
       | _ \<Rightarrow> (simple, complex @ [c], cap, sources)))"

definition scan_source ::
  "game_state \<Rightarrow> player_id \<Rightarrow> (card_id \<Rightarrow> card \<Rightarrow> mana_production) \<Rightarrow> scan \<Rightarrow> card_id \<Rightarrow> scan" where
  "scan_source g p production acc c = (case card_of g c of
       None \<Rightarrow> acc
     | Some k \<Rightarrow> if c_owner k \<noteq> p \<or> \<not> cc_is_mana_source (card_cache k) then acc
         else (case add_source c k (production c k) acc of (simple, complex, cap, sources) \<Rightarrow>
           (simple, complex, cap, sources @ [\<lparr>ms_card_id = c, ms_production = production c k,
              ms_is_tapped = c_tapped k, ms_has_summoning_sickness = mana_sick g k\<rparr>])))"

text \<open>The production of the scan that verifies: a granted one, else the one resolved now.\<close>

definition scratch_production :: "game_state \<Rightarrow> player_id \<Rightarrow> card_id \<Rightarrow> card \<Rightarrow> mana_production" where
  "scratch_production g p c k = (case get_effective_mana_production g c (cc_mana_production (card_cache k)) of
       Some prd \<Rightarrow> prd | None \<Rightarrow> effective_production_for_resolution g c p)"

definition compute_from_scratch :: "game_state \<Rightarrow> player_id \<Rightarrow> scan" where
  "compute_from_scratch g p =
     foldl (scan_source g p (scratch_production g p)) ([], [], mana_pool_new, []) (z_cards (gs_battlefield g))"

text \<open>The fallback leaves the choice of the resolver as it is.\<close>

definition fallback_production :: "game_state \<Rightarrow> card_id \<Rightarrow> card \<Rightarrow> mana_production" where
  "fallback_production g c k = (let cached = cc_mana_production (card_cache k) in
     unwrap_or (get_effective_mana_production g c cached) cached)"

definition scan_battlefield_fallback :: "game_state \<Rightarrow> player_id \<Rightarrow> mana_engine \<Rightarrow> mana_engine" where
  "scan_battlefield_fallback g p e =
     (case foldl (scan_source g p (fallback_production g))
         (me_simple_sources e, me_complex_sources e, me_simple_capacity e, me_mana_sources e)
         (z_cards (gs_battlefield g)) of
       (simple, complex, cap, sources) \<Rightarrow> e\<lparr>me_simple_sources := simple, me_complex_sources := complex,
         me_simple_capacity := cap, me_mana_sources := sources, me_cached_player := Some p,
         me_cached_version := gs_mana_state_version g\<rparr>)"

subsection \<open>Reading the cache\<close>

definition simple_source :: "game_state \<Rightarrow> card_id \<Rightarrow> mana_source option" where
  "simple_source g c = map_option (\<lambda>k. \<lparr>ms_card_id = c, ms_production = cc_mana_production (card_cache k),
     ms_is_tapped = c_tapped k, ms_has_summoning_sickness = False\<rparr>) (card_of g c)"

definition complex_source :: "game_state \<Rightarrow> player_id \<Rightarrow> card_id \<Rightarrow> mana_source option" where
  "complex_source g p c = map_option (\<lambda>k. \<lparr>ms_card_id = c,
     ms_production = effective_production_for_resolution g c p, ms_is_tapped = c_tapped k,
     ms_has_summoning_sickness = mana_sick g k\<rparr>) (card_of g c)"

definition cached_simple :: "mana_source_cache \<Rightarrow> card_id list" where
  "cached_simple m = concat (map (\<lambda>sl. slot_sources sl m) all_slots)"

definition cached_capacity :: "mana_source_cache \<Rightarrow> mana_capacity" where
  "cached_capacity m = \<lparr>mp_white = ucast (msx_untapped_white m), mp_blue = ucast (msx_untapped_blue m),
     mp_black = ucast (msx_untapped_black m), mp_red = ucast (msx_untapped_red m),
     mp_green = ucast (msx_untapped_green m), mp_colorless = ucast (msx_untapped_colorless m)\<rparr>"

definition read_from_cache :: "game_state \<Rightarrow> mana_source_cache \<Rightarrow> player_id \<Rightarrow> mana_engine \<Rightarrow> mana_engine" where
  "read_from_cache g m p e = (let complex = me_complex_sources e @ msx_complex_sources m in
     e\<lparr>me_simple_sources := me_simple_sources e @ cached_simple m,
       me_complex_sources := complex, me_simple_capacity := cached_capacity m,
       me_mana_sources := me_mana_sources e @ List.map_filter (simple_source g) (cached_simple m)
         @ List.map_filter (complex_source g p) (msx_complex_sources m),
       me_use_greedy_resolver := (complex \<noteq> []), me_cached_player := Some p,
       me_cached_version := gs_mana_state_version g\<rparr>)"

definition engine_cleared :: "mana_engine \<Rightarrow> mana_engine" where
  "engine_cleared e = e\<lparr>me_simple_sources := [], me_complex_sources := [], me_simple_capacity := mana_pool_new,
     me_mana_sources := []\<rparr>"

definition engine_current :: "game_state \<Rightarrow> player_id \<Rightarrow> mana_engine \<Rightarrow> bool" where
  "engine_current g p e = (me_cached_player e = Some p \<and> me_cached_version e = gs_mana_state_version g)"

definition engine_update :: "game_state \<Rightarrow> player_id \<Rightarrow> mana_engine \<Rightarrow> mana_engine" where
  "engine_update g p e = (if engine_current g p e then e
     else (case get_mana_cache g p of
         None \<Rightarrow> (engine_cleared e)\<lparr>me_cached_player := Some p, me_cached_version := gs_mana_state_version g\<rparr>
       | Some m \<Rightarrow> if msx_needs_rebuild m \<or> msx_is_empty m then scan_battlefield_fallback g p (engine_cleared e)
           else read_from_cache g m p (engine_cleared e)))"

text \<open>\<open>update_mut\<close> marks an empty cache and rebuilds it; the cache exists then.\<close>

definition cache_needs_init :: "game_state \<Rightarrow> player_id \<Rightarrow> bool" where
  "cache_needs_init g p = (case get_mana_cache g p of
     None \<Rightarrow> False | Some m \<Rightarrow> msx_is_empty m \<and> z_cards (gs_battlefield g) \<noteq> [])"

definition engine_update_mut :: "game_state \<Rightarrow> player_id \<Rightarrow> mana_engine \<Rightarrow> (game_state \<times> mana_engine) option" where
  "engine_update_mut g p e = (if engine_current g p e then Some (g, e)
     else let g1 = (if cache_needs_init g p
             then g\<lparr>gs_mana_caches := map_entry p mark_dirty (gs_mana_caches g)\<rparr> else g);
           g2 = rebuild_mana_cache_if_needed p g1 in
       map_option (\<lambda>m. (g2, read_from_cache g2 m p (engine_cleared e))) (get_mana_cache g2 p))"

definition invalidate_cache :: "mana_engine \<Rightarrow> mana_engine" where
  "invalidate_cache e = e\<lparr>me_cached_version := - 1\<rparr>"

definition verify_incremental_correctness :: "game_state \<Rightarrow> player_id \<Rightarrow> mana_engine \<Rightarrow> bool" where
  "verify_incremental_correctness g p e = (case compute_from_scratch g p of (simple, complex, cap, sources) \<Rightarrow>
     length (me_simple_sources e) = length simple \<and> length (me_complex_sources e) = length complex
     \<and> me_simple_capacity e = cap \<and> length (me_mana_sources e) = length sources)"

subsection \<open>The queries\<close>

definition engine_can_pay :: "mana_engine \<Rightarrow> mana_cost \<Rightarrow> bool" where
  "engine_can_pay e cost = (if me_use_greedy_resolver e
     then resolver_can_pay greedy_check_payment cost (me_mana_sources e)
     else can_pay_simple (me_simple_capacity e) cost)"

text \<open>The cost left after the pool, and the surplus of the pool for generic mana.\<close>

definition pool_surplus :: "mana_cost \<Rightarrow> mana_pool \<Rightarrow> u8" where
  "pool_surplus c p = sat_sub (mp_white p) (min (mc_white c) (mp_white p))
     + sat_sub (mp_blue p) (min (mc_blue c) (mp_blue p)) + sat_sub (mp_black p) (min (mc_black c) (mp_black p))
     + sat_sub (mp_red p) (min (mc_red c) (mp_red p)) + sat_sub (mp_green p) (min (mc_green c) (mp_green p))
     + sat_sub (mp_colorless p) (min (mc_colorless c) (mp_colorless p))"

definition remaining_cost :: "mana_cost \<Rightarrow> mana_pool \<Rightarrow> mana_cost" where
  "remaining_cost c p = \<lparr>mc_generic = sat_sub (mc_generic c) (pool_surplus c p),
     mc_white = sat_sub (mc_white c) (mp_white p), mc_blue = sat_sub (mc_blue c) (mp_blue p),
     mc_black = sat_sub (mc_black c) (mp_black p), mc_red = sat_sub (mc_red c) (mp_red p),
     mc_green = sat_sub (mc_green c) (mp_green p), mc_colorless = sat_sub (mc_colorless c) (mp_colorless p),
     mc_x_count = 0\<rparr>"

definition can_pay_with_pool :: "mana_engine \<Rightarrow> mana_cost \<Rightarrow> mana_pool \<Rightarrow> bool" where
  "can_pay_with_pool e cost pool =
     (if pool_is_empty pool then engine_can_pay e cost
      else if can_pay pool cost then True
      else let rest = remaining_cost cost pool in
        if cmc rest = 0 then True else engine_can_pay e rest)"

definition max_mana_capacity :: "mana_engine \<Rightarrow> mana_capacity" where
  "max_mana_capacity e = foldl (\<lambda>cap s.
     if ms_is_tapped s \<or> ms_has_summoning_sickness s then cap
     else (case kind_of s of
         Fixed c \<Rightarrow> plus_color c 1 cap
       | Choice cs \<Rightarrow> foldl (\<lambda>m c. plus_color c 1 m) cap (mcs_iter cs)
       | AnyColor \<Rightarrow> foldl (\<lambda>m c. plus_color c 1 m) cap ALL_MANA_COLORS
       | KColorless \<Rightarrow> plus_colorless 1 cap)) mana_pool_new (me_mana_sources e)"

subsection \<open>The cache agrees with the scan\<close>

fun cap_slot :: "slot \<Rightarrow> mana_capacity \<Rightarrow> u8" where
  "cap_slot (SlotColor MWhite) m = mp_white m"
| "cap_slot (SlotColor MBlue) m = mp_blue m"
| "cap_slot (SlotColor MBlack) m = mp_black m"
| "cap_slot (SlotColor MRed) m = mp_red m"
| "cap_slot (SlotColor MGreen) m = mp_green m"
| "cap_slot SlotColorless m = mp_colorless m"

text \<open>The board of the cache: the cards of the battlefield that are in the store.\<close>

definition game_board :: "game_state \<Rightarrow> board" where
  "game_board g = List.map_filter (\<lambda>c. map_option (Pair c) (card_of g c)) (z_cards (gs_battlefield g))"

definition is_simple :: "player_id \<Rightarrow> card_id \<times> card \<Rightarrow> bool" where
  "is_simple p = (\<lambda>(c, k). \<exists>sl. classify p k = Simple sl)"

definition source_of :: "game_state \<Rightarrow> card_id \<times> card \<Rightarrow> mana_source" where
  "source_of g = (\<lambda>(c, k). \<lparr>ms_card_id = c, ms_production = cc_mana_production (card_cache k),
     ms_is_tapped = c_tapped k, ms_has_summoning_sickness = mana_sick g k\<rparr>)"

text \<open>A source whose production is the cached one on both paths.\<close>

definition plain_source :: "game_state \<Rightarrow> player_id \<Rightarrow> card_id \<times> card \<Rightarrow> bool" where
  "plain_source g p = (\<lambda>(c, k). classify p k \<noteq> Untracked \<longrightarrow>
     get_effective_mana_production g c (cc_mana_production (card_cache k)) = None \<and> \<not> is_reflected k
     \<and> c_chosen_color k = None)"

lemma game_board_alt: "game_board g = board_of (card_of g) (z_cards (gs_battlefield g))"
  by (simp add: game_board_def board_of_def)

lemma capacity_eqI: "(\<And>sl. cap_slot sl m = cap_slot sl m') \<Longrightarrow> m = m'" for m :: mana_pool
  by (rule mana_pool.equality) (metis cap_slot.simps unit.exhaust)+

lemma cap_slot_plus [simp]:
  "cap_slot t (plus_color c n m) = cap_slot t m + (if t = SlotColor c then n else 0)"
  "cap_slot t (plus_colorless n m) = cap_slot t m + (if t = SlotColorless then n else 0)"
  by (cases c; cases t rule: slot_cases; simp) (cases t rule: slot_cases; simp add: plus_colorless_def)

lemma cap_slot_cached: "cap_slot sl (cached_capacity m) = ucast (slot_untapped sl m)"
  by (cases sl rule: slot_cases) (simp_all add: cached_capacity_def)

lemma cap_slot_new [simp]: "cap_slot sl mana_pool_new = 0"
  by (cases sl rule: slot_cases) (simp_all add: mana_pool_new_def)

declare cap_slot.simps [simp del]

lemma ucast_source_amount:
  "ucast (source_amount k) = max (mpr_amount (cc_mana_production (card_cache k))) (1 :: u8)"
  unfolding source_amount_def by (rule bit_word_eqI) (auto simp: bit_ucast_iff dest: bit_imp_le_length)

definition add_offer :: "player_id \<Rightarrow> card \<Rightarrow> mana_capacity \<Rightarrow> mana_capacity" where
  "add_offer p k cap = (let n = max (mpr_amount (cc_mana_production (card_cache k))) 1 in
     case classify p k of
       Simple (SlotColor col) \<Rightarrow> if c_tapped k then cap else plus_color col n cap
     | Simple SlotColorless \<Rightarrow> if c_tapped k then cap else plus_colorless n cap
     | _ \<Rightarrow> cap)"

lemma cap_slot_add_offer: "cap_slot sl (add_offer p k cap) = cap_slot sl cap + of_nat (offered p sl k)"
  by (auto simp: add_offer_def offered_def ucast_source_amount Let_def split: source_class.split slot.split)

lemma scan_one:
  assumes "card_of g c = Some k" "plain_source g p (c, k)"
  shows "scan_source g p (scratch_production g p) (s, cx, cap, src) c =
    (s @ (if is_simple p (c, k) then [c] else []), cx @ (if classify p k = Complex then [c] else []),
     add_offer p k cap, src @ (if classify p k = Untracked then [] else [source_of g (c, k)]))"
proof (cases "classify p k = Untracked")
  case True
  then have "c_owner k \<noteq> p \<or> \<not> cc_is_mana_source (card_cache k)"
    by (auto simp: classify_def split: if_splits mana_production_kind.splits)
  then show ?thesis using True assms(1) by (auto simp: scan_source_def is_simple_def add_offer_def Let_def)
next
  case False
  then have prd: "scratch_production g p c k = cc_mana_production (card_cache k)"
    using assms by (simp add: scratch_production_def effective_production_for_resolution_def plain_source_def)
  have own: "c_owner k = p" "cc_is_mana_source (card_cache k)"
    using False by (simp_all add: classify_def split: if_splits)
  have color: "c_chosen_color k = None" using False assms(2) by (simp add: plain_source_def)
  show ?thesis
    using own color assms(1)
    by (cases "mpr_kind (cc_mana_production (card_cache k))")
      (simp_all add: scan_source_def prd add_source_def is_simple_def classify_def add_offer_def source_of_def Let_def)
qed

lemma scan_all:
  assumes "\<And>c k. c \<in> set bf \<Longrightarrow> card_of g c = Some k \<Longrightarrow> plain_source g p (c, k)"
  shows "\<exists>cap'. foldl (scan_source g p (scratch_production g p)) (s, cx, cap, src) bf =
    (s @ map fst (filter (is_simple p) (List.map_filter (\<lambda>c. map_option (Pair c) (card_of g c)) bf)),
     cx @ class_ids p Complex (List.map_filter (\<lambda>c. map_option (Pair c) (card_of g c)) bf), cap',
     src @ map (source_of g) (filter (\<lambda>(c, k). classify p k \<noteq> Untracked)
       (List.map_filter (\<lambda>c. map_option (Pair c) (card_of g c)) bf)))
    \<and> (\<forall>sl. cap_slot sl cap' = cap_slot sl cap
         + of_nat (untapped_mana p sl (List.map_filter (\<lambda>c. map_option (Pair c) (card_of g c)) bf)))"
  using assms
proof (induction bf arbitrary: s cx cap src)
  case Nil
  then show ?case by (simp add: class_ids_def untapped_mana_def)
next
  case (Cons c bf)
  have rest: "\<And>d k. d \<in> set bf \<Longrightarrow> card_of g d = Some k \<Longrightarrow> plain_source g p (d, k)"
    using Cons.prems by simp
  show ?case
  proof (cases "card_of g c")
    case None
    with Cons.IH [OF rest, of s cx cap src] show ?thesis by (simp add: scan_source_def)
  next
    case (Some k)
    have "plain_source g p (c, k)" using Cons.prems Some by simp
    note one = scan_one [OF Some this, of s cx cap src]
    from Cons.IH [OF rest, of "s @ (if is_simple p (c, k) then [c] else [])"
        "cx @ (if classify p k = Complex then [c] else [])" "add_offer p k cap"
        "src @ (if classify p k = Untracked then [] else [source_of g (c, k)])"]
    show ?thesis
      by (auto simp: one Some class_ids_def untapped_mana_def cap_slot_add_offer ac_simps)
  qed
qed

text \<open>The simple sources slot by slot are the simple sources of the board.\<close>

lemma slots_partition:
  "mset (concat (map (\<lambda>sl. class_ids p (Simple sl) xs) all_slots)) = mset (map fst (filter (is_simple p) xs))"
proof (induction xs)
  case Nil
  then show ?case by (simp add: class_ids_def all_slots_def)
next
  case (Cons x xs)
  obtain c k where x: "x = (c, k)" by fastforce
  have "class_ids p (Simple sl) (x # xs)
      = (if classify p k = Simple sl then [c] else []) @ class_ids p (Simple sl) xs" for sl
    by (simp add: class_ids_def x)
  moreover have "mset (concat (map (\<lambda>sl. (if classify p k = Simple sl then [c] else []) @ f sl) all_slots))
      = (if is_simple p (c, k) then {#c#} else {#}) + mset (concat (map f all_slots))" for f :: "slot \<Rightarrow> card_id list"
  proof (cases "\<exists>sl. classify p k = Simple sl")
    case True
    then obtain sl where "classify p k = Simple sl" by blast
    then show ?thesis
      by (cases sl rule: slot_cases) (simp_all add: all_slots_def is_simple_def)
  next
    case False
    then show ?thesis by (auto simp: all_slots_def is_simple_def)
  qed
  ultimately show ?case using Cons by (simp add: x)
qed

text \<open>Agreement of an engine with a scan, up to the order of the simple sources.\<close>

definition engine_agrees :: "mana_engine \<Rightarrow> scan \<Rightarrow> bool" where
  "engine_agrees e = (\<lambda>(simple, complex, cap, sources). mset (me_simple_sources e) = mset simple
     \<and> me_complex_sources e = complex \<and> me_simple_capacity e = cap
     \<and> mset (me_mana_sources e) = mset sources \<and> me_use_greedy_resolver e = (complex \<noteq> []))"

lemma agrees_verified:
  "engine_agrees e (compute_from_scratch g p) \<Longrightarrow> verify_incremental_correctness g p e"
  by (auto simp: engine_agrees_def verify_incremental_correctness_def dest: mset_eq_length split: prod.splits)

lemma set_board: "(c, k) \<in> set (game_board g) \<longleftrightarrow> c \<in> set (z_cards (gs_battlefield g)) \<and> card_of g c = Some k"
  by (force simp: game_board_def List.map_filter_def)

lemma map_filter_total: "(\<And>x. x \<in> set xs \<Longrightarrow> f x = Some (h x)) \<Longrightarrow> List.map_filter f xs = map h xs"
  by (induction xs) (simp_all add: List.map_filter_def)

lemma slots_mset:
  assumes "represents (game_board g) m"
  shows "mset (cached_simple m) = mset (map fst (filter (is_simple (msx_player_id m)) (game_board g)))"
  unfolding cached_simple_def slots_partition [symmetric] using assms by (simp add: represents_def)

lemma tracked_partition:
  "mset (filter (is_simple p) xs) + mset (filter (\<lambda>(c, k). classify p k = Complex) xs)
    = mset (filter (\<lambda>(c, k). classify p k \<noteq> Untracked) xs)"
proof (induction xs)
  case (Cons x xs)
  obtain c k where "x = (c, k)" by fastforce
  with Cons show ?case by (cases "classify p k") (simp_all add: is_simple_def ac_simps)
qed simp

lemma read_agrees:
  assumes board: "represents (game_board g) m" and p: "msx_player_id m = p"
    and plain: "\<And>x. x \<in> set (game_board g) \<Longrightarrow> plain_source g p x"
  shows "engine_agrees (read_from_cache g m p (engine_cleared e)) (compute_from_scratch g p)"
proof -
  let ?xs = "game_board g" and ?bf = "z_cards (gs_battlefield g)"
  let ?src = "\<lambda>c. source_of g (c, the (card_of g c))"
  obtain cap where scan: "compute_from_scratch g p = (map fst (filter (is_simple p) ?xs), class_ids p Complex ?xs, cap,
      map (source_of g) (filter (\<lambda>(c, k). classify p k \<noteq> Untracked) ?xs))"
    and cap: "\<And>sl. cap_slot sl cap = of_nat (untapped_mana p sl ?xs)"
    using scan_all [where bf = ?bf and g = g and p = p and s = "[]" and cx = "[]" and cap = mana_pool_new and src = "[]"]
      plain by (auto simp: compute_from_scratch_def game_board_def [symmetric] set_board)
  have complex: "msx_complex_sources m = class_ids p Complex ?xs" using board p by (simp add: represents_def)
  have capacity: "cached_capacity m = cap"
  proof (rule capacity_eqI)
    fix sl
    have "unat (slot_untapped sl m) = untapped_mana p sl ?xs" using board p by (simp add: represents_def)
    then have "of_nat (untapped_mana p sl ?xs) = (ucast (slot_untapped sl m) :: u8)" by (metis of_nat_unat)
    then show "cap_slot sl (cached_capacity m) = cap_slot sl cap" by (simp add: cap_slot_cached cap)
  qed
  have simple_ids: "mset (cached_simple m) = mset (map fst (filter (is_simple p) ?xs))"
    using slots_mset [OF board] p by simp
  have "simple_source g c = Some (?src c)" if "c \<in> set (cached_simple m)" for c
  proof -
    have "c \<in># mset (map fst (filter (is_simple p) ?xs))" using that simple_ids by (metis set_mset_mset)
    then obtain k where k: "(c, k) \<in> set ?xs" "is_simple p (c, k)" by auto
    then have "\<not> is_creature k" by (auto simp: is_simple_def classify_def split: if_splits)
    then show ?thesis using k(1) by (simp add: set_board simple_source_def source_of_def mana_sick_def)
  qed
  then have simple: "List.map_filter (simple_source g) (cached_simple m) = map ?src (cached_simple m)"
    by (rule map_filter_total)
  have "complex_source g p c = Some (?src c)" if "c \<in> set (class_ids p Complex ?xs)" for c
  proof -
    from that obtain k where k: "(c, k) \<in> set ?xs" "classify p k = Complex" by (auto simp: class_ids_def)
    then have "\<not> is_reflected k" using plain [OF k(1)] by (simp add: plain_source_def)
    then show ?thesis
      using k(1) by (simp add: set_board complex_source_def source_of_def effective_production_for_resolution_def)
  qed
  then have complex': "List.map_filter (complex_source g p) (class_ids p Complex ?xs) = map ?src (class_ids p Complex ?xs)"
    by (rule map_filter_total)
  have src: "map ?src (map fst ys) = map (source_of g) ys" if "set ys \<subseteq> set ?xs" for ys
    using that by (induction ys) (auto simp: set_board)
  have "mset (map ?src (cached_simple m)) = image_mset ?src (mset (map fst (filter (is_simple p) ?xs)))"
    by (simp add: simple_ids)
  also have "\<dots> = mset (map ?src (map fst (filter (is_simple p) ?xs)))" by (simp only: mset_map)
  also have "\<dots> = mset (map (source_of g) (filter (is_simple p) ?xs))" by (subst src) auto
  finally have s1: "mset (map ?src (cached_simple m)) = image_mset (source_of g) (mset (filter (is_simple p) ?xs))"
    by simp
  have "map ?src (class_ids p Complex ?xs) = map (source_of g) (filter (\<lambda>(c, k). classify p k = Complex) ?xs)"
    unfolding class_ids_def by (rule src) auto
  then have s2: "mset (map ?src (class_ids p Complex ?xs))
      = image_mset (source_of g) (mset (filter (\<lambda>(c, k). classify p k = Complex) ?xs))" by simp
  have "mset (map ?src (cached_simple m) @ map ?src (class_ids p Complex ?xs))
      = image_mset (source_of g) (mset (filter (\<lambda>(c, k). classify p k \<noteq> Untracked) ?xs))"
    unfolding mset_append s1 s2 image_mset_union [symmetric] tracked_partition ..
  then show ?thesis
    by (simp add: engine_agrees_def scan read_from_cache_def engine_cleared_def complex capacity simple complex'
        simple_ids Let_def)
qed

subsection \<open>Paying from the pool and the sources\<close>

definition pool_plus :: "mana_pool \<Rightarrow> mana_pool \<Rightarrow> mana_pool" where
  "pool_plus p q = \<lparr>mp_white = mp_white p + mp_white q, mp_blue = mp_blue p + mp_blue q,
     mp_black = mp_black p + mp_black q, mp_red = mp_red p + mp_red q, mp_green = mp_green p + mp_green q,
     mp_colorless = mp_colorless p + mp_colorless q\<rparr>"

lemma can_pay_simple_pool: "can_pay_simple = can_pay"
  by (simp add: fun_eq_iff can_pay_simple_def can_pay_def)

lemma unat_plus_small: "unat a + unat b < 256 \<Longrightarrow> unat (a + b) = unat a + unat b" for a b :: u8
  by (simp add: unat_word_ariths)

lemma pool_list_plus: "pool_sum p + pool_sum q < 256 \<Longrightarrow> pool_list (pool_plus p q) = map2 (+) (pool_list p) (pool_list q)"
  by (simp add: pool_list_def pool_plus_def pool_sum_def unat_plus_small)

lemma cost_list_remaining: "cost_list (remaining_cost c p) = map2 (-) (cost_list c) (pool_list p)"
  by (simp add: cost_list_def pool_list_def remaining_cost_def unat_sat_sub)

lemma unat_surplus: "unat (sat_sub a (min b a)) = unat a - unat b" for a b :: u8
  by (simp add: unat_sat_sub min_def word_le_nat_alt)

lemma pool_surplus_sum:
  assumes "pool_sum p < 256"
  shows "unat (pool_surplus c p) = sum_list (map2 (-) (pool_list p) (cost_list c))"
proof -
  let ?d = "\<lambda>x y. sat_sub (x p) (min (y c) (x p))"
  have "pool_surplus c p = of_nat (sum_list (map2 (-) (pool_list p) (cost_list c)))"
    by (simp add: pool_surplus_def pool_list_def cost_list_def flip: unat_surplus)
  moreover have "sum_list (map2 (-) (pool_list p) (cost_list c)) \<le> sum_list (pool_list p)"
    by (simp add: pool_list_def cost_list_def)
  ultimately show ?thesis using assms by (simp add: pool_sum_list unat_of_nat)
qed

text \<open>Affordability of the rest from the sources is affordability of the whole from both.\<close>

lemma split_payment:
  fixes cs ps ms :: "nat list"
  assumes "length cs = length ps" "length ms = length ps"
  shows "list_all2 (\<le>) (map2 (-) cs ps) ms = list_all2 (\<le>) cs (map2 (+) ps ms)"
    and "list_all2 (\<le>) cs (map2 (+) ps ms) \<Longrightarrow>
      (n - sum_list (map2 (-) ps cs) + sum_list (map2 (-) cs ps) \<le> sum_list ms)
      = (n + sum_list cs \<le> sum_list (map2 (+) ps ms))"
proof -
  show "list_all2 (\<le>) (map2 (-) cs ps) ms = list_all2 (\<le>) cs (map2 (+) ps ms)"
    using assms(1) assms(2) [symmetric] by (induction cs ps ms rule: list_induct3) auto
  assume le: "list_all2 (\<le>) cs (map2 (+) ps ms)"
  have "sum_list cs + sum_list (map2 (-) ps cs) = sum_list ps + sum_list (map2 (-) cs ps)"
    "sum_list (map2 (+) ps ms) = sum_list ps + sum_list ms"
    "list_all2 (\<le>) cs (map2 (+) ps ms) \<longrightarrow> sum_list (map2 (-) cs ps) \<le> sum_list ms"
    using assms(1) assms(2) [symmetric] by (induction cs ps ms rule: list_induct3) auto
  with le show "(n - sum_list (map2 (-) ps cs) + sum_list (map2 (-) cs ps) \<le> sum_list ms)
      = (n + sum_list cs \<le> sum_list (map2 (+) ps ms))" by linarith
qed

lemma pool_lengths [simp]: "length (pool_list p) = 6" "length (cost_list c) = 6"
  by (simp_all add: pool_list_def cost_list_def)

lemma pool_sum_plus: "pool_sum p + pool_sum q < 256 \<Longrightarrow> pool_sum (pool_plus p q) = pool_sum p + pool_sum q"
  by (simp add: pool_plus_def pool_sum_def unat_plus_small)

lemma remaining_affordable:
  assumes "pool_sum p + pool_sum q < 256" "cost_sum c < 256"
  shows "can_pay q (remaining_cost c p) \<longleftrightarrow> can_pay (pool_plus p q) c"
proof -
  have p: "pool_sum p < 256" "pool_sum q < 256" "pool_sum (pool_plus p q) < 256"
    using assms(1) by (simp_all add: pool_sum_plus)
  have gen: "unat (mc_generic (remaining_cost c p))
      = unat (mc_generic c) - sum_list (map2 (-) (pool_list p) (cost_list c))"
    by (simp add: remaining_cost_def unat_sat_sub pool_surplus_sum [OF p(1)])
  have "sum_list (map2 (-) (cost_list c) (pool_list p)) \<le> sum_list (cost_list c)"
    by (simp add: cost_list_def pool_list_def)
  then have rest: "cost_sum (remaining_cost c p) < 256"
    using assms(2) by (simp add: cost_sum_list cost_list_remaining gen)
  have len: "length (cost_list c) = length (pool_list p)" "length (pool_list q) = length (pool_list p)" by simp_all
  note split = split_payment [OF len]
  show ?thesis
    unfolding can_pay_exact [OF p(2) rest] can_pay_exact [OF p(3) assms(2)] cost_sum_list [of "remaining_cost c p"]
      cost_list_remaining gen cost_sum_list [of c] pool_sum_list [of "pool_plus p q"] pool_list_plus [OF assms(1)]
      pool_sum_list [of q] split(1)
    using split(2) by blast
qed

lemma pay_from_both:
  assumes "pool_sum p + pool_sum q < 256" "cost_sum c < 256"
  shows "(can_pay p c \<or> cmc (remaining_cost c p) = 0 \<or> can_pay q (remaining_cost c p)) \<longleftrightarrow> can_pay (pool_plus p q) c"
proof -
  have p: "pool_sum p < 256" "pool_sum (pool_plus p q) < 256" using assms(1) by (simp_all add: pool_sum_plus)
  have more: "can_pay (pool_plus p q) c" if "can_pay p c"
  proof -
    have "list_all2 (\<le>) (cost_list c) (pool_list p)" "cost_sum c \<le> pool_sum p"
      using that can_pay_exact [OF p(1) assms(2)] by simp_all
    moreover have "list_all2 (\<le>) (pool_list p) (map2 (+) (pool_list p) (pool_list q))"
      by (simp add: pool_list_def)
    ultimately show ?thesis
      using can_pay_exact [OF p(2) assms(2)] list_all2_trans [of "(\<le>)" "(\<le>)" "(\<le>) :: nat \<Rightarrow> _"] order_trans
      by (simp add: pool_list_plus [OF assms(1)] pool_sum_plus [OF assms(1)])
  qed
  have zero: "can_pay q (remaining_cost c p)" if "cmc (remaining_cost c p) = 0"
  proof -
    have "cost_sum (remaining_cost c p) \<le> cost_sum c"
      by (auto simp: cost_sum_def remaining_cost_def unat_sat_sub intro!: add_mono)
    with assms(2) have "unat (cmc (remaining_cost c p)) = cost_sum (remaining_cost c p)" by (intro unat_cmc) simp
    with that have "cost_sum (remaining_cost c p) = 0" by simp
    then have "mc_generic (remaining_cost c p) = 0" "mc_white (remaining_cost c p) = 0" "mc_blue (remaining_cost c p) = 0"
      "mc_black (remaining_cost c p) = 0" "mc_red (remaining_cost c p) = 0" "mc_green (remaining_cost c p) = 0"
      "mc_colorless (remaining_cost c p) = 0"
      by (simp_all add: cost_sum_def unat_eq_zero)
    then show ?thesis by (simp add: can_pay_def is_affordable_def cmc_def)
  qed
  show ?thesis using more zero remaining_affordable [OF assms] by blast
qed

end
