(* ===== verification/PaymentProperties.thy ===== *)
theory PaymentProperties
  imports ManaPayment ManaEngine
begin

section \<open>Properties of mana payment\<close>

text \<open>
  What the answers of the payment resolvers mean for the sources on the table: the bounds check, the
  simple and the greedy resolver, and where the bounds check is wrong.
\<close>

definition red_land :: mana_source where
  "red_land = \<lparr>ms_card_id = 1, ms_production = mp_free (Fixed MRed), ms_is_tapped = False,
     ms_has_summoning_sickness = False\<rparr>"

definition dual_land :: mana_source where
  "dual_land = \<lparr>ms_card_id = 2, ms_production = mp_free (Choice (from_slice [MRed, MGreen])), ms_is_tapped = False,
     ms_has_summoning_sickness = False\<rparr>"

definition filter_rock :: mana_source where
  "filter_rock = \<lparr>ms_card_id = 3, ms_production = mp_with_cost AnyColor (mana_cost_new\<lparr>mc_generic := 2\<rparr>),
     ms_is_tapped = False, ms_has_summoning_sickness = False\<rparr>"

lemmas sample_sources = red_land_def dual_land_def filter_rock_def mp_free_def mp_with_cost_def

lemma sample_plain: "plain_sources [red_land, dual_land]" "plain_sources [red_land]" "simple_sources [red_land]"
proof -
  have "\<not> mcs_is_empty (from_slice [MRed, MGreen])" by code_simp
  then show "plain_sources [red_land, dual_land]" "plain_sources [red_land]" "simple_sources [red_land]"
    by (simp_all add: plain_sources_def simple_sources_def amount_where_def sample_sources kind_of_def
        amount_of_def usable_def is_simple_kind_def mana_production_default_def)
qed

text \<open>
  C35: the bounds check is right when it answers: for sources with distinct identifiers that tap for
  free and give at most 127 mana together, Yes means some set of untapped sources, each spent on one
  colour it can produce, meets every coloured requirement and covers the whole cost, and No means no
  set does. Maybe leaves the question to the resolver.
\<close>

theorem bounds_check_sound:
  assumes "plain_sources src"
  shows "case bounds_check_payment m src of Yes \<Rightarrow> payable m src | No \<Rightarrow> \<not> payable m src | Maybe \<Rightarrow> True"
  using bounds_No_sound [OF assms, of m] bounds_Yes_sound [OF assms, of m]
  by (auto split: payment_result.split)

theorem bounds_check_sound_witness:
  "payable (mana_cost_new\<lparr>mc_red := 1\<rparr>) [red_land, dual_land]
    \<and> \<not> payable (mana_cost_new\<lparr>mc_white := 1\<rparr>) [red_land, dual_land]"
proof -
  have it: "mcs_iter (from_slice [MRed, MGreen]) = [MRed, MGreen]" by code_simp
  have "bounds_check_payment (mana_cost_new\<lparr>mc_red := 1\<rparr>) [red_land, dual_land] = Yes"
    "bounds_check_payment (mana_cost_new\<lparr>mc_white := 1\<rparr>) [red_land, dual_land] = No"
    by (simp_all add: bounds_check_payment_def bounds_step_def bounds_start_def Let_def sample_sources
        kind_of_def amount_of_def net_delta_def mana_production_default_def it needed_mana_def
        over_max_def total_excess_def mana_cost_new_def mana_pool_new_def sat_add_def sat_sub_def)
  then show ?thesis
    using bounds_check_sound [OF sample_plain(1), of "mana_cost_new\<lparr>mc_red := 1\<rparr>"]
      bounds_check_sound [OF sample_plain(1), of "mana_cost_new\<lparr>mc_white := 1\<rparr>"] by simp
qed

text \<open>
  C34: the simple resolver decides: for plain sources of one colour each, asking whether a cost can be
  paid answers yes exactly when it can, and then the tap order it hands back, whatever was in the
  buffer before, names distinct usable sources that pay the cost.
\<close>

theorem simple_resolver_decides:
  assumes "plain_sources src" "simple_sources src"
  shows "(resolver_can_pay simple_check_payment m src \<longleftrightarrow> payable m src)
    \<and> (payable m src \<longrightarrow> (\<exists>T. compute_tap_order simple_check_payment m src buffer
        = (True, Some (map (ms_card_id \<circ> fst) T)) \<and> admissible src T \<and> pays m T))"
proof (intro conjI impI)
  have simple: "\<not> list_ex (\<lambda>s. \<not> ms_is_tapped s \<and> \<not> ms_has_summoning_sickness s \<and> \<not> is_simple_kind (kind_of s)) src"
    using assms(2) by (auto simp: simple_sources_def usable_def list_ex_iff)
  have iff: "bounds_check_payment m src \<noteq> No \<longleftrightarrow> payable m src"
    using simple_bounds_pay [OF assms] tap_all_admissible [OF assms(1)] bounds_No_sound [OF assms(1)]
    by (auto simp: payable_def)
  show "resolver_can_pay simple_check_payment m src \<longleftrightarrow> payable m src"
    using simple iff by (auto simp: resolver_can_pay_def simple_check_payment_def)
  assume "payable m src"
  then have ok: "bounds_check_payment m src \<noteq> No" using iff by simp
  obtain T where "simple_tap_order m src = map (ms_card_id \<circ> fst) T" "admissible src T" "pays m T"
    using simple_order_pays [OF assms simple_bounds_pay [OF assms ok]] by blast
  then show "\<exists>T. compute_tap_order simple_check_payment m src buffer
      = (True, Some (map (ms_card_id \<circ> fst) T)) \<and> admissible src T \<and> pays m T"
    using simple ok by (intro exI [of _ T]) (simp add: compute_tap_order_def simple_check_payment_def)
qed

theorem simple_resolver_decides_witness:
  "(\<exists>T. admissible [red_land] T \<and> pays (mana_cost_new\<lparr>mc_generic := 1\<rparr>) T)
    \<and> \<not> payable (mana_cost_new\<lparr>mc_generic := 2\<rparr>) [red_land]"
proof -
  have "resolver_can_pay simple_check_payment (mana_cost_new\<lparr>mc_generic := 1\<rparr>) [red_land]"
    "\<not> resolver_can_pay simple_check_payment (mana_cost_new\<lparr>mc_generic := 2\<rparr>) [red_land]"
    by (simp_all add: resolver_can_pay_def simple_check_payment_def bounds_check_payment_def
        bounds_step_def bounds_start_def Let_def sample_sources kind_of_def amount_of_def net_delta_def
        mana_production_default_def needed_mana_def over_max_def mana_cost_new_def mana_pool_new_def
        sat_add_def is_simple_kind_def)
  then show ?thesis using simple_resolver_decides [OF sample_plain(2,3)] by (auto simp: payable_def)
qed



text \<open>
  With a source that costs mana to activate the bounds check can be wrong: its net contribution is
  added even when it is negative, so a red land that pays one generic mana by itself is refused once a
  stone that costs two mana to use lies beside it.
\<close>

theorem costly_source_hides_payment:
  "bounds_check_payment (mana_cost_new\<lparr>mc_generic := 1\<rparr>) [red_land, filter_rock] = No
    \<and> payable (mana_cost_new\<lparr>mc_generic := 1\<rparr>) [red_land, filter_rock]
    \<and> bounds_check_payment (mana_cost_new\<lparr>mc_generic := 1\<rparr>) [red_land] = Yes"
proof (intro conjI)
  show "bounds_check_payment (mana_cost_new\<lparr>mc_generic := 1\<rparr>) [red_land, filter_rock] = No"
    "bounds_check_payment (mana_cost_new\<lparr>mc_generic := 1\<rparr>) [red_land] = Yes"
    by code_simp+
  have "admissible [red_land, filter_rock] [(red_land, None)]"
    by (simp add: admissible_def usable_def kind_of_def red_land_def mp_free_def)
  moreover have "required (mana_cost_new\<lparr>mc_generic := 1\<rparr>) c = 0" for c
    by (cases c) (simp_all add: mana_cost_new_def)
  then have "pays (mana_cost_new\<lparr>mc_generic := 1\<rparr>) [(red_land, None)]"
    by (simp add: pays_def all_required_def total_tapped_def amount_of_def red_land_def mp_free_def
        mana_production_default_def mana_cost_new_def)
  ultimately show "payable (mana_cost_new\<lparr>mc_generic := 1\<rparr>) [red_land, filter_rock]"
    by (auto simp: payable_def)
qed

subsection \<open>The mana engine\<close>

text \<open>A game in which the first player controls one card, with a cache of mana sources for that player.\<close>

definition one_source_game :: "card \<Rightarrow> mana_source_cache \<Rightarrow> game_state" where
  "one_source_game k m = (new_two_player (\<lambda>_. [0]) ''A'' ''B'' 20)\<lparr>
     gs_cards := \<lparr>entities = [None, None, None, Some k]\<rparr>,
     gs_battlefield := (card_zone_new Battlefield 2)\<lparr>z_cards := [3]\<rparr>, gs_mana_caches := [(0, m)]\<rparr>"

definition mountain :: card where
  "mountain = card_new 3 ''Mountain'' 0"

definition dual_card :: card where
  "dual_card = mountain\<lparr>c_definition := card_definition_default\<lparr>cd_cache :=
     set_mana_production (mp_free (Choice (from_slice [MRed, MGreen]))) (card_cache_new [] ''Plateau'')\<rparr>\<rparr>"

lemma one_source_fields [simp]:
  "card_of (one_source_game k m) 3 = Some k" "z_cards (gs_battlefield (one_source_game k m)) = [3]"
  "get_mana_cache (one_source_game k m) 0 = Some m" "static_sources (one_source_game k m) = [3]"
  "game_board (one_source_game k m) = [(3, k)]"
  by (simp_all add: one_source_game_def new_two_player_def new_two_player_with_capacity_def card_of_def
      store_try_get_def get_mana_cache_def find_entry_def static_sources_def player_zones_new_def card_zone_new_def
      game_board_def List.map_filter_simps)

lemma mountain_fields [simp]:
  "c_owner mountain = 0" "c_chosen_color mountain = None" "c_tapped mountain = False" "c_static_abilities mountain = []"
  "c_activated_abilities mountain = []" "\<not> is_creature mountain"
  "card_cache mountain = set_mana_production (derive_mana_production_from_name ''Mountain'') (card_cache_new [] ''Mountain'')"
  "c_owner dual_card = 0" "c_chosen_color dual_card = None" "c_tapped dual_card = False"
  "c_static_abilities dual_card = []" "\<not> is_creature dual_card"
  "cc_mana_production (card_cache dual_card) = mp_free (Choice (from_slice [MRed, MGreen]))"
  by (simp_all add: mountain_def dual_card_def card_new_def Let_def is_creature_def card_cache_def
      set_mana_production_def card_cache_new_def)

text \<open>
  C36: the engine reads what a scan would find: when the cache of the player has followed every card that
  entered, left, tapped and untapped, and no source has a granted mana ability, a reflected ability or a
  chosen colour, an update from the cache lists the same simple sources up to order, the same complex
  sources, the same capacity and the same sources as the scan of the battlefield, chooses the greedy
  resolver exactly when there are complex sources, and passes the debug verification.
\<close>

theorem engine_reads_battlefield:
  assumes "get_mana_cache g p = Some m" "cache_history p (game_board g) m" "\<not> msx_is_empty m"
    and "\<not> engine_current g p e" "\<And>x. x \<in> set (game_board g) \<Longrightarrow> plain_source g p x"
  shows "engine_agrees (engine_update g p e) (compute_from_scratch g p)
    \<and> verify_incremental_correctness g p (engine_update g p e)"
proof -
  note m = cache_history_represents [OF assms(2)]
  have "engine_update g p e = read_from_cache g m p (engine_cleared e)"
    using assms(1,3,4) m by (simp add: engine_update_def)
  moreover have "engine_agrees (read_from_cache g m p (engine_cleared e)) (compute_from_scratch g p)"
    by (rule read_agrees) (use m assms(5) in auto)
  ultimately show ?thesis using agrees_verified by simp
qed

lemma mountain_history: "cache_history 0 [(3, mountain)] (on_card_entered 3 mountain (msx_new 0))"
proof -
  have "untapped_mana 0 sl ([] @ [(3, mountain)]) < 2 ^ 32" for sl
  proof -
    have "unat (source_amount mountain) < 2 ^ LENGTH(32)" by (rule unsigned_less)
    then show ?thesis by (simp add: untapped_mana_def offered_def)
  qed
  from cache_history.entered [OF cache_history.start _ this] show ?thesis by simp
qed

lemma mountain_red: "mpr_kind (derive_mana_production_from_name ''Mountain'') = Fixed MRed"
  by code_simp

theorem engine_reads_battlefield_witness:
  "verify_incremental_correctness (one_source_game mountain (on_card_entered 3 mountain (msx_new 0))) 0
     (engine_update (one_source_game mountain (on_card_entered 3 mountain (msx_new 0))) 0 mana_engine_new)"
proof -
  let ?m = "on_card_entered 3 mountain (msx_new 0)"
  let ?g = "one_source_game mountain ?m"
  have "\<not> msx_is_empty ?m"
    by (simp add: on_card_entered_classify classify_def set_mana_production_def mountain_red produces_mana_def
        msx_is_empty_def push_simple_def Let_def msx_new_def)
  moreover have "plain_source ?g 0 x" if "x \<in> set (game_board ?g)" for x
    using that by (simp add: plain_source_def get_effective_mana_production_def get_granted_abilities_def
        granted_by_def is_reflected_def)
  moreover have "\<not> engine_current ?g 0 mana_engine_new" by (simp add: engine_current_def mana_engine_new_def)
  ultimately show ?thesis
    using engine_reads_battlefield [of ?g 0 ?m mana_engine_new] mountain_history by simp
qed

text \<open>
  C37: paying with the mana pool and with the sources is one payment: while the simple resolver is in
  use and nothing overflows a byte, the engine's answer for a pool and a cost is that of the pool and
  the untapped capacity put together; so spending the pool first, colours before the generic
  part, loses no payment.
\<close>

theorem pool_and_sources_together:
  assumes "\<not> me_use_greedy_resolver e" "pool_sum pool + pool_sum (me_simple_capacity e) < 256" "cost_sum cost < 256"
  shows "can_pay_with_pool e cost pool \<longleftrightarrow> can_pay (pool_plus pool (me_simple_capacity e)) cost"
proof (cases "pool_is_empty pool")
  case True
  then have "pool_plus pool (me_simple_capacity e) = me_simple_capacity e"
    by (simp add: pool_is_empty_def pool_plus_def)
  then show ?thesis using True assms(1) by (simp add: can_pay_with_pool_def engine_can_pay_def can_pay_simple_pool)
next
  case False
  then show ?thesis
    using pay_from_both [OF assms(2,3)] assms(1)
    by (auto simp: can_pay_with_pool_def engine_can_pay_def can_pay_simple_pool Let_def)
qed

theorem pool_and_sources_together_witness:
  "can_pay_with_pool (mana_engine_new\<lparr>me_simple_capacity := mana_pool_new\<lparr>mp_red := 1\<rparr>\<rparr>)
     (mana_cost_new\<lparr>mc_red := 1, mc_generic := 1\<rparr>) (mana_pool_new\<lparr>mp_green := 1\<rparr>)"
  using pool_and_sources_together [of "mana_engine_new\<lparr>me_simple_capacity := mana_pool_new\<lparr>mp_red := 1\<rparr>\<rparr>"
      "mana_pool_new\<lparr>mp_green := 1\<rparr>" "mana_cost_new\<lparr>mc_red := 1, mc_generic := 1\<rparr>"]
  by (simp add: mana_engine_new_def mana_pool_new_def mana_cost_new_def pool_sum_def cost_sum_def pool_plus_def
      can_pay_def is_affordable_def cmc_def sat_add_def)

text \<open>
  A cache that waits for its rebuild leaves the resolver of an earlier update in use: an engine
  that was on the simple one stays on it whatever the fallback scan finds, and answers from the capacity
  of the simple sources alone, so a land of two colours cannot pay for a spell.
\<close>

theorem fallback_keeps_resolver:
  assumes "get_mana_cache g p = Some m" "msx_needs_rebuild m" "\<not> engine_current g p e" "\<not> me_use_greedy_resolver e"
  shows "engine_can_pay (engine_update g p e) cost
    \<longleftrightarrow> can_pay (snd (snd (case foldl (scan_source g p (fallback_production g)) ([], [], mana_pool_new, [])
          (z_cards (gs_battlefield g)) of (simple, complex, cap, sources) \<Rightarrow> (simple, complex, cap)))) cost"
  using assms
  by (simp add: engine_update_def scan_battlefield_fallback_def engine_cleared_def engine_can_pay_def
      can_pay_simple_pool case_prod_beta')

lemma dual_scan:
  "foldl (scan_source (one_source_game dual_card m) 0 (fallback_production (one_source_game dual_card m)))
     ([], [], mana_pool_new, []) [3] = ([], [3], mana_pool_new, [\<lparr>ms_card_id = 3,
       ms_production = mp_free (Choice (from_slice [MRed, MGreen])), ms_is_tapped = False,
       ms_has_summoning_sickness = False\<rparr>])"
proof -
  have "fallback_production (one_source_game dual_card m) 3 dual_card = mp_free (Choice (from_slice [MRed, MGreen]))"
    by (simp add: fallback_production_def get_effective_mana_production_def get_granted_abilities_def granted_by_def unwrap_or_def)
  moreover have "cc_is_mana_source (card_cache dual_card)"
    by (simp add: dual_card_def card_cache_def set_mana_production_def produces_mana_def mp_free_def) code_simp
  ultimately show ?thesis
    by (simp add: scan_source_def add_source_def mana_sick_def Let_def mp_free_def mana_production_default_def)
qed

lemma dual_pays: "resolver_can_pay greedy_check_payment (mana_cost_new\<lparr>mc_red := 1\<rparr>) [\<lparr>ms_card_id = 3,
     ms_production = mp_free (Choice (from_slice [MRed, MGreen])), ms_is_tapped = False,
     ms_has_summoning_sickness = False\<rparr>]" (is "resolver_can_pay _ _ ?src")
proof -
  have it: "mcs_iter (from_slice [MRed, MGreen]) = [MRed, MGreen]" by code_simp
  have con: "mcs_contains (from_slice [MRed, MGreen]) MRed" "mcs_len (from_slice [MRed, MGreen]) = 2" by code_simp+
  have "bounds_check_payment (mana_cost_new\<lparr>mc_red := 1\<rparr>) ?src \<noteq> No"
    by (simp add: bounds_check_payment_def bounds_step_def bounds_start_def Let_def mp_free_def
        kind_of_def amount_of_def net_delta_def mana_production_default_def it needed_mana_def
        over_max_def total_excess_def mana_cost_new_def mana_pool_new_def sat_add_def sat_sub_def)
  moreover have "greedy_tap_order (mana_cost_new\<lparr>mc_red := 1\<rparr>) ?src \<noteq> None"
    by (simp add: greedy_tap_order_def pay_requirement_def mana_cost_new_def tap_for_color_def tap_phase_def
        candidates_def mp_free_def mana_production_default_def score_for_color_def con
        amount_of_def sat_add_def sat_sub_def side_cost_score_def)
  ultimately show ?thesis by (auto simp: resolver_can_pay_def greedy_check_payment_def try_greedy_payment_def)
qed

theorem fallback_keeps_resolver_witness:
  "(let g = one_source_game dual_card (mark_dirty (msx_new 0)); e = engine_update g 0 mana_engine_new in
     me_complex_sources e = [3] \<and> \<not> engine_can_pay e (mana_cost_new\<lparr>mc_red := 1\<rparr>)
     \<and> resolver_can_pay greedy_check_payment (mana_cost_new\<lparr>mc_red := 1\<rparr>) (me_mana_sources e))"
proof -
  let ?g = "one_source_game dual_card (mark_dirty (msx_new 0))"
  have m: "msx_needs_rebuild (mark_dirty (msx_new 0))" by (simp add: mark_dirty_def)
  have e: "\<not> engine_current ?g 0 mana_engine_new" "\<not> me_use_greedy_resolver mana_engine_new"
    by (simp_all add: engine_current_def mana_engine_new_def)
  have "engine_update ?g 0 mana_engine_new = scan_battlefield_fallback ?g 0 (engine_cleared mana_engine_new)"
    using m e(1) by (simp add: engine_update_def)
  then have scan: "me_complex_sources (engine_update ?g 0 mana_engine_new) = [3]"
    "me_mana_sources (engine_update ?g 0 mana_engine_new) = [\<lparr>ms_card_id = 3,
       ms_production = mp_free (Choice (from_slice [MRed, MGreen])), ms_is_tapped = False,
       ms_has_summoning_sickness = False\<rparr>]"
    by (simp_all add: scan_battlefield_fallback_def engine_cleared_def dual_scan del: foldl.simps)
  have "\<not> engine_can_pay (engine_update ?g 0 mana_engine_new) (mana_cost_new\<lparr>mc_red := 1\<rparr>)"
    unfolding fallback_keeps_resolver [OF one_source_fields(3) m e] one_source_fields(2) dual_scan
    by (simp add: can_pay_def is_affordable_def mana_pool_new_def mana_cost_new_def)
  moreover have "resolver_can_pay greedy_check_payment (mana_cost_new\<lparr>mc_red := 1\<rparr>)
      (me_mana_sources (engine_update ?g 0 mana_engine_new))"
    unfolding scan by (rule dual_pays)
  ultimately show ?thesis unfolding Let_def by (simp add: scan)
qed

end
