(* ===== verification/Prohibitions.thy ===== *)
theory Prohibitions
  imports ContinuousEffects
begin

section \<open>Static prohibitions\<close>

text \<open>
  The queries of \<open>mtg-engine/src/game/state.rs\<close> that scan the battlefield for a static ability that
  forbids or allows an action: casting, playing a land, attacking, blocking, activating.
\<close>

text \<open>\<open>battlefield.cards.iter().any(|id| try_get(id).is_some_and(|src| src.static_abilities.iter().any(..)))\<close>.\<close>

definition any_static :: "game_state \<Rightarrow> (card \<Rightarrow> static_ability \<Rightarrow> bool) \<Rightarrow> bool" where
  "any_static g P = list_ex (\<lambda>i. case card_of g i of
       None \<Rightarrow> False | Some src \<Rightarrow> list_ex (P src) (c_static_abilities src)) (z_cards (gs_battlefield g))"

fun caster_restricted :: "game_state \<Rightarrow> card \<Rightarrow> player_id \<Rightarrow> caster_restriction \<Rightarrow> bool" where
  "caster_restricted g src p CasterAny = True"
| "caster_restricted g src p CasterYou = (p = c_controller src)"
| "caster_restricted g src p CasterYouNonActive =
     (p = c_controller src \<and> p \<noteq> ts_active_player (gs_turn g))"
| "caster_restricted g src p CasterOpponent = (p \<noteq> c_controller src)"

definition caster_in_sorcery_window :: "game_state \<Rightarrow> player_id \<Rightarrow> bool" where
  "caster_in_sorcery_window g p = (p = ts_active_player (gs_turn g)
     \<and> is_sorcery_speed (ts_current_step (gs_turn g)) \<and> z_cards (gs_stack g) = [])"

definition is_cast_prohibited :: "game_state \<Rightarrow> player_id \<Rightarrow> card \<Rightarrow> bool" where
  "is_cast_prohibited g p k = any_static g (\<lambda>src ab. case ab of
       CantBeCast r caster origin only_sorcery d \<Rightarrow>
         origin = None \<and> \<not> (only_sorcery \<and> caster_in_sorcery_window g p)
         \<and> restriction_matches r k \<and> caster_restricted g src p caster
     | _ \<Rightarrow> False)"

definition has_hand_cast_prohibition :: "game_state \<Rightarrow> player_id \<Rightarrow> card \<Rightarrow> bool" where
  "has_hand_cast_prohibition g p k = any_static g (\<lambda>src ab. case ab of
       CantBeCast r caster origin only_sorcery d \<Rightarrow>
         origin = Some Hand \<and> restriction_matches r k \<and> caster_restricted g src p caster
     | _ \<Rightarrow> False)"

definition has_hand_land_prohibition :: "game_state \<Rightarrow> player_id \<Rightarrow> bool" where
  "has_hand_land_prohibition g p = any_static g (\<lambda>src ab. case ab of
       CantPlayLand r player origin d \<Rightarrow> origin = Some Hand \<and> caster_restricted g src p player
     | _ \<Rightarrow> False)"

definition player_has_cast_with_flash :: "game_state \<Rightarrow> player_id \<Rightarrow> card \<Rightarrow> bool" where
  "player_has_cast_with_flash g p k =
     (any_static g (\<lambda>src ab. c_controller src = p \<and> (case ab of
         CastWithFlash r d \<Rightarrow> restriction_matches r k | _ \<Rightarrow> False))
      \<or> player_has_grant_cast_with_flash (gs_persistent_effects g) p k)"

definition is_land_play_prohibited :: "game_state \<Rightarrow> card \<Rightarrow> bool" where
  "is_land_play_prohibited g k = any_static g (\<lambda>src ab. case ab of
       CantPlayLand r player origin d \<Rightarrow> origin = None \<and> restriction_matches r k
     | _ \<Rightarrow> False)"

definition is_play_prohibited :: "game_state \<Rightarrow> player_id \<Rightarrow> card \<Rightarrow> bool" where
  "is_play_prohibited g p k = (is_cast_prohibited g p k \<or> is_land_play_prohibited g k)"

definition is_attack_prohibited :: "game_state \<Rightarrow> card \<Rightarrow> bool" where
  "is_attack_prohibited g k = any_static g (\<lambda>src ab. case ab of
       CantAttackOrBlockMatching cant_attack cant_block r d \<Rightarrow> cant_attack \<and> restriction_matches r k
     | _ \<Rightarrow> False)"

definition is_block_prohibited :: "game_state \<Rightarrow> card \<Rightarrow> bool" where
  "is_block_prohibited g k = any_static g (\<lambda>src ab. case ab of
       CantAttackOrBlockMatching cant_attack cant_block r d \<Rightarrow> cant_block \<and> restriction_matches r k
     | _ \<Rightarrow> False)"

definition is_activated_ability_prohibited :: "game_state \<Rightarrow> card \<Rightarrow> bool" where
  "is_activated_ability_prohibited g k = any_static g (\<lambda>src ab. case ab of
       CantBeActivated r d \<Rightarrow> restriction_matches r k | _ \<Rightarrow> False)"

definition is_activated_ability_prohibited_by_name :: "game_state \<Rightarrow> card \<Rightarrow> bool" where
  "is_activated_ability_prohibited_by_name g k = any_static g (\<lambda>src ab. case ab of
       CantBeActivatedByName d \<Rightarrow> c_chosen_name src = Some (c_name k) | _ \<Rightarrow> False)"

definition is_creature_etb_trigger_suppressed :: "game_state \<Rightarrow> card \<Rightarrow> bool" where
  "is_creature_etb_trigger_suppressed g k = (is_creature k \<and> any_static g (\<lambda>src ab. case ab of
       DisableCreatureEtbTriggers d \<Rightarrow> True | _ \<Rightarrow> False))"

lemma any_static_empty: "z_cards (gs_battlefield g) = [] \<Longrightarrow> \<not> any_static g P"
  by (simp add: any_static_def)

text \<open>Where no permanent has a static ability nothing is forbidden.\<close>

lemma any_static_none:
  "(\<And>i k. i \<in> set (z_cards (gs_battlefield g)) \<Longrightarrow> card_of g i = Some k \<Longrightarrow> c_static_abilities k = [])
    \<Longrightarrow> \<not> any_static g P"
  by (force simp: any_static_def list_ex_iff split: option.splits)

end
