(* ===== verification/Fallible.thy ===== *)
theory Fallible
  imports Prelude
begin

section \<open>Computations that may fail\<close>

text \<open>The \<open>?\<close> operator, \<open>iter().any\<close> and \<open>iter().filter\<close> with a test that may fail.\<close>

definition and_then :: "'e + 'a \<Rightarrow> ('a \<Rightarrow> 'e + 'b) \<Rightarrow> 'e + 'b" where
  "and_then r f = (case r of Inl e \<Rightarrow> Inl e | Inr x \<Rightarrow> f x)"

fun any_result :: "('a \<Rightarrow> 'e + bool) \<Rightarrow> 'a list \<Rightarrow> 'e + bool" where
  "any_result P [] = Inr False"
| "any_result P (x # xs) = and_then (P x) (\<lambda>b. if b then Inr True else any_result P xs)"

fun filter_result :: "('a \<Rightarrow> 'e + bool) \<Rightarrow> 'a list \<Rightarrow> 'e + 'a list" where
  "filter_result P [] = Inr []"
| "filter_result P (x # xs) = and_then (P x) (\<lambda>b. map_sum id (\<lambda>ys. if b then x # ys else ys) (filter_result P xs))"

definition or_else_result :: "'e + bool \<Rightarrow> 'e + bool \<Rightarrow> 'e + bool" where
  "or_else_result a b = and_then a (\<lambda>x. if x then Inr True else b)"

definition not_result :: "'e + bool \<Rightarrow> 'e + bool" where "not_result = map_sum id Not"

lemma and_then_simps [simp]: "and_then (Inl e) f = Inl e" "and_then (Inr x) f = f x"
  by (simp_all add: and_then_def)

lemma and_then_Inr: "and_then r f = Inr y \<longleftrightarrow> (\<exists>x. r = Inr x \<and> f x = Inr y)"
  by (cases r) simp_all

lemma or_else_result_simps [simp]:
  "or_else_result (Inl e) b = Inl e" "or_else_result (Inr True) b = Inr True" "or_else_result (Inr False) b = b"
  by (simp_all add: or_else_result_def)

lemma not_result_simps [simp]: "not_result (Inl e) = Inl e" "not_result (Inr b) = Inr (\<not> b)"
  by (simp_all add: not_result_def)

lemma filter_result_Inr:
  "filter_result P xs = Inr ys \<Longrightarrow> ys = filter (\<lambda>x. P x = Inr True) xs \<and> (\<forall>x \<in> set xs. \<exists>b. P x = Inr b)"
proof (induction xs arbitrary: ys)
  case (Cons x xs)
  then obtain b zs where b: "P x = Inr b" and zs: "filter_result P xs = Inr zs"
    by (cases "P x"; cases "filter_result P xs") simp_all
  from Cons.IH [OF zs] Cons.prems b zs show ?case by auto
qed simp

lemma filter_result_total:
  "(\<And>x. x \<in> set xs \<Longrightarrow> P x = Inr (Q x)) \<Longrightarrow> filter_result P xs = Inr (filter Q xs)"
  by (induction xs) simp_all

end
