(* ===== verification/CostPayment.thy ===== *)
theory CostPayment
  imports ManaEngine Damage
begin

section \<open>Paying costs\<close>

text \<open>
  \<open>mtg-engine/src/game/mana_payment/payment_execution.rs\<close>: tapping a permanent for mana, paying a mana
  cost by tapping, and the costs of activated abilities. A failure leaves the game as far as the payment
  had come, so an outcome is the state with the error, if any. Moves of cards and the checks for triggers
  (\<open>check_triggers\<close>, \<open>check_taps_for_mana_triggers\<close>) are the fields of \<open>payment_env\<close>.
\<close>

subsection \<open>Outcomes\<close>

type_synonym outcome = "game_state \<times> mtg_error option"

definition paid :: "game_state \<Rightarrow> outcome" where "paid g = (g, None)"

definition fails :: "mtg_error \<Rightarrow> game_state \<Rightarrow> outcome" where "fails e g = (g, Some e)"

definition refused :: "string \<Rightarrow> game_state \<Rightarrow> outcome" where "refused m = fails (InvalidAction m)"

definition next_pay :: "outcome \<Rightarrow> (game_state \<Rightarrow> outcome) \<Rightarrow> outcome" where
  "next_pay r f = (case r of (g, None) \<Rightarrow> f g | (g, Some e) \<Rightarrow> (g, Some e))"

text \<open>An operation that fails before it changes anything.\<close>

definition outcome_of :: "game_state \<Rightarrow> mtg_error + game_state \<Rightarrow> outcome" where
  "outcome_of g r = (case r of Inl e \<Rightarrow> fails e g | Inr g' \<Rightarrow> paid g')"

fun pay_list :: "('a \<Rightarrow> game_state \<Rightarrow> outcome) \<Rightarrow> 'a list \<Rightarrow> game_state \<Rightarrow> outcome" where
  "pay_list f [] g = paid g"
| "pay_list f (x # xs) g = next_pay (f x g) (pay_list f xs)"

record payment_env =
  pe_move :: "card_id \<Rightarrow> zone \<Rightarrow> zone \<Rightarrow> player_id \<Rightarrow> game_state \<Rightarrow> outcome"
  pe_taps :: "card_id \<Rightarrow> game_state \<Rightarrow> outcome"
  pe_sacrificed :: "card_id \<Rightarrow> game_state \<Rightarrow> outcome"
  pe_taps_for_mana :: "card_id \<Rightarrow> player_id \<Rightarrow> game_state \<Rightarrow> outcome"

subsection \<open>Mana\<close>

definition log_mana_pool :: "player_id \<Rightarrow> game_state \<Rightarrow> game_state" where
  "log_mana_pool p g = (case get_player g p of
     Inl _ \<Rightarrow> g | Inr x \<Rightarrow> log_action (SetManaPool p (p_mana_pool x)) g)"

fun pay_error_text :: "pay_error \<Rightarrow> string" where
  "pay_error_text (InsufficientMana c p) = ''Insufficient mana to pay cost '' @ mana_cost_display c
     @ ''. Pool has: '' @ show_nat (unat (mp_white p)) @ ''W '' @ show_nat (unat (mp_blue p)) @ ''U ''
     @ show_nat (unat (mp_black p)) @ ''B '' @ show_nat (unat (mp_red p)) @ ''R ''
     @ show_nat (unat (mp_green p)) @ ''G '' @ show_nat (unat (mp_colorless p)) @ ''C''"

definition set_pool :: "mana_pool \<Rightarrow> player \<Rightarrow> player" where
  "set_pool m x = x\<lparr>p_mana_pool := m\<rparr>"

definition spend_pool :: "player_id \<Rightarrow> mana_cost \<Rightarrow> game_state \<Rightarrow> outcome" where
  "spend_pool p m g = (case get_player g p of
       Inl e \<Rightarrow> fails e g
     | Inr x \<Rightarrow> (case pay_cost (p_mana_pool x) m of
         Inl e \<Rightarrow> refused (pay_error_text e) g
       | Inr pool \<Rightarrow> paid (map_player p (set_pool pool) g)))"

definition pay_mana :: "player_id \<Rightarrow> mana_cost \<Rightarrow> game_state \<Rightarrow> outcome" where
  "pay_mana p m g = (let g1 = log_mana_pool p g in
     (case get_player g1 p of
       Inl e \<Rightarrow> fails e g1
     | Inr x \<Rightarrow> if \<not> can_pay (p_mana_pool x) m then refused ''Cannot pay mana cost'' g1
         else spend_pool p m g1))"

subsection \<open>Tapping, life and counters\<close>

definition pay_tap :: "payment_env \<Rightarrow> card_id \<Rightarrow> game_state \<Rightarrow> outcome" where
  "pay_tap env c g = next_pay (outcome_of g (tap_permanent c g)) (pe_taps env c)"

definition pay_tap_and_mana :: "payment_env \<Rightarrow> player_id \<Rightarrow> card_id \<Rightarrow> mana_cost \<Rightarrow> game_state \<Rightarrow> outcome" where
  "pay_tap_and_mana env p c m g = (case card_of g c of
       None \<Rightarrow> fails (MtgEntityNotFound c) g
     | Some k \<Rightarrow> if c_tapped k then refused ''Permanent is already tapped'' g
         else next_pay (pay_tap env c g) (pay_mana p m))"

definition pay_life_cost :: "player_id \<Rightarrow> i32 \<Rightarrow> game_state \<Rightarrow> outcome" where
  "pay_life_cost p n g = (case get_player g p of
       Inl e \<Rightarrow> fails e g
     | Inr x \<Rightarrow> if sint (p_life x) < sint n then refused ''Not enough life'' g
         else paid (map_player p (\<lambda>x. x\<lparr>p_life := p_life x - n\<rparr>) g))"

definition pay_untap :: "card_id \<Rightarrow> game_state \<Rightarrow> outcome" where
  "pay_untap c g = (case card_of g c of
       None \<Rightarrow> fails (MtgEntityNotFound c) g
     | Some k \<Rightarrow> if \<not> c_tapped k then refused ''Permanent is not tapped'' g
         else paid (map_card c card_untap g))"

definition mark_loyalty :: "card_id \<Rightarrow> card \<Rightarrow> (card \<Rightarrow> card) \<Rightarrow> game_state \<Rightarrow> game_state" where
  "mark_loyalty c k f g = log_action (SetLoyaltyActivated c (c_loyalty_activated_this_turn k) True)
     (map_card c (\<lambda>k. (f k)\<lparr>c_loyalty_activated_this_turn := True\<rparr>) g)"

definition pay_add_loyalty :: "card_id \<Rightarrow> u8 \<Rightarrow> game_state \<Rightarrow> outcome" where
  "pay_add_loyalty c n g = (case card_of g c of
       None \<Rightarrow> fails (MtgEntityNotFound c) g
     | Some k \<Rightarrow> paid (verbose_log (c_name k @ '' gains '' @ show_nat (unat n) @ '' loyalty (now ''
         @ show_nat (unat (get_counter (add_counter Loyalty n k) Loyalty)) @ '')'')
         (mark_loyalty c k (add_counter Loyalty n) g)))"

definition too_few_counters :: "string \<Rightarrow> u8 \<Rightarrow> u8 \<Rightarrow> string \<Rightarrow> string" where
  "too_few_counters kind have_n need nm = ''Not enough '' @ kind @ '' counters ('' @ show_nat (unat have_n)
     @ '' < '' @ show_nat (unat need) @ '') on '' @ nm"

definition pay_sub_loyalty :: "payment_env \<Rightarrow> card_id \<Rightarrow> u8 \<Rightarrow> game_state \<Rightarrow> outcome" where
  "pay_sub_loyalty env c n g = (case card_of g c of
       None \<Rightarrow> fails (MtgEntityNotFound c) g
     | Some k \<Rightarrow> if get_counter k Loyalty < n
         then refused (too_few_counters ''loyalty'' (get_counter k Loyalty) n (c_name k)) g
         else let rest = get_counter (fst (remove_counter Loyalty n k)) Loyalty;
                g1 = verbose_log (c_name k @ '' loses '' @ show_nat (unat n) @ '' loyalty (now ''
                  @ show_nat (unat rest) @ '')'') (mark_loyalty c k (\<lambda>k. fst (remove_counter Loyalty n k)) g) in
           if rest \<noteq> 0 then paid g1
           else let g2 = normal_log (c_name k @ '' has 0 loyalty and is put into the graveyard'') g1 in
             pe_move env c Battlefield (death_destination_for_card g2 c) (c_owner k) g2)"

definition pay_sub_counter :: "card_id \<Rightarrow> u8 \<Rightarrow> counter_type \<Rightarrow> game_state \<Rightarrow> outcome" where
  "pay_sub_counter c n ct g = (case card_of g c of
       None \<Rightarrow> fails (MtgEntityNotFound c) g
     | Some k \<Rightarrow> if get_counter k ct < n then refused (too_few_counters ct (get_counter k ct) n (c_name k)) g
         else (case remove_counters c ct n g of
           Inl e \<Rightarrow> fails e g
         | Inr (g1, _) \<Rightarrow> paid (verbose_log (c_name k @ '' loses '' @ show_nat (unat n) @ '' '' @ ct
             @ '' counter(s) (now '' @ show_nat (unat (get_counter (fst (remove_counter ct n k)) ct)) @ '')'') g1)))"

subsection \<open>Sacrifices and discards\<close>

definition card_matches_type_filter :: "card \<Rightarrow> string \<Rightarrow> bool" where
  "card_matches_type_filter k t =
     (if t = ''Land'' then is_land k else if t = ''Creature'' then is_creature k
      else if t = ''Artifact'' then is_artifact k else if t = ''Enchantment'' then is_enchantment k
      else if t = ''Permanent'' then True else t \<in> set (c_subtypes k))"

definition sacrifice_matches :: "card_id \<Rightarrow> string \<Rightarrow> card_id \<Rightarrow> card \<Rightarrow> bool" where
  "sacrifice_matches source t c k = (if t = ''Creature.Other'' then is_creature k \<and> c \<noteq> source
     else card_matches_type_filter k t)"

fun find_sacrifices ::
  "game_state \<Rightarrow> player_id \<Rightarrow> card_id \<Rightarrow> string \<Rightarrow> nat \<Rightarrow> card_id list \<Rightarrow> card_id list \<Rightarrow> mtg_error + card_id list" where
  "find_sacrifices g p source t n [] acc = Inr acc"
| "find_sacrifices g p source t n (c # cs) acc = (if n \<le> length acc then Inr acc
     else (case card_of g c of
         None \<Rightarrow> Inl (MtgEntityNotFound c)
       | Some k \<Rightarrow> find_sacrifices g p source t n cs
           (if c_owner k = p \<and> sacrifice_matches source t c k then acc @ [c] else acc)))"

definition note_toughness :: "card_id \<Rightarrow> game_state \<Rightarrow> game_state" where
  "note_toughness c g = (case card_of g c of
       Some k \<Rightarrow> if is_creature k then g\<lparr>gs_last_sacrificed_toughness := Some (scast (current_toughness k))\<rparr> else g
     | None \<Rightarrow> g)"

definition sacrifice :: "payment_env \<Rightarrow> card_id \<Rightarrow> game_state \<Rightarrow> outcome" where
  "sacrifice env c g = (case card_of g c of
       None \<Rightarrow> fails (MtgEntityNotFound c) g
     | Some k \<Rightarrow> next_pay (pe_move env c Battlefield (death_destination_for_card g c) (c_owner k) g)
         (pe_sacrificed env c))"

definition pay_sacrifice_pattern ::
  "payment_env \<Rightarrow> player_id \<Rightarrow> card_id \<Rightarrow> u8 \<Rightarrow> string \<Rightarrow> game_state \<Rightarrow> outcome" where
  "pay_sacrifice_pattern env p c n t g =
     (case if t = ''CARDNAME'' then Inr [c]
           else find_sacrifices g p c t (unat n) (z_cards (gs_battlefield g)) [] of
       Inl e \<Rightarrow> fails e g
     | Inr found \<Rightarrow>
         if length found < unat n
         then refused (''Not enough permanents of type '' @ t @ '' to sacrifice (need '' @ show_nat (unat n)
           @ '', found '' @ show_nat (length found) @ '')'') g
         else let g1 = (if unat n - 1 < length found
             then g\<lparr>gs_scratch := (gs_scratch g)\<lparr>sc_sacrificed_for_cost := Some (found ! (unat n - 1))\<rparr>\<rparr> else g) in
           pay_list (\<lambda>c g. sacrifice env c (note_toughness c g)) (take (unat n) found) g1)"

definition pay_discard :: "card_id \<Rightarrow> game_state \<Rightarrow> outcome" where
  "pay_discard c = refused (''Cost type Discard { card_id: '' @ show_nat (unat c) @ '' } not yet implemented'')"

definition pay_discard_hand :: "payment_env \<Rightarrow> player_id \<Rightarrow> game_state \<Rightarrow> outcome" where
  "pay_discard_hand env p g = (case get_player_zones g p of
       None \<Rightarrow> paid g
     | Some z \<Rightarrow> next_pay (pay_list (\<lambda>c. pe_move env c Hand Graveyard p) (z_cards (pz_hand z)) g)
         (\<lambda>g. case get_player g p of
             Inl e \<Rightarrow> fails e g
           | Inr x \<Rightarrow> paid (normal_log (p_name x @ '' discards their hand (''
               @ show_nat (length (z_cards (pz_hand z))) @ '' cards)'') g)))"

subsection \<open>Waterbend\<close>

definition bend_lands :: "player_id \<Rightarrow> card_id \<Rightarrow> game_state \<Rightarrow> card_id list" where
  "bend_lands p source g = filter (\<lambda>c. c \<noteq> source \<and> (case card_of g c of
     Some k \<Rightarrow> \<not> c_tapped k \<and> c_controller k = p \<and> is_land k | None \<Rightarrow> False)) (z_cards (gs_battlefield g))"

definition bend_permanents :: "player_id \<Rightarrow> card_id \<Rightarrow> game_state \<Rightarrow> card_id list" where
  "bend_permanents p source g = filter (\<lambda>c. c \<noteq> source \<and> c \<notin> set (bend_lands p source g) \<and> (case card_of g c of
     Some k \<Rightarrow> \<not> c_tapped k \<and> c_controller k = p \<and> (is_creature k \<or> is_artifact k) | None \<Rightarrow> False))
     (z_cards (gs_battlefield g))"

text \<open>Tapping permanent after permanent until the rest is paid.\<close>

fun bend_taps :: "card_id list \<Rightarrow> u8 \<Rightarrow> game_state \<Rightarrow> outcome \<times> u8" where
  "bend_taps [] rest g = (paid g, rest)"
| "bend_taps (c # cs) rest g = (if rest = 0 then (paid g, rest)
     else if card_of g c = None then bend_taps cs rest g
     else (case tap_permanent c g of
         Inl e \<Rightarrow> (fails e g, rest)
       | Inr g' \<Rightarrow> bend_taps cs (rest - 1) g'))"

definition bend_from_pool :: "player_id \<Rightarrow> u8 \<Rightarrow> u8 \<Rightarrow> game_state \<Rightarrow> outcome \<times> u8" where
  "bend_from_pool p floating n g = (if 0 < n \<and> 0 < floating
     then let used = min n floating in
       (spend_pool p (from_string (show_nat (unat used))) (log_mana_pool p g), n - used)
     else (paid g, n))"

definition pay_waterbend :: "player_id \<Rightarrow> card_id \<Rightarrow> u8 \<Rightarrow> game_state \<Rightarrow> outcome" where
  "pay_waterbend p source n g = (case get_player g p of
       Inl e \<Rightarrow> fails e g
     | Inr x \<Rightarrow> let floating = pool_total (p_mana_pool x);
           lands = bend_lands p source g; others = bend_permanents p source g;
           available = floating + of_nat (length lands) + of_nat (length others) in
         if available < n
         then refused (''Cannot pay Waterbend '' @ show_nat (unat n) @ '': only '' @ show_nat (unat available)
           @ '' available (floating: '' @ show_nat (unat floating) @ '', lands: '' @ show_nat (length lands)
           @ '', tappable: '' @ show_nat (length others) @ '')'') g
         else (case bend_from_pool p floating n g of
           (r, rest) \<Rightarrow> next_pay r (\<lambda>g. case bend_taps others rest g of
             (r, rest) \<Rightarrow> next_pay r (\<lambda>g. fst (bend_taps lands rest g)))))"

subsection \<open>The cost of an ability\<close>

fun pay_ability_cost :: "payment_env \<Rightarrow> player_id \<Rightarrow> card_id \<Rightarrow> cost \<Rightarrow> game_state \<Rightarrow> outcome"
  and pay_costs :: "payment_env \<Rightarrow> player_id \<Rightarrow> card_id \<Rightarrow> cost list \<Rightarrow> game_state \<Rightarrow> outcome" where
  "pay_ability_cost env p c CTap g = pay_tap env c g"
| "pay_ability_cost env p c (CMana m) g = pay_mana p m g"
| "pay_ability_cost env p c (CTapAndMana m) g = pay_tap_and_mana env p c m g"
| "pay_ability_cost env p c (CPayLife n) g = pay_life_cost p n g"
| "pay_ability_cost env p c CUntap g = pay_untap c g"
| "pay_ability_cost env p c (CSacrificePattern n t) g = pay_sacrifice_pattern env p c n t g"
| "pay_ability_cost env p c (CSacrifice s) g = sacrifice env s g"
| "pay_ability_cost env p c (CDiscard d) g = pay_discard d g"
| "pay_ability_cost env p c CDiscardHand g = pay_discard_hand env p g"
| "pay_ability_cost env p c (CComposite cs) g = pay_costs env p c cs g"
| "pay_ability_cost env p c (CWaterbend n) g = pay_waterbend p c n g"
| "pay_ability_cost env p c (CAddLoyalty n) g = pay_add_loyalty c n g"
| "pay_ability_cost env p c (CSubLoyalty n) g = pay_sub_loyalty env c n g"
| "pay_ability_cost env p c (CSubCounter n ct) g = pay_sub_counter c n ct g"
| "pay_costs env p c [] g = paid g"
| "pay_costs env p c (x # xs) g = next_pay (pay_ability_cost env p c x g) (pay_costs env p c xs)"

subsection \<open>Tapping for mana\<close>

fun first_add_mana :: "effect list \<Rightarrow> mana_cost option" where
  "first_add_mana [] = None"
| "first_add_mana (e # es) = (case e of effect.AddMana _ m _ _ \<Rightarrow> Some m | _ \<Rightarrow> first_add_mana es)"

definition has_mana_ability :: "card \<Rightarrow> bool" where
  "has_mana_ability k = list_ex aa_is_mana_ability (c_activated_abilities k)"

definition explicit_ability :: "card \<Rightarrow> activated_ability option" where
  "explicit_ability k = (if is_land k then None else find aa_is_mana_ability (c_activated_abilities k))"

definition add_pips :: "color \<Rightarrow> u8 \<Rightarrow> mana_pool \<Rightarrow> mana_pool" where
  "add_pips col n m = (case col of
       White \<Rightarrow> m\<lparr>mp_white := mp_white m + n\<rparr> | Blue \<Rightarrow> m\<lparr>mp_blue := mp_blue m + n\<rparr>
     | Black \<Rightarrow> m\<lparr>mp_black := mp_black m + n\<rparr> | Red \<Rightarrow> m\<lparr>mp_red := mp_red m + n\<rparr>
     | Green \<Rightarrow> m\<lparr>mp_green := mp_green m + n\<rparr> | Colorless \<Rightarrow> m\<lparr>mp_colorless := mp_colorless m + n\<rparr>)"

definition pip_cost :: "color \<Rightarrow> u8 \<Rightarrow> mana_cost" where
  "pip_cost col n = (case col of
       White \<Rightarrow> mana_cost_new\<lparr>mc_white := n\<rparr> | Blue \<Rightarrow> mana_cost_new\<lparr>mc_blue := n\<rparr>
     | Black \<Rightarrow> mana_cost_new\<lparr>mc_black := n\<rparr> | Red \<Rightarrow> mana_cost_new\<lparr>mc_red := n\<rparr>
     | Green \<Rightarrow> mana_cost_new\<lparr>mc_green := n\<rparr> | Colorless \<Rightarrow> mana_cost_new\<lparr>mc_colorless := n\<rparr>)"

definition pool_gain :: "mana_cost \<Rightarrow> mana_pool \<Rightarrow> mana_pool" where
  "pool_gain m pool = \<lparr>mp_white = mp_white pool + mc_white m, mp_blue = mp_blue pool + mc_blue m,
     mp_black = mp_black pool + mc_black m, mp_red = mp_red pool + mc_red m, mp_green = mp_green pool + mc_green m,
     mp_colorless = mp_colorless pool + mc_colorless m\<rparr>"

definition tap_message :: "card_id \<Rightarrow> string \<Rightarrow> game_state \<Rightarrow> game_state" where
  "tap_message c what g = (if verbosity_rank Normal \<le> verbosity_rank (lg_verbosity (gs_logger g))
     then game_log (''Tap '' @ card_name_or ''Unknown'' g c @ '' for '' @ what) g else g)"

definition pips_text :: "color \<Rightarrow> u8 \<Rightarrow> string" where
  "pips_text col n = concat (replicate (unat n) (''{'' @ color_letter col @ ''}''))"

definition gain_pips :: "player_id \<Rightarrow> card_id \<Rightarrow> color \<Rightarrow> u8 \<Rightarrow> game_state \<Rightarrow> game_state" where
  "gain_pips p c col n g = tap_message c (pips_text col n) (log_action (AddMana p (pip_cost col n))
     (map_player p (\<lambda>x. set_pool (add_pips col n (p_mana_pool x)) x) g))"

definition gain_mana :: "player_id \<Rightarrow> card_id \<Rightarrow> mana_cost \<Rightarrow> game_state \<Rightarrow> game_state" where
  "gain_mana p c m g = tap_message c ''mana'' (log_action (AddMana p m)
     (map_player p (\<lambda>x. set_pool (pool_gain m (p_mana_pool x)) x) g))"

definition hint_color :: "mana_cost \<Rightarrow> mana_color option" where
  "hint_color m = (if 0 < mc_white m then Some MWhite else if 0 < mc_blue m then Some MBlue
     else if 0 < mc_black m then Some MBlack else if 0 < mc_red m then Some MRed
     else if 0 < mc_green m then Some MGreen else None)"

text \<open>The colour an any-colour source gives; a reflected source keeps to the reflected colours.\<close>

definition any_color_choice :: "mana_colors option \<Rightarrow> mana_color option \<Rightarrow> color" where
  "any_color_choice reflected hint = (case reflected of
       None \<Rightarrow> (case hint of Some h \<Rightarrow> of_mana_color h | None \<Rightarrow> Green)
     | Some cs \<Rightarrow> let other = (case mcs_iter cs of h # _ \<Rightarrow> of_mana_color h | [] \<Rightarrow> Colorless) in
         (case hint of Some h \<Rightarrow> if mcs_contains cs h then of_mana_color h else other | None \<Rightarrow> other))"

definition land_colors :: "card \<Rightarrow> color list" where
  "land_colors k = (let cc = card_cache k;
       subtypes = (if cc_has_plains_subtype cc then [White] else []) @ (if cc_has_island_subtype cc then [Blue] else [])
         @ (if cc_has_swamp_subtype cc then [Black] else []) @ (if cc_has_mountain_subtype cc then [Red] else [])
         @ (if cc_has_forest_subtype cc then [Green] else []);
       add = (\<lambda>colors col. if col \<in> set colors then colors else colors @ [col]);
       produced = (case mpr_kind (cc_mana_production cc) of
           Fixed col \<Rightarrow> [of_mana_color col]
         | Choice cs \<Rightarrow> map of_mana_color (filter (mcs_contains cs) ALL_MANA_COLORS)
         | _ \<Rightarrow> []);
       chosen = (case c_chosen_color k of Some col \<Rightarrow> [col] | None \<Rightarrow> []) in
     foldl add subtypes (produced @ chosen))"

definition land_color_choice :: "card \<Rightarrow> mana_cost \<Rightarrow> color option" where
  "land_color_choice k hint = (let any = (mpr_kind (cc_mana_production (card_cache k)) = AnyColor);
       colors = land_colors k; can = (\<lambda>col. any \<or> col \<in> set colors) in
     if any \<or> 1 < length colors then
       (if 0 < mc_white hint \<and> can White then Some White
        else if 0 < mc_blue hint \<and> can Blue then Some Blue
        else if 0 < mc_black hint \<and> can Black then Some Black
        else if 0 < mc_red hint \<and> can Red then Some Red
        else if 0 < mc_green hint \<and> can Green then Some Green
        else (case colors of col # _ \<Rightarrow> Some col | [] \<Rightarrow> Some White))
     else if length colors = 1 then Some (hd colors)
     else if mpr_kind (cc_mana_production (card_cache k)) = KColorless then Some Colorless
     else None)"

text \<open>The amount per activation, from the card as it is after the triggers.\<close>

definition tap_amount :: "card_id \<Rightarrow> game_state \<Rightarrow> u8" where
  "tap_amount c g = (case card_of g c of
     Some k \<Rightarrow> max (mpr_amount (cc_mana_production (card_cache k))) 1 | None \<Rightarrow> 1)"

definition pay_mana_ability_cost ::
  "payment_env \<Rightarrow> player_id \<Rightarrow> card_id \<Rightarrow> cost \<Rightarrow> game_state \<Rightarrow> outcome" where
  "pay_mana_ability_cost env p c cost g = (case cost of
       CSacrificePattern _ _ \<Rightarrow> pay_ability_cost env p c cost g
     | CSacrifice _ \<Rightarrow> pay_ability_cost env p c cost g
     | CComposite cs \<Rightarrow> pay_list (pay_ability_cost env p c) (filter (\<lambda>x. x \<noteq> CTap) cs) g
     | _ \<Rightarrow> paid g)"

definition gain_explicit :: "player_id \<Rightarrow> card_id \<Rightarrow> mana_cost \<Rightarrow> mana_cost \<Rightarrow> game_state \<Rightarrow> outcome" where
  "gain_explicit p c hint mana g = (
     let any = (case card_of g c of
           Some k \<Rightarrow> mpr_kind (cc_mana_production (card_cache k)) = AnyColor | None \<Rightarrow> False);
         reflected = (case card_of g c of
           Some k \<Rightarrow> if is_reflected k then Some (reflected_mana_colors g p) else None | None \<Rightarrow> None) in
     case get_player g p of
       Inl e \<Rightarrow> fails e g
     | Inr _ \<Rightarrow> paid (if any then gain_pips p c (any_color_choice reflected (hint_color hint)) (tap_amount c g) g
         else gain_mana p c mana g))"

definition gain_from_land :: "player_id \<Rightarrow> card_id \<Rightarrow> mana_cost \<Rightarrow> game_state \<Rightarrow> outcome" where
  "gain_from_land p c hint g = (case card_of g c of
       None \<Rightarrow> fails (MtgEntityNotFound c) g
     | Some k \<Rightarrow> (case get_player g p of
         Inl e \<Rightarrow> fails e g
       | Inr _ \<Rightarrow> paid (case land_color_choice k hint of
             None \<Rightarrow> g | Some col \<Rightarrow> gain_pips p c col (tap_amount c g) g)))"

definition tap_for_mana_for_cost ::
  "payment_env \<Rightarrow> player_id \<Rightarrow> card_id \<Rightarrow> mana_cost \<Rightarrow> game_state \<Rightarrow> outcome" where
  "tap_for_mana_for_cost env p c hint g = (case card_of g c of
       None \<Rightarrow> fails (MtgEntityNotFound c) g
     | Some k \<Rightarrow>
         if c_tapped k then refused ''Permanent is already tapped'' g
         else if \<not> is_land k \<and> \<not> has_mana_ability k then refused ''Permanent cannot produce mana'' g
         else next_pay (next_pay (outcome_of g (tap_permanent c g)) (pe_taps env c)) (\<lambda>g.
           next_pay (pe_taps_for_mana env c p g) (\<lambda>g.
             case explicit_ability k of
               None \<Rightarrow> gain_from_land p c hint g
             | Some ab \<Rightarrow> (case first_add_mana (aa_effects ab) of
                 None \<Rightarrow> gain_from_land p c hint g
               | Some mana \<Rightarrow> next_pay (gain_explicit p c hint mana g)
                   (pay_mana_ability_cost env p c (aa_cost ab))))))"

subsection \<open>Paying by tapping\<close>

text \<open>What one colour of the hint takes of the mana produced, and what is left of both.\<close>

definition take_hint :: "u8 \<Rightarrow> u8 \<Rightarrow> u8 \<Rightarrow> u8 \<times> u8" where
  "take_hint need before after = (let produced = sat_sub after before; used = min need produced in
     (need - used, produced - used))"

definition reduce_hint :: "mana_pool \<Rightarrow> mana_pool \<Rightarrow> mana_cost \<Rightarrow> mana_cost" where
  "reduce_hint p q h = (let w = take_hint (mc_white h) (mp_white p) (mp_white q);
       u = take_hint (mc_blue h) (mp_blue p) (mp_blue q); b = take_hint (mc_black h) (mp_black p) (mp_black q);
       r = take_hint (mc_red h) (mp_red p) (mp_red q); g = take_hint (mc_green h) (mp_green p) (mp_green q);
       c = take_hint (mc_colorless h) (mp_colorless p) (mp_colorless q);
       unused = snd w + snd u + snd b + snd r + snd g + snd c in
     \<lparr>mc_generic = mc_generic h - min (mc_generic h) unused, mc_white = fst w, mc_blue = fst u, mc_black = fst b,
      mc_red = fst r, mc_green = fst g, mc_colorless = fst c, mc_x_count = mc_x_count h\<rparr>)"

definition tap_for_mana_and_update_hint ::
  "payment_env \<Rightarrow> player_id \<Rightarrow> card_id \<Rightarrow> mana_cost \<Rightarrow> game_state \<Rightarrow> outcome \<times> mana_cost" where
  "tap_for_mana_and_update_hint env p c hint g = (case get_player g p of
       Inl e \<Rightarrow> (fails e g, hint)
     | Inr x \<Rightarrow> (case tap_for_mana_for_cost env p c hint g of
         (g1, Some e) \<Rightarrow> (fails e g1, hint)
       | (g1, None) \<Rightarrow> (case get_player g1 p of
           Inl e \<Rightarrow> (fails e g1, hint)
         | Inr y \<Rightarrow> (paid g1, reduce_hint (p_mana_pool x) (p_mana_pool y) hint))))"

fun tap_sources :: "payment_env \<Rightarrow> player_id \<Rightarrow> card_id list \<Rightarrow> mana_cost \<Rightarrow> game_state \<Rightarrow> outcome" where
  "tap_sources env p [] hint g = paid g"
| "tap_sources env p (c # cs) hint g = (case tap_for_mana_and_update_hint env p c hint g of
     (r, hint') \<Rightarrow> next_pay r (tap_sources env p cs hint'))"

definition pay_mana_cost_by_tapping ::
  "payment_env \<Rightarrow> player_id \<Rightarrow> mana_cost \<Rightarrow> game_state \<Rightarrow> game_state \<times> bool" where
  "pay_mana_cost_by_tapping env p cost g = (
     let finish = (\<lambda>g. case pay_ability_cost env p 0 (CMana cost) g of (g', e) \<Rightarrow> (g', e = None));
         covered = (case try_get_player g p of Some x \<Rightarrow> can_pay (p_mana_pool x) cost | None \<Rightarrow> False) in
     if covered then finish g
     else (case compute_tap_order greedy_check_payment cost
         (me_mana_sources (engine_update g p mana_engine_new)) [] of
       (False, _) \<Rightarrow> (g, False)
     | (True, order) \<Rightarrow> (case tap_sources env p (unwrap_or order []) cost g of
         (g1, Some _) \<Rightarrow> (g1, False) | (g1, None) \<Rightarrow> finish g1)))"

end
