(* ===== verification/CostFacts.thy ===== *)
theory CostFacts
  imports CostPayment Rewind
begin

section \<open>Facts about payments\<close>

text \<open>
  What the undo log takes back of a payment, what a Waterbend cost uses up, and how tapping the sources in
  the order of the greedy resolver fills the pool.
\<close>

lemma get_player_cases: "get_player g p = (case try_get_player g p of Some x \<Rightarrow> Inr x | None \<Rightarrow> Inl (MtgEntityNotFound p))"
  by (simp add: get_player_def try_get_player_def)

lemma keeps_id_set_pool [simp]: "keeps_id (set_pool m)" "keeps_id (\<lambda>x. set_pool (f x) x)"
  by (simp_all add: keeps_id_def set_pool_def)

lemma outcome_simps [simp]:
  "next_pay (paid g) f = f g" "next_pay (fails e g) f = fails e g" "fst (paid g) = g" "fst (fails e g) = g"
  "fst (refused s g) = g" "outcome_of g (Inl e) = fails e g" "outcome_of g (Inr h) = paid h"
  "next_pay (refused s g) f = refused s g" "next_pay (g, None) f = f g" "next_pay (g, Some e) f = (g, Some e)"
  "snd (paid g) = None" "snd (fails e g) = Some e" "snd (refused s g) = Some (InvalidAction s)"
  by (simp_all add: next_pay_def paid_def fails_def refused_def outcome_of_def)

lemma paid_eq [simp]: "paid g = paid h \<longleftrightarrow> g = h"
  by (simp add: paid_def)

lemma map_player_log_action: "map_player p f (log_action a g) = log_action a (map_player p f g)"
  by (simp add: map_player_def log_action_def)

lemma map_player_same: "(\<And>x. try_get_player g p = Some x \<Longrightarrow> f x = x) \<Longrightarrow> map_player p f g = g"
  by (simp add: map_player_def try_get_player_def players.modify_same)

subsection \<open>Payments the undo log takes back\<close>

definition taken_back :: "(u8 list \<Rightarrow> rng option) \<Rightarrow> game_state \<Rightarrow> outcome \<Rightarrow> bool" where
  "taken_back ds g r \<longleftrightarrow> undoable ds g (fst r) \<and> log_on (fst r)"

named_theorems taken_back_intro

lemma taken_back_next:
  "taken_back ds g r \<Longrightarrow> (\<And>h. log_on h \<Longrightarrow> taken_back ds h (f h)) \<Longrightarrow> taken_back ds g (next_pay r f)"
  by (cases r; cases "snd r") (auto simp: taken_back_def intro: undoable_trans)

lemma taken_back_still [taken_back_intro]:
  "log_on g \<Longrightarrow> taken_back ds g (paid g)" "log_on g \<Longrightarrow> taken_back ds g (fails e g)"
  "log_on g \<Longrightarrow> taken_back ds g (refused s g)"
  by (simp_all add: taken_back_def)

lemma taken_back_outcome_of:
  "log_on g \<Longrightarrow> (\<And>h. r = Inr h \<Longrightarrow> undoable ds g h \<and> log_on h) \<Longrightarrow> taken_back ds g (outcome_of g r)"
  by (cases r) (simp_all add: taken_back_def)

lemma tap_taken_back: "log_on g \<Longrightarrow> taken_back ds g (outcome_of g (tap_permanent c g))"
  by (rule taken_back_outcome_of) (auto simp: tap_log_on intro: tap_undoable)

lemma log_mana_pool_some:
  "try_get_player g p = Some x \<Longrightarrow> log_mana_pool p g = log_action (SetManaPool p (p_mana_pool x)) g"
  "try_get_player g p = None \<Longrightarrow> log_mana_pool p g = g"
  by (simp_all add: log_mana_pool_def get_player_cases)

lemma log_mana_pool_fields [simp]:
  "try_get_player (log_mana_pool p g) q = try_get_player g q" "get_player (log_mana_pool p g) q = get_player g q"
  "card_of (log_mana_pool p g) = card_of g" "gs_battlefield (log_mana_pool p g) = gs_battlefield g"
  "gs_players (log_mana_pool p g) = gs_players g"
  by (cases "try_get_player g p"; simp add: log_mana_pool_some; simp add: try_get_player_def get_player_def)+

lemma undo_logged_pool:
  assumes "log_on g" "try_get_player g p = Some x"
  shows "undoable ds g (log_action (SetManaPool p (p_mana_pool x)) (map_player p (set_pool m) g))"
    "undoable ds g (log_action (SetManaPool p (p_mana_pool x)) g)"
proof -
  let ?a = "SetManaPool p (p_mana_pool x)"
  have effect: "undo_effect ds ?a h = map_player p (\<lambda>y. y\<lparr>p_mana_pool := p_mana_pool x\<rparr>) h" for h
    by (simp add: undo_effect_def undo_set_mana_pool_def undo_player_tolerant_def)
  show "undoable ds g (log_action ?a (map_player p (set_pool m) g))"
    by (rule undoable_log_action) (simp_all add: assms effect, subst map_player_cancel, simp_all add: assms set_pool_def)
  show "undoable ds g (log_action ?a g)"
    by (rule undoable_log_action) (simp_all add: assms effect, rule map_player_same, simp add: assms)
qed

lemma spend_taken_back: "log_on g \<Longrightarrow> taken_back ds g (spend_pool p m (log_mana_pool p g))"
proof (cases "try_get_player g p")
  case (Some x)
  assume "log_on g"
  then show ?thesis
    using Some by (auto simp: spend_pool_def get_player_cases taken_back_def log_mana_pool_some map_player_log_action
        undo_logged_pool split: sum.split)
qed (simp add: spend_pool_def get_player_cases taken_back_still log_mana_pool_some)

lemma pay_mana_taken_back: "log_on g \<Longrightarrow> taken_back ds g (pay_mana p m g)"
proof (cases "try_get_player g p")
  case (Some x)
  assume g: "log_on g"
  then have "taken_back ds g (refused s (log_mana_pool p g))" for s
    using Some by (simp add: taken_back_def log_mana_pool_some undo_logged_pool)
  then show ?thesis
    using Some spend_taken_back [OF g] by (simp add: pay_mana_def get_player_cases Let_def)
qed (simp add: pay_mana_def get_player_cases taken_back_still log_mana_pool_some Let_def)

lemma bend_taps_taken_back: "log_on g \<Longrightarrow> taken_back ds g (fst (bend_taps cs rest g))"
proof (induction cs rest g rule: bend_taps.induct)
  case (2 c cs rest g)
  show ?case
  proof (cases "tap_permanent c g")
    case (Inr h)
    have "undoable ds g h" "log_on h"
      using 2(3) Inr tap_undoable [OF Inr] tap_log_on [OF Inr] by simp_all
    then show ?thesis
      using 2 Inr by (auto simp: taken_back_def intro: undoable_trans)
  qed (use 2 in \<open>auto simp: taken_back_def\<close>)
qed (simp add: taken_back_still)

lemma waterbend_taken_back: "log_on g \<Longrightarrow> taken_back ds g (pay_waterbend p c n g)"
proof -
  assume g: "log_on g"
  have pool: "taken_back ds g (fst (bend_from_pool p fl n g))" for fl
    using g by (simp add: bend_from_pool_def Let_def spend_taken_back taken_back_still)
  have "taken_back ds g (next_pay r (\<lambda>g. case bend_taps others rest g of
      (r, rest) \<Rightarrow> next_pay r (\<lambda>g. fst (bend_taps lands rest g))))" if "taken_back ds g r" for r others lands rest
    using that bend_taps_taken_back
    by (intro taken_back_next) (auto simp: case_prod_beta' intro!: taken_back_next bend_taps_taken_back)
  with pool g show ?thesis
    by (simp add: pay_waterbend_def Let_def case_prod_beta' taken_back_still split: sum.split)
qed

text \<open>The costs whose payments are logged in full.\<close>

fun logged_cost :: "cost \<Rightarrow> bool" where
  "logged_cost CTap = True"
| "logged_cost (CMana m) = True"
| "logged_cost (CTapAndMana m) = True"
| "logged_cost (CDiscard c) = True"
| "logged_cost (CWaterbend n) = True"
| "logged_cost (CComposite cs) = (\<forall>x \<in> set cs. logged_cost x)"
| "logged_cost x = False"

text \<open>Triggers whose effects the log takes back.\<close>

definition triggers_logged :: "(u8 list \<Rightarrow> rng option) \<Rightarrow> payment_env \<Rightarrow> bool" where
  "triggers_logged ds env \<longleftrightarrow> (\<forall>c g. log_on g \<longrightarrow> taken_back ds g (pe_taps env c g))"

lemma pay_tap_taken_back:
  "triggers_logged ds env \<Longrightarrow> log_on g \<Longrightarrow> taken_back ds g (pay_tap env c g)"
  by (auto simp: pay_tap_def triggers_logged_def intro!: taken_back_next tap_taken_back)

lemma tap_and_mana_taken_back:
  "triggers_logged ds env \<Longrightarrow> log_on g \<Longrightarrow> taken_back ds g (pay_tap_and_mana env p c m g)"
  by (auto simp: pay_tap_and_mana_def taken_back_still intro!: taken_back_next pay_tap_taken_back pay_mana_taken_back
      split: option.split)

lemma cost_taken_back:
  "triggers_logged ds env \<Longrightarrow> logged_cost x \<Longrightarrow> log_on g \<Longrightarrow> taken_back ds g (pay_ability_cost env p c x g)"
  "triggers_logged ds env \<Longrightarrow> (\<forall>x \<in> set xs. logged_cost x) \<Longrightarrow> log_on g \<Longrightarrow> taken_back ds g (pay_costs env p c xs g)"
proof (induction env p c x g and env p c xs g rule: pay_ability_cost_pay_costs.induct)
  case (16 env p c x xs g)
  have "taken_back ds h (pay_costs env p c xs h)" if "log_on h" "snd (pay_ability_cost env p c x g) = None \<and> h = fst (pay_ability_cost env p c x g)" for h
    using 16 that by auto
  then show ?case using 16(1) [OF 16(3) _ 16(5)] 16(4)
    by (cases "pay_ability_cost env p c x g"; cases "snd (pay_ability_cost env p c x g)")
      (auto simp: taken_back_def intro: undoable_trans)
qed (simp_all add: pay_tap_taken_back pay_mana_taken_back tap_and_mana_taken_back taken_back_still
    waterbend_taken_back pay_discard_def)

subsection \<open>Tapping a land\<close>

definition quiet_triggers :: "payment_env \<Rightarrow> bool" where
  "quiet_triggers env \<longleftrightarrow> (\<forall>c p g. pe_taps env c g = paid g \<and> pe_taps_for_mana env c p g = paid g)"

text \<open>A source of the engine that is a land as it lies on the table, with the colours its kind says.\<close>

definition land_source :: "game_state \<Rightarrow> mana_source \<Rightarrow> bool" where
  "land_source g s \<longleftrightarrow> (\<exists>k. card_of g (ms_card_id s) = Some k \<and> is_land k \<and> c_tapped k = ms_is_tapped s
     \<and> ms_production s = cc_mana_production (card_cache k) \<and> 0 < amount_of s
     \<and> (\<forall>cs. kind_of s = Choice cs \<longrightarrow> mcs_wf cs) \<and> (kind_of s \<noteq> AnyColor \<longrightarrow> set (land_colors k) = {col. produces (kind_of s) col \<and> col \<noteq> Colorless}))"

lemma card_tap_fields [simp]:
  "card_cache (card_tap k) = card_cache k" "is_land (card_tap k) = is_land k" "land_colors (card_tap k) = land_colors k"
  "land_color_choice (card_tap k) h = land_color_choice k h"
  by (simp_all add: card_tap_def card_cache_def is_land_def land_colors_def land_color_choice_def)

lemma all_wubrg: "(\<forall>c. P c) \<longleftrightarrow> P White \<and> P Blue \<and> P Black \<and> P Red \<and> P Green \<and> P Colorless"
  by (metis color.exhaust)

lemma produces_colorless: "produces k Colorless \<longleftrightarrow> k = KColorless"
proof -
  have "of_mana_color d \<noteq> Colorless" for d by (cases d) simp_all
  then show ?thesis by (cases k) auto
qed

lemma length_one: "length xs = 1 \<Longrightarrow> set xs = {hd xs}"
  by (cases xs) auto

lemma choice_for_color:
  assumes "kind_of s \<noteq> AnyColor \<longrightarrow> set (land_colors k) = {col. produces (kind_of s) col \<and> col \<noteq> Colorless}"
    and "ms_production s = cc_mana_production (card_cache k)" "produces (kind_of s) col"
    and "0 < required h col" "\<And>c'. c' \<in> set (takeWhile (\<lambda>x. x \<noteq> col) all_colors_and_colorless) \<Longrightarrow> required h c' = 0"
  shows "land_color_choice k h = Some col"
proof (cases "col = Colorless")
  case True
  then have kind: "kind_of s = KColorless" using assms(3) by (simp add: produces_colorless)
  then have "land_colors k = []" using assms(1) by auto
  then show ?thesis using kind assms(2) True by (simp add: land_color_choice_def kind_of_def)
next
  case False
  have colors: "mpr_kind (cc_mana_production (card_cache k)) = AnyColor \<or> col \<in> set (land_colors k)"
    using assms(1-3) False by (auto simp: kind_of_def)
  show ?thesis
  proof (cases "mpr_kind (cc_mana_production (card_cache k)) = AnyColor \<or> 1 < length (land_colors k)")
    case True
    have "0 < required h col \<and> (\<forall>c' \<in> set (takeWhile (\<lambda>x. x \<noteq> col) all_colors_and_colorless). required h c' = 0)"
      using assms(4,5) by blast
    then show ?thesis
      using True colors False by (cases col) (auto simp: land_color_choice_def Let_def all_colors_and_colorless_def)
  next
    case False
    then have "col \<in> set (land_colors k)" "length (land_colors k) \<le> 1" using colors by auto
    then have "length (land_colors k) = 1" by (cases "land_colors k") auto
    then show ?thesis
      using False length_one [of "land_colors k"] \<open>col \<in> set (land_colors k)\<close>
      by (simp add: land_color_choice_def Let_def)
  qed
qed

lemma choice_for_generic:
  assumes "kind_of s \<noteq> AnyColor \<longrightarrow> set (land_colors k) = {col. produces (kind_of s) col \<and> col \<noteq> Colorless}"
    and "ms_production s = cc_mana_production (card_cache k)" "kind_produces_mana (kind_of s)"
    and "\<And>cs. kind_of s = Choice cs \<Longrightarrow> mcs_wf cs"
  shows "land_color_choice k h \<noteq> None"
proof -
  have "kind_of s = KColorless \<or> kind_of s = AnyColor \<or> land_colors k \<noteq> []"
  proof (cases "kind_of s")
    case (Choice cs)
    then have "mcs_iter cs \<noteq> []" using assms(3,4) mcs_is_empty_iter [of cs] by simp
    then obtain d where "d \<in> set (mcs_iter cs)" by (meson hd_in_set)
    then have "mcs_contains cs d" by (simp add: set_mcs_iter)
    then have "produces (kind_of s) (of_mana_color d)" "of_mana_color d \<noteq> Colorless"
      using Choice by (auto, cases d) simp_all
    then show ?thesis using assms(1) Choice by (metis (mono_tags, lifting) empty_iff list.set(1) mana_production_kind.distinct(9) mem_Collect_eq)
  next
    case (Fixed d)
    then have "produces (kind_of s) (of_mana_color d)" "of_mana_color d \<noteq> Colorless" by (simp, cases d) simp_all
    then have "of_mana_color d \<in> set (land_colors k)" using assms(1) Fixed by simp
    then show ?thesis by auto
  qed simp_all
  then show ?thesis
    using assms(2) by (cases "land_colors k") (auto simp: land_color_choice_def Let_def kind_of_def)
qed

lemma pool_get_add_pips [simp]: "pool_get (add_pips col n m) c = pool_get m c + (if c = col then n else 0)"
  by (cases col; cases c) (simp_all add: add_pips_def)

lemma pool_sum_get: "pool_sum m = sum_list (map (\<lambda>c. unat (pool_get m c)) all_colors_and_colorless)"
  by (simp add: pool_sum_def all_colors_and_colorless_def)

lemma pool_get_le: "unat (pool_get m c) \<le> pool_sum m"
  by (cases c) (simp_all add: pool_sum_def)

lemma pool_sum_add_pips:
  assumes "pool_sum m + unat n < 256"
  shows "pool_sum (add_pips col n m) = pool_sum m + unat n"
proof -
  have "unat (pool_get m col + n) = unat (pool_get m col) + unat n"
    using assms pool_get_le [of m col] by (intro unat_plus_small) linarith
  then show ?thesis by (cases col) (simp_all add: pool_sum_def add_pips_def)
qed

lemma required_reduce_hint:
  assumes "pool_sum m + unat n < 256"
  shows "required (reduce_hint m (add_pips col n m) h) c
    = required h c - min (required h c) (if c = col then n else 0)"
proof -
  have sub: "sat_sub x x = (0 :: u8)" for x by (simp add: sat_sub_def)
  have "sat_sub (pool_get m col + n) (pool_get m col) = n"
    using assms pool_get_le [of m col] unat_plus_small [of "pool_get m col" n]
    by (simp add: sat_sub_def word_less_nat_alt word_le_nat_alt)
  then show ?thesis
    by (cases col; cases c) (simp_all add: reduce_hint_def take_hint_def Let_def add_pips_def sub)
qed

lemma get_player_some: "try_get_player g p = Some x \<Longrightarrow> get_player g p = Inr x"
  by (simp add: get_player_cases)

lemma tap_message_fields [simp]:
  "try_get_player (tap_message c w g) = try_get_player g" "card_of (tap_message c w g) = card_of g"
  by (simp_all add: tap_message_def game_log_def try_get_player_def card_of_def fun_eq_iff)

lemma try_get_player_log_action [simp]: "try_get_player (log_action a g) = try_get_player g"
  by (simp add: try_get_player_def fun_eq_iff)

lemma card_of_map_player [simp]: "card_of (map_player p f g) = card_of g"
  by (simp add: map_player_def card_of_def fun_eq_iff)

lemma tapped_state:
  assumes "card_of g c = Some k" "\<not> c_tapped k"
  obtains h where "tap_permanent c g = Inr h" "card_of h = (card_of g)(c \<mapsto> card_tap k)"
    "try_get_player h = try_get_player g"
proof -
  have "tap_permanent c g = Inr (increment_mana_version (map_mana_caches (on_tap c (card_tap k))
      (log_action (TapCard c True) (map_card c card_tap g))))"
    using assms by (simp add: tap_permanent_def Let_def)
  then show ?thesis
    by (rule that) (use assms(1) in \<open>auto simp: increment_mana_version_def map_mana_caches_def log_action_def
        card_of_def map_card_def store.lookup_modify_if try_get_player_def fun_eq_iff\<close>)
qed

lemma tap_land:
  assumes quiet: "quiet_triggers env" and k: "card_of g c = Some k" "\<not> c_tapped k" "is_land k"
    and x: "try_get_player g p = Some x" and col: "land_color_choice k hint = Some col"
    and n: "0 < mpr_amount (cc_mana_production (card_cache k))"
  obtains g' where "tap_for_mana_and_update_hint env p c hint g = (paid g',
      reduce_hint (p_mana_pool x) (add_pips col (mpr_amount (cc_mana_production (card_cache k))) (p_mana_pool x)) hint)"
    "try_get_player g' p = Some (set_pool (add_pips col (mpr_amount (cc_mana_production (card_cache k))) (p_mana_pool x)) x)"
    "\<And>d. d \<noteq> c \<Longrightarrow> card_of g' d = card_of g d"
proof -
  let ?n = "mpr_amount (cc_mana_production (card_cache k))"
  obtain h where h: "tap_permanent c g = Inr h" "card_of h = (card_of g)(c \<mapsto> card_tap k)"
    "try_get_player h = try_get_player g" by (rule tapped_state [OF k(1,2)])
  have "1 \<le> ?n" using n by (simp add: word_le_nat_alt word_less_nat_alt Suc_le_eq)
  then have amount: "tap_amount c h = ?n" using h(2) by (simp add: tap_amount_def max_absorb1)
  have "tap_for_mana_for_cost env p c hint g = gain_from_land p c hint h"
    using quiet k h(1) by (simp add: tap_for_mana_for_cost_def quiet_triggers_def explicit_ability_def)
  also have "\<dots> = paid (gain_pips p c col ?n h)"
    using h col x by (simp add: gain_from_land_def get_player_cases amount)
  finally have tap: "tap_for_mana_for_cost env p c hint g = paid (gain_pips p c col ?n h)" .
  have pool: "try_get_player (gain_pips p c col ?n h) p = Some (set_pool (add_pips col ?n (p_mana_pool x)) x)"
    using x h(3) by (simp add: gain_pips_def)
  show ?thesis
  proof (rule that)
    show "tap_for_mana_and_update_hint env p c hint g = (paid (gain_pips p c col ?n h),
        reduce_hint (p_mana_pool x) (add_pips col ?n (p_mana_pool x)) hint)"
      using x pool tap by (simp add: tap_for_mana_and_update_hint_def get_player_cases) (simp add: paid_def set_pool_def)
    show "card_of (gain_pips p c col ?n h) d = card_of g d" if "d \<noteq> c" for d
      using that h(2) by (simp add: gain_pips_def)
  qed (rule pool)
qed

subsection \<open>Tapping the sources of a payment\<close>

text \<open>After a part \<open>A\<close> of a payment: the hint is what is left of the cost, the pool holds what was tapped.\<close>

definition paid_part :: "mana_cost \<Rightarrow> mana_pool \<Rightarrow> payment \<Rightarrow> mana_cost \<Rightarrow> mana_pool \<Rightarrow> bool" where
  "paid_part m pool0 A hint pool \<longleftrightarrow> (\<forall>c. unat (required hint c) = unat (required m c) - spent_on c A)
     \<and> (\<forall>c. spent_on c A \<le> unat (pool_get pool c)) \<and> pool_sum pool = pool_sum pool0 + total_tapped A"

lemma paid_part_step:
  assumes part: "paid_part m pool0 A hint pool" and fit: "pool_sum pool + unat (amount_of s) < 256"
    and d: "case d of Some c \<Rightarrow> col = c | None \<Rightarrow> \<forall>c'. unat (required m c') \<le> spent_on c' A"
  shows "paid_part m pool0 (A @ [(s, d)]) (reduce_hint pool (add_pips col (amount_of s) pool) hint)
    (add_pips col (amount_of s) pool)"
proof -
  let ?n = "amount_of s"
  have spent: "spent_on c (A @ [(s, d)]) = spent_on c A + (if d = Some c then unat ?n else 0)" for c
    by (simp add: spent_on_def)
  have "unat (required (reduce_hint pool (add_pips col ?n pool) hint) c)
      = unat (required m c) - spent_on c (A @ [(s, d)])" for c
    using part d unfolding required_reduce_hint [OF fit] spent paid_part_def
    by (cases d) (auto simp: unat_minus_min_left)
  moreover have "unat (pool_get pool col + ?n) = unat (pool_get pool col) + unat ?n"
    using fit pool_get_le [of pool col] by (intro unat_plus_small) linarith
  then have "spent_on c (A @ [(s, d)]) \<le> unat (pool_get (add_pips col ?n pool) c)" for c
    using part d unfolding spent paid_part_def by (cases d) (auto intro: le_add1 trans_le_add1)
  moreover have "pool_sum (add_pips col ?n pool) = pool_sum pool0 + total_tapped (A @ [(s, d)])"
    using part by (simp add: pool_sum_add_pips [OF fit] paid_part_def) (simp add: total_tapped_def)
  ultimately show ?thesis by (simp add: paid_part_def)
qed

lemma tap_sources_pays:
  assumes quiet: "quiet_triggers env"
    and "in_order m A T" "\<And>s d. (s, d) \<in> set T \<Longrightarrow> usable s \<and> land_source g s
      \<and> (case d of Some c \<Rightarrow> produces (kind_of s) c | None \<Rightarrow> kind_produces_mana (kind_of s))"
    and "distinct (map (ms_card_id \<circ> fst) T)" "try_get_player g p = Some x"
    and "paid_part m pool0 A hint (p_mana_pool x)" "pool_sum pool0 + total_tapped (A @ T) < 256"
  shows "\<exists>g' x' hint'. tap_sources env p (map (ms_card_id \<circ> fst) T) hint g = paid g'
    \<and> try_get_player g' p = Some x' \<and> paid_part m pool0 (A @ T) hint' (p_mana_pool x')"
  using assms(2-)
proof (induction T arbitrary: A g x hint)
  case (Cons e T)
  obtain s d where e: "e = (s, d)" by fastforce
  let ?c = "ms_card_id s" and ?pool = "p_mana_pool x"
  obtain k where k: "card_of g ?c = Some k" "is_land k" "c_tapped k = ms_is_tapped s"
    "ms_production s = cc_mana_production (card_cache k)" "0 < amount_of s"
    "\<And>cs. kind_of s = Choice cs \<Longrightarrow> mcs_wf cs"
    "kind_of s \<noteq> AnyColor \<longrightarrow> set (land_colors k) = {col. produces (kind_of s) col \<and> col \<noteq> Colorless}"
    and usable: "usable s" and tag: "case d of Some c \<Rightarrow> produces (kind_of s) c | None \<Rightarrow> kind_produces_mana (kind_of s)"
    using Cons.prems(2) [of s d] unfolding e land_source_def by auto
  have part: "paid_part m pool0 A hint ?pool" by (rule Cons.prems(5))
  have order: "in_order m (A @ [(s, d)]) T" and now: "case d of
      Some c \<Rightarrow> spent_on c A < unat (required m c)
         \<and> (\<forall>c' \<in> set (takeWhile (\<lambda>x. x \<noteq> c) all_colors_and_colorless). unat (required m c') \<le> spent_on c' A)
    | None \<Rightarrow> \<forall>c'. unat (required m c') \<le> spent_on c' A"
    using Cons.prems(1) by (simp_all add: e)
  have left: "required hint c = 0 \<longleftrightarrow> unat (required m c) \<le> spent_on c A" for c
    using part by (simp add: paid_part_def unat_eq_0 [symmetric] del: unat_eq_0)
  obtain col where col: "land_color_choice k hint = Some col"
    and d: "case d of Some c \<Rightarrow> col = c | None \<Rightarrow> \<forall>c'. unat (required m c') \<le> spent_on c' A"
  proof (cases d)
    case None
    then have "land_color_choice k hint \<noteq> None"
      using choice_for_generic [OF k(7,4)] tag k(6) by simp
    then show ?thesis using that now None by auto
  next
    case (Some c)
    have "0 < required hint c" using now Some left [of c] by (simp add: word_neq_0_conv [symmetric])
    then have "land_color_choice k hint = Some c"
      by (intro choice_for_color [OF k(7,4)]) (use now tag Some left in auto)
    then show ?thesis using that Some by simp
  qed
  have fit: "pool_sum ?pool + unat (amount_of s) < 256"
    using part Cons.prems(6) by (simp add: paid_part_def e) (simp add: total_tapped_def)
  have "\<not> c_tapped k" using usable k(3) by (simp add: usable_def)
  moreover have amount: "mpr_amount (cc_mana_production (card_cache k)) = amount_of s"
    using k(4) by (simp add: amount_of_def)
  ultimately obtain h where h: "tap_for_mana_and_update_hint env p ?c hint g
      = (paid h, reduce_hint ?pool (add_pips col (amount_of s) ?pool) hint)"
    "try_get_player h p = Some (set_pool (add_pips col (amount_of s) ?pool) x)"
    "\<And>c. c \<noteq> ?c \<Longrightarrow> card_of h c = card_of g c"
    using tap_land [OF quiet k(1) _ k(2) Cons.prems(4) col] k(5) by metis
  have "land_source h s'" if "(s', d') \<in> set T" for s' d'
  proof -
    have "ms_card_id s' \<noteq> ?c" using Cons.prems(3) that by (force simp: e)
    moreover have "land_source g s'" using Cons.prems(2) [of s' d'] that by simp
    ultimately show ?thesis using h(3) by (simp add: land_source_def)
  qed
  then have "\<exists>g' x' hint'. tap_sources env p (map (ms_card_id \<circ> fst) T)
        (reduce_hint ?pool (add_pips col (amount_of s) ?pool) hint) h = paid g'
      \<and> try_get_player g' p = Some x' \<and> paid_part m pool0 ((A @ [(s, d)]) @ T) hint' (p_mana_pool x')"
    using Cons.prems(2,3,6) paid_part_step [OF part fit d]
    by (intro Cons.IH [OF order _ _ h(2)]) (auto simp: e set_pool_def)
  then show ?case by (simp add: e h(1) comp_def)
qed auto

lemma paid_part_affords:
  assumes "pays m T" "paid_part m pool0 T hint pool" "pool_sum pool < 256"
  shows "can_pay pool m"
proof -
  have total: "all_required m + unat (mc_generic m) = cost_sum m"
    by (simp add: all_required_def cost_sum_def all_colors_and_colorless_def)
  have "unat (required m c) \<le> unat (pool_get pool c)" for c
    using assms(1,2) by (auto simp: pays_def paid_part_def intro: order_trans)
  then have "list_all2 (\<le>) (cost_list m) (pool_list pool)"
    by (simp add: cost_list_def pool_list_def) (metis pool_get.simps required.simps)
  moreover have "cost_sum m \<le> pool_sum pool"
    using assms(1,2) total by (simp add: pays_def paid_part_def)
  ultimately show ?thesis using can_pay_exact [of pool m] assms(3) by simp
qed

lemma pay_mana_result:
  assumes "try_get_player g p = Some x" "pool_sum (p_mana_pool x) < 256" "cost_sum m < 256"
  shows "if can_pay (p_mana_pool x) m
    then \<exists>g' pool. pay_mana p m g = paid g' \<and> try_get_player g' p = Some (set_pool pool x)
      \<and> card_of g' = card_of g \<and> pool_sum pool + cost_sum m = pool_sum (p_mana_pool x)
    else pay_mana p m g = refused ''Cannot pay mana cost'' (log_mana_pool p g)"
proof (cases "can_pay (p_mana_pool x) m")
  case True
  then obtain pool where pool: "pay_cost (p_mana_pool x) m = Inr pool" by (auto simp: pay_cost_result)
  let ?h = "map_player p (set_pool pool) (log_mana_pool p g)"
  have "pay_mana p m g = paid ?h"
    using True assms(1) pool by (simp add: pay_mana_def spend_pool_def get_player_cases Let_def)
  moreover have "try_get_player ?h p = Some (set_pool pool x)" using assms(1) by simp
  moreover have "card_of ?h = card_of g" by simp
  ultimately show ?thesis
    using pay_cost_conserves [OF assms(2,3) pool] unfolding if_P [OF True] by blast
qed (use assms(1) in \<open>simp add: pay_mana_def get_player_cases Let_def\<close>)

lemma greedy_order:
  assumes "distinct (map ms_card_id src)" "resolver_can_pay greedy_check_payment m src"
  obtains T where "compute_tap_order greedy_check_payment m src [] = (True, Some (map (ms_card_id \<circ> fst) T))"
    "admissible src T" "pays m T" "in_order m [] T"
proof -
  obtain order where order: "greedy_tap_order m src = Some order" "bounds_check_payment m src \<noteq> No"
    using assms(2) by (auto simp: resolver_can_pay_def greedy_check_payment_def try_greedy_payment_def
        split: if_splits option.splits)
  obtain T where T: "order = map (ms_card_id \<circ> fst) T" "admissible src T" "pays m T" "in_order m [] T"
    using greedy_sound [OF assms(1) order(1)] by blast
  then show ?thesis
    using order by (intro that [of T])
      (simp_all add: compute_tap_order_def greedy_check_payment_def try_greedy_payment_def)
qed

lemma greedy_refuses:
  "\<not> resolver_can_pay greedy_check_payment m src \<Longrightarrow> \<not> fst (compute_tap_order greedy_check_payment m src [])"
  by (auto simp: resolver_can_pay_def greedy_check_payment_def try_greedy_payment_def compute_tap_order_def
      split: if_splits option.splits)

text \<open>Tapping in the order of the resolver fills the pool up to the cost.\<close>

lemma tapped_order_affords:
  assumes quiet: "quiet_triggers env" and x: "try_get_player g p = Some x"
    and T: "admissible src T" "pays m T" "in_order m [] T" and dist: "distinct (map ms_card_id src)"
    and land: "\<And>s. s \<in> set src \<Longrightarrow> usable s \<Longrightarrow> land_source g s"
    and fit: "pool_sum (p_mana_pool x) + amount_where (\<lambda>_. True) src < 256"
  obtains g' y where "tap_sources env p (map (ms_card_id \<circ> fst) T) m g = paid g'"
    "try_get_player g' p = Some y" "can_pay (p_mana_pool y) m"
    "pool_sum (p_mana_pool y) = pool_sum (p_mana_pool x) + total_tapped T" "pool_sum (p_mana_pool y) < 256"
proof -
  have start: "paid_part m (p_mana_pool x) [] m (p_mana_pool x)" by (simp add: paid_part_def)
  have small: "pool_sum (p_mana_pool x) + total_tapped ([] @ T) < 256"
    using payment_within(2) [OF T(1) dist] fit by simp
  have src: "usable s \<and> land_source g s
      \<and> (case d of Some c \<Rightarrow> produces (kind_of s) c | None \<Rightarrow> kind_produces_mana (kind_of s))"
    if "(s, d) \<in> set T" for s d
    using that T(1) land by (auto simp: admissible_def)
  obtain g' y hint where run: "tap_sources env p (map (ms_card_id \<circ> fst) T) m g = paid g'"
    "try_get_player g' p = Some y" "paid_part m (p_mana_pool x) T hint (p_mana_pool y)"
    using tap_sources_pays [OF quiet T(3) src _ x start small] T(1) by (auto simp: admissible_def)
  have sum: "pool_sum (p_mana_pool y) = pool_sum (p_mana_pool x) + total_tapped T"
    using run(3) by (simp add: paid_part_def)
  then have "pool_sum (p_mana_pool y) < 256" using small by simp
  then show ?thesis using that run sum paid_part_affords [OF T(2) run(3)] by blast
qed

lemma pay_by_tapping:
  assumes quiet: "quiet_triggers env" and x: "try_get_player g p = Some x"
    and src: "src = me_mana_sources (engine_update g p mana_engine_new)" and dist: "distinct (map ms_card_id src)"
    and land: "\<And>s. s \<in> set src \<Longrightarrow> usable s \<Longrightarrow> land_source g s"
    and fit: "pool_sum (p_mana_pool x) + amount_where (\<lambda>_. True) src < 256" "cost_sum m < 256"
  shows "if can_pay (p_mana_pool x) m \<or> resolver_can_pay greedy_check_payment m src
    then \<exists>g' y T. pay_mana_cost_by_tapping env p m g = (g', True) \<and> try_get_player g' p = Some y
      \<and> admissible src T \<and> pool_sum (p_mana_pool y) + cost_sum m = pool_sum (p_mana_pool x) + total_tapped T
    else pay_mana_cost_by_tapping env p m g = (g, False)"
proof (cases "can_pay (p_mana_pool x) m")
  case True
  have "pool_sum (p_mana_pool x) < 256" using fit(1) by simp
  from pay_mana_result [OF x this fit(2)] True obtain g' pool where
    "pay_mana p m g = paid g'" "try_get_player g' p = Some (set_pool pool x)"
    "pool_sum pool + cost_sum m = pool_sum (p_mana_pool x)" by auto
  then have "pay_mana_cost_by_tapping env p m g = (g', True) \<and> try_get_player g' p = Some (set_pool pool x)
      \<and> admissible src [] \<and> pool_sum (p_mana_pool (set_pool pool x)) + cost_sum m
        = pool_sum (p_mana_pool x) + total_tapped []"
    using True x by (simp add: pay_mana_cost_by_tapping_def paid_def admissible_def set_pool_def)
  then show ?thesis using True by auto
next
  case poor: False
  show ?thesis
  proof (cases "resolver_can_pay greedy_check_payment m src")
    case False
    then have "\<not> fst (compute_tap_order greedy_check_payment m src [])" by (rule greedy_refuses)
    then obtain order where "compute_tap_order greedy_check_payment m src [] = (False, order)"
      by (cases "compute_tap_order greedy_check_payment m src []") auto
    then show ?thesis
      using poor False x by (simp add: pay_mana_cost_by_tapping_def src)
  next
    case True
    obtain T where T: "compute_tap_order greedy_check_payment m src [] = (True, Some (map (ms_card_id \<circ> fst) T))"
      "admissible src T" "pays m T" "in_order m [] T" by (rule greedy_order [OF dist True])
    obtain h y where h: "tap_sources env p (map (ms_card_id \<circ> fst) T) m g = paid h"
      "try_get_player h p = Some y" "can_pay (p_mana_pool y) m"
      "pool_sum (p_mana_pool y) = pool_sum (p_mana_pool x) + total_tapped T" "pool_sum (p_mana_pool y) < 256"
      by (rule tapped_order_affords [OF quiet x T(2-4) dist land fit(1)])
    from pay_mana_result [OF h(2,5) fit(2)] h(3) obtain g' pool where
      "pay_mana p m h = paid g'" "try_get_player g' p = Some (set_pool pool y)"
      "pool_sum pool + cost_sum m = pool_sum (p_mana_pool y)" by auto
    then have "pay_mana_cost_by_tapping env p m g = (g', True) \<and> try_get_player g' p = Some (set_pool pool y)
        \<and> pool_sum (p_mana_pool (set_pool pool y)) + cost_sum m = pool_sum (p_mana_pool x) + total_tapped T"
      using poor x h(1,4) T(1) by (simp add: pay_mana_cost_by_tapping_def paid_def src [symmetric] set_pool_def unwrap_or_def)
    then show ?thesis using True T(2) by auto
  qed
qed

subsection \<open>Waterbend\<close>

definition tap_in :: "card_id set \<Rightarrow> (card_id \<Rightarrow> card option) \<Rightarrow> card_id \<Rightarrow> card option" where
  "tap_in S cards d = (if d \<in> S then map_option card_tap (cards d) else cards d)"

lemma bend_taps_spec:
  assumes "distinct cs" "\<And>c. c \<in> set cs \<Longrightarrow> \<exists>k. card_of g c = Some k \<and> \<not> c_tapped k"
  shows "\<exists>g' rest'. bend_taps cs rest g = (paid g', rest') \<and> unat rest' = unat rest - length cs
    \<and> card_of g' = tap_in (set (take (unat rest) cs)) (card_of g) \<and> try_get_player g' = try_get_player g"
  using assms
proof (induction cs arbitrary: rest g)
  case (Cons c cs)
  obtain k where k: "card_of g c = Some k" "\<not> c_tapped k" using Cons.prems(2) [of c] by auto
  show ?case
  proof (cases "rest = 0")
    case False
    then have pos: "0 < unat rest" using unat_eq_zero by blast
    obtain h where h: "tap_permanent c g = Inr h" "card_of h = (card_of g)(c \<mapsto> card_tap k)"
      "try_get_player h = try_get_player g" by (rule tapped_state [OF k])
    have step: "unat (rest - 1) = unat rest - 1" using False by (simp add: unat_minus_one)
    have "\<exists>g' rest'. bend_taps cs (rest - 1) h = (paid g', rest') \<and> unat rest' = unat (rest - 1) - length cs
      \<and> card_of g' = tap_in (set (take (unat (rest - 1)) cs)) (card_of h) \<and> try_get_player g' = try_get_player h"
      using Cons.prems h(2) by (intro Cons.IH) auto
    then obtain g' rest' where g': "bend_taps cs (rest - 1) h = (paid g', rest')"
      "unat rest' = unat rest - Suc (length cs)"
      "card_of g' = tap_in (set (take (unat rest - 1) cs)) (card_of h)" "try_get_player g' = try_get_player g"
      using h(3) step by auto
    have "take (unat rest) (c # cs) = c # take (unat rest - 1) cs" using pos by (cases "unat rest") simp_all
    moreover have "c \<notin> set (take (unat rest - 1) cs)" using Cons.prems(1) by (auto dest: in_set_takeD)
    ultimately have "card_of g' = tap_in (set (take (unat rest) (c # cs))) (card_of g)"
      using g'(3) h(2) k(1) by (auto simp: tap_in_def fun_eq_iff)
    then show ?thesis using g' h(1) k(1) False by simp
  qed (simp add: tap_in_def fun_eq_iff)
qed (simp add: tap_in_def fun_eq_iff)

lemma generic_cost: "from_string (show_nat (unat n)) = mana_cost_new\<lparr>mc_generic := n\<rparr>"
proof -
  have "mana_cost_display (mana_cost_new\<lparr>mc_generic := n\<rparr>) = show_nat (unat n)" if "0 < n"
    using that by (simp add: mana_cost_display_def mana_cost_new_def)
  then have "from_string (show_nat (unat n)) = mana_cost_new\<lparr>mc_generic := n\<rparr>" if "0 < n"
    using from_string_display [of "mana_cost_new\<lparr>mc_generic := n\<rparr>"] that by simp
  moreover have "from_string (show_nat (unat (0 :: u8))) = mana_cost_new" by code_simp
  ultimately show ?thesis by (cases "n = 0") (auto simp: word_neq_0_conv mana_cost_new_def)
qed

lemma bend_from_pool_spec:
  assumes "try_get_player g p = Some x" "pool_sum (p_mana_pool x) < 256"
  shows "\<exists>g' pool rest. bend_from_pool p (pool_total (p_mana_pool x)) n g = (paid g', rest)
    \<and> unat rest = unat n - pool_sum (p_mana_pool x) \<and> card_of g' = card_of g
    \<and> try_get_player g' p = Some (set_pool pool x)
    \<and> pool_sum pool + min (unat n) (pool_sum (p_mana_pool x)) = pool_sum (p_mana_pool x)"
proof -
  let ?fl = "pool_total (p_mana_pool x)" and ?used = "min n (pool_total (p_mana_pool x))"
  have fl: "unat ?fl = pool_sum (p_mana_pool x)" by (rule unat_pool_total [OF assms(2)])
  have used: "unat ?used = min (unat n) (pool_sum (p_mana_pool x))" by (simp add: unat_min_word fl)
  have rest: "unat (n - ?used) = unat n - pool_sum (p_mana_pool x)" by (simp add: unat_minus_min_left fl)
  show ?thesis
  proof (cases "0 < n \<and> 0 < ?fl")
    case True
    let ?m = "mana_cost_new\<lparr>mc_generic := ?used\<rparr>"
    have sum: "cost_sum ?m = unat ?used" by (simp add: cost_sum_def mana_cost_new_def)
    have "can_pay (p_mana_pool x) ?m"
      using can_pay_exact [OF assms(2), of ?m] used sum assms(2)
      by (simp add: cost_list_def pool_list_def mana_cost_new_def)
    then obtain pool where pool: "pay_cost (p_mana_pool x) ?m = Inr pool" by (auto simp: pay_cost_result)
    have "pool_sum pool + min (unat n) (pool_sum (p_mana_pool x)) = pool_sum (p_mana_pool x)"
      using pay_cost_conserves [OF assms(2) _ pool] sum used assms(2) by simp
    moreover have "bend_from_pool p ?fl n g = (paid (map_player p (set_pool pool) (log_mana_pool p g)), n - ?used)"
      using True assms(1) pool by (simp add: bend_from_pool_def Let_def generic_cost spend_pool_def get_player_cases)
    moreover have "try_get_player (map_player p (set_pool pool) (log_mana_pool p g)) p = Some (set_pool pool x)"
      using assms(1) by simp
    moreover have "card_of (map_player p (set_pool pool) (log_mana_pool p g)) = card_of g" by simp
    ultimately show ?thesis using rest by metis
  next
    case False
    then have "n = 0 \<or> pool_sum (p_mana_pool x) = 0" using fl by (auto simp: word_neq_0_conv [symmetric])
    moreover have "try_get_player g p = Some (set_pool (p_mana_pool x) x)" using assms(1) by (simp add: set_pool_def)
    moreover have "bend_from_pool p ?fl n g = (paid g, n)" using False by (auto simp: bend_from_pool_def)
    ultimately show ?thesis by auto
  qed
qed

lemma bend_available:
  assumes "pool_sum m + a + b < 256"
  shows "unat (pool_total m + of_nat a + of_nat b) = pool_sum m + a + b"
proof -
  have "pool_total m + of_nat a + of_nat b = (of_nat (pool_sum m + a + b) :: u8)" by (simp add: pool_total_of_nat)
  moreover have "unat (of_nat (pool_sum m + a + b) :: u8) = pool_sum m + a + b"
    using assms unfolding unat_of_nat by simp
  ultimately show ?thesis by simp
qed

lemma bend_sources:
  "c \<in> set (bend_lands p s g) \<Longrightarrow> \<exists>k. card_of g c = Some k \<and> \<not> c_tapped k"
  "c \<in> set (bend_permanents p s g) \<Longrightarrow> \<exists>k. card_of g c = Some k \<and> \<not> c_tapped k"
  "set (bend_lands p s g) \<inter> set (bend_permanents p s g) = {}"
  by (auto simp: bend_lands_def bend_permanents_def split: option.splits)

lemma waterbend_pays:
  assumes x: "try_get_player g p = Some x" and dist: "distinct (z_cards (gs_battlefield g))"
    and fit: "pool_sum (p_mana_pool x) + length (bend_lands p s g) + length (bend_permanents p s g) < 256"
    and enough: "unat n \<le> pool_sum (p_mana_pool x) + length (bend_lands p s g) + length (bend_permanents p s g)"
  obtains g' pool S where "pay_waterbend p s n g = paid g'" "try_get_player g' p = Some (set_pool pool x)"
    "pool_sum pool + min (unat n) (pool_sum (p_mana_pool x)) = pool_sum (p_mana_pool x)"
    "S \<subseteq> set (bend_lands p s g) \<union> set (bend_permanents p s g)" "card_of g' = tap_in S (card_of g)"
    "card S + min (unat n) (pool_sum (p_mana_pool x)) = unat n"
    "S \<subseteq> set (bend_permanents p s g) \<or> set (bend_permanents p s g) \<subseteq> S"
proof -
  let ?lands = "bend_lands p s g" and ?others = "bend_permanents p s g" and ?P = "pool_sum (p_mana_pool x)"
  have d: "distinct ?lands" "distinct ?others" using dist by (simp_all add: bend_lands_def bend_permanents_def)
  obtain g1 pool r1 where g1: "bend_from_pool p (pool_total (p_mana_pool x)) n g = (paid g1, r1)"
    "unat r1 = unat n - ?P" "card_of g1 = card_of g" "try_get_player g1 p = Some (set_pool pool x)"
    "pool_sum pool + min (unat n) ?P = ?P"
    using bend_from_pool_spec [OF x, of n] fit by auto
  obtain g2 r2 where g2: "bend_taps ?others r1 g1 = (paid g2, r2)" "unat r2 = unat r1 - length ?others"
    "card_of g2 = tap_in (set (take (unat r1) ?others)) (card_of g)" "try_get_player g2 = try_get_player g1"
    using bend_taps_spec [OF d(2), of g1 r1] bend_sources(2) g1(3) by auto
  have "\<exists>k. card_of g2 c = Some k \<and> \<not> c_tapped k" if "c \<in> set ?lands" for c
  proof -
    have "c \<notin> set (take (unat r1) ?others)" using that bend_sources(3) [of p s g] by (auto dest!: in_set_takeD)
    then show ?thesis using bend_sources(1) [OF that] g2(3) by (simp add: tap_in_def)
  qed
  then obtain g3 r3 where g3: "bend_taps ?lands r2 g2 = (paid g3, r3)"
    "card_of g3 = tap_in (set (take (unat r2) ?lands)) (card_of g2)" "try_get_player g3 = try_get_player g2"
    using bend_taps_spec [OF d(1), of g2 r2] by auto
  let ?A = "set (take (unat r1) ?others)" and ?B = "set (take (unat r2) ?lands)"
  have disj: "?A \<inter> ?B = {}" using bend_sources(3) [of p s g] by (auto dest!: in_set_takeD)
  have "card (?A \<union> ?B) = card ?A + card ?B" by (rule card_Un_disjoint) (simp_all add: disj)
  also have "\<dots> = min (length ?others) (unat r1) + min (length ?lands) (unat r2)"
    using d by (simp add: distinct_card)
  finally have size: "card (?A \<union> ?B) = unat n - ?P" using g1(2) g2(2) enough by linarith
  note available = bend_available [OF fit]
  have "\<not> pool_total (p_mana_pool x) + of_nat (length ?lands) + of_nat (length ?others) < n"
    unfolding word_less_nat_alt available using enough by simp
  then have "pay_waterbend p s n g = paid g3"
    using x g1(1) g2(1) g3(1) by (simp add: pay_waterbend_def get_player_cases Let_def)
  moreover have "try_get_player g3 p = Some (set_pool pool x)" using g1(4) g2(4) g3(3) by simp
  moreover have "card_of g3 = tap_in (?A \<union> ?B) (card_of g)"
    using g2(3) g3(2) disj by (auto simp: tap_in_def fun_eq_iff)
  moreover have "?A \<union> ?B \<subseteq> set ?lands \<union> set ?others" by (auto dest: in_set_takeD)
  moreover have "card (?A \<union> ?B) + min (unat n) ?P = unat n" using size by simp
  moreover have "?A \<union> ?B \<subseteq> set ?others \<or> set ?others \<subseteq> ?A \<union> ?B"
  proof (cases "unat r1 < length ?others")
    case True
    then show ?thesis using g2(2) by (auto dest: in_set_takeD)
  qed simp
  ultimately show ?thesis using that g1(5) by blast
qed

lemma waterbend_refused:
  assumes "try_get_player g p = Some x"
    "pool_sum (p_mana_pool x) + length (bend_lands p s g) + length (bend_permanents p s g) < unat n"
  shows "fst (pay_waterbend p s n g) = g \<and> snd (pay_waterbend p s n g) \<noteq> None"
proof -
  have "unat n < 2 ^ LENGTH(8)" by (rule unsigned_less)
  then have small: "pool_sum (p_mana_pool x) + length (bend_lands p s g) + length (bend_permanents p s g) < 256"
    using assms(2) by simp
  have "pool_total (p_mana_pool x) + of_nat (length (bend_lands p s g)) + of_nat (length (bend_permanents p s g)) < n"
    unfolding word_less_nat_alt bend_available [OF small] by (rule assms(2))
  then show ?thesis using assms(1) by (simp add: pay_waterbend_def get_player_cases Let_def)
qed

end
