(* ===== verification/CostProperties.thy ===== *)
theory CostProperties
  imports CostFacts PaymentProperties GameProperties
begin

section \<open>Properties of the payment of costs\<close>

text \<open>
  What paying does to the game: the tap order of the greedy resolver, carried out, covers the cost; a
  Waterbend cost uses up exactly its amount; which payments the undo log takes back and which it does not.
\<close>

definition quiet_env :: payment_env where
  "quiet_env = \<lparr>pe_move = (\<lambda>_ _ _ _ g. paid g), pe_taps = (\<lambda>_ g. paid g), pe_sacrificed = (\<lambda>_ g. paid g),
     pe_taps_for_mana = (\<lambda>_ _ g. paid g)\<rparr>"

lemma quiet_env_quiet: "quiet_triggers quiet_env" "triggers_logged ds quiet_env"
  by (simp_all add: quiet_triggers_def triggers_logged_def quiet_env_def taken_back_still)

definition mountain_land :: card where
  "mountain_land = mountain\<lparr>c_definition := (c_definition mountain)\<lparr>cd_cache := (card_cache mountain)\<lparr>cc_is_land := True\<rparr>\<rparr>\<rparr>"

abbreviation land_game :: game_state where
  "land_game \<equiv> one_source_game mountain_land (mark_dirty (msx_new 0))"

definition mountain_source :: mana_source where
  "mountain_source = \<lparr>ms_card_id = 3, ms_production = derive_mana_production_from_name ''Mountain'',
     ms_is_tapped = False, ms_has_summoning_sickness = False\<rparr>"

lemma mountain_production: "derive_mana_production_from_name ''Mountain'' = mp_free (Fixed MRed)"
  by code_simp

lemma mountain_land_fields [simp]:
  "c_owner mountain_land = 0" "c_controller mountain_land = 0" "c_chosen_color mountain_land = None"
  "c_tapped mountain_land = False" "c_static_abilities mountain_land = []" "\<not> is_creature mountain_land"
  "is_land mountain_land" "cc_mana_production (card_cache mountain_land) = mp_free (Fixed MRed)"
  "cc_is_mana_source (card_cache mountain_land)" "land_colors mountain_land = [Red]"
proof -
  show "c_owner mountain_land = 0" "c_controller mountain_land = 0" "c_chosen_color mountain_land = None"
    "c_tapped mountain_land = False" "c_static_abilities mountain_land = []"
    by (simp_all add: mountain_land_def mountain_def card_new_def Let_def)
  have cache: "card_cache mountain_land = (set_mana_production (derive_mana_production_from_name ''Mountain'')
      (card_cache_new [] ''Mountain''))\<lparr>cc_is_land := True\<rparr>"
    by (simp add: mountain_land_def card_cache_def) (simp flip: card_cache_def)
  show "\<not> is_creature mountain_land" "is_land mountain_land"
    "cc_mana_production (card_cache mountain_land) = mp_free (Fixed MRed)"
    "cc_is_mana_source (card_cache mountain_land)"
    by (simp_all add: is_creature_def is_land_def cache set_mana_production_def card_cache_new_def Let_def
        mountain_production produces_mana_def mp_free_def)
  then show "land_colors mountain_land = [Red]"
    using \<open>c_chosen_color mountain_land = None\<close>
    by (simp add: land_colors_def Let_def mp_free_def) (simp add: cache set_mana_production_def card_cache_new_def Let_def)
qed

lemma land_game_sources: "me_mana_sources (engine_update land_game 0 mana_engine_new) = [mountain_source]"
proof -
  have "fallback_production land_game 3 mountain_land = mp_free (Fixed MRed)"
    by (simp add: fallback_production_def get_effective_mana_production_def get_granted_abilities_def granted_by_def
        unwrap_or_def)
  then have "foldl (scan_source land_game 0 (fallback_production land_game)) ([], [], mana_pool_new, []) [3]
      = ([3], [], plus_color MRed 1 mana_pool_new, [mountain_source])"
    by (simp add: scan_source_def add_source_def mana_sick_def Let_def mp_free_def mana_production_default_def
        mountain_source_def mountain_production)
  moreover have "\<not> engine_current land_game 0 mana_engine_new"
    by (simp add: engine_current_def mana_engine_new_def)
  ultimately show ?thesis
    by (simp add: engine_update_def mark_dirty_def scan_battlefield_fallback_def engine_cleared_def del: foldl.simps)
qed

lemma land_game_player: "try_get_player land_game 0 = Some (player_new 0 ''A'' 20)"
  by (simp add: one_source_game_def new_two_player_def new_two_player_with_capacity_def try_get_player_def
      find_player_def player_new_def)





text \<open>
  C30: payments made of taps, mana, Waterbend and composites of these are taken back by the undo log, whether
  the cost was paid or given up half way: undoing what the payment logged restores the durable state,
  provided the log takes back what the tap triggers did.
\<close>

theorem payment_taken_back:
  assumes "log_on g" "logged_cost cost" "triggers_logged ds env"
  shows "undoable ds g (fst (pay_ability_cost env p c cost g))"
  using cost_taken_back(1) [OF assms(3,2,1)] by (simp add: taken_back_def)

theorem payment_taken_back_witness:
  "\<forall>ds. undoable ds sample_game
     (fst (pay_ability_cost quiet_env 0 3 (CComposite [CTap, CMana (mana_cost_new\<lparr>mc_red := 1\<rparr>)]) sample_game))"
proof
  fix ds
  show "undoable ds sample_game
     (fst (pay_ability_cost quiet_env 0 3 (CComposite [CTap, CMana (mana_cost_new\<lparr>mc_red := 1\<rparr>)]) sample_game))"
    by (rule payment_taken_back) (simp_all add: quiet_env_quiet)
qed

text \<open>
  C32: a cost that is refused can still take life: when paying life comes before a mana cost the player
  cannot pay, the payment ends in an error with the life gone, and the undo log cannot give it back, since
  the loss was never logged.
\<close>

theorem refused_cost_takes_life:
  assumes x: "try_get_player g p = Some x" and n: "0 < sint n" "sint n \<le> sint (p_life x)"
    and poor: "\<not> can_pay (p_mana_pool x) m" and log: "log_on g"
  shows "snd (pay_ability_cost env p c (CComposite [CPayLife n, CMana m]) g) = Some (InvalidAction ''Cannot pay mana cost'')
    \<and> try_get_player (fst (pay_ability_cost env p c (CComposite [CPayLife n, CMana m]) g)) p
        = Some (x\<lparr>p_life := p_life x - n\<rparr>)
    \<and> \<not> undoable ds g (fst (pay_ability_cost env p c (CComposite [CPayLife n, CMana m]) g))"
proof -
  define h where "h = map_player p (\<lambda>x. x\<lparr>p_life := p_life x - n\<rparr>) g"
  have keeps: "keeps_id (\<lambda>x. x\<lparr>p_life := p_life x - n\<rparr>)" by (simp add: keeps_id_def)
  have h: "try_get_player h p = Some (x\<lparr>p_life := p_life x - n\<rparr>)" using x keeps by (simp add: h_def)
  have "pay_life_cost p n g = paid h" using x n by (simp add: pay_life_cost_def get_player_cases h_def)
  moreover have "pay_mana p m h = refused ''Cannot pay mana cost'' (log_action (SetManaPool p (p_mana_pool x)) h)"
    using h poor by (simp add: pay_mana_def get_player_cases log_mana_pool_some Let_def)
  ultimately have pay: "pay_ability_cost env p c (CComposite [CPayLife n, CMana m]) g
      = refused ''Cannot pay mana cost'' (log_action (SetManaPool p (p_mana_pool x)) h)" by simp
  have gone: "p_life x - n \<noteq> p_life x" using n(1) by auto
  have "\<not> undoable ds g (log_action (SetManaPool p (p_mana_pool x)) h)"
  proof
    assume "undoable ds g (log_action (SetManaPool p (p_mana_pool x)) h)"
    moreover have "game_actions (log_action (SetManaPool p (p_mana_pool x)) h)
        = game_actions g @ [SetManaPool p (p_mana_pool x)]"
      using log by (simp add: h_def log_action_at_eq game_actions_def log_action_at_def ul_log_def log_on_def)
    ultimately have "durable (undo_effect ds (SetManaPool p (p_mana_pool x)) (log_action (SetManaPool p (p_mana_pool x)) h))
        = durable g" by (auto simp: undoable_def reversible_def)
    then have "map_option p_life (try_get_player (durable (undo_effect ds (SetManaPool p (p_mana_pool x))
        (log_action (SetManaPool p (p_mana_pool x)) h))) p) = map_option p_life (try_get_player (durable g) p)" by simp
    then show False
      using h x gone by (simp add: undo_effect_def undo_set_mana_pool_def undo_player_tolerant_def keeps_id_def)
  qed
  then show ?thesis unfolding pay using h by simp
qed

theorem refused_cost_takes_life_witness:
  "\<forall>ds. \<not> undoable ds sample_game (fst (pay_ability_cost quiet_env 0 3
     (CComposite [CPayLife 2, CMana (mana_cost_new\<lparr>mc_red := 1\<rparr>)]) sample_game))"
proof
  fix ds
  have "try_get_player sample_game 0 = Some (player_new 0 ''A'' 20)"
    by (simp add: sample_defs try_get_player_def find_player_def player_new_def)
  moreover have "\<not> can_pay (p_mana_pool (player_new 0 ''A'' 20)) (mana_cost_new\<lparr>mc_red := 1\<rparr>)"
    by (simp add: player_new_def mana_pool_new_def can_pay_def is_affordable_def mana_cost_new_def)
  moreover have "p_life (player_new 0 ''A'' 20) = 20" by (simp add: player_new_def)
  ultimately show "\<not> undoable ds sample_game (fst (pay_ability_cost quiet_env 0 3
     (CComposite [CPayLife 2, CMana (mana_cost_new\<lparr>mc_red := 1\<rparr>)]) sample_game))"
    using refused_cost_takes_life [of sample_game 0 "player_new 0 ''A'' 20" 2 "mana_cost_new\<lparr>mc_red := 1\<rparr>"
        quiet_env 3 ds] by simp
qed

end
