(* ===== verification/Layers.thy ===== *)
theory Layers
  imports ContinuousEffects
begin

section \<open>What the continuous effects add up to\<close>

text \<open>
  Laws of the layer computation: the selector match and the inline match agree up to the selectors
  named here, the bonuses are one sum over the static abilities in play and do not depend on the order
  of the battlefield, the keyword scan ends on every board whose keyword grants do not ask for flying
  again, and does not end on the others.
\<close>

subsection \<open>The two matches\<close>

text \<open>The selectors both matches read alike. Power is an \<open>i8\<close>, so no creature reaches more than 127.\<close>

definition read_alike :: "affected_selector \<Rightarrow> bool" where
  "read_alike sel = (case sel of
       OnAttached x \<Rightarrow> x \<notin> {ArtifactEnchantedBy, PlaneswalkerEnchantedBy, EquipmentEnchantedBy}
     | OnCreatures x \<Rightarrow> (case x of
           LandCreaturesYouControl \<Rightarrow> False | CreaturesWithPowerGE n \<Rightarrow> 127 < sint n | _ \<Rightarrow> True)
     | OnType x \<Rightarrow> (case x of
           CreatureCardTypeOtherYouControl t \<Rightarrow> t = Artifact | CreatureCardTypeYouControl t \<Rightarrow> t = Artifact
         | _ \<Rightarrow> True)
     | _ \<Rightarrow> True)"

lemma modify_reads_alike:
  assumes "c_id src = s" "read_alike sel"
  shows "modify_matches g flying sel c k s src = selector_matches g flying sel c k s src"
proof (cases sel)
  case (OnSelf x)
  then show ?thesis using assms by (cases x) simp_all
next
  case (OnAttached x)
  then show ?thesis using assms by (cases x) (simp_all add: read_alike_def)
next
  case (OnCreatures x)
  then show ?thesis
  proof (cases x)
    case (CreaturesWithPowerGE n)
    have "sint (current_power k) < 128" using sint_less [of "current_power k"] by simp
    then show ?thesis using OnCreatures CreaturesWithPowerGE assms by (simp add: read_alike_def)
  qed (use OnCreatures assms in \<open>simp_all add: read_alike_def\<close>)
next
  case (OnPermanents x)
  then show ?thesis by (cases x) (auto simp: conj_commute)
next
  case (OnType x)
  then show ?thesis using assms by (cases x) (auto simp: read_alike_def card_type_ok_def)
qed simp_all

text \<open>Every other selector is read differently in some game: two cards suffice.\<close>

definition probe_card :: "card \<Rightarrow> card" where
  "probe_card k = k\<lparr>c_base_power := Some 127, c_temp_base_power := None, c_counters := [], c_power_bonus := 0\<rparr>"

definition with_flags :: "bool \<Rightarrow> bool \<Rightarrow> card_type list \<Rightarrow> card \<Rightarrow> card" where
  "with_flags creature land ts k = k\<lparr>c_types := ts, c_definition := (c_definition k)\<lparr>cd_cache :=
     (cd_cache (c_definition k))\<lparr>cc_is_creature := creature, cc_is_land := land\<rparr>\<rparr>\<rparr>"

lemma with_flags_fields [simp]:
  "is_creature (with_flags a b ts k) = a" "is_land (with_flags a b ts k) = b" "c_types (with_flags a b ts k) = ts"
  "c_controller (with_flags a b ts k) = c_controller k" "c_id (with_flags a b ts k) = c_id k"
  "current_power (with_flags a b ts (probe_card k)) = 127"
  by (simp_all add: with_flags_def is_creature_def is_land_def card_cache_def current_power_def probe_card_def
      or_else_def unwrap_or_def get_counter_def count_of_def)

lemma probe_card_fields [simp]: "c_controller (probe_card k) = c_controller k" "c_id (probe_card k) = c_id k"
  by (simp_all add: probe_card_def)

lemma reading_differs:
  assumes "\<not> read_alike sel"
  shows "\<exists>c k. modify_matches (g\<lparr>gs_battlefield := bf\<lparr>z_cards := []\<rparr>\<rparr>) flying sel c k (c_id src) (src\<lparr>c_attached_to := Some c\<rparr>)
    \<noteq> selector_matches (g\<lparr>gs_battlefield := bf\<lparr>z_cards := []\<rparr>\<rparr>) flying sel c k (c_id src) (src\<lparr>c_attached_to := Some c\<rparr>)"
proof (cases sel)
  case (OnAttached x)
  then show ?thesis
    using assms by (auto simp: read_alike_def get_attached_auras_def attached_where_def)
next
  case (OnCreatures x)
  then consider (lands) "x = LandCreaturesYouControl" | (power) n where "x = CreaturesWithPowerGE n" "sint n \<le> 127"
    using assms by (cases x) (auto simp: read_alike_def)
  then show ?thesis
  proof cases
    case lands
    then show ?thesis using OnCreatures by (intro exI [of _ 0] exI [of _ "with_flags False True [] src"]) simp
  next
    case power
    then show ?thesis
      using OnCreatures by (intro exI [of _ 0] exI [of _ "with_flags True False [] (probe_card src)"]) simp
  qed
next
  case (OnType x)
  then obtain t where t: "x = CreatureCardTypeOtherYouControl t \<or> x = CreatureCardTypeYouControl t" "t \<noteq> Artifact"
    using assms by (cases x) (auto simp: read_alike_def)
  then show ?thesis
    using OnType by (intro exI [of _ "c_id src + 1"] exI [of _ "with_flags True True [t] src"])
      (auto simp: card_type_ok_def split: card_type.split)
qed (use assms in \<open>simp_all add: read_alike_def\<close>)

text \<open>Conversely a single selector wrapped into an \<open>Any\<close> is always read by the selector match.\<close>

lemma modify_any_single:
  "modify_matches g flying (AnySelector [sel]) c k s src = selector_matches g flying sel c k s src"
  by (simp split: sum.split bool.split)

subsection \<open>The static abilities in play\<close>

definition statics_of :: "game_state \<Rightarrow> card_id \<Rightarrow> (card_id \<times> card \<times> static_ability) list" where
  "statics_of g s = (case card_of g s of
       None \<Rightarrow> [] | Some src \<Rightarrow> map (\<lambda>ab. (s, src, ab)) (c_static_abilities src))"

definition statics_in_play :: "game_state \<Rightarrow> (card_id \<times> card \<times> static_ability) list" where
  "statics_in_play g = concat (map (statics_of g) (static_sources g))"

fun bonus :: "game_state \<Rightarrow> mtg_error + bool \<Rightarrow> card_id \<Rightarrow> card \<Rightarrow> card_id \<times> card \<times> static_ability \<Rightarrow> i32 \<times> i32" where
  "bonus g flying c k (s, src, ab) = (case ab of
       ModifyPT sel p t d cond \<Rightarrow>
         if condition_holds g cond src \<and> modify_matches g flying sel c k s src = Inr True then (p, t) else (0, 0)
     | _ \<Rightarrow> (0, 0))"

definition total_bonus ::
  "game_state \<Rightarrow> mtg_error + bool \<Rightarrow> card_id \<Rightarrow> card \<Rightarrow> (card_id \<times> card \<times> static_ability) list \<Rightarrow> i32 \<times> i32" where
  "total_bonus g flying c k xs =
     (sum_list (map (fst \<circ> bonus g flying c k) xs), sum_list (map (snd \<circ> bonus g flying c k) xs))"

lemma total_bonus_simps [simp]:
  "total_bonus g flying c k [] = (0, 0)"
  "total_bonus g flying c k (xs @ ys) =
     (fst (total_bonus g flying c k xs) + fst (total_bonus g flying c k ys),
      snd (total_bonus g flying c k xs) + snd (total_bonus g flying c k ys))"
  by (simp_all add: total_bonus_def)

lemma modify_ability_bonus:
  "modify_ability g flying c k s src acc ab = Inr r \<Longrightarrow>
     r = (fst acc + fst (bonus g flying c k (s, src, ab)), snd acc + snd (bonus g flying c k (s, src, ab)))"
  by (cases acc) (auto simp: modify_ability_def split: static_ability.splits if_splits sum.splits)

lemma modify_abilities_bonus:
  "fold_result (modify_ability g flying c k s src) acc abls = Inr r \<Longrightarrow>
     r = (fst acc + fst (total_bonus g flying c k (map (\<lambda>ab. (s, src, ab)) abls)),
          snd acc + snd (total_bonus g flying c k (map (\<lambda>ab. (s, src, ab)) abls)))"
proof (induction abls arbitrary: acc)
  case (Cons ab abls)
  then obtain acc' where step: "modify_ability g flying c k s src acc ab = Inr acc'"
    and rest: "fold_result (modify_ability g flying c k s src) acc' abls = Inr r"
    by (auto split: sum.splits)
  show ?case
    using Cons.IH [OF rest] modify_ability_bonus [OF step] by (simp add: total_bonus_def add.assoc)
qed simp

lemma modify_sources_bonus:
  "fold_result (modify_from_source g flying c k) acc ss = Inr r \<Longrightarrow>
     r = (fst acc + fst (total_bonus g flying c k (concat (map (statics_of g) ss))),
          snd acc + snd (total_bonus g flying c k (concat (map (statics_of g) ss))))"
proof (induction ss arbitrary: acc)
  case (Cons s ss)
  then obtain acc' where step: "modify_from_source g flying c k acc s = Inr acc'"
    and rest: "fold_result (modify_from_source g flying c k) acc' ss = Inr r"
    by (auto split: sum.splits)
  have "acc' = (fst acc + fst (total_bonus g flying c k (statics_of g s)),
      snd acc + snd (total_bonus g flying c k (statics_of g s)))"
    using step modify_abilities_bonus [of g flying c k s _ acc _ acc']
    by (auto simp: modify_from_source_def statics_of_def split: option.splits if_splits)
  then show ?case using Cons.IH [OF rest] by (simp add: add.assoc)
qed simp

lemma modifypt_effects_sum:
  assumes "calculate_modifypt_effects n g c k = Inr r"
  shows "r = total_bonus g (has_keyword_with_effects n g c ''Flying'') c k (statics_in_play g)"
  using modify_sources_bonus [OF assms [unfolded calculate_modifypt_effects_def]]
  by (simp add: statics_in_play_def)

text \<open>The value the bonuses are added to: layers 7a and 7b over the printed or temporary base.\<close>

definition layered_base :: "game_state \<Rightarrow> card \<Rightarrow> i32 \<times> i32" where
  "layered_base g k = (case opalescence_pt g k of
       Some v \<Rightarrow> (v, v)
     | None \<Rightarrow> (case calculate_cda_pt g k of
         Some v \<Rightarrow> v
       | None \<Rightarrow> (scast (unwrap_or (or_else (c_temp_base_power k) (c_base_power k)) 0),
           scast (unwrap_or (or_else (c_temp_base_toughness k) (c_base_toughness k)) 0))))"

definition counter_bonus :: "card \<Rightarrow> i32" where
  "counter_bonus k = ucast (get_counter k P1P1) - ucast (get_counter k M1M1)"

lemma breakdown_adds_up:
  assumes "get_pt_breakdown n g c = Inr b" "card_of g c = Some k"
  shows "final_pt b = (let
      sum = total_bonus g (has_keyword_with_effects n g c ''Flying'') c k (statics_in_play g) in
    (fst (layered_base g k) + fst sum + c_power_bonus k + counter_bonus k,
     snd (layered_base g k) + snd sum + c_toughness_bonus k + counter_bonus k))"
proof -
  obtain eff where eff: "calculate_modifypt_effects n g c k = Inr eff"
    using assms by (auto simp: get_pt_breakdown_def split: sum.splits)
  show ?thesis
    using assms eff modifypt_effects_sum [OF eff]
    by (auto simp: get_pt_breakdown_def final_pt_def layered_base_def counter_bonus_def
        calculate_modifypt_counters_def Let_def add.assoc split: option.splits)
qed

subsection \<open>The order of the battlefield\<close>

text \<open>The same game with its battlefield listed in another order.\<close>

definition reordered :: "game_state \<Rightarrow> game_state \<Rightarrow> bool" where
  "reordered g h \<longleftrightarrow> h = g\<lparr>gs_battlefield := gs_battlefield h\<rparr>
     \<and> mset (z_cards (gs_battlefield h)) = mset (z_cards (gs_battlefield g))"

lemma reordered_sym: "reordered g h \<Longrightarrow> reordered h g"
  unfolding reordered_def by (metis game_state.surjective game_state.update_convs(5))

lemma reordered_fields:
  assumes "reordered g h"
  shows "gs_cards h = gs_cards g" "gs_players h = gs_players g" "gs_player_zones h = gs_player_zones g"
    "gs_turn h = gs_turn g" "gs_combat h = gs_combat g" "gs_is_shadow_game h = gs_is_shadow_game g"
    "mset (z_cards (gs_battlefield h)) = mset (z_cards (gs_battlefield g))"
    "set (z_cards (gs_battlefield h)) = set (z_cards (gs_battlefield g))"
proof -
  have h: "h = g\<lparr>gs_battlefield := gs_battlefield h\<rparr>" and m: "mset (z_cards (gs_battlefield h)) = mset (z_cards (gs_battlefield g))"
    using assms by (auto simp: reordered_def)
  show "gs_cards h = gs_cards g" "gs_players h = gs_players g" "gs_player_zones h = gs_player_zones g"
    "gs_turn h = gs_turn g" "gs_combat h = gs_combat g" "gs_is_shadow_game h = gs_is_shadow_game g"
    by (subst h; simp)+
  show "mset (z_cards (gs_battlefield h)) = mset (z_cards (gs_battlefield g))" by (rule m)
  show "set (z_cards (gs_battlefield h)) = set (z_cards (gs_battlefield g))" using m by (rule mset_eq_setD)
qed

lemma reordered_cards:
  assumes "reordered g h"
  shows "card_of h = card_of g" "get_player_zones h = get_player_zones g" "try_get_player h = try_get_player g"
  by (rule ext, simp add: card_of_def get_player_zones_def try_get_player_def reordered_fields [OF assms])+

lemma length_filter_mset: "mset xs = mset ys \<Longrightarrow> length (filter P xs) = length (filter P ys)"
  by (metis mset_filter size_mset)

lemma reordered_attached:
  assumes "reordered g h"
  shows "set (attached_where P h c) = set (attached_where P g c)"
    "attached_where P h c = [] \<longleftrightarrow> attached_where P g c = []"
proof -
  show sets: "set (attached_where P h c) = set (attached_where P g c)"
    by (simp add: attached_where_def reordered_cards [OF assms] reordered_fields [OF assms])
  show "attached_where P h c = [] \<longleftrightarrow> attached_where P g c = []"
    using sets by (metis set_empty)
qed

lemma reordered_filter_zone:
  assumes "reordered g h"
  shows "rel_option (\<lambda>xs ys. mset xs = mset ys) (filter_zone h p z) (filter_zone g p z)"
  by (cases z) (simp_all add: reordered_cards [OF assms] reordered_fields [OF assms] option.rel_refl)

lemma reordered_count_single:
  assumes "reordered g h"
  shows "count_single_filter h p f z = count_single_filter g p f z"
proof (cases "filter_zone g p z")
  case None
  then show ?thesis using reordered_filter_zone [OF assms, of p z] by (simp add: count_single_filter_def Let_def)
next
  case (Some ys)
  then obtain xs where xs: "filter_zone h p z = Some xs" "mset xs = mset ys"
    using reordered_filter_zone [OF assms, of p z] by (auto simp: option_rel_Some2)
  show ?thesis
    using length_filter_mset [OF xs(2)]
    by (simp add: count_single_filter_def Let_def xs(1) Some reordered_cards [OF assms] reordered_fields [OF assms])
qed

lemma reordered_part:
  assumes "reordered g h"
  shows "set (part_matches h p z part) = set (part_matches g p z part)"
proof (cases "filter_zone g p z")
  case None
  then show ?thesis using reordered_filter_zone [OF assms, of p z] by (simp add: part_matches_def)
next
  case (Some ys)
  then obtain xs where xs: "filter_zone h p z = Some xs" "mset xs = mset ys"
    using reordered_filter_zone [OF assms, of p z] by (auto simp: option_rel_Some2)
  show ?thesis
    using mset_eq_setD [OF xs(2)]
    by (simp add: part_matches_def xs(1) Some reordered_count_single [OF assms] reordered_cards [OF assms])
qed

lemma reordered_count:
  assumes "reordered g h"
  shows "count_cards_matching_filter h p f z = count_cards_matching_filter g p f z"
  by (simp add: count_cards_matching_filter_def reordered_part [OF assms] reordered_count_single [OF assms])

lemma reordered_condition:
  assumes "reordered g h"
  shows "condition_holds h cond src = condition_holds g cond src"
proof -
  have "static_condition_met h d p = static_condition_met g d p" for d p
    by (cases d) (simp_all add: reordered_count [OF assms] reordered_fields [OF assms])
  then show ?thesis by (simp add: condition_holds_def split: option.split)
qed

lemma reordered_equipment:
  assumes "reordered g h"
  shows "set (get_attached_equipment h c) = set (get_attached_equipment g c)"
    "set (get_attached_auras h c) = set (get_attached_auras g c)"
    "get_attached_equipment h c = [] \<longleftrightarrow> get_attached_equipment g c = []"
    "get_attached_auras h c = [] \<longleftrightarrow> get_attached_auras g c = []"
    "list_ex P (get_attached_equipment h c) = list_ex P (get_attached_equipment g c)"
  by (simp_all add: get_attached_equipment_def get_attached_auras_def reordered_attached [OF assms] list_ex_iff)

lemma reordered_groups:
  assumes "reordered g h"
  shows "self_matches h x1 c k s src = self_matches g x1 c k s src"
    "attached_matches h x2 c k s src = attached_matches g x2 c k s src"
    "creature_matches h x3 c k s src = creature_matches g x3 c k s src"
    "typed_matches h x4 c k s src = typed_matches g x4 c k s src"
proof -
  show "self_matches h x1 c k s src = self_matches g x1 c k s src"
    by (cases x1) (simp_all add: reordered_equipment [OF assms] reordered_fields [OF assms])
  show "attached_matches h x2 c k s src = attached_matches g x2 c k s src"
    by (cases x2) (simp_all add: reordered_equipment [OF assms] reordered_cards [OF assms])
  show "creature_matches h x3 c k s src = creature_matches g x3 c k s src"
    by (cases x3) (simp_all add: reordered_equipment [OF assms] reordered_fields [OF assms])
  show "typed_matches h x4 c k s src = typed_matches g x4 c k s src"
    by (cases x4) (simp_all add: reordered_equipment [OF assms] reordered_fields [OF assms])
qed

lemma reordered_selector:
  "reordered g h \<Longrightarrow> selector_matches h flying sel c k s src = selector_matches g flying sel c k s src"
  "reordered g h \<Longrightarrow> selector_any h flying sels c k s src = selector_any g flying sels c k s src"
  by (induction g flying sel c k s src and g flying sels c k s src rule: selector_matches_selector_any.induct)
    (simp_all add: reordered_groups split: sum.split bool.split)

lemma reordered_layers:
  assumes "reordered g h"
  shows "grant_matches h flying sel c k s src = grant_matches g flying sel c k s src"
    "modify_matches h flying sel c k s src = modify_matches g flying sel c k s src"
proof -
  show "grant_matches h flying sel c k s src = grant_matches g flying sel c k s src"
    by (simp add: grant_matches_def reordered_selector [OF assms] reordered_equipment [OF assms]
        reordered_fields [OF assms] cong: affected_selector.case_cong attached_selector.case_cong)
  have "modify_self h x c k s src = modify_self g x c k s src" for x
    by (cases x) (simp_all add: reordered_equipment [OF assms] reordered_fields [OF assms])
  moreover have "modify_attached h x c k s src = modify_attached g x c k s src" for x
    by (cases x) (simp_all add: reordered_equipment [OF assms] reordered_cards [OF assms])
  moreover have "modify_creatures h x c k s src = modify_creatures g x c k s src" for x
    by (cases x) (simp_all add: reordered_equipment [OF assms] reordered_fields [OF assms])
  moreover have "modify_typed h x c k s src = modify_typed g x c k s src" for x
    by (cases x) (simp_all add: reordered_equipment [OF assms] reordered_fields [OF assms])
  ultimately show "modify_matches h flying sel c k s src = modify_matches g flying sel c k s src"
    by (cases sel) (simp_all add: reordered_selector [OF assms])
qed

lemma reordered_sources: "reordered g h \<Longrightarrow> mset (static_sources h) = mset (static_sources g)"
  by (simp add: static_sources_def reordered_fields)

subsection \<open>The keyword scan in one step\<close>

text \<open>A loop whose steps fail whatever was accumulated fails exactly when some step does.\<close>

lemma isl_fold_result:
  assumes "\<And>a b x. isl (f a x) = isl (f b x)"
  shows "isl (fold_result f a xs) \<longleftrightarrow> (\<exists>x \<in> set xs. isl (f a x))"
proof (induction xs arbitrary: a)
  case (Cons x xs)
  show ?case
  proof (cases "f a x")
    case (Inr b)
    have "isl (fold_result f b xs) \<longleftrightarrow> (\<exists>y \<in> set xs. isl (f a y))"
      using Cons.IH [of b] assms [of b _ a] by simp
    then show ?thesis using Inr by simp
  qed simp
qed simp

lemma isl_fold_result_same:
  assumes "\<And>a b x. isl (f a x) = isl (f b x)"
  shows "isl (fold_result f a xs) = isl (fold_result f b xs)"
  unfolding isl_fold_result [of f, OF assms] by (intro bex_cong refl assms)

lemma selector_no_error:
  "flying \<noteq> Inl e \<Longrightarrow> selector_matches g flying sel c k s src \<noteq> Inl e"
  "flying \<noteq> Inl e \<Longrightarrow> selector_any g flying sels c k s src \<noteq> Inl e"
  by (induction g flying sel c k s src and g flying sels c k s src rule: selector_matches_selector_any.induct)
    (auto split: sum.split bool.split)

lemma selector_error:
  "selector_matches g flying sel c k s src = Inl e \<Longrightarrow> flying = Inl e"
  "selector_any g flying sels c k s src = Inl e \<Longrightarrow> flying = Inl e"
  using selector_no_error(1) [of flying e g sel c k s src] selector_no_error(2) [of flying e g sels c k s src]
  by (cases "flying = Inl e"; simp)+

lemma grant_error: "grant_matches g flying sel c k s src = Inl e \<Longrightarrow> flying = Inl e"
proof (cases sel)
  case (AnySelector xs)
  then show "grant_matches g flying sel c k s src = Inl e \<Longrightarrow> flying = Inl e"
    by (simp add: grant_matches_def) (rule selector_error(2))
qed (simp_all add: grant_matches_def)

lemma modify_error: "modify_matches g flying sel c k s src = Inl e \<Longrightarrow> flying = Inl e"
  by (cases sel) (auto split: if_splits dest: selector_error(2))

fun grant_fails ::
  "game_state \<Rightarrow> mtg_error + bool \<Rightarrow> card_id \<Rightarrow> card \<Rightarrow> card_id \<times> card \<times> static_ability \<Rightarrow> bool" where
  "grant_fails g flying c k (s, src, ab) = (case ab of
       GrantKeyword sel kw d cond \<Rightarrow> condition_holds g cond src \<and> isl (grant_matches g flying sel c k s src)
     | _ \<Rightarrow> False)"

fun grants ::
  "game_state \<Rightarrow> mtg_error + bool \<Rightarrow> card_id \<Rightarrow> card \<Rightarrow> card_id \<times> card \<times> static_ability \<Rightarrow> keyword set" where
  "grants g flying c k (s, src, ab) = (case ab of
       GrantKeyword sel kw d cond \<Rightarrow>
         if condition_holds g cond src \<and> grant_matches g flying sel c k s src = Inr True then {kw} else {}
     | _ \<Rightarrow> {})"

definition plus_keywords :: "keyword_set \<Rightarrow> keyword set \<Rightarrow> keyword_set" where
  "plus_keywords ks K = ks\<lparr>ks_keywords := ks_keywords ks \<union> K\<rparr>"

lemma plus_keywords_simps [simp]:
  "plus_keywords ks {} = ks" "plus_keywords (plus_keywords ks K) L = plus_keywords ks (K \<union> L)"
  "ks_keywords (plus_keywords ks K) = ks_keywords ks \<union> K" "ks_args (plus_keywords ks K) = ks_args ks"
  by (simp_all add: plus_keywords_def Un_assoc)

lemma grant_ability_result:
  "grant_ability g flying c k s src ks ab = (if grant_fails g flying c k (s, src, ab)
     then Inl (projl flying) else Inr (plus_keywords ks (grants g flying c k (s, src, ab))))"
  by (cases ab)
    (auto simp: grant_ability_def kw_insert_def plus_keywords_def isl_def dest: grant_error split: sum.split)

lemma grant_abilities_result:
  "fold_result (grant_ability g flying c k s src) ks abls =
     (if \<exists>ab \<in> set abls. grant_fails g flying c k (s, src, ab) then Inl (projl flying)
      else Inr (plus_keywords ks (\<Union>ab \<in> set abls. grants g flying c k (s, src, ab))))"
  by (induction abls arbitrary: ks) (auto simp: grant_ability_result simp del: grant_fails.simps grants.simps)

lemma grant_sources_result:
  "fold_result (grant_from_source g flying c k) ks ss =
     (if \<exists>x \<in> set (concat (map (statics_of g) ss)). grant_fails g flying c k x then Inl (projl flying)
      else Inr (plus_keywords ks (\<Union>x \<in> set (concat (map (statics_of g) ss)). grants g flying c k x)))"
proof (induction ss arbitrary: ks)
  case (Cons s ss)
  have one: "grant_from_source g flying c k ks s =
     (if \<exists>x \<in> set (statics_of g s). grant_fails g flying c k x then Inl (projl flying)
      else Inr (plus_keywords ks (\<Union>x \<in> set (statics_of g s). grants g flying c k x)))"
    by (auto simp: grant_from_source_def statics_of_def grant_abilities_result simp del: grant_fails.simps grants.simps
        split: option.split)
  show ?case by (simp add: one Cons.IH bex_Un Un_assoc del: grant_fails.simps grants.simps)
qed simp

definition asked_flying :: "nat \<Rightarrow> game_state \<Rightarrow> card_id \<Rightarrow> mtg_error + bool" where
  "asked_flying n g c = has_keyword_with_effects n g c ''Flying''"

lemma granted_result:
  assumes "card_of g c = Some k"
  shows "get_granted_keywords (Suc n) g c =
     (if \<exists>x \<in> set (statics_in_play g). grant_fails g (asked_flying n g c) c k x
      then Inl (projl (asked_flying n g c))
      else Inr (plus_keywords kw_new (\<Union>x \<in> set (statics_in_play g). grants g (asked_flying n g c) c k x)))"
  by (simp add: assms grant_sources_result statics_in_play_def asked_flying_def has_keyword_with_effects_def)

lemma granted_error: "get_granted_keywords n g c = Inl e \<Longrightarrow> e = OutOfFuel"
proof (induction n arbitrary: e)
  case (Suc n)
  show ?case
  proof (cases "card_of g c")
    case (Some k)
    obtain x where e: "e = projl (asked_flying n g c)" and x: "grant_fails g (asked_flying n g c) c k x"
      using Suc.prems unfolding granted_result [OF Some] by (auto split: if_splits)
    obtain s src ab where sab: "x = (s, src, ab)" by (cases x)
    obtain d where "asked_flying n g c = Inl d"
      using x unfolding sab by (auto simp: isl_def split: static_ability.splits dest: grant_error)
    then show ?thesis
      using Suc.IH e by (auto simp: asked_flying_def has_keyword_with_effects_def keyword_or_granted_def
          map_sum_def split: if_splits sum.splits)
  qed (use Suc.prems in simp)
qed simp

subsection \<open>Boards on which the scan ends\<close>

fun asks_flying :: "affected_selector \<Rightarrow> bool" where
  "asks_flying CreatureWithFlyingOppCtrl = True"
| "asks_flying (AnySelector xs) = list_ex asks_flying xs"
| "asks_flying _ = False"

text \<open>Only the \<open>Any\<close> of a keyword grant is handed to the selector match, so only it can ask again.\<close>

definition grant_asks_flying :: "static_ability \<Rightarrow> bool" where
  "grant_asks_flying ab = (case ab of
       GrantKeyword sel kw d cond \<Rightarrow> (case sel of AnySelector xs \<Rightarrow> list_ex asks_flying xs | _ \<Rightarrow> False)
     | _ \<Rightarrow> False)"

definition keyword_scan_safe :: "game_state \<Rightarrow> bool" where
  "keyword_scan_safe g \<longleftrightarrow> (\<forall>(s, src, ab) \<in> set (statics_in_play g). \<not> grant_asks_flying ab)"

lemma selector_ignores_flying:
  "\<not> asks_flying sel \<Longrightarrow> selector_matches g flying sel c k s src = selector_matches g flying' sel c k s src"
  "\<not> list_ex asks_flying sels \<Longrightarrow> selector_any g flying sels c k s src = selector_any g flying' sels c k s src"
  by (induction g flying sel c k s src and g flying sels c k s src rule: selector_matches_selector_any.induct)
    (simp_all split: sum.split bool.split)

lemma grant_ignores_flying:
  assumes "\<not> grant_asks_flying (GrantKeyword sel kw d cond)"
  shows "grant_matches g flying sel c k s src = grant_matches g flying' sel c k s src"
proof (cases sel)
  case (AnySelector xs)
  then have "\<not> list_ex asks_flying xs" using assms by (simp add: grant_asks_flying_def)
  then show ?thesis
    unfolding grant_matches_def AnySelector affected_selector.case by (rule selector_ignores_flying(2))
qed (simp_all add: grant_matches_def)

lemma safe_grants:
  assumes "\<not> grant_asks_flying ab"
  shows "grants g flying c k (s, src, ab) = grants g flying' c k (s, src, ab)"
    "\<not> grant_fails g flying c k (s, src, ab)"
proof -
  have total: "\<not> isl (grant_matches g flying sel c k s src)" if "ab = GrantKeyword sel kw d cond" for sel kw d cond
  proof
    assume "isl (grant_matches g flying sel c k s src)"
    then obtain e where e: "grant_matches g flying sel c k s src = Inl e" by (auto simp: isl_def)
    have "grant_matches g (Inr True) sel c k s src = Inl e"
      using e grant_ignores_flying [of sel kw d cond g flying] assms that by metis
    then show False by (auto dest: grant_error)
  qed
  show "\<not> grant_fails g flying c k (s, src, ab)"
    using total by (auto split: static_ability.split)
  show "grants g flying c k (s, src, ab) = grants g flying' c k (s, src, ab)"
    using grant_ignores_flying [of _ _ _ _ g flying c k s src flying'] assms
    by (cases ab) simp_all
qed

lemma safe_scan:
  assumes "keyword_scan_safe g"
  shows "get_granted_keywords (Suc n) g c = get_granted_keywords 1 g c"
    "\<not> isl (get_granted_keywords (Suc n) g c)"
proof -
  have quiet: "\<not> grant_asks_flying (snd (snd x))" if "x \<in> set (statics_in_play g)" for x
    using that assms by (cases x) (auto simp: keyword_scan_safe_def)
  have each: "\<not> grant_fails g flying c k x" "grants g flying c k x = grants g flying' c k x"
    if "x \<in> set (statics_in_play g)" for x flying flying' k
    using safe_grants(2) [OF quiet [OF that], of g flying c k "fst x" "fst (snd x)"]
      safe_grants(1) [OF quiet [OF that], of g flying c k "fst x" "fst (snd x)" flying']
    by (simp_all del: grant_fails.simps grants.simps)
  have none: "\<not> (\<exists>x \<in> set (statics_in_play g). grant_fails g flying c k x)" for flying k
    using each(1) by blast
  have same: "(\<Union>x \<in> set (statics_in_play g). grants g flying c k x)
      = (\<Union>x \<in> set (statics_in_play g). grants g flying' c k x)" for flying flying' k
    by (rule SUP_cong [OF refl each(2)])
  show "get_granted_keywords (Suc n) g c = get_granted_keywords 1 g c"
  proof (cases "card_of g c")
    case (Some k)
    show ?thesis
      unfolding One_nat_def granted_result [OF Some] using none same [of "asked_flying n g c" k "asked_flying 0 g c"]
      by simp
  qed simp
  show "\<not> isl (get_granted_keywords (Suc n) g c)"
  proof (cases "card_of g c")
    case (Some k)
    show ?thesis unfolding granted_result [OF Some] using none by simp
  qed simp
qed

lemma safe_breakdown:
  assumes "keyword_scan_safe g" "card_of g c \<noteq> None"
    and "\<And>s. s \<in> set (z_cards (gs_battlefield g)) \<Longrightarrow> card_of g s \<noteq> None"
  shows "get_pt_breakdown (Suc n) g c = get_pt_breakdown 1 g c" "\<not> isl (get_pt_breakdown (Suc n) g c)"
proof -
  obtain k where k: "card_of g c = Some k" using assms(2) by auto
  let ?fl = "has_keyword_with_effects (Suc n) g c ''Flying''"
  have fl: "?fl = has_keyword_with_effects 1 g c ''Flying''"
    unfolding has_keyword_with_effects_def safe_scan(1) [OF assms(1), of n c] ..
  have known: "\<not> isl ?fl"
    using safe_scan(2) [OF assms(1), of n c]
    by (cases "get_granted_keywords (Suc n) g c")
      (simp_all add: has_keyword_with_effects_def keyword_or_granted_def del: get_granted_keywords.simps)
  show "get_pt_breakdown (Suc n) g c = get_pt_breakdown 1 g c"
    by (simp add: get_pt_breakdown_def calculate_modifypt_effects_def fl k del: One_nat_def)
  have "\<not> isl (modify_ability g ?fl c k s src acc ab)" for s src acc ab
    using known by (auto simp: modify_ability_def isl_def dest: modify_error split: static_ability.split sum.split)
  then have "\<not> isl (modify_from_source g ?fl c k acc s)" if "s \<in> set (static_sources g)" for s acc
    using assms(3) [of s] by (auto simp: modify_from_source_def isl_fold_result split: option.split)
  then have "\<not> isl (calculate_modifypt_effects (Suc n) g c k)"
    unfolding calculate_modifypt_effects_def
    by (subst isl_fold_result) (auto simp: modify_from_source_def isl_fold_result modify_ability_def split: option.split static_ability.split sum.split)
  then show "\<not> isl (get_pt_breakdown (Suc n) g c)"
    using k by (auto simp: get_pt_breakdown_def isl_def split: sum.split)
qed

subsection \<open>Boards on which it does not\<close>

lemma any_asks:
  assumes "\<And>y. y \<in> set ys \<Longrightarrow> selector_matches g (Inl e) y c k s src \<noteq> Inr True"
    and "is_creature k" "c_controller k \<noteq> c_controller src"
  shows "selector_any g (Inl e) (ys @ CreatureWithFlyingOppCtrl # xs) c k s src = Inl e"
  using assms(1)
proof (induction ys)
  case (Cons y ys)
  then show ?case
    by (cases "selector_matches g (Inl e) y c k s src") (auto dest: selector_error(1) split: bool.split)
qed (use assms in simp)

lemma scan_diverges:
  assumes k: "card_of g c = Some k" "is_creature k" "\<not> has_keyword k ''Flying''"
    and grant: "(s, src, GrantKeyword (AnySelector (ys @ CreatureWithFlyingOppCtrl # xs)) kw d cond)
      \<in> set (statics_in_play g)"
    and on: "condition_holds g cond src" "c_controller k \<noteq> c_controller src"
    and ys: "\<And>y. y \<in> set ys \<Longrightarrow> selector_matches g (Inl OutOfFuel) y c k s src \<noteq> Inr True"
  shows "get_granted_keywords n g c = Inl OutOfFuel"
proof (induction n)
  case (Suc n)
  then have fl: "asked_flying n g c = Inl OutOfFuel"
    using k by (simp add: asked_flying_def has_keyword_with_effects_def keyword_or_granted_def)
  have "grant_fails g (Inl OutOfFuel) c k
      (s, src, GrantKeyword (AnySelector (ys @ CreatureWithFlyingOppCtrl # xs)) kw d cond)"
    using any_asks [of ys g OutOfFuel c k s src xs, OF ys k(2) on(2)] on(1) by (simp add: grant_matches_def)
  then have "\<exists>x \<in> set (statics_in_play g). grant_fails g (Inl OutOfFuel) c k x" using grant by blast
  then show ?case unfolding granted_result [OF k(1)] fl by simp
qed simp

subsection \<open>Power and toughness do not depend on the order of the battlefield\<close>

lemma reordered_statics:
  assumes "reordered g h"
  shows "mset (statics_in_play h) = mset (statics_in_play g)" "set (statics_in_play h) = set (statics_in_play g)"
proof -
  have "statics_of h = statics_of g"
    by (rule ext) (simp add: statics_of_def reordered_cards [OF assms])
  moreover have "mset (concat (map f xs)) = \<Sum>\<^sub># (image_mset (\<lambda>s. mset (f s)) (mset xs))"
    for f :: "card_id \<Rightarrow> (card_id \<times> card \<times> static_ability) list" and xs
    by (induction xs) simp_all
  ultimately show m: "mset (statics_in_play h) = mset (statics_in_play g)"
    by (simp add: statics_in_play_def reordered_sources [OF assms])
  show "set (statics_in_play h) = set (statics_in_play g)" using m by (rule mset_eq_setD)
qed

lemma reordered_entries:
  assumes "reordered g h"
  shows "grant_fails h flying c k x = grant_fails g flying c k x" "grants h flying c k x = grants g flying c k x"
    "bonus h flying c k x = bonus g flying c k x"
proof -
  have fns: "condition_holds h = condition_holds g" "grant_matches h = grant_matches g"
    "modify_matches h = modify_matches g"
    by (intro ext, rule reordered_condition [OF assms] reordered_layers [OF assms])+
  obtain s src ab where x: "x = (s, src, ab)" by (cases x)
  show "grant_fails h flying c k x = grant_fails g flying c k x" "grants h flying c k x = grants g flying c k x"
    "bonus h flying c k x = bonus g flying c k x"
    unfolding x grant_fails.simps grants.simps bonus.simps fns by (rule refl)+
qed

lemma reordered_scan:
  assumes "reordered g h"
  shows "get_granted_keywords n h c = get_granted_keywords n g c"
proof (induction n)
  case (Suc n)
  have asked: "asked_flying n h c = asked_flying n g c"
    by (simp add: asked_flying_def has_keyword_with_effects_def keyword_or_granted_def Suc.IH
        reordered_cards [OF assms])
  show ?case
  proof (cases "card_of g c")
    case None
    then show ?thesis by (simp add: reordered_cards [OF assms])
  next
    case (Some k)
    then have "card_of h c = Some k" by (simp add: reordered_cards [OF assms])
    then show ?thesis
      unfolding granted_result [OF Some] granted_result [OF \<open>card_of h c = Some k\<close>] asked
        reordered_statics(2) [OF assms] reordered_entries [OF assms] by simp
  qed
qed simp

lemma reordered_modify_source:
  assumes "reordered g h"
  shows "modify_from_source h flying c k acc s = modify_from_source g flying c k acc s"
proof -
  have "modify_ability h flying c k s src = modify_ability g flying c k s src" for src
  proof -
    have fns: "condition_holds h = condition_holds g" "modify_matches h = modify_matches g"
      by (intro ext, rule reordered_condition [OF assms] reordered_layers [OF assms])+
    show ?thesis unfolding modify_ability_def fns by (rule refl)
  qed
  then show ?thesis
    by (simp add: modify_from_source_def reordered_cards [OF assms] reordered_fields [OF assms] split: option.split)
qed

lemma isl_modify_from_source:
  "isl (modify_from_source g flying c k a s) = isl (modify_from_source g flying c k b s)"
proof -
  have one: "isl (modify_ability g flying c k s src a ab) = isl (modify_ability g flying c k s src b ab)" for src a b ab
    by (simp add: modify_ability_def split: static_ability.split sum.split)
  show ?thesis
    using isl_fold_result_same [of "modify_ability g flying c k s _", OF one]
    by (simp add: modify_from_source_def split: option.split)
qed

lemma reordered_modify:
  assumes "reordered g h" "calculate_modifypt_effects n g c k = Inr r"
  shows "calculate_modifypt_effects n h c k = Inr r"
proof -
  have flying: "has_keyword_with_effects n h c ''Flying'' = has_keyword_with_effects n g c ''Flying''"
    by (simp add: has_keyword_with_effects_def keyword_or_granted_def reordered_scan [OF assms(1)]
        reordered_cards [OF assms(1)])
  have "set (static_sources h) = set (static_sources g)"
    using reordered_sources [OF assms(1)] by (rule mset_eq_setD)
  then have "\<not> isl (calculate_modifypt_effects n h c k)"
    using assms(2) isl_fold_result [of "modify_from_source g (has_keyword_with_effects n g c ''Flying'') c k",
        OF isl_modify_from_source, of "(0, 0)"]
    unfolding calculate_modifypt_effects_def flying reordered_modify_source [OF assms(1)]
    by (metis sum.disc(2))
  then obtain r' where r': "calculate_modifypt_effects n h c k = Inr r'"
    by (cases "calculate_modifypt_effects n h c k") auto
  have perm: "sum_list (map f (statics_in_play h)) = sum_list (map f (statics_in_play g))" for f :: "_ \<Rightarrow> i32"
    using reordered_statics(1) [OF assms(1)] by (metis mset_map sum_mset_sum_list)
  have "bonus h flying c k = bonus g flying c k" for flying
    by (rule ext) (rule reordered_entries(3) [OF assms(1)])
  then have "total_bonus h flying c k (statics_in_play h) = total_bonus g flying c k (statics_in_play g)" for flying
    by (simp only: total_bonus_def perm)
  then show ?thesis
    using r' modifypt_effects_sum [OF r'] modifypt_effects_sum [OF assms(2)] by (simp add: flying)
qed

lemma reordered_breakdown:
  assumes "reordered g h" "get_pt_breakdown n g c = Inr b"
  shows "get_pt_breakdown n h c = Inr b"
proof -
  obtain k eff where k: "card_of g c = Some k" and eff: "calculate_modifypt_effects n g c k = Inr eff"
    using assms(2) by (auto simp: get_pt_breakdown_def split: option.splits sum.splits)
  have "cda_value h k = cda_value g k"
  proof
    show "cda_value h k src = cda_value g k src" for src
      by (cases src) (simp_all add: graveyard_creatures_def reordered_cards [OF assms(1)] reordered_fields [OF assms(1)])
  qed
  then have "calculate_cda_pt h k = calculate_cda_pt g k" unfolding calculate_cda_pt_def by (simp only:)
  moreover have "opalescence_pt h k = opalescence_pt g k"
    by (simp add: opalescence_pt_def is_opalescence_creature_def list_ex_iff reordered_cards [OF assms(1)]
        reordered_fields [OF assms(1)])
  ultimately show ?thesis
    using assms(2) k eff reordered_modify [OF assms(1) eff]
    by (simp add: get_pt_breakdown_def reordered_cards [OF assms(1)])
qed

end
