(* ===== verification/EffectProperties.thy ===== *)
theory EffectProperties
  imports Layers
begin

section \<open>Properties of the continuous effects\<close>

text \<open>
  What the layer computation promises: power and toughness are one sum over the static abilities in
  play, independent of the order of the battlefield; the scan for granted keywords ends on every board
  without a keyword grant that asks for flying, and on the others it need not. The theorem after a
  property with hypotheses applies it to the board below: a bear and an anthem that gives the
  creatures of its controller +1/+1.
\<close>

definition anthem_bear :: card where
  "anthem_bear = (card_new 3 ''Bear'' 0)\<lparr>c_base_power := Some 2, c_base_toughness := Some 2\<rparr>"

definition anthem :: card where
  "anthem = (card_new 4 ''Anthem'' 0)\<lparr>c_static_abilities :=
     [ModifyPT (OnCreatures CreaturesYouControl) 1 1 [] None]\<rparr>"

definition anthem_game :: "card_id list \<Rightarrow> game_state" where
  "anthem_game bf = (new_two_player (\<lambda>_. [0]) ''A'' ''B'' 20)\<lparr>
     gs_cards := \<lparr>entities = [None, None, None, Some anthem_bear, Some anthem]\<rparr>,
     gs_battlefield := (card_zone_new Battlefield 2)\<lparr>z_cards := bf\<rparr>\<rparr>"

lemmas anthem_defs = anthem_game_def new_two_player_def new_two_player_with_capacity_def

lemma anthem_cards [simp]:
  "card_of (anthem_game bf) 3 = Some anthem_bear" "card_of (anthem_game bf) 4 = Some anthem"
  by (simp_all add: anthem_defs card_of_def store_try_get_def)

lemma anthem_fields [simp]:
  "z_cards (gs_battlefield (anthem_game bf)) = bf"
  "gs_player_zones (anthem_game bf) = [(0, player_zones_new 0), (1, player_zones_new 1)]"
  by (simp_all add: anthem_defs)

lemma card_statics [simp]: "c_static_abilities anthem_bear = []"
  "c_static_abilities anthem = [ModifyPT (OnCreatures CreaturesYouControl) 1 1 [] None]"
  "c_controller anthem_bear = 0" "c_controller anthem = 0" "c_temp_base_power anthem_bear = None"
  "c_temp_base_toughness anthem_bear = None" "c_base_power anthem_bear = Some 2"
  "c_base_toughness anthem_bear = Some 2" "c_counters anthem_bear = []" "c_power_bonus anthem_bear = 0"
  "c_toughness_bonus anthem_bear = 0"
  by (simp_all add: anthem_bear_def anthem_def card_new_def Let_def)

lemma anthem_sources [simp]: "static_sources (anthem_game bf) = bf"
  by (simp add: static_sources_def player_zones_new_def card_zone_new_def)

lemma anthem_in_play:
  "statics_in_play (anthem_game [3, 4]) = [(4, anthem, ModifyPT (OnCreatures CreaturesYouControl) 1 1 [] None)]"
  by (simp add: statics_in_play_def statics_of_def)

lemma anthem_safe: "keyword_scan_safe (anthem_game [3, 4])"
  by (simp add: keyword_scan_safe_def anthem_in_play grant_asks_flying_def)

text \<open>
  C28: the keyword scan ends: on a board where no granted keyword asks, inside an \<open>Any\<close>, for the flying
  creatures of an opponent, and whose battlefield holds revealed cards only, power and toughness
  are computed without error, two nested scans are enough, and deeper recursion changes nothing.
\<close>

theorem keyword_scan_terminates:
  assumes "keyword_scan_safe g" "card_of g c = Some k"
    and "\<And>s. s \<in> set (z_cards (gs_battlefield g)) \<Longrightarrow> card_of g s \<noteq> None"
  shows "\<exists>b ks. \<forall>n. get_pt_breakdown (Suc n) g c = Inr b \<and> get_granted_keywords (Suc n) g c = Inr ks"
proof -
  have c: "card_of g c \<noteq> None" using assms(2) by simp
  obtain b where "get_pt_breakdown 1 g c = Inr b"
    using safe_breakdown(2) [OF assms(1) c assms(3), of 0] by (cases "get_pt_breakdown 1 g c") auto
  moreover obtain ks where "get_granted_keywords 1 g c = Inr ks"
    using safe_scan(2) [OF assms(1), of 0 c] by (cases "get_granted_keywords 1 g c") auto
  ultimately have "get_pt_breakdown (Suc n) g c = Inr b \<and> get_granted_keywords (Suc n) g c = Inr ks" for n
    using safe_breakdown(1) [OF assms(1) c assms(3), of n] safe_scan(1) [OF assms(1), of n c] by simp
  then show ?thesis by blast
qed

theorem keyword_scan_terminates_witness:
  "\<exists>b ks. \<forall>n. get_pt_breakdown (Suc n) (anthem_game [3, 4]) 3 = Inr b
     \<and> get_granted_keywords (Suc n) (anthem_game [3, 4]) 3 = Inr ks"
  by (rule keyword_scan_terminates [OF anthem_safe]) auto

lemma anthem_breakdown:
  obtains b where "get_pt_breakdown 1 (anthem_game [3, 4]) 3 = Inr b"
    "get_pt_breakdown 1 (anthem_game [4, 3]) 3 = Inr b"
proof -
  have r: "reordered (anthem_game [3, 4]) (anthem_game [4, 3])"
    by (simp add: reordered_def anthem_defs add_mset_commute)
  have "\<not> isl (get_pt_breakdown (Suc 0) (anthem_game [3, 4]) 3)"
    by (rule safe_breakdown(2) [OF anthem_safe]) auto
  then obtain b where "get_pt_breakdown 1 (anthem_game [3, 4]) 3 = Inr b"
    by (cases "get_pt_breakdown 1 (anthem_game [3, 4]) 3") auto
  then show thesis using that reordered_breakdown [OF r] by blast
qed



text \<open>
  C27: power, toughness and granted keywords do not depend on the order in which the battlefield lists
  its permanents, so two peers that agree on the permanents agree on every creature's size.
\<close>

theorem layers_order_independent:
  assumes "reordered g h" "get_pt_breakdown n g c = Inr b"
  shows "get_pt_breakdown n h c = Inr b \<and> get_granted_keywords n h c = get_granted_keywords n g c"
  using reordered_breakdown [OF assms] reordered_scan [OF assms(1)] by blast

theorem layers_order_independent_witness:
  "\<exists>b. get_pt_breakdown 1 (anthem_game [4, 3]) 3 = Inr b \<and> get_pt_breakdown 1 (anthem_game [3, 4]) 3 = Inr b"
proof -
  obtain b where b: "get_pt_breakdown 1 (anthem_game [3, 4]) 3 = Inr b" by (rule anthem_breakdown)
  have "reordered (anthem_game [3, 4]) (anthem_game [4, 3])"
    by (simp add: reordered_def anthem_defs add_mset_commute)
  from layers_order_independent [OF this b] b show ?thesis by blast
qed

text \<open>
  A selector means the same in the power and toughness layer whether it stands alone or as the only
  member of an \<open>Any\<close> exactly when it is none of eight: the selectors by card type other than artifacts,
  land creatures, the power threshold, and the three kinds of enchanted noncreatures.
\<close>

theorem any_of_one_reads_alike:
  "read_alike sel \<longleftrightarrow> (\<forall>g flying c k src.
     modify_matches g flying (AnySelector [sel]) c k (c_id src) src = modify_matches g flying sel c k (c_id src) src)"
proof
  assume "read_alike sel"
  then show "\<forall>g flying c k src.
     modify_matches g flying (AnySelector [sel]) c k (c_id src) src = modify_matches g flying sel c k (c_id src) src"
    unfolding modify_any_single using modify_reads_alike [OF refl] by simp
next
  assume all: "\<forall>g flying c k src.
     modify_matches g flying (AnySelector [sel]) c k (c_id src) src = modify_matches g flying sel c k (c_id src) src"
  show "read_alike sel"
  proof (rule ccontr)
    assume "\<not> read_alike sel"
    from reading_differs [OF this, where g = "anthem_game []" and bf = "card_zone_new Battlefield 0"
        and flying = "Inr True" and src = anthem]
    obtain c k where differ: "modify_matches (anthem_game []\<lparr>gs_battlefield := (card_zone_new Battlefield 0)\<lparr>z_cards := []\<rparr>\<rparr>)
        (Inr True) sel c k (c_id anthem) (anthem\<lparr>c_attached_to := Some c\<rparr>)
      \<noteq> selector_matches (anthem_game []\<lparr>gs_battlefield := (card_zone_new Battlefield 0)\<lparr>z_cards := []\<rparr>\<rparr>)
        (Inr True) sel c k (c_id anthem) (anthem\<lparr>c_attached_to := Some c\<rparr>)" by blast
    have "c_id (anthem\<lparr>c_attached_to := Some c\<rparr>) = c_id anthem" by simp
    with all [unfolded modify_any_single, rule_format, where src = "anthem\<lparr>c_attached_to := Some c\<rparr>"]
    show False using differ by simp
  qed
qed

text \<open>
  Where a granted keyword does ask for the flying creatures of an opponent inside an \<open>Any\<close>, looking up
  the keywords of such a creature that has no flying printed never ends: no depth of recursion is
  enough, and neither has its power a value.
\<close>

theorem flying_query_diverges:
  assumes "card_of g c = Some k" "is_creature k" "\<not> has_keyword k ''Flying''"
    and "(s, src, GrantKeyword (AnySelector (ys @ CreatureWithFlyingOppCtrl # xs)) kw d None) \<in> set (statics_in_play g)"
    and "c_controller k \<noteq> c_controller src"
    and "\<And>y. y \<in> set ys \<Longrightarrow> selector_matches g (Inl OutOfFuel) y c k s src \<noteq> Inr True"
  shows "\<forall>n. get_granted_keywords n g c = Inl OutOfFuel \<and> has_keyword_with_effects n g c ''Flying'' = Inl OutOfFuel"
proof
  fix n
  have "condition_holds g None src" by (simp add: condition_holds_def)
  then have "get_granted_keywords n g c = Inl OutOfFuel"
    by (rule scan_diverges [OF assms(1-4) _ assms(5,6)])
  then show "get_granted_keywords n g c = Inl OutOfFuel \<and> has_keyword_with_effects n g c ''Flying'' = Inl OutOfFuel"
    using assms(1,3) by (simp add: has_keyword_with_effects_def keyword_or_granted_def)
qed

definition grounded_bear :: card where
  "grounded_bear = with_flags True False [Creature] (card_new 3 ''Bear'' 0)"

definition gale :: card where
  "gale = (card_new 4 ''Gale'' 1)\<lparr>c_static_abilities :=
     [GrantKeyword (AnySelector [CreatureWithFlyingOppCtrl]) ''Defender'' [] None]\<rparr>"

theorem flying_query_diverges_witness:
  "\<forall>n. get_granted_keywords n (anthem_game [3, 4]\<lparr>gs_cards := \<lparr>entities = [None, None, None, Some grounded_bear, Some gale]\<rparr>\<rparr>) 3
    = Inl OutOfFuel"
proof -
  let ?g = "anthem_game [3, 4]\<lparr>gs_cards := \<lparr>entities = [None, None, None, Some grounded_bear, Some gale]\<rparr>\<rparr>"
  have cards: "card_of ?g 3 = Some grounded_bear" "card_of ?g 4 = Some gale"
    by (simp_all add: card_of_def store_try_get_def)
  have src: "static_sources ?g = [3, 4]"
    by (simp add: static_sources_def player_zones_new_def card_zone_new_def)
  have k: "\<not> has_keyword grounded_bear ''Flying''" "c_controller grounded_bear \<noteq> c_controller gale"
    by (simp_all add: grounded_bear_def with_flags_def gale_def card_new_def Let_def has_keyword_def kw_contains_def kw_new_def)
  have "(4, gale, GrantKeyword (AnySelector ([] @ CreatureWithFlyingOppCtrl # [])) ''Defender'' [] None)
      \<in> set (statics_in_play ?g)"
    unfolding statics_in_play_def src by (simp add: statics_of_def cards) (simp add: gale_def)
  from flying_query_diverges [OF cards(1) _ k(1) this k(2)] show ?thesis
    by (auto simp: grounded_bear_def)
qed

end
