(* ===== verification/CombatRules.thy ===== *)
theory CombatRules
  imports Prohibitions Fallible MoveCard
begin

section \<open>Declaring attackers and blockers\<close>

text \<open>
  \<open>mtg-engine/src/game/combat_rules.rs\<close> (\<open>can_block\<close>, the server's form, and the lists built on it),
  the declarations of \<open>game/actions/combat.rs\<close>, the lists of available attackers of
  \<open>game/game_loop/actions.rs\<close>, and \<open>validate_blocking_restrictions\<close> and \<open>has_first_strike_combat\<close> of
  \<open>game/game_loop/combat.rs\<close>. The triggers an attack fires and the sacrifices of annihilator are the
  fields of \<open>attack_env\<close>. The number \<open>n\<close> is the fuel of the keyword lookups. The loop's verbose notes on
  rejected blocks are left out: they depend on the verbosity of the loop, not on the game.
\<close>

subsection \<open>May this creature block that one\<close>

abbreviation kw :: "nat \<Rightarrow> game_state \<Rightarrow> card_id \<Rightarrow> keyword \<Rightarrow> mtg_error + bool" where
  "kw \<equiv> has_keyword_with_effects"

definition flying_stops :: "nat \<Rightarrow> game_state \<Rightarrow> card_id \<Rightarrow> card_id \<Rightarrow> mtg_error + bool" where
  "flying_stops n g a b = and_then (kw n g a ''Flying'') (\<lambda>f. if \<not> f then Inr False
     else not_result (or_else_result (kw n g b ''Flying'') (kw n g b ''Reach'')))"

text \<open>The evasion abilities that read the two cards only.\<close>

definition evasion_stops :: "card \<Rightarrow> card \<Rightarrow> bool" where
  "evasion_stops att blk =
     ((has_horsemanship att \<and> \<not> has_horsemanship blk)
      \<or> has_shadow att \<noteq> has_shadow blk
      \<or> (has_fear att \<and> \<not> (is_artifact blk \<or> is_color blk Black))
      \<or> (has_intimidate att \<and> \<not> is_artifact blk \<and> \<not> list_ex (is_color blk) (c_colors att))
      \<or> (has_skulk att \<and> sint (current_power blk) \<le> sint (current_power att))
      \<or> list_ex (has_protection_from att) (c_colors blk))"

definition cant_block_matching :: "card \<Rightarrow> card \<Rightarrow> bool" where
  "cant_block_matching blk att = list_ex (\<lambda>ab. case ab of
       CantBlockMatching r d \<Rightarrow> restriction_matches r att | _ \<Rightarrow> False) (c_static_abilities blk)"

definition controls_land_type :: "game_state \<Rightarrow> player_id \<Rightarrow> string \<Rightarrow> bool" where
  "controls_land_type g p t = list_ex (\<lambda>i. case card_of g i of
       None \<Rightarrow> False
     | Some k \<Rightarrow> c_controller k = p \<and> is_land k \<and> list_ex (\<lambda>s. eq_ignore_ascii_case s t) (c_subtypes k))
     (z_cards (gs_battlefield g))"

definition landwalk_types :: "card \<Rightarrow> string list" where
  "landwalk_types k = List.map_filter (\<lambda>a. case a of
       KeywordArgs nm [FType t] \<Rightarrow> if nm = ''Landwalk'' then Some t else None | _ \<Rightarrow> None)
     (ks_args (c_keywords k))"

definition landwalk_stops :: "game_state \<Rightarrow> card \<Rightarrow> card \<Rightarrow> bool" where
  "landwalk_stops g att blk = (has_keyword att ''Landwalk''
     \<and> list_ex (controls_land_type g (c_controller blk)) (landwalk_types att))"

definition can_block :: "nat \<Rightarrow> game_state \<Rightarrow> card_id \<Rightarrow> card_id \<Rightarrow> mtg_error + bool" where
  "can_block n g a b = (case card_of g a of
       None \<Rightarrow> Inr False
     | Some att \<Rightarrow> (case card_of g b of
         None \<Rightarrow> Inr False
       | Some blk \<Rightarrow>
           if c_tapped blk \<or> is_creature_unblockable (gs_persistent_effects g) a then Inr False
           else and_then (flying_stops n g a b) (\<lambda>stopped. Inr (\<not> stopped \<and> \<not> evasion_stops att blk
             \<and> \<not> cant_block_matching blk att \<and> \<not> is_block_prohibited g blk \<and> \<not> landwalk_stops g att blk))))"

definition is_useful_blocker :: "nat \<Rightarrow> game_state \<Rightarrow> card_id \<Rightarrow> card_id list \<Rightarrow> mtg_error + bool" where
  "is_useful_blocker n g b attackers = any_result (\<lambda>a. can_block n g a b) attackers"

definition legal_attackers_for_blocker ::
  "nat \<Rightarrow> game_state \<Rightarrow> card_id \<Rightarrow> card_id list \<Rightarrow> mtg_error + card_id list" where
  "legal_attackers_for_blocker n g b attackers = filter_result (\<lambda>a. can_block n g a b) attackers"

subsection \<open>Which blocks are kept\<close>

text \<open>\<open>blocker_counts\<close>: the number of submitted blocks of an attacker, legal or not.\<close>

definition blocks_of :: "(card_id \<times> card_id) list \<Rightarrow> card_id \<Rightarrow> nat" where
  "blocks_of blocks a = length (filter (\<lambda>(_, x). x = a) blocks)"

definition block_kept :: "nat \<Rightarrow> game_state \<Rightarrow> (card_id \<times> card_id) list \<Rightarrow> card_id \<times> card_id \<Rightarrow> mtg_error + bool" where
  "block_kept n g blocks = (\<lambda>(b, a). and_then (can_block n g a b) (\<lambda>ok. if \<not> ok then Inr False
     else map_sum id (\<lambda>menace. \<not> (menace \<and> blocks_of blocks a = 1)) (kw n g a ''Menace'')))"

definition validate_blocking_restrictions ::
  "nat \<Rightarrow> game_state \<Rightarrow> (card_id \<times> card_id) list \<Rightarrow> mtg_error + (card_id \<times> card_id) list" where
  "validate_blocking_restrictions n g blocks = filter_result (block_kept n g blocks) blocks"

definition get_available_blocker_creatures :: "game_state \<Rightarrow> player_id \<Rightarrow> card_id list" where
  "get_available_blocker_creatures g p = sort (filter (\<lambda>i. case card_of g i of
       None \<Rightarrow> False
     | Some k \<Rightarrow> c_controller k = p \<and> (is_creature k \<or> is_opalescence_creature g k)
         \<and> \<not> c_tapped k \<and> \<not> is_blocking (gs_combat g) i \<and> \<not> is_block_prohibited g k)
     (z_cards (gs_battlefield g)))"

subsection \<open>Who may attack\<close>

definition summoning_sick :: "nat \<Rightarrow> game_state \<Rightarrow> card_id \<Rightarrow> card \<Rightarrow> mtg_error + bool" where
  "summoning_sick n g c k = (case c_turn_entered_battlefield k of
       None \<Rightarrow> Inr False
     | Some t \<Rightarrow> if t = ts_turn_number (gs_turn g) then not_result (kw n g c ''Haste'') else Inr False)"

definition defending_player_of :: "game_state \<Rightarrow> player_id \<Rightarrow> player_id option" where
  "defending_player_of g p = map_option p_id (find (\<lambda>x. p_id x \<noteq> p) (gs_players g))"

definition untapped_power :: "game_state \<Rightarrow> player_id \<Rightarrow> i32 \<Rightarrow> bool" where
  "untapped_power g p m = list_ex (\<lambda>i. case card_of g i of
       None \<Rightarrow> False
     | Some k \<Rightarrow> c_controller k = p \<and> is_creature k \<and> \<not> c_tapped k \<and> sint m \<le> sint (current_power k))
     (z_cards (gs_battlefield g))"

definition cant_attack_static_fires :: "game_state \<Rightarrow> player_id option \<Rightarrow> static_ability \<Rightarrow> bool" where
  "cant_attack_static_fires g d ab = (case ab of
       CantAttackIfDefenderHasUntappedPowerGE m _ \<Rightarrow>
         (case d of None \<Rightarrow> False | Some p \<Rightarrow> untapped_power g p m)
     | _ \<Rightarrow> False)"

definition has_sanctuary :: "game_state \<Rightarrow> player_id \<Rightarrow> bool" where
  "has_sanctuary g p = (case try_get_player g p of
       None \<Rightarrow> False | Some x \<Rightarrow> p_island_sanctuary_protected x)"

definition sanctuary_stops :: "nat \<Rightarrow> game_state \<Rightarrow> player_id \<Rightarrow> card_id \<Rightarrow> mtg_error + bool" where
  "sanctuary_stops n g d c = (if \<not> has_sanctuary g d then Inr False
     else map_sum id (\<lambda>f. \<not> f \<and> \<not> has_islandwalk g c) (kw n g c ''Flying''))"

definition attacker_available :: "nat \<Rightarrow> game_state \<Rightarrow> player_id \<Rightarrow> card_id \<Rightarrow> mtg_error + bool" where
  "attacker_available n g p c = (case card_of g c of
       None \<Rightarrow> Inr False
     | Some k \<Rightarrow>
         if \<not> (c_controller k = p \<and> (is_creature k \<or> is_opalescence_creature g k)
           \<and> \<not> c_tapped k \<and> \<not> is_attacking (gs_combat g) c) then Inr False
         else and_then (summoning_sick n g c k) (\<lambda>sick.
           and_then (case defending_player_of g p of
               None \<Rightarrow> Inr False | Some d \<Rightarrow> sanctuary_stops n g d c) (\<lambda>stopped.
             Inr (\<not> sick \<and> \<not> has_defender k
               \<and> \<not> list_ex (cant_attack_static_fires g (defending_player_of g p)) (c_static_abilities k)
               \<and> \<not> stopped \<and> \<not> is_attack_prohibited g k))))"

definition get_available_attacker_creatures ::
  "nat \<Rightarrow> game_state \<Rightarrow> player_id \<Rightarrow> mtg_error + card_id list" where
  "get_available_attacker_creatures n g p =
     map_sum id sort (filter_result (attacker_available n g p) (z_cards (gs_battlefield g)))"

text \<open>The step adds the available creatures that must attack to the chosen ones.\<close>

definition must_attack_added ::
  "nat \<Rightarrow> game_state \<Rightarrow> card_id list \<Rightarrow> card_id list \<Rightarrow> mtg_error + card_id list" where
  "must_attack_added n g available chosen = fold_result (\<lambda>attackers c.
     if c \<in> set attackers then Inr attackers
     else map_sum id (\<lambda>m. if m then attackers @ [c] else attackers) (kw n g c ''MustAttack'')) chosen available"

subsection \<open>The declarations\<close>

record attack_env =
  ae_taps_triggers :: "card_id \<Rightarrow> game_state \<Rightarrow> mtg_error + game_state"
  ae_attacks_triggers :: "card_id \<Rightarrow> game_state \<Rightarrow> mtg_error + game_state"
  ae_force_sacrifice :: "player_id \<Rightarrow> u8 \<Rightarrow> game_state \<Rightarrow> mtg_error + game_state"

definition mark_attacked_this_turn_logged :: "card_id \<Rightarrow> game_state \<Rightarrow> game_state" where
  "mark_attacked_this_turn_logged c g = (let
       prev = (case card_of g c of None \<Rightarrow> False | Some k \<Rightarrow> c_attacked_this_turn k) in
     log_action (MarkAttackedThisTurn c prev) (map_card c (\<lambda>k. k\<lparr>c_attacked_this_turn := True\<rparr>) g))"

definition declare_attacker_logged :: "card_id \<Rightarrow> player_id \<Rightarrow> game_state \<Rightarrow> game_state" where
  "declare_attacker_logged c d g = (let prev = cs_combat_active (gs_combat g) in
     mark_attacked_this_turn_logged c
       (log_action (DeclareAttacker c prev) (g\<lparr>gs_combat := declare_attacker c d (gs_combat g)\<rparr>)))"

definition declare_blocker_logged :: "card_id \<Rightarrow> card_id list \<Rightarrow> game_state \<Rightarrow> game_state" where
  "declare_blocker_logged b as g =
     log_action (DeclareBlocker b as) (g\<lparr>gs_combat := declare_blocker b as (gs_combat g)\<rparr>)"

text \<open>The guards of \<open>declare_attacker\<close>: the defending player, or the error.\<close>

definition attack_check :: "nat \<Rightarrow> game_state \<Rightarrow> player_id \<Rightarrow> card_id \<Rightarrow> mtg_error + player_id" where
  "attack_check n g p c = (case card_of g c of
       None \<Rightarrow> Inl (MtgEntityNotFound c)
     | Some k \<Rightarrow>
         if \<not> is_creature k then Inl (InvalidAction ''Only creatures can attack'')
         else if c_controller k \<noteq> p then Inl (InvalidAction ''Can't attack with opponent's creatures'')
         else if c \<notin> set (z_cards (gs_battlefield g))
           then Inl (InvalidAction ''Creature must be on battlefield to attack'')
         else if c_tapped k then Inl (InvalidAction ''Creature is tapped and can't attack'')
         else if has_defender k then Inl (InvalidAction ''Creature with defender can't attack'')
         else and_then (summoning_sick n g c k) (\<lambda>sick.
           if sick then Inl (InvalidAction ''Creature has summoning sickness and can't attack this turn'')
           else (case defending_player_of g p of
               None \<Rightarrow> Inl (InvalidAction ''No opponent found'')
             | Some d \<Rightarrow>
                 if list_ex (cant_attack_static_fires g (Some d)) (c_static_abilities k)
                 then Inl (InvalidAction ''Creature can't attack: defending player controls an untapped creature with sufficient power'')
                 else and_then (sanctuary_stops n g d c) (\<lambda>stopped.
                   if stopped then Inl (InvalidAction ''Island Sanctuary: only creatures with flying or islandwalk can attack this player'')
                   else if is_attack_prohibited g k
                     then Inl (InvalidAction ''Creature can't attack: a global restriction prevents it'')
                   else Inr d))))"

definition annihilator_amount :: "card \<Rightarrow> u8 option" where
  "annihilator_amount k = (case kw_get_args (c_keywords k) ''Annihilator'' of
       Some (KeywordArgs nm [FAmount n]) \<Rightarrow> if nm = ''Annihilator'' then Some n else None
     | _ \<Rightarrow> None)"

definition annihilate_defender :: "attack_env \<Rightarrow> card_id \<Rightarrow> player_id \<Rightarrow> game_state \<Rightarrow> mtg_error + game_state" where
  "annihilate_defender env c d g = (case Option.bind (card_of g c) annihilator_amount of
       None \<Rightarrow> Inr g
     | Some n \<Rightarrow> ae_force_sacrifice env d n (game_log
         (''Trigger: '' @ (case card_of g c of Some k \<Rightarrow> c_name k | None \<Rightarrow> '''') @ '' '' @ em_dash
          @ '' Annihilator '' @ show_nat (unat n) @ '' (defending player sacrifices ''
          @ show_nat (unat n) @ '' permanents)'') g))"

definition game_declare_attacker ::
  "attack_env \<Rightarrow> nat \<Rightarrow> player_id \<Rightarrow> card_id \<Rightarrow> game_state \<Rightarrow> mtg_error + game_state" where
  "game_declare_attacker env n p c g = and_then (attack_check n g p c) (\<lambda>d. let
       g1 = declare_attacker_logged c d g in
     and_then (kw n g1 c ''Vigilance'') (\<lambda>v.
       and_then (if v then Inr g1
           else and_then (tap_permanent c g1) (ae_taps_triggers env c)) (\<lambda>g2.
         and_then (ae_attacks_triggers env c g2) (annihilate_defender env c d))))"

text \<open>The guards of \<open>declare_blocker\<close>, which tests the flying rule and no other evasion.\<close>

definition block_check :: "nat \<Rightarrow> game_state \<Rightarrow> player_id \<Rightarrow> card_id \<Rightarrow> card_id list \<Rightarrow> mtg_error + unit" where
  "block_check n g p b attackers = (case card_of g b of
       None \<Rightarrow> Inl (MtgEntityNotFound b)
     | Some k \<Rightarrow>
         if \<not> is_creature k then Inl (InvalidAction ''Only creatures can block'')
         else if c_controller k \<noteq> p then Inl (InvalidAction ''Can't block with opponent's creatures'')
         else if b \<notin> set (z_cards (gs_battlefield g))
           then Inl (InvalidAction ''Creature must be on battlefield to block'')
         else if c_tapped k then Inl (InvalidAction ''Creature is tapped and can't block'')
         else (case find (\<lambda>a. \<not> is_attacking (gs_combat g) a) attackers of
             Some a \<Rightarrow> Inl (InvalidAction (''Card '' @ show_nat (unat a) @ '' is not attacking''))
           | None \<Rightarrow> and_then (kw n g b ''Flying'') (\<lambda>flies. and_then (kw n g b ''Reach'') (\<lambda>reaches.
               and_then (fold_result (\<lambda>_ a.
                   if is_creature_unblockable (gs_persistent_effects g) a
                   then Inl (InvalidAction ''Creature can't be blocked this turn'')
                   else and_then (kw n g a ''Flying'') (\<lambda>f. if f \<and> \<not> flies \<and> \<not> reaches
                     then Inl (InvalidAction ''Creature cannot block attacker with flying (needs flying or reach)'')
                     else Inr ())) () attackers) (\<lambda>_.
                 if 1 < length attackers then Inl (InvalidAction ''Creature can only block one attacker'')
                 else Inr ())))))"

definition game_declare_blocker ::
  "nat \<Rightarrow> player_id \<Rightarrow> card_id \<Rightarrow> card_id list \<Rightarrow> game_state \<Rightarrow> mtg_error + game_state" where
  "game_declare_blocker n p b attackers g =
     map_sum id (\<lambda>_. declare_blocker_logged b attackers g) (block_check n g p b attackers)"

text \<open>The step declares every kept block, one attacker each.\<close>

definition declare_blocks :: "(card_id \<times> card_id) list \<Rightarrow> game_state \<Rightarrow> game_state" where
  "declare_blocks blocks g = foldl (\<lambda>h (b, a). declare_blocker_logged b [a] h) g blocks"

subsection \<open>Is there a first strike step\<close>

definition strikes_first :: "game_state \<Rightarrow> card_id \<Rightarrow> bool" where
  "strikes_first g c = (case card_of g c of
       None \<Rightarrow> False | Some k \<Rightarrow> has_first_strike k \<or> has_double_strike k)"

definition has_first_strike_combat :: "game_state \<Rightarrow> bool" where
  "has_first_strike_combat g = list_ex (\<lambda>a. strikes_first g a
     \<or> (is_blocked (gs_combat g) a \<and> list_ex (strikes_first g) (get_blockers (gs_combat g) a)))
     (get_attackers (gs_combat g))"

end
