(* ===== verification/BTree.thy ===== *)
theory BTree
  imports Prelude
begin

section \<open>Ordered maps and sets\<close>

text \<open>
  A \<open>BTreeMap\<close> is the list of its entries in the order of the keys, which is the order of its
  iteration; \<open>entry(k).or_insert(..)\<close> with a write through the reference is \<open>bt_update\<close>. A \<open>BTreeSet\<close> is
  a sorted list. The lemmas give the map that an ordered list of entries stands for, that the order
  is kept, and the sum of the values.
\<close>

fun bt_update :: "'k::linorder \<Rightarrow> ('v option \<Rightarrow> 'v) \<Rightarrow> ('k \<times> 'v) list \<Rightarrow> ('k \<times> 'v) list" where
  "bt_update k f [] = [(k, f None)]"
| "bt_update k f ((j, v) # m) =
     (if k = j then (j, f (Some v)) # m
      else if k < j then (k, f None) # (j, v) # m
      else (j, v) # bt_update k f m)"

definition bt_insert :: "'k::linorder \<Rightarrow> 'v \<Rightarrow> ('k \<times> 'v) list \<Rightarrow> ('k \<times> 'v) list" where
  "bt_insert k v = bt_update k (\<lambda>_. v)"

definition bt_add :: "'k::linorder \<Rightarrow> 'v::monoid_add \<Rightarrow> ('k \<times> 'v) list \<Rightarrow> ('k \<times> 'v) list" where
  "bt_add k d = bt_update k (\<lambda>x. (case x of None \<Rightarrow> 0 | Some v \<Rightarrow> v) + d)"

definition bt_get :: "('k \<times> 'v::zero) list \<Rightarrow> 'k \<Rightarrow> 'v" where
  "bt_get m k = (case map_of m k of None \<Rightarrow> 0 | Some v \<Rightarrow> v)"

fun bs_insert :: "'k::linorder \<Rightarrow> 'k list \<Rightarrow> 'k list" where
  "bs_insert k [] = [k]"
| "bs_insert k (j # s) = (if k = j then j # s else if k < j then k # j # s else j # bs_insert k s)"

definition bt_ordered :: "('k::linorder \<times> 'v) list \<Rightarrow> bool" where
  "bt_ordered m = (sorted (map fst m) \<and> distinct (map fst m))"

definition bt_sum :: "('k \<times> 'v::comm_monoid_add) list \<Rightarrow> 'v" where
  "bt_sum m = sum_list (map snd m)"

lemma bt_keys: "fst ` set (bt_update k f m) = insert k (fst ` set m)"
  by (induction k f m rule: bt_update.induct) auto

lemma bt_ordered_update: "bt_ordered m \<Longrightarrow> bt_ordered (bt_update k f m)"
proof (induction k f m rule: bt_update.induct)
  case (2 k f j v m)
  have "set (map fst (bt_update k f m)) = insert k (set (map fst m))"
    by (simp add: bt_keys flip: image_set)
  with 2 show ?case by (auto simp: bt_ordered_def)
qed (simp add: bt_ordered_def)

lemma map_of_bt_update:
  "bt_ordered m \<Longrightarrow> map_of (bt_update k f m) = (map_of m)(k \<mapsto> f (map_of m k))"
proof (induction k f m rule: bt_update.induct)
  case (2 k f j v m)
  have "map_of m k = None" if "k < j"
  proof -
    have "k \<notin> fst ` set m" using 2(2) that by (force simp: bt_ordered_def)
    then show ?thesis by (simp add: map_of_eq_None_iff)
  qed
  with 2 show ?case by (auto simp: bt_ordered_def)
qed simp

lemma bt_sum_add [simp]: "bt_sum (bt_add k d m) = bt_sum m + d" for d :: "'v::comm_monoid_add"
proof -
  let ?f = "\<lambda>x. (case x of None \<Rightarrow> 0 | Some v \<Rightarrow> v) + d"
  have "bt_sum (bt_update k ?f m) = bt_sum m + d"
    by (induction k ?f m rule: bt_update.induct) (auto simp: bt_sum_def ac_simps)
  then show ?thesis by (simp add: bt_add_def)
qed

lemma bt_sum_Nil [simp]: "bt_sum [] = 0" by (simp add: bt_sum_def)

lemma bt_ordered_add: "bt_ordered m \<Longrightarrow> bt_ordered (bt_add k d m)"
  by (simp add: bt_add_def bt_ordered_update)

lemma bt_get_add: "bt_ordered m \<Longrightarrow> bt_get (bt_add k d m) = (bt_get m)(k := bt_get m k + d)"
  by (simp add: bt_get_def bt_add_def map_of_bt_update fun_eq_iff)

lemma bt_ordered_Nil [simp]: "bt_ordered []" by (simp add: bt_ordered_def)

lemma set_bs_insert [simp]: "set (bs_insert k s) = insert k (set s)"
  by (induction k s rule: bs_insert.induct) auto

lemma sorted_bs_insert: "sorted s \<and> distinct s \<Longrightarrow> sorted (bs_insert k s) \<and> distinct (bs_insert k s)"
  by (induction k s rule: bs_insert.induct) auto

end
