(* ===== verification/CombatAssign.thy ===== *)
theory CombatAssign
  imports CombatRules Rewind BTree
begin

section \<open>Assigning the damage of an attacker among its blockers\<close>

text \<open>
  \<open>calculate_lethal_damage\<close> and \<open>smart_damage_assignment\<close> of \<open>mtg-engine/src/game/actions/combat.rs\<close>, and
  the first pass of \<open>assign_combat_damage_planned\<close>, which collects the assignments of the attackers
  with several blockers. A controller is the sequence of the answers it will give; when it is
  exhausted the next answer has not arrived, which is the code's \<open>NeedInput\<close>. The loop that asks
  ends for every sequence of answers: each round removes a blocker or consumes an answer. An undo
  request hands back the number of steps, and the caller undoes them.
\<close>

lemma map_filter_simps [simp]:
  "List.map_filter f [] = []"
  "List.map_filter f (x # xs) = (case f x of None \<Rightarrow> List.map_filter f xs | Some y \<Rightarrow> y # List.map_filter f xs)"
  by (simp_all add: List.map_filter_def split: option.splits)

lemma set_map_filter: "set (List.map_filter f xs) = {y. \<exists>x \<in> set xs. f x = Some y}"
  by (force simp: List.map_filter_def)

datatype choice = Chosen card_id | UndoRequest nat | ExitGame | ChoiceError string

definition i32_max :: i32 where "i32_max = 2147483647"

text \<open>\<open>get_effective_power(..).unwrap_or_else(..)\<close>: the fallback is for a missing card only.\<close>

definition unwrap_effective :: "mtg_error + i32 \<Rightarrow> i8 \<Rightarrow> mtg_error + i32" where
  "unwrap_effective r v = (case r of Inl (MtgEntityNotFound _) \<Rightarrow> Inr (scast v) | _ \<Rightarrow> r)"

definition effective_power_or :: "nat \<Rightarrow> game_state \<Rightarrow> card_id \<Rightarrow> card \<Rightarrow> mtg_error + i32" where
  "effective_power_or n g c k = unwrap_effective (get_effective_power n g c) (current_power k)"

definition effective_toughness_or :: "nat \<Rightarrow> game_state \<Rightarrow> card_id \<Rightarrow> card \<Rightarrow> mtg_error + i32" where
  "effective_toughness_or n g c k = unwrap_effective (get_effective_toughness n g c) (current_toughness k)"

definition calculate_lethal_damage :: "nat \<Rightarrow> game_state \<Rightarrow> bool \<Rightarrow> card_id \<Rightarrow> mtg_error + i32 option" where
  "calculate_lethal_damage n g deathtouch b = (case card_of g b of
       None \<Rightarrow> Inr None
     | Some k \<Rightarrow> and_then (kw n g b ''Indestructible'') (\<lambda>ind. if ind then Inr None
         else and_then (effective_toughness_or n g b k) (\<lambda>t.
           Inr (if sint t \<le> 0 then None else if deathtouch then Some 1 else Some t))))"

subsection \<open>All blockers can be killed\<close>

type_synonym lethal_list = "(card_id \<times> i32 option) list"
type_synonym assignment = "(card_id \<times> i32) list"

text \<open>\<open>sort_by_key(|(id, lethal)| (lethal.unwrap_or(MAX), id))\<close> as two stable sorts.\<close>

definition sort_lethal :: "lethal_list \<Rightarrow> lethal_list" where
  "sort_lethal bs = sort_key (\<lambda>(_, l). sint (unwrap_or l i32_max)) (sort_key fst bs)"

fun auto_assign :: "lethal_list \<Rightarrow> i32 \<Rightarrow> assignment \<times> i32" where
  "auto_assign [] remaining = ([], remaining)"
| "auto_assign ((b, None) # bs) remaining = auto_assign bs remaining"
| "auto_assign ((b, Some l) # bs) remaining = (let d = (if sint remaining \<le> sint l then remaining else l) in
     case auto_assign bs (remaining - d) of (res, r) \<Rightarrow> ((b, d) # res, r))"

fun add_to_last :: "i32 \<Rightarrow> assignment \<Rightarrow> assignment" where
  "add_to_last r [] = []"
| "add_to_last r [(b, d)] = [(b, d + r)]"
| "add_to_last r (x # y # xs) = x # add_to_last r (y # xs)"

definition assign_all :: "bool \<Rightarrow> lethal_list \<Rightarrow> i32 \<Rightarrow> assignment" where
  "assign_all trample bs pw = (case auto_assign (sort_lethal bs) pw of
     (res, remaining) \<Rightarrow> if \<not> trample \<and> 0 < sint remaining then add_to_last remaining res else res)"

subsection \<open>Asking which blocker to kill\<close>

datatype assign_outcome = Assigned assignment "choice list" | Undone nat "choice list" | AssignFailed mtg_error

definition killable :: "lethal_list \<Rightarrow> i32 \<Rightarrow> assignment" where
  "killable bs remaining = List.map_filter (\<lambda>(b, l). case l of
     None \<Rightarrow> None | Some v \<Rightarrow> if sint v \<le> sint remaining then Some (b, v) else None) bs"

definition without_blocker :: "card_id \<Rightarrow> lethal_list \<Rightarrow> lethal_list" where
  "without_blocker b bs = filter (\<lambda>(x, _). x \<noteq> b) bs"

text \<open>Answers other than a blocker end the assignment.\<close>

fun stop_answer :: "choice \<Rightarrow> choice list \<Rightarrow> assign_outcome" where
  "stop_answer (UndoRequest m) rest = Undone m rest"
| "stop_answer ExitGame rest = AssignFailed (InvalidAction ''Game exit requested'')"
| "stop_answer (ChoiceError msg) rest = AssignFailed (InvalidAction (''Controller error: '' @ msg))"
| "stop_answer (Chosen b) rest = AssignFailed Panicked"

fun ask_remaining :: "assignment \<Rightarrow> i32 \<Rightarrow> choice list \<Rightarrow> assign_outcome" where
  "ask_remaining res remaining [] = AssignFailed NeedInput"
| "ask_remaining res remaining (Chosen b # rest) = Assigned (res @ [(b, remaining)]) rest"
| "ask_remaining res remaining (x # rest) = stop_answer x rest"

lemma killable_mem:
  "(b, v) \<in> set (killable bs remaining) \<Longrightarrow> (b, Some v) \<in> set bs \<and> sint v \<le> sint remaining"
  by (auto simp: killable_def map_filter_def split: option.splits if_splits)

lemma without_blocker_shorter: "(b, v) \<in> set (killable bs remaining) \<Longrightarrow> length (without_blocker b bs) < length bs"
  unfolding without_blocker_def by (rule length_filter_less [of "(b, Some v)"]) (auto dest: killable_mem)

function assign_loop :: "bool \<Rightarrow> lethal_list \<Rightarrow> i32 \<Rightarrow> assignment \<Rightarrow> choice list \<Rightarrow> assign_outcome" where
  "assign_loop trample bs remaining res answers =
     (if sint remaining \<le> 0 then Assigned res answers
      else (case killable bs remaining of
          [] \<Rightarrow> if bs \<noteq> [] \<and> \<not> trample then ask_remaining res remaining answers else Assigned res answers
        | (b, l) # others \<Rightarrow>
            if others = [] then assign_loop trample (without_blocker b bs) (remaining - l) (res @ [(b, l)]) answers
            else (case answers of
                [] \<Rightarrow> AssignFailed NeedInput
              | Chosen c # rest \<Rightarrow> (case map_of (killable bs remaining) c of
                    Some v \<Rightarrow> assign_loop trample (without_blocker c bs) (remaining - v) (res @ [(c, v)]) rest
                  | None \<Rightarrow> assign_loop trample bs remaining res rest)
              | x # rest \<Rightarrow> stop_answer x rest)))"
  by pat_completeness auto

termination
proof (relation "measure (\<lambda>(_, bs, _, _, answers). length bs + length answers)")
  show "((trample, without_blocker b bs, remaining - l, res @ [(b, l)], answers), trample, bs, remaining, res, answers)
      \<in> measure (\<lambda>(_, bs, _, _, answers). length bs + length answers)"
    if "killable bs remaining = p # others" "(b, l) = p"
    for trample bs remaining res answers p others b l
    using that without_blocker_shorter [of b l bs remaining] by simp
  show "((trample, without_blocker c bs, remaining - v, res @ [(c, v)], rest), trample, bs, remaining, res, answers)
      \<in> measure (\<lambda>(_, bs, _, _, answers). length bs + length answers)"
    if "answers = x # rest" "map_of (killable bs remaining) c = Some v"
    for trample bs remaining res answers x rest c v
    using that without_blocker_shorter [OF map_of_SomeD, of bs remaining c v] by simp
qed auto

declare assign_loop.simps [simp del]

definition assign_with :: "bool \<Rightarrow> lethal_list \<Rightarrow> i32 \<Rightarrow> choice list \<Rightarrow> assign_outcome" where
  "assign_with trample bs pw answers =
     (if sint (sum_list (List.map_filter snd bs)) \<le> sint pw
      then Assigned (assign_all trample bs pw) answers
      else assign_loop trample bs pw [] answers)"

subsection \<open>One attacker\<close>

definition truncate_log :: "nat \<Rightarrow> game_state \<Rightarrow> game_state" where
  "truncate_log m g = g\<lparr>gs_logger := truncate_to m (gs_logger g)\<rparr>"

fun undo_steps :: "(u8 list \<Rightarrow> rng option) \<Rightarrow> nat \<Rightarrow> game_state \<Rightarrow> game_state" where
  "undo_steps ds 0 g = g"
| "undo_steps ds (Suc m) g = undo_steps ds m (case game_undo ds g of
     (g1, Some prior) \<Rightarrow> truncate_log prior g1 | (g1, None) \<Rightarrow> g1)"

text \<open>\<open>handle_undo_request\<close>; the request for \<open>usize::MAX\<close> steps undoes to the previous choice.\<close>

definition handle_undo_request :: "(u8 list \<Rightarrow> rng option) \<Rightarrow> player_id \<Rightarrow> nat \<Rightarrow> game_state \<Rightarrow> game_state" where
  "handle_undo_request ds p m g =
     (if m = 2 ^ 64 - 1 then (case undo_to_previous_choice_point ds p g of
         (g1, Some (_, log_size)) \<Rightarrow> truncate_log log_size g1 | (g1, None) \<Rightarrow> g1)
      else undo_steps ds m g)"

fun map_result :: "('a \<Rightarrow> 'e + 'b) \<Rightarrow> 'a list \<Rightarrow> 'e + 'b list" where
  "map_result f [] = Inr []"
| "map_result f (x # xs) = and_then (f x) (\<lambda>y. map_sum id (\<lambda>ys. y # ys) (map_result f xs))"

definition smart_damage_assignment ::
  "(u8 list \<Rightarrow> rng option) \<Rightarrow> nat \<Rightarrow> card_id \<Rightarrow> card_id list \<Rightarrow> choice list \<Rightarrow> game_state
     \<Rightarrow> mtg_error + game_state \<times> assignment \<times> choice list" where
  "smart_damage_assignment ds n a blockers answers g = (case card_of g a of
       None \<Rightarrow> Inl (MtgEntityNotFound a)
     | Some k \<Rightarrow> and_then (kw n g a ''Deathtouch'') (\<lambda>deathtouch.
         and_then (kw n g a ''Trample'') (\<lambda>trample.
         and_then (effective_power_or n g a k) (\<lambda>pw.
         and_then (map_result (\<lambda>b. map_sum id (Pair b) (calculate_lethal_damage n g deathtouch b)) blockers) (\<lambda>bs.
           case assign_with trample bs pw answers of
             Assigned res rest \<Rightarrow> Inr (g, res, rest)
           | Undone m rest \<Rightarrow> Inr (handle_undo_request ds (c_owner k) m g, [], rest)
           | AssignFailed e \<Rightarrow> Inl e)))))"

subsection \<open>The first pass\<close>

text \<open>The state of the pass: the game, the plan and the answers left of the two controllers.\<close>

record plan_state =
  ps_game :: game_state
  ps_plan :: "(card_id \<times> assignment) list"
  ps_attacker_answers :: "choice list"
  ps_blocker_answers :: "choice list"

definition plan_attacker ::
  "(u8 list \<Rightarrow> rng option) \<Rightarrow> nat \<Rightarrow> player_id \<Rightarrow> plan_state \<Rightarrow> card_id \<Rightarrow> mtg_error + plan_state" where
  "plan_attacker ds n attacking_player st a = (let g = ps_game st; blockers = get_blockers (gs_combat g) a in
     if \<not> is_blocked (gs_combat g) a \<or> length blockers \<le> 1 then Inr st
     else (case card_of g a of
         None \<Rightarrow> Inl (MtgEntityNotFound a)
       | Some k \<Rightarrow> let attacks = (c_owner k = attacking_player);
             answers = (if attacks then ps_attacker_answers st else ps_blocker_answers st) in
           and_then (smart_damage_assignment ds n a blockers answers g) (\<lambda>(g1, res, rest).
             Inr (st\<lparr>ps_game := g1,
               ps_plan := (if res = [] then ps_plan st else bt_insert a res (ps_plan st)),
               ps_attacker_answers := (if attacks then rest else ps_attacker_answers st),
               ps_blocker_answers := (if attacks then ps_blocker_answers st else rest)\<rparr>))))"

definition collect_assignments ::
  "(u8 list \<Rightarrow> rng option) \<Rightarrow> nat \<Rightarrow> player_id \<Rightarrow> choice list \<Rightarrow> choice list \<Rightarrow> game_state \<Rightarrow> mtg_error + plan_state" where
  "collect_assignments ds n attacking_player answers1 answers2 g =
     fold_result (plan_attacker ds n attacking_player)
       \<lparr>ps_game = g, ps_plan = [], ps_attacker_answers = answers1, ps_blocker_answers = answers2\<rparr>
       (get_attackers (gs_combat g))"

end
