(* ===== verification/AssignFacts.thy ===== *)
theory AssignFacts
  imports CombatAssign
begin

section \<open>What an assignment adds up to\<close>

text \<open>
  The lemmas on the assignment of damage: the amounts of an assignment are at least zero and with the
  power that is left they make up the power of the attacker; a chooser that names every blocker
  once and one more creature answers every question the loop asks.
\<close>

definition assigned_total :: "assignment \<Rightarrow> int" where
  "assigned_total res = sum_list (map (sint \<circ> snd) res)"

definition lethal_total :: "lethal_list \<Rightarrow> int" where
  "lethal_total bs = sum_list (map sint (List.map_filter snd bs))"

text \<open>What \<open>calculate_lethal_damage\<close> gives: distinct blockers, positive amounts, no overflow of the sum.\<close>

definition lethals_ok :: "lethal_list \<Rightarrow> bool" where
  "lethals_ok bs \<longleftrightarrow> distinct (map fst bs) \<and> (\<forall>l \<in> set (List.map_filter snd bs). 0 < sint l) \<and> lethal_total bs < 2 ^ 31"

lemma assigned_total_simps [simp]:
  "assigned_total [] = 0" "assigned_total (p # res) = sint (snd p) + assigned_total res"
  "assigned_total (res @ qs) = assigned_total res + assigned_total qs"
  by (simp_all add: assigned_total_def)

lemma sint_minus:
  "0 \<le> sint b \<Longrightarrow> sint b \<le> sint a \<Longrightarrow> sint (a - b) = sint a - sint b" for a b :: i32
  using sint_lt [of a] sint_lt [of b] sint_ge [of a] by (simp add: sint_word_ariths signed_take_bit_int_eq_self_iff)

lemma sint_plus:
  "0 \<le> sint a \<Longrightarrow> 0 \<le> sint b \<Longrightarrow> sint a + sint b < 2 ^ 31 \<Longrightarrow> sint (a + b) = sint a + sint b" for a b :: i32
  by (simp add: sint_word_ariths signed_take_bit_int_eq_self_iff)

lemma sint_sum_list:
  "(\<And>x. x \<in> set xs \<Longrightarrow> 0 \<le> sint x) \<Longrightarrow> sum_list (map sint xs) < 2 ^ 31
    \<Longrightarrow> sint (sum_list xs) = sum_list (map sint xs) \<and> 0 \<le> sum_list (map sint xs)" for xs :: "i32 list"
proof (induction xs)
  case (Cons x xs)
  have x: "0 \<le> sint x" using Cons.prems(1) by simp
  moreover have "sint (sum_list xs) = sum_list (map sint xs) \<and> 0 \<le> sum_list (map sint xs)"
  proof (rule Cons.IH)
    show "sum_list (map sint xs) < 2 ^ 31" using Cons.prems(2) x by simp
  qed (use Cons.prems(1) in simp)
  ultimately show ?case using Cons.prems(2) sint_plus [of x "sum_list xs"] by simp
qed simp

subsection \<open>All blockers\<close>

lemma auto_assign_total:
  "auto_assign bs remaining = (res, r) \<Longrightarrow> 0 \<le> sint remaining
    \<Longrightarrow> (\<forall>l \<in> set (List.map_filter snd bs). 0 < sint l)
    \<Longrightarrow> assigned_total res + sint r = sint remaining \<and> 0 \<le> sint r \<and> (\<forall>(b, d) \<in> set res. 0 \<le> sint d)
      \<and> (res = [] \<longleftrightarrow> List.map_filter snd bs = [])"
proof (induction bs remaining arbitrary: res r rule: auto_assign.induct)
  case (3 b l bs remaining)
  define d where "d = (if sint remaining \<le> sint l then remaining else l)"
  from 3(2) obtain res' where res': "auto_assign bs (remaining - d) = (res', r)" "res = (b, d) # res'"
    by (auto simp: d_def Let_def split: prod.splits)
  have d: "0 \<le> sint d" "sint d \<le> sint remaining" using 3(3,4) by (auto simp: d_def)
  then have m: "sint (remaining - d) = sint remaining - sint d" by (rule sint_minus)
  show ?case using 3(1) [OF d_def res'(1)] 3(4) d m res'(2) by auto
qed auto

lemma add_to_last_total:
  "res \<noteq> [] \<Longrightarrow> 0 \<le> sint r \<Longrightarrow> (\<forall>(b, d) \<in> set res. 0 \<le> sint d) \<Longrightarrow> assigned_total res + sint r < 2 ^ 31
    \<Longrightarrow> assigned_total (add_to_last r res) = assigned_total res + sint r"
proof (induction r res rule: add_to_last.induct)
  case (3 r x y xs)
  then have "0 \<le> sint (snd x)" by (auto simp: split_beta)
  with 3 show ?case by auto
qed (auto simp: sint_plus)

lemma set_sort_lethal [simp]: "set (sort_lethal bs) = set bs" "mset (sort_lethal bs) = mset bs"
  by (simp_all add: sort_lethal_def)

lemma assign_all_total:
  assumes "0 \<le> sint pw" "lethals_ok bs"
  shows "if trample \<or> List.map_filter snd bs = [] then assigned_total (assign_all trample bs pw) \<le> sint pw
    else assigned_total (assign_all trample bs pw) = sint pw"
proof -
  obtain res r where res: "auto_assign (sort_lethal bs) pw = (res, r)" by fastforce
  have set_eq: "set (List.map_filter snd (sort_lethal bs)) = set (List.map_filter snd bs)"
    by (simp only: set_map_filter set_sort_lethal)
  then have nil: "List.map_filter snd (sort_lethal bs) = [] \<longleftrightarrow> List.map_filter snd bs = []"
    by (metis set_empty)
  have t: "assigned_total res + sint r = sint pw" "0 \<le> sint r" "\<forall>(b, d) \<in> set res. 0 \<le> sint d"
    "res = [] \<longleftrightarrow> List.map_filter snd bs = []"
    using auto_assign_total [OF res assms(1)] assms(2) set_eq nil by (auto simp: lethals_ok_def)
  have "sint pw < 2 ^ 31" using sint_lt [of pw] by simp
  with t add_to_last_total [of res r] show ?thesis by (auto simp: assign_all_def res)
qed

subsection \<open>Asking\<close>

lemma lethal_total_without:
  "distinct (map fst bs) \<Longrightarrow> (b, Some l) \<in> set bs \<Longrightarrow> lethal_total (without_blocker b bs) = lethal_total bs - sint l"
proof (induction bs)
  case (Cons x bs)
  then show ?case
  proof (cases "x = (b, Some l)")
    case True
    have "(fst q = b) = False" if "q \<in> set bs" for q
    proof -
      from that have "fst q \<in> set (map fst bs)" by simp
      with Cons.prems(1) True show ?thesis by auto
    qed
    then have "filter (\<lambda>q. fst q \<noteq> b) bs = bs" by (simp add: filter_id_conv)
    then show ?thesis using True by (simp add: lethal_total_def without_blocker_def case_prod_beta')
  next
    case False
    with Cons.prems have mem: "(b, Some l) \<in> set bs" by auto
    then have "b \<in> set (map fst bs)" by force
    with Cons.prems(1) have "fst x \<noteq> b" by auto
    with Cons mem show ?thesis
      by (cases "snd x") (simp_all add: lethal_total_def without_blocker_def case_prod_beta')
  qed
qed simp

lemma without_blocker_keeps:
  "distinct (map fst bs) \<Longrightarrow> distinct (map fst (without_blocker b bs))"
  "l \<in> set (List.map_filter snd (without_blocker b bs)) \<Longrightarrow> l \<in> set (List.map_filter snd bs)"
  by (auto simp: without_blocker_def distinct_map_filter set_map_filter) force

lemma some_lethal: "0 < lethal_total bs \<Longrightarrow> \<exists>b l. (b, Some l) \<in> set bs"
proof -
  assume "0 < lethal_total bs"
  then have "List.map_filter snd bs \<noteq> []" by (auto simp: lethal_total_def)
  then obtain l where "l \<in> set (List.map_filter snd bs)" by (meson list.set_intros(1) neq_Nil_conv list.set_sel(1))
  then show ?thesis by (force simp: set_map_filter)
qed

text \<open>What the loop has spent when it ends, \<open>rest\<close> being what it adds to the assignment.\<close>

definition spent_ok :: "bool \<Rightarrow> lethal_list \<Rightarrow> i32 \<Rightarrow> assignment \<Rightarrow> bool" where
  "spent_ok trample bs remaining added \<longleftrightarrow>
     (if trample then assigned_total added \<le> sint remaining \<and> (\<forall>q \<in> set added. 0 < sint (snd q))
        \<and> (\<exists>b l. (b, Some l) \<in> set bs \<and> b \<notin> fst ` set added)
      else assigned_total added = sint remaining)"

lemma spent_step:
  assumes "spent_ok trample (without_blocker b bs) (remaining - l) added" "(b, l) \<in> set (killable bs remaining)" "0 < sint l"
  shows "spent_ok trample bs remaining ((b, l) # added)"
proof -
  have "sint l \<le> sint remaining" using killable_mem [OF assms(2)] by simp
  then have "sint (remaining - l) = sint remaining - sint l" by (rule sint_minus [OF order_less_imp_le [OF assms(3)]])
  with assms(1,3) show ?thesis by (auto simp: spent_ok_def without_blocker_def split: if_splits)
qed

lemma killable_positive:
  "(b, l) \<in> set (killable bs remaining) \<Longrightarrow> (\<forall>l \<in> set (List.map_filter snd bs). 0 < sint l) \<Longrightarrow> 0 < sint l"
  using killable_mem [of b l bs remaining] by (force simp: set_map_filter)

lemma assign_loop_spent:
  "assign_loop trample bs remaining res answers = Assigned out rest \<Longrightarrow> 0 \<le> sint remaining
    \<Longrightarrow> distinct (map fst bs) \<Longrightarrow> (\<forall>l \<in> set (List.map_filter snd bs). 0 < sint l)
    \<Longrightarrow> sint remaining < lethal_total bs \<Longrightarrow> \<exists>added. out = res @ added \<and> spent_ok trample bs remaining added"
proof (induction trample bs remaining res answers rule: assign_loop.induct)
  case (1 trample bs remaining res answers)
  have step: "\<exists>added. out = res @ added \<and> spent_ok trample bs remaining added"
    if k: "(b, l) \<in> set (killable bs remaining)"
      and IH: "\<lbrakk>0 \<le> sint (remaining - l); distinct (map fst (without_blocker b bs));
        \<forall>l \<in> set (List.map_filter snd (without_blocker b bs)). 0 < sint l;
        sint (remaining - l) < lethal_total (without_blocker b bs)\<rbrakk>
        \<Longrightarrow> \<exists>added. out = (res @ [(b, l)]) @ added \<and> spent_ok trample (without_blocker b bs) (remaining - l) added" for b l
  proof -
    have l: "0 < sint l" "sint l \<le> sint remaining" "(b, Some l) \<in> set bs"
      using killable_positive [OF k "1.prems"(4)] killable_mem [OF k] by simp_all
    have m: "sint (remaining - l) = sint remaining - sint l" by (rule sint_minus) (use l in simp_all)
    have "lethal_total (without_blocker b bs) = lethal_total bs - sint l"
      by (rule lethal_total_without [OF "1.prems"(3) l(3)])
    with m l "1.prems"(5) without_blocker_keeps "1.prems"(3,4)
    obtain added where "out = (res @ [(b, l)]) @ added" "spent_ok trample (without_blocker b bs) (remaining - l) added"
      using IH by (metis diff_ge_0_iff_ge diff_strict_right_mono)
    with spent_step [OF _ k] l show ?thesis by auto
  qed
  show ?case
  proof (cases "sint remaining \<le> 0")
    case True
    with "1.prems" have "out = res" "0 < lethal_total bs" "sint remaining = 0" by (simp_all add: assign_loop.simps)
    with some_lethal show ?thesis by (auto simp: spent_ok_def)
  next
    case pos: False
    show ?thesis
    proof (cases "killable bs remaining")
      case Nil
      have "0 < lethal_total bs" using "1.prems"(2,5) by simp
      with some_lethal have ex: "\<exists>b l. (b, Some l) \<in> set bs" by blast
      then have "bs \<noteq> []" by auto
      with "1.prems"(1) pos Nil ex "1.prems"(2) show ?thesis
        by (auto simp: assign_loop.simps [of trample bs] spent_ok_def split: if_splits elim: ask_remaining.elims)
    next
      case (Cons p others)
      obtain b l where p: "p = (b, l)" by fastforce
      have bl: "(b, l) \<in> set (killable bs remaining)" using Cons p by simp
      show ?thesis
      proof (cases "others = []")
        case True
        with "1.prems"(1) pos Cons p
        have "assign_loop trample (without_blocker b bs) (remaining - l) (res @ [(b, l)]) answers = Assigned out rest"
          by (simp add: assign_loop.simps [of trample bs])
        with "1.IH"(1) [OF pos Cons p [symmetric] True] step [OF bl] show ?thesis by blast
      next
        case several: False
        note eq = trans [OF assign_loop.simps [symmetric] "1.prems"(1)]
        from eq pos Cons p several obtain c more where ans: "answers = Chosen c # more"
          by (cases answers) (auto split: choice.splits elim: stop_answer.elims)
        show ?thesis
        proof (cases "map_of (killable bs remaining) c")
          case None
          with eq pos Cons p several ans have "assign_loop trample bs remaining res more = Assigned out rest" by simp
          with "1.IH"(2) [OF pos Cons p [symmetric] several ans refl None] "1.prems" show ?thesis by blast
        next
          case (Some v)
          with eq pos Cons p several ans
          have "assign_loop trample (without_blocker c bs) (remaining - v) (res @ [(c, v)]) more = Assigned out rest" by simp
          with "1.IH"(3) [OF pos Cons p [symmetric] several ans refl Some] step [OF map_of_SomeD [OF Some]]
          show ?thesis by blast
        qed
      qed
    qed
  qed
qed

subsection \<open>A chooser that names every blocker\<close>

lemma killable_without:
  assumes "p \<in> set (killable (without_blocker c bs) (remaining - v))" "0 \<le> sint v" "sint v \<le> sint remaining"
  shows "p \<in> set (killable bs remaining) \<and> fst p \<noteq> c"
proof -
  obtain b l where p: "p = (b, l)" by fastforce
  have "(b, Some l) \<in> set (without_blocker c bs)" "sint l \<le> sint (remaining - v)"
    using killable_mem assms(1) p by auto
  then have "(b, Some l) \<in> set bs" "b \<noteq> c" "sint l \<le> sint remaining"
    using sint_minus [OF assms(2,3)] assms(2) by (auto simp: without_blocker_def)
  with p show ?thesis by (force simp: killable_def set_map_filter)
qed

lemma assign_loop_answered:
  "answers = map Chosen (cs @ [x]) \<Longrightarrow> fst ` set (killable bs remaining) \<subseteq> set cs
    \<Longrightarrow> (\<forall>l \<in> set (List.map_filter snd bs). 0 < sint l)
    \<Longrightarrow> \<exists>out rest. assign_loop trample bs remaining res answers = Assigned out rest"
proof (induction trample bs remaining res answers arbitrary: cs rule: assign_loop.induct)
  case (1 trample bs remaining res answers)
  have pos_without: "\<forall>l \<in> set (List.map_filter snd (without_blocker b bs)). 0 < sint l" for b
    using "1.prems"(3) without_blocker_keeps(2) by blast
  have fewer: "p \<in> set (killable bs remaining) \<and> fst p \<noteq> b"
    if "(b, l) \<in> set (killable bs remaining)" "p \<in> set (killable (without_blocker b bs) (remaining - l))" for b l p
    using killable_without [OF that(2)] killable_mem [OF that(1)] killable_positive [OF that(1) "1.prems"(3)] by simp
  show ?case
  proof (cases "sint remaining \<le> 0")
    case True
    then show ?thesis by (simp add: assign_loop.simps [of trample bs])
  next
    case pos: False
    show ?thesis
    proof (cases "killable bs remaining")
      case Nil
      obtain y ys where "cs @ [x] = y # ys" by (cases cs) auto
      with Nil pos "1.prems"(1) show ?thesis by (simp add: assign_loop.simps [of trample bs])
    next
      case (Cons p others)
      obtain b l where p: "p = (b, l)" by fastforce
      show ?thesis
      proof (cases "others = []")
        case True
        have "fst ` set (killable (without_blocker b bs) (remaining - l)) \<subseteq> set cs"
          using fewer [of b l] "1.prems"(2) Cons p by fastforce
        from "1.IH"(1) [OF pos Cons p [symmetric] True "1.prems"(1) this pos_without] pos Cons p True
        show ?thesis by (simp add: assign_loop.simps [of trample bs])
      next
        case several: False
        from "1.prems"(2) Cons obtain c more where cs: "cs = c # more" by (cases cs) auto
        then have ans: "answers = Chosen c # map Chosen (more @ [x])" using "1.prems"(1) by simp
        note split = assign_loop.simps [of trample bs remaining res answers]
        show ?thesis
        proof (cases "map_of (killable bs remaining) c")
          case None
          then have "c \<notin> fst ` set (killable bs remaining)" by (simp add: map_of_eq_None_iff)
          then have "fst ` set (killable bs remaining) \<subseteq> set more" using "1.prems"(2) cs by auto
          from "1.IH"(2) [OF pos Cons p [symmetric] several ans refl None refl this "1.prems"(3)] pos Cons p several ans None
          show ?thesis unfolding split by simp
        next
          case (Some v)
          have "fst ` set (killable (without_blocker c bs) (remaining - v)) \<subseteq> set more"
            using fewer [OF map_of_SomeD [OF Some]] "1.prems"(2) cs by fastforce
          from "1.IH"(3) [OF pos Cons p [symmetric] several ans refl Some refl this pos_without] pos Cons p several ans Some
          show ?thesis unfolding split by simp
        qed
      qed
    qed
  qed
qed

subsection \<open>The plan of the first pass\<close>

lemma stop_answer_cases:
  "stop_answer x later \<noteq> Assigned out rest" "stop_answer x later = Undone m rest \<Longrightarrow> x = UndoRequest m"
  by (cases x; simp)+

lemma ask_remaining_answers:
  "ask_remaining res r answers = Undone m rest \<Longrightarrow> UndoRequest m \<in> set answers"
  "ask_remaining res r answers = Assigned out rest \<Longrightarrow> set rest \<subseteq> set answers"
  using stop_answer_cases
  by (cases "(res, r, answers)" rule: ask_remaining.cases; fastforce)+

text \<open>Only an answer that asks for an undo ends in one, and the answers left are answers given.\<close>

definition answers_ok :: "choice list \<Rightarrow> assign_outcome \<Rightarrow> bool" where
  "answers_ok answers o1 \<longleftrightarrow> (case o1 of
       Assigned out rest \<Rightarrow> set rest \<subseteq> set answers
     | Undone m rest \<Rightarrow> UndoRequest m \<in> set answers
     | AssignFailed e \<Rightarrow> True)"

lemma answers_ok_Cons: "answers_ok answers o1 \<Longrightarrow> answers_ok (x # answers) o1"
  by (auto simp: answers_ok_def split: assign_outcome.splits)

lemma assign_loop_answers: "answers_ok answers (assign_loop trample bs remaining res answers)"
proof (induction trample bs remaining res answers rule: assign_loop.induct)
  case (1 trample bs remaining res answers)
  have stop: "answers_ok (x # later) (stop_answer x later)" for x later
    using stop_answer_cases(2) by (cases x) (auto simp: answers_ok_def)
  have ask: "answers_ok answers (ask_remaining res remaining answers)"
    using ask_remaining_answers by (auto simp: answers_ok_def split: assign_outcome.splits)
  show ?case
  proof (cases "sint remaining \<le> 0 \<or> killable bs remaining = []")
    case True
    then show ?thesis using ask by (auto simp: assign_loop.simps [of trample bs] answers_ok_def split: list.splits)
  next
    case False
    then have pos: "\<not> sint remaining \<le> 0" by simp
    from False obtain b l others where k: "killable bs remaining = (b, l) # others"
      by (cases "killable bs remaining") auto
    note split = assign_loop.simps [of trample bs remaining res answers]
    show ?thesis
    proof (cases "others = []")
      case True
      with "1.IH"(1) [OF pos k refl True] pos k show ?thesis unfolding split by simp
    next
      case several: False
      show ?thesis
      proof (cases answers)
        case Nil
        with pos k several show ?thesis unfolding split by (simp add: answers_ok_def)
      next
        case (Cons x later)
        have stops: "answers_ok answers (assign_loop trample bs remaining res answers)" if "\<And>c. x \<noteq> Chosen c"
        proof -
          have "assign_loop trample bs remaining res answers = stop_answer x later"
            unfolding split using pos k several Cons that by (cases x) auto
          with stop [of x later] Cons show ?thesis by simp
        qed
        show ?thesis
        proof (cases x)
          case (Chosen c)
          have "answers_ok later (assign_loop trample bs remaining res later)"
            if "map_of (killable bs remaining) c = None"
            by (rule "1.IH"(2) [OF pos k refl several Cons Chosen that])
          moreover have "answers_ok later (assign_loop trample (without_blocker c bs) (remaining - v) (res @ [(c, v)]) later)"
            if "map_of (killable bs remaining) c = Some v" for v
            by (rule "1.IH"(3) [OF pos k refl several Cons Chosen that])
          ultimately have "answers_ok later (assign_loop trample bs remaining res answers)"
            using pos k several Cons Chosen unfolding split by (auto split: option.splits)
          then show ?thesis unfolding Cons by (rule answers_ok_Cons)
        qed (auto intro: stops)
      qed
    qed
  qed
qed

lemma assign_with_answers: "answers_ok answers (assign_with trample bs pw answers)"
  using assign_loop_answers by (simp add: assign_with_def answers_ok_def)

definition no_undo :: "choice list \<Rightarrow> bool" where
  "no_undo answers \<longleftrightarrow> (\<forall>m. UndoRequest m \<notin> set answers)"

lemma smart_assignment_keeps_game:
  assumes "smart_damage_assignment ds n a blockers answers g = Inr (g', res, rest)" "no_undo answers"
  shows "g' = g \<and> no_undo rest"
proof -
  obtain k where k: "card_of g a = Some k"
    using assms(1) by (cases "card_of g a") (simp_all add: smart_damage_assignment_def)
  obtain trample bs pw where o1: "(case assign_with trample bs pw answers of
             Assigned res rest \<Rightarrow> Inr (g, res, rest)
           | Undone m rest \<Rightarrow> Inr (handle_undo_request ds (c_owner k) m g, [], rest)
           | AssignFailed e \<Rightarrow> Inl e) = Inr (g', res, rest)"
    using assms(1) by (auto simp: smart_damage_assignment_def and_then_Inr k)
  then show ?thesis
    using assms(2) assign_with_answers [of answers trample bs pw]
    by (auto simp: answers_ok_def no_undo_def split: assign_outcome.splits)
qed

definition plan_unchanged :: "game_state \<Rightarrow> plan_state \<Rightarrow> bool" where
  "plan_unchanged g st \<longleftrightarrow> ps_game st = g \<and> bt_ordered (ps_plan st)
     \<and> no_undo (ps_attacker_answers st) \<and> no_undo (ps_blocker_answers st)"

lemma plan_attacker_unchanged:
  assumes "plan_attacker ds n p st a = Inr st'" "plan_unchanged g st"
  shows "plan_unchanged g st'"
proof (cases "\<not> is_blocked (gs_combat g) a \<or> length (get_blockers (gs_combat g) a) \<le> 1")
  case True
  with assms show ?thesis by (simp add: plan_attacker_def plan_unchanged_def Let_def)
next
  case False
  then obtain k where k: "card_of g a = Some k"
    using assms by (cases "card_of g a") (auto simp: plan_attacker_def plan_unchanged_def Let_def)
  let ?answers = "if c_owner k = p then ps_attacker_answers st else ps_blocker_answers st"
  obtain g1 res rest where r: "smart_damage_assignment ds n a (get_blockers (gs_combat g) a) ?answers g = Inr (g1, res, rest)"
    and st': "st' = st\<lparr>ps_game := g1, ps_plan := (if res = [] then ps_plan st else bt_insert a res (ps_plan st)),
               ps_attacker_answers := (if c_owner k = p then rest else ps_attacker_answers st),
               ps_blocker_answers := (if c_owner k = p then ps_blocker_answers st else rest)\<rparr>"
    using assms False k by (auto simp: plan_attacker_def plan_unchanged_def Let_def and_then_Inr)
  have "no_undo ?answers" using assms(2) by (simp add: plan_unchanged_def)
  from smart_assignment_keeps_game [OF r this] assms(2) show ?thesis
    by (simp add: st' plan_unchanged_def bt_insert_def bt_ordered_update)
qed

lemma collect_unchanged:
  assumes "collect_assignments ds n p answers1 answers2 g = Inr st" "no_undo answers1" "no_undo answers2"
  shows "ps_game st = g \<and> bt_ordered (ps_plan st)"
proof -
  have "plan_unchanged g st' \<longrightarrow> fold_result (plan_attacker ds n p) st' as = Inr st \<longrightarrow> plan_unchanged g st" for st' as
  proof (induction as arbitrary: st')
    case (Cons a as)
    show ?case
    proof (cases "plan_attacker ds n p st' a")
      case (Inr st1)
      with Cons.IH [of st1] plan_attacker_unchanged [OF Inr] show ?thesis by auto
    qed simp
  qed auto
  moreover have "plan_unchanged g \<lparr>ps_game = g, ps_plan = [], ps_attacker_answers = answers1, ps_blocker_answers = answers2\<rparr>"
    using assms(2,3) by (simp add: plan_unchanged_def)
  ultimately have "plan_unchanged g st" using assms(1) unfolding collect_assignments_def by blast
  then show ?thesis by (simp add: plan_unchanged_def)
qed

lemma bt_insert_last: "(\<And>j. j \<in> fst ` set m \<Longrightarrow> j < k) \<Longrightarrow> bt_insert k v m = m @ [(k, v)]"
proof (induction m)
  case (Cons q m)
  then have "fst q < k" "bt_insert k v m = m @ [(k, v)]" by simp_all
  then show ?case by (cases q) (auto simp: bt_insert_def)
qed (simp add: bt_insert_def)

text \<open>Reading an ordered plan back entry by entry gives the plan.\<close>

lemma read_plan: "bt_ordered plan \<Longrightarrow> foldl (\<lambda>m (a, x). bt_insert a x m) [] plan = plan"
proof -
  have "foldl (\<lambda>m (a, x). bt_insert a x m) acc m = acc @ m" if "bt_ordered (acc @ m)" for acc m :: "('a :: linorder \<times> 'b) list"
    using that
  proof (induction m arbitrary: acc)
    case (Cons q m)
    have le: "\<forall>x \<in> set acc. fst x \<le> fst q" using Cons.prems by (simp add: bt_ordered_def sorted_append)
    have ne: "fst q \<notin> fst ` set acc" using Cons.prems by (simp add: bt_ordered_def)
    have "j < fst q" if "j \<in> fst ` set acc" for j using le ne that by (metis imageE order_le_imp_less_or_eq)
    then have "bt_insert (fst q) (snd q) acc = acc @ [(fst q, snd q)]" by (rule bt_insert_last)
    with Cons.IH [of "acc @ [q]"] Cons.prems show ?case by (simp add: case_prod_beta')
  qed simp
  from this [of "[]" plan] show "bt_ordered plan \<Longrightarrow> ?thesis" by simp
qed

end
