(* ===== verification/CombatDamage.thy ===== *)
theory CombatDamage
  imports CombatAssign Damage
begin

section \<open>Dealing the damage of a combat damage step\<close>

text \<open>
  The second pass of \<open>assign_combat_damage_planned\<close> (\<open>mtg-engine/src/game/actions/combat.rs\<close>): every
  attacker and its blockers fill the damage tables, the tables are increased, and the step deals the
  player damage, gives life, fires triggers, records who damaged whom and destroys creatures. Triggers
  of combat damage are a field of \<open>combat_env\<close>; the triggers of a death are those of \<open>game_env\<close>.
\<close>

record damage_tables =
  dt_creatures :: "(card_id \<times> i32) list"
  dt_players :: "(player_id \<times> i32) list"
  dt_dealt :: "(card_id \<times> i32) list"
  dt_player_hits :: "(card_id \<times> player_id \<times> i32) list"
  dt_deathtouch :: "card_id list"
  dt_sources :: "(card_id \<times> card_id list) list"

definition no_damage :: damage_tables where
  "no_damage = \<lparr>dt_creatures = [], dt_players = [], dt_dealt = [], dt_player_hits = [],
     dt_deathtouch = [], dt_sources = []\<rparr>"

type_synonym damage_state = "damage_tables \<times> game_state"

subsection \<open>Recording one hit\<close>

definition log_combat_damage_to_creature :: "string \<Rightarrow> card_id \<Rightarrow> card_id \<Rightarrow> i32 \<Rightarrow> game_state \<Rightarrow> game_state" where
  "log_combat_damage_to_creature nm source target amount g = (if sint amount \<le> 0 then g
     else game_log (nm @ '' ('' @ show_nat (unat source) @ '') deals '' @ show_i32 amount @ '' damage to ''
       @ card_name_or ''Unknown'' g target @ '' ('' @ show_nat (unat target) @ '')'') g)"

definition log_combat_damage_to_player ::
  "string \<Rightarrow> card_id \<Rightarrow> player_id \<Rightarrow> i32 \<Rightarrow> i32 \<Rightarrow> game_state \<Rightarrow> game_state" where
  "log_combat_damage_to_player nm source p amount life_after g = (if sint amount \<le> 0 then g
     else game_log (nm @ '' ('' @ show_nat (unat source) @ '') deals '' @ show_i32 amount @ '' damage to ''
       @ player_name_or (''Player '' @ show_nat (unat p)) g p @ '' (life: '' @ show_i32 life_after @ '')'') g)"

definition record_creature_hit :: "card_id \<Rightarrow> card_id \<Rightarrow> i32 \<Rightarrow> bool \<Rightarrow> damage_tables \<Rightarrow> damage_tables" where
  "record_creature_hit source target amount deathtouch t =
     t\<lparr>dt_creatures := bt_add target amount (dt_creatures t),
       dt_dealt := bt_add source amount (dt_dealt t),
       dt_sources := bt_update target (\<lambda>x. bs_insert source (case x of None \<Rightarrow> [] | Some s \<Rightarrow> s)) (dt_sources t),
       dt_deathtouch := (if deathtouch then bs_insert target (dt_deathtouch t) else dt_deathtouch t)\<rparr>"

definition record_player_hit :: "card_id \<Rightarrow> player_id \<Rightarrow> i32 \<Rightarrow> damage_tables \<Rightarrow> damage_tables" where
  "record_player_hit source p amount t =
     t\<lparr>dt_players := bt_add p amount (dt_players t), dt_dealt := bt_add source amount (dt_dealt t),
       dt_player_hits := dt_player_hits t @ [(source, p, amount)]\<rparr>"

definition hit_creature :: "string \<Rightarrow> card_id \<Rightarrow> card_id \<Rightarrow> i32 \<Rightarrow> bool \<Rightarrow> damage_state \<Rightarrow> damage_state" where
  "hit_creature nm source target amount deathtouch = (\<lambda>(t, g).
     (record_creature_hit source target amount deathtouch t,
      log_combat_damage_to_creature nm source target amount g))"

text \<open>The life totals at the start of the step are the argument \<open>lives\<close>.\<close>

definition initial_lives :: "game_state \<Rightarrow> (player_id \<times> i32) list" where
  "initial_lives g = rev (map (\<lambda>x. (p_id x, p_life x)) (gs_players g))"

definition hit_player ::
  "(player_id \<times> i32) list \<Rightarrow> string \<Rightarrow> card_id \<Rightarrow> player_id \<Rightarrow> i32 \<Rightarrow> damage_state \<Rightarrow> damage_state" where
  "hit_player lives nm source p amount = (\<lambda>(t, g). let t1 = record_player_hit source p amount t in
     (t1, log_combat_damage_to_player nm source p amount (bt_get lives p - bt_get (dt_players t1) p) g))"

definition log_color_prevention :: "card_id \<Rightarrow> i32 \<Rightarrow> damage_state \<Rightarrow> damage_state" where
  "log_color_prevention target amount = (\<lambda>(t, g). (t, normal_log (''Prevented '' @ show_i32 amount
     @ '' combat damage to '' @ card_name_or ''creature'' g target @ '' ('' @ show_nat (unat target)
     @ '') by color-prevention Aura'') g))"

subsection \<open>An attacker and its blockers\<close>

definition strikes_now :: "bool \<Rightarrow> nat \<Rightarrow> game_state \<Rightarrow> card_id \<Rightarrow> mtg_error + bool" where
  "strikes_now first_strike_step n g c = and_then (kw n g c ''FirstStrike'') (\<lambda>fs.
     map_sum id (\<lambda>dbl. if first_strike_step then fs \<or> dbl else dbl \<or> \<not> fs) (kw n g c ''DoubleStrike''))"

text \<open>The planned assignment: the damage dealt and the power left; prevented damage is not taken off.\<close>

definition deal_planned ::
  "string \<Rightarrow> card_id \<Rightarrow> bool \<Rightarrow> assignment \<Rightarrow> damage_state \<times> i32 \<Rightarrow> damage_state \<times> i32" where
  "deal_planned nm a deathtouch plan st0 = foldl (\<lambda>(st, remaining) (b, d).
     if sint d \<le> 0 then (st, remaining)
     else if is_color_prevented_by_aura (snd st) b a then (log_color_prevention b d st, remaining)
     else (hit_creature nm a b d deathtouch st, remaining - d)) st0 plan"

text \<open>Trample past a planned assignment; \<open>None\<close> is the \<open>continue\<close> of the loop over the attackers.\<close>

definition trample_planned ::
  "(player_id \<times> i32) list \<Rightarrow> string \<Rightarrow> card_id \<Rightarrow> bool \<Rightarrow> damage_state \<times> i32 \<Rightarrow> damage_state \<times> bool" where
  "trample_planned lives nm a trample = (\<lambda>((t, g), remaining).
     if \<not> trample \<or> sint remaining \<le> 0 then ((t, g), True)
     else (case get_defending_player (gs_combat g) a of
         None \<Rightarrow> ((t, g), True)
       | Some p \<Rightarrow> (case apply_source_prevention_shields p (Some a) remaining g of (g1, r) \<Rightarrow>
           if sint r \<le> 0 then ((t, g1), False) else (hit_player lives nm a p r (t, g1), True))))"

text \<open>Without a plan: blocker after blocker up to lethal damage, by the toughness of the card alone.\<close>

definition simple_share :: "bool \<Rightarrow> bool \<Rightarrow> nat \<Rightarrow> i8 \<Rightarrow> i32 \<Rightarrow> i32" where
  "simple_share deathtouch trample blockers toughness remaining =
     (if blockers = 1 \<and> \<not> trample then remaining
      else smin remaining (if deathtouch \<and> 0 < sint toughness then 1 else scast toughness))"

definition deal_simple ::
  "string \<Rightarrow> card_id \<Rightarrow> bool \<Rightarrow> bool \<Rightarrow> nat \<Rightarrow> damage_state \<times> i32 \<Rightarrow> card_id \<Rightarrow> mtg_error + damage_state \<times> i32" where
  "deal_simple nm a deathtouch trample blockers = (\<lambda>(st, remaining) b.
     if sint remaining \<le> 0 then Inr (st, remaining)
     else (case card_of (snd st) b of
         None \<Rightarrow> Inl (MtgEntityNotFound b)
       | Some k \<Rightarrow> let d = simple_share deathtouch trample blockers (current_toughness k) remaining in
           if sint d \<le> 0 then Inr (st, remaining)
           else if is_color_prevented_by_aura (snd st) b a then Inr (log_color_prevention b d st, remaining - d)
           else Inr (hit_creature nm a b d deathtouch st, remaining - d)))"

definition trample_simple ::
  "(player_id \<times> i32) list \<Rightarrow> string \<Rightarrow> card_id \<Rightarrow> bool \<Rightarrow> damage_state \<times> i32 \<Rightarrow> damage_state" where
  "trample_simple lives nm a trample = (\<lambda>(st, remaining).
     if \<not> trample \<or> sint remaining \<le> 0 then st
     else (case get_defending_player (gs_combat (snd st)) a of
         None \<Rightarrow> st | Some p \<Rightarrow> hit_player lives nm a p remaining st))"

text \<open>A blocker strikes back.\<close>

definition strike_back :: "bool \<Rightarrow> nat \<Rightarrow> card_id \<Rightarrow> damage_state \<Rightarrow> card_id \<Rightarrow> mtg_error + damage_state" where
  "strike_back first_strike_step n a = (\<lambda>(t, g) b.
     if b \<notin> set (z_cards (gs_battlefield g)) then Inr (t, g)
     else (case card_of g b of
         None \<Rightarrow> Inl (MtgEntityNotFound b)
       | Some k \<Rightarrow> and_then (strikes_now first_strike_step n g b) (\<lambda>now.
           if \<not> now \<or> c_prevent_all_combat_damage_this_turn k
             \<or> (case card_of g a of None \<Rightarrow> False | Some att \<Rightarrow> c_prevent_all_combat_damage_this_turn att)
           then Inr (t, g)
           else and_then (effective_power_or n g b k) (\<lambda>d.
             if sint d \<le> 0 then Inr (t, g)
             else if is_color_prevented_by_aura g a b then Inr (log_color_prevention a d (t, g))
             else map_sum id (\<lambda>dt. hit_creature (c_name k) b a d dt (t, g)) (kw n g b ''Deathtouch'')))))"

definition blocked_attacker ::
  "(player_id \<times> i32) list \<Rightarrow> (card_id \<times> assignment) list \<Rightarrow> bool \<Rightarrow> nat \<Rightarrow> card_id \<Rightarrow> i32 \<Rightarrow> damage_state
     \<Rightarrow> mtg_error + damage_state" where
  "blocked_attacker lives plans first_strike_step n a remaining = (\<lambda>(t, g). let
       blockers = get_blockers (gs_combat g) a; nm = card_name_or ''Unknown'' g a in
     and_then (kw n g a ''Trample'') (\<lambda>trample. and_then (kw n g a ''Deathtouch'') (\<lambda>deathtouch.
       and_then (case map_of plans a of
           Some plan \<Rightarrow> Inr (trample_planned lives nm a trample (deal_planned nm a deathtouch plan ((t, g), remaining)))
         | None \<Rightarrow> map_sum id (\<lambda>st. (trample_simple lives nm a trample st, True))
             (fold_result (deal_simple nm a deathtouch trample (length blockers)) ((t, g), remaining) blockers))
         (\<lambda>(st, strike). if strike then fold_result (strike_back first_strike_step n a) st blockers
           else Inr st))))"

definition unblocked_attacker ::
  "(player_id \<times> i32) list \<Rightarrow> card_id \<Rightarrow> i32 \<Rightarrow> damage_state \<Rightarrow> damage_state" where
  "unblocked_attacker lives a remaining = (\<lambda>(t, g). case get_defending_player (gs_combat g) a of
       None \<Rightarrow> (t, g)
     | Some p \<Rightarrow> (case apply_source_prevention_shields p (Some a) remaining g of (g1, r) \<Rightarrow>
         if sint r \<le> 0 then (t, g1) else hit_player lives (card_name_or ''Unknown'' g1 a) a p r (t, g1)))"

definition attacker_damage ::
  "(player_id \<times> i32) list \<Rightarrow> (card_id \<times> assignment) list \<Rightarrow> bool \<Rightarrow> nat \<Rightarrow> damage_state \<Rightarrow> card_id
     \<Rightarrow> mtg_error + damage_state" where
  "attacker_damage lives plans first_strike_step n = (\<lambda>(t, g) a.
     if a \<notin> set (z_cards (gs_battlefield g)) then Inr (t, g)
     else (case card_of g a of
         None \<Rightarrow> Inl (MtgEntityNotFound a)
       | Some k \<Rightarrow> and_then (strikes_now first_strike_step n g a) (\<lambda>now.
           if \<not> now \<or> c_prevent_all_combat_damage_this_turn k then Inr (t, g)
           else and_then (effective_power_or n g a k) (\<lambda>pw.
             if sint pw \<le> 0 then Inr (t, g)
             else if is_blocked (gs_combat g) a
               then blocked_attacker lives plans first_strike_step n a pw (t, g)
             else Inr (unblocked_attacker lives a pw (t, g))))))"

definition fill_tables ::
  "(card_id \<times> assignment) list \<Rightarrow> bool \<Rightarrow> nat \<Rightarrow> game_state \<Rightarrow> mtg_error + damage_state" where
  "fill_tables plans first_strike_step n g =
     fold_result (attacker_damage (initial_lives g) plans first_strike_step n) (no_damage, g)
       (get_attackers (gs_combat g))"

subsection \<open>Increases\<close>

definition boost_message :: "game_state \<Rightarrow> card_id \<Rightarrow> i32 \<Rightarrow> string \<Rightarrow> string" where
  "boost_message g source boost target = ''Torbran: '' @ card_name_or '''' g source @ '' deals ''
     @ show_i32 boost @ '' additional damage to '' @ target @ '' (damage increase)''"

definition boost_creature :: "card_id \<Rightarrow> player_id \<Rightarrow> damage_state \<Rightarrow> card_id \<Rightarrow> damage_state" where
  "boost_creature target ctl = (\<lambda>(t, g) source. let boost = get_damage_boost_for_source g source ctl in
     if sint boost \<le> 0 then (t, g)
     else (t\<lparr>dt_creatures := bt_add target boost (dt_creatures t), dt_dealt := bt_add source boost (dt_dealt t)\<rparr>,
       game_log (boost_message g source boost (card_name_or '''' g target)) g))"

definition boost_target :: "damage_state \<Rightarrow> card_id \<times> card_id list \<Rightarrow> damage_state" where
  "boost_target = (\<lambda>(t, g) (target, sources).
     if target \<notin> set (z_cards (gs_battlefield g)) then (t, g)
     else (case card_of g target of
         None \<Rightarrow> (t, g)
       | Some k \<Rightarrow> foldl (boost_creature target (c_controller k)) (t, g) sources))"

text \<open>The hits on players, each with its recorded amount raised in place.\<close>

fun boost_hits :: "(card_id \<times> player_id \<times> i32) list \<Rightarrow> damage_state \<Rightarrow> damage_state \<times> (card_id \<times> player_id \<times> i32) list" where
  "boost_hits [] st = (st, [])"
| "boost_hits ((a, p, d) # hits) (t, g) = (let boost = get_damage_boost_for_source g a p in
     if sint boost \<le> 0 then map_prod id (Cons (a, p, d)) (boost_hits hits (t, g))
     else map_prod id (Cons (a, p, d + boost)) (boost_hits hits
       (t\<lparr>dt_players := bt_add p boost (dt_players t), dt_dealt := bt_add a boost (dt_dealt t)\<rparr>,
        game_log (boost_message g a boost (player_name_or '''' g p)) g)))"

definition boost_tables :: "damage_state \<Rightarrow> damage_state" where
  "boost_tables = (\<lambda>(t, g). case foldl boost_target (t, g) (dt_sources t) of (t1, g1) \<Rightarrow>
     (case boost_hits (dt_player_hits t1) (t1, g1) of ((t2, g2), hits) \<Rightarrow> (t2\<lparr>dt_player_hits := hits\<rparr>, g2)))"

subsection \<open>Applying the tables\<close>

record combat_env = game_env +
  ce_damage_triggers :: "card_id \<Rightarrow> i32 \<Rightarrow> i32 \<Rightarrow> i32 \<Rightarrow> game_state \<Rightarrow> mtg_error + game_state"

text \<open>Lifelink, which changes the life total without an entry of the undo log.\<close>

definition lifelink_one :: "nat \<Rightarrow> game_state \<Rightarrow> card_id \<times> i32 \<Rightarrow> mtg_error + game_state" where
  "lifelink_one n g = (\<lambda>(c, total). map_sum id (\<lambda>l. if l then (case card_of g c of
         None \<Rightarrow> g | Some k \<Rightarrow> map_player (c_controller k) (gain_life total) g) else g)
     (kw n g c ''Lifelink''))"

definition record_commander :: "player_id \<Rightarrow> i32 \<Rightarrow> card \<Rightarrow> game_state \<Rightarrow> game_state" where
  "record_commander p d k g = (case try_get_player g p of
       None \<Rightarrow> g
     | Some x \<Rightarrow> (case record_commander_damage (c_owner k) (ucast d) x of (x1, lethal) \<Rightarrow>
         let g1 = log_action (SetCommanderDamage p (c_owner k) (commander_damage_from (c_owner k) x)
               (commander_damage_from (c_owner k) x1)) (map_player p (\<lambda>_. x1) g) in
         if lethal then map_player p (\<lambda>y. y\<lparr>p_has_lost := True\<rparr>) (normal_log (p_name x
           @ '' has taken 21+ combat damage from '' @ c_name k @ [CHR 0x27] @ ''s commander - game loss!'') g1)
         else g1))"

definition commander_hit :: "game_state \<Rightarrow> card_id \<times> player_id \<times> i32 \<Rightarrow> game_state" where
  "commander_hit g = (\<lambda>(c, p, d). case card_of g c of
       None \<Rightarrow> g | Some k \<Rightarrow> if c_is_commander k then record_commander p d k g else g)"

definition track_commander :: "(card_id \<times> player_id \<times> i32) list \<Rightarrow> game_state \<Rightarrow> game_state" where
  "track_commander hits g = (if gs_is_commander_game g then foldl commander_hit g (sort_key fst hits) else g)"

definition player_damage_by :: "(card_id \<times> player_id \<times> i32) list \<Rightarrow> (card_id \<times> i32) list" where
  "player_damage_by hits = foldl (\<lambda>m (c, p, d). bt_add c d m) [] hits"

definition fire_combat_triggers ::
  "combat_env \<Rightarrow> (card_id \<times> i32) list \<Rightarrow> game_state \<Rightarrow> card_id \<times> i32 \<Rightarrow> mtg_error + game_state" where
  "fire_combat_triggers env to_players g = (\<lambda>(c, total).
     if c \<notin> set (z_cards (gs_battlefield g)) then Inr g
     else ce_damage_triggers env c total (bt_get to_players c) (total - bt_get to_players c) g)"

definition mark_damaged_by :: "game_state \<Rightarrow> card_id \<times> card_id list \<Rightarrow> game_state" where
  "mark_damaged_by g = (\<lambda>(target, sources). case card_of g target of
       None \<Rightarrow> g
     | Some k \<Rightarrow> let added = filter (\<lambda>s. s \<notin> set (c_damaged_by_this_turn k)) sources in
         foldl (\<lambda>h s. log_action (MarkDamagedBy target s) h)
           (map_card target (\<lambda>k. k\<lparr>c_damaged_by_this_turn := c_damaged_by_this_turn k @ added\<rparr>) g) added)"

definition opponents_hit :: "game_state \<Rightarrow> (card_id \<times> player_id \<times> i32) list \<Rightarrow> card_id list" where
  "opponents_hit g hits = sort (remdups (map fst (filter (\<lambda>(c, p, d). case card_of g c of
       None \<Rightarrow> False | Some k \<Rightarrow> c_controller k \<noteq> p) hits)))"

definition mark_dealt_to_opponent :: "game_state \<Rightarrow> card_id \<Rightarrow> game_state" where
  "mark_dealt_to_opponent g c = (case card_of g c of
       None \<Rightarrow> g
     | Some k \<Rightarrow> log_action (MarkDealtDamageToOpponent c (c_dealt_damage_to_opponent_this_turn k))
         (map_card c (\<lambda>k. k\<lparr>c_dealt_damage_to_opponent_this_turn := True\<rparr>) g))"

subsection \<open>Deaths\<close>

text \<open>Lethal damage is measured against the toughness of the card alone, without continuous effects.\<close>

definition dies_of_damage :: "nat \<Rightarrow> game_state \<Rightarrow> card_id \<times> i32 \<Rightarrow> mtg_error + bool" where
  "dies_of_damage n g = (\<lambda>(c, d). if c \<notin> set (z_cards (gs_battlefield g)) then Inr False
     else (case card_of g c of
         None \<Rightarrow> Inr False
       | Some k \<Rightarrow> if \<not> is_creature k then Inr False
           else map_sum id (\<lambda>ind. \<not> ind \<and> sint (current_toughness k) \<le> sint d) (kw n g c ''Indestructible'')))"

definition dies_of_deathtouch :: "nat \<Rightarrow> game_state \<Rightarrow> card_id \<Rightarrow> mtg_error + bool" where
  "dies_of_deathtouch n g c = (if c \<notin> set (z_cards (gs_battlefield g)) then Inr False
     else (case card_of g c of
         None \<Rightarrow> Inr False
       | Some k \<Rightarrow> if \<not> is_creature k \<or> sint (current_toughness k) \<le> 0 then Inr False
           else not_result (kw n g c ''Indestructible'')))"

definition creatures_to_destroy :: "nat \<Rightarrow> damage_tables \<Rightarrow> game_state \<Rightarrow> mtg_error + card_id list" where
  "creatures_to_destroy n t g =
     and_then (filter_result (dies_of_damage n g) (dt_creatures t)) (\<lambda>lethal.
     map_sum id (\<lambda>touched. fold bs_insert (map fst lethal @ touched) [])
       (filter_result (dies_of_deathtouch n g) (dt_deathtouch t)))"

definition destroy_creature :: "game_env \<Rightarrow> mover \<Rightarrow> game_state \<Rightarrow> card_id \<Rightarrow> mtg_error + game_state" where
  "destroy_creature env move g c =
     (if (case card_of g c of None \<Rightarrow> False | Some k \<Rightarrow> 0 < c_regeneration_shields k)
      then apply_regeneration_shield c g
      else let nm = card_name_or ''Unknown'' g c; g1 = env_death_triggers env c g in
        (case card_of g1 c of
            None \<Rightarrow> Inr g1
          | Some k \<Rightarrow> let dest = death_destination_for_card g1 c in
              map_sum id (game_log (nm @ '' ('' @ show_nat (unat c)
                @ (if dest = Exile then '') exiled from combat damage (finality counter)''
                   else '') dies from combat damage'')))
              (move c Battlefield dest (c_owner k) g1)))"

subsection \<open>The step\<close>

definition apply_tables ::
  "combat_env \<Rightarrow> nat \<Rightarrow> nat \<Rightarrow> damage_tables \<Rightarrow> game_state \<Rightarrow> mtg_error + game_state" where
  "apply_tables env fuel n t g = (let move = move_card fuel (game_env.truncate env) in
     and_then (fold_result (lifelink_one n) g (dt_dealt t)) (\<lambda>g1.
     and_then (fold_result (\<lambda>h (p, d). deal_damage move p d h) g1 (dt_players t)) (\<lambda>g2.
     and_then (fold_result (fire_combat_triggers env (player_damage_by (dt_player_hits t)))
       (track_commander (dt_player_hits t) g2) (dt_dealt t)) (\<lambda>g3.
     let g4 = foldl mark_damaged_by g3 (dt_sources t);
         g5 = foldl mark_dealt_to_opponent g4 (opponents_hit g4 (dt_player_hits t)) in
     and_then (creatures_to_destroy n t g5) (fold_result (destroy_creature (game_env.truncate env) move) g5)))))"

text \<open>\<open>assign_combat_damage_planned\<close>: the recorded plan, or the one the two controllers answer.\<close>

definition assign_combat_damage_planned ::
  "combat_env \<Rightarrow> (u8 list \<Rightarrow> rng option) \<Rightarrow> nat \<Rightarrow> nat \<Rightarrow> player_id \<Rightarrow> choice list \<Rightarrow> choice list \<Rightarrow> bool
     \<Rightarrow> (card_id \<times> assignment) list option \<Rightarrow> game_state \<Rightarrow> mtg_error + game_state \<times> (card_id \<times> assignment) list" where
  "assign_combat_damage_planned env ds fuel n attacking_player answers1 answers2 first_strike_step recorded g =
     and_then (case recorded of
         Some plan \<Rightarrow> Inr (g, foldl (\<lambda>m (a, x). bt_insert a x m) [] plan)
       | None \<Rightarrow> map_sum id (\<lambda>st. (ps_game st, ps_plan st))
           (collect_assignments ds n attacking_player answers1 answers2 g)) (\<lambda>(g1, plans).
     and_then (fill_tables plans first_strike_step n g1) (\<lambda>st. case boost_tables st of (t, g2) \<Rightarrow>
       map_sum id (\<lambda>g3. (g3, plans)) (apply_tables env fuel n t g2)))"

end
