(* ===== verification/DamageFacts.thy ===== *)
theory DamageFacts
  imports CombatDamage
begin

section \<open>The damage tables stay consistent\<close>

text \<open>
  The invariant of the tables that a combat damage step fills, and that every operation on them keeps
  it: the maps are ordered, the sources are recorded for exactly the creatures that take damage, a
  creature marked by deathtouch is one of them, every unit of damage dealt is a unit of damage
  taken, and the hits on a player add up to what that player takes.
\<close>

definition hits_on :: "(card_id \<times> player_id \<times> i32) list \<Rightarrow> player_id \<Rightarrow> i32" where
  "hits_on hits p = sum_list (map (\<lambda>(_, q, d). if q = p then d else 0) hits)"

definition tables_ok :: "damage_tables \<Rightarrow> bool" where
  "tables_ok t \<longleftrightarrow> bt_ordered (dt_creatures t) \<and> bt_ordered (dt_players t) \<and> bt_ordered (dt_dealt t)
     \<and> bt_ordered (dt_sources t) \<and> fst ` set (dt_sources t) = fst ` set (dt_creatures t)
     \<and> sorted (dt_deathtouch t) \<and> distinct (dt_deathtouch t) \<and> set (dt_deathtouch t) \<subseteq> fst ` set (dt_creatures t)
     \<and> bt_sum (dt_dealt t) = bt_sum (dt_creatures t) + bt_sum (dt_players t)
     \<and> bt_get (dt_players t) = hits_on (dt_player_hits t)"

lemma fold_result_keeps:
  "fold_result f s xs = Inr s' \<Longrightarrow> P s \<Longrightarrow> (\<And>x s s'. x \<in> set xs \<Longrightarrow> P s \<Longrightarrow> f s x = Inr s' \<Longrightarrow> P s') \<Longrightarrow> P s'"
proof (induction xs arbitrary: s)
  case (Cons x xs)
  from Cons.prems(1) obtain s1 where s1: "f s x = Inr s1" "fold_result f s1 xs = Inr s'"
    by (auto split: sum.splits)
  show ?case
  proof (rule Cons.IH [OF s1(2)])
    show "P s1" by (rule Cons.prems(3) [OF _ Cons.prems(2) s1(1)]) simp
    show "P r'" if "x \<in> set xs" "P r" "f r x = Inr r'" for x r r'
      by (rule Cons.prems(3) [OF _ that(2,3)]) (use that(1) in simp)
  qed
qed simp

lemma foldl_keeps:
  "P s \<Longrightarrow> (\<And>x s. x \<in> set xs \<Longrightarrow> P s \<Longrightarrow> P (f s x)) \<Longrightarrow> P (foldl f s xs)"
  by (induction xs arbitrary: s) simp_all

subsection \<open>One hit\<close>

lemma tables_ok_empty [simp]: "tables_ok no_damage"
  by (simp add: tables_ok_def no_damage_def hits_on_def bt_get_def fun_eq_iff)

lemma bt_add_keys: "fst ` set (bt_add k d m) = insert k (fst ` set m)"
  by (simp add: bt_add_def bt_keys)

lemma tables_ok_creature: "tables_ok t \<Longrightarrow> tables_ok (record_creature_hit source target amount deathtouch t)"
  using sorted_bs_insert [of "dt_deathtouch t" target]
  by (auto simp: tables_ok_def record_creature_hit_def bt_ordered_add bt_ordered_update bt_add_keys bt_keys)

lemma tables_ok_player: "tables_ok t \<Longrightarrow> tables_ok (record_player_hit source p amount t)"
  by (auto simp: tables_ok_def record_player_hit_def bt_ordered_add bt_get_add hits_on_def fun_eq_iff)

lemma hits_ok [simp]:
  "tables_ok t \<Longrightarrow> tables_ok (fst (hit_creature nm source target amount deathtouch (t, g)))"
  "tables_ok t \<Longrightarrow> tables_ok (fst (hit_player lives nm source p amount (t, g)))"
  "tables_ok t \<Longrightarrow> tables_ok (fst (log_color_prevention target amount (t, g)))"
  by (simp_all add: hit_creature_def hit_player_def log_color_prevention_def tables_ok_creature tables_ok_player Let_def)

subsection \<open>An attacker and its blockers\<close>

lemma deal_planned_ok: "tables_ok (fst (fst sr)) \<Longrightarrow> tables_ok (fst (fst (deal_planned nm a deathtouch plan sr)))"
  unfolding deal_planned_def by (rule foldl_keeps) (auto split: prod.splits)

lemma trample_planned_ok:
  "tables_ok (fst (fst sr)) \<Longrightarrow> tables_ok (fst (fst (trample_planned lives nm a trample sr)))"
  by (auto simp: trample_planned_def split: prod.splits option.splits)

lemma deal_simple_ok:
  "deal_simple nm a deathtouch trample n sr b = Inr sr' \<Longrightarrow> tables_ok (fst (fst sr)) \<Longrightarrow> tables_ok (fst (fst sr'))"
  by (auto simp: deal_simple_def Let_def split: prod.splits option.splits if_splits)

lemma trample_simple_ok: "tables_ok (fst (fst sr)) \<Longrightarrow> tables_ok (fst (trample_simple lives nm a trample sr))"
  by (auto simp: trample_simple_def split: prod.splits option.splits)

lemma map_sum_Inr: "map_sum id f r = Inr y \<longleftrightarrow> (\<exists>x. r = Inr x \<and> y = f x)"
  by (cases r) auto

lemma strike_back_ok: "strike_back fs n a st b = Inr st' \<Longrightarrow> tables_ok (fst st) \<Longrightarrow> tables_ok (fst st')"
  by (auto simp: strike_back_def and_then_Inr map_sum_Inr split: prod.splits option.splits if_splits)

lemma blocked_attacker_ok:
  assumes "blocked_attacker lives plans fs n a r st = Inr st'" "tables_ok (fst st)"
  shows "tables_ok (fst st')"
proof -
  obtain t g where st: "st = (t, g)" by fastforce
  let ?nm = "card_name_or ''Unknown'' g a" and ?bs = "get_blockers (gs_combat g) a"
  from assms(1) obtain trample deathtouch s strike where
    s: "(case map_of plans a of
           Some plan \<Rightarrow> Inr (trample_planned lives ?nm a trample (deal_planned ?nm a deathtouch plan ((t, g), r)))
         | None \<Rightarrow> map_sum id (\<lambda>st. (trample_simple lives ?nm a trample st, True))
             (fold_result (deal_simple ?nm a deathtouch trample (length ?bs)) ((t, g), r) ?bs)) = Inr (s, strike)"
    and strike: "(if strike then fold_result (strike_back fs n a) s ?bs else Inr s) = Inr st'"
    by (auto simp: blocked_attacker_def st Let_def and_then_Inr)
  have "tables_ok (fst s)"
  proof (cases "map_of plans a")
    case None
    with s obtain sr where
      sr: "fold_result (deal_simple ?nm a deathtouch trample (length ?bs)) ((t, g), r) ?bs = Inr sr"
      and s': "s = trample_simple lives ?nm a trample sr"
      by (auto simp: map_sum_Inr)
    have "tables_ok (fst (fst sr))"
      by (rule fold_result_keeps [OF sr]) (use assms(2) st deal_simple_ok in auto)
    then show ?thesis by (simp add: s' trample_simple_ok)
  next
    case (Some plan)
    then have "trample_planned lives ?nm a trample (deal_planned ?nm a deathtouch plan ((t, g), r)) = (s, strike)"
      using s by simp
    moreover have "tables_ok (fst (fst (trample_planned lives ?nm a trample (deal_planned ?nm a deathtouch plan ((t, g), r)))))"
      using assms(2) st by (intro trample_planned_ok deal_planned_ok) simp
    ultimately show ?thesis by simp
  qed
  then show ?thesis
    using strike by (cases strike) (auto intro: strike_back_ok elim: fold_result_keeps [where P = "\<lambda>st. tables_ok (fst st)"])
qed

lemma unblocked_attacker_ok: "tables_ok (fst st) \<Longrightarrow> tables_ok (fst (unblocked_attacker lives a r st))"
  by (auto simp: unblocked_attacker_def split: prod.splits option.splits)

lemma attacker_damage_ok:
  "attacker_damage lives plans fs n st a = Inr st' \<Longrightarrow> tables_ok (fst st) \<Longrightarrow> tables_ok (fst st')"
  using unblocked_attacker_ok [of st]
  by (cases st) (auto simp: attacker_damage_def and_then_Inr split: option.splits if_splits intro: blocked_attacker_ok)

lemma fill_tables_ok: "fill_tables plans fs n g = Inr (t, g') \<Longrightarrow> tables_ok t"
  unfolding fill_tables_def
  by (drule fold_result_keeps [where P = "\<lambda>st. tables_ok (fst st)"]) (auto intro: attacker_damage_ok)

subsection \<open>Increases\<close>

definition raised :: "damage_tables \<Rightarrow> damage_tables \<Rightarrow> bool" where
  "raised t0 t \<longleftrightarrow> tables_ok t \<and> dt_sources t = dt_sources t0 \<and> dt_player_hits t = dt_player_hits t0"

lemma tables_ok_raise:
  assumes "tables_ok t" "target \<in> fst ` set (dt_creatures t)"
  shows "tables_ok (t\<lparr>dt_creatures := bt_add target d (dt_creatures t), dt_dealt := bt_add source d (dt_dealt t)\<rparr>)"
proof -
  have "fst ` set (bt_add target d (dt_creatures t)) = fst ` set (dt_creatures t)"
    unfolding bt_add_keys by (rule insert_absorb [OF assms(2)])
  with assms(1) show ?thesis by (simp add: tables_ok_def bt_ordered_add ac_simps)
qed

lemma boost_creature_ok:
  assumes "raised t0 (fst st)" "target \<in> fst ` set (dt_sources t0)"
  shows "raised t0 (fst (boost_creature target ctl st source))"
proof -
  obtain t g where st: "st = (t, g)" by fastforce
  have "tables_ok t" "dt_sources t = dt_sources t0" using assms(1) by (simp_all add: st raised_def)
  moreover from this(1) have "fst ` set (dt_sources t) = fst ` set (dt_creatures t)"
    unfolding tables_ok_def by blast
  ultimately have "target \<in> fst ` set (dt_creatures t)" using assms(2) by metis
  with assms(1) show ?thesis by (simp add: st boost_creature_def raised_def Let_def tables_ok_raise)
qed

lemma boost_target_ok:
  "raised t0 (fst st) \<Longrightarrow> e \<in> set (dt_sources t0) \<Longrightarrow> raised t0 (fst (boost_target st e))"
  by (auto simp: boost_target_def split: prod.splits option.splits
      intro!: foldl_keeps [where P = "\<lambda>st. raised t0 (fst st)"] boost_creature_ok)
    (auto intro: rev_image_eqI)

lemma hits_on_simps [simp]:
  "hits_on [] p = 0" "hits_on ((a, q, d) # hits) p = (if q = p then d else 0) + hits_on hits p"
  by (simp_all add: hits_on_def)

text \<open>Between the recorded hits and the raised ones the tables differ by the increases.\<close>

lemma boost_hits_ok:
  "boost_hits hits (t, g) = ((t', g'), hits') \<Longrightarrow> tables_ok (t\<lparr>dt_player_hits := base @ hits\<rparr>)
    \<Longrightarrow> tables_ok (t'\<lparr>dt_player_hits := base @ hits'\<rparr>)"
proof (induction hits arbitrary: t g hits' base)
  case (Cons h hits)
  obtain a p d where h: "h = (a, p, d)" by (cases h) auto
  let ?b = "get_damage_boost_for_source g a p"
  let ?raise = "\<not> sint ?b \<le> 0"
  let ?d = "if ?raise then d + ?b else d"
  let ?t = "if ?raise then t\<lparr>dt_players := bt_add p ?b (dt_players t), dt_dealt := bt_add a ?b (dt_dealt t)\<rparr> else t"
  obtain g1 rest where rest: "boost_hits hits (?t, g1) = ((t', g'), rest)" "hits' = (a, p, ?d) # rest"
    using Cons.prems(1) by (cases ?raise) (auto simp: h Let_def map_prod_def split: prod.splits if_splits)
  have "tables_ok (?t\<lparr>dt_player_hits := (base @ [(a, p, ?d)]) @ hits\<rparr>)"
    using Cons.prems(2)
    by (cases ?raise) (auto simp: h tables_ok_def bt_ordered_add bt_get_add hits_on_def fun_eq_iff ac_simps)
  from Cons.IH [OF rest(1) this] show ?case using rest(2) by simp
qed simp

lemma boost_tables_ok: "tables_ok t \<Longrightarrow> boost_tables (t, g) = (t', g') \<Longrightarrow> tables_ok t'"
proof -
  assume t: "tables_ok t" and b: "boost_tables (t, g) = (t', g')"
  obtain t1 g1 where t1: "foldl boost_target (t, g) (dt_sources t) = (t1, g1)" by fastforce
  have "raised t (fst (foldl boost_target (t, g) (dt_sources t)))"
    by (rule foldl_keeps) (use t in \<open>simp_all add: raised_def [of t t] boost_target_ok\<close>)
  then have "tables_ok t1" by (simp add: t1 raised_def)
  moreover have "t1\<lparr>dt_player_hits := [] @ dt_player_hits t1\<rparr> = t1" by simp
  ultimately have "tables_ok (t1\<lparr>dt_player_hits := [] @ dt_player_hits t1\<rparr>)" by metis
  moreover obtain t2 g2 hits where t2: "boost_hits (dt_player_hits t1) (t1, g1) = ((t2, g2), hits)"
    by (metis surj_pair)
  ultimately have "tables_ok (t2\<lparr>dt_player_hits := [] @ hits\<rparr>)" by (rule boost_hits_ok [rotated])
  with b t1 t2 show ?thesis by (simp add: boost_tables_def)
qed

end
