(* ===== verification/StateBased.thy ===== *)
theory StateBased
  imports CombatDamage "HOL-Library.List_Lexorder"
begin

section \<open>State-based actions\<close>

text \<open>
  The state-based actions of \<open>mtg-engine/src/game/state.rs\<close>: lethal damage and loyalty, the legend rule, the
  sweep of permanents from a set, the attachment of Auras and Equipment, and the two passes that
  re-derive who controls a permanent. Triggers of a death are the field of \<open>game_env\<close>, a move is the
  argument \<open>move\<close>.
\<close>

subsection \<open>Lethal damage\<close>

definition sba_dies :: "nat \<Rightarrow> game_state \<Rightarrow> card_id \<Rightarrow> mtg_error + bool" where
  "sba_dies n g c = (case card_of g c of
       None \<Rightarrow> Inr False
     | Some k \<Rightarrow> if \<not> is_creature k then Inr False
         else map_sum id (\<lambda>t. sint t \<le> 0 \<or> (sint t \<le> sint (c_damage k) \<and> \<not> has_indestructible k))
           (effective_toughness_or n g c k))"

definition owned :: "game_state \<Rightarrow> card_id list \<Rightarrow> (card_id \<times> player_id) list" where
  "owned g cs = List.map_filter (\<lambda>c. map_option (\<lambda>k. (c, c_owner k)) (card_of g c)) cs"

definition log_if_named :: "string option \<Rightarrow> string \<Rightarrow> game_state \<Rightarrow> game_state" where
  "log_if_named nm msg g = (case nm of None \<Rightarrow> g | Some s \<Rightarrow> game_log (s @ msg) g)"

definition kill_creature :: "game_env \<Rightarrow> mover \<Rightarrow> game_state \<Rightarrow> card_id \<times> player_id \<Rightarrow> mtg_error + game_state" where
  "kill_creature env move g = (\<lambda>(c, ow). let nm = map_option c_name (card_of g c);
       dest = death_destination_for_card g c in
     map_sum id (log_if_named nm ('' ('' @ show_nat (unat c)
         @ (if dest = Exile then '') exiled instead of dying'' else '') dies from lethal damage'')))
       (move c Battlefield dest ow (env_death_triggers env c g)))"

definition no_loyalty :: "game_state \<Rightarrow> card_id list" where
  "no_loyalty g = filter (\<lambda>c. case card_of g c of
       None \<Rightarrow> False | Some k \<Rightarrow> is_planeswalker k \<and> get_counter k Loyalty = 0) (z_cards (gs_battlefield g))"

definition bury_planeswalker :: "mover \<Rightarrow> game_state \<Rightarrow> card_id \<times> player_id \<Rightarrow> mtg_error + game_state" where
  "bury_planeswalker move g = (\<lambda>(c, ow). map_sum id (log_if_named (map_option c_name (card_of g c))
       ('' ('' @ show_nat (unat c) @ '') has 0 loyalty and is put into the graveyard''))
     (move c Battlefield (death_destination_for_card g c) ow g))"

definition check_lethal_damage :: "game_env \<Rightarrow> mover \<Rightarrow> nat \<Rightarrow> game_state \<Rightarrow> mtg_error + game_state" where
  "check_lethal_damage env move n g =
     and_then (filter_result (sba_dies n g) (z_cards (gs_battlefield g))) (\<lambda>dying.
     and_then (fold_result (kill_creature env move) g (owned g dying)) (\<lambda>g1.
     fold_result (bury_planeswalker move) g1 (owned g1 (no_loyalty g1))))"

subsection \<open>The legend rule\<close>

text \<open>The groups by controller and name, in the order of the keys; each keeps its first permanent.\<close>

definition legend_key :: "game_state \<Rightarrow> card_id \<Rightarrow> (player_id \<times> string) option" where
  "legend_key g c = (case card_of g c of
       None \<Rightarrow> None | Some k \<Rightarrow> if c_is_legendary k then Some (c_controller k, c_name k) else None)"

definition legend_group :: "game_state \<Rightarrow> player_id \<times> string \<Rightarrow> card_id list" where
  "legend_group g key = filter (\<lambda>c. legend_key g c = Some key) (z_cards (gs_battlefield g))"

definition legend_keys :: "game_state \<Rightarrow> (player_id \<times> string) list" where
  "legend_keys g = sort_key fst (sort_key (\<lambda>(_, nm). map (of_char :: char \<Rightarrow> nat) nm)
     (remdups (List.map_filter (legend_key g) (z_cards (gs_battlefield g)))))"

definition legend_victims :: "game_state \<Rightarrow> (card_id \<times> player_id \<times> string \<times> card_id) list" where
  "legend_victims g = concat (map (\<lambda>key. case legend_group g key of
       [] \<Rightarrow> []
     | kept # dups \<Rightarrow> map (\<lambda>(c, ow). (c, ow, snd key, kept)) (owned g dups)) (legend_keys g))"

definition check_legendary_rule :: "mover \<Rightarrow> game_state \<Rightarrow> mtg_error + game_state" where
  "check_legendary_rule move g = fold_result (\<lambda>h (c, ow, nm, kept).
     map_sum id (game_log (nm @ '' ('' @ show_nat (unat c) @ '') sacrificed due to legendary rule (duplicate of ''
         @ nm @ '' ('' @ show_nat (unat kept) @ ''))''))
       (move c Battlefield (death_destination_for_card h c) ow h)) g (legend_victims g)"

subsection \<open>Sweeps by set\<close>

definition sweepers :: "game_state \<Rightarrow> (card_id \<times> target_restriction) list" where
  "sweepers g = List.map_filter (\<lambda>i. case card_of g i of
       None \<Rightarrow> None
     | Some k \<Rightarrow> find_map (\<lambda>ab. case ab of SacrificeMatchingPresent r d \<Rightarrow> Some (i, r) | _ \<Rightarrow> None)
         (c_static_abilities k)) (z_cards (gs_battlefield g))"

definition swept :: "game_state \<Rightarrow> card_id list" where
  "swept g = filter (\<lambda>c. case card_of g c of
       None \<Rightarrow> False | Some k \<Rightarrow> list_ex (\<lambda>(src, r). matches_excluding r k src) (sweepers g))
     (z_cards (gs_battlefield g))"

definition sweep_one :: "game_env \<Rightarrow> mover \<Rightarrow> game_state \<Rightarrow> card_id \<times> player_id \<Rightarrow> mtg_error + game_state" where
  "sweep_one env move g = (\<lambda>(c, ow). let nm = map_option c_name (card_of g c);
       g1 = env_death_triggers env c g in
     map_sum id (log_if_named nm ('' ('' @ show_nat (unat c) @ '') is sacrificed (originally-printed-set hoser)''))
       (move c Battlefield (death_destination_for_card g1 c) ow g1))"

definition check_set_origin_sacrifice :: "game_env \<Rightarrow> mover \<Rightarrow> game_state \<Rightarrow> mtg_error + game_state" where
  "check_set_origin_sacrifice env move g =
     (if sweepers g = [] then Inr g else fold_result (sweep_one env move) g (owned g (swept g)))"

subsection \<open>Attachments\<close>

definition orphaned_auras :: "game_state \<Rightarrow> card_id list" where
  "orphaned_auras g = filter (\<lambda>c. case card_of g c of
       None \<Rightarrow> False
     | Some k \<Rightarrow> is_aura k \<and> (case c_attached_to k of
           None \<Rightarrow> False | Some h \<Rightarrow> h \<notin> set (z_cards (gs_battlefield g)))) (z_cards (gs_battlefield g))"

definition check_aura_attachment :: "mover \<Rightarrow> game_state \<Rightarrow> mtg_error + game_state" where
  "check_aura_attachment move g = fold_result (\<lambda>h (c, ow).
     map_sum id (game_log (card_name_or ''Unknown'' h c @ '' ('' @ show_nat (unat c)
         @ '') goes to graveyard (aura not attached to valid permanent)''))
       (move c Battlefield (death_destination_for_card h c) ow h)) g (owned g (orphaned_auras g))"

definition loose_equipment :: "game_state \<Rightarrow> card_id list" where
  "loose_equipment g = filter (\<lambda>c. case card_of g c of
       None \<Rightarrow> False
     | Some k \<Rightarrow> is_equipment k \<and> (case c_attached_to k of
           None \<Rightarrow> False
         | Some h \<Rightarrow> is_creature k \<or> h \<notin> set (z_cards (gs_battlefield g))
             \<or> (case card_of g h of None \<Rightarrow> False | Some t \<Rightarrow> \<not> is_creature t)))
     (z_cards (gs_battlefield g))"

definition check_equipment_attachment :: "game_state \<Rightarrow> game_state" where
  "check_equipment_attachment g = foldl (\<lambda>h c. case card_of h c of
       None \<Rightarrow> h
     | Some k \<Rightarrow> game_log (tag_card c k @ '' becomes unattached'')
         (map_card c (\<lambda>k. k\<lparr>c_attached_to := None\<rparr>) h)) g (loose_equipment g)"

subsection \<open>Control\<close>

text \<open>The control an Aura on the battlefield grants over its host: the host, the Aura, its controller.\<close>

definition control_aura :: "game_state \<Rightarrow> card_id \<Rightarrow> (card_id \<times> card_id \<times> player_id) option" where
  "control_aura g i = (case card_of g i of
       None \<Rightarrow> None
     | Some k \<Rightarrow> (case c_attached_to k of
           None \<Rightarrow> None
         | Some h \<Rightarrow> if is_aura k \<and> list_ex (\<lambda>ab. case ab of GainControl sel d \<Rightarrow> True | _ \<Rightarrow> False) (c_static_abilities k)
               \<and> h \<in> set (z_cards (gs_battlefield g)) then Some (h, i, c_controller k) else None))"

text \<open>Later Auras overwrite earlier ones.\<close>

definition control_overrides :: "game_state \<Rightarrow> (card_id \<times> card_id \<times> player_id) list" where
  "control_overrides g = foldl (\<lambda>slots e. if fst e \<in> fst ` set slots
       then update_first (\<lambda>s. fst s = fst e) (\<lambda>_. e) slots else slots @ [e]) []
     (List.map_filter (control_aura g) (z_cards (gs_battlefield g)))"

definition change_control :: "card_id \<Rightarrow> player_id \<Rightarrow> player_id \<Rightarrow> game_state \<Rightarrow> game_state" where
  "change_control c old new g =
     log_action (ChangeController c old new) (map_card c (\<lambda>k. k\<lparr>c_controller := new\<rparr>) g)"

definition aura_control_message :: "card \<Rightarrow> player_id \<Rightarrow> bool \<Rightarrow> game_state \<Rightarrow> game_state" where
  "aura_control_message k desired returns g = game_log (c_name k
     @ (if returns then '' returns to '' else '' comes under '') @ player_display_name g desired
     @ [CHR 0x27] @ ''s control'') g"

definition apply_aura_control ::
  "(card_id \<times> card_id \<times> player_id) list \<Rightarrow> game_state \<Rightarrow> card_id \<Rightarrow> game_state" where
  "apply_aura_control overrides g c = (case card_of g c of
       None \<Rightarrow> g
     | Some k \<Rightarrow> (case (case map_of overrides c of
           Some (aura, ctl) \<Rightarrow> Some (ctl, Some aura)
         | None \<Rightarrow> if c_control_from_aura k = None then None else Some (c_owner k, None)) of
           None \<Rightarrow> g
         | Some (desired, new_aura) \<Rightarrow>
             if c_controller k = desired \<and> c_control_from_aura k = new_aura then g
             else let g1 = map_card c (\<lambda>k. k\<lparr>c_control_from_aura := new_aura\<rparr>) g in
               if c_controller k = desired then g1
               else aura_control_message k desired (new_aura = None) (change_control c (c_controller k) desired g1)))"

definition recompute_aura_control :: "game_state \<Rightarrow> game_state" where
  "recompute_aura_control g = foldl (apply_aura_control (control_overrides g)) g (z_cards (gs_battlefield g))"

definition grant_holds :: "game_state \<Rightarrow> card_id \<Rightarrow> player_id \<Rightarrow> bool" where
  "grant_holds g source grantee = (case card_of g source of
       None \<Rightarrow> False | Some s \<Rightarrow> source \<in> set (z_cards (gs_battlefield g)) \<and> c_controller s = grantee)"

definition apply_source_control :: "game_state \<Rightarrow> card_id \<Rightarrow> game_state" where
  "apply_source_control g c = (case card_of g c of
       None \<Rightarrow> g
     | Some k \<Rightarrow> (case c_control_grant k of
           None \<Rightarrow> g
         | Some (source, grantee) \<Rightarrow>
             if grant_holds g source grantee
             then (if c_controller k = grantee then g else change_control c (c_controller k) grantee g)
             else let g1 = map_card c (\<lambda>k. k\<lparr>c_control_grant := None\<rparr>) g in
               if c_controller k = c_owner k then g1
               else aura_control_message k (c_owner k) True (change_control c (c_controller k) (c_owner k) g1)))"

definition recompute_source_control :: "game_state \<Rightarrow> game_state" where
  "recompute_source_control g = foldl apply_source_control g (z_cards (gs_battlefield g))"

subsection \<open>Which permanents the legend rule removes\<close>

lemma owned_ids: "fst ` set (owned g cs) = {c \<in> set cs. card_of g c \<noteq> None}"
  by (force simp: owned_def set_map_filter)

lemma legend_keys_set: "set (legend_keys g) = {key. \<exists>c \<in> set (z_cards (gs_battlefield g)). legend_key g c = Some key}"
  by (auto simp: legend_keys_def set_map_filter)

lemma legend_victims_ids:
  "fst ` set (legend_victims g) = (\<Union>key \<in> set (legend_keys g). set (tl (legend_group g key)))"
proof -
  have ids: "fst ` set (case legend_group g key of [] \<Rightarrow> []
      | kept # dups \<Rightarrow> map (\<lambda>(c, ow). (c, ow, snd key, kept)) (owned g dups)) = set (tl (legend_group g key))" for key
  proof (cases "legend_group g key")
    case (Cons kept dups)
    have "card_of g c \<noteq> None" if "c \<in> set dups" for c
    proof -
      have "c \<in> set (legend_group g key)" using that Cons by simp
      then show ?thesis by (auto simp: legend_group_def legend_key_def split: option.splits)
    qed
    then have "fst ` set (owned g dups) = set dups" by (auto simp: owned_ids)
    then show ?thesis by (simp add: Cons image_image case_prod_beta')
  qed simp
  show ?thesis unfolding legend_victims_def set_concat image_Union set_map image_image ids by simp
qed

subsection \<open>Who controls a permanent\<close>

lemma card_of_logger [simp]: "card_of (g\<lparr>gs_logger := l\<rparr>) = card_of g"
  by (simp add: card_of_def fun_eq_iff)

lemma map_of_update_first:
  "h \<in> fst ` set m \<Longrightarrow> map_of (update_first (\<lambda>s. fst s = h) (\<lambda>_. (h, v)) m) = (map_of m)(h \<mapsto> v)"
proof (induction m)
  case (Cons q m)
  then show ?case by (cases "fst q = h") (auto simp: fun_eq_iff)
qed simp

lemma map_of_control_overrides:
  "map_of (control_overrides g) = map_of (rev (List.map_filter (control_aura g) (z_cards (gs_battlefield g))))"
proof -
  let ?add = "\<lambda>(slots :: (card_id \<times> card_id \<times> player_id) list) e. if fst e \<in> fst ` set slots
       then update_first (\<lambda>s. fst s = fst e) (\<lambda>_. e) slots else slots @ [e]"
  have step: "map_of (?add slots e) = (map_of slots)(fst e \<mapsto> snd e)" for slots :: "(card_id \<times> card_id \<times> player_id) list" and e
  proof (cases "fst e \<in> fst ` set slots")
    case True
    then show ?thesis using map_of_update_first [of "fst e" slots "snd e"] by simp
  next
    case False
    then have "map_of slots (fst e) = None" by (simp add: map_of_eq_None_iff)
    then show ?thesis using False by (auto simp: fun_eq_iff map_add_def split: option.splits)
  qed
  have "map_of (foldl ?add slots es) = map_of slots ++ map_of (rev es)" for slots es
  proof (induction es arbitrary: slots)
    case (Cons e es)
    have "map_of (foldl ?add (?add slots e) es) = map_of (?add slots e) ++ map_of (rev es)" by (rule Cons.IH)
    also have "\<dots> = (map_of slots)(fst e \<mapsto> snd e) ++ map_of (rev es)" by (simp only: step)
    also have "\<dots> = map_of slots ++ map_of (rev (e # es))"
      by (cases e) (simp add: fun_eq_iff map_add_def split: option.splits)
    finally show ?case by simp
  qed simp
  from this [of "[]"] show ?thesis by (simp add: control_overrides_def)
qed

text \<open>What the pass makes of a permanent whose last control Aura is the argument.\<close>

definition under_auras :: "(card_id \<times> player_id) option \<Rightarrow> card \<Rightarrow> card" where
  "under_auras aura k = (case aura of
       Some (a, ctl) \<Rightarrow> k\<lparr>c_controller := ctl, c_control_from_aura := Some a\<rparr>
     | None \<Rightarrow> if c_control_from_aura k = None then k else k\<lparr>c_controller := c_owner k, c_control_from_aura := None\<rparr>)"

lemma apply_aura_control_card:
  "card_of (apply_aura_control ov g c) d
    = (if d = c then map_option (under_auras (map_of ov c)) (card_of g d) else card_of g d)"
proof -
  have said: "card_of (aura_control_message k p r h) = card_of h" for k p r h
    by (simp add: aura_control_message_def game_log_def)
  have changed: "card_of (change_control c old new h) i
      = (if i = c then map_option (\<lambda>k. k\<lparr>c_controller := new\<rparr>) (card_of h i) else card_of h i)" for old new h i
    by (simp add: change_control_def card_of_map_card)
  show ?thesis
  proof (cases "card_of g c")
    case (Some k)
    show ?thesis
    proof (cases "map_of ov c")
      case None
      then show ?thesis using Some
        by (simp add: apply_aura_control_def under_auras_def said changed card_of_map_card Let_def)
    next
      case (Some e)
      then show ?thesis using \<open>card_of g c = Some k\<close>
        by (cases e) (simp add: apply_aura_control_def under_auras_def said changed card_of_map_card Let_def)
    qed
  qed (simp add: apply_aura_control_def)
qed

end
