(* ===== verification/CombatProperties.thy ===== *)
theory CombatProperties
  imports AssignFacts DamageFacts StateBased
begin

section \<open>Properties of combat and of the state-based actions\<close>

text \<open>
  What the combat steps promise: the offered attackers are those a declaration accepts, the blocks that
  are kept, what an assignment of damage spends and that it ends, the balance of the damage tables,
  and what the state-based actions leave. The theorem after a property with hypotheses applies it
  to a concrete combat.
\<close>

text \<open>A combat of three creatures: the attacker 3 of player 0, the creatures 4 and 5 of player 1.\<close>

definition fighter :: "card_id \<Rightarrow> player_id \<Rightarrow> keyword_set \<Rightarrow> card" where
  "fighter i p ks = map_cache (\<lambda>c. c\<lparr>cc_is_creature := True\<rparr>) ((card_new i ''Fighter'' p)\<lparr>c_types := [Creature],
     c_base_power := Some 2, c_base_toughness := Some 2, c_keywords := ks\<rparr>)"

definition skirmish :: "keyword_set \<Rightarrow> keyword_set \<Rightarrow> keyword_set \<Rightarrow> combat_state \<Rightarrow> game_state" where
  "skirmish k3 k4 k5 cs = (new_two_player (\<lambda>_. [0]) ''A'' ''B'' 20)\<lparr>
     gs_cards := \<lparr>entities = [None, None, None, Some (fighter 3 0 k3), Some (fighter 4 1 k4), Some (fighter 5 1 k5)]\<rparr>,
     gs_battlefield := (card_zone_new Battlefield 2)\<lparr>z_cards := [3, 4, 5]\<rparr>, gs_combat := cs\<rparr>"

lemmas skirmish_defs = skirmish_def new_two_player_def new_two_player_with_capacity_def

lemma skirmish_cards [simp]:
  "card_of (skirmish k3 k4 k5 cs) 3 = Some (fighter 3 0 k3)"
  "card_of (skirmish k3 k4 k5 cs) 4 = Some (fighter 4 1 k4)"
  "card_of (skirmish k3 k4 k5 cs) 5 = Some (fighter 5 1 k5)"
  by (simp_all add: skirmish_defs card_of_def store_try_get_def)

lemma skirmish_fields [simp]:
  "z_cards (gs_battlefield (skirmish k3 k4 k5 cs)) = [3, 4, 5]" "gs_combat (skirmish k3 k4 k5 cs) = cs"
  "gs_player_zones (skirmish k3 k4 k5 cs) = [(0, player_zones_new 0), (1, player_zones_new 1)]"
  "gs_persistent_effects (skirmish k3 k4 k5 cs) = pes_new"
  "gs_players (skirmish k3 k4 k5 cs) = [player_new 0 ''A'' 20, player_new 1 ''B'' 20]"
  "gs_turn (skirmish k3 k4 k5 cs) = turn_structure_new_with_idx 0 0"
  by (simp_all add: skirmish_defs)

lemma fighter_fields [simp]:
  "c_static_abilities (fighter i p ks) = []" "c_keywords (fighter i p ks) = ks" "c_controller (fighter i p ks) = p"
  "c_tapped (fighter i p ks) = False" "is_creature (fighter i p ks)" "is_enchantment (fighter i p ks) = False"
  "c_turn_entered_battlefield (fighter i p ks) = None" "c_colors (fighter i p ks) = []"
  "is_artifact (fighter i p ks) = False" "has_keyword (fighter i p ks) w = kw_contains ks w"
  "c_temp_base_power (fighter i p ks) = None" "c_base_power (fighter i p ks) = Some 2" "c_power_bonus (fighter i p ks) = 0"
  "c_temp_base_toughness (fighter i p ks) = None" "c_base_toughness (fighter i p ks) = Some 2" "c_toughness_bonus (fighter i p ks) = 0"
  "get_counter (fighter i p ks) t = 0" "c_prevent_all_combat_damage_this_turn (fighter i p ks) = False"
  by (simp_all add: fighter_def map_cache_def card_new_def Let_def is_creature_def card_cache_def
    is_enchantment_def is_artifact_def has_keyword_def card_cache_new_def set_mana_production_def
    get_counter_def count_of_def)

lemma skirmish_kw [simp]: "c \<in> {3, 4, 5} \<Longrightarrow> kw (Suc n) (skirmish k3 k4 k5 cs) c w
    = Inr (kw_contains (if c = 3 then k3 else if c = 4 then k4 else k5) w)"
  by (auto simp: has_keyword_with_effects_def keyword_or_granted_def grant_from_source_def static_sources_def
      player_zones_new_def card_zone_new_def kw_new_def kw_contains_def)

definition keyworded :: "keyword list \<Rightarrow> keyword_set" where
  "keyworded ws = foldl kw_insert kw_new ws"

lemma skirmish_no_effects:
  "calculate_modifypt_effects (Suc n) (skirmish k3 k4 k5 cs) c k = Inr (0, 0)"
  by (simp add: calculate_modifypt_effects_def modify_from_source_def static_sources_def player_zones_new_def card_zone_new_def)

lemma skirmish_toughness:
  "effective_toughness_or (Suc n) (skirmish k3 k4 k5 cs) 4 (fighter 4 1 k4) = Inr 2"
  "effective_toughness_or (Suc n) (skirmish k3 k4 k5 cs) 5 (fighter 5 1 k5) = Inr 2"
  by (simp_all add: effective_toughness_or_def unwrap_effective_def get_effective_toughness_def get_pt_breakdown_def
      skirmish_no_effects calculate_cda_pt_def opalescence_pt_def is_opalescence_creature_def
      calculate_modifypt_counters_def pt_toughness_def final_pt_def or_else_def unwrap_or_def)

lemma skirmish_power:
  "effective_power_or (Suc n) (skirmish k3 k4 k5 cs) 3 (fighter 3 0 k3) = Inr 2"
  by (simp add: effective_power_or_def unwrap_effective_def get_effective_power_def get_pt_breakdown_def
      skirmish_no_effects calculate_cda_pt_def opalescence_pt_def is_opalescence_creature_def
      calculate_modifypt_counters_def pt_power_def final_pt_def or_else_def unwrap_or_def)

subsection \<open>Declarations\<close>



text \<open>
  Of the blocks submitted for an attacker with menace, none is kept when exactly one was submitted, and
  otherwise the legal ones are kept, however many they are: two submitted blocks of which one is
  illegal leave an attacker with menace blocked by one creature.
\<close>

theorem menace_blocks_kept:
  assumes "validate_blocking_restrictions n g blocks = Inr kept" "kw n g a ''Menace'' = Inr True"
  shows "blocks_of kept a = (if blocks_of blocks a = 1 then 0
    else blocks_of (filter (\<lambda>(b, x). can_block n g x b = Inr True) blocks) a)"
proof -
  have kept: "kept = filter (\<lambda>x. block_kept n g blocks x = Inr True) blocks"
    using filter_result_Inr assms(1) by (auto simp: validate_blocking_restrictions_def)
  have "block_kept n g blocks (b, a) = Inr True
      \<longleftrightarrow> can_block n g a b = Inr True \<and> blocks_of blocks a \<noteq> 1" for b
    using assms(2) by (cases "can_block n g a b") (auto simp: block_kept_def)
  then have "filter (\<lambda>(_, x). x = a) kept
      = (if blocks_of blocks a = 1 then []
         else filter (\<lambda>(_, x). x = a) (filter (\<lambda>(b, x). can_block n g x b = Inr True) blocks))"
    unfolding kept filter_filter by (auto intro!: filter_cong simp: filter_empty_conv)
  then show ?thesis by (simp add: blocks_of_def)
qed

theorem menace_blocks_kept_witness:
  "\<exists>kept. validate_blocking_restrictions 1
       (skirmish (keyworded [''Menace'', ''Shadow'']) (keyworded [''Shadow'']) kw_new combat_new) [(4, 3), (5, 3)] = Inr kept
     \<and> blocks_of [(4, 3), (5, 3)] (3 :: card_id) = 2 \<and> blocks_of kept 3 = 1"
proof -
  let ?g = "skirmish (keyworded [''Menace'', ''Shadow'']) (keyworded [''Shadow'']) kw_new combat_new"
  have legal: "can_block 1 ?g 3 4 = Inr True" "can_block 1 ?g 3 5 = Inr False"
    by (simp_all add: can_block_def flying_stops_def evasion_stops_def is_creature_unblockable_def pes_new_def
        keyworded_def has_shadow_def has_horsemanship_def has_fear_def has_intimidate_def has_skulk_def
        cant_block_matching_def is_block_prohibited_def any_static_def landwalk_stops_def)
  then obtain kept where kept: "validate_blocking_restrictions 1 ?g [(4, 3), (5, 3)] = Inr kept"
    by (simp add: validate_blocking_restrictions_def block_kept_def keyworded_def)
  have "blocks_of kept 3 = 1"
    using menace_blocks_kept [OF kept, of 3] legal by (simp add: keyworded_def blocks_of_def)
  then show ?thesis using kept by (auto simp: blocks_of_def)
qed

subsection \<open>Assigning damage\<close>

text \<open>
  C19: an assignment spends exactly the power of the attacker, unless the attacker has trample or no
  blocker can be killed; then it spends at most the power. This holds whatever the controller
  answers, for a power that is not negative and blockers as \<open>calculate_lethal_damage\<close> describes them.
\<close>

theorem assignment_spends_power:
  assumes "assign_with trample bs pw answers = Assigned res rest" "0 \<le> sint pw" "lethals_ok bs"
  shows "if trample \<or> List.map_filter snd bs = [] then assigned_total res \<le> sint pw
    else assigned_total res = sint pw"
proof -
  have "sint (sum_list (List.map_filter snd bs)) = lethal_total bs"
    using sint_sum_list [of "List.map_filter snd bs"] assms(3)
    by (force simp: lethals_ok_def lethal_total_def)
  show ?thesis
  proof (cases "lethal_total bs \<le> sint pw")
    case True
    with assms(1) \<open>_ = lethal_total bs\<close> have "res = assign_all trample bs pw" by (simp add: assign_with_def)
    with assign_all_total [OF assms(2,3)] show ?thesis by simp
  next
    case False
    with assms(1) \<open>_ = lethal_total bs\<close> have loop: "assign_loop trample bs pw [] answers = Assigned res rest"
      by (simp add: assign_with_def)
    have "\<exists>added. res = [] @ added \<and> spent_ok trample bs pw added"
      by (rule assign_loop_spent [OF loop assms(2)]) (use assms(3) False in \<open>simp_all add: lethals_ok_def\<close>)
    moreover have "List.map_filter snd bs \<noteq> []"
      using False assms(2) by (auto simp: lethal_total_def)
    ultimately show ?thesis by (auto simp: spent_ok_def)
  qed
qed

theorem assignment_spends_power_witness:
  "assign_with False [(1, Some 3), (2, Some 4), (3, None)] 5 [Chosen 2, Chosen 3]
     = Assigned [(2, 4), (3, 1)] [] \<and> assigned_total [(2, 4), (3, 1)] = 5"
proof -
  have "assign_with False [(1, Some 3), (2, Some 4), (3, None)] 5 [Chosen 2, Chosen 3]
      = Assigned [(2, 4), (3, 1)] []"
    by (simp add: assign_with_def assign_loop.simps killable_def without_blocker_def)
  then show ?thesis
    using assignment_spends_power [of False "[(1, Some 3), (2, Some 4), (3, None)]" 5 "[Chosen 2, Chosen 3]" "[(2, 4), (3, 1)]" "[]"]
    by (simp add: lethals_ok_def lethal_total_def)
qed



text \<open>Dealing changes the log alone, and a plan of positive amounts that nothing prevents is spent in full.\<close>

definition same_but_log :: "game_state \<Rightarrow> game_state \<Rightarrow> bool" where
  "same_but_log g h \<longleftrightarrow> (\<exists>l. h = g\<lparr>gs_logger := l\<rparr>)"

lemma same_but_log_refl [simp]: "same_but_log g g"
  unfolding same_but_log_def by (rule exI [of _ "gs_logger g"]) simp

lemma same_but_log_trans: "same_but_log g h \<Longrightarrow> same_but_log h j \<Longrightarrow> same_but_log g j"
  by (auto simp: same_but_log_def)

lemma prevented_but_log: "same_but_log g h \<Longrightarrow> is_color_prevented_by_aura h b a = is_color_prevented_by_aura g b a"
  by (auto simp: same_but_log_def is_color_prevented_by_aura_def colors_of_def get_attached_auras_def attached_where_def)

lemma hit_creature_log: "same_but_log g (snd (hit_creature nm a b d dt (t, g)))"
  by (auto simp: hit_creature_def log_combat_damage_to_creature_def game_log_def same_but_log_def intro: exI [of _ "gs_logger g"])

lemma deal_planned_spends:
  "(\<forall>q \<in> set plan. 0 < sint (snd q)) \<Longrightarrow> (\<And>b. \<not> is_color_prevented_by_aura (snd st) b a)
    \<Longrightarrow> same_but_log (snd st) (snd (fst (deal_planned nm a dt plan (st, r))))
      \<and> snd (deal_planned nm a dt plan (st, r)) = r - sum_list (map snd plan)"
proof (induction plan arbitrary: st r)
  case (Cons q plan)
  obtain b d t g where q: "q = (b, d)" "st = (t, g)" by fastforce
  let ?st = "hit_creature nm a b d dt st"
  have log: "same_but_log (snd st) (snd ?st)" using hit_creature_log q by simp
  have "same_but_log (snd ?st) (snd (fst (deal_planned nm a dt plan (?st, r - d))))
      \<and> snd (deal_planned nm a dt plan (?st, r - d)) = r - d - sum_list (map snd plan)"
    by (rule Cons.IH) (use Cons.prems prevented_but_log [OF log] in auto)
  moreover have "deal_planned nm a dt (q # plan) (st, r) = deal_planned nm a dt plan (?st, r - d)"
    using Cons.prems q by (simp add: deal_planned_def)
  ultimately show ?case using log same_but_log_trans q by (auto simp: algebra_simps)
qed (simp add: deal_planned_def)

text \<open>
  An attacker with trample whose power is below the total that kills its blockers assigns nothing to
  some blocker it could have wounded, and yet the power the assignment leaves, if nothing prevents it,
  goes to the defending player in full: damage tramples over a blocker without lethal damage.
\<close>

theorem trample_skips_blocker:
  assumes "assign_with True bs pw answers = Assigned res rest" "0 \<le> sint pw" "lethals_ok bs"
    and "sint pw < lethal_total bs" "assigned_total res < sint pw"
    and "\<And>b. \<not> is_color_prevented_by_aura g b a" "get_defending_player (gs_combat g) a = Some p"
    and "try_get_player g p = Some x" "p_source_prevention_shields x = []"
  shows "\<exists>b l h t'. (b, Some l) \<in> set bs \<and> b \<notin> fst ` set res
    \<and> trample_planned lives nm a True (deal_planned nm a dt res ((t, g), pw))
      = (hit_player lives nm a p (pw - sum_list (map snd res)) (t', h), True)"
proof -
  have "sint (sum_list (List.map_filter snd bs)) = lethal_total bs"
    using sint_sum_list [of "List.map_filter snd bs"] assms(3)
    by (force simp: lethals_ok_def lethal_total_def)
  with assms(1,4) have loop: "assign_loop True bs pw [] answers = Assigned res rest"
    by (simp add: assign_with_def)
  have "\<exists>added. res = [] @ added \<and> spent_ok True bs pw added"
    by (rule assign_loop_spent [OF loop assms(2)]) (use assms(3,4) in \<open>simp_all add: lethals_ok_def\<close>)
  then obtain b l where b: "(b, Some l) \<in> set bs" "b \<notin> fst ` set res" and pos: "\<forall>q \<in> set res. 0 < sint (snd q)"
    by (auto simp: spent_ok_def)
  let ?r = "pw - sum_list (map snd res)"
  have "sint (sum_list (map snd res)) = assigned_total res \<and> 0 \<le> assigned_total res"
    using sint_sum_list [of "map snd res"] pos assms(5) sint_lt [of pw]
    by (fastforce simp: assigned_total_def comp_def)
  then have r: "0 < sint ?r" using sint_minus [of "sum_list (map snd res)" pw] assms(5) by simp
  obtain t' h where d: "deal_planned nm a dt res ((t, g), pw) = ((t', h), ?r)" "same_but_log g h"
    using deal_planned_spends [OF pos, of "(t, g)" a nm dt pw] assms(6)
    by (cases "deal_planned nm a dt res ((t, g), pw)") auto
  then have "try_get_player h p = Some x" "gs_combat h = gs_combat g"
    using assms(8) by (auto simp: same_but_log_def try_get_player_def)
  then show ?thesis
    using b d(1) r assms(7,9) by (auto simp: trample_planned_def apply_source_prevention_shields_def)
qed

theorem trample_skips_blocker_witness:
  "\<exists>b l h t'. (b, Some l) \<in> set [(4, Some 3), (5 :: card_id, Some (4 :: i32))] \<and> b \<notin> fst ` set [(4 :: card_id, 3 :: i32)]
    \<and> trample_planned [] ''Fighter'' 3 True (deal_planned ''Fighter'' 3 False [(4, 3)]
        ((no_damage, skirmish kw_new kw_new kw_new (declare_attacker 3 1 combat_new)), 5))
      = (hit_player [] ''Fighter'' 3 1 2 (t', h), True)"
proof -
  let ?g = "skirmish kw_new kw_new kw_new (declare_attacker 3 1 combat_new)"
  have assigned: "assign_with True [(4, Some 3), (5, Some 4)] 5 [Chosen 4] = Assigned [(4, 3)] []"
    by (simp add: assign_with_def assign_loop.simps killable_def without_blocker_def)
  have plain: "\<not> is_color_prevented_by_aura ?g b 3" for b
    by (simp add: is_color_prevented_by_aura_def colors_of_def)
  have def: "get_defending_player (gs_combat ?g) 3 = Some 1"
    by (simp add: get_defending_player_def declare_attacker_def combat_new_def)
  have player: "try_get_player ?g 1 = Some (player_new 1 ''B'' 20)"
    by (simp add: try_get_player_def find_player_def player_new_def)
  show ?thesis
    using trample_skips_blocker [OF assigned _ _ _ _ plain def player, of "[]" "''Fighter''" False no_damage]
    by (simp add: lethals_ok_def lethal_total_def player_new_def)
qed

text \<open>
  C21: a plan recorded in one combat damage step and given to the step again, in the same state, yields
  the same game and the same plan, whatever the controllers would answer now: the recorded plan carries
  everything the controllers decided, provided none of them asked for an undo.
\<close>

theorem recorded_plan_replays:
  assumes "assign_combat_damage_planned env ds fuel n p answers1 answers2 first_strike_step None g = Inr (g', plan)"
    and "no_undo answers1" "no_undo answers2"
  shows "assign_combat_damage_planned env ds fuel n p any1 any2 first_strike_step (Some plan) g = Inr (g', plan)"
proof -
  from assms(1) obtain st where st: "collect_assignments ds n p answers1 answers2 g = Inr st" "ps_plan st = plan"
    by (auto simp: assign_combat_damage_planned_def and_then_Inr map_sum_Inr case_prod_beta')
  from collect_unchanged [OF st(1) assms(2,3)] have "ps_game st = g" "bt_ordered plan" by (simp_all add: st)
  with assms(1) st read_plan [of plan] show ?thesis by (simp add: assign_combat_damage_planned_def)
qed

theorem recorded_plan_replays_witness:
  "\<exists>g'. \<forall>env any1 any2. (let g = skirmish kw_new kw_new kw_new (declare_blocker 5 [3] (declare_blocker 4 [3] (declare_attacker 3 1 combat_new))) in
     assign_combat_damage_planned env Some 1 1 0 any1 any2 True (Some [(3, [(4, 2)])]) g = Inr (g', [(3, [(4, 2)])]))"
proof -
  let ?cs = "declare_blocker 5 [3] (declare_blocker 4 [3] (declare_attacker 3 1 combat_new))"
  let ?g = "skirmish kw_new kw_new kw_new ?cs"
  have cs: "get_attackers ?cs = [3]" "get_blockers ?cs 3 = [4, 5]" "is_blocked ?cs 3"
    by (simp_all add: get_attackers_def get_blockers_def is_blocked_def declare_blocker_def push_entry_def
        declare_attacker_def combat_new_def)
  have owner: "c_owner (fighter 3 0 kw_new) = 0" by (simp add: fighter_def map_cache_def card_new_def Let_def)
  have asked: "assign_with False [(4, Some 2), (5, Some 2)] 2 [Chosen 4] = Assigned [(4, 2)] []"
    by (simp add: assign_with_def assign_loop.simps killable_def without_blocker_def)
  have smart: "smart_damage_assignment Some 1 3 [4, 5] [Chosen 4] ?g = Inr (?g, [(4, 2)], [])"
    using asked by (simp add: smart_damage_assignment_def calculate_lethal_damage_def skirmish_power skirmish_toughness)
  have plan: "collect_assignments Some 1 0 [Chosen 4] [] ?g
      = Inr \<lparr>ps_game = ?g, ps_plan = [(3, [(4, 2)])], ps_attacker_answers = [], ps_blocker_answers = []\<rparr>"
    using smart by (simp add: collect_assignments_def plan_attacker_def cs owner bt_insert_def)
  have fill: "fill_tables [(3, [(4, 2)])] True 1 ?g = Inr (no_damage, ?g)"
    by (simp add: fill_tables_def cs attacker_damage_def strikes_now_def)
  have boost: "boost_tables (no_damage, ?g) = (no_damage, ?g)"
    by (simp add: boost_tables_def no_damage_def)
  have applied: "apply_tables env 1 1 no_damage ?g = Inr ?g" for env
    by (simp add: apply_tables_def no_damage_def track_commander_def player_damage_by_def opponents_hit_def
        creatures_to_destroy_def Let_def del: move_card.simps)
  have "assign_combat_damage_planned env Some 1 1 0 [Chosen 4] [] True None ?g = Inr (?g, [(3, [(4, 2)])])" for env
    unfolding assign_combat_damage_planned_def using plan fill boost applied by simp
  from recorded_plan_replays [OF this] show ?thesis by (auto simp: no_undo_def)
qed

subsection \<open>Dealing damage\<close>

text \<open>
  C22: the damage tables of a combat damage step, after the increases, are consistent: every unit of damage
  dealt by a creature is a unit taken by a creature or a player, the hits recorded on a player add up to
  what the player takes, sources are recorded for exactly the creatures that take damage, and only
  those are marked by deathtouch.
\<close>

theorem damage_tables_balance:
  assumes "fill_tables plans first_strike_step n g = Inr st"
  shows "tables_ok (fst (boost_tables st))"
proof -
  have "tables_ok (fst st)" using assms fill_tables_ok by (cases st) auto
  then show ?thesis using boost_tables_ok [of "fst st" "snd st"] by (cases "boost_tables st") auto
qed

theorem damage_tables_balance_witness:
  "\<exists>st. fill_tables [] False 1 (skirmish kw_new kw_new kw_new (declare_attacker 3 1 combat_new)) = Inr st
     \<and> dt_players (fst st) = [(1, 2)] \<and> tables_ok (fst (boost_tables st))"
proof -
  let ?g = "skirmish kw_new kw_new kw_new (declare_attacker 3 1 combat_new)"
  let ?cs = "declare_attacker 3 1 combat_new"
  have cs: "get_attackers ?cs = [3]" "is_blocked ?cs 3 = False" "get_defending_player ?cs 3 = Some 1"
    by (simp_all add: get_attackers_def get_defending_player_def is_blocked_def declare_attacker_def combat_new_def)
  have "effective_power_or 1 ?g 3 (fighter 3 0 kw_new) = Inr 2" by (simp add: skirmish_power)
  then obtain st where st: "fill_tables [] False 1 ?g = Inr st" "dt_players (fst st) = [(1, 2)]"
    by (simp add: fill_tables_def cs attacker_damage_def strikes_now_def unblocked_attacker_def
        apply_source_prevention_shields_def try_get_player_def find_player_def player_new_def hit_player_def
        record_player_hit_def no_damage_def bt_add_def Let_def)
  show ?thesis using damage_tables_balance [OF st(1)] st by auto
qed

text \<open>
  When no attacker has first strike or double strike, the first strike step deals no damage at all,
  although it is held because a blocker has first strike: the blocker strikes only in the turn of an
  attacker that strikes in the same step.
\<close>

theorem first_strike_wasted:
  assumes "\<And>a. a \<in> set (get_attackers (gs_combat g)) \<Longrightarrow> card_of g a \<noteq> None
      \<and> kw n g a ''FirstStrike'' = Inr False \<and> kw n g a ''DoubleStrike'' = Inr False"
  shows "fill_tables plans True n g = Inr (no_damage, g)"
proof -
  have "fold_result (attacker_damage (initial_lives g) plans True n) (no_damage, g) as = Inr (no_damage, g)"
    if "set as \<subseteq> set (get_attackers (gs_combat g))" for as
    using that by (induction as) (use assms in \<open>force simp: attacker_damage_def strikes_now_def\<close>)+
  then show ?thesis by (simp add: fill_tables_def)
qed

theorem first_strike_wasted_witness:
  "(let g = skirmish kw_new (keyworded [''FirstStrike'']) kw_new (declare_blocker 4 [3] (declare_attacker 3 1 combat_new)) in
     has_first_strike_combat g \<and> get_blockers (gs_combat g) 3 = [4]
     \<and> fill_tables [] True 1 g = Inr (no_damage, g))"
proof -
  let ?cs = "declare_blocker 4 [3] (declare_attacker 3 1 combat_new)"
  let ?g = "skirmish kw_new (keyworded [''FirstStrike'']) kw_new ?cs"
  have cs: "get_attackers ?cs = [3]" "get_blockers ?cs 3 = [4]" "is_blocked ?cs 3"
    by (simp_all add: get_attackers_def get_blockers_def is_blocked_def declare_blocker_def push_entry_def declare_attacker_def combat_new_def)
  have "fill_tables [] True 1 ?g = Inr (no_damage, ?g)"
    by (rule first_strike_wasted) (simp add: cs)
  then show ?thesis using cs
    by (simp add: has_first_strike_combat_def strikes_first_def has_first_strike_def keyworded_def)
qed

subsection \<open>State-based actions\<close>


definition twins :: game_state where
  "twins = (skirmish kw_new kw_new kw_new combat_new)\<lparr>gs_cards := \<lparr>entities = [None, None, None,
     Some ((fighter 3 0 kw_new)\<lparr>c_is_legendary := True\<rparr>), Some ((fighter 4 0 kw_new)\<lparr>c_is_legendary := True\<rparr>),
     Some (fighter 5 1 kw_new)]\<rparr>\<rparr>"


text \<open>
  C25: the control pass leaves every permanent as the last control Aura attached to it says: under the
  controller of that Aura, or, when none is left, back under its owner if an Aura held it before. It
  changes no other card and no other field.
\<close>

theorem aura_control_exact:
  assumes "distinct (z_cards (gs_battlefield g))"
  shows "card_of (recompute_aura_control g) c = (if c \<in> set (z_cards (gs_battlefield g))
    then map_option (under_auras (map_of (rev (List.map_filter (control_aura g) (z_cards (gs_battlefield g)))) c)) (card_of g c)
    else card_of g c)"
proof -
  have "card_of (foldl (apply_aura_control ov) h cs) c
      = (if c \<in> set cs then map_option (under_auras (map_of ov c)) (card_of h c) else card_of h c)"
    if "distinct cs" for ov h cs
    using that by (induction cs arbitrary: h) (auto simp: apply_aura_control_card)
  from this [OF assms] show ?thesis by (simp add: recompute_aura_control_def map_of_control_overrides)
qed

definition stolen :: game_state where
  "stolen = (skirmish kw_new kw_new kw_new combat_new)\<lparr>gs_cards := \<lparr>entities = [None, None, None, Some (fighter 3 0 kw_new),
     Some (map_cache (\<lambda>c. c\<lparr>cc_is_aura := True\<rparr>) ((card_new 4 ''Control Magic'' 1)\<lparr>c_attached_to := Some 3,
       c_static_abilities := [GainControl (OnAttached CreatureEnchantedBy) []]\<rparr>)), Some (fighter 5 1 kw_new)]\<rparr>\<rparr>"

theorem aura_control_exact_witness:
  "map_option c_controller (card_of (recompute_aura_control stolen) 3) = Some 1"
proof -
  have cards: "card_of stolen 3 = Some (fighter 3 0 kw_new)" "card_of stolen 5 = Some (fighter 5 1 kw_new)"
    "\<exists>k. card_of stolen 4 = Some k \<and> is_aura k \<and> c_attached_to k = Some 3 \<and> c_controller k = 1
       \<and> c_static_abilities k = [GainControl (OnAttached CreatureEnchantedBy) []]"
    by (simp_all add: stolen_def card_of_def store_try_get_def)
      (simp add: map_cache_def is_aura_def card_cache_def card_new_def Let_def)
  have field: "z_cards (gs_battlefield stolen) = [3, 4, 5]" by (simp add: stolen_def)
  have none: "c_attached_to (fighter i p ks) = None" for i p ks
    by (simp add: fighter_def map_cache_def card_new_def Let_def)
  have "map_of (rev (List.map_filter (control_aura stolen) [3, 4, 5])) 3 = Some (4, 1)"
    using cards by (auto simp: control_aura_def none field)
  then show ?thesis
    using aura_control_exact [of stolen 3] cards(1) by (simp add: field under_auras_def)
qed

end
