(* ===== verification/LoopState.thy ===== *)
theory LoopState
  imports CombatDamage Rewind
begin

section \<open>The state of the game loop\<close>

text \<open>
  The \<open>GameLoop\<close> struct of \<open>mtg-engine/src/game/game_loop/mod.rs\<close>, the results of a game, the choice
  points and stop conditions of \<open>game_loop/snapshot.rs\<close> and \<open>game/stop_condition.rs\<close>, the answers of a
  controller with the way a step ends on an answer that is no choice (\<open>handle_choice_result_break!\<close>
  of \<open>game/controller.rs\<close>), and the win condition. The two controllers are the opaque part \<open>'c\<close> of
  the state. Fields that only decide what is printed, and the reused buffers, are left out.
\<close>

subsection \<open>Results\<close>

datatype end_reason = PlayerDeath player_id | Decking player_id | TurnLimit | GameDraw | Manual | Snapshot

record game_result =
  gr_winner :: "player_id option"
  gr_turns_played :: u32
  gr_end_reason :: end_reason
  gr_action_count :: u64

datatype stop_player = StopP1 | StopP2 | StopBoth

record stop_condition =
  sc_player :: stop_player
  sc_choice_count :: nat

fun stops_for :: "stop_player \<Rightarrow> player_id \<Rightarrow> player_id \<Rightarrow> bool" where
  "stops_for StopP1 p1 p \<longleftrightarrow> p = p1"
| "stops_for StopP2 p1 p \<longleftrightarrow> p \<noteq> p1"
| "stops_for StopBoth p1 p \<longleftrightarrow> True"

definition applies_to :: "stop_condition \<Rightarrow> player_id \<Rightarrow> player_id \<Rightarrow> bool" where
  "applies_to sc p1 p = stops_for (sc_player sc) p1 p"

subsection \<open>The loop\<close>

record 'c loop_state =
  lp_game :: game_state
  lp_controllers :: 'c
  lp_max_turns :: u32
  lp_turns_elapsed :: u32
  lp_verbosity :: verbosity
  lp_choice_counter :: u32
  lp_stop_when_fixed_exhausted :: bool
  lp_snapshot_path_for_fixed :: "string option"
  lp_stop_condition_info :: "(player_id \<times> stop_condition \<times> string) option"
  lp_baseline_choice_count :: nat
  lp_replaying :: bool
  lp_replay_choices_remaining :: nat
  lp_resumed_from_snapshot :: bool
  lp_turn_one_header_emitted :: bool
  lp_resumed_turn_number :: "u32 option"
  lp_defer_game_end_check :: bool
  lp_skip_opening_hands :: bool
  lp_p1_hand_setup :: "string list option"
  lp_p2_hand_setup :: "string list option"
  lp_deck_seed :: "u64 option"
  lp_game_seed :: "u64 option"

type_synonym 'c step_result = "mtg_error + 'c loop_state \<times> game_result option"

definition loop_new :: "'c \<Rightarrow> game_state \<Rightarrow> 'c loop_state" where
  "loop_new cs g = \<lparr>lp_game = g, lp_controllers = cs, lp_max_turns = 1000, lp_turns_elapsed = 0,
     lp_verbosity = lg_verbosity (gs_logger g), lp_choice_counter = 0,
     lp_stop_when_fixed_exhausted = False, lp_snapshot_path_for_fixed = None,
     lp_stop_condition_info = None, lp_baseline_choice_count = 0, lp_replaying = False,
     lp_replay_choices_remaining = 0, lp_resumed_from_snapshot = False,
     lp_turn_one_header_emitted = False, lp_resumed_turn_number = None, lp_defer_game_end_check = False,
     lp_skip_opening_hands = False, lp_p1_hand_setup = None, lp_p2_hand_setup = None, lp_deck_seed = None,
     lp_game_seed = None\<rparr>"

definition with_replay_mode :: "nat \<Rightarrow> 'c loop_state \<Rightarrow> 'c loop_state" where
  "with_replay_mode n lp = lp\<lparr>lp_replaying := True, lp_replay_choices_remaining := n,
     lp_resumed_from_snapshot := True, lp_resumed_turn_number := Some (lp_turns_elapsed lp)\<rparr>"

definition loop_reset :: "'c loop_state \<Rightarrow> 'c loop_state" where
  "loop_reset lp = lp\<lparr>lp_turns_elapsed := 0, lp_choice_counter := 0,
     lp_game := (lp_game lp)\<lparr>gs_scratch := (gs_scratch (lp_game lp))\<lparr>sc_spell_targets := []\<rparr>\<rparr>\<rparr>"

text \<open>An operation on the game inside the loop.\<close>

definition on_game :: "(game_state \<Rightarrow> game_state) \<Rightarrow> 'c loop_state \<Rightarrow> 'c loop_state" where
  "on_game f lp = lp\<lparr>lp_game := f (lp_game lp)\<rparr>"

definition try_game :: "(game_state \<Rightarrow> mtg_error + game_state) \<Rightarrow> 'c loop_state \<Rightarrow> mtg_error + 'c loop_state" where
  "try_game f lp = map_sum id (\<lambda>g. lp\<lparr>lp_game := g\<rparr>) (f (lp_game lp))"

definition carry_on :: "'c loop_state \<Rightarrow> 'c step_result" where "carry_on lp = Inr (lp, None)"

definition result_of :: "player_id option \<Rightarrow> end_reason \<Rightarrow> 'c loop_state \<Rightarrow> game_result" where
  "result_of w r lp = \<lparr>gr_winner = w, gr_turns_played = lp_turns_elapsed lp, gr_end_reason = r,
     gr_action_count = action_count (lp_game lp)\<rparr>"

text \<open>\<open>if let Some(result) = f()? { return Ok(Some(result)); }\<close>\<close>

definition unless_over :: "'c step_result \<Rightarrow> ('c loop_state \<Rightarrow> 'c step_result) \<Rightarrow> 'c step_result" where
  "unless_over r f = and_then r (\<lambda>(lp, res). case res of Some x \<Rightarrow> Inr (lp, Some x) | None \<Rightarrow> f lp)"

definition speaks :: "'c loop_state \<Rightarrow> bool" where
  "speaks lp = (2 \<le> verbosity_rank (lp_verbosity lp) \<and> \<not> lp_replaying lp)"

text \<open>Three identifiers stand for several players or for one not yet named.\<close>

definition REMEMBERED_PLAYERS_ID :: u32 where "REMEMBERED_PLAYERS_ID = - 1 - 2"

definition TARGET_OPPONENT_ID :: u32 where "TARGET_OPPONENT_ID = - 1 - 5"

definition loop_player_name :: "game_state \<Rightarrow> player_id \<Rightarrow> string" where
  "loop_player_name g p =
     (if is_all_players p then ''each player''
      else if p = REMEMBERED_PLAYERS_ID then ''remembered players''
      else if p = TARGET_OPPONENT_ID then ''target opponent''
      else player_display_name g p)"

subsection \<open>Choice points\<close>

definition log_choice_point :: "player_id \<Rightarrow> replay_choice option \<Rightarrow> nat \<Rightarrow> 'c loop_state \<Rightarrow> 'c loop_state" where
  "log_choice_point p ch prior lp = (let i = lp_choice_counter lp + 1 in
     lp\<lparr>lp_choice_counter := i, lp_game := log_action_at (ChoicePoint p i ch) prior (lp_game lp),
        lp_replay_choices_remaining :=
          (if lp_replaying lp then lp_replay_choices_remaining lp - 1 else lp_replay_choices_remaining lp)\<rparr>)"

text \<open>A loop that replays stops replaying when the recorded choices are used up.\<close>

definition end_replay :: "'c loop_state \<Rightarrow> 'c loop_state" where
  "end_replay lp = (if lp_replaying lp \<and> lp_replay_choices_remaining lp = 0
       \<and> lp_baseline_choice_count lp \<le> unat (lp_choice_counter lp)
     then lp\<lparr>lp_replaying := False\<rparr> else lp)"

definition count_filtered_choices :: "player_id \<Rightarrow> stop_condition \<Rightarrow> 'c loop_state \<Rightarrow> nat" where
  "count_filtered_choices p1 sc lp =
     length (filter (\<lambda>a. case choice_of a of Some (p, _) \<Rightarrow> applies_to sc p1 p | None \<Rightarrow> False)
       (ul_actions (gs_undo_log (lp_game lp)))) - lp_baseline_choice_count lp"

definition check_stop_conditions :: "bool \<Rightarrow> player_id \<Rightarrow> 'c loop_state \<Rightarrow> game_result option" where
  "check_stop_conditions has_more p lp =
     (if lp_stop_when_fixed_exhausted lp \<and> \<not> has_more \<and> lp_snapshot_path_for_fixed lp \<noteq> None
      then Some (result_of None Snapshot lp)
      else (case lp_stop_condition_info lp of
          None \<Rightarrow> None
        | Some (p1, sc, path) \<Rightarrow>
            if applies_to sc p1 p \<and> sc_choice_count sc \<le> count_filtered_choices p1 sc lp
            then Some (result_of None Snapshot lp) else None))"

subsection \<open>Answers\<close>

datatype 'a answer = Answer 'a | AskUndo nat | AskExit | AnswerError string | NoAnswerYet

text \<open>\<open>handle_choice_result_break!\<close>: an undo is carried out and ends the step.\<close>

definition break_unless_answered ::
  "(u8 list \<Rightarrow> rng option) \<Rightarrow> player_id \<Rightarrow> 'a answer \<Rightarrow> 'c loop_state
     \<Rightarrow> ('a \<Rightarrow> 'c loop_state \<Rightarrow> 'c step_result) \<Rightarrow> 'c step_result" where
  "break_unless_answered ds p r lp f = (case r of
       Answer x \<Rightarrow> f x lp
     | AskUndo n \<Rightarrow> carry_on (on_game (handle_undo_request ds p n) lp)
     | AskExit \<Rightarrow> Inl (InvalidAction ''Game exit requested by controller'')
     | AnswerError msg \<Rightarrow> Inl (InvalidAction (''Controller error: '' @ msg))
     | NoAnswerYet \<Rightarrow> Inl NeedInput)"

text \<open>What the hook of a network game returns before a choice.\<close>

datatype pre_choice = AskController | UseChoice "nat list" | ExitBefore

definition picked :: "'a list \<Rightarrow> nat list \<Rightarrow> 'a list" where
  "picked xs is = map (\<lambda>i. xs ! i) (filter (\<lambda>i. i < length xs) is)"

text \<open>Index 0 is a pass, index \<open>n\<close> the option \<open>n - 1\<close>.\<close>

definition picked_after_pass :: "'a list \<Rightarrow> nat list \<Rightarrow> 'a list" where
  "picked_after_pass xs is = picked xs (map (\<lambda>i. i - 1) (filter (\<lambda>i. i \<noteq> 0) is))"

text \<open>A controller sees the state of the loop; answering changes its own state and the logger only.\<close>

type_synonym ('c, 'a) ask = "'c loop_state \<Rightarrow> ('c \<times> game_logger) \<times> 'a answer"

definition controllers_after :: "'c \<times> game_logger \<Rightarrow> 'c loop_state \<Rightarrow> 'c loop_state" where
  "controllers_after = (\<lambda>(cs, lg) lp. lp\<lparr>lp_controllers := cs, lp_game := (lp_game lp)\<lparr>gs_logger := lg\<rparr>\<rparr>)"

definition let_answer :: "('c, 'a) ask \<Rightarrow> 'c loop_state \<Rightarrow> 'c loop_state \<times> 'a answer" where
  "let_answer ask lp = (case ask lp of (after, r) \<Rightarrow> (controllers_after after lp, r))"

text \<open>The answer of a choice: of the controller alone, or through the hook, which may change the game.\<close>

definition choose_with_hook ::
  "('c loop_state \<Rightarrow> 'c loop_state \<times> pre_choice) option \<Rightarrow> ('c, 'a) ask \<Rightarrow> (nat list \<Rightarrow> 'a)
     \<Rightarrow> 'c loop_state \<Rightarrow> 'c loop_state \<times> 'a answer" where
  "choose_with_hook hook ask use lp = (case hook of
       None \<Rightarrow> let_answer ask lp
     | Some h \<Rightarrow> (case h lp of
           (lp1, AskController) \<Rightarrow> let_answer ask lp1
         | (lp1, UseChoice is) \<Rightarrow> (lp1, Answer (use is))
         | (lp1, ExitBefore) \<Rightarrow> (lp1, AskExit)))"

subsection \<open>The win condition\<close>

definition lost_message :: "string \<Rightarrow> player \<Rightarrow> game_state \<Rightarrow> string" where
  "lost_message why x g = p_name x @ '' has lost the game ('' @ why @ ''). ''
     @ name_or_unknown g (get_other_player_id g (p_id x)) @ '' wins!''"

definition decked :: "game_state \<Rightarrow> player \<Rightarrow> bool" where
  "decked g x = (case get_player_zones g (p_id x) of
     None \<Rightarrow> False | Some z \<Rightarrow> z_cards (pz_library z) = [])"

definition check_win_condition :: "'c loop_state \<Rightarrow> 'c loop_state \<times> game_result option" where
  "check_win_condition lp = (let g = lp_game lp in
     case find (\<lambda>x. sint (p_life x) \<le> 0) (gs_players g) of
       Some x \<Rightarrow> (on_game (game_log (lost_message (''life: '' @ show_i32 (p_life x)) x g)) lp,
         Some (result_of (get_other_player_id g (p_id x)) (PlayerDeath (p_id x)) lp))
     | None \<Rightarrow> (case find (decked g) (gs_players g) of
           Some x \<Rightarrow> (on_game (game_log (lost_message ''decked'' x g)) lp,
             Some (result_of (get_other_player_id g (p_id x)) (Decking (p_id x)) lp))
         | None \<Rightarrow> (lp, None)))"

end
