(* ===== verification/Dredge.thy ===== *)
theory Dredge
  imports DelayedFire Fallible
begin

section \<open>Milling and dredging\<close>

text \<open>
  \<open>mill_cards\<close>, the two dredges and \<open>draw_card\<close> of \<open>mtg-engine/src/game/state.rs\<close>. A dredge takes the place
  of a draw: a dredge card of the graveyard whose number the library can pay is returned to the
  hand after that many cards are milled. \<open>try_apply_dredge\<close>, used by the draw step, takes the first
  such card; \<open>try_dredge_instead_of_draw\<close>, used by every other draw, the one with the lowest number.
  The mover is \<open>move_card\<close> with its fuel.
\<close>

subsection \<open>Milling\<close>

definition library_of :: "game_state \<Rightarrow> player_id \<Rightarrow> card_id list" where
  "library_of g p = (case get_player_zones g p of None \<Rightarrow> [] | Some z \<Rightarrow> z_cards (pz_library z))"

definition top_of_library :: "game_state \<Rightarrow> player_id \<Rightarrow> card_id option" where
  "top_of_library g p = (case library_of g p of [] \<Rightarrow> None | cs \<Rightarrow> Some (last cs))"

fun mill_loop :: "mover \<Rightarrow> player_id \<Rightarrow> nat \<Rightarrow> card_id list \<Rightarrow> game_state \<Rightarrow> mtg_error + game_state \<times> card_id list" where
  "mill_loop move p 0 milled g = Inr (g, milled)"
| "mill_loop move p (Suc n) milled g = (case top_of_library g p of
       None \<Rightarrow> Inr (g, milled)
     | Some c \<Rightarrow> and_then (move c Library Graveyard p g) (\<lambda>g1. mill_loop move p n (milled @ [c]) g1))"

definition mill_cards :: "mover \<Rightarrow> player_id \<Rightarrow> u8 \<Rightarrow> game_state \<Rightarrow> mtg_error + game_state \<times> card_id list" where
  "mill_cards move p n g = mill_loop move p (unat n) [] g"

subsection \<open>Dredging\<close>

definition dredge_amount :: "card \<Rightarrow> u8 option" where
  "dredge_amount k = (case kw_get_args (c_keywords k) ''Dredge'' of
       Some (KeywordArgs nm [FAmount n]) \<Rightarrow> if nm = ''Dredge'' then Some n else None
     | _ \<Rightarrow> None)"

definition dredge_candidates :: "game_state \<Rightarrow> player_id \<Rightarrow> (card_id \<times> u8) list" where
  "dredge_candidates g p = (case get_player_zones g p of
       None \<Rightarrow> []
     | Some z \<Rightarrow> List.map_filter (\<lambda>c. map_option (Pair c) (Option.bind (card_of g c) dredge_amount))
         (z_cards (pz_graveyard z)))"

definition dredge_with :: "game_state \<Rightarrow> player_id \<Rightarrow> (card_id \<times> u8) option" where
  "dredge_with g p = find (\<lambda>(c, n). unat n \<le> length (library_of g p)) (dredge_candidates g p)"

definition dredge_message :: "game_state \<Rightarrow> player_id \<Rightarrow> card_id \<Rightarrow> u8 \<Rightarrow> string" where
  "dredge_message g p c n = player_display_name g p @ '' dredges ''
     @ (case card_of g c of Some k \<Rightarrow> c_name k | None \<Rightarrow> ''Dredge card'')
     @ '' (mills '' @ show_nat (unat n) @ '', returns to hand)''"

definition try_apply_dredge :: "mover \<Rightarrow> player_id \<Rightarrow> game_state \<Rightarrow> mtg_error + game_state \<times> bool" where
  "try_apply_dredge move p g = (case dredge_with g p of
       None \<Rightarrow> Inr (g, False)
     | Some (c, n) \<Rightarrow> and_then (mill_cards move p n (game_log (dredge_message g p c n) g)) (\<lambda>(g1, _).
         map_sum id (\<lambda>g2. (g2, True)) (move c Graveyard Hand p g1)))"

text \<open>The candidate with the lowest number, the earliest among equals.\<close>

definition better_dredge :: "nat \<Rightarrow> (card_id \<times> u8) option \<Rightarrow> card_id \<times> u8 \<Rightarrow> (card_id \<times> u8) option" where
  "better_dredge lib best = (\<lambda>(c, n). if unat n \<le> lib
       \<and> (case best of None \<Rightarrow> True | Some (_, m) \<Rightarrow> n < m)
     then Some (c, n) else best)"

definition best_dredge :: "game_state \<Rightarrow> player_id \<Rightarrow> (card_id \<times> u8) option" where
  "best_dredge g p = foldl (better_dredge (length (library_of g p))) None (dredge_candidates g p)"

definition dredged_message :: "game_state \<Rightarrow> player_id \<Rightarrow> card_id \<Rightarrow> u8 \<Rightarrow> string" where
  "dredged_message g p c n = (let nm = (case card_of g c of Some k \<Rightarrow> c_name k | None \<Rightarrow> ''a card'') in
     player_display_name g p @ '' dredges '' @ nm @ '' (mills '' @ show_nat (unat n) @ '', returns '' @ nm
       @ '' from graveyard to hand)'')"

definition try_dredge_instead_of_draw ::
  "mover \<Rightarrow> player_id \<Rightarrow> game_state \<Rightarrow> mtg_error + (game_state \<times> card_id option \<times> u8) option" where
  "try_dredge_instead_of_draw move p g = (case best_dredge g p of
       None \<Rightarrow> Inr None
     | Some (c, n) \<Rightarrow> and_then (mill_cards move p n g) (\<lambda>(g1, _).
         map_sum id (\<lambda>g2. Some (game_log (dredged_message g2 p c n) g2, None, 0))
           (move c Graveyard Hand p g1)))"

definition draw_card :: "mover \<Rightarrow> player_id \<Rightarrow> game_state \<Rightarrow> mtg_error + game_state \<times> card_id option \<times> u8" where
  "draw_card move p g = map_sum id (\<lambda>r. case r of Some d \<Rightarrow> d | None \<Rightarrow> draw_card_inner p True g)
     (try_dredge_instead_of_draw move p g)"

end
