(* ===== verification/LoopSteps.thy ===== *)
theory LoopSteps
  imports LoopState Dredge
begin

section \<open>The steps of a turn outside combat\<close>

text \<open>
  \<open>mtg-engine/src/game/game_loop/steps.rs\<close>: the untap, upkeep, draw, main, end and cleanup steps, and the
  choices of \<open>game_loop/network_choice.rs\<close> they ask for. What the steps call and this development does
  not model is a field of \<open>loop_env\<close>: the priority round, the triggers of a phase, of a draw and of a
  declaration, the lore counters of sagas, the network callbacks and the two controllers, each a
  function of the state of the loop that returns what it leaves. The field \<open>le_fuel\<close> is the fuel
  of \<open>move_card\<close> and \<open>le_keyword_fuel\<close> that of the keyword lookups. Messages that only go to the standard output are
  left out.
\<close>

subsection \<open>What the loop calls\<close>

datatype phase_event = BeginningOfUpkeep | BeginningOfDraw | BeginningOfCombat | BeginningOfEndStep

datatype choice_kind = ChooseAttackers | ChooseBlockers | ChooseDiscard | ChooseNotUntap

datatype seat = Seat1 | Seat2

record 'c loop_env =
  le_combat :: combat_env
  le_attack :: attack_env
  le_restore :: "u8 list \<Rightarrow> rng option"
  le_fuel :: nat
  le_keyword_fuel :: nat
  le_priority_round :: "'c loop_state \<Rightarrow> 'c step_result"
  le_phase_triggers :: "phase_event \<Rightarrow> 'c loop_state \<Rightarrow> mtg_error + 'c loop_state"
  le_card_drawn :: "player_id \<Rightarrow> u8 \<Rightarrow> game_state \<Rightarrow> mtg_error + game_state"
  le_saga :: "card_id \<Rightarrow> game_state \<Rightarrow> mtg_error + game_state"
  le_attackers_declared :: "player_id \<Rightarrow> 'c loop_state \<Rightarrow> mtg_error + 'c loop_state"
  le_attacker_unblocked :: "player_id \<Rightarrow> 'c loop_state \<Rightarrow> mtg_error + 'c loop_state"
  le_seed_from :: "u64 \<Rightarrow> rng"
  le_shuffle :: "rng \<Rightarrow> card_id list \<Rightarrow> card_id list \<times> rng"
  le_opening_reveals :: "game_state \<Rightarrow> mtg_error + game_state"
  le_sync :: "'c loop_state \<Rightarrow> 'c loop_state"
  le_push_reveals :: "player_id \<Rightarrow> 'c loop_state \<Rightarrow> 'c loop_state"
  le_hook :: "(player_id \<Rightarrow> choice_kind \<Rightarrow> 'c loop_state \<Rightarrow> 'c loop_state \<times> pre_choice) option"
  le_seat :: "seat \<Rightarrow> player_id"
  le_has_more :: "seat \<Rightarrow> 'c \<Rightarrow> bool"
  le_not_untap :: "seat \<Rightarrow> card_id list \<Rightarrow> ('c, card_id list) ask"
  le_discard :: "seat \<Rightarrow> card_id list \<Rightarrow> nat \<Rightarrow> ('c, card_id list) ask"
  le_attackers :: "seat \<Rightarrow> card_id list \<Rightarrow> ('c, card_id list) ask"
  le_blockers :: "seat \<Rightarrow> card_id list \<Rightarrow> card_id list \<Rightarrow> ('c, (card_id \<times> card_id) list) ask"
  le_damage_answers :: "bool \<Rightarrow> 'c loop_state \<Rightarrow> ('c \<times> game_logger) \<times> choice list \<times> choice list"
  le_replay_damage :: "seat \<Rightarrow> 'c \<Rightarrow> 'c \<times> damage_assignment_plan option"

definition seat_of :: "'c loop_env \<Rightarrow> player_id \<Rightarrow> seat" where
  "seat_of env p = (if p = le_seat env Seat1 then Seat1 else Seat2)"

text \<open>The hook, followed by the synchronization of the state it waited for.\<close>

definition hook_for ::
  "'c loop_env \<Rightarrow> seat \<Rightarrow> choice_kind \<Rightarrow> ('c loop_state \<Rightarrow> 'c loop_state \<times> pre_choice) option" where
  "hook_for env s kind = map_option (\<lambda>h lp. case h (le_seat env s) kind lp of
     (lp1, r) \<Rightarrow> (le_sync env lp1, r)) (le_hook env)"

definition loop_mover :: "'c loop_env \<Rightarrow> mover" where
  "loop_mover env = move_card (le_fuel env) (game_env.truncate (le_combat env))"

definition active_of :: "'c loop_state \<Rightarrow> player_id" where
  "active_of lp = ts_active_player (gs_turn (lp_game lp))"

definition battlefield_of :: "'c loop_state \<Rightarrow> card_id list" where
  "battlefield_of lp = z_cards (gs_battlefield (lp_game lp))"

definition on_permanents :: "(card \<Rightarrow> bool) \<Rightarrow> game_state \<Rightarrow> card_id \<Rightarrow> bool" where
  "on_permanents P g c = (case card_of g c of None \<Rightarrow> False | Some k \<Rightarrow> P k)"

subsection \<open>The untap step\<close>

definition reset_turn_counts :: "player_id \<Rightarrow> game_state \<Rightarrow> game_state" where
  "reset_turn_counts p g = (case try_get_player g p of
       None \<Rightarrow> g
     | Some x \<Rightarrow> log_action (SetCardsDrawnThisTurn p (p_cards_drawn_this_turn x) 0)
         (map_player p (\<lambda>x. (reset_cards_drawn x)\<lparr>p_spells_cast_this_turn := 0\<rparr>) g))"

definition untap_locked :: "game_state \<Rightarrow> bool" where
  "untap_locked g = list_ex (on_permanents (\<lambda>k. cc_skips_untap_step (card_cache k)) g) (z_cards (gs_battlefield g))"

definition player_skips_untap :: "game_state \<Rightarrow> player_id \<Rightarrow> bool" where
  "player_skips_untap g p = (case try_get_player g p of None \<Rightarrow> False | Some x \<Rightarrow> p_skip_untap_next_turn x)"

definition consume_skip :: "player_id \<Rightarrow> game_state \<Rightarrow> game_state" where
  "consume_skip p g = log_action (SetSkipUntapNextTurn p True False)
     (map_player p (\<lambda>x. x\<lparr>p_skip_untap_next_turn := False\<rparr>) g)"

text \<open>The lowest limit of an untapped permanent that limits the lands to untap.\<close>

definition land_untap_limit :: "game_state \<Rightarrow> u8 option" where
  "land_untap_limit g = (case List.map_filter (\<lambda>c. case card_of g c of
         None \<Rightarrow> None
       | Some k \<Rightarrow> if c_tapped k then None else cc_limits_land_untap (card_cache k)) (z_cards (gs_battlefield g)) of
       [] \<Rightarrow> None | l # ls \<Rightarrow> Some (foldl min l ls))"

datatype untap_class = ForcedTapped | MayStayTapped | LimitedLand | NormalUntap | NotTapped

definition untap_class :: "'c loop_env \<Rightarrow> player_id \<Rightarrow> bool \<Rightarrow> game_state \<Rightarrow> card_id \<Rightarrow> mtg_error + untap_class" where
  "untap_class env p limited g c = (case card_of g c of
       None \<Rightarrow> Inr NotTapped
     | Some k \<Rightarrow> if \<not> (c_controller k = p \<and> c_tapped k) then Inr NotTapped
         else map_sum id (\<lambda>locked. if locked then ForcedTapped
             else if has_keyword k ''MayNotUntap'' then MayStayTapped
             else if limited \<and> is_land k then LimitedLand
             else NormalUntap) (kw (le_keyword_fuel env) g c ''DoesNotUntap''))"

definition classify :: "'c loop_env \<Rightarrow> player_id \<Rightarrow> bool \<Rightarrow> game_state \<Rightarrow> mtg_error + (card_id \<times> untap_class) list" where
  "classify env p limited g =
     map_result (\<lambda>c. map_sum id (Pair c) (untap_class env p limited g c)) (z_cards (gs_battlefield g))"

definition of_class :: "untap_class \<Rightarrow> (card_id \<times> untap_class) list \<Rightarrow> card_id list" where
  "of_class cl xs = map fst (filter (\<lambda>(_, x). x = cl) xs)"

text \<open>\<open>let _ = untap_permanent(..)\<close>: an error changes nothing.\<close>

definition try_untap :: "game_state \<Rightarrow> card_id \<Rightarrow> game_state" where
  "try_untap g c = (case untap_permanent c g of Inl e \<Rightarrow> g | Inr g' \<Rightarrow> g')"

definition untap_ones :: "card_id list \<Rightarrow> game_state \<Rightarrow> game_state" where
  "untap_ones cs g = foldl try_untap g cs"

text \<open>Which permanents stay tapped; \<open>None\<close> is the wish to leave the game.\<close>

fun stay_tapped :: "card_id list answer \<Rightarrow> card_id list option" where
  "stay_tapped (Answer cs) = Some cs"
| "stay_tapped AskExit = None"
| "stay_tapped _ = Some []"

definition choose_not_untap_with_hook ::
  "'c loop_env \<Rightarrow> seat \<Rightarrow> card_id list \<Rightarrow> 'c loop_state \<Rightarrow> 'c loop_state \<times> card_id list answer" where
  "choose_not_untap_with_hook env s cs =
     choose_with_hook (hook_for env s ChooseNotUntap) (le_not_untap env s cs) (picked cs)"

definition ask_stay_tapped ::
  "'c loop_env \<Rightarrow> card_id list \<Rightarrow> 'c loop_state \<Rightarrow> (card_id list \<Rightarrow> 'c loop_state \<Rightarrow> 'c step_result) \<Rightarrow> 'c step_result" where
  "ask_stay_tapped env cs lp f = (case gs_players (lp_game lp) of
       [] \<Rightarrow> Inl Panicked
     | x # _ \<Rightarrow> let p = active_of lp; s = (if p = p_id x then Seat1 else Seat2) in
         (case choose_not_untap_with_hook env s cs lp of
             (lp1, r) \<Rightarrow> (case stay_tapped r of
                 None \<Rightarrow> Inr (lp1, Some (result_of (get_other_player_id (lp_game lp1) p) Manual lp1))
               | Some stay \<Rightarrow> f stay lp1)))"

definition untap_optional :: "'c loop_env \<Rightarrow> card_id list \<Rightarrow> 'c loop_state \<Rightarrow> 'c step_result" where
  "untap_optional env cs lp = (if cs = [] then carry_on lp
     else ask_stay_tapped env cs lp (\<lambda>stay lp1.
       carry_on (on_game (untap_ones (filter (\<lambda>c. c \<notin> set stay) cs)) lp1)))"

text \<open>At most \<open>limit\<close> lands: the controller names the lands to keep tapped, the cap is enforced.\<close>

definition untap_limited :: "'c loop_env \<Rightarrow> nat \<Rightarrow> card_id list \<Rightarrow> 'c loop_state \<Rightarrow> 'c step_result" where
  "untap_limited env limit cs lp =
     (if length cs \<le> limit then carry_on (on_game (untap_ones cs) lp)
      else ask_stay_tapped env cs lp (\<lambda>stay lp1.
        let chosen = take limit (filter (\<lambda>c. c \<notin> set stay) cs) in
        carry_on (on_game (untap_ones (filter (\<lambda>c. c \<in> set chosen) cs)) lp1)))"

definition untap_permanents :: "'c loop_env \<Rightarrow> 'c loop_state \<Rightarrow> 'c step_result" where
  "untap_permanents env lp = (let g = lp_game lp; p = active_of lp; limit = land_untap_limit g in
     and_then (classify env p (limit \<noteq> None) g) (\<lambda>cl.
       let lp1 = on_game (untap_ones (of_class NormalUntap cl)) lp in
       unless_over (untap_optional env (of_class MayStayTapped cl) lp1) (\<lambda>lp2. case limit of
           None \<Rightarrow> carry_on lp2
         | Some n \<Rightarrow> untap_limited env (unat n) (of_class LimitedLand cl) lp2)))"

definition untap_step :: "'c loop_env \<Rightarrow> 'c loop_state \<Rightarrow> 'c step_result" where
  "untap_step env lp = (let p = active_of lp; lp1 = on_game (reset_turn_counts p) lp; g = lp_game lp1 in
     if untap_locked g then carry_on lp1
     else if player_skips_untap g p then carry_on (on_game (consume_skip p) lp1)
     else untap_permanents env lp1)"

subsection \<open>Upkeep, draw, main and end step\<close>

definition fire_phase :: "'c loop_env \<Rightarrow> trigger_phase \<Rightarrow> 'c loop_state \<Rightarrow> mtg_error + 'c loop_state" where
  "fire_phase env ph lp = try_game (\<lambda>g. map_sum id fst (check_delayed_triggers_on_phase
     (fire_delayed_trigger (le_fuel env) (game_env.truncate (le_combat env))) ph (active_of lp) g)) lp"

definition upkeep_step :: "'c loop_env \<Rightarrow> 'c loop_state \<Rightarrow> 'c step_result" where
  "upkeep_step env lp = and_then (le_phase_triggers env BeginningOfUpkeep lp) (\<lambda>lp1.
     and_then (fire_phase env TUpkeep lp1) (le_priority_round env))"

definition main_phase :: "'c loop_env \<Rightarrow> 'c loop_state \<Rightarrow> 'c step_result" where
  "main_phase env lp = and_then (fire_phase env
     (if ts_current_step (gs_turn (lp_game lp)) = Main2 then TMain2 else TMain1) lp) (le_priority_round env)"

definition end_step :: "'c loop_env \<Rightarrow> 'c loop_state \<Rightarrow> 'c step_result" where
  "end_step env lp = and_then (le_phase_triggers env BeginningOfEndStep lp) (\<lambda>lp1.
     and_then (fire_phase env TEndStep lp1) (le_priority_round env))"

definition sanctuary_active :: "game_state \<Rightarrow> player_id \<Rightarrow> bool" where
  "sanctuary_active g p = list_ex (on_permanents (\<lambda>k. c_controller k = p
     \<and> cc_is_island_sanctuary (card_cache k)) g) (z_cards (gs_battlefield g))"

definition mandatory_draw :: "'c loop_env \<Rightarrow> player_id \<Rightarrow> game_state \<Rightarrow> mtg_error + game_state" where
  "mandatory_draw env p g = and_then (try_apply_dredge (loop_mover env) p g) (\<lambda>(g1, dredged).
     if dredged then Inr g1
     else and_then (draw_card (loop_mover env) p g1) (\<lambda>(g2, _, n). le_card_drawn env p n g2))"

definition sagas_of :: "game_state \<Rightarrow> player_id \<Rightarrow> card_id list" where
  "sagas_of g p = filter (on_permanents (\<lambda>k. c_controller k = p \<and> has_keyword k ''Chapter'') g)
     (z_cards (gs_battlefield g))"

definition advance_sagas :: "'c loop_env \<Rightarrow> player_id \<Rightarrow> game_state \<Rightarrow> mtg_error + game_state" where
  "advance_sagas env p g = fold_result (\<lambda>h c. le_saga env c h) g (sagas_of g p)"

definition draw_step :: "'c loop_env \<Rightarrow> 'c loop_state \<Rightarrow> 'c step_result" where
  "draw_step env lp = (let p = active_of lp in
     if ts_turn_number (gs_turn (lp_game lp)) = 1 then carry_on lp
     else if sanctuary_active (lp_game lp) p
       then and_then (le_phase_triggers env BeginningOfDraw
         (on_game (map_player p (\<lambda>x. x\<lparr>p_island_sanctuary_protected := True\<rparr>)) lp)) (le_priority_round env)
     else and_then (try_game (mandatory_draw env p) (le_sync env lp)) (\<lambda>lp1.
       and_then (try_game (advance_sagas env p) (le_push_reveals env p lp1)) (\<lambda>lp2.
       and_then (le_phase_triggers env BeginningOfDraw lp2) (le_priority_round env))))"

subsection \<open>Cleanup\<close>

definition hand_of :: "game_state \<Rightarrow> player_id \<Rightarrow> card_id list" where
  "hand_of g p = (case get_player_zones g p of None \<Rightarrow> [] | Some z \<Rightarrow> z_cards (pz_hand z))"

definition discard_one :: "mover \<Rightarrow> player_id \<Rightarrow> game_state \<Rightarrow> card_id \<Rightarrow> mtg_error + game_state" where
  "discard_one move p g c = (case get_player_zones g p of
       None \<Rightarrow> move c Hand Graveyard p g
     | Some z \<Rightarrow> if \<not> zone_contains (pz_hand z) c
         then Inl (InvalidAction (''Card '' @ show_nat (unat c) @ '' not in player's hand''))
         else move c Hand Graveyard p g)"

definition choose_discard_with_hook ::
  "'c loop_env \<Rightarrow> seat \<Rightarrow> card_id list \<Rightarrow> nat \<Rightarrow> 'c loop_state \<Rightarrow> 'c loop_state \<times> card_id list answer" where
  "choose_discard_with_hook env s hand n =
     choose_with_hook (hook_for env s ChooseDiscard) (le_discard env s hand n) (picked hand)"

definition discard_chosen ::
  "'c loop_env \<Rightarrow> player_id \<Rightarrow> nat \<Rightarrow> nat \<Rightarrow> card_id list \<Rightarrow> 'c loop_state \<Rightarrow> mtg_error + 'c loop_state" where
  "discard_chosen env p n prior cs lp = (let lp1 = log_choice_point p (Some (ReplayDiscard cs)) prior lp in
     if length cs \<noteq> n
     then Inl (InvalidAction (''Must discard exactly '' @ show_nat n @ '' cards, got '' @ show_nat (length cs)))
     else try_game (\<lambda>g. fold_result (discard_one (loop_mover env) p) g cs) lp1)"

definition discard_to_hand_size ::
  "'c loop_env \<Rightarrow> player_id \<Rightarrow> 'c loop_state \<Rightarrow> ('c loop_state \<Rightarrow> 'c step_result) \<Rightarrow> 'c step_result" where
  "discard_to_hand_size env p lp f = and_then (get_player (lp_game lp) p) (\<lambda>x.
     let hand = hand_of (lp_game lp) p; n = length hand - p_max_hand_size x in
     if length hand \<le> p_max_hand_size x then f lp
     else let s = seat_of env p in
       (case check_stop_conditions (le_has_more env s (lp_controllers lp)) p lp of
           Some r \<Rightarrow> Inr (lp, Some r)
         | None \<Rightarrow> (case choose_discard_with_hook env s hand n lp of
             (lp1, r) \<Rightarrow> break_unless_answered (le_restore env) p r lp1 (\<lambda>cs lp2.
               and_then (discard_chosen env p n (log_count (gs_logger (lp_game lp))) cs lp2) f))))"

definition cleanup_permanent_flags :: "card \<Rightarrow> card" where
  "cleanup_permanent_flags k = (let k1 = (if is_creature k then k\<lparr>c_damage := 0, c_regeneration_shields := 0\<rparr> else k) in
     k1\<lparr>c_damage_prevention := 0, c_exile_if_would_die_this_turn := False,
        c_exile_if_would_go_to_graveyard_this_turn := False,
        c_prevent_all_combat_damage_this_turn := False, c_damaged_by_this_turn := []\<rparr>)"

definition cleanup_player :: "player \<Rightarrow> player" where
  "cleanup_player x = x\<lparr>p_damage_prevention := 0, p_source_prevention_shields := [],
     p_island_sanctuary_protected := False, p_had_creature_countered_this_turn := False\<rparr>"

definition cleanup_game :: "player_id \<Rightarrow> player_id \<Rightarrow> game_state \<Rightarrow> game_state" where
  "cleanup_game p q g = (let
       g1 = foldl (\<lambda>h x. map_player x empty_mana_pool h) g [p, q];
       g2 = g1\<lparr>gs_persistent_effects := fst (pes_remove_many
         (find_effects_to_cleanup_at_eot (gs_persistent_effects g1)) (gs_persistent_effects g1))\<rparr>;
       g3 = g2\<lparr>gs_delayed_triggers := fst (dts_cleanup_end_of_turn (gs_delayed_triggers g2))\<rparr> in
     map_players cleanup_player
       (foldl (\<lambda>h c. map_card c cleanup_permanent_flags h) g3 (z_cards (gs_battlefield g3))))"

definition cleanup_step :: "'c loop_env \<Rightarrow> 'c loop_state \<Rightarrow> 'c step_result" where
  "cleanup_step env lp = (let p = active_of lp in
     case get_other_player_id (lp_game lp) p of
       None \<Rightarrow> Inl Panicked
     | Some q \<Rightarrow> discard_to_hand_size env p lp (\<lambda>lp1. carry_on (on_game (cleanup_game p q) lp1)))"

end
