(* ===== verification/LoopCombat.thy ===== *)
theory LoopCombat
  imports LoopSteps
begin

section \<open>The combat steps of the loop\<close>

text \<open>
  \<open>mtg-engine/src/game/game_loop/combat.rs\<close>: the steps from the beginning to the end of combat. Each
  declaration asks a controller, logs a choice point and carries out what was chosen; the damage step runs once or, with
  first strike, twice, with the win condition checked after each damage. The notes of the verbose
  level on dropped attackers and blocks are left out.
\<close>

definition begin_combat_step :: "'c loop_env \<Rightarrow> 'c loop_state \<Rightarrow> 'c step_result" where
  "begin_combat_step env lp = and_then (le_phase_triggers env BeginningOfCombat lp) (le_priority_round env)"

subsection \<open>Attackers\<close>

definition choose_attackers_with_hook ::
  "'c loop_env \<Rightarrow> seat \<Rightarrow> card_id list \<Rightarrow> 'c loop_state \<Rightarrow> 'c loop_state \<times> card_id list answer" where
  "choose_attackers_with_hook env s cs =
     choose_with_hook (hook_for env s ChooseAttackers) (le_attackers env s cs) (picked_after_pass cs)"

definition speak :: "string \<Rightarrow> 'c loop_state \<Rightarrow> 'c loop_state" where
  "speak m lp = (if speaks lp then on_game (game_log m) lp else lp)"

definition named :: "game_state \<Rightarrow> card_id \<Rightarrow> string" where
  "named g c = card_name_or ''Unknown'' g c @ '' ('' @ show_nat (unat c) @ '')''"

text \<open>The creatures that must attack join the chosen ones.\<close>

definition force_attackers ::
  "'c loop_env \<Rightarrow> card_id list \<Rightarrow> card_id list \<Rightarrow> 'c loop_state \<Rightarrow> mtg_error + 'c loop_state \<times> card_id list" where
  "force_attackers env available chosen lp = fold_result (\<lambda>(lp, attackers) c.
     if c \<in> set attackers then Inr (lp, attackers)
     else map_sum id (\<lambda>m. if m
         then (speak (named (lp_game lp) c @ '' must attack this combat if able'') lp, attackers @ [c])
         else (lp, attackers)) (kw (le_keyword_fuel env) (lp_game lp) c ''MustAttack'')) (lp, chosen) available"

definition attacker_message :: "'c loop_env \<Rightarrow> player_id \<Rightarrow> card_id \<Rightarrow> card \<Rightarrow> game_state \<Rightarrow> mtg_error + string" where
  "attacker_message env p c k g = (let n = le_keyword_fuel env in
     and_then (effective_power_or n g c k) (\<lambda>pw. and_then (effective_toughness_or n g c k) (\<lambda>t.
       Inr (loop_player_name g p @ '' declares '' @ named g c @ '' ('' @ show_i32 pw @ ''/'' @ show_i32 t
         @ '') as attacker''))))"

definition announce_attacker :: "'c loop_env \<Rightarrow> player_id \<Rightarrow> card_id \<Rightarrow> 'c loop_state \<Rightarrow> mtg_error + 'c loop_state" where
  "announce_attacker env p c lp = (if \<not> speaks lp then Inr lp
     else (case card_of (lp_game lp) c of
         None \<Rightarrow> Inr lp
       | Some k \<Rightarrow> map_sum id (\<lambda>m. on_game (game_log m) lp) (attacker_message env p c k (lp_game lp))))"

text \<open>An attacker the rules refuse is skipped. The guards of a declaration leave the game as it was; a
  later error, of a trigger, ends the run here, as the state it leaves is not a result of the model.\<close>

definition declare_one ::
  "'c loop_env \<Rightarrow> player_id \<Rightarrow> 'c loop_state \<Rightarrow> card_id \<Rightarrow> mtg_error + 'c loop_state" where
  "declare_one env p lp c = (let g = lp_game lp; n = le_keyword_fuel env in
     if \<not> zone_contains (gs_battlefield g) c then Inr lp
     else (case attack_check n g p c of
         Inl OutOfFuel \<Rightarrow> Inl OutOfFuel
       | Inl _ \<Rightarrow> Inr lp
       | Inr _ \<Rightarrow> and_then (try_game (game_declare_attacker (le_attack env) n p c) lp) (announce_attacker env p c)))"

definition declare_attackers ::
  "'c loop_env \<Rightarrow> player_id \<Rightarrow> nat \<Rightarrow> card_id list \<Rightarrow> card_id list \<Rightarrow> 'c loop_state \<Rightarrow> mtg_error + 'c loop_state" where
  "declare_attackers env p prior available chosen lp =
     and_then (force_attackers env available chosen lp) (\<lambda>(lp1, attackers).
     and_then (fold_result (declare_one env p) (log_choice_point p (Some (ReplayAttackers attackers)) prior lp1) attackers)
       (le_attackers_declared env p))"

definition declare_attackers_step :: "'c loop_env \<Rightarrow> 'c loop_state \<Rightarrow> 'c step_result" where
  "declare_attackers_step env lp = (let p = active_of lp; s = seat_of env p in
     and_then (get_available_attacker_creatures (le_keyword_fuel env) (lp_game lp) p) (\<lambda>available.
       if available = [] then le_priority_round env lp
       else let lp1 = end_replay lp in
         (case check_stop_conditions (le_has_more env s (lp_controllers lp1)) p lp1 of
             Some r \<Rightarrow> Inr (lp1, Some r)
           | None \<Rightarrow> (case choose_attackers_with_hook env s available lp1 of
               (lp2, r) \<Rightarrow> break_unless_answered (le_restore env) p r lp2 (\<lambda>chosen lp3.
                 and_then (declare_attackers env p (log_count (gs_logger (lp_game lp1))) available chosen lp3)
                   (le_priority_round env))))))"

subsection \<open>Blockers\<close>

text \<open>Index \<open>n\<close> names the pair of the blocker \<open>(n - 1) div k\<close> and the attacker \<open>(n - 1) mod k\<close>.\<close>

definition picked_pairs :: "card_id list \<Rightarrow> card_id list \<Rightarrow> nat list \<Rightarrow> (card_id \<times> card_id) list" where
  "picked_pairs blockers attackers is = map (\<lambda>i. (blockers ! (i div length attackers), attackers ! (i mod length attackers)))
     (filter (\<lambda>i. i div length attackers < length blockers \<and> i mod length attackers < length attackers)
       (map (\<lambda>i. i - 1) (filter (\<lambda>i. i \<noteq> 0) is)))"

definition choose_blockers_with_hook ::
  "'c loop_env \<Rightarrow> seat \<Rightarrow> card_id list \<Rightarrow> card_id list \<Rightarrow> 'c loop_state
     \<Rightarrow> 'c loop_state \<times> (card_id \<times> card_id) list answer" where
  "choose_blockers_with_hook env s blockers attackers =
     choose_with_hook (hook_for env s ChooseBlockers) (le_blockers env s blockers attackers)
       (picked_pairs blockers attackers)"

definition blocker_message :: "player_id \<Rightarrow> card_id \<Rightarrow> card_id \<Rightarrow> game_state \<Rightarrow> string" where
  "blocker_message p b a g = loop_player_name g p @ '' declares '' @ named g b @ '' as blocker for '' @ named g a"

definition declare_block :: "player_id \<Rightarrow> 'c loop_state \<Rightarrow> card_id \<times> card_id \<Rightarrow> 'c loop_state" where
  "declare_block p lp = (\<lambda>(b, a). let lp1 = on_game (declare_blocker_logged b [a]) lp in
     speak (blocker_message p b a (lp_game lp1)) lp1)"

definition declare_blockers ::
  "'c loop_env \<Rightarrow> player_id \<Rightarrow> nat \<Rightarrow> (card_id \<times> card_id) list \<Rightarrow> 'c loop_state \<Rightarrow> mtg_error + 'c loop_state" where
  "declare_blockers env p prior blocks lp = (let lp1 = log_choice_point p (Some (ReplayBlockers blocks)) prior lp in
     map_sum id (foldl (declare_block p) lp1)
       (validate_blocking_restrictions (le_keyword_fuel env) (lp_game lp1) blocks))"

definition after_blocks :: "'c loop_env \<Rightarrow> 'c loop_state \<Rightarrow> 'c step_result" where
  "after_blocks env lp = and_then (le_attacker_unblocked env (active_of lp) lp) (le_priority_round env)"

definition ask_blockers :: "'c loop_env \<Rightarrow> player_id \<Rightarrow> card_id list \<Rightarrow> card_id list \<Rightarrow> 'c loop_state \<Rightarrow> 'c step_result" where
  "ask_blockers env d blockers attackers lp = (let s = seat_of env d; lp1 = end_replay lp in
     case check_stop_conditions (le_has_more env s (lp_controllers lp1)) d lp1 of
       Some r \<Rightarrow> Inr (lp1, Some r)
     | None \<Rightarrow> (case choose_blockers_with_hook env s blockers attackers lp1 of
         (lp2, r) \<Rightarrow> break_unless_answered (le_restore env) d r lp2 (\<lambda>blocks lp3.
           and_then (declare_blockers env d (log_count (gs_logger (lp_game lp1))) blocks lp3) (after_blocks env))))"

definition declare_blockers_step :: "'c loop_env \<Rightarrow> 'c loop_state \<Rightarrow> 'c step_result" where
  "declare_blockers_step env lp = (let g = lp_game lp; n = le_keyword_fuel env in
     case get_other_player_id g (active_of lp) of
       None \<Rightarrow> Inl Panicked
     | Some d \<Rightarrow> let attackers = sort (get_attackers (gs_combat g)) in
         and_then (filter_result (\<lambda>b. is_useful_blocker n g b attackers) (get_available_blocker_creatures g d)) (\<lambda>blockers.
           if blockers = [] \<or> attackers = [] then after_blocks env lp
           else ask_blockers env d blockers attackers lp))"

subsection \<open>Damage\<close>

definition recorded_plan :: "'c loop_env \<Rightarrow> 'c loop_state \<Rightarrow> 'c loop_state \<times> damage_assignment_plan option" where
  "recorded_plan env lp = (case le_replay_damage env (seat_of env (active_of lp)) (lp_controllers lp) of
     (cs, plan) \<Rightarrow> (lp\<lparr>lp_controllers := cs\<rparr>, plan))"

definition assign_combat_damage_recorded :: "'c loop_env \<Rightarrow> bool \<Rightarrow> 'c loop_state \<Rightarrow> mtg_error + 'c loop_state" where
  "assign_combat_damage_recorded env first_strike_step lp = (
     case recorded_plan env lp of (lp1, recorded) \<Rightarrow>
     (case le_damage_answers env first_strike_step lp1 of (after, answers1, answers2) \<Rightarrow>
       let lp2 = (if recorded = None then controllers_after after lp1 else lp1) in
       and_then (assign_combat_damage_planned (le_combat env) (le_restore env) (le_fuel env) (le_keyword_fuel env)
           (le_seat env Seat1) answers1 answers2 first_strike_step recorded (lp_game lp2)) (\<lambda>(g, plan).
         let lp3 = lp2\<lparr>lp_game := g\<rparr> in
         Inr (if plan = [] then lp3 else log_choice_point (active_of lp) (Some (ReplayDamageAssignment plan))
           (log_count (gs_logger (lp_game lp1))) lp3))))"

definition check_win_unless_deferred :: "'c loop_state \<Rightarrow> 'c step_result" where
  "check_win_unless_deferred lp = (if lp_defer_game_end_check lp then carry_on lp else Inr (check_win_condition lp))"

text \<open>One damage: its header, the assignment and the check of the win condition.\<close>

definition headed :: "bool \<Rightarrow> string \<Rightarrow> 'c loop_state \<Rightarrow> 'c loop_state" where
  "headed b m lp = (if b \<and> speaks lp then on_game (normal_log m) lp else lp)"

definition deal_step :: "'c loop_env \<Rightarrow> bool \<Rightarrow> 'c loop_state \<Rightarrow> 'c step_result" where
  "deal_step env first_strike_step lp =
     and_then (assign_combat_damage_recorded env first_strike_step lp) check_win_unless_deferred"

definition first_strike_damage :: "'c loop_env \<Rightarrow> 'c loop_state \<Rightarrow> 'c step_result" where
  "first_strike_damage env lp =
     unless_over (deal_step env True (headed True ''--- First Strike Combat Damage ---'' lp)) (le_priority_round env)"

definition combat_damage_step :: "'c loop_env \<Rightarrow> 'c loop_state \<Rightarrow> 'c step_result" where
  "combat_damage_step env lp = (let first = has_first_strike_combat (lp_game lp) in
     unless_over (if first then first_strike_damage env lp else carry_on lp) (\<lambda>lp1.
     unless_over (deal_step env False (headed first ''--- Normal Combat Damage ---'' lp1)) (le_priority_round env)))"

subsection \<open>The end of combat\<close>

definition clear_combat_logged :: "game_state \<Rightarrow> game_state" where
  "clear_combat_logged g = log_action (ClearCombat (gs_combat g)) (g\<lparr>gs_combat := combat_clear (gs_combat g)\<rparr>)"

definition log_combat_mana_pool :: "player_id \<Rightarrow> game_state \<Rightarrow> game_state" where
  "log_combat_mana_pool p g = log_action (SetCombatManaPool p
     (case try_get_player g p of None \<Rightarrow> None | Some x \<Rightarrow> p_combat_mana_pool x)) g"

definition drain_combat_mana :: "game_state \<Rightarrow> player \<Rightarrow> game_state" where
  "drain_combat_mana g x = (if has_combat_mana x
     then map_player (p_id x) empty_combat_mana_pool (log_combat_mana_pool (p_id x) g) else g)"

definition end_combat_game :: "game_state \<Rightarrow> game_state" where
  "end_combat_game g = foldl drain_combat_mana (clear_combat_logged g) (gs_players g)"

definition end_combat_step :: "'c loop_env \<Rightarrow> 'c loop_state \<Rightarrow> 'c step_result" where
  "end_combat_step env lp = le_priority_round env (on_game end_combat_game lp)"

end
