(* ===== verification/GameLoop.thy ===== *)
theory GameLoop
  imports LoopCombat
begin

section \<open>Turns and games\<close>

text \<open>
  \<open>mtg-engine/src/game/game_loop/mod.rs\<close>: the header of turn one, the reset at the start of a turn, the
  execution of a step, the loop over the steps of a turn, and the runs of one turn, of some turns and
  of a whole game. A step that undoes past its own start is run again, so neither the loop over the
  steps nor the game need end: both take fuel, \<open>OutOfFuel\<close> is the outcome when it runs out.
\<close>

subsection \<open>The start of a turn\<close>

definition emit_turn_one_header :: "'c loop_state \<Rightarrow> 'c loop_state" where
  "emit_turn_one_header lp = (if lp_turn_one_header_emitted lp then lp
     else (on_game (\<lambda>g. g\<lparr>gs_logger := turn_separator (turn_message 1 (ts_active_player (gs_turn g)) g)
         (gs_logger g)\<rparr>) lp)\<lparr>lp_turn_one_header_emitted := True\<rparr>)"

definition is_resumed_turn :: "'c loop_state \<Rightarrow> bool" where
  "is_resumed_turn lp = (lp_resumed_turn_number lp = Some (lp_turns_elapsed lp))"

definition turn_header :: "'c loop_state \<Rightarrow> 'c loop_state" where
  "turn_header lp = (if 2 \<le> verbosity_rank (lp_verbosity lp) \<and> \<not> is_resumed_turn lp
       \<and> ts_turn_number (gs_turn (lp_game lp)) = 1
     then emit_turn_one_header lp else lp)"

definition clear_pool_of :: "game_state \<Rightarrow> player_id \<Rightarrow> game_state" where
  "clear_pool_of g p = map_player p empty_mana_pool g"

definition reset_turn_state :: "player_id \<Rightarrow> game_state \<Rightarrow> mtg_error + game_state" where
  "reset_turn_state p g = (let g1 = map_player p reset_lands_played g in
     case gs_players g1 of
       x # y # _ \<Rightarrow> let g2 = foldl clear_pool_of g1 [p_id x, p_id y] in
         Inr (foldl (\<lambda>h c. map_card c (\<lambda>k. k\<lparr>c_loyalty_activated_this_turn := False\<rparr>) h) g2
           (z_cards (gs_battlefield g2)))
     | _ \<Rightarrow> Inl Panicked)"

definition begin_turn :: "'c loop_state \<Rightarrow> mtg_error + 'c loop_state" where
  "begin_turn lp = try_game (\<lambda>g. reset_turn_state (active_of lp) (ensure_turn_one_boundary g)) (turn_header lp)"

subsection \<open>A step\<close>

fun run_step :: "'c loop_env \<Rightarrow> step \<Rightarrow> 'c loop_state \<Rightarrow> 'c step_result" where
  "run_step env Untap lp = untap_step env lp"
| "run_step env Upkeep lp = upkeep_step env lp"
| "run_step env Draw lp = draw_step env lp"
| "run_step env Main1 lp = main_phase env lp"
| "run_step env Main2 lp = main_phase env lp"
| "run_step env BeginCombat lp = begin_combat_step env lp"
| "run_step env DeclareAttackers lp = declare_attackers_step env lp"
| "run_step env DeclareBlockers lp = declare_blockers_step env lp"
| "run_step env CombatDamage lp = combat_damage_step env lp"
| "run_step env EndCombat lp = end_combat_step env lp"
| "run_step env End lp = end_step env lp"
| "run_step env Cleanup lp = cleanup_step env lp"

definition mark_step :: "game_state \<Rightarrow> game_state" where
  "mark_step g = g\<lparr>gs_logger := (gs_logger g)\<lparr>lg_gamelog_turn := ts_turn_number (gs_turn g),
     lg_gamelog_step := step_abbreviation (ts_current_step (gs_turn g))\<rparr>\<rparr>"

definition step_of :: "'c loop_state \<Rightarrow> step" where
  "step_of lp = ts_current_step (gs_turn (lp_game lp))"

definition turn_of_loop :: "'c loop_state \<Rightarrow> u32" where
  "turn_of_loop lp = ts_turn_number (gs_turn (lp_game lp))"

definition execute_step :: "'c loop_env \<Rightarrow> 'c loop_state \<Rightarrow> 'c step_result" where
  "execute_step env lp = run_step env (step_of lp) (on_game mark_step lp)"

subsection \<open>A turn\<close>

definition finish_resumed :: "'c loop_state \<Rightarrow> 'c loop_state" where
  "finish_resumed lp = (let lp1 = lp\<lparr>lp_resumed_from_snapshot := False, lp_resumed_turn_number := None\<rparr> in
     if lp_replaying lp1 \<and> lp_baseline_choice_count lp1 \<le> unat (lp_choice_counter lp1)
     then lp1\<lparr>lp_replaying := False, lp_replay_choices_remaining := 0\<rparr> else lp1)"

fun step_loop :: "nat \<Rightarrow> 'c loop_env \<Rightarrow> bool \<Rightarrow> 'c loop_state \<Rightarrow> 'c step_result" where
  "step_loop 0 env resumed lp = Inl OutOfFuel"
| "step_loop (Suc n) env resumed lp = unless_over (execute_step env lp) (\<lambda>lp1.
     if step_of lp1 \<noteq> step_of lp \<or> turn_of_loop lp1 \<noteq> turn_of_loop lp then step_loop n env resumed lp1
     else and_then (try_game advance_step lp1) (\<lambda>lp2.
       if step_of lp2 = Untap then carry_on (if resumed then finish_resumed lp2 else lp2)
       else step_loop n env resumed lp2))"

definition run_turn :: "nat \<Rightarrow> 'c loop_env \<Rightarrow> 'c loop_state \<Rightarrow> 'c step_result" where
  "run_turn n env lp = and_then (begin_turn lp) (step_loop n env (is_resumed_turn lp))"

definition count_turn :: "'c loop_state \<Rightarrow> 'c loop_state" where
  "count_turn lp = lp\<lparr>lp_turns_elapsed := lp_turns_elapsed lp + 1\<rparr>"

definition run_turn_once :: "nat \<Rightarrow> 'c loop_env \<Rightarrow> 'c loop_state \<Rightarrow> 'c step_result" where
  "run_turn_once n env lp = unless_over (Inr (check_win_condition lp)) (\<lambda>lp1.
     if lp_max_turns lp1 \<le> lp_turns_elapsed lp1 then Inr (lp1, Some (result_of None TurnLimit lp1))
     else unless_over (run_turn n env lp1) (\<lambda>lp2. Inr (check_win_condition (count_turn lp2))))"

subsection \<open>Games\<close>

fun run_turns :: "nat \<Rightarrow> 'c loop_env \<Rightarrow> nat \<Rightarrow> 'c loop_state \<Rightarrow> mtg_error + 'c loop_state \<times> game_result" where
  "run_turns n env 0 lp = Inr (lp, result_of None Manual lp)"
| "run_turns n env (Suc k) lp = and_then (run_turn_once n env lp) (\<lambda>(lp1, r). case r of
     Some x \<Rightarrow> Inr (lp1, x) | None \<Rightarrow> run_turns n env k lp1)"

text \<open>Exactly two players, each with its controller.\<close>

definition two_players :: "game_state \<Rightarrow> mtg_error + player_id \<times> player_id" where
  "two_players g = (case gs_players g of
     [x, y] \<Rightarrow> Inr (p_id x, p_id y) | _ \<Rightarrow> Inl (InvalidAction ''Game loop requires exactly 2 players''))"

definition match_controllers :: "'c loop_env \<Rightarrow> player_id \<times> player_id \<Rightarrow> mtg_error + player_id \<times> player_id" where
  "match_controllers env = (\<lambda>(p, q). if le_seat env Seat1 \<noteq> p \<or> le_seat env Seat2 \<noteq> q
     then Inl (InvalidAction ''Controller player IDs don't match game players'') else Inr (p, q))"

text \<open>The step-through entry looks at the first two players only, and only on a fresh start.\<close>

definition first_two_players :: "game_state \<Rightarrow> mtg_error + player_id \<times> player_id" where
  "first_two_players g = (case gs_players g of
     x # y # _ \<Rightarrow> Inr (p_id x, p_id y) | _ \<Rightarrow> Inl (InvalidAction ''Game loop requires exactly 2 players''))"

definition run_one_turn :: "nat \<Rightarrow> 'c loop_env \<Rightarrow> 'c loop_state \<Rightarrow> 'c step_result" where
  "run_one_turn n env lp = (let g = lp_game lp in
     if ul_actions (gs_undo_log g) = [] \<and> ts_turn_number (gs_turn g) \<le> 1
     then and_then (and_then (first_two_players g) (match_controllers env)) (\<lambda>_. run_turn_once n env lp)
     else run_turn_once n env lp)"

text \<open>The loop of \<open>run_game\<close> after the set-up; a snapshot ends it like any other result.\<close>

fun game_rounds :: "nat \<Rightarrow> nat \<Rightarrow> 'c loop_env \<Rightarrow> 'c loop_state \<Rightarrow> mtg_error + 'c loop_state \<times> game_result" where
  "game_rounds 0 n env lp = Inl OutOfFuel"
| "game_rounds (Suc m) n env lp = and_then (run_turn_once n env lp) (\<lambda>(lp1, r). case r of
     Some x \<Rightarrow> Inr (lp1, x) | None \<Rightarrow> game_rounds m n env lp1)"

datatype 'c loop_outcome = Complete "'c loop_state" game_result | AwaitingInput

definition until_input :: "mtg_error + 'c loop_state \<times> game_result \<Rightarrow> mtg_error + 'c loop_outcome" where
  "until_input r = (case r of
     Inr (lp, x) \<Rightarrow> Inr (Complete lp x) | Inl NeedInput \<Rightarrow> Inr AwaitingInput | Inl e \<Rightarrow> Inl e)"

end
