(* ===== verification/OpeningHands.thy ===== *)
theory OpeningHands
  imports GameLoop
begin

section \<open>Opening hands and whole games\<close>

text \<open>
  \<open>mtg-engine/src/game/hand_setup.rs\<close> and \<open>setup_game\<close>, \<open>run_game\<close> and \<open>run_until_input\<close> of
  \<open>game_loop/mod.rs\<close>: a fresh game shuffles the libraries and deals the opening hands, with the named cards
  first when a hand is prescribed; a resumed game and a puzzle are left as they are. The shuffle, the
  seeding and the reveals from opening hands are fields of \<open>loop_env\<close>. Saving a snapshot is input and
  output: a run that stops for one returns its result.
\<close>

subsection \<open>Prescribed hands\<close>

definition parse_hand_setup :: "string \<Rightarrow> mtg_error + string list" where
  "parse_hand_setup input = (let cards = filter (\<lambda>s. s \<noteq> '''') (map trim (split_on (CHR '';'') input)) in
     if cards = [] then Inl (InvalidAction ''Hand setup must contain at least one card'')
     else if 7 < length cards then Inl (InvalidAction (''Hand setup cannot contain more than 7 cards (got ''
       @ show_nat (length cards) @ '')''))
     else Inr cards)"

definition is_named :: "game_state \<Rightarrow> string \<Rightarrow> card_id \<Rightarrow> bool" where
  "is_named g nm c = (case card_of g c of None \<Rightarrow> False | Some k \<Rightarrow> c_name k = nm)"

definition to_hand :: "card_id \<Rightarrow> player_zones \<Rightarrow> player_zones" where
  "to_hand c z = z\<lparr>pz_library := fst (zone_remove (pz_library z) c), pz_hand := zone_add (pz_hand z) c\<rparr>"

definition take_named :: "player_id \<Rightarrow> game_state \<Rightarrow> string \<Rightarrow> mtg_error + game_state" where
  "take_named p g nm = (case get_player_zones g p of
       None \<Rightarrow> Inl (InvalidAction (''Player '' @ show_nat (unat p) @ '' not found''))
     | Some z \<Rightarrow> (case find (is_named g nm) (z_cards (pz_library z)) of
           None \<Rightarrow> Inl (InvalidAction (''Card '' @ [CHR 39] @ nm @ [CHR 39] @ '' not found in player ''
             @ show_nat (unat p) @ [CHR 39] @ ''s library''))
         | Some c \<Rightarrow> Inr (map_player_zones p (to_hand c) g)))"

fun draw_times :: "(game_state \<Rightarrow> mtg_error + game_state) \<Rightarrow> nat \<Rightarrow> game_state \<Rightarrow> mtg_error + game_state" where
  "draw_times draw 0 g = Inr g"
| "draw_times draw (Suc n) g = and_then (draw g) (draw_times draw n)"

definition silent_draw :: "player_id \<Rightarrow> game_state \<Rightarrow> mtg_error + game_state" where
  "silent_draw p g = Inr (fst (draw_card_silent p g))"

definition logged_draw :: "mover \<Rightarrow> player_id \<Rightarrow> game_state \<Rightarrow> mtg_error + game_state" where
  "logged_draw move p g = map_sum id fst (draw_card move p g)"

text \<open>A prescribed hand is filled up to seven cards.\<close>

definition prescribed_hand ::
  "(game_state \<Rightarrow> mtg_error + game_state) \<Rightarrow> player_id \<Rightarrow> string list \<Rightarrow> game_state \<Rightarrow> mtg_error + game_state" where
  "prescribed_hand draw p names g =
     and_then (fold_result (take_named p) g names) (draw_times draw (7 - length names))"

definition opening_hand ::
  "(game_state \<Rightarrow> mtg_error + game_state) \<Rightarrow> player_id \<Rightarrow> string list option \<Rightarrow> game_state \<Rightarrow> mtg_error + game_state" where
  "opening_hand draw p setup g = (case setup of
       None \<Rightarrow> draw_times (silent_draw p) 7 g | Some names \<Rightarrow> prescribed_hand draw p names g)"

text \<open>Shuffle, then deal; the cards that fill a prescribed hand are logged as drawn.\<close>

definition setup_opening_hands ::
  "(rng \<Rightarrow> card_id list \<Rightarrow> card_id list \<times> rng) \<Rightarrow> mover \<Rightarrow> player_id \<Rightarrow> player_id \<Rightarrow> string list option
     \<Rightarrow> string list option \<Rightarrow> game_state \<Rightarrow> mtg_error + game_state" where
  "setup_opening_hands shuf move p q setup1 setup2 g =
     and_then (opening_hand (logged_draw move p) p setup1 (shuffle_library shuf q (shuffle_library shuf p g)))
       (opening_hand (logged_draw move q) q setup2)"

subsection \<open>Setting up a game\<close>

definition has_cards_in_play :: "player_id list \<Rightarrow> game_state \<Rightarrow> bool" where
  "has_cards_in_play ps g = (z_cards (gs_battlefield g) \<noteq> [] \<or> list_ex (\<lambda>p. case get_player_zones g p of
       None \<Rightarrow> False | Some z \<Rightarrow> z_cards (pz_hand z) \<noteq> [] \<or> z_cards (pz_graveyard z) \<noteq> []) ps)"

definition is_fresh_game :: "player_id list \<Rightarrow> game_state \<Rightarrow> bool" where
  "is_fresh_game ps g = (ul_actions (gs_undo_log g) = []
     \<and> \<not> (1 < ts_turn_number (gs_turn g) \<or> has_cards_in_play ps g))"

definition reseed :: "'c loop_env \<Rightarrow> u64 option \<Rightarrow> game_state \<Rightarrow> game_state" where
  "reseed env s g = (case s of None \<Rightarrow> g | Some x \<Rightarrow> seed_rng (le_seed_from env) x g)"

text \<open>The libraries are already in order: only the hands are dealt, every draw silent.\<close>

definition deal_in_order :: "'c loop_env \<Rightarrow> player_id \<Rightarrow> player_id \<Rightarrow> 'c loop_state \<Rightarrow> mtg_error + 'c loop_state" where
  "deal_in_order env p q lp = try_game (\<lambda>g. and_then (opening_hand (silent_draw p) p (lp_p1_hand_setup lp) g)
     (opening_hand (silent_draw q) q (lp_p2_hand_setup lp))) (le_sync env lp)"

definition deal_shuffled :: "'c loop_env \<Rightarrow> player_id \<Rightarrow> player_id \<Rightarrow> 'c loop_state \<Rightarrow> mtg_error + 'c loop_state" where
  "deal_shuffled env p q lp = try_game (\<lambda>g. map_sum id (reseed env (lp_game_seed lp))
     (setup_opening_hands (le_shuffle env) (loop_mover env) p q (lp_p1_hand_setup lp) (lp_p2_hand_setup lp)
       (reseed env (lp_deck_seed lp) g))) lp"

definition start_game :: "'c loop_env \<Rightarrow> player_id \<Rightarrow> player_id \<Rightarrow> 'c loop_state \<Rightarrow> mtg_error + 'c loop_state" where
  "start_game env p q lp = and_then (if lp_skip_opening_hands lp then deal_in_order env p q lp else deal_shuffled env p q lp)
     (\<lambda>lp1. map_sum id emit_turn_one_header (try_game (le_opening_reveals env) lp1))"

definition setup_game :: "'c loop_env \<Rightarrow> 'c loop_state \<Rightarrow> mtg_error + 'c loop_state" where
  "setup_game env lp = and_then (and_then (two_players (lp_game lp)) (match_controllers env)) (\<lambda>(p, q).
     if is_fresh_game [p, q] (lp_game lp) then start_game env p q lp else Inr lp)"

definition run_game :: "nat \<Rightarrow> nat \<Rightarrow> 'c loop_env \<Rightarrow> 'c loop_state \<Rightarrow> mtg_error + 'c loop_state \<times> game_result" where
  "run_game m n env lp = and_then (setup_game env lp) (game_rounds m n env)"

definition run_until_input :: "nat \<Rightarrow> nat \<Rightarrow> 'c loop_env \<Rightarrow> 'c loop_state \<Rightarrow> mtg_error + 'c loop_outcome" where
  "run_until_input m n env lp = until_input (run_game m n env lp)"

subsection \<open>Drawing several cards\<close>

fun draws_zones :: "nat \<Rightarrow> player_zones \<Rightarrow> player_zones" where
  "draws_zones 0 z = z"
| "draws_zones (Suc n) z = draws_zones n (draw_zones z)"

end
