(* ===== verification/LoopFacts.thy ===== *)
theory LoopFacts
  imports OpeningHands MoveUndo
begin

section \<open>Facts about the steps and the turns\<close>

text \<open>
  Lemmas the properties of the game loop rest on: what a controller's answer can change, what the
  untap step does to each permanent, what a discard, a mill and a draw do to the zones, and that the
  loop over the steps follows the schedule of the turn when no step moves the clock.
\<close>

subsection \<open>Small results\<close>

lemma unless_over_simps [simp]:
  "unless_over (Inl e) f = Inl e" "unless_over (Inr (lp, Some x)) f = Inr (lp, Some x)"
  "unless_over (Inr (lp, None)) f = f lp"
  by (simp_all add: unless_over_def)

lemma unless_over_None:
  "unless_over r f = Inr (lp', None) \<longleftrightarrow> (\<exists>lp. r = Inr (lp, None) \<and> f lp = Inr (lp', None))"
  by (cases r) (auto simp: unless_over_def split: option.splits)

lemma on_game_simps [simp]:
  "lp_game (on_game f lp) = f (lp_game lp)" "lp_controllers (on_game f lp) = lp_controllers lp"
  "lp_turns_elapsed (on_game f lp) = lp_turns_elapsed lp" "lp_max_turns (on_game f lp) = lp_max_turns lp"
  by (simp_all add: on_game_def)

lemma carry_on_simps [simp]: "carry_on lp = Inr (lp', r) \<longleftrightarrow> lp' = lp \<and> r = None" "carry_on lp \<noteq> Inl e"
  by (auto simp: carry_on_def)

lemma try_game_Inr: "try_game f lp = Inr lp' \<longleftrightarrow> (\<exists>g. f (lp_game lp) = Inr g \<and> lp' = lp\<lparr>lp_game := g\<rparr>)"
  by (cases "f (lp_game lp)") (auto simp: try_game_def)

text \<open>An answer leaves everything of the game but the logger.\<close>

definition but_logger :: "game_state \<Rightarrow> game_state" where
  "but_logger g = g\<lparr>gs_logger := logger_new\<rparr>"

lemma but_logger_fields:
  assumes "but_logger g = but_logger h"
  shows "gs_cards g = gs_cards h" "gs_battlefield g = gs_battlefield h" "gs_players g = gs_players h"
    "gs_turn g = gs_turn h" "gs_player_zones g = gs_player_zones h" "gs_undo_log g = gs_undo_log h"
    "gs_delayed_triggers g = gs_delayed_triggers h" "gs_is_commander_game g = gs_is_commander_game h"
  using arg_cong [OF assms, of gs_cards] arg_cong [OF assms, of gs_battlefield]
    arg_cong [OF assms, of gs_players] arg_cong [OF assms, of gs_turn]
    arg_cong [OF assms, of gs_player_zones] arg_cong [OF assms, of gs_undo_log]
    arg_cong [OF assms, of gs_delayed_triggers] arg_cong [OF assms, of gs_is_commander_game]
  by (simp_all add: but_logger_def)

lemma let_answer_game: "let_answer a lp = (lp1, r) \<Longrightarrow> but_logger (lp_game lp1) = but_logger (lp_game lp)"
  by (auto simp: let_answer_def controllers_after_def but_logger_def split: prod.splits)

lemma card_of_cong: "gs_cards g = gs_cards h \<Longrightarrow> card_of g = card_of h"
  by (rule ext) (simp add: card_of_def)

subsection \<open>Untapping\<close>

lemma card_untap_untapped: "\<not> c_tapped k \<Longrightarrow> card_untap k = k"
  by (simp add: card_untap_def)

lemma card_untap_again [simp]: "card_untap (card_untap k) = card_untap k" "c_tapped (card_untap k) = False"
  by (simp_all add: card_untap_def)

lemma cards_of_writes [simp]:
  "card_of (log_action a g) = card_of g" "card_of (increment_mana_version g) = card_of g"
  "card_of (map_mana_caches f g) = card_of g" "card_of (map_player p h g) = card_of g"
  by (simp_all add: fun_eq_iff card_of_def log_action_def increment_mana_version_def map_mana_caches_def map_player_def)

lemma bf_of_writes [simp]:
  "gs_battlefield (log_action a g) = gs_battlefield g" "gs_battlefield (increment_mana_version g) = gs_battlefield g"
  "gs_battlefield (map_mana_caches f g) = gs_battlefield g" "gs_battlefield (map_player p h g) = gs_battlefield g"
  "gs_battlefield (map_card c q g) = gs_battlefield g"
  by (simp_all add: log_action_def increment_mana_version_def map_mana_caches_def map_player_def map_card_def)

lemma try_untap_card:
  "card_of (try_untap g c) d = (if d = c then map_option card_untap (card_of g d) else card_of g d)"
  by (cases "card_of g c") (auto simp: try_untap_def untap_permanent_def Let_def card_of_map_card card_untap_untapped)

lemma try_untap_bf [simp]: "gs_battlefield (try_untap g c) = gs_battlefield g"
  by (auto simp: try_untap_def untap_permanent_def Let_def split: option.splits sum.splits if_splits)

lemma untap_ones_card:
  "card_of (untap_ones cs g) d = (if d \<in> set cs then map_option card_untap (card_of g d) else card_of g d)"
proof (induction cs arbitrary: g)
  case (Cons c cs)
  have "card_of (untap_ones (c # cs) g) d = card_of (untap_ones cs (try_untap g c)) d" by (simp add: untap_ones_def)
  then show ?case using Cons.IH by (simp add: try_untap_card option.map_comp comp_def)
qed (simp add: untap_ones_def)

text \<open>The state \<open>h\<close> is \<open>g\<close> with the permanents of \<open>U\<close> untapped.\<close>

definition untaps :: "card_id set \<Rightarrow> game_state \<Rightarrow> game_state \<Rightarrow> bool" where
  "untaps U g h \<longleftrightarrow> (\<forall>d. card_of h d = (if d \<in> U then map_option card_untap (card_of g d) else card_of g d))"

lemma untaps_refl: "gs_cards g = gs_cards h \<Longrightarrow> untaps {} g h"
  by (simp add: untaps_def card_of_def)

lemma untaps_ones: "untaps U g h \<Longrightarrow> untaps (U \<union> set cs) g (untap_ones cs h)"
  by (auto simp: untaps_def untap_ones_card option.map_comp comp_def)

lemma untaps_answer: "untaps U g (lp_game lp) \<Longrightarrow> let_answer a lp = (lp1, r) \<Longrightarrow> untaps U g (lp_game lp1)"
  using but_logger_fields(1) [OF let_answer_game [of a lp lp1 r]] by (simp add: untaps_def card_of_def)

lemma ask_stay_tapped_result:
  assumes "ask_stay_tapped env cs lp f = Inr (lp', None)" "le_hook env = None" "untaps U g (lp_game lp)"
  obtains stay lp1 where "f stay lp1 = Inr (lp', None)" "untaps U g (lp_game lp1)"
proof -
  obtain x xs where "gs_players (lp_game lp) = x # xs" using assms(1)
    by (auto simp: ask_stay_tapped_def split: list.splits)
  moreover define s where "s = (if active_of lp = p_id x then Seat1 else Seat2)"
  moreover obtain lp1 r where a: "let_answer (le_not_untap env s cs) lp = (lp1, r)" by force
  ultimately show thesis
    using assms(1,2) untaps_answer [OF assms(3) a]
    by (auto simp: ask_stay_tapped_def choose_not_untap_with_hook_def choose_with_hook_def hook_for_def
        Let_def intro: that split: option.splits)
qed

lemma untap_optional_result:
  assumes "untap_optional env cs lp = Inr (lp', None)" "le_hook env = None" "untaps U g (lp_game lp)"
  obtains M where "M \<subseteq> set cs" "untaps (U \<union> M) g (lp_game lp')"
proof (cases "cs = []")
  case True
  then show thesis using assms that [of "{}"] by (simp add: untap_optional_def)
next
  case False
  then have "ask_stay_tapped env cs lp (\<lambda>stay lp1. carry_on
      (on_game (untap_ones (filter (\<lambda>c. c \<notin> set stay) cs)) lp1)) = Inr (lp', None)"
    using assms(1) by (simp add: untap_optional_def)
  then obtain stay lp1 where lp': "lp' = on_game (untap_ones (filter (\<lambda>c. c \<notin> set stay) cs)) lp1"
    and u: "untaps U g (lp_game lp1)"
    using assms(2,3) by (auto elim!: ask_stay_tapped_result)
  show thesis
    using that [of "set (filter (\<lambda>c. c \<notin> set stay) cs)"] untaps_ones [OF u, of "filter (\<lambda>c. c \<notin> set stay) cs"] lp'
    by auto
qed

lemma untap_limited_result:
  assumes "untap_limited env n cs lp = Inr (lp', None)" "le_hook env = None" "untaps U g (lp_game lp)"
  obtains L where "set L \<subseteq> set cs" "length L \<le> n" "untaps (U \<union> set L) g (lp_game lp')"
proof (cases "length cs \<le> n")
  case True
  then show thesis using assms that [of cs] untaps_ones by (auto simp: untap_limited_def)
next
  case False
  then have "ask_stay_tapped env cs lp (\<lambda>stay lp1.
      let chosen = take n (filter (\<lambda>c. c \<notin> set stay) cs) in
        carry_on (on_game (untap_ones (filter (\<lambda>c. c \<in> set chosen) cs)) lp1)) = Inr (lp', None)"
    using assms(1) by (simp add: untap_limited_def)
  then obtain stay lp1 where lp': "lp' = on_game (untap_ones (filter (\<lambda>c. c \<in> set
      (take n (filter (\<lambda>c. c \<notin> set stay) cs))) cs)) lp1" and u: "untaps U g (lp_game lp1)"
    using assms(2,3) by (auto simp: Let_def elim!: ask_stay_tapped_result)
  let ?L = "take n (filter (\<lambda>c. c \<notin> set stay) cs)"
  have sub: "set ?L \<subseteq> set cs" by (auto dest: in_set_takeD)
  then have "set (filter (\<lambda>c. c \<in> set ?L) cs) = set ?L" by auto
  then show thesis using that [OF sub] untaps_ones [OF u, of "filter (\<lambda>c. c \<in> set ?L) cs"] lp' by simp
qed

text \<open>The classes of the permanents, as the step computes them.\<close>

lemma map_result_Inr:
  "map_result f xs = Inr ys \<Longrightarrow> length ys = length xs \<and> (\<forall>i < length xs. f (xs ! i) = Inr (ys ! i))"
proof (induction xs arbitrary: ys)
  case (Cons x xs)
  then obtain y zs where "f x = Inr y" "map_result f xs = Inr zs" "ys = y # zs"
    by (cases "map_result f xs") (auto simp: and_then_Inr)
  then show ?case using Cons.IH [of zs] by (auto simp: nth_Cons split: nat.splits)
qed simp

lemma classify_mem:
  assumes "classify env p l g = Inr cl"
  shows "(c, x) \<in> set cl \<longleftrightarrow> c \<in> set (z_cards (gs_battlefield g)) \<and> untap_class env p l g c = Inr x"
proof -
  let ?bf = "z_cards (gs_battlefield g)"
  have len: "length cl = length ?bf"
    and nth: "\<And>i. i < length ?bf \<Longrightarrow> map_sum id (Pair (?bf ! i)) (untap_class env p l g (?bf ! i)) = Inr (cl ! i)"
    using map_result_Inr [OF assms [unfolded classify_def]] by auto
  have "(c, x) = cl ! i \<longleftrightarrow> c = ?bf ! i \<and> untap_class env p l g c = Inr x" if "i < length ?bf" for i
    using nth [OF that] by (cases "untap_class env p l g (?bf ! i)"; cases "cl ! i") auto
  then show ?thesis using len by (auto simp: in_set_conv_nth) (metis in_set_conv_nth len)+
qed

lemma of_class_mem:
  assumes "classify env p l g = Inr cl"
  shows "c \<in> set (of_class x cl) \<longleftrightarrow> c \<in> set (z_cards (gs_battlefield g)) \<and> untap_class env p l g c = Inr x"
  using classify_mem [OF assms] by (force simp: of_class_def)

text \<open>What the untap step does, as the set of the permanents it untaps.\<close>

lemma untap_permanents_result:
  assumes run: "untap_permanents env lp = Inr (lp', None)" and hook: "le_hook env = None"
  obtains cl M L where "classify env (active_of lp) (land_untap_limit (lp_game lp) \<noteq> None) (lp_game lp) = Inr cl"
    "M \<subseteq> set (of_class MayStayTapped cl)" "set L \<subseteq> set (of_class LimitedLand cl)"
    "\<And>n. land_untap_limit (lp_game lp) = Some n \<Longrightarrow> length L \<le> unat n"
    "untaps (set (of_class NormalUntap cl) \<union> M \<union> set L) (lp_game lp) (lp_game lp')"
proof -
  define limit where "limit = land_untap_limit (lp_game lp)"
  obtain cl where cl: "classify env (active_of lp) (limit \<noteq> None) (lp_game lp) = Inr cl"
    using run by (auto simp: untap_permanents_def Let_def and_then_Inr limit_def)
  define lp1 where "lp1 = on_game (untap_ones (of_class NormalUntap cl)) lp"
  obtain lp2 where opt: "untap_optional env (of_class MayStayTapped cl) lp1 = Inr (lp2, None)"
    and lim: "(case limit of None \<Rightarrow> carry_on lp2
        | Some n \<Rightarrow> untap_limited env (unat n) (of_class LimitedLand cl) lp2) = Inr (lp', None)"
    using run cl by (auto simp: untap_permanents_def Let_def limit_def [symmetric] lp1_def unless_over_None)
  have "untaps (set (of_class NormalUntap cl)) (lp_game lp) (lp_game lp1)"
    using untaps_ones [OF untaps_refl [OF refl]] by (simp add: lp1_def)
  from untap_optional_result [OF opt hook this] obtain M where M: "M \<subseteq> set (of_class MayStayTapped cl)"
    and u: "untaps (set (of_class NormalUntap cl) \<union> M) (lp_game lp) (lp_game lp2)" by metis
  show thesis
  proof (cases limit)
    case None
    then show thesis using that [OF cl [unfolded limit_def] M, of "[]"] u lim by (simp add: limit_def)
  next
    case (Some n)
    then obtain L where "set L \<subseteq> set (of_class LimitedLand cl)" "length L \<le> unat n"
      "untaps (set (of_class NormalUntap cl) \<union> M \<union> set L) (lp_game lp) (lp_game lp')"
      using untap_limited_result [OF _ hook u] lim by (metis option.simps(5))
    then show thesis using that [OF cl [unfolded limit_def] M] Some by (simp add: limit_def)
  qed
qed

subsection \<open>Moves nothing waits for\<close>

definition nothing_waits :: "game_state \<Rightarrow> bool" where
  "nothing_waits g \<longleftrightarrow> dts_triggers (gs_delayed_triggers g) = []"

definition destination :: "card_id \<Rightarrow> zone \<Rightarrow> game_state \<Rightarrow> zone" where
  "destination c t g = snd (commander_replacement c t g)"

lemma destination_cases: "destination c t g = t \<or> destination c t g = Command"
  by (simp add: destination_def commander_replacement_def split: option.split)

definition zone_cards :: "game_state \<Rightarrow> zone \<Rightarrow> player_id \<Rightarrow> card_id list" where
  "zone_cards g z p = (case zone_of g z p of None \<Rightarrow> [] | Some cz \<Rightarrow> z_cards cz)"

lemma effects_detach [simp]: "gs_persistent_effects (detach_equipment c f g) = gs_persistent_effects g"
proof -
  have "gs_persistent_effects (foldl detach_one h es) = gs_persistent_effects h" for h es
    by (induction es arbitrary: h) (simp_all add: detach_one_def verbose_log_def map_card_def split: option.split)
  then show ?thesis by (simp add: detach_equipment_def split: option.split)
qed

lemma before_removal_effects: "before_removal c f t p g = (g2, to) \<Longrightarrow> gs_persistent_effects g2 = gs_persistent_effects g"
  by (auto simp: before_removal_def commander_replacement_def normal_log_def split: prod.splits option.splits if_splits)

lemma settle_move_inv:
  "pes.inv (gs_persistent_effects g) \<Longrightarrow> pes.inv (gs_persistent_effects (settle_move env c f t p pos g))"
  by (simp add: settle_move_def finish_move_def cleanup_effects_on_move_def pes_remove_many_items Let_def)

lemma quiet_move_returns: "nothing_waits g \<Longrightarrow> \<exists>g'. move_card (Suc n) env c f t p g = Inr g'"
  using quiet_move [of c f t p g] by (cases "before_removal c f t p g")
    (simp add: find_zone_change_triggers_def nothing_waits_def)

lemma quiet_zone_move:
  assumes quiet: "nothing_waits g" and mv: "move_card (Suc n) env c f t p g = Inr g'"
    and c: "c \<in> set (zone_cards g f p)" and p: "get_player_zones g p \<noteq> None" and ne: "destination c t g \<noteq> f"
  shows "nothing_waits g'" "get_player_zones g' p \<noteq> None"
    "pes.inv (gs_persistent_effects g) \<Longrightarrow> pes.inv (gs_persistent_effects g')"
    "zone_cards g' z p = (if z = f then remove1 c (zone_cards g f p)
       else if z = destination c t g then zone_cards g z p @ [c] else zone_cards g z p)"
proof -
  obtain g2 to where br: "before_removal c f t p g = (g2, to)" by force
  then have to: "to = destination c t g"
    by (cases "commander_replacement c t g") (simp add: before_removal_def destination_def)
  have zs: "zones_of g2 = zones_of g" using zones_of_before_removal [of c f t p g] br by simp
  obtain zf where zf: "zone_of g f p = Some zf" "c \<in> set (z_cards zf)"
    using c by (cases "zone_of g f p") (auto simp: zone_cards_def)
  define g3 where "g3 = map_zone f p (\<lambda>cz. fst (zone_remove cz c)) g2"
  have rm: "remove_from_zone c f p g2 = (g3, True)"
    using zf zone_of_cong [OF zs, of f p] by (simp add: remove_from_zone_def g3_def zone_remove_eq)
  have none: "find_zone_change_triggers (gs_delayed_triggers g) c f to = []"
    using quiet by (simp add: find_zone_change_triggers_def nothing_waits_def)
  have g': "g' = settle_move env c f to p (position_in_zone c f p g2) g3"
    using mv quiet_move [OF br none] rm by simp
  have "gs_delayed_triggers g2 = gs_delayed_triggers g"
    using delayed_move(2) [of c f t p g] br by (simp del: delayed_move)
  then show "nothing_waits g'" using quiet
    by (cases f) (simp_all add: nothing_waits_def g' g3_def map_zone_def map_player_zones_def)
  show "pes.inv (gs_persistent_effects g) \<Longrightarrow> pes.inv (gs_persistent_effects g')"
    using before_removal_effects [OF br] by (simp add: g' settle_move_inv g3_def)
  have z': "zones_of g' = zones_of (map_zone to p (\<lambda>z. zone_add z c) g3)" by (simp add: g' settle_move_zones)
  have "get_player_zones (map_zone z q h x) p = None \<longleftrightarrow> get_player_zones x p = None" for z q h x
    by (cases z) (auto simp: map_zone_def get_player_zones_def map_player_zones_def entries.lookup_modify_if split: option.split)
  then show "get_player_zones g' p \<noteq> None"
    using p has_zones_cong [OF z', of p] has_zones_cong [OF zs, of p] by (simp add: g3_def)
  have "zone_of g' z p = (if z = to then map_option (\<lambda>z. zone_add z c) (zone_of g3 z p) else zone_of g3 z p)"
    using zone_of_cong [OF z', of z p] zone_of_map_zone [of to p "\<lambda>z. zone_add z c" g3 z] by simp
  moreover have "zone_of g3 z p = (if z = f then Some (fst (zone_remove zf c)) else zone_of g z p)"
    using zone_of_map_zone [of f p "\<lambda>cz. fst (zone_remove cz c)" g2 z] zone_of_cong [OF zs, of z p] zf(1)
    by (cases "z = f") (simp_all add: g3_def)
  moreover have "\<exists>cz. zone_of g to p = Some cz" by (rule zone_of_total [OF p])
  ultimately show "zone_cards g' z p = (if z = f then remove1 c (zone_cards g f p)
       else if z = destination c t g then zone_cards g z p @ [c] else zone_cards g z p)"
    using zf ne by (auto simp: zone_cards_def zone_remove_eq zone_add_def to)
qed

subsection \<open>Discarding\<close>

lemma zone_cards_hand: "zone_cards g Hand p = hand_of g p"
  by (simp add: zone_cards_def hand_of_def zone_of_def split: option.split)

lemma discard_one_hand:
  assumes "nothing_waits g" "get_player_zones g p \<noteq> None" "discard_one (move_card (Suc n) env) p g c = Inr g'"
  shows "nothing_waits g'" "get_player_zones g' p \<noteq> None" "Suc (length (hand_of g' p)) = length (hand_of g p)"
    "pes.inv (gs_persistent_effects g) \<Longrightarrow> pes.inv (gs_persistent_effects g')"
proof -
  obtain z where z: "get_player_zones g p = Some z" using assms(2) by blast
  then have mv: "move_card (Suc n) env c Hand Graveyard p g = Inr g'" and c: "c \<in> set (hand_of g p)"
    using assms(3) by (auto simp: discard_one_def zone_contains_def hand_of_def split: if_splits)
  note q = quiet_zone_move [OF assms(1) mv _ assms(2), unfolded zone_cards_hand, OF c]
  have ne: "destination c Graveyard g \<noteq> Hand" using destination_cases [of c Graveyard g] by auto
  show "nothing_waits g'" "get_player_zones g' p \<noteq> None" using q(1,2) [OF ne] by auto
  show "pes.inv (gs_persistent_effects g) \<Longrightarrow> pes.inv (gs_persistent_effects g')" by (rule q(3) [OF ne])
  show "Suc (length (hand_of g' p)) = length (hand_of g p)"
    using q(4) [OF ne, of Hand] length_pos_if_in_set [OF c] c by (simp add: zone_cards_hand length_remove1)
qed

lemma discards_hand:
  assumes "nothing_waits g" "get_player_zones g p \<noteq> None" "fold_result (discard_one (move_card (Suc n) env) p) g cs = Inr g'"
  shows "length cs + length (hand_of g' p) = length (hand_of g p)
    \<and> (pes.inv (gs_persistent_effects g) \<longrightarrow> pes.inv (gs_persistent_effects g'))"
  using assms
proof (induction cs arbitrary: g)
  case (Cons c cs)
  then obtain h where h: "discard_one (move_card (Suc n) env) p g c = Inr h"
    "fold_result (discard_one (move_card (Suc n) env) p) h cs = Inr g'" by (auto split: sum.splits)
  show ?case
    using Cons.IH [OF discard_one_hand(1,2) [OF Cons.prems(1,2) h(1)] h(2)] discard_one_hand(3,4) [OF Cons.prems(1,2) h(1)]
    by simp
qed simp

lemma cleanup_game_zones: "gs_player_zones (cleanup_game p q g) = gs_player_zones g"
proof -
  have "gs_player_zones (foldl (\<lambda>h c. map_card c f h) g' cs) = gs_player_zones g'" for f g' cs
    by (induction cs arbitrary: g') (simp_all add: map_card_def)
  then show ?thesis by (simp add: cleanup_game_def Let_def map_players_def map_player_def)
qed

subsection \<open>What cleanup leaves\<close>

lemma map_cards_foldl:
  assumes "\<And>k. f (f k) = f k"
  shows "card_of (foldl (\<lambda>h c. map_card c f h) g cs) d
    = (if d \<in> set cs then map_option f (card_of g d) else card_of g d)"
  using assms by (induction cs arbitrary: g) (auto simp: card_of_map_card option.map_comp comp_def)

lemma cleanup_permanent_flags_again: "cleanup_permanent_flags (cleanup_permanent_flags k) = cleanup_permanent_flags k"
  by (simp add: cleanup_permanent_flags_def Let_def is_creature_def card_cache_def)

definition ended_permanent :: "card \<Rightarrow> bool" where
  "ended_permanent k \<longleftrightarrow> (is_creature k \<longrightarrow> c_damage k = 0 \<and> c_regeneration_shields k = 0)
     \<and> c_damage_prevention k = 0 \<and> \<not> c_exile_if_would_die_this_turn k
     \<and> \<not> c_exile_if_would_go_to_graveyard_this_turn k \<and> \<not> c_prevent_all_combat_damage_this_turn k
     \<and> c_damaged_by_this_turn k = []"

lemma cleanup_permanent_flags_ended: "ended_permanent (cleanup_permanent_flags k)"
  by (simp add: ended_permanent_def cleanup_permanent_flags_def Let_def is_creature_def card_cache_def)

lemma foldl_map_card_keeps:
  "gs_players (foldl (\<lambda>h c. map_card c f h) g cs) = gs_players g"
  "gs_battlefield (foldl (\<lambda>h c. map_card c f h) g cs) = gs_battlefield g"
  "gs_delayed_triggers (foldl (\<lambda>h c. map_card c f h) g cs) = gs_delayed_triggers g"
  "gs_persistent_effects (foldl (\<lambda>h c. map_card c f h) g cs) = gs_persistent_effects g"
  by (induction cs arbitrary: g) (simp_all add: map_card_def)

lemma keeps_id_empty [simp]: "keeps_id empty_mana_pool"
  by (simp add: keeps_id_def empty_mana_pool_def)

lemma try_get_map_player_if:
  "keeps_id f \<Longrightarrow> try_get_player (map_player p f g) q = (if p = q then map_option f (try_get_player g q) else try_get_player g q)"
  by (simp add: try_get_player_def map_player_def players.lookup_modify_if)

lemma find_player_map: "keeps_id f \<Longrightarrow> find_player (map f ps) i = map_option f (find_player ps i)"
  by (induction ps) (simp_all add: find_player_def keeps_id_def)

lemma keeps_id_cleanup: "keeps_id cleanup_player"
  by (simp add: keeps_id_def cleanup_player_def)

lemma cleanup_game_ends:
  assumes "pes.inv (gs_persistent_effects g)"
  shows "\<And>c k. zone_contains (gs_battlefield (cleanup_game p q g)) c \<Longrightarrow> card_of (cleanup_game p q g) c = Some k
      \<Longrightarrow> ended_permanent k"
    "\<And>x. x \<in> set (gs_players (cleanup_game p q g)) \<Longrightarrow> p_damage_prevention x = 0 \<and> p_source_prevention_shields x = []
      \<and> \<not> p_island_sanctuary_protected x \<and> \<not> p_had_creature_countered_this_turn x"
    "\<And>r x. r \<in> {p, q} \<Longrightarrow> try_get_player (cleanup_game p q g) r = Some x \<Longrightarrow> p_mana_pool x = pool_clear (p_mana_pool x)"
    "\<And>e. e \<in> set (pes_effects (gs_persistent_effects (cleanup_game p q g))) \<Longrightarrow> \<not> should_cleanup_at_eot (pe_cleanup e)"
    "\<And>t. t \<in> set (dts_triggers (gs_delayed_triggers (cleanup_game p q g))) \<Longrightarrow> dt_expiry t \<noteq> Some ExpEndOfTurn"
proof -
  define g1 where "g1 = foldl (\<lambda>h x. map_player x empty_mana_pool h) g [p, q]"
  define g2 where "g2 = g1\<lparr>gs_persistent_effects := fst (pes_remove_many
    (find_effects_to_cleanup_at_eot (gs_persistent_effects g1)) (gs_persistent_effects g1))\<rparr>"
  define g3 where "g3 = g2\<lparr>gs_delayed_triggers := fst (dts_cleanup_end_of_turn (gs_delayed_triggers g2))\<rparr>"
  define g4 where "g4 = foldl (\<lambda>h c. map_card c cleanup_permanent_flags h) g3 (z_cards (gs_battlefield g3))"
  have g: "cleanup_game p q g = map_players cleanup_player g4"
    by (simp add: cleanup_game_def Let_def g1_def g2_def g3_def g4_def)
  have cards: "card_of g4 c = (if c \<in> set (z_cards (gs_battlefield g4))
      then map_option cleanup_permanent_flags (card_of g3 c) else card_of g3 c)" for c
    by (simp add: g4_def map_cards_foldl [OF cleanup_permanent_flags_again] foldl_map_card_keeps)
  show "zone_contains (gs_battlefield (cleanup_game p q g)) c \<Longrightarrow> card_of (cleanup_game p q g) c = Some k
      \<Longrightarrow> ended_permanent k" for c k
    using cards [of c] cleanup_permanent_flags_ended
    by (cases "card_of g3 c") (auto simp: g map_players_def zone_contains_def card_of_def)
  show "x \<in> set (gs_players (cleanup_game p q g)) \<Longrightarrow> p_damage_prevention x = 0 \<and> p_source_prevention_shields x = []
      \<and> \<not> p_island_sanctuary_protected x \<and> \<not> p_had_creature_countered_this_turn x" for x
    by (auto simp: g map_players_def cleanup_player_def)
  have p1: "gs_persistent_effects g1 = gs_persistent_effects g" by (simp add: g1_def map_player_def)
  show "e \<in> set (pes_effects (gs_persistent_effects (cleanup_game p q g))) \<Longrightarrow> \<not> should_cleanup_at_eot (pe_cleanup e)" for e
    using cleanup_eot_exact [OF assms]
    by (auto simp: g map_players_def g4_def foldl_map_card_keeps g3_def g2_def p1)
  show "t \<in> set (dts_triggers (gs_delayed_triggers (cleanup_game p q g))) \<Longrightarrow> dt_expiry t \<noteq> Some ExpEndOfTurn" for t
    by (auto simp: g map_players_def g4_def foldl_map_card_keeps g3_def dts_cleanup_end_of_turn_def)
  have "gs_players g4 = gs_players g1" by (simp add: g4_def foldl_map_card_keeps g3_def g2_def)
  then have "try_get_player (cleanup_game p q g) r = map_option cleanup_player (try_get_player g1 r)" for r
    by (simp add: g try_get_player_def map_players_def find_player_map keeps_id_cleanup)
  then show "r \<in> {p, q} \<Longrightarrow> try_get_player (cleanup_game p q g) r = Some x \<Longrightarrow> p_mana_pool x = pool_clear (p_mana_pool x)" for r x
    by (auto simp: g1_def try_get_map_player_if empty_mana_pool_def cleanup_player_def pool_clear_def split: if_splits)
qed

text \<open>A player who answers ends up with no more cards than allowed.\<close>

definition answers_discards :: "'c loop_env \<Rightarrow> bool" where
  "answers_discards env \<longleftrightarrow> (\<forall>s hand n lp. \<exists>after cs. le_discard env s hand n lp = (after, Answer cs))"

lemma discard_chosen_hand:
  assumes run: "discard_chosen env p n prior cs lp = Inr lp'" and n: "0 < n" "n \<le> length (hand_of (lp_game lp) p)"
    and quiet: "nothing_waits (lp_game lp)" and inv: "pes.inv (gs_persistent_effects (lp_game lp))"
  shows "length (hand_of (lp_game lp') p) = length (hand_of (lp_game lp) p) - n \<and> pes.inv (gs_persistent_effects (lp_game lp'))"
proof -
  define g where "g = lp_game (log_choice_point p (Some (ReplayDiscard cs)) prior lp)"
  have g: "hand_of g p = hand_of (lp_game lp) p" "nothing_waits g" "pes.inv (gs_persistent_effects g)"
    using quiet inv by (simp_all add: g_def log_choice_point_def Let_def log_action_at_def nothing_waits_def
        hand_of_def get_player_zones_def)
  obtain g' where len: "length cs = n" and g': "lp_game lp' = g'"
    and fold: "fold_result (discard_one (loop_mover env) p) g cs = Inr g'"
    using run by (auto simp: discard_chosen_def Let_def try_game_Inr g_def split: if_splits)
  have zones: "get_player_zones g p \<noteq> None" using n g(1) by (auto simp: hand_of_def split: option.splits)
  obtain c cs' where cs: "cs = c # cs'" using len n(1) by (cases cs) auto
  show ?thesis
  proof (cases "le_fuel env")
    case 0
    then show ?thesis using fold zones by (auto simp: cs discard_one_def loop_mover_def split: if_splits option.splits)
  next
    case (Suc k)
    then show ?thesis
      using discards_hand [OF g(2) zones, of k "game_env.truncate (le_combat env)" cs g'] fold g len
      by (auto simp: loop_mover_def g')
  qed
qed

lemma discard_to_hand_size_answered:
  assumes run: "discard_to_hand_size env p lp (\<lambda>lp1. carry_on (h lp1)) = Inr (lp', None)"
    and hook: "le_hook env = None" and ans: "answers_discards env"
    and quiet: "nothing_waits (lp_game lp)" and inv: "pes.inv (gs_persistent_effects (lp_game lp))"
  obtains x lp1 where "get_player (lp_game lp) p = Inr x" "lp' = h lp1"
    "length (hand_of (lp_game lp1) p) \<le> p_max_hand_size x" "pes.inv (gs_persistent_effects (lp_game lp1))"
proof -
  obtain x where x: "get_player (lp_game lp) p = Inr x"
    using run by (auto simp: discard_to_hand_size_def and_then_Inr)
  define hand n s where "hand = hand_of (lp_game lp) p" and "n = length hand - p_max_hand_size x" and "s = seat_of env p"
  show thesis
  proof (cases "length hand \<le> p_max_hand_size x")
    case True
    then show thesis using run x that [OF x, of lp] inv by (auto simp: discard_to_hand_size_def Let_def hand_def)
  next
    case False
    obtain after cs where a: "le_discard env s hand n lp = (after, Answer cs)"
      using ans unfolding answers_discards_def by metis
    define lp2 where "lp2 = controllers_after after lp"
    have ask: "choose_discard_with_hook env s hand n lp = (lp2, Answer cs)"
      using hook a by (simp add: choose_discard_with_hook_def choose_with_hook_def hook_for_def let_answer_def lp2_def)
    have lp2: "hand_of (lp_game lp2) p = hand" "nothing_waits (lp_game lp2)" "pes.inv (gs_persistent_effects (lp_game lp2))"
      using quiet inv by (simp_all add: lp2_def controllers_after_def hand_def hand_of_def get_player_zones_def
          nothing_waits_def split: prod.split)
    obtain lp3 where d: "discard_chosen env p n (log_count (gs_logger (lp_game lp))) cs lp2 = Inr lp3" "lp' = h lp3"
      using run x False ask
      by (auto simp: discard_to_hand_size_def Let_def hand_def [symmetric] n_def [symmetric] s_def [symmetric]
          break_unless_answered_def and_then_Inr split: option.splits)
    have "length (hand_of (lp_game lp3) p) = length hand - n \<and> pes.inv (gs_persistent_effects (lp_game lp3))"
      using discard_chosen_hand [OF d(1) _ _ lp2(2,3)] False by (simp add: lp2(1) n_def)
    then show thesis using that [OF x d(2)] False by (simp add: n_def)
  qed
qed

end
