(* ===== verification/LoopRuns.thy ===== *)
theory LoopRuns
  imports LoopFacts
begin

section \<open>Runs of the loop\<close>

text \<open>
  How the counters of the loop and the clock of the turn pass through a run. No step touches the number
  of turns played or their limit when the callbacks do not; and when no step moves the clock, the loop
  over the steps is a run over the schedule of the turn, which the clock alone determines.
\<close>

subsection \<open>The counters\<close>

definition counters :: "'c loop_state \<Rightarrow> u32 \<times> u32" where
  "counters lp = (lp_max_turns lp, lp_turns_elapsed lp)"

text \<open>The callbacks leave the counters alone.\<close>

definition keeps_counters :: "'c loop_env \<Rightarrow> bool" where
  "keeps_counters env \<longleftrightarrow>
     (\<forall>lp lp' r. le_priority_round env lp = Inr (lp', r) \<longrightarrow> counters lp' = counters lp)
     \<and> (\<forall>ev lp lp'. le_phase_triggers env ev lp = Inr lp' \<longrightarrow> counters lp' = counters lp)
     \<and> (\<forall>p lp lp'. le_attackers_declared env p lp = Inr lp' \<longrightarrow> counters lp' = counters lp)
     \<and> (\<forall>p lp lp'. le_attacker_unblocked env p lp = Inr lp' \<longrightarrow> counters lp' = counters lp)
     \<and> (\<forall>lp. counters (le_sync env lp) = counters lp) \<and> (\<forall>p lp. counters (le_push_reveals env p lp) = counters lp)
     \<and> (\<forall>h p k lp. le_hook env = Some h \<longrightarrow> counters (fst (h p k lp)) = counters lp)"

definition counted :: "u32 \<times> u32 \<Rightarrow> mtg_error + 'c loop_state \<Rightarrow> bool" where
  "counted w r \<longleftrightarrow> (\<forall>lp. r = Inr lp \<longrightarrow> counters lp = w)"

definition counted_step :: "u32 \<times> u32 \<Rightarrow> 'c step_result \<Rightarrow> bool" where
  "counted_step w r \<longleftrightarrow> (\<forall>lp x. r = Inr (lp, x) \<longrightarrow> counters lp = w)"

lemma counters_writes [simp]:
  "counters (on_game f lp) = counters lp" "counters (log_choice_point p ch n lp) = counters lp"
  "counters (end_replay lp) = counters lp" "counters (controllers_after a lp) = counters lp"
  "counters (lp\<lparr>lp_game := g\<rparr>) = counters lp" "counters (lp\<lparr>lp_controllers := cs\<rparr>) = counters lp"
  "counters (fst (check_win_condition lp)) = counters lp" "counters (speak m lp) = counters lp"
  "counters (headed b m lp) = counters lp" "counters (turn_header lp) = counters lp"
  "counters (finish_resumed lp) = counters lp"
  by (simp_all add: counters_def on_game_def log_choice_point_def Let_def end_replay_def controllers_after_def
      check_win_condition_def speak_def headed_def turn_header_def emit_turn_one_header_def finish_resumed_def
      split: option.split prod.split)

lemma counted_simps [simp]: "counted w (Inl e)" "counted w (Inr lp) \<longleftrightarrow> counters lp = w"
  "counted_step w (Inl e)" "counted_step w (Inr (lp, x)) \<longleftrightarrow> counters lp = w" "counted_step w (carry_on lp) \<longleftrightarrow> counters lp = w"
  by (auto simp: counted_def counted_step_def carry_on_def)

lemma counted_try_game [simp]: "counted w (try_game f lp) \<longleftrightarrow> (\<forall>g. f (lp_game lp) = Inr g \<longrightarrow> counters lp = w)"
  by (cases "f (lp_game lp)") (auto simp: try_game_def)

lemma counted_and_then:
  assumes "counted w r" "\<And>lp. counters lp = w \<Longrightarrow> counted w (f lp)"
  shows "counted w (and_then r f)"
proof (cases r)
  case (Inr lp)
  then have "counters lp = w" using assms(1) by simp
  then show ?thesis unfolding Inr and_then_simps by (rule assms(2))
qed simp

lemma counted_step_and_then:
  assumes "counted w r" "\<And>lp. counters lp = w \<Longrightarrow> counted_step w (f lp)"
  shows "counted_step w (and_then r f)"
proof (cases r)
  case (Inr lp)
  then have "counters lp = w" using assms(1) by simp
  then show ?thesis unfolding Inr and_then_simps by (rule assms(2))
qed simp

lemma counted_win [simp]: "counted_step w (Inr (check_win_condition lp)) \<longleftrightarrow> counters lp = w"
  using counters_writes(7) [of lp] by (cases "check_win_condition lp") simp

lemma counted_step_value:
  assumes "\<And>x. r = Inr x \<Longrightarrow> counted_step w (f x)"
  shows "counted_step w (and_then r f)"
  by (cases r) (simp_all add: assms)

lemma counted_value:
  assumes "\<And>x. r = Inr x \<Longrightarrow> counted w (f x)"
  shows "counted w (and_then r f)"
  by (cases r) (simp_all add: assms)

lemma counted_unless_over:
  assumes "counted_step w r" "\<And>lp. counters lp = w \<Longrightarrow> counted_step w (f lp)"
  shows "counted_step w (unless_over r f)"
proof (cases r)
  case (Inr x)
  obtain lp o' where x: "x = (lp, o')" by force
  have "counters lp = w" using assms(1) Inr x by simp
  then show ?thesis using assms(2) Inr x by (cases o') (simp_all add: unless_over_def)
qed (simp add: unless_over_def)

lemma counted_fold:
  assumes "\<And>lp x. counters lp = w \<Longrightarrow> counted w (f lp x)"
  shows "counters lp = w \<Longrightarrow> counted w (fold_result f lp xs)"
proof (induction xs arbitrary: lp)
  case (Cons x xs)
  show ?case
  proof (cases "f lp x")
    case (Inr lp1)
    then have "counters lp1 = w" using assms [OF Cons.prems, of x] by simp
    then show ?thesis using Cons.IH Inr by simp
  qed simp
qed simp

lemma counted_break:
  assumes "counters lp = w" "\<And>x lp. counters lp = w \<Longrightarrow> counted_step w (f x lp)"
  shows "counted_step w (break_unless_answered ds p r lp f)"
  using assms(1) by (cases r) (simp_all add: break_unless_answered_def assms(2))

lemma counted_shapes:
  "\<lbrakk>b \<Longrightarrow> counted_step w r; \<not> b \<Longrightarrow> counted_step w r'\<rbrakk> \<Longrightarrow> counted_step w (if b then r else r')"
  "\<lbrakk>counted_step w r; \<And>x. counted_step w (h x)\<rbrakk> \<Longrightarrow> counted_step w (case q of None \<Rightarrow> r | Some x \<Rightarrow> h x)"
  "\<lbrakk>counted_step w r; \<And>x xs. counted_step w (k x xs)\<rbrakk> \<Longrightarrow> counted_step w (case l of [] \<Rightarrow> r | x # xs \<Rightarrow> k x xs)"
  "counters lp = w \<Longrightarrow> counted_step w (carry_on lp)" "counters lp = w \<Longrightarrow> counted_step w (Inr (lp, x))"
  "counted_step w (Inl e)" "counters lp = w \<Longrightarrow> counted w (try_game g lp)"
  "counters lp = w \<Longrightarrow> counted_step w (Inr (check_win_condition lp))"
  by (simp_all split: option.split list.split)

lemma counted_calls:
  assumes "keeps_counters env"
  shows "counters lp = w \<Longrightarrow> counted_step w (le_priority_round env lp)"
    "counters lp = w \<Longrightarrow> counted w (le_phase_triggers env ev lp)"
    "counters lp = w \<Longrightarrow> counted w (le_attackers_declared env p lp)"
    "counters lp = w \<Longrightarrow> counted w (le_attacker_unblocked env p lp)"
    "counters (le_sync env lp) = counters lp" "counters (le_push_reveals env p lp) = counters lp"
  using assms by (auto simp: keeps_counters_def counted_def counted_step_def)

lemma counted_choose:
  assumes "keeps_counters env" "choose_with_hook (hook_for env s k) ask use lp = (lp', r)"
  shows "counters lp' = counters lp"
proof (cases "le_hook env")
  case None
  then show ?thesis using assms(2) by (auto simp: choose_with_hook_def hook_for_def let_answer_def split: prod.splits)
next
  case (Some h)
  obtain lp1 q where h: "h (le_seat env s) k lp = (lp1, q)" by force
  have "counters lp1 = counters lp" using assms(1) Some h unfolding keeps_counters_def by (metis fst_conv)
  then have "counters (le_sync env lp1) = counters lp" using assms(1) by (simp add: counted_calls)
  then show ?thesis
    using assms(2) Some h
    by (cases q) (auto simp: choose_with_hook_def hook_for_def let_answer_def split: prod.splits)
qed

lemma counted_asked:
  assumes "keeps_counters env" "counters lp = w" "\<And>lp1 r. counters lp1 = w \<Longrightarrow> counted_step w (f lp1 r)"
  shows "counted_step w (case choose_with_hook (hook_for env s k) ask use lp of (lp1, r) \<Rightarrow> f lp1 r)"
proof -
  obtain lp1 r where e: "choose_with_hook (hook_for env s k) ask use lp = (lp1, r)" by force
  have "counters lp1 = w" using counted_choose [OF assms(1) e] assms(2) by simp
  then show ?thesis unfolding e prod.case by (rule assms(3))
qed

subsection \<open>Every step leaves the counters\<close>

lemma ask_stay_tapped_counted:
  assumes k: "keeps_counters env" and "counters lp = w" "\<And>stay lp1. counters lp1 = w \<Longrightarrow> counted_step w (f stay lp1)"
  shows "counted_step w (ask_stay_tapped env cs lp f)"
  unfolding ask_stay_tapped_def Let_def choose_not_untap_with_hook_def
  by (intro counted_asked [OF k] counted_shapes assms(2,3))

lemma untap_optional_counted:
  "keeps_counters env \<Longrightarrow> counters lp = w \<Longrightarrow> counted_step w (untap_optional env cs lp)"
  unfolding untap_optional_def by (intro counted_shapes ask_stay_tapped_counted) simp_all

lemma untap_limited_counted:
  "keeps_counters env \<Longrightarrow> counters lp = w \<Longrightarrow> counted_step w (untap_limited env n cs lp)"
  unfolding untap_limited_def Let_def by (intro counted_shapes ask_stay_tapped_counted) simp_all

lemma untap_step_counted:
  "keeps_counters env \<Longrightarrow> counters lp = w \<Longrightarrow> counted_step w (untap_step env lp)"
  unfolding untap_step_def Let_def untap_permanents_def
  by (intro counted_shapes counted_step_value counted_unless_over untap_optional_counted untap_limited_counted) simp_all

lemmas counted_intros = counted_shapes counted_step_and_then counted_calls(1-4)

lemma fire_phase_counted: "counters lp = w \<Longrightarrow> counted w (fire_phase env ph lp)"
  by (simp add: fire_phase_def)

lemma after_blocks_counted:
  "keeps_counters env \<Longrightarrow> counters lp = w \<Longrightarrow> counted_step w (after_blocks env lp)"
  unfolding after_blocks_def by (intro counted_intros)

lemma plain_steps_counted:
  assumes "keeps_counters env" "counters lp = w"
  shows "counted_step w (upkeep_step env lp)" "counted_step w (main_phase env lp)"
    "counted_step w (end_step env lp)" "counted_step w (begin_combat_step env lp)"
    "counted_step w (end_combat_step env lp)" "counted_step w (draw_step env lp)"
  unfolding upkeep_step_def main_phase_def end_step_def begin_combat_step_def end_combat_step_def draw_step_def Let_def
  using assms by - (intro counted_intros fire_phase_counted; simp add: counted_calls(5,6))+

lemma discard_chosen_counted: "counters lp = w \<Longrightarrow> counted w (discard_chosen env p n prior cs lp)"
  by (simp add: discard_chosen_def Let_def)

lemma cleanup_step_counted:
  assumes k: "keeps_counters env" and w: "counters lp = w"
  shows "counted_step w (cleanup_step env lp)"
  unfolding cleanup_step_def Let_def discard_to_hand_size_def choose_discard_with_hook_def
  by (intro counted_shapes counted_step_value [of "get_player _ _"]
      counted_step_and_then [of _ "discard_chosen _ _ _ _ _ _"]
      counted_break counted_asked [OF k] discard_chosen_counted; simp add: w)

lemma announce_attacker_counted: "counters lp = w \<Longrightarrow> counted w (announce_attacker env p c lp)"
  unfolding announce_attacker_def
  by (cases "card_of (lp_game lp) c"; cases "attacker_message env p c (the (card_of (lp_game lp) c)) (lp_game lp)") simp_all

lemma declare_one_counted:
  assumes w: "counters lp = w"
  shows "counted w (declare_one env p lp c)"
proof -
  have go: "counted w (and_then (try_game f lp) (announce_attacker env p c))" for f
    by (intro counted_and_then counted_shapes announce_attacker_counted w)
  show ?thesis unfolding declare_one_def Let_def using w go
    by (simp split: sum.split mtg_error.split)
qed

lemma force_attackers_counted:
  assumes "force_attackers env available chosen lp = Inr (lp', cs)"
  shows "counters lp' = counters lp"
proof -
  have "fold_result (\<lambda>(lp, attackers) c. if c \<in> set attackers then Inr (lp, attackers)
      else map_sum id (\<lambda>m. if m
         then (speak (named (lp_game lp) c @ '' must attack this combat if able'') lp, attackers @ [c])
         else (lp, attackers)) (kw (le_keyword_fuel env) (lp_game lp) c ''MustAttack'')) s xs = Inr (lp', cs)
      \<Longrightarrow> counters lp' = counters (fst s)" for s xs
  proof (induction xs arbitrary: s)
    case (Cons x xs)
    obtain l a where s: "s = (l, a)" by force
    show ?case
    proof (cases "x \<in> set a")
      case True
      then show ?thesis using Cons s by simp
    next
      case False
      then show ?thesis using Cons.prems Cons.IH s
        by (cases "kw (le_keyword_fuel env) (lp_game l) x ''MustAttack''") (force split: if_splits)+
    qed
  qed simp
  from this [of "(lp, chosen)" available] assms show ?thesis unfolding force_attackers_def by simp
qed

lemma declare_attackers_counted:
  assumes k: "keeps_counters env" and w: "counters lp = w"
  shows "counted w (declare_attackers env p prior available chosen lp)"
proof (cases "force_attackers env available chosen lp")
  case (Inr r)
  obtain lp1 cs where r: "r = (lp1, cs)" by force
  have "counters lp1 = w" using force_attackers_counted Inr r w by metis
  then show ?thesis unfolding declare_attackers_def Inr r and_then_simps prod.case
    by (intro counted_and_then counted_fold declare_one_counted counted_calls(3) [OF k]) simp_all
qed (simp add: declare_attackers_def)

lemma declare_attackers_step_counted:
  assumes k: "keeps_counters env" and w: "counters lp = w"
  shows "counted_step w (declare_attackers_step env lp)"
  unfolding declare_attackers_step_def Let_def choose_attackers_with_hook_def
  by (intro counted_step_value [of "get_available_attacker_creatures _ _ _"] counted_shapes
      counted_step_and_then [of _ "declare_attackers _ _ _ _ _ _"] counted_break counted_asked [OF k]
      declare_attackers_counted [OF k] counted_calls(1) [OF k]; simp add: w)

lemma declare_blockers_counted:
  assumes "counters lp = w"
  shows "counted w (declare_blockers env d prior bs lp)"
proof -
  have "counters (foldl (declare_block p) lp1 bs) = counters lp1" for p bs and lp1 :: "'a loop_state"
    by (induction bs arbitrary: lp1) (auto simp: declare_block_def Let_def)
  then show ?thesis using assms unfolding declare_blockers_def Let_def
    by (cases "validate_blocking_restrictions (le_keyword_fuel env)
        (lp_game (log_choice_point d (Some (ReplayBlockers bs)) prior lp)) bs") simp_all
qed

lemma declare_blockers_step_counted:
  assumes k: "keeps_counters env" and w: "counters lp = w"
  shows "counted_step w (declare_blockers_step env lp)"
  unfolding declare_blockers_step_def Let_def ask_blockers_def choose_blockers_with_hook_def
  by (intro counted_step_value [of "filter_result _ _"] counted_shapes
      counted_step_and_then [of _ "declare_blockers _ _ _ _ _"] counted_break counted_asked [OF k]
      declare_blockers_counted after_blocks_counted k; simp add: w)

lemma deal_step_counted:
  assumes w: "counters lp = w"
  shows "counted_step w (deal_step env b lp)"
proof -
  obtain lp1 rec where r: "recorded_plan env lp = (lp1, rec)" by force
  obtain aft a1 a2 where d: "le_damage_answers env b lp1 = (aft, a1, a2)" by (metis prod_cases3)
  have "counters lp1 = w" using w r by (auto simp: recorded_plan_def split: prod.splits)
  then have "counted w (assign_combat_damage_recorded env b lp)"
    unfolding assign_combat_damage_recorded_def r prod.case d Let_def
    by (intro counted_value) (auto split: prod.split)
  then show ?thesis
    unfolding deal_step_def check_win_unless_deferred_def by (intro counted_step_and_then counted_shapes)
qed

lemma combat_damage_step_counted:
  assumes k: "keeps_counters env" and w: "counters lp = w"
  shows "counted_step w (combat_damage_step env lp)"
  unfolding combat_damage_step_def Let_def first_strike_damage_def
  by (intro counted_unless_over counted_shapes deal_step_counted counted_calls(1) [OF k]; simp add: w)

lemma run_step_counted:
  assumes "keeps_counters env" "counters lp = w"
  shows "counted_step w (run_step env s lp)"
  using assms by (cases s) (simp_all add: untap_step_counted plain_steps_counted cleanup_step_counted
      declare_attackers_step_counted declare_blockers_step_counted combat_damage_step_counted)

subsection \<open>Turns and games\<close>

lemma begin_turn_counted: "counters lp = w \<Longrightarrow> counted w (begin_turn lp)"
  by (simp add: begin_turn_def)

lemma execute_step_counted: "keeps_counters env \<Longrightarrow> counters lp = w \<Longrightarrow> counted_step w (execute_step env lp)"
  unfolding execute_step_def by (rule run_step_counted) simp_all

lemma step_loop_counted: "keeps_counters env \<Longrightarrow> counters lp = w \<Longrightarrow> counted_step w (step_loop n env resumed lp)"
proof (induction n arbitrary: lp)
  case (Suc n)
  show ?case unfolding step_loop.simps
    by (intro counted_unless_over execute_step_counted Suc counted_shapes counted_step_and_then) simp_all
qed simp

lemma run_turn_counted: "keeps_counters env \<Longrightarrow> counters lp = w \<Longrightarrow> counted_step w (run_turn n env lp)"
  unfolding run_turn_def by (intro counted_step_and_then begin_turn_counted step_loop_counted)

lemma check_win_elapsed [simp]: "lp_turns_elapsed (fst (check_win_condition lp)) = lp_turns_elapsed lp"
  "lp_max_turns (fst (check_win_condition lp)) = lp_max_turns lp"
  using counters_writes(7) [of lp] by (simp_all add: counters_def)

lemma check_win_result: "check_win_condition lp = (lp', Some r) \<Longrightarrow> gr_turns_played r = lp_turns_elapsed lp"
  by (auto simp: check_win_condition_def Let_def result_of_def split: if_splits option.splits list.splits prod.splits)

text \<open>A round either ends the game or counts one turn more, below the limit.\<close>

lemma run_turn_once_next:
  assumes k: "keeps_counters env" and r: "run_turn_once n env lp = Inr (lp', None)"
  shows "lp_turns_elapsed lp < lp_max_turns lp" "lp_max_turns lp' = lp_max_turns lp"
    "lp_turns_elapsed lp' = lp_turns_elapsed lp + 1"
proof -
  obtain lp1 q where c: "check_win_condition lp = (lp1, q)" by force
  have w: "counters lp1 = counters lp" using counters_writes(7) [of lp] c by simp
  have q: "q = None" and below: "\<not> lp_max_turns lp1 \<le> lp_turns_elapsed lp1"
    and t: "unless_over (run_turn n env lp1) (\<lambda>lp2. Inr (check_win_condition (count_turn lp2))) = Inr (lp', None)"
    using r c by (auto simp: run_turn_once_def unless_over_def split: option.splits if_splits)
  obtain lp2 where lp2: "run_turn n env lp1 = Inr (lp2, None)" "check_win_condition (count_turn lp2) = (lp', None)"
    using t by (auto simp: unless_over_def and_then_Inr split: option.splits prod.splits)
  have "counters lp2 = counters lp"
    using run_turn_counted [OF k w, of n] lp2(1) by simp
  moreover have "lp_max_turns lp' = lp_max_turns (count_turn lp2)" "lp_turns_elapsed lp' = lp_turns_elapsed (count_turn lp2)"
    using check_win_elapsed [of "count_turn lp2"] lp2(2) by simp_all
  ultimately show "lp_max_turns lp' = lp_max_turns lp" "lp_turns_elapsed lp' = lp_turns_elapsed lp + 1"
    by (simp_all add: count_turn_def counters_def)
  show "lp_turns_elapsed lp < lp_max_turns lp" using below w by (simp add: counters_def)
qed

lemma turns_left_drop: "e < m \<Longrightarrow> unat (m - (e + 1 :: u32)) < unat (m - e)"
proof -
  assume l: "e < m"
  have "unat w < 4294967296" for w :: u32 using unsigned_less [of w] by simp
  from this [of m] have "unat e + 1 < 4294967296" using l by (simp add: word_less_nat_alt)
  then have e1: "unat (e + 1) = Suc (unat e)" by (simp add: unat_plus_if')
  have "e + 1 \<le> m" using l by (simp add: inc_le)
  then have "unat (m - (e + 1)) = unat m - Suc (unat e)" "unat (m - e) = unat m - unat e"
    using l e1 by (simp_all add: unat_sub less_imp_le)
  then show ?thesis using l by (simp add: word_less_nat_alt)
qed

lemma more_rounds:
  assumes k: "keeps_counters env"
  shows "\<lbrakk>lp_turns_elapsed lp \<le> lp_max_turns lp; unat (lp_max_turns lp - lp_turns_elapsed lp) < m; m \<le> m'\<rbrakk>
    \<Longrightarrow> game_rounds m' n env lp = game_rounds m n env lp"
proof (induction m arbitrary: lp m')
  case (Suc m)
  then obtain m1 where m1: "m' = Suc m1" "m \<le> m1" by (cases m') auto
  show ?case
  proof (cases "run_turn_once n env lp")
    case (Inr x)
    obtain lp1 q where x: "x = (lp1, q)" by force
    show ?thesis
    proof (cases q)
      case None
      note t = run_turn_once_next [OF k Inr [unfolded x None]]
      have "unat (lp_max_turns lp1 - lp_turns_elapsed lp1) < m"
        using turns_left_drop [OF t(1)] Suc.prems(2) t(2,3) by simp
      moreover have "lp_turns_elapsed lp1 \<le> lp_max_turns lp1" using t by (simp add: inc_le)
      ultimately have "game_rounds m1 n env lp1 = game_rounds m n env lp1" using Suc.IH m1(2) by blast
      then show ?thesis using Inr x None m1 by simp
    qed (simp add: Inr x m1)
  qed (simp add: m1)
qed simp

lemma run_turn_once_counts:
  assumes k: "keeps_counters env" and r: "run_turn_once n env lp = Inr (lp', q)"
    and e: "lp_turns_elapsed lp \<le> lp_max_turns lp"
  shows "lp_max_turns lp' = lp_max_turns lp" "lp_turns_elapsed lp' \<le> lp_max_turns lp"
proof -
  obtain lp1 q1 where c: "check_win_condition lp = (lp1, q1)" by force
  have w: "counters lp1 = counters lp" using counters_writes(7) [of lp] c by simp
  have "counters lp' = counters lp \<or> (\<exists>lp2. counters lp2 = counters lp
      \<and> lp_turns_elapsed lp1 < lp_max_turns lp1 \<and> check_win_condition (count_turn lp2) = (lp', q))"
  proof (cases "q1 \<noteq> None \<or> lp_max_turns lp1 \<le> lp_turns_elapsed lp1")
    case True
    then show ?thesis using r c w by (cases q1) (simp_all add: run_turn_once_def unless_over_def)
  next
    case False
    then have t: "unless_over (run_turn n env lp1) (\<lambda>lp2. Inr (check_win_condition (count_turn lp2))) = Inr (lp', q)"
      using r c by (simp add: run_turn_once_def unless_over_def)
    then obtain lp2 q2 where lp2: "run_turn n env lp1 = Inr (lp2, q2)" by (auto simp: unless_over_def and_then_Inr)
    have "counters lp2 = counters lp" using run_turn_counted [OF k w, of n] lp2 by simp
    then show ?thesis using t lp2 False by (cases q2) (simp_all add: unless_over_def not_le, blast)
  qed
  then consider "counters lp' = counters lp"
    | lp2 where "counters lp2 = counters lp" "lp_turns_elapsed lp1 < lp_max_turns lp1"
        "check_win_condition (count_turn lp2) = (lp', q)" by blast
  then have "lp_max_turns lp' = lp_max_turns lp \<and> lp_turns_elapsed lp' \<le> lp_max_turns lp"
  proof cases
    case 1
    then show ?thesis using e by (simp add: counters_def)
  next
    case (2 lp2)
    have "lp_max_turns lp' = lp_max_turns (count_turn lp2)" "lp_turns_elapsed lp' = lp_turns_elapsed (count_turn lp2)"
      using check_win_elapsed [of "count_turn lp2"] 2(3) by simp_all
    then show ?thesis using 2(1,2) w by (simp add: count_turn_def counters_def inc_le)
  qed
  then show "lp_max_turns lp' = lp_max_turns lp" "lp_turns_elapsed lp' \<le> lp_max_turns lp" by simp_all
qed

lemma rounds_count:
  assumes k: "keeps_counters env"
  shows "\<lbrakk>lp_turns_elapsed lp \<le> lp_max_turns lp; game_rounds m n env lp = Inr (lp', r)\<rbrakk>
    \<Longrightarrow> lp_max_turns lp' = lp_max_turns lp \<and> lp_turns_elapsed lp' \<le> lp_max_turns lp"
proof (induction m arbitrary: lp)
  case (Suc m)
  obtain lp1 q where x: "run_turn_once n env lp = Inr (lp1, q)"
    using Suc.prems(2) by (auto simp: and_then_Inr)
  note c = run_turn_once_counts [OF k x Suc.prems(1)]
  show ?case using Suc.prems(2) Suc.IH [of lp1] c x by (cases q) auto
qed simp

text \<open>With a round for each turn left and one more, the fuel of the rounds is never what runs out.\<close>

lemma rounds_suffice:
  assumes k: "keeps_counters env"
  shows "\<lbrakk>lp_turns_elapsed lp \<le> lp_max_turns lp; unat (lp_max_turns lp - lp_turns_elapsed lp) < m;
      game_rounds m n env lp = Inl OutOfFuel\<rbrakk> \<Longrightarrow> \<exists>lp1. run_turn_once n env lp1 = Inl OutOfFuel"
proof (induction m arbitrary: lp)
  case (Suc m)
  show ?case
  proof (cases "run_turn_once n env lp")
    case (Inr x)
    obtain lp1 q where x: "x = (lp1, q)" by force
    have q: "q = None" and rest: "game_rounds m n env lp1 = Inl OutOfFuel"
      using Suc.prems(3) Inr x by (auto split: option.splits)
    note t = run_turn_once_next [OF k Inr [unfolded x q]]
    have "unat (lp_max_turns lp1 - lp_turns_elapsed lp1) < m"
      using turns_left_drop [OF t(1)] Suc.prems(2) t(2,3) by simp
    moreover have "lp_turns_elapsed lp1 \<le> lp_max_turns lp1" using t by (simp add: inc_le)
    ultimately show ?thesis using Suc.IH rest by blast
  qed (use Suc.prems(3) in auto)
qed simp

subsection \<open>A turn without a step back\<close>

text \<open>The steps of a turn as the schedule orders them: the step of the clock, then \<open>k\<close> more, each advance
  leading to the next one.\<close>

fun run_schedule :: "'c loop_env \<Rightarrow> bool \<Rightarrow> nat \<Rightarrow> 'c loop_state \<Rightarrow> 'c step_result" where
  "run_schedule env resumed 0 lp = unless_over (execute_step env lp) (\<lambda>lp1.
     and_then (try_game advance_step lp1) (\<lambda>lp2. carry_on (if resumed then finish_resumed lp2 else lp2)))"
| "run_schedule env resumed (Suc k) lp = unless_over (execute_step env lp) (\<lambda>lp1.
     and_then (try_game advance_step lp1) (run_schedule env resumed k))"

text \<open>The clock: the step, the turn and the combats still to come.\<close>

definition clock_of :: "'c loop_state \<Rightarrow> step \<times> u32 \<times> u8" where
  "clock_of lp = (step_of lp, turn_of_loop lp, gs_extra_combat_phases (lp_game lp))"

text \<open>No step of the schedule moves the clock by itself, as undoing a step or an effect would.\<close>

fun on_clock :: "nat \<Rightarrow> 'c loop_env \<Rightarrow> 'c loop_state \<Rightarrow> bool" where
  "on_clock k env lp \<longleftrightarrow> (case execute_step env lp of
     Inr (lp1, None) \<Rightarrow> clock_of lp1 = clock_of lp \<and> (case (k, try_game advance_step lp1) of
         (Suc j, Inr lp2) \<Rightarrow> on_clock j env lp2 | _ \<Rightarrow> True)
   | _ \<Rightarrow> True)"

lemma next_step_not_untap: "next_step s \<noteq> Some Untap" by (cases s) simp_all

lemma advance_within_step:
  assumes "within_turn g" "advance_step g = Inr g'"
  shows "ts_current_step (gs_turn g') \<noteq> Untap"
proof (cases "ts_current_step (gs_turn g) = EndCombat \<and> 0 < gs_extra_combat_phases g")
  case True
  then show ?thesis using assms(2) by (auto simp: advance_extra_combat)
next
  case False
  show ?thesis by (rule advance_within [OF assms(1) False]) (use assms(2) next_step_not_untap in \<open>auto simp: log_action_def\<close>)
qed

lemma advance_cleanup_step:
  assumes "ts_current_step (gs_turn g) = Cleanup" "advance_step g = Inr g'"
  shows "ts_current_step (gs_turn g') = Untap"
  using assms(2) unfolding advance_at_cleanup [OF assms(1)] by (elim change_turn_fields) (simp add: next_turn_def)

lemma clock_steps_left: "clock_of lp1 = clock_of lp \<Longrightarrow> steps_left (lp_game lp1) = steps_left (lp_game lp)"
  by (auto simp: clock_of_def steps_left_def step_of_def Let_def)

lemma step_loop_schedule:
  "\<lbrakk>on_clock k env lp; steps_left (lp_game lp) = k\<rbrakk> \<Longrightarrow> step_loop (Suc k + d) env resumed lp = run_schedule env resumed k lp"
proof (induction k arbitrary: lp)
  case (0 lp)
  show ?case
  proof (cases "execute_step env lp")
    case (Inr x)
    obtain lp1 q where x: "x = (lp1, q)" by force
    show ?thesis
    proof (cases q)
      case None
      have clock: "clock_of lp1 = clock_of lp" using "0.prems"(1) Inr x None by simp
      then have "ts_current_step (gs_turn (lp_game lp1)) = Cleanup"
        using clock_steps_left [OF clock] "0.prems"(2) steps_left_zero by simp
      then show ?thesis
        using clock Inr x None advance_cleanup_step [of "lp_game lp1"]
        by (cases "advance_step (lp_game lp1)") (simp_all add: unless_over_def clock_of_def try_game_def step_of_def)
    qed (simp add: Inr x unless_over_def)
  qed (simp add: unless_over_def)
next
  case (Suc k lp)
  show ?case
  proof (cases "execute_step env lp")
    case (Inr x)
    obtain lp1 q where x: "x = (lp1, q)" by force
    show ?thesis
    proof (cases q)
      case None
      have clock: "clock_of lp1 = clock_of lp" using Suc.prems(1) Inr x None by simp
      then have left: "steps_left (lp_game lp1) = Suc k" using clock_steps_left Suc.prems(2) by metis
      then have within: "within_turn (lp_game lp1)" using steps_left_zero [of "lp_game lp1"] by (auto simp: within_turn_def)
      obtain g2 where g2: "advance_step (lp_game lp1) = Inr g2" "steps_left g2 = k"
        using advance_counts_down [OF within] left by (metis Suc_inject)
      define lp2 where "lp2 = lp1\<lparr>lp_game := g2\<rparr>"
      have run: "try_game advance_step lp1 = Inr lp2" by (simp add: try_game_def g2 lp2_def)
      have "on_clock k env lp2" using Suc.prems(1) Inr x None run by simp
      moreover have "step_of lp2 \<noteq> Untap"
        using advance_within_step [OF within g2(1)] by (simp add: step_of_def lp2_def)
      moreover have "step_loop (Suc k + d) env resumed lp2 = run_schedule env resumed k lp2"
        by (rule Suc.IH) (use calculation g2 in \<open>simp_all add: lp2_def del: on_clock.simps\<close>)
      ultimately show ?thesis
        using clock Inr x None run by (simp add: unless_over_def clock_of_def del: on_clock.simps)
    qed (simp add: Inr x unless_over_def)
  qed (simp add: unless_over_def)
qed

end
