(* ===== verification/HandFacts.thy ===== *)
theory HandFacts
  imports OpeningHands
begin

section \<open>How hands are dealt\<close>

text \<open>
  Drawing several cards moves them from the end of the library to the end of the hand; taking a named
  card moves the first of that name; neither touches the zones of another player. Neither loses a card.
\<close>

definition lib_cards :: "player_zones \<Rightarrow> card_id list" where
  "lib_cards z = z_cards (pz_library z)"

definition hand_cards :: "player_zones \<Rightarrow> card_id list" where
  "hand_cards z = z_cards (pz_hand z)"

lemmas dealt_cards_def = lib_cards_def hand_cards_def

subsection \<open>Silent draws\<close>

lemma draw_zones_cards:
  "hand_cards (draw_zones z) = hand_cards z @ take 1 (rev (lib_cards z))" "lib_cards (draw_zones z) = butlast (lib_cards z)"
  by (cases "z_cards (pz_library z)" rule: rev_cases)
    (simp_all add: draw_zones_def draw_top_def zone_add_def dealt_cards_def)

lemma draws_zones_cards:
  "hand_cards (draws_zones n z) = hand_cards z @ take n (rev (lib_cards z))
    \<and> lib_cards (draws_zones n z) = take (length (lib_cards z) - n) (lib_cards z)"
proof (induction n arbitrary: z)
  case (Suc n)
  show ?case
    using Suc [of "draw_zones z"]
    by (cases "lib_cards z" rule: rev_cases) (simp_all add: draw_zones_cards)
qed simp

lemma silent_draw_zones:
  assumes "silent_draw p g = Inr g'"
  shows "get_player_zones g' q = (if q = p then map_option draw_zones (get_player_zones g p) else get_player_zones g q)"
proof (cases "get_player_zones g p")
  case None
  then show ?thesis using assms by (auto simp: silent_draw_def draw_card_silent_def draw_card_inner_def)
next
  case (Some z)
  have moved: "get_player_zones (map_player_zones p draw_zones g) q = (if q = p then Some (draw_zones z) else get_player_zones g q)"
    using Some by (auto simp: get_player_zones_def map_player_zones_def entries.lookup_modify entries.lookup_modify_other)
  have counted: "get_player_zones (fst (log_draw_count p n h)) = get_player_zones h" for n h
    by (auto simp: log_draw_count_def Let_def log_action_at_def map_player_def get_player_zones_def fun_eq_iff split: option.split)
  have logged: "get_player_zones (log_action_at a n h) = get_player_zones h" for a n h
    by (simp add: log_action_at_def get_player_zones_def fun_eq_iff)
  show ?thesis
  proof (cases "z_cards (pz_library z) = []")
    case True
    then show ?thesis using assms Some
      by (auto simp: silent_draw_def draw_card_silent_def draw_card_inner_def draw_top_def draw_zones_def)
  next
    case False
    then have "get_player_zones g' = get_player_zones (map_player_zones p draw_zones g)"
      using assms Some counted logged
      by (auto simp: silent_draw_def draw_card_silent_def draw_card_inner_def draw_top_def Let_def split_beta)
    then show ?thesis using moved Some by simp
  qed
qed

lemma silent_draws_zones:
  "draw_times (silent_draw p) n g = Inr g' \<Longrightarrow>
    get_player_zones g' q = (if q = p then map_option (draws_zones n) (get_player_zones g p) else get_player_zones g q)"
proof (induction n arbitrary: g)
  case 0
  then show ?case by (cases "get_player_zones g' p") auto
next
  case (Suc n)
  then obtain g1 where g1: "silent_draw p g = Inr g1" "draw_times (silent_draw p) n g1 = Inr g'"
    by (auto simp: and_then_Inr)
  show ?case using Suc.IH [OF g1(2)] silent_draw_zones [OF g1(1)]
    by (auto simp: option.map_comp comp_def split: if_splits)
qed

subsection \<open>Named cards\<close>

lemma find_some: "find P xs = Some x \<Longrightarrow> x \<in> set xs \<and> P x"
  by (induction xs) (auto split: if_splits)

lemma take_named_zones:
  assumes "take_named p g nm = Inr g'" "get_player_zones g p = Some z"
  obtains c where "is_named g nm c" "c \<in> set (lib_cards z)" "get_player_zones g' p = Some (to_hand c z)"
    "\<And>q. q \<noteq> p \<Longrightarrow> get_player_zones g' q = get_player_zones g q" "\<And>s. is_named g' s = is_named g s"
proof -
  obtain c where c: "find (is_named g nm) (z_cards (pz_library z)) = Some c"
    and g': "g' = map_player_zones p (to_hand c) g"
    using assms by (auto simp: take_named_def split: option.splits)
  show ?thesis
    by (rule that [of c]) (use find_some [OF c] assms(2) in \<open>simp_all add: g' lib_cards_def is_named_def fun_eq_iff
      get_player_zones_def map_player_zones_def entries.lookup_modify_other entries.lookup_modify card_of_def\<close>)
qed

lemma to_hand_cards:
  "hand_cards (to_hand c z) = hand_cards z @ [c]" "lib_cards (to_hand c z) = remove1 c (lib_cards z)"
  by (simp_all add: to_hand_def dealt_cards_def zone_add_def zone_remove_eq)

lemma take_names_zones:
  assumes "fold_result (take_named p) g names = Inr g'" "get_player_zones g p = Some z"
  shows "\<exists>z' cs. get_player_zones g' p = Some z' \<and> list_all2 (is_named g) names cs
    \<and> hand_cards z' = hand_cards z @ cs \<and> mset cs + mset (lib_cards z') = mset (lib_cards z)
    \<and> (\<forall>q. q \<noteq> p \<longrightarrow> get_player_zones g' q = get_player_zones g q)"
  using assms
proof (induction names arbitrary: g z)
  case (Cons nm names)
  then obtain g1 where g1: "take_named p g nm = Inr g1" "fold_result (take_named p) g1 names = Inr g'"
    by (auto split: sum.splits)
  obtain c where c: "is_named g nm c" "c \<in> set (lib_cards z)" "get_player_zones g1 p = Some (to_hand c z)"
    "\<And>q. q \<noteq> p \<Longrightarrow> get_player_zones g1 q = get_player_zones g q" "\<And>s. is_named g1 s = is_named g s"
    using take_named_zones [OF g1(1) Cons.prems(2)] by metis
  have eta: "is_named g1 = is_named g" using c(5) by (rule ext)
  obtain z' cs where z': "get_player_zones g' p = Some z'" "list_all2 (is_named g) names cs"
    "hand_cards z' = hand_cards (to_hand c z) @ cs" "mset cs + mset (lib_cards z') = mset (lib_cards (to_hand c z))"
    "\<forall>q. q \<noteq> p \<longrightarrow> get_player_zones g' q = get_player_zones g1 q"
    using Cons.IH [OF g1(2) c(3)] unfolding eta by blast
  show ?case
    by (rule exI [of _ z'], rule exI [of _ "c # cs"]) (use z' c in \<open>simp_all add: to_hand_cards\<close>)
qed simp

lemma parsed_setup_length: "parse_hand_setup input = Inr names \<Longrightarrow> length names \<le> 7"
  by (auto simp: parse_hand_setup_def Let_def split: if_splits)

end
