(* ===== verification/RunProperties.thy ===== *)
theory RunProperties
  imports LoopProperties LoopRuns HandFacts
begin

section \<open>Properties of turns and games\<close>

text \<open>
  That the steps of a turn follow the schedule, that a game respects its limit of turns, how opening hands
  are dealt and what a dredge takes. The theorem after a property with hypotheses applies it to a concrete game.
\<close>

text \<open>A game whose players have three cards and one card in their libraries.\<close>

definition two_libraries :: game_state where
  "two_libraries = (new_two_player (\<lambda>_. [0]) ''A'' ''B'' 20)\<lparr>gs_player_zones :=
     [(0, (player_zones_new 0)\<lparr>pz_library := (card_zone_new Library 0)\<lparr>z_cards := [4, 5, 6]\<rparr>\<rparr>),
      (1, (player_zones_new 1)\<lparr>pz_library := (card_zone_new Library 1)\<lparr>z_cards := [7]\<rparr>\<rparr>)]\<rparr>"

subsection \<open>The steps of a turn\<close>

text \<open>C13: A turn ends, and follows the schedule: when no step moves the clock by itself (by undoing a step),
  the loop over the steps runs the step of the clock, advances, and goes on, exactly as many times
  as steps are left of the turn, additional combats included, and leaves after the cleanup step.
  Fuel of one more than the steps left is enough, and more fuel makes no difference.\<close>

theorem turn_follows_schedule:
  assumes "on_clock (steps_left (lp_game lp)) env lp" "steps_left (lp_game lp) < n"
  shows "step_loop n env resumed lp = run_schedule env resumed (steps_left (lp_game lp)) lp"
proof -
  obtain d where n: "n = Suc (steps_left (lp_game lp)) + d" using assms(2) less_iff_Suc_add by auto
  show ?thesis unfolding n by (rule step_loop_schedule [OF assms(1) refl])
qed

text \<open>The end step of turn one, the cleanup step after it, and turn two begins.\<close>

lemma cleanup_game_clock:
  "gs_turn (cleanup_game p q g) = gs_turn g" "gs_extra_combat_phases (cleanup_game p q g) = gs_extra_combat_phases g"
proof -
  have cards: "gs_turn (foldl (\<lambda>h c. map_card c f h) h cs) = gs_turn h
      \<and> gs_extra_combat_phases (foldl (\<lambda>h c. map_card c f h) h cs) = gs_extra_combat_phases h" for f h cs
    by (induction cs arbitrary: h) (simp_all add: map_card_def)
  then show "gs_turn (cleanup_game p q g) = gs_turn g" "gs_extra_combat_phases (cleanup_game p q g) = gs_extra_combat_phases g"
    by (simp_all add: cleanup_game_def Let_def map_players_def map_player_def)
qed

lemma mark_step_clock [simp]: "clock_of (on_game mark_step lp) = clock_of lp"
  by (simp add: clock_of_def step_of_def turn_of_loop_def mark_step_def)

lemma idle_end_step:
  assumes "step_of lp = End" "nothing_waits (lp_game lp)"
  shows "execute_step idle_env lp = Inr (on_game mark_step lp, None)"
  using assms
  by (simp add: execute_step_def end_step_def idle_env_def fire_phase_def try_game_def check_delayed_triggers_on_phase_def
      nothing_waits_def mark_step_def carry_on_def find_phase_triggers_def on_game_def)

lemma mark_step_reads [simp]:
  "hand_of (mark_step g) p = hand_of g p" "get_player (mark_step g) p = get_player g p"
  "get_other_player_id (mark_step g) p = get_other_player_id g p" "gs_turn (mark_step g) = gs_turn g"
  by (simp_all add: mark_step_def hand_of_def get_player_zones_def get_player_def get_other_player_id_def)

lemma idle_cleanup_step:
  assumes "step_of lp = Cleanup" "hand_of (lp_game lp) (active_of lp) = []"
    "get_player (lp_game lp) (active_of lp) = Inr x" "get_other_player_id (lp_game lp) (active_of lp) = Some q"
  shows "execute_step idle_env lp = Inr (on_game (cleanup_game (active_of lp) q) (on_game mark_step lp), None)"
proof -
  have "active_of (on_game mark_step lp) = active_of lp" by (simp add: active_of_def)
  then show ?thesis using assms
    by (simp add: execute_step_def cleanup_step_def discard_to_hand_size_def carry_on_def)
qed

definition last_steps :: "unit loop_state" where
  "last_steps = loop_new () (two_libraries\<lparr>gs_turn := (gs_turn two_libraries)\<lparr>ts_current_step := End\<rparr>\<rparr>)"

lemma last_game:
  "z_cards (gs_battlefield two_libraries) = []" "lp_game last_steps
     = two_libraries\<lparr>gs_turn := (gs_turn two_libraries)\<lparr>ts_current_step := End\<rparr>\<rparr>"
  by (simp_all add: last_steps_def loop_new_def two_libraries_def new_two_player_def new_two_player_with_capacity_def
      card_zone_new_def)

theorem turn_follows_schedule_witness:
  "steps_left (lp_game last_steps) = 1
    \<and> step_loop 2 idle_env False last_steps = run_schedule idle_env False 1 last_steps
    \<and> step_loop 60 idle_env False last_steps = run_schedule idle_env False 1 last_steps"
proof -
  define lp1 where "lp1 = on_game mark_step last_steps"
  have start: "execute_step idle_env last_steps = Inr (lp1, None)" unfolding lp1_def
    by (rule idle_end_step) (simp_all add: last_steps_def loop_new_def step_of_def nothing_waits_def two_libraries_def
        new_two_player_def new_two_player_with_capacity_def dts_new_def)
  have left: "steps_left (lp_game last_steps) = 1" by (simp add: last_game steps_left_def)
  define h where "h = map_cards end_turn_grants (lp_game lp1)"
  define g2 where "g2 = log_action (AdvanceStep End Cleanup) (h\<lparr>gs_turn := (gs_turn two_libraries)\<lparr>ts_current_step := Cleanup\<rparr>\<rparr>)"
  have "cleanup_temporary_effects (lp_game lp1) = h"
    by (simp add: cleanup_temporary_effects_def lp1_def h_def mark_step_def last_game)
  then have adv: "advance_step (lp_game lp1) = Inr g2"
    by (simp add: advance_step_def ts_advance_step_def lp1_def g2_def last_game Let_def h_def mark_step_def map_cards_def)
  define lp2 where "lp2 = lp1\<lparr>lp_game := g2\<rparr>"
  have go: "try_game advance_step lp1 = Inr lp2" by (simp add: try_game_def adv lp2_def)
  have g2: "gs_player_zones g2 = gs_player_zones two_libraries" "gs_players g2 = gs_players two_libraries"
    "gs_turn g2 = (gs_turn two_libraries)\<lparr>ts_current_step := Cleanup\<rparr>"
    by (simp_all add: g2_def h_def lp1_def mark_step_def last_game map_cards_def log_action_def)
  have "execute_step idle_env lp2 = Inr (on_game (cleanup_game (active_of lp2) 1) (on_game mark_step lp2), None)"
    by (rule idle_cleanup_step [where x = "player_new 0 ''A'' 20"])
      (simp_all add: lp2_def active_of_def step_of_def g2 hand_of_def get_player_zones_def get_player_def
        get_other_player_id_def two_libraries_def new_two_player_def new_two_player_with_capacity_def find_entry_def
        turn_structure_new_with_idx_def player_zones_new_def card_zone_new_def player_new_def find_player_def)
  then have "on_clock 0 idle_env lp2"
    by (simp add: clock_of_def step_of_def turn_of_loop_def cleanup_game_clock mark_step_def)
  then have "on_clock 1 idle_env last_steps"
    using start go by (simp add: lp1_def del: on_clock.simps) (simp add: on_clock.simps [of "Suc 0"] go lp1_def)
  then show ?thesis using left turn_follows_schedule [of last_steps idle_env] by (simp del: step_loop.simps)
qed

subsection \<open>The limit of turns\<close>

text \<open>C12: A game ends within its limit of turns. When the callbacks leave the counters of the loop alone, a
  round more than the turns left is enough fuel: more rounds give the same result, the turns counted
  never exceed the limit, and if fuel runs out it is that of a single turn.\<close>

theorem game_within_turn_limit:
  assumes "keeps_counters env" "lp_turns_elapsed lp \<le> lp_max_turns lp"
    "unat (lp_max_turns lp - lp_turns_elapsed lp) < m"
  shows "(\<forall>m' \<ge> m. game_rounds m' n env lp = game_rounds m n env lp)
    \<and> (\<forall>lp' r. game_rounds m n env lp = Inr (lp', r) \<longrightarrow> lp_turns_elapsed lp' \<le> lp_max_turns lp)
    \<and> (game_rounds m n env lp = Inl OutOfFuel \<longrightarrow> (\<exists>lp1. run_turn_once n env lp1 = Inl OutOfFuel))"
  using more_rounds [OF assms] rounds_count [OF assms(1,2)] rounds_suffice [OF assms] by blast

text \<open>A game that has played all its turns: whatever the fuel, the limit ends it.\<close>

lemma idle_keeps_counters: "keeps_counters idle_env"
  by (simp add: keeps_counters_def idle_env_def carry_on_def)

lemma two_libraries_play_on: "lp_game lp = two_libraries \<Longrightarrow> check_win_condition lp = (lp, None)"
  by (simp add: check_win_condition_def two_libraries_def new_two_player_def new_two_player_with_capacity_def
      player_new_def decked_def get_player_zones_def find_entry_def zone_is_empty_def)

theorem game_within_turn_limit_witness:
  "let lp = (loop_new () two_libraries)\<lparr>lp_max_turns := 5, lp_turns_elapsed := 5\<rparr> in
    game_rounds 1 30 idle_env lp = Inr (lp, result_of None TurnLimit lp)
    \<and> game_rounds 500 30 idle_env lp = Inr (lp, result_of None TurnLimit lp)"
proof -
  let ?lp = "(loop_new () two_libraries)\<lparr>lp_max_turns := 5, lp_turns_elapsed := 5\<rparr>"
  have "game_rounds 1 30 idle_env ?lp = Inr (?lp, result_of None TurnLimit ?lp)"
    by (simp add: run_turn_once_def two_libraries_play_on loop_new_def unless_over_def)
  moreover have "game_rounds 500 30 idle_env ?lp = game_rounds 1 30 idle_env ?lp"
    using game_within_turn_limit [OF idle_keeps_counters, of ?lp 1 30] by simp
  ultimately show ?thesis by (simp only: Let_def simp_thms)
qed

subsection \<open>Opening hands\<close>

text \<open>C14: Opening hands lose no card and touch no other player. A hand of a game whose libraries are in order
  takes seven cards, or as many as there are: the top ones in order when none is prescribed; when a
  hand is prescribed, the named cards come first, in the order named, and draws fill it up.\<close>

theorem opening_hand_dealt:
  assumes "opening_hand (silent_draw p) p setup g = Inr g'" "get_player_zones g p = Some z"
    "\<forall>names. setup = Some names \<longrightarrow> (\<exists>input. parse_hand_setup input = Inr names)"
  shows "\<exists>z' new. get_player_zones g' p = Some z' \<and> hand_cards z' = hand_cards z @ new
    \<and> mset new + mset (lib_cards z') = mset (lib_cards z) \<and> length new = min 7 (length (lib_cards z))
    \<and> (setup = None \<longrightarrow> new = take 7 (rev (lib_cards z)))
    \<and> (\<forall>names. setup = Some names \<longrightarrow> list_all2 (is_named g) names (take (length names) new))
    \<and> (\<forall>q. q \<noteq> p \<longrightarrow> get_player_zones g' q = get_player_zones g q)"
proof -
  obtain names n g1 where n: "n = 7 - length names" "length names \<le> 7" "setup = None \<longrightarrow> names = []"
      "\<forall>s. setup = Some s \<longrightarrow> names = s"
    and g1: "fold_result (take_named p) g names = Inr g1" "draw_times (silent_draw p) n g1 = Inr g'"
  proof (cases "setup")
    case None
    then show ?thesis using assms(1) that [of 7 "[]" g] by (simp add: opening_hand_def)
  next
    case (Some s)
    then obtain g1 where g1: "fold_result (take_named p) g s = Inr g1"
        "draw_times (silent_draw p) (7 - length s) g1 = Inr g'"
      using assms(1) by (auto simp: opening_hand_def prescribed_hand_def and_then_Inr)
    have "length s \<le> 7" using assms(3) Some parsed_setup_length by blast
    with Some g1 show ?thesis by (intro that [of "7 - length s" s g1]) simp_all
  qed
  obtain z1 cs where z1: "get_player_zones g1 p = Some z1" "list_all2 (is_named g) names cs"
    "hand_cards z1 = hand_cards z @ cs" "mset cs + mset (lib_cards z1) = mset (lib_cards z)"
    "\<forall>q. q \<noteq> p \<longrightarrow> get_player_zones g1 q = get_player_zones g q"
    using take_names_zones [OF g1(1) assms(2)] by blast
  define new where "new = cs @ take n (rev (lib_cards z1))"
  have drawn: "get_player_zones g' q = (if q = p then Some (draws_zones n z1) else get_player_zones g q)" for q
    using silent_draws_zones [OF g1(2), of q] z1(1,5) by simp
  have len: "length cs = length names" using z1(2) by (simp add: list_all2_lengthD)
  have total: "length cs + length (lib_cards z1) = length (lib_cards z)" using arg_cong [OF z1(4), of size] by simp
  have mset_take: "mset (take n (rev xs)) + mset (take (length xs - n) xs) = mset xs" for xs :: "card_id list"
    using arg_cong [OF append_take_drop_id [of "length xs - n" xs], of mset]
    by (simp only: take_rev mset_rev mset_append add.commute)
  have "mset new + mset (lib_cards (draws_zones n z1)) = mset (lib_cards z)"
    using mset_take [of "lib_cards z1"] z1(4) by (simp add: new_def draws_zones_cards ac_simps)
  moreover have "length new = min 7 (length (lib_cards z))" using len n(1,2) total by (simp add: new_def)
  moreover have "setup = None \<longrightarrow> new = take 7 (rev (lib_cards z))"
    using n g1(1) z1 assms(2) len by (auto simp: new_def)
  moreover have "\<forall>s. setup = Some s \<longrightarrow> list_all2 (is_named g) s (take (length s) new)"
    using n(4) z1(2) len by (auto simp: new_def)
  ultimately show ?thesis
    by (intro exI [of _ "draws_zones n z1"] exI [of _ new]) (simp add: drawn draws_zones_cards z1(3) new_def)
qed

text \<open>Player 0 of the game above has three cards and takes them all, the top one first.\<close>

theorem opening_hand_dealt_witness:
  "\<exists>g' z'. opening_hand (silent_draw 0) 0 None two_libraries = Inr g'
    \<and> get_player_zones g' 0 = Some z' \<and> hand_cards z' = [6, 5, 4] \<and> lib_cards z' = []"
proof -
  have "\<exists>g'. draw_times (silent_draw p) n g = Inr g'" for p n g
    by (induction n arbitrary: g) (simp_all add: silent_draw_def)
  then obtain g' where "draw_times (silent_draw 0) 7 two_libraries = Inr g'" by metis
  then have run: "opening_hand (silent_draw 0) 0 None two_libraries = Inr g'" by (simp add: opening_hand_def)
  have z: "get_player_zones two_libraries 0
      = Some ((player_zones_new 0)\<lparr>pz_library := (card_zone_new Library 0)\<lparr>z_cards := [4, 5, 6]\<rparr>\<rparr>)"
    by (simp add: two_libraries_def get_player_zones_def find_entry_def)
  show ?thesis
    using opening_hand_dealt [OF run z] run
    by (auto simp: dealt_cards_def player_zones_new_def card_zone_new_def)
qed

subsection \<open>Dredging\<close>

definition payable :: "game_state \<Rightarrow> player_id \<Rightarrow> (card_id \<times> u8) list" where
  "payable g p = filter (\<lambda>(c, n). unat n \<le> length (library_of g p)) (dredge_candidates g p)"

lemma dredge_with_payable: "dredge_with g p = (case payable g p of [] \<Rightarrow> None | x # xs \<Rightarrow> Some x)"
proof -
  have "find P xs = (case filter P xs of [] \<Rightarrow> None | x # _ \<Rightarrow> Some x)" for P and xs :: "(card_id \<times> u8) list"
    by (induction xs) simp_all
  then show ?thesis by (simp add: dredge_with_def payable_def)
qed

lemma better_dredges:
  "foldl (better_dredge lib) best xs = (case filter (\<lambda>(c, n). unat n \<le> lib) xs of
     [] \<Rightarrow> best | ys \<Rightarrow> foldl (better_dredge lib) best ys)"
  by (induction xs arbitrary: best) (auto simp: better_dredge_def split: list.split)

lemma best_of_payable:
  assumes "\<forall>(c, n) \<in> set xs. unat n \<le> lib"
  shows "\<exists>d m. foldl (better_dredge lib) (Some (c, n)) xs = Some (d, m) \<and> (d, m) \<in> set ((c, n) # xs)
    \<and> (\<forall>y \<in> set ((c, n) # xs). m \<le> snd y)"
  using assms
proof (induction xs arbitrary: c n)
  case (Cons x xs)
  obtain c1 n1 where x: "x = (c1, n1)" by force
  define e where "e = (if n1 < n then (c1, n1) else (c, n))"
  have step: "better_dredge lib (Some (c, n)) x = Some e"
    using Cons.prems x by (auto simp: better_dredge_def e_def)
  obtain d m where "foldl (better_dredge lib) (Some e) xs = Some (d, m)" "(d, m) \<in> set (e # xs)"
    "\<forall>y \<in> set (e # xs). m \<le> snd y"
    using Cons.IH [of "fst e" "snd e"] Cons.prems by auto
  then show ?case using step x by (auto simp: e_def split: if_splits)
qed simp

lemma best_dredge_payable:
  "best_dredge g p = None \<longleftrightarrow> payable g p = []"
  "best_dredge g p = Some (d, m) \<Longrightarrow> (d, m) \<in> set (payable g p) \<and> (\<forall>y \<in> set (payable g p). m \<le> snd y)"
proof -
  have b: "best_dredge g p = (case payable g p of [] \<Rightarrow> None
      | x # xs \<Rightarrow> foldl (better_dredge (length (library_of g p))) (Some x) xs)"
  proof (cases "payable g p")
    case (Cons x xs)
    then have "(case x of (c, n) \<Rightarrow> unat n \<le> length (library_of g p))"
      using filter_eq_ConsD [of _ "dredge_candidates g p" x xs] by (auto simp: payable_def)
    then show ?thesis
      using Cons better_dredges [of "length (library_of g p)" None "dredge_candidates g p"]
      by (cases x) (simp add: best_dredge_def payable_def better_dredge_def)
  qed (use better_dredges [of "length (library_of g p)" None "dredge_candidates g p"] in \<open>simp add: best_dredge_def payable_def\<close>)
  have tail: "\<forall>(c, n) \<in> set (payable g p). unat n \<le> length (library_of g p)" by (auto simp: payable_def)
  show "best_dredge g p = None \<longleftrightarrow> payable g p = []"
    "best_dredge g p = Some (d, m) \<Longrightarrow> (d, m) \<in> set (payable g p) \<and> (\<forall>y \<in> set (payable g p). m \<le> snd y)"
    using b tail best_of_payable [of "tl (payable g p)" "length (library_of g p)" "fst (hd (payable g p))" "snd (hd (payable g p))"]
    by (cases "payable g p"; auto)+
qed

text \<open>The two dredges agree on whether a draw is replaced, not on the card. Both replace it exactly when
  some card with dredge in the graveyard has a number the library can pay; the draw step takes the
  first such card of the graveyard, every other draw one with the lowest number.\<close>

theorem dredges_agree:
  "(dredge_with g p = None \<longleftrightarrow> payable g p = []) \<and> (best_dredge g p = None \<longleftrightarrow> payable g p = [])
    \<and> (\<forall>c n. dredge_with g p = Some (c, n) \<longrightarrow> (\<exists>xs. payable g p = (c, n) # xs))
    \<and> (\<forall>c n. best_dredge g p = Some (c, n) \<longrightarrow> (c, n) \<in> set (payable g p) \<and> (\<forall>y \<in> set (payable g p). n \<le> snd y))"
  using best_dredge_payable [of g p] by (auto simp: dredge_with_payable split: list.splits)

text \<open>Card 4 dredges two and card 5 one, with a library of three: the draw step takes 4, other draws 5.\<close>

definition dredger :: "card_id \<Rightarrow> u8 \<Rightarrow> card" where
  "dredger i n = (card_new i ''Dredger'' 0)\<lparr>c_keywords := kw_insert_complex kw_new (KeywordArgs ''Dredge'' [FAmount n])\<rparr>"

definition dredge_game :: game_state where
  "dredge_game = (new_two_player (\<lambda>_. [0]) ''A'' ''B'' 20)\<lparr>
     gs_cards := \<lparr>entities = [None, None, None, None, Some (dredger 4 2), Some (dredger 5 1)]\<rparr>,
     gs_player_zones := [(0, (player_zones_new 0)\<lparr>pz_library := (card_zone_new Library 0)\<lparr>z_cards := [6, 7, 8]\<rparr>,
       pz_graveyard := (card_zone_new Graveyard 0)\<lparr>z_cards := [4, 5]\<rparr>\<rparr>), (1, player_zones_new 1)]\<rparr>"

lemma dredger_amount: "dredge_amount (dredger i n) = Some n"
  by (simp add: dredge_amount_def dredger_def kw_insert_complex_def kw_new_def kw_get_args_def is_complex_def
      complex_keywords_def)

theorem dredges_agree_witness: "dredge_with dredge_game 0 = Some (4, 2) \<and> (\<exists>c. best_dredge dredge_game 0 = Some (c, 1))"
proof -
  have p: "payable dredge_game 0 = [(4, 2), (5, 1)]"
    by (simp add: payable_def dredge_candidates_def dredge_game_def get_player_zones_def find_entry_def card_of_def
        store_try_get_def dredger_amount library_of_def List.map_filter_def)
  obtain c n where b: "best_dredge dredge_game 0 = Some (c, n)"
    using dredges_agree [of dredge_game 0] p by (cases "best_dredge dredge_game 0") auto
  then have "(c, n) \<in> set (payable dredge_game 0)" "n \<le> 1" using dredges_agree [of dredge_game 0] p b by auto
  then have "n = 1" by (auto simp: p word_le_nat_alt)
  moreover obtain d m where w: "dredge_with dredge_game 0 = Some (d, m)"
    using dredges_agree [of dredge_game 0] p by (cases "dredge_with dredge_game 0") auto
  moreover have "(d, m) = (4, 2)" using dredges_agree [of dredge_game 0] p w by auto
  ultimately show ?thesis using b by auto
qed

end
