(* ===== verification/Controllers.thy ===== *)
theory Controllers
  imports LoopSteps
begin

section \<open>Controllers\<close>

text \<open>
  The trait \<open>PlayerController\<close> of \<open>mtg-engine/src/game/controller.rs\<close> as a record of methods over the
  state of the controller, with the default methods of the trait, and three controllers: the one that
  always takes the first option (\<open>zero_controller.rs\<close>), the one that follows a script of indices
  (\<open>fixed_script_controller.rs\<close>) and the one that plays recorded choices back before it asks another
  controller (\<open>replay_controller.rs\<close>). A method gets the game it looks at and returns its new state,
  the logger after its message, and its answer. The player who looks is left out, as no method here
  asks for it. Choosing targets is an option: it is \<open>None\<close> where the method does not return.
\<close>

subsection \<open>The trait\<close>

type_synonym ('s, 'a) reply = "('s \<times> game_logger) \<times> 'a answer"

record 's controller_methods =
  cm_spell_ability :: "game_state \<Rightarrow> spell_ability list \<Rightarrow> 's \<Rightarrow> ('s, spell_ability option) reply"
  cm_targets :: "game_state \<Rightarrow> card_id \<Rightarrow> card_id list \<Rightarrow> nat \<Rightarrow> nat \<Rightarrow> 's \<Rightarrow> ('s, card_id list) reply option"
  cm_mana_sources :: "game_state \<Rightarrow> mana_cost \<Rightarrow> card_id list \<Rightarrow> 's \<Rightarrow> ('s, card_id list) reply"
  cm_x_value :: "game_state \<Rightarrow> card_id \<Rightarrow> u8 \<Rightarrow> 's \<Rightarrow> ('s, u8) reply"
  cm_attackers :: "game_state \<Rightarrow> card_id list \<Rightarrow> 's \<Rightarrow> ('s, card_id list) reply"
  cm_blockers :: "game_state \<Rightarrow> card_id list \<Rightarrow> card_id list \<Rightarrow> 's \<Rightarrow> ('s, (card_id \<times> card_id) list) reply"
  cm_damage_order :: "game_state \<Rightarrow> card_id \<Rightarrow> card_id list \<Rightarrow> 's \<Rightarrow> ('s, card_id list) reply"
  cm_lethal_blocker :: "game_state \<Rightarrow> card_id \<Rightarrow> (card_id \<times> i32) list \<Rightarrow> i32 \<Rightarrow> 's \<Rightarrow> ('s, card_id) reply"
  cm_remaining_blocker :: "game_state \<Rightarrow> card_id \<Rightarrow> card_id list \<Rightarrow> i32 \<Rightarrow> 's \<Rightarrow> ('s, card_id) reply"
  cm_mark_checkpoint :: "'s \<Rightarrow> 's"
  cm_restore_checkpoint :: "'s \<Rightarrow> 's"
  cm_discard :: "game_state \<Rightarrow> card_id list \<Rightarrow> nat \<Rightarrow> 's \<Rightarrow> ('s, card_id list) reply"
  cm_scry_order :: "game_state \<Rightarrow> card_id list \<Rightarrow> 's \<Rightarrow> ('s, scry_decision) reply"
  cm_surveil :: "game_state \<Rightarrow> card_id list \<Rightarrow> 's \<Rightarrow> ('s, surveil_decision) reply"
  cm_from_library :: "game_state \<Rightarrow> card_definition list \<Rightarrow> 's \<Rightarrow> ('s, nat option) reply"
  cm_replay_library_search :: "'s \<Rightarrow> 's \<times> card_id option option"
  cm_replay_damage_assignment :: "'s \<Rightarrow> 's \<times> damage_assignment_plan option"
  cm_sacrifice :: "game_state \<Rightarrow> card_id list \<Rightarrow> nat \<Rightarrow> string \<Rightarrow> 's \<Rightarrow> ('s, card_id list) reply"
  cm_not_untap :: "game_state \<Rightarrow> card_id list \<Rightarrow> 's \<Rightarrow> ('s, card_id list) reply"
  cm_modes :: "game_state \<Rightarrow> card_id \<Rightarrow> string list \<Rightarrow> nat \<Rightarrow> nat \<Rightarrow> bool \<Rightarrow> 's \<Rightarrow> ('s, nat list) reply"
  cm_has_more_choices :: "'s \<Rightarrow> bool"

text \<open>An answer without a message.\<close>

definition quietly :: "game_state \<Rightarrow> 's \<Rightarrow> 'a \<Rightarrow> ('s, 'a) reply" where
  "quietly g s x = ((s, gs_logger g), Answer x)"

definition default_x_value :: "game_state \<Rightarrow> card_id \<Rightarrow> u8 \<Rightarrow> 's \<Rightarrow> ('s, u8) reply" where
  "default_x_value g c max_x s = quietly g s max_x"

definition default_lethal_blocker ::
  "game_state \<Rightarrow> card_id \<Rightarrow> (card_id \<times> i32) list \<Rightarrow> i32 \<Rightarrow> 's \<Rightarrow> ('s, card_id) reply" where
  "default_lethal_blocker g a kills n s = (case kills of
       (b, _) # _ \<Rightarrow> quietly g s b
     | [] \<Rightarrow> ((s, gs_logger g), AnswerError ''No killable blockers provided''))"

definition default_remaining_blocker ::
  "game_state \<Rightarrow> card_id \<Rightarrow> card_id list \<Rightarrow> i32 \<Rightarrow> 's \<Rightarrow> ('s, card_id) reply" where
  "default_remaining_blocker g a bs n s = (case bs of
       b # _ \<Rightarrow> quietly g s b
     | [] \<Rightarrow> ((s, gs_logger g), AnswerError ''No remaining blockers provided''))"

definition default_scry_order :: "game_state \<Rightarrow> card_id list \<Rightarrow> 's \<Rightarrow> ('s, scry_decision) reply" where
  "default_scry_order g revealed s = quietly g s (scry_keep_all_on_top revealed)"

definition default_surveil :: "game_state \<Rightarrow> card_id list \<Rightarrow> 's \<Rightarrow> ('s, surveil_decision) reply" where
  "default_surveil g revealed s = quietly g s (surveil_keep_all_on_top revealed)"

definition nothing_recorded :: "'s \<Rightarrow> 's \<times> 'a option" where "nothing_recorded s = (s, None)"

subsection \<open>The first option\<close>

text \<open>Blockers and attackers are paired in order until either runs out.\<close>

definition zero_controller :: "unit controller_methods" where
  "zero_controller = \<lparr>
     cm_spell_ability = (\<lambda>g available s. quietly g s (case available of [] \<Rightarrow> None | a # _ \<Rightarrow> Some a)),
     cm_targets = (\<lambda>g spell valid lo hi s. Some (quietly g s (take (min lo (length valid)) valid))),
     cm_mana_sources = (\<lambda>g cost sources s. quietly g s (take (unat (cmc cost)) sources)),
     cm_x_value = default_x_value,
     cm_attackers = (\<lambda>g available s. quietly g s available),
     cm_blockers = (\<lambda>g blockers attackers s. quietly g s (zip blockers attackers)),
     cm_damage_order = (\<lambda>g a blockers s. quietly g s blockers),
     cm_lethal_blocker = default_lethal_blocker,
     cm_remaining_blocker = default_remaining_blocker,
     cm_mark_checkpoint = id, cm_restore_checkpoint = id,
     cm_discard = (\<lambda>g hand n s. quietly g s (take (min n (length hand)) hand)),
     cm_scry_order = default_scry_order,
     cm_surveil = default_surveil,
     cm_from_library = (\<lambda>g valid s. quietly g s (if valid = [] then None else Some 0)),
     cm_replay_library_search = nothing_recorded,
     cm_replay_damage_assignment = nothing_recorded,
     cm_sacrifice = (\<lambda>g valid n d s. quietly g s (take n valid)),
     cm_not_untap = (\<lambda>g cs s. quietly g s []),
     cm_modes = (\<lambda>g c ds n lo rep s. quietly g s [0..<n]),
     cm_has_more_choices = (\<lambda>s. True)\<rparr>"

subsection \<open>The script\<close>

record script_state =
  fx_script :: "nat list"
  fx_index :: nat

definition script_new :: "nat list \<Rightarrow> script_state" where
  "script_new xs = \<lparr>fx_script = xs, fx_index = 0\<rparr>"

text \<open>Past the end of the script every choice is 0.\<close>

definition next_choice :: "script_state \<Rightarrow> script_state \<times> nat" where
  "next_choice s = (if fx_index s < length (fx_script s)
     then (s\<lparr>fx_index := fx_index s + 1\<rparr>, fx_script s ! fx_index s) else (s, 0))"

definition controller_choice :: "string \<Rightarrow> game_logger \<Rightarrow> game_logger" where
  "controller_choice m lg = (let lg1 = lg\<lparr>lg_choice_count := lg_choice_count lg + 1\<rparr> in
     if lg_suppressed lg1 \<or> \<not> is_capturing lg1 then lg1
     else push_log \<lparr>le_level = Normal, le_message = ''<Choice> '' @ m, le_category = Some ''controller_choice'',
       le_private_to = None, le_verifier_stable = None\<rparr> lg1)"

definition telling :: "string \<Rightarrow> game_state \<Rightarrow> 's \<Rightarrow> 'a \<Rightarrow> ('s, 'a) reply" where
  "telling m g s x = ((s, controller_choice m (gs_logger g)), Answer x)"

definition telling_if :: "bool \<Rightarrow> string \<Rightarrow> game_state \<Rightarrow> 's \<Rightarrow> 'a \<Rightarrow> ('s, 'a) reply" where
  "telling_if b m g s x = (if b then telling m g s x else quietly g s x)"

text \<open>Index 0 passes, index \<open>n\<close> is the option \<open>n - 1\<close>.\<close>

definition script_spell_ability ::
  "game_state \<Rightarrow> spell_ability list \<Rightarrow> script_state \<Rightarrow> (script_state, spell_ability option) reply" where
  "script_spell_ability g available s = (case next_choice s of (s1, i) \<Rightarrow>
     if i = 0 then telling ''Chose [0] Pass priority'' g s1 None
     else if length available \<le> i - 1
       then telling (''chose '' @ show_nat i @ '' (out of bounds, passing priority) from choices 0-''
         @ show_nat (length available)) g s1 None
     else telling (''chose ['' @ show_nat i @ ''] from choices 0-'' @ show_nat (length available)) g s1
       (Some (available ! (i - 1))))"

text \<open>The next index that is not used, going round; it does not return when all are.\<close>

partial_function (option) free_index :: "nat \<Rightarrow> nat list \<Rightarrow> nat \<Rightarrow> nat option" where
  "free_index n used i = (if i \<in> set used then free_index n used ((i + 1) mod n) else Some i)"

fun pick_indices ::
  "(nat \<Rightarrow> game_logger \<Rightarrow> game_logger) \<Rightarrow> nat \<Rightarrow> nat \<Rightarrow> nat list \<Rightarrow> game_logger \<Rightarrow> script_state
     \<Rightarrow> (script_state \<times> game_logger \<times> nat list) option" where
  "pick_indices say 0 n used lg s = Some (s, lg, used)"
| "pick_indices say (Suc k) n used lg s = (case next_choice s of (s1, raw) \<Rightarrow>
     (case free_index n used (min raw (n - 1)) of
         None \<Rightarrow> None
       | Some i \<Rightarrow> pick_indices say k n (used @ [i]) (say i lg) s1))"

definition picked_targets ::
  "card_id list \<Rightarrow> (script_state \<times> game_logger \<times> nat list) option \<Rightarrow> (script_state, card_id list) reply option" where
  "picked_targets valid = map_option (\<lambda>(s, lg, used). ((s, lg), Answer (map ((!) valid) used)))"

text \<open>A variable number of targets is read from the script first; \<open>clamp\<close> panics on an empty range.\<close>

definition script_some_targets ::
  "game_state \<Rightarrow> card_id list \<Rightarrow> nat \<Rightarrow> nat \<Rightarrow> script_state \<Rightarrow> (script_state, card_id list) reply option" where
  "script_some_targets g valid lo hi s = (if hi < lo then None
     else (case next_choice s of (s1, requested) \<Rightarrow>
       let k = min (max lo (min hi requested)) (length valid) in
       map_option (\<lambda>((s2, lg), a). ((s2, controller_choice (''chose '' @ show_nat k @ '' target(s) out of ''
           @ show_nat (length valid) @ '' available'') lg), a))
         (picked_targets valid (pick_indices (\<lambda>_ lg. lg) k (length valid) [] (gs_logger g) s1))))"

definition script_fixed_targets ::
  "game_state \<Rightarrow> card_id list \<Rightarrow> nat \<Rightarrow> script_state \<Rightarrow> (script_state, card_id list) reply option" where
  "script_fixed_targets g valid lo s = picked_targets valid
     (pick_indices (\<lambda>i. controller_choice (''chose target '' @ show_nat i @ '' out of choices 0-''
         @ show_nat (length valid - 1))) (max lo 1) (length valid) [] (gs_logger g) s)"

definition script_targets ::
  "game_state \<Rightarrow> card_id \<Rightarrow> card_id list \<Rightarrow> nat \<Rightarrow> nat \<Rightarrow> script_state \<Rightarrow> (script_state, card_id list) reply option" where
  "script_targets g spell valid lo hi s =
     (if valid = [] then Some (telling ''Chose no targets (none available)'' g s [])
      else if lo \<noteq> hi then script_some_targets g valid lo hi s
      else if length valid = 1 \<and> lo = 1 then Some (quietly g s [hd valid])
      else script_fixed_targets g valid lo s)"

definition script_mana_sources ::
  "game_state \<Rightarrow> mana_cost \<Rightarrow> card_id list \<Rightarrow> script_state \<Rightarrow> (script_state, card_id list) reply" where
  "script_mana_sources g cost sources s = (let needed = unat (cmc cost) in
     telling_if (needed < length sources) (''chose first '' @ show_nat (min needed (length sources))
       @ '' mana sources from '' @ show_nat (length sources) @ '' available sources'') g s (take needed sources))"

definition script_attackers :: "game_state \<Rightarrow> card_id list \<Rightarrow> script_state \<Rightarrow> (script_state, card_id list) reply" where
  "script_attackers g available s =
     (if available = [] then telling ''Chose no attackers (none available)'' g s []
      else (case next_choice s of (s1, i) \<Rightarrow> let n = min i (length available) in
        telling (''chose '' @ show_nat n @ '' attackers from '' @ show_nat (length available)
          @ '' available creatures'') g s1 (take n available)))"

text \<open>The first blockers all block the first attacker.\<close>

definition script_blockers ::
  "game_state \<Rightarrow> card_id list \<Rightarrow> card_id list \<Rightarrow> script_state \<Rightarrow> (script_state, (card_id \<times> card_id) list) reply" where
  "script_blockers g blockers attackers s =
     (if attackers = [] \<or> blockers = []
      then telling ''Chose no blockers (none available or no attackers)'' g s []
      else (case next_choice s of (s1, i) \<Rightarrow> let n = min i (length blockers) in
        telling (''chose '' @ show_nat n @ '' blockers from '' @ show_nat (length blockers)
          @ '' available blockers'') g s1 (map (\<lambda>b. (b, hd attackers)) (take n blockers))))"

definition script_damage_order ::
  "game_state \<Rightarrow> card_id \<Rightarrow> card_id list \<Rightarrow> script_state \<Rightarrow> (script_state, card_id list) reply" where
  "script_damage_order g a blockers s = telling_if (2 \<le> length blockers)
     (''chose damage assignment order (kept original order of '' @ show_nat (length blockers) @ '' blockers)'')
     g s blockers"

definition script_discard :: "game_state \<Rightarrow> card_id list \<Rightarrow> nat \<Rightarrow> script_state \<Rightarrow> (script_state, card_id list) reply" where
  "script_discard g hand n s = telling_if (n < length hand) (''chose first '' @ show_nat (min n (length hand))
     @ '' cards to discard from '' @ show_nat (length hand) @ '' cards in hand'') g s (take (min n (length hand)) hand)"

definition script_scry_order ::
  "game_state \<Rightarrow> card_id list \<Rightarrow> script_state \<Rightarrow> (script_state, scry_decision) reply" where
  "script_scry_order g revealed s = telling (''Scry '' @ show_nat (length revealed) @ '': keep all on top (no-op)'')
     g s (scry_keep_all_on_top revealed)"

definition script_surveil ::
  "game_state \<Rightarrow> card_id list \<Rightarrow> script_state \<Rightarrow> (script_state, surveil_decision) reply" where
  "script_surveil g revealed s = telling (''Surveil '' @ show_nat (length revealed)
     @ '': keep all on top, mill 0 (no-op)'') g s (surveil_keep_all_on_top revealed)"

definition script_from_library ::
  "game_state \<Rightarrow> card_definition list \<Rightarrow> script_state \<Rightarrow> (script_state, nat option) reply" where
  "script_from_library g valid s = (case valid of
       [] \<Rightarrow> telling ''Library search: no valid cards found'' g s None
     | d # _ \<Rightarrow> telling (''Library search: chose first card ('' @ cd_name d @ '')'') g s (Some 0))"

definition script_sacrifice ::
  "game_state \<Rightarrow> card_id list \<Rightarrow> nat \<Rightarrow> string \<Rightarrow> script_state \<Rightarrow> (script_state, card_id list) reply" where
  "script_sacrifice g valid n what s = (let k = min n (length valid) in
     telling_if (take k valid \<noteq> []) (''Sacrifice '' @ what @ '': chose first '' @ show_nat k @ '' permanents'')
       g s (take k valid))"

fun script_modes_from :: "nat \<Rightarrow> nat \<Rightarrow> script_state \<Rightarrow> script_state \<times> nat list" where
  "script_modes_from 0 n s = (s, [])"
| "script_modes_from (Suc k) n s = (case next_choice s of (s1, i) \<Rightarrow>
     (case script_modes_from k n s1 of (s2, xs) \<Rightarrow> (s2, min i (n - 1) # xs)))"

definition script_modes ::
  "game_state \<Rightarrow> card_id \<Rightarrow> string list \<Rightarrow> nat \<Rightarrow> nat \<Rightarrow> bool \<Rightarrow> script_state \<Rightarrow> (script_state, nat list) reply" where
  "script_modes g spell descriptions k lo rep s =
     (case script_modes_from k (length descriptions) s of (s1, xs) \<Rightarrow> quietly g s1 xs)"

definition script_controller :: "script_state controller_methods" where
  "script_controller = \<lparr>
     cm_spell_ability = script_spell_ability, cm_targets = script_targets, cm_mana_sources = script_mana_sources,
     cm_x_value = default_x_value, cm_attackers = script_attackers, cm_blockers = script_blockers,
     cm_damage_order = script_damage_order, cm_lethal_blocker = default_lethal_blocker,
     cm_remaining_blocker = default_remaining_blocker, cm_mark_checkpoint = id, cm_restore_checkpoint = id,
     cm_discard = script_discard, cm_scry_order = script_scry_order, cm_surveil = script_surveil,
     cm_from_library = script_from_library, cm_replay_library_search = nothing_recorded,
     cm_replay_damage_assignment = nothing_recorded, cm_sacrifice = script_sacrifice,
     cm_not_untap = (\<lambda>g cs s. quietly g s []), cm_modes = script_modes,
     cm_has_more_choices = (\<lambda>s. fx_index s < length (fx_script s))\<rparr>"

end
