(* ===== verification/Replay.thy ===== *)
theory Replay
  imports Controllers
begin

section \<open>Playing choices back\<close>

text \<open>
  \<open>mtg-engine/src/game/replay_controller.rs\<close>: the choices of a turn taken out of the undo log and
  divided between the players, and the controller that answers with them before it asks the one it
  wraps. The questions name the methods whose answers the loop records, each with the recorded form
  of its answer, so that a dialogue is a list of questions and a list of recorded choices.
\<close>

subsection \<open>The choices of a turn\<close>

fun recorded_choice :: "game_action \<Rightarrow> (player_id \<times> replay_choice) option" where
  "recorded_choice (ChoicePoint p i (Some c)) = Some (p, c)"
| "recorded_choice _ = None"

definition partition_choices_by_player ::
  "game_action list \<Rightarrow> player_id \<Rightarrow> replay_choice list \<times> replay_choice list" where
  "partition_choices_by_player as our = (let cs = List.map_filter recorded_choice as in
     (map snd (filter (\<lambda>(p, c). p = our) cs), map snd (filter (\<lambda>(p, c). p \<noteq> our) cs)))"

text \<open>The two hooks may change the game: one takes back late reveals, one looks at the start of the turn.\<close>

definition rewind_partition_truncate ::
  "(u8 list \<Rightarrow> rng option) \<Rightarrow> player_id \<Rightarrow> (nat \<Rightarrow> game_state \<Rightarrow> game_state) \<Rightarrow> (nat \<Rightarrow> game_state \<Rightarrow> game_state)
     \<Rightarrow> game_state \<Rightarrow> game_state \<times> replay_choice list \<times> replay_choice list" where
  "rewind_partition_truncate ds our unwind_reveals on_turn_start g =
     (case rewind_to_turn_start ds (gs_undo_log g) (g\<lparr>gs_undo_log := undo_log_new\<rparr>) of (l, g1, result) \<Rightarrow>
       let g2 = unwind_reveals (length (ul_actions l)) (g1\<lparr>gs_undo_log := l\<rparr>) in
       (case result of
           None \<Rightarrow> (g2, [], [])
         | Some (turn, choices, rewound, sz) \<Rightarrow> let g3 = on_turn_start sz g2 in
             (g3\<lparr>gs_logger := truncate_to sz (gs_logger g3)\<rparr>, partition_choices_by_player choices our)))"

subsection \<open>The controller\<close>

record 's replay_state =
  rp_inner :: 's
  rp_choices :: "replay_choice list"
  rp_index :: nat

definition replay_new :: "'s \<Rightarrow> replay_choice list \<Rightarrow> 's replay_state" where
  "replay_new s cs = \<lparr>rp_inner = s, rp_choices = cs, rp_index = 0\<rparr>"

definition has_replay_choice :: "'s replay_state \<Rightarrow> bool" where
  "has_replay_choice s \<longleftrightarrow> rp_index s < length (rp_choices s)"

text \<open>A choice of another kind is left where it is.\<close>

definition consume_replay_choice :: "(replay_choice \<Rightarrow> 'a option) \<Rightarrow> 's replay_state \<Rightarrow> 's replay_state \<times> 'a option" where
  "consume_replay_choice extract s = (if \<not> has_replay_choice s then (s, None)
     else (case extract (rp_choices s ! rp_index s) of
         None \<Rightarrow> (s, None)
       | Some x \<Rightarrow> (s\<lparr>rp_index := rp_index s + 1\<rparr>, Some x)))"

definition rewrap :: "'s replay_state \<Rightarrow> ('s, 'a) reply \<Rightarrow> ('s replay_state, 'a) reply" where
  "rewrap s = (\<lambda>((i, lg), a). ((s\<lparr>rp_inner := i\<rparr>, lg), a))"

definition replay_or ::
  "(replay_choice \<Rightarrow> 'a option) \<Rightarrow> game_state \<Rightarrow> ('s \<Rightarrow> ('s, 'a) reply) \<Rightarrow> 's replay_state \<Rightarrow> ('s replay_state, 'a) reply" where
  "replay_or extract g ask s = (case consume_replay_choice extract s of
       (s1, Some x) \<Rightarrow> quietly g s1 x
     | (s1, None) \<Rightarrow> rewrap s1 (ask (rp_inner s1)))"

definition delegate :: "('s \<Rightarrow> ('s, 'a) reply) \<Rightarrow> 's replay_state \<Rightarrow> ('s replay_state, 'a) reply" where
  "delegate ask s = rewrap s (ask (rp_inner s))"

definition replay_targets ::
  "game_state \<Rightarrow> ('s \<Rightarrow> ('s, card_id list) reply option) \<Rightarrow> 's replay_state \<Rightarrow> ('s replay_state, card_id list) reply option" where
  "replay_targets g ask s =
     (case consume_replay_choice (\<lambda>c. case c of ReplayTargets t \<Rightarrow> Some t | _ \<Rightarrow> None) s of
         (s1, Some x) \<Rightarrow> Some (quietly g s1 x)
       | (s1, None) \<Rightarrow> map_option (rewrap s1) (ask (rp_inner s1)))"

definition replay_controller :: "'s controller_methods \<Rightarrow> 's replay_state controller_methods" where
  "replay_controller m = \<lparr>
     cm_spell_ability = (\<lambda>g available. replay_or (\<lambda>c. case c of ReplaySpellAbility a \<Rightarrow> Some a | _ \<Rightarrow> None) g
       (cm_spell_ability m g available)),
     cm_targets = (\<lambda>g spell valid lo hi. replay_targets g (cm_targets m g spell valid lo hi)),
     cm_mana_sources = (\<lambda>g cost sources. replay_or (\<lambda>c. case c of ReplayManaSources xs \<Rightarrow> Some xs | _ \<Rightarrow> None) g
       (cm_mana_sources m g cost sources)),
     cm_x_value = (\<lambda>g spell max_x. replay_or (\<lambda>c. case c of ReplayXValue x \<Rightarrow> Some x | _ \<Rightarrow> None) g
       (cm_x_value m g spell max_x)),
     cm_attackers = (\<lambda>g available. replay_or (\<lambda>c. case c of ReplayAttackers xs \<Rightarrow> Some xs | _ \<Rightarrow> None) g
       (cm_attackers m g available)),
     cm_blockers = (\<lambda>g bs as. replay_or (\<lambda>c. case c of ReplayBlockers xs \<Rightarrow> Some xs | _ \<Rightarrow> None) g
       (cm_blockers m g bs as)),
     cm_damage_order = (\<lambda>g a bs. replay_or (\<lambda>c. case c of ReplayDamageOrder xs \<Rightarrow> Some xs | _ \<Rightarrow> None) g
       (cm_damage_order m g a bs)),
     cm_lethal_blocker = (\<lambda>g a kills n. delegate (cm_lethal_blocker m g a kills n)),
     cm_remaining_blocker = (\<lambda>g a bs n. delegate (cm_remaining_blocker m g a bs n)),
     cm_mark_checkpoint = (\<lambda>s. s\<lparr>rp_inner := cm_mark_checkpoint m (rp_inner s)\<rparr>),
     cm_restore_checkpoint = (\<lambda>s. s\<lparr>rp_inner := cm_restore_checkpoint m (rp_inner s)\<rparr>),
     cm_discard = (\<lambda>g hand n. replay_or (\<lambda>c. case c of ReplayDiscard xs \<Rightarrow> Some xs | _ \<Rightarrow> None) g
       (cm_discard m g hand n)),
     cm_scry_order = (\<lambda>g revealed. replay_or (\<lambda>c. case c of
         ReplayScry t b \<Rightarrow> Some \<lparr>sd_top = t, sd_bottom = b\<rparr> | _ \<Rightarrow> None) g (cm_scry_order m g revealed)),
     cm_surveil = (\<lambda>g revealed. replay_or (\<lambda>c. case c of
         ReplaySurveil t y \<Rightarrow> Some \<lparr>sv_top = t, sv_graveyard = y\<rparr> | _ \<Rightarrow> None) g (cm_surveil m g revealed)),
     cm_from_library = (\<lambda>g valid. delegate (cm_from_library m g valid)),
     cm_replay_library_search = consume_replay_choice (\<lambda>c. case c of ReplayLibrarySearch x \<Rightarrow> Some x | _ \<Rightarrow> None),
     cm_replay_damage_assignment =
       consume_replay_choice (\<lambda>c. case c of ReplayDamageAssignment plan \<Rightarrow> Some plan | _ \<Rightarrow> None),
     cm_sacrifice = (\<lambda>g valid n d. replay_or (\<lambda>c. case c of ReplaySacrifice xs \<Rightarrow> Some xs | _ \<Rightarrow> None) g
       (cm_sacrifice m g valid n d)),
     cm_not_untap = (\<lambda>g cs. delegate (cm_not_untap m g cs)),
     cm_modes = (\<lambda>g spell ds k lo rep. replay_or (\<lambda>c. case c of ReplayModes xs \<Rightarrow> Some xs | _ \<Rightarrow> None) g
       (cm_modes m g spell ds k lo rep)),
     cm_has_more_choices = (\<lambda>s. True)\<rparr>"

subsection \<open>Dialogues\<close>

datatype question =
    AskSpellAbility "spell_ability list"
  | AskTargets card_id "card_id list" nat nat
  | AskManaSources mana_cost "card_id list"
  | AskXValue card_id u8
  | AskAttackers "card_id list"
  | AskBlockers "card_id list" "card_id list"
  | AskDamageOrder card_id "card_id list"
  | AskDiscard "card_id list" nat
  | AskScry "card_id list"
  | AskSurveil "card_id list"
  | AskSacrifice "card_id list" nat string
  | AskModes card_id "string list" nat nat bool

definition recorded :: "('a \<Rightarrow> replay_choice) \<Rightarrow> ('s, 'a) reply \<Rightarrow> ('s, replay_choice) reply" where
  "recorded f = map_prod id (map_answer f)"

definition record_scry :: "scry_decision \<Rightarrow> replay_choice" where
  "record_scry d = ReplayScry (sd_top d) (sd_bottom d)"

definition record_surveil :: "surveil_decision \<Rightarrow> replay_choice" where
  "record_surveil d = ReplaySurveil (sv_top d) (sv_graveyard d)"

fun ask_question :: "'s controller_methods \<Rightarrow> game_state \<Rightarrow> question \<Rightarrow> 's \<Rightarrow> ('s, replay_choice) reply option" where
  "ask_question m g (AskSpellAbility xs) s = Some (recorded ReplaySpellAbility (cm_spell_ability m g xs s))"
| "ask_question m g (AskTargets c xs lo hi) s = map_option (recorded ReplayTargets) (cm_targets m g c xs lo hi s)"
| "ask_question m g (AskManaSources cost xs) s = Some (recorded ReplayManaSources (cm_mana_sources m g cost xs s))"
| "ask_question m g (AskXValue c n) s = Some (recorded ReplayXValue (cm_x_value m g c n s))"
| "ask_question m g (AskAttackers xs) s = Some (recorded ReplayAttackers (cm_attackers m g xs s))"
| "ask_question m g (AskBlockers bs as) s = Some (recorded ReplayBlockers (cm_blockers m g bs as s))"
| "ask_question m g (AskDamageOrder a bs) s = Some (recorded ReplayDamageOrder (cm_damage_order m g a bs s))"
| "ask_question m g (AskDiscard xs n) s = Some (recorded ReplayDiscard (cm_discard m g xs n s))"
| "ask_question m g (AskScry xs) s = Some (recorded record_scry (cm_scry_order m g xs s))"
| "ask_question m g (AskSurveil xs) s = Some (recorded record_surveil (cm_surveil m g xs s))"
| "ask_question m g (AskSacrifice xs n d) s = Some (recorded ReplaySacrifice (cm_sacrifice m g xs n d s))"
| "ask_question m g (AskModes c ds k lo rep) s = Some (recorded ReplayModes (cm_modes m g c ds k lo rep s))"

text \<open>The questions of a dialogue, each asked of the game as it stands, all answered.\<close>

fun dialogue :: "'s controller_methods \<Rightarrow> (game_state \<times> question) list \<Rightarrow> 's \<Rightarrow> ('s \<times> replay_choice list) option" where
  "dialogue m [] s = Some (s, [])"
| "dialogue m ((g, q) # qs) s = (case ask_question m g q s of
     Some ((s1, lg), Answer c) \<Rightarrow> map_option (map_prod id ((#) c)) (dialogue m qs s1)
   | _ \<Rightarrow> None)"

fun question_kind :: "question \<Rightarrow> nat" where
  "question_kind (AskSpellAbility _) = 0"
| "question_kind (AskTargets _ _ _ _) = 1"
| "question_kind (AskManaSources _ _) = 2"
| "question_kind (AskXValue _ _) = 3"
| "question_kind (AskAttackers _) = 4"
| "question_kind (AskBlockers _ _) = 5"
| "question_kind (AskDamageOrder _ _) = 6"
| "question_kind (AskDiscard _ _) = 7"
| "question_kind (AskScry _) = 8"
| "question_kind (AskSurveil _) = 9"
| "question_kind (AskSacrifice _ _ _) = 10"
| "question_kind (AskModes _ _ _ _ _) = 11"

fun choice_kind_of :: "replay_choice \<Rightarrow> nat option" where
  "choice_kind_of (ReplaySpellAbility _) = Some 0"
| "choice_kind_of (ReplayTargets _) = Some 1"
| "choice_kind_of (ReplayManaSources _) = Some 2"
| "choice_kind_of (ReplayXValue _) = Some 3"
| "choice_kind_of (ReplayAttackers _) = Some 4"
| "choice_kind_of (ReplayBlockers _) = Some 5"
| "choice_kind_of (ReplayDamageOrder _) = Some 6"
| "choice_kind_of (ReplayDiscard _) = Some 7"
| "choice_kind_of (ReplayScry _ _) = Some 8"
| "choice_kind_of (ReplaySurveil _ _) = Some 9"
| "choice_kind_of (ReplaySacrifice _) = Some 10"
| "choice_kind_of (ReplayModes _) = Some 11"
| "choice_kind_of _ = None"

text \<open>The answers of a controller are of the kind it was asked for.\<close>

lemma recorded_Answer: "recorded f r = (sl, Answer c) \<longleftrightarrow> (\<exists>x. r = (sl, Answer x) \<and> c = f x)"
  by (cases r; cases "snd r") (auto simp: recorded_def)

lemma answer_kind:
  "ask_question m g q s = Some (sl, Answer c) \<Longrightarrow> choice_kind_of c = Some (question_kind q)"
  by (cases q) (auto simp: recorded_Answer record_scry_def record_surveil_def)

subsection \<open>A dialogue played back\<close>

lemma replays_or:
  assumes "has_replay_choice s" "extract (rp_choices s ! rp_index s) = Some x"
  shows "replay_or extract g ask s = quietly g (s\<lparr>rp_index := rp_index s + 1\<rparr>) x"
  using assms by (simp add: replay_or_def consume_replay_choice_def)

text \<open>A question of the kind of the next choice is answered with it.\<close>

lemma question_replayed:
  assumes "has_replay_choice s" "choice_kind_of (rp_choices s ! rp_index s) = Some (question_kind q)"
  shows "ask_question (replay_controller m) g q s
    = Some ((s\<lparr>rp_index := rp_index s + 1\<rparr>, gs_logger g), Answer (rp_choices s ! rp_index s))"
  using assms
  by (cases q; cases "rp_choices s ! rp_index s")
    (simp_all add: replay_controller_def replays_or quietly_def recorded_def record_scry_def record_surveil_def
      replay_targets_def consume_replay_choice_def)

lemma dialogue_replayed:
  "list_all2 (\<lambda>c (g, q). choice_kind_of c = Some (question_kind q)) (drop (rp_index s) (rp_choices s)) qs
    \<Longrightarrow> dialogue (replay_controller m) qs s
      = Some (s\<lparr>rp_index := rp_index s + length qs\<rparr>, drop (rp_index s) (rp_choices s))"
proof (induction qs arbitrary: s)
  case (Cons gq qs)
  obtain g q where gq: "gq = (g, q)" by force
  have more: "rp_index s < length (rp_choices s)"
    using Cons.prems by (cases "drop (rp_index s) (rp_choices s)") (auto simp: not_le [symmetric])
  then have d: "drop (rp_index s) (rp_choices s) = rp_choices s ! rp_index s # drop (Suc (rp_index s)) (rp_choices s)"
    by (simp add: Cons_nth_drop_Suc)
  let ?t = "s\<lparr>rp_index := Suc (rp_index s)\<rparr>"
  have "ask_question (replay_controller m) g q s = Some ((?t, gs_logger g), Answer (rp_choices s ! rp_index s))"
    using question_replayed [of s q m g] more Cons.prems by (simp add: has_replay_choice_def d gq)
  moreover have "dialogue (replay_controller m) qs ?t = Some (?t\<lparr>rp_index := rp_index ?t + length qs\<rparr>,
      drop (rp_index ?t) (rp_choices ?t))"
    by (rule Cons.IH) (use Cons.prems d in simp)
  ultimately show ?case by (simp add: gq d)
qed simp

lemma dialogue_kinds:
  "dialogue m qs s = Some (s1, cs) \<Longrightarrow> list_all2 (\<lambda>c (g, q). choice_kind_of c = Some (question_kind q)) cs qs"
proof (induction qs arbitrary: s cs)
  case (Cons gq qs)
  obtain g q where gq: "gq = (g, q)" by force
  obtain s2 lg c cs' where "ask_question m g q s = Some ((s2, lg), Answer c)" "dialogue m qs s2 = Some (s1, cs')" "cs = c # cs'"
    using Cons.prems gq by (auto split: option.splits prod.splits answer.splits)
  then show ?case using Cons.IH answer_kind gq by fastforce
qed simp

text \<open>After the last choice the questions go to the wrapped controller.\<close>

lemma question_delegated:
  "\<not> has_replay_choice s \<Longrightarrow> ask_question (replay_controller m) g q s
    = map_option (rewrap s) (ask_question m g q (rp_inner s))"
  by (cases q) (simp_all add: replay_controller_def replay_or_def consume_replay_choice_def replay_targets_def
      recorded_def rewrap_def option.map_comp comp_def case_prod_beta)

end
