(* ===== verification/ScriptFacts.thy ===== *)
theory ScriptFacts
  imports Controllers
begin

section \<open>How a script finds targets\<close>

text \<open>
  The search for an unused index goes round the options: it returns exactly when one is unused, and what
  it returns is unused. Picking several indices returns exactly when there are enough of them.
\<close>

lemma free_index_unused:
  assumes "free_index n used i = Some j" "i < n"
  shows "j < n \<and> j \<notin> set used"
proof -
  have "i < n \<longrightarrow> j < n \<and> j \<notin> set used"
    by (rule free_index.raw_induct [OF _ assms(1)]) (auto split: if_splits)
  then show ?thesis using assms(2) by blast
qed

lemma free_index_after: "i < n \<Longrightarrow> (i + d) mod n \<notin> set used \<Longrightarrow> free_index n used i \<noteq> None"
proof (induction d arbitrary: i)
  case 0
  then show ?case by (subst free_index.simps) simp
next
  case (Suc d)
  have "((i + 1) mod n + d) mod n \<notin> set used" using Suc.prems(2) by (simp add: mod_simps ac_simps)
  moreover have "(i + 1) mod n < n" using Suc.prems(1) by simp
  ultimately have "free_index n used ((i + 1) mod n) \<noteq> None" by (rule Suc.IH [rotated])
  then show ?case by (subst free_index.simps) simp
qed

lemma free_index_returns: "i < n \<Longrightarrow> j < n \<Longrightarrow> j \<notin> set used \<Longrightarrow> free_index n used i \<noteq> None"
  by (rule free_index_after [of i n "j + n - i"]) simp_all

text \<open>A list of distinct indices that is full leaves none.\<close>

lemma free_index_iff:
  assumes "i < n" "distinct used" "set used \<subseteq> {..<n}"
  shows "free_index n used i \<noteq> None \<longleftrightarrow> length used < n"
proof
  assume "length used < n"
  then have "card (set used) < card {..<n}" using assms(2) by (simp add: distinct_card)
  then obtain j where "j < n" "j \<notin> set used" using assms(3) by (metis lessThan_iff psubset_eq subsetI subset_antisym card_mono finite_lessThan not_le card.infinite less_irrefl)
  then show "free_index n used i \<noteq> None" by (rule free_index_returns [OF assms(1)])
next
  assume "free_index n used i \<noteq> None"
  then obtain j where j: "j < n" "j \<notin> set used" using free_index_unused [OF _ assms(1)] by blast
  then have "set used \<subset> {..<n}" using assms(3) by blast
  then have "card (set used) < n" using psubset_card_mono [of "{..<n}"] by simp
  then show "length used < n" using assms(2) by (simp add: distinct_card)
qed

lemma pick_indices_returns:
  "\<lbrakk>0 < n; distinct used; set used \<subseteq> {..<n}\<rbrakk> \<Longrightarrow> pick_indices say k n used lg s \<noteq> None \<longleftrightarrow> k = 0 \<or> length used + k \<le> n"
proof (induction k arbitrary: used lg s)
  case (Suc k)
  obtain s1 raw where c: "next_choice s = (s1, raw)" by force
  have below: "min raw (n - 1) < n" using Suc.prems(1) by simp
  show ?case
  proof (cases "free_index n used (min raw (n - 1))")
    case None
    then have "n \<le> length used" using free_index_iff [OF below Suc.prems(2,3)] by simp
    then show ?thesis using None c by simp
  next
    case (Some i)
    note i = free_index_unused [OF Some below]
    have "length used < n" using free_index_iff [OF below Suc.prems(2,3)] Some by simp
    moreover have "pick_indices say k n (used @ [i]) (say i lg) s1 \<noteq> None \<longleftrightarrow> k = 0 \<or> length (used @ [i]) + k \<le> n"
      by (rule Suc.IH) (use Suc.prems i in auto)
    ultimately show ?thesis using Some c by auto
  qed
qed simp

lemma pick_indices_result:
  "\<lbrakk>0 < n; distinct used; set used \<subseteq> {..<n}; pick_indices say k n used lg s = Some (s', lg', used')\<rbrakk>
    \<Longrightarrow> distinct used' \<and> set used' \<subseteq> {..<n} \<and> length used' = length used + k"
proof (induction k arbitrary: used lg s)
  case (Suc k)
  obtain s1 raw where c: "next_choice s = (s1, raw)" by force
  have below: "min raw (n - 1) < n" using Suc.prems(1) by simp
  obtain i where i: "free_index n used (min raw (n - 1)) = Some i"
    "pick_indices say k n (used @ [i]) (say i lg) s1 = Some (s', lg', used')"
    using Suc.prems(4) c by (auto split: option.splits)
  have "i < n \<and> i \<notin> set used" by (rule free_index_unused [OF i(1) below])
  then have "distinct used' \<and> set used' \<subseteq> {..<n} \<and> length used' = length (used @ [i]) + k"
    by (intro Suc.IH [OF Suc.prems(1) _ _ i(2)]) (use Suc.prems in auto)
  then show ?case by simp
qed simp

lemma picked_targets_returns: "picked_targets valid r = None \<longleftrightarrow> r = None"
  by (simp add: picked_targets_def)

text \<open>Targets at distinct positions.\<close>

definition targets_at_distinct :: "card_id list \<Rightarrow> nat \<Rightarrow> card_id list \<Rightarrow> bool" where
  "targets_at_distinct valid k ts \<longleftrightarrow>
     (\<exists>is. distinct is \<and> set is \<subseteq> {..<length valid} \<and> ts = map ((!) valid) is \<and> length is = k)"

lemma picked_targets_distinct:
  assumes "valid \<noteq> []" "picked_targets valid (pick_indices say k (length valid) [] lg s) = Some (sl, a)"
  shows "\<exists>ts. a = Answer ts \<and> targets_at_distinct valid k ts"
proof -
  obtain s' lg' used where u: "pick_indices say k (length valid) [] lg s = Some (s', lg', used)" "a = Answer (map ((!) valid) used)"
    using assms(2) by (auto simp: picked_targets_def)
  have "distinct used \<and> set used \<subseteq> {..<length valid} \<and> length used = k"
    using pick_indices_result [of "length valid" "[]", OF _ _ _ u(1)] assms(1) by auto
  then show ?thesis using u(2) by (auto simp: targets_at_distinct_def)
qed

end
