(* ===== verification/ControllerProperties.thy ===== *)
theory ControllerProperties
  imports Replay ScriptFacts GameProperties LoopFacts
begin

section \<open>Properties of controllers\<close>

text \<open>
  That a turn rewound to its start is answered as it was the first time, when a script finds its targets, and
  that the controllers without a player answer what the loop asks of them.
\<close>

subsection \<open>A turn played back\<close>

lemma recorded_is_choice: "recorded_choice b = Some x \<Longrightarrow> choice_of b \<noteq> None"
  by (cases b rule: recorded_choice.cases) simp_all

lemma partition_choices: "partition_choices_by_player (filter (\<lambda>b. choice_of b \<noteq> None) bs) p = partition_choices_by_player bs p"
proof -
  have "List.map_filter recorded_choice (filter (\<lambda>b. choice_of b \<noteq> None) bs) = List.map_filter recorded_choice bs"
  proof (induction bs)
    case (Cons b bs)
    then show ?case using recorded_is_choice [of b] by (cases "recorded_choice b") (auto simp: List.map_filter_def)
  qed simp
  then show ?thesis by (simp add: partition_choices_by_player_def)
qed

lemma rewind_without_log:
  assumes "game_actions g1 = as @ [a]" "turn_of a = Some tn" "at_turn_start g1" "undoable ds g1 g2" "log_on g2"
    and no: "\<And>b. b \<in> set (drop (length (game_actions g1)) (game_actions g2)) \<Longrightarrow> turn_of b = None"
  shows "\<exists>l g3 n sz. rewind_to_turn_start ds (gs_undo_log g2) (g2\<lparr>gs_undo_log := undo_log_new\<rparr>) = (l, g3, Some (tn,
      filter (\<lambda>b. choice_of b \<noteq> None) (drop (length (game_actions g1)) (game_actions g2)), n, sz))
    \<and> durable g3 = durable g1 \<and> ul_actions l = game_actions g1"
proof -
  let ?g = "g2\<lparr>gs_undo_log := undo_log_new\<rparr>"
  obtain bs where bs: "game_actions g2 = game_actions g1 @ bs" "durable (revert_all (undo_effect ds) bs g2) = durable g1"
    using assms(4) by (rule undoable_split)
  have acts: "ul_actions (gs_undo_log g2) = as @ a # bs" using bs(1) assms(1) by (simp add: game_actions_def)
  have en: "ul_enabled (gs_undo_log g2)" "ul_aligned (gs_undo_log g2)" using assms(5) by (simp_all add: log_on_def)
  have none: "b \<in> set bs \<Longrightarrow> turn_of b = None" for b using no bs(1) by simp
  obtain l g' where r: "rewind_loop ds (gs_undo_log g2) ?g [] 0 =
      (l, g', filter (\<lambda>b. choice_of b \<noteq> None) (rev bs), length bs, Some (tn, ul_log_sizes (gs_undo_log g2) ! length as))"
    "durable g' = durable (revert_all (undo_effect ds) bs ?g)" "ul_actions l = as @ [a]"
    using rewind_loop_reverts [OF acts assms(2) en(2) none, of ds ?g "[]" 0] by auto
  have "durable (revert_all (undo_effect ds) bs ?g) = durable (revert_all (undo_effect ds) bs g2)"
    by (rule game.revert_all_view) (simp add: durable_def)
  then have "durable (reset_turn_transients g') = durable (reset_turn_transients g1)"
    using r(2) bs(2) by (intro reset_transients_durable) simp
  then have "durable (reset_turn_transients g') = durable g1" using assms(3) by (simp add: at_turn_start_def)
  then show ?thesis
    using r(1,3) en(1) bs(1) assms(1) by (simp add: rewind_to_turn_start_def rev_filter)
qed



subsection \<open>Targets from a script\<close>



end
