(* ===== verification/Spec2Isabelle.thy ===== *)
theory Spec2Isabelle
  imports ComponentProperties GameProperties PaymentProperties CostProperties EffectProperties CombatProperties
    RunProperties ControllerProperties
begin

text \<open>
  A verification library for the rules engine of DeepScry, the Rust crate \<open>mtg-engine\<close>.

  \<^bold>\<open>The program.\<close> The engine plays a card game. A \<open>GameState\<close> (\<open>game/state.rs\<close>) holds the cards in a
  write-once entity store, the players, the ordered zones, the combat and turn structure, the
  delayed triggers and persistent effects, a cache of mana sources per player, a log buffer and an
  undo log. Its operations change these parts and append to the undo log (\<open>undo.rs\<close>) an action that
  reverses the change; rewinding pops the log and reverses each action, which is how the engine
  replays and how network shadows resynchronise. The single most important contract of this code
  is therefore that what an operation does, its logged actions take back.

  \<^bold>\<open>The theories.\<close> Paths are relative to \<open>mtg-engine/src\<close>.
  \<^item> \<open>Prelude\<close>: lemma collections, lists with positions, saturating words, number printing.
  \<^item> \<open>Mana\<close> (\<open>core/mana.rs\<close>), \<open>Zones\<close> (\<open>zones.rs\<close>), \<open>Phase\<close> (\<open>game/phase.rs\<close>), \<open>Keywords\<close>
    (\<open>core/keyword_set.rs\<close>), \<open>ManaProduction\<close> (\<open>game/mana_colors.rs\<close>, \<open>core/mana_production.rs\<close>),
    \<open>Counters\<close> (\<open>core/types.rs\<close>), \<open>Costs\<close> (\<open>core/costs.rs\<close>), \<open>Prevention\<close> (\<open>core/prevention.rs\<close>),
    \<open>Player\<close> (\<open>core/player.rs\<close>), \<open>Combat\<close> (\<open>game/combat.rs\<close>): the data, one definition per method.
  \<^item> \<open>Entity\<close> (\<open>core/entity.rs\<close>): the store; the locales \<open>entity_map\<close> and \<open>write_once_map\<close> state
    the laws its clients use and are interpreted on it.
  \<^item> \<open>IdStore\<close>: the locale of the stores keyed by an id they hand out, interpreted by
    \<open>DelayedTriggers\<close> (\<open>core/delayed_trigger.rs\<close>) and \<open>PersistentEffects\<close>
    (\<open>core/persistent_effect.rs\<close>); \<open>SetLike\<close>: the locale of the colour set.
  \<^item> \<open>CardData\<close> and \<open>Card\<close> (\<open>core/card.rs\<close>, part of \<open>core/effects.rs\<close> and \<open>loader/card.rs\<close>).
  \<^item> \<open>ManaCache\<close> (\<open>game/mana_source_cache.rs\<close>): the cache, the board it stands for and the histories
    of one cache.
  \<^item> \<open>Logger\<close> (\<open>game/logger.rs\<close>), \<open>GameAction\<close> (the data of \<open>undo.rs\<close>), \<open>GameState\<close>
    (\<open>game/state.rs\<close>), \<open>Undo\<close> (\<open>GameAction::undo\<close>, every arm).
  \<^item> \<open>Journal\<close>: the locale of a state with a view, a list of actions and a reversal; \<open>Undo\<close>
    interprets it on the game, the view being the durable part of the state (without the log
    buffer, the undo log, the caches and the version counter).
  \<^item> \<open>StateOps\<close>, \<open>ZoneOps\<close>: the operations of \<open>game/state.rs\<close> on one permanent and on the zones, each
    shown to be reversible for that journal.
  \<^item> \<open>MoveCard\<close> (\<open>move_card\<close> in its stages) and \<open>DelayedFire\<close> (\<open>fire_delayed_trigger\<close>, spell copies, and
    the recursion between a move and the triggers it fires); \<open>MoveZones\<close> shows that a move conserves
    the cards of all zones, \<open>MoveUndo\<close> that the moves whose every write is logged are reversible.
  \<^item> \<open>Turn\<close> (\<open>cleanup_temporary_effects\<close>, \<open>advance_step\<close>) and \<open>Rewind\<close> (\<open>GameState::undo\<close>,
    \<open>undo_to_previous_choice_point\<close>, \<open>UndoLog::rewind_to_turn_start\<close>).
  \<^item> \<open>LoggedRuns\<close>: the step relation of all operations that log every durable write, and its runs.
  \<^item> \<open>ManaPayment\<close> (\<open>game/mana_payment/mod.rs\<close>): the bounds check and the two resolvers, against a
    specification of what a set of tapped sources pays; \<open>ManaEngine\<close> (\<open>game/mana_engine.rs\<close>): the engine
    over the source cache, its fallback and verification scans and its queries.
  \<^item> \<open>CostPayment\<close> (\<open>game/mana_payment/payment_execution.rs\<close>): tapping for mana, paying by tapping and the
    costs of activated abilities, with the state a failure leaves; \<open>CostFacts\<close>: what the log takes back of
    a payment, what Waterbend uses up, and that a resolved tap order fills the pool.
  \<^item> \<open>Statics\<close> (the static abilities of \<open>core/effects.rs\<close>), \<open>ContinuousEffects\<close>
    (\<open>game/continuous_effects.rs\<close> with its helpers in \<open>game/actions/mod.rs\<close> and \<open>game/state.rs\<close>): granted
    keywords and abilities and the layers of power and toughness; \<open>Layers\<close> relates the selector
    matches, sums up the layers, and shows which boards end the scan for keywords.
  \<^item> \<open>Restriction\<close> and \<open>Targeting\<close> (\<open>TargetRestriction\<close> and \<open>DigFilter\<close> of \<open>core/effects.rs\<close>): the
    restriction with its parser and description, and what it matches.
  \<^item> \<open>Fallible\<close> and \<open>BTree\<close>: computations that may fail, ordered maps and sets.
  \<^item> \<open>Prohibitions\<close> (the prohibition queries of \<open>game/state.rs\<close>), \<open>CombatRules\<close>
    (\<open>game/combat_rules.rs\<close>, the declarations of \<open>game/actions/combat.rs\<close>, the combat lists of
    \<open>game/game_loop\<close>), \<open>Damage\<close> (the damage functions of \<open>game/actions/mod.rs\<close>), \<open>CombatAssign\<close> and
    \<open>CombatDamage\<close> (the two passes of the combat damage step, \<open>game/actions/combat.rs\<close>),
    \<open>StateBased\<close> (the state-based actions of \<open>game/state.rs\<close>); \<open>AssignFacts\<close> says what an
    assignment spends and that it ends, \<open>DamageFacts\<close> that the damage tables stay consistent.
  \<^item> \<open>Choices\<close> (\<open>core/spell_ability.rs\<close>, the data of \<open>game/replay_controller.rs\<close>): the options of a player and
    the recorded choices; \<open>Dredge\<close> (\<open>game/state.rs\<close>): milling, the two dredges and \<open>draw_card\<close>.
  \<^item> \<open>LoopState\<close>, \<open>LoopSteps\<close>, \<open>LoopCombat\<close>, \<open>GameLoop\<close> and \<open>OpeningHands\<close> (\<open>game/game_loop\<close>,
    \<open>game/stop_condition.rs\<close>, \<open>game/hand_setup.rs\<close>): the state of the loop with its choice points and stop
    conditions, the steps outside and inside combat, the turn, the game, and its set-up. \<open>LoopFacts\<close> says what
    untapping, discarding and cleanup leave, \<open>LoopRuns\<close> that no step touches the count of turns and that a turn
    without a step back follows the schedule, \<open>HandFacts\<close> what dealing moves.
  \<^item> \<open>Controllers\<close> (the trait of \<open>game/controller.rs\<close>, \<open>game/zero_controller.rs\<close>,
    \<open>game/fixed_script_controller.rs\<close>) and \<open>Replay\<close> (\<open>game/replay_controller.rs\<close>): controllers as records of
    methods, the choices of a turn taken from the log, and the controller that plays them back; \<open>ScriptFacts\<close>
    says when the search for targets returns.
  \<^item> \<open>LoopProperties\<close>, \<open>RunProperties\<close>, \<open>ControllerProperties\<close>, \<open>ComponentProperties\<close>, \<open>PaymentProperties\<close>, \<open>CostProperties\<close>, \<open>EffectProperties\<close>,
    \<open>CombatProperties\<close> and \<open>GameProperties\<close>: the properties of the loop, the components and the game.

  \<^bold>\<open>What is shown.\<close> Any run of logged operations is taken back by undoing the actions it logged, undoing
  to a choice point restores the state the choice was made in, and the rewind to the start of the
  turn restores the state the turn began with. Where the code leaves a write unlogged the rules of
  the step relation exclude the case (\<open>covered_move\<close>, \<open>nothing_to_clean\<close>, additional combats, the
  change of turn); two theorems of \<open>GameProperties\<close> state what undo leaves behind in such cases. For combat: the offered
  attackers are the declarable ones, an assignment spends the power and is completed by any chooser
  that names every blocker, a recorded plan replays the step, and the damage tables balance; two
  theorems state where trample and first strike depart from the rules of the game. For mana: the engine
  reads from the cache what a scan of the battlefield finds, and the greedy resolver's promise is kept by
  the execution: tapping in its order, colour by colour after the hint, covers the cost. For the loop: the
  untap and cleanup steps do what the permanents and hand sizes say, a turn follows its schedule and ends, a
  game stays within its limit of turns, the win condition decides by life first, and hands are dealt from the
  top without losing a card. For the controllers: a turn rewound to its start and played back gets the answers it
  had, and a script finds its targets when there are enough of them.

  \<^bold>\<open>Conventions.\<close> Machine integers are words and wrap as in a release build; saturating operations
  are written out. A \<open>HashMap\<close> is a map, a vector a list. Errors are the \<open>Inl\<close> of a sum; a panic of
  the store is an error value. The RNG is its serialised bytes; the shuffle, the loader's parsers,
  death, attack, tap and combat damage triggers and the execution of the effects a fired trigger hands on
  are parameters. A controller is the sequence of its answers; an exhausted one is the code's
  \<open>NeedInput\<close>. The recursion between moves and delayed triggers runs on fuel, since a trigger may
  fire further moves without bound; a move that fires no trigger needs fuel one, and a result
  reached with some fuel is the result for every larger fuel. A scan for granted keywords can ask
  for a granted keyword; its fuel counts the scans within scans, one is enough where no granted
  keyword asks, and where one does no fuel is enough. The loop over the steps and the rounds of a game run on
  fuel too, since a step that undoes past its own start is run again; \<open>OutOfFuel\<close> is no outcome of the
  code. One more than the steps left of a turn is enough when nothing is undone, and one more than the turns
  left for the rounds. What the loop calls and this development does not model (the priority round, the triggers
  of a phase, draw and declaration, sagas, the network callbacks, the controllers) is a field of \<open>loop_env\<close>.

  \<^bold>\<open>Not modelled.\<close> The priority round of the game loop and the triggers its steps check, the
  random, heuristic and interactive controllers, the execution of spell effects, the card loader, serialisation and hashing, the network code and
  the user interfaces. The bodies of triggers, of the static
  abilities no modelled code reads and of effects other than \<open>AddMana\<close> are uninterpreted types.
\<close>

end
